(* ===== verification/H2K_Prelude.thy ===== *)
theory H2K_Prelude
  imports Complex_Main "HOL-Library.AList" "HOL-Library.Sublist"
begin

text \<open>
  Shared base of the development: the Python values the modelled code works on
  (ordered dictionaries, JSON documents, ASCII strings), outcomes of fallible and
  stateful calls, and the generic lemmas on them that the component theories use.

  Conventions.
  \<^item> A \<^verbatim>\<open>dict\<close> is an association list with one entry per key: assignment to an
    existing key keeps its position, a new key goes to the end, as in Python.
  \<^item> A call that may raise returns \<open>'e + 'a\<close> (\<open>Inl\<close> the exception); a call that also
    changes state returns the pair of that outcome and the new state, because Python keeps
    the state changes made before an exception.
  \<^item> Strings are lists of ASCII characters. An instant that the code stores as an ISO-8601
    string is represented by the instant it denotes (\<open>JTime\<close>), so \<^verbatim>\<open>isoformat\<close> and
    \<^verbatim>\<open>fromisoformat\<close> are the constructor and its inverse.
  \<^item> Clock readings are arguments of the operations that read the clock. Log output is not
    modelled.
\<close>

named_theorems dict_simps \<open>lookups after dictionary updates and deletions\<close>
named_theorems inv_intros \<open>preservation of component invariants by operations\<close>

section \<open>Time and outcomes\<close>

type_synonym time = real

type_synonym ('e, 'a, 's) outcome = "('e + 'a) \<times> 's"

definition is_ok :: "'e + 'a \<Rightarrow> bool" where
  "is_ok r = (case r of Inl _ \<Rightarrow> False | Inr _ \<Rightarrow> True)"

lemma is_ok_simps [simp]: "is_ok (Inr x)" "\<not> is_ok (Inl e)"
  by (simp_all add: is_ok_def)

lemma is_okE [elim]: "is_ok r \<Longrightarrow> (\<And>x. r = Inr x \<Longrightarrow> P) \<Longrightarrow> P"
  by (cases r) (auto simp: is_ok_def)

lemma map_sum_Inr: "map_sum f g r = Inr y \<Longrightarrow> (\<And>x. r = Inr x \<Longrightarrow> y = g x \<Longrightarrow> P) \<Longrightarrow> P"
  by (cases r) auto

text \<open>Sequencing of calls that may raise.\<close>

definition sum_bind :: "'e + 'a \<Rightarrow> ('a \<Rightarrow> 'e + 'b) \<Rightarrow> 'e + 'b" where
  "sum_bind r f = (case r of Inl e \<Rightarrow> Inl e | Inr x \<Rightarrow> f x)"

lemma sum_bind_simps [simp]: "sum_bind (Inl e) f = Inl e" "sum_bind (Inr x) f = f x"
  by (simp_all add: sum_bind_def)

lemma sum_bind_Inr_iff: "sum_bind r f = Inr y \<longleftrightarrow> (\<exists>x. r = Inr x \<and> f x = Inr y)"
  by (cases r) auto

lemma sum_bind_cong [fundef_cong]: "r = r' \<Longrightarrow> (\<And>x. r' = Inr x \<Longrightarrow> f x = f' x) \<Longrightarrow> sum_bind r f = sum_bind r' f'"
  by (cases r') auto

fun sum_map :: "('a \<Rightarrow> 'e + 'b) \<Rightarrow> 'a list \<Rightarrow> 'e + 'b list" where
  "sum_map f [] = Inr []"
| "sum_map f (x # xs) = sum_bind (f x) (\<lambda>y. sum_bind (sum_map f xs) (\<lambda>ys. Inr (y # ys)))"

text \<open>Steps that change a state and may raise, and their execution in order.\<close>

type_synonym ('e, 's) step = "'s \<Rightarrow> ('e, unit, 's) outcome"

definition pure_step :: "('s \<Rightarrow> 's) \<Rightarrow> ('e, 's) step" where
  "pure_step f s = (Inr (), f s)"

fun run_steps :: "('e, 's) step list \<Rightarrow> ('e, 's) step" where
  "run_steps [] s = (Inr (), s)"
| "run_steps (f # fs) s = (case f s of (Inl e, s1) \<Rightarrow> (Inl e, s1) | (Inr _, s1) \<Rightarrow> run_steps fs s1)"

lemma run_steps_inv:
  assumes "\<And>f s r s'. f \<in> set fs \<Longrightarrow> I s \<Longrightarrow> f s = (r, s') \<Longrightarrow> I s'"
  shows "I s \<Longrightarrow> run_steps fs s = (r, s') \<Longrightarrow> I s'"
  using assms
proof (induction fs arbitrary: s)
  case (Cons f fs)
  obtain r1 s1 where f: "f s = (r1, s1)" by fastforce
  have i: "I s1" using Cons.prems(3) [of f s r1 s1] Cons.prems(1) f by simp
  show ?case
  proof (cases r1)
    case (Inl e)
    with f i Cons.prems(2) show ?thesis by simp
  next
    case (Inr u)
    with f Cons.prems(2) have "run_steps fs s1 = (r, s')" by simp
    then show ?thesis by (rule Cons.IH [OF i]) (use Cons.prems(3) in auto)
  qed
qed simp

lemma run_steps_ok: "run_steps (f # fs) s = (Inr (), s') \<longleftrightarrow> (\<exists>s1. f s = (Inr (), s1) \<and> run_steps fs s1 = (Inr (), s'))"
  by (auto split: prod.splits sum.splits)

text \<open>Calls that return a value, change a state and may raise, and their composition. The rules for a composition
  that succeeded or raised take it apart.\<close>

type_synonym ('e, 'a, 's) call = "'s \<Rightarrow> ('e, 'a, 's) outcome"

definition call_ret :: "'a \<Rightarrow> ('e, 'a, 's) call" where
  "call_ret x s = (Inr x, s)"

definition call_raise :: "'e \<Rightarrow> ('e, 'a, 's) call" where
  "call_raise e s = (Inl e, s)"

definition call_lift :: "('s \<Rightarrow> 'e + 'a) \<Rightarrow> ('e, 'a, 's) call" where
  "call_lift f s = (f s, s)"

definition call_bind :: "('e, 'a, 's) call \<Rightarrow> ('a \<Rightarrow> ('e, 'b, 's) call) \<Rightarrow> ('e, 'b, 's) call" where
  "call_bind f g s = (case f s of (Inl e, s1) \<Rightarrow> (Inl e, s1) | (Inr x, s1) \<Rightarrow> g x s1)"

lemma call_simps [simp]: "call_ret x s = (Inr x, s)" "call_raise e s = (Inl e, s)" "call_lift f s = (f s, s)"
  by (simp_all add: call_ret_def call_raise_def call_lift_def)

lemma call_bind_Inr: "call_bind f g s = (Inr y, s') \<longleftrightarrow> (\<exists>x s1. f s = (Inr x, s1) \<and> g x s1 = (Inr y, s'))"
  by (auto simp: call_bind_def split: prod.splits sum.splits)

lemma call_bind_raised:
  "f s = (Inl e, s1) \<Longrightarrow> call_bind f g s = (Inl e, s1)" "f s = (Inr x, s1) \<Longrightarrow> call_bind f g s = g x s1"
  by (simp_all add: call_bind_def)

lemma call_bind_inv:
  assumes "\<And>s r s'. I s \<Longrightarrow> f s = (r, s') \<Longrightarrow> I s'" and "\<And>x s r s'. I s \<Longrightarrow> g x s = (r, s') \<Longrightarrow> I s'"
  shows "I s \<Longrightarrow> call_bind f g s = (r, s') \<Longrightarrow> I s'"
proof -
  assume i: "I s" and b: "call_bind f g s = (r, s')"
  obtain r1 s1 where f: "f s = (r1, s1)" by fastforce
  from assms(1) [OF i f] have i1: "I s1" .
  show "I s'"
  proof (cases r1)
    case (Inl e)
    with b f i1 show ?thesis by (simp add: call_bind_def)
  next
    case (Inr x)
    with b f have "g x s1 = (r, s')" by (simp add: call_bind_def)
    with assms(2) [OF i1] show ?thesis by blast
  qed
qed

section \<open>Dictionaries\<close>

type_synonym ('k, 'v) dict = "('k \<times> 'v) list"

abbreviation dict_get :: "('k, 'v) dict \<Rightarrow> 'k \<Rightarrow> 'v option" where
  "dict_get d k \<equiv> map_of d k"

abbreviation dict_set :: "'k \<Rightarrow> 'v \<Rightarrow> ('k, 'v) dict \<Rightarrow> ('k, 'v) dict" where
  "dict_set \<equiv> AList.update"

abbreviation dict_pop :: "'k \<Rightarrow> ('k, 'v) dict \<Rightarrow> ('k, 'v) dict" where
  "dict_pop \<equiv> AList.delete"

definition dict_has :: "('k, 'v) dict \<Rightarrow> 'k \<Rightarrow> bool" where
  "dict_has d k = (map_of d k \<noteq> None)"

definition dict_keys :: "('k, 'v) dict \<Rightarrow> 'k list" where
  "dict_keys d = map fst d"

definition dict_values :: "('k, 'v) dict \<Rightarrow> 'v list" where
  "dict_values d = map snd d"

definition dict_ok :: "('k, 'v) dict \<Rightarrow> bool" where
  "dict_ok d = distinct (map fst d)"

lemma dict_get_set [dict_simps, simp]:
  "dict_get (dict_set k v d) k' = (if k' = k then Some v else dict_get d k')"
  by (simp add: update_conv')

lemma dict_get_pop [dict_simps, simp]:
  "dict_get (dict_pop k d) k' = (if k' = k then None else dict_get d k')"
  by (simp add: delete_conv')

lemma dict_has_iff: "dict_has d k \<longleftrightarrow> k \<in> fst ` set d"
  by (simp add: dict_has_def map_of_eq_None_iff)

lemma dict_has_set [dict_simps, simp]:
  "dict_has (dict_set k v d) k' = (k' = k \<or> dict_has d k')"
  by (simp add: dict_has_def)

lemma dict_has_pop [dict_simps, simp]:
  "dict_has (dict_pop k d) k' = (k' \<noteq> k \<and> dict_has d k')"
  by (simp add: dict_has_def)

lemma dict_ok_set [inv_intros, simp, intro]: "dict_ok d \<Longrightarrow> dict_ok (dict_set k v d)"
  by (simp add: dict_ok_def distinct_update)

lemma dict_ok_pop [inv_intros, simp, intro]: "dict_ok d \<Longrightarrow> dict_ok (dict_pop k d)"
  by (simp add: dict_ok_def distinct_delete)

lemma dict_ok_Nil [simp]: "dict_ok []"
  by (simp add: dict_ok_def)

lemma dict_set_fresh: "\<not> dict_has d k \<Longrightarrow> dict_set k v d = d @ [(k, v)]"
  by (induction d) (auto simp: dict_has_def split: if_splits)

lemma dict_set_same: "map_of d k = Some v \<Longrightarrow> dict_set k v d = d"
  by (induction d) (auto split: if_splits)

lemma dict_keys_set:
  "dict_keys (dict_set k v d) = (if dict_has d k then dict_keys d else dict_keys d @ [k])"
  by (simp add: dict_keys_def dict_has_iff update_keys)

lemma dict_get_in_values: "dict_get d k = Some v \<Longrightarrow> v \<in> set (dict_values d)"
  by (force simp: dict_values_def dest: map_of_SomeD)

lemma dict_in_values_get:
  "dict_ok d \<Longrightarrow> v \<in> set (dict_values d) \<Longrightarrow> \<exists>k. dict_get d k = Some v"
  by (auto simp: dict_values_def dict_ok_def)

section \<open>JSON documents\<close>

datatype json =
    JNull
  | JBool bool
  | JInt int
  | JNum real
  | JStr string
  | JTime time \<comment> \<open>the ISO-8601 string of an instant\<close>
  | JList "json list"
  | JObj "(string \<times> json) list"

text \<open>Subscription of a parsed document: a missing key is a KeyError, a document that is not
  an object a TypeError.\<close>

datatype py_exc =
    KeyError string
  | ValueError string
  | TypeError string
  | AttributeError string
  | RuntimeError string
  | FileNotFoundError string
  | ImportError string
  | OtherError string \<comment> \<open>any other exception class, with its message\<close>

text \<open>\<^verbatim>\<open>str(e)\<close> and the name of its class.\<close>

fun exc_text :: "py_exc \<Rightarrow> string" where
  "exc_text (KeyError k) = [CHR 0x27] @ k @ [CHR 0x27]"
| "exc_text (ValueError m) = m"
| "exc_text (TypeError m) = m"
| "exc_text (AttributeError m) = m"
| "exc_text (RuntimeError m) = m"
| "exc_text (FileNotFoundError m) = m"
| "exc_text (ImportError m) = m"
| "exc_text (OtherError m) = m"

fun exc_class :: "py_exc \<Rightarrow> string" where
  "exc_class (KeyError _) = ''KeyError''"
| "exc_class (ValueError _) = ''ValueError''"
| "exc_class (TypeError _) = ''TypeError''"
| "exc_class (AttributeError _) = ''AttributeError''"
| "exc_class (RuntimeError _) = ''RuntimeError''"
| "exc_class (FileNotFoundError _) = ''FileNotFoundError''"
| "exc_class (ImportError _) = ''ImportError''"
| "exc_class (OtherError _) = ''Exception''"

fun json_item :: "json \<Rightarrow> string \<Rightarrow> py_exc + json" where
  "json_item (JObj fs) k = (case map_of fs k of None \<Rightarrow> Inl (KeyError k) | Some v \<Rightarrow> Inr v)"
| "json_item _ k = Inl (TypeError k)"

fun json_get :: "json \<Rightarrow> string \<Rightarrow> json \<Rightarrow> json" where
  "json_get (JObj fs) k d = (case map_of fs k of None \<Rightarrow> d | Some v \<Rightarrow> v)"
| "json_get _ k d = d"

text \<open>\<^verbatim>\<open>isinstance(v, int)\<close> holds of booleans too, which count as 0 and 1.\<close>

fun as_int :: "json \<Rightarrow> int option" where
  "as_int (JInt i) = Some i"
| "as_int (JBool b) = Some (if b then 1 else 0)"
| "as_int _ = None"

fun as_dict :: "json \<Rightarrow> (string \<times> json) list option" where
  "as_dict (JObj fs) = Some fs"
| "as_dict _ = None"

fun as_bool :: "json \<Rightarrow> bool option" where
  "as_bool (JBool b) = Some b"
| "as_bool _ = None"

fun truthy :: "json \<Rightarrow> bool" where
  "truthy JNull = False"
| "truthy (JBool b) = b"
| "truthy (JInt i) = (i \<noteq> 0)"
| "truthy (JNum x) = (x \<noteq> 0)"
| "truthy (JStr s) = (s \<noteq> [])"
| "truthy (JTime t) = True"
| "truthy (JList xs) = (xs \<noteq> [])"
| "truthy (JObj fs) = (fs \<noteq> [])"

text \<open>A file that the code reads with \<^verbatim>\<open>json.load\<close>: a document, or text that does not
  parse.\<close>

datatype disk_file = JsonDoc json | NotJson

section \<open>Python strings\<close>

definition ws_chars :: string where
  "ws_chars = [CHR 0x09, CHR 0x0A, CHR 0x0B, CHR 0x0C, CHR 0x0D,
               CHR 0x1C, CHR 0x1D, CHR 0x1E, CHR 0x1F, CHR '' '']"

definition py_isspace :: "char \<Rightarrow> bool" where
  "py_isspace c = (c \<in> set ws_chars)"

definition digit_chars :: string where
  "digit_chars = ''0123456789''"

definition py_isdigit :: "char \<Rightarrow> bool" where
  "py_isdigit c = (c \<in> set digit_chars)"

definition lower_chars :: string where
  "lower_chars = ''abcdefghijklmnopqrstuvwxyz''"

definition upper_chars :: string where
  "upper_chars = ''ABCDEFGHIJKLMNOPQRSTUVWXYZ''"

text \<open>The class \<^verbatim>\<open>\w\<close> of regular expressions.\<close>

definition py_isword :: "char \<Rightarrow> bool" where
  "py_isword c = (c \<in> set digit_chars \<or> c \<in> set lower_chars \<or> c \<in> set upper_chars \<or> c = CHR ''_'')"

definition lstrip :: "string \<Rightarrow> string" where
  "lstrip s = dropWhile py_isspace s"

definition rstrip :: "string \<Rightarrow> string" where
  "rstrip s = rev (dropWhile py_isspace (rev s))"

definition strip :: "string \<Rightarrow> string" where
  "strip s = rstrip (lstrip s)"

definition startswith :: "string \<Rightarrow> string \<Rightarrow> bool" where
  "startswith s p = prefix p s"

definition endswith :: "string \<Rightarrow> string \<Rightarrow> bool" where
  "endswith s p = suffix p s"

definition upper_char :: "char \<Rightarrow> char" where
  "upper_char c = (case map_of (zip lower_chars upper_chars) c of None \<Rightarrow> c | Some u \<Rightarrow> u)"

definition lower_char :: "char \<Rightarrow> char" where
  "lower_char c = (case map_of (zip upper_chars lower_chars) c of None \<Rightarrow> c | Some l \<Rightarrow> l)"

definition py_upper :: "string \<Rightarrow> string" where
  "py_upper s = map upper_char s"

definition py_lower :: "string \<Rightarrow> string" where
  "py_lower s = map lower_char s"

text \<open>\<^verbatim>\<open>sub in s\<close>\<close>

fun contains :: "string \<Rightarrow> string \<Rightarrow> bool" where
  "contains sub [] = (sub = [])"
| "contains sub (c # cs) = (prefix sub (c # cs) \<or> contains sub cs)"

text \<open>\<^verbatim>\<open>s.split(sep, 1)\<close> at the first occurrence of a non-empty separator.\<close>

fun split_once :: "string \<Rightarrow> string \<Rightarrow> (string \<times> string) option" where
  "split_once sep [] = (if sep = [] then Some ([], []) else None)"
| "split_once sep (c # cs) =
     (if prefix sep (c # cs) then Some ([], drop (length sep) (c # cs))
      else map_option (\<lambda>(a, b). (c # a, b)) (split_once sep cs))"

lemma split_once_Some: "split_once sep s = Some (a, b) \<Longrightarrow> s = a @ sep @ b"
proof (induction sep s arbitrary: a rule: split_once.induct)
  case (2 sep c cs)
  show ?case
  proof (cases "prefix sep (c # cs)")
    case True
    with "2.prems" show ?thesis by (auto simp: prefix_def)
  next
    case False
    with 2 show ?thesis by (auto split: option.splits)
  qed
qed (auto split: if_splits)

lemma contains_iff: "contains sub s \<longleftrightarrow> (\<exists>a b. s = a @ sub @ b)"
proof (induction sub s rule: contains.induct)
  case (2 sub c cs)
  show ?case
  proof
    assume "contains sub (c # cs)"
    then show "\<exists>a b. c # cs = a @ sub @ b"
      using 2 by (auto elim!: prefixE intro: exI [of _ "[]"] exI [of _ "c # _"])
        (metis append_Cons)
  next
    assume "\<exists>a b. c # cs = a @ sub @ b"
    then show "contains sub (c # cs)"
      using 2 by (auto simp: prefix_def Cons_eq_append_conv)
  qed
qed auto

text \<open>\<^verbatim>\<open>s.replace(old, new)\<close> for a non-empty \<^verbatim>\<open>old\<close>: occurrences from the left, not overlapping.\<close>

function replace_all :: "string \<Rightarrow> string \<Rightarrow> string \<Rightarrow> string" where
  "replace_all old new [] = []"
| "replace_all old new (c # cs) =
     (if old \<noteq> [] \<and> prefix old (c # cs)
      then new @ replace_all old new (drop (length old) (c # cs))
      else c # replace_all old new cs)"
  by pat_completeness auto
termination
  by (relation "measure (\<lambda>(old, new, s). length s)") auto

lemma replace_all_absent: "\<not> contains old s \<Longrightarrow> replace_all old new s = s"
  by (induction s) auto

lemma strip_Nil [simp]: "strip [] = []" "lstrip [] = []" "rstrip [] = []"
  by (simp_all add: strip_def lstrip_def rstrip_def)

lemma rstrip_snoc: "rstrip (s @ [c]) = (if py_isspace c then rstrip s else s @ [c])"
  by (simp add: rstrip_def)

lemma lstrip_Cons: "lstrip (c # s) = (if py_isspace c then lstrip s else c # s)"
  by (simp add: lstrip_def)

lemma lstrip_idem [simp]: "lstrip (lstrip s) = lstrip s"
  by (simp add: lstrip_def)

lemma length_upper [simp]: "length (py_upper s) = length s"
  by (simp add: py_upper_def)

lemma lower_char_space [simp]: "py_isspace (lower_char c) = py_isspace c"
proof (cases "map_of (zip upper_chars lower_chars) c")
  case (Some l)
  then have "c \<in> set upper_chars" "l \<in> set lower_chars" by (auto dest!: map_of_SomeD in_set_zipE)
  moreover have "\<forall>x\<in>set upper_chars. \<not> py_isspace x" "\<forall>x\<in>set lower_chars. \<not> py_isspace x" by code_simp+
  ultimately show ?thesis using Some by (simp add: lower_char_def)
qed (simp add: lower_char_def)

lemma lower_char_idem [simp]: "lower_char (lower_char c) = lower_char c"
proof (cases "map_of (zip upper_chars lower_chars) c")
  case (Some l)
  then have "l \<in> set lower_chars" by (auto dest!: map_of_SomeD in_set_zipE)
  moreover have "\<forall>x\<in>set lower_chars. lower_char x = x" by code_simp
  ultimately show ?thesis using Some by (simp add: lower_char_def)
qed (simp add: lower_char_def)

lemma lower_lstrip: "lstrip (py_lower s) = py_lower (lstrip s)"
  by (simp add: lstrip_def py_lower_def dropWhile_map comp_def)

lemma lower_rstrip: "rstrip (py_lower s) = py_lower (rstrip s)"
  by (simp add: rstrip_def py_lower_def rev_map dropWhile_map comp_def)

lemma lower_strip: "strip (py_lower s) = py_lower (strip s)"
  by (simp add: strip_def lower_lstrip lower_rstrip)

lemma strip_idem [simp]: "strip (strip s) = strip s"
proof -
  have "lstrip (rstrip (lstrip s)) = rstrip (lstrip s)"
  proof (cases "lstrip s")
    case (Cons c cs)
    then have "\<not> py_isspace c" by (metis lstrip_def hd_dropWhile list.discI list.sel(1))
    then have "\<exists>r. rstrip (c # cs) = c # r"
      by (intro exI [of _ "rev (dropWhile py_isspace (rev cs))"]) (auto simp: rstrip_def dropWhile_append)
    with Cons \<open>\<not> py_isspace c\<close> show ?thesis by (auto simp: lstrip_Cons)
  qed simp
  then show ?thesis by (simp add: strip_def rstrip_def)
qed

lemma lower_idem [simp]: "py_lower (py_lower s) = py_lower s"
  by (simp add: py_lower_def)

section \<open>Paths\<close>

text \<open>\<^verbatim>\<open>pathlib\<close> on normalised paths: \<^verbatim>\<open>name\<close> is the last component,
  \<^verbatim>\<open>suffix\<close> its part from the last dot, when that dot is neither its first nor its last
  character.\<close>

definition path_join :: "string \<Rightarrow> string \<Rightarrow> string" where
  "path_join d n = d @ ''/'' @ n"

definition path_name :: "string \<Rightarrow> string" where
  "path_name p = rev (takeWhile (\<lambda>c. c \<noteq> CHR ''/'') (rev p))"

definition path_parent :: "string \<Rightarrow> string" where
  "path_parent p = (let d = rev (dropWhile (\<lambda>c. c \<noteq> CHR ''/'') (rev p))
     in if d = [] then ''.'' else if d = ''/'' then ''/'' else butlast d)"

definition path_suffix :: "string \<Rightarrow> string" where
  "path_suffix p =
     (let n = path_name p; ext = takeWhile (\<lambda>c. c \<noteq> CHR ''.'') (rev n);
          i = length n - length ext - 1
      in if length ext < length n \<and> 0 < i \<and> ext \<noteq> [] then drop i n else [])"

definition path_stem :: "string \<Rightarrow> string" where
  "path_stem p = (let n = path_name p in take (length n - length (path_suffix p)) n)"

definition with_suffix :: "string \<Rightarrow> string \<Rightarrow> string" where
  "with_suffix p s = take (length p - length (path_suffix p)) p @ s"

lemma suffix_takeWhile_rev: "suffix (rev (takeWhile P (rev xs))) xs"
  by (metis rev_append rev_rev_ident suffix_def takeWhile_dropWhile_id)

lemma path_suffix_suffix: "suffix (path_suffix p) p"
proof -
  have "suffix (path_name p) p" unfolding path_name_def by (rule suffix_takeWhile_rev)
  then show ?thesis
    by (auto simp: path_suffix_def Let_def intro: suffix_order.trans suffix_drop)
qed

text \<open>Appending to the suffix is appending to the path.\<close>

lemma with_suffix_append: "with_suffix p (path_suffix p @ s) = p @ s"
proof -
  obtain zs where p: "p = zs @ path_suffix p" using path_suffix_suffix [of p] by (auto elim: suffixE)
  then have "length p = length zs + length (path_suffix p)" by (metis length_append)
  moreover have "take (length zs) p = zs" using p by (metis append_eq_conv_conj)
  ultimately have "with_suffix p (path_suffix p @ s) = (zs @ path_suffix p) @ s" by (simp add: with_suffix_def)
  with p show ?thesis by simp
qed

section \<open>Generic list lemmas\<close>

lemma find_Some_set: "find P xs = Some x \<Longrightarrow> x \<in> set xs \<and> P x"
  by (auto simp: find_Some_iff)

lemma find_append: "find P (xs @ ys) = (case find P xs of None \<Rightarrow> find P ys | Some x \<Rightarrow> Some x)"
  by (induction xs) auto

lemma takeWhile_rev_dropWhile:
  "rev (takeWhile P (rev xs)) = drop (length xs - length (takeWhile P (rev xs))) xs"
  by (metis length_rev rev_rev_ident rev_take takeWhile_eq_take)

end
