(* ===== verification/Py_Text.thy ===== *)
theory Py_Text
  imports H2K_Prelude
begin

text \<open>
  Text operations of Python that the rewriters of configuration files use: decimal numbers,
  \<^verbatim>\<open>str.split()\<close>, \<^verbatim>\<open>str.splitlines()\<close>, \<^verbatim>\<open>sep.join\<close> and padding, with the laws that relate
  splitting and joining.
\<close>

section \<open>Decimal numbers\<close>

fun nat_str :: "nat \<Rightarrow> string" where
  "nat_str n = (if n < 10 then [digit_chars ! n] else nat_str (n div 10) @ [digit_chars ! (n mod 10)])"

declare nat_str.simps [simp del]

definition int_str :: "int \<Rightarrow> string" where
  "int_str i = (if i < 0 then CHR ''-'' # nat_str (nat (- i)) else nat_str (nat i))"

definition digit_value :: "char \<Rightarrow> nat" where
  "digit_value c = (case map_of (zip digit_chars [0..<10]) c of None \<Rightarrow> 0 | Some d \<Rightarrow> d)"

definition digits_value :: "string \<Rightarrow> nat" where
  "digits_value s = foldl (\<lambda>n c. 10 * n + digit_value c) 0 s"

definition all_digits :: "string \<Rightarrow> bool" where
  "all_digits s = (s \<noteq> [] \<and> list_all py_isdigit s)"

lemma digit_nth: "n < 10 \<Longrightarrow> py_isdigit (digit_chars ! n)" "n < 10 \<Longrightarrow> digit_value (digit_chars ! n) = n"
  "n < 10 \<Longrightarrow> \<not> py_isspace (digit_chars ! n)"
proof -
  assume "n < 10"
  then have "n \<in> set [0..<10]" by simp
  moreover have "list_all (\<lambda>n. py_isdigit (digit_chars ! n) \<and> digit_value (digit_chars ! n) = n \<and> \<not> py_isspace (digit_chars ! n)) [0..<10]"
    by code_simp
  ultimately show "py_isdigit (digit_chars ! n)" "digit_value (digit_chars ! n) = n" "\<not> py_isspace (digit_chars ! n)"
    unfolding list_all_iff by blast+
qed

lemma nat_str_digits: "all_digits (nat_str n)"
proof (induction n rule: nat_str.induct)
  case (1 n)
  then show ?case by (subst nat_str.simps) (auto simp: all_digits_def digit_nth)
qed

text \<open>Reading back a printed number.\<close>

lemma digits_nat_str: "digits_value (nat_str n) = n"
proof (induction n rule: nat_str.induct)
  case (1 n)
  show ?case
  proof (cases "n < 10")
    case True
    then show ?thesis by (subst nat_str.simps) (simp add: digits_value_def digit_nth)
  next
    case False
    with 1 show ?thesis by (subst nat_str.simps) (simp add: digits_value_def digit_nth)
  qed
qed

lemma digit_not_space: "py_isdigit c \<Longrightarrow> \<not> py_isspace c"
proof -
  have "list_all (\<lambda>c. \<not> py_isspace c) digit_chars" by code_simp
  then show "py_isdigit c \<Longrightarrow> \<not> py_isspace c" by (auto simp: py_isdigit_def list_all_iff)
qed

section \<open>Fields and lines\<close>

fun py_join :: "string \<Rightarrow> string list \<Rightarrow> string" where
  "py_join sep [] = []"
| "py_join sep [s] = s"
| "py_join sep (s # ss) = s @ sep @ py_join sep ss"

function py_split :: "string \<Rightarrow> string list" where
  "py_split s = (case lstrip s of
      [] \<Rightarrow> []
    | c # cs \<Rightarrow> takeWhile (\<lambda>x. \<not> py_isspace x) (c # cs) # py_split (dropWhile (\<lambda>x. \<not> py_isspace x) (c # cs)))"
  by pat_completeness auto
termination
proof (relation "measure length", goal_cases)
  case (2 s c cs)
  have "\<not> py_isspace c" using 2 by (metis lstrip_def hd_dropWhile list.discI list.sel(1))
  then have "length (dropWhile (\<lambda>x. \<not> py_isspace x) (c # cs)) \<le> length cs" by (simp add: length_dropWhile_le)
  moreover have "length (c # cs) \<le> length s" using 2 by (metis lstrip_def length_dropWhile_le)
  ultimately show ?case by simp
qed simp

declare py_split.simps [simp del]

definition line_break :: "char \<Rightarrow> bool" where
  "line_break c = (c \<in> {CHR 0x0A, CHR 0x0D, CHR 0x0B, CHR 0x0C, CHR 0x1C, CHR 0x1D, CHR 0x1E})"

text \<open>A carriage return before a newline is one line break with it.\<close>

definition after_break :: "string \<Rightarrow> string" where
  "after_break s = (case s of
      c # d # r \<Rightarrow> if c = CHR 0x0D \<and> d = CHR 0x0A then r else d # r
    | _ \<Rightarrow> [])"

function splitlines :: "string \<Rightarrow> string list" where
  "splitlines s = (if s = [] then []
     else takeWhile (\<lambda>c. \<not> line_break c) s # splitlines (after_break (dropWhile (\<lambda>c. \<not> line_break c) s)))"
  by pat_completeness auto
termination
proof (relation "measure length", goal_cases)
  case (2 s)
  have a: "length (after_break t) < length t \<or> t = [] \<and> after_break t = []" for t
    by (auto simp: after_break_def split: list.splits)
  from a [of "dropWhile (\<lambda>c. \<not> line_break c) s"] length_dropWhile_le [of "\<lambda>c. \<not> line_break c" s] 2
  show ?case by auto
qed simp

declare splitlines.simps [simp del]

lemma break_is_space: "line_break c \<Longrightarrow> py_isspace c"
  by (auto simp: line_break_def py_isspace_def ws_chars_def)

definition word :: "string \<Rightarrow> bool" where
  "word s = (s \<noteq> [] \<and> list_all (\<lambda>c. \<not> py_isspace c) s)"

lemma split_empty: "lstrip s = [] \<Longrightarrow> py_split s = []"
  by (subst py_split.simps) simp

lemma split_step:
  "lstrip s = c # cs \<Longrightarrow>
   py_split s = takeWhile (\<lambda>x. \<not> py_isspace x) (c # cs) # py_split (dropWhile (\<lambda>x. \<not> py_isspace x) (c # cs))"
  by (subst py_split.simps) simp

lemma lstrip_head: "lstrip s = c # cs \<Longrightarrow> \<not> py_isspace c"
  by (metis lstrip_def hd_dropWhile list.discI list.sel(1))

lemma split_words: "w \<in> set (py_split s) \<Longrightarrow> word w"
proof (induction s rule: py_split.induct)
  case (1 s)
  show ?case
  proof (cases "lstrip s")
    case Nil
    with 1(2) show ?thesis by (simp add: split_empty)
  next
    case (Cons c cs)
    have "word (takeWhile (\<lambda>x. \<not> py_isspace x) (c # cs))"
      using lstrip_head [OF Cons] by (auto simp: word_def list_all_iff dest: set_takeWhileD)
    with 1 Cons split_step [OF Cons] show ?thesis by auto
  qed
qed

lemma split_word_append:
  assumes "word w" "s = [] \<or> py_isspace (hd s)"
  shows "py_split (w @ s) = w # py_split s"
proof -
  obtain c cs where w: "w = c # cs" using assms(1) by (cases w) (auto simp: word_def)
  have "lstrip (w @ s) = w @ s" using assms(1) by (simp add: w word_def lstrip_Cons)
  moreover have "takeWhile (\<lambda>x. \<not> py_isspace x) (w @ s) = w" "dropWhile (\<lambda>x. \<not> py_isspace x) (w @ s) = s"
    using assms by (cases s; auto simp: word_def list_all_iff)+
  ultimately show ?thesis by (subst py_split.simps) (simp add: w)
qed

lemma split_space: "py_isspace c \<Longrightarrow> py_split (c # s) = py_split s"
  by (subst py_split.simps, subst (2) py_split.simps) (simp add: lstrip_Cons)

lemma split_Nil [simp]: "py_split [] = []"
  by (subst py_split.simps) simp

lemma split_join:
  "list_all word ws \<Longrightarrow> py_isspace c \<Longrightarrow> py_split (py_join [c] ws) = ws"
proof (induction "[c]" ws rule: py_join.induct)
  case (2 w)
  then show ?case using split_word_append [of w "[]"] by simp
next
  case (3 w v ws)
  then show ?case by (simp add: split_word_append split_space)
qed simp

lemma rstrip_id: "s \<noteq> [] \<Longrightarrow> \<not> py_isspace (last s) \<Longrightarrow> rstrip s = s"
  by (cases s rule: rev_cases) (simp_all add: rstrip_snoc)

lemma strip_id: "s \<noteq> [] \<Longrightarrow> \<not> py_isspace (hd s) \<Longrightarrow> \<not> py_isspace (last s) \<Longrightarrow> strip s = s"
  by (cases s) (simp_all add: strip_def lstrip_Cons rstrip_id)

lemma strip_Nil_iff: "strip s = [] \<longleftrightarrow> list_all py_isspace s"
proof
  assume "strip s = []"
  then have all: "\<forall>c\<in>set (lstrip s). py_isspace c" by (simp add: strip_def rstrip_def)
  show "list_all py_isspace s"
  proof (cases "lstrip s")
    case Nil
    then show ?thesis by (simp add: lstrip_def list_all_iff)
  next
    case (Cons c cs)
    with all lstrip_head [OF Cons] show ?thesis by simp
  qed
next
  assume "list_all py_isspace s"
  then have "lstrip s = []" by (simp add: lstrip_def list_all_iff)
  then show "strip s = []" by (simp add: strip_def)
qed

lemma word_ends: "word w \<Longrightarrow> w \<noteq> [] \<and> \<not> py_isspace (hd w) \<and> \<not> py_isspace (last w)"
  by (auto simp: word_def list_all_iff)

lemma join_ends:
  "list_all word ws \<Longrightarrow> ws \<noteq> [] \<Longrightarrow>
   py_join sep ws \<noteq> [] \<and> hd (py_join sep ws) = hd (hd ws) \<and> last (py_join sep ws) = last (last ws)"
proof (induction sep ws rule: py_join.induct)
  case (3 sep w v ws)
  then show ?case using word_ends [of w] by auto
qed (auto dest: word_ends)

lemma strip_join: "list_all word ws \<Longrightarrow> strip (py_join sep ws) = py_join sep ws"
proof (cases "ws = []")
  case False
  assume ws: "list_all word ws"
  with False have "word (hd ws)" "word (last ws)" by (auto simp: list_all_iff)
  with join_ends [OF ws False, of sep] word_ends show ?thesis by (intro strip_id) auto
qed simp

lemma join_no_break: "list_all word ws \<Longrightarrow> list_all (\<lambda>c. \<not> line_break c) (py_join [CHR 0x09] ws)"
proof (induction "[CHR 0x09]" ws rule: py_join.induct)
  case (3 w v ws)
  moreover have "\<not> line_break CHR 0x09" by code_simp
  ultimately show ?case using break_is_space by (auto simp: word_def list_all_iff)
qed (use break_is_space in \<open>auto simp: word_def list_all_iff\<close>)

lemma splitlines_Nil [simp]: "splitlines [] = []"
  by (subst splitlines.simps) simp

lemma splitlines_line:
  "list_all (\<lambda>c. \<not> line_break c) l \<Longrightarrow> splitlines (l @ CHR 0x0A # s) = l # splitlines s"
  by (subst splitlines.simps)
    (simp add: list_all_iff line_break_def after_break_def takeWhile_append dropWhile_append split: list.splits)

lemma splitlines_no_break: "l \<in> set (splitlines s) \<Longrightarrow> list_all (\<lambda>c. \<not> line_break c) l"
proof (induction s rule: splitlines.induct)
  case (1 s)
  show ?case
  proof (cases "s = []")
    case False
    then have "splitlines s = takeWhile (\<lambda>c. \<not> line_break c) s # splitlines (after_break (dropWhile (\<lambda>c. \<not> line_break c) s))"
      by (subst splitlines.simps) simp
    with 1(2) consider "l = takeWhile (\<lambda>c. \<not> line_break c) s"
      | "l \<in> set (splitlines (after_break (dropWhile (\<lambda>c. \<not> line_break c) s)))" by auto
    then show ?thesis
    proof cases
      case 1
      then show ?thesis by (auto simp: list_all_iff dest: set_takeWhileD)
    next
      case 2
      then show ?thesis by (rule "1.IH" [OF False])
    qed
  qed (use 1 in simp)
qed

text \<open>Writing lines and reading them back.\<close>

lemma splitlines_join:
  "list_all (list_all (\<lambda>c. \<not> line_break c)) ls \<Longrightarrow> ls \<noteq> [] \<Longrightarrow> splitlines (py_join [CHR 0x0A] ls @ [CHR 0x0A]) = ls"
proof (induction ls)
  case (Cons l ls)
  show ?case
  proof (cases ls)
    case Nil
    with splitlines_line [of l "[]"] Cons.prems show ?thesis by simp
  next
    case ls: (Cons m ms)
    have "splitlines (py_join [CHR 0x0A] ls @ [CHR 0x0A]) = ls" using Cons.IH Cons.prems ls by simp
    with splitlines_line [of l "py_join [CHR 0x0A] ls @ [CHR 0x0A]"] Cons.prems ls show ?thesis by simp
  qed
qed simp

section \<open>Padding\<close>

definition ljust :: "nat \<Rightarrow> string \<Rightarrow> string" where
  "ljust n s = s @ replicate (n - length s) CHR '' ''"

text \<open>\<^verbatim>\<open>s.split(sep)\<close> at every occurrence of a character.\<close>

fun split_on :: "char \<Rightarrow> string \<Rightarrow> string list" where
  "split_on sep [] = [[]]"
| "split_on sep (c # cs) = (if c = sep then [] # split_on sep cs
     else (case split_on sep cs of [] \<Rightarrow> [[c]] | w # ws \<Rightarrow> (c # w) # ws))"

lemma split_on_nonempty: "split_on sep s \<noteq> []"
  by (induction s) (auto split: list.splits)

lemma join_split_on: "py_join [sep] (split_on sep s) = s"
proof (induction s)
  case (Cons c s)
  then show ?case using split_on_nonempty [of sep s]
    by (cases "split_on sep s") (auto split: list.splits, (cases "tl (split_on sep s)"; simp)+)
qed simp

lemma split_on_no_sep: "w \<in> set (split_on sep s) \<Longrightarrow> sep \<notin> set w"
  by (induction s arbitrary: w) (auto split: if_splits list.splits)

section \<open>Reading integers\<close>

text \<open>\<^verbatim>\<open>int(s)\<close>: a sign, then digits that single underscores may separate.\<close>

definition py_int_digits :: "string \<Rightarrow> nat option" where
  "py_int_digits s = (let gs = split_on (CHR ''_'') s in if list_all all_digits gs then Some (digits_value (concat gs)) else None)"

definition py_int :: "string \<Rightarrow> int option" where
  "py_int s = (case strip s of
      c # r \<Rightarrow> if c = CHR ''-'' then map_option (\<lambda>n. - int n) (py_int_digits r)
               else if c = CHR ''+'' then map_option int (py_int_digits r)
               else map_option int (py_int_digits (c # r))
    | [] \<Rightarrow> None)"

section \<open>Regular expressions\<close>

text \<open>\<^verbatim>\<open>re.match(p + "$", s)\<close>: the dollar sign of Python also matches before a final newline.\<close>

definition py_dollar :: "(string \<Rightarrow> bool) \<Rightarrow> string \<Rightarrow> bool" where
  "py_dollar m s = (m s \<or> s \<noteq> [] \<and> last s = CHR 0x0A \<and> m (butlast s))"

end
