(* ===== verification/Reg_Encoding.thy ===== *)
theory Reg_Encoding
  imports Py_Text "HOL-Library.Word"
begin

text \<open>
  The encoding of Windows registry values (\<^verbatim>\<open>h2kvm/fixers/windows/registry/encoding.py\<close>, and the decoders of
  \<^verbatim>\<open>h2kvm/core/registry_reader.py\<close>). Text is a list of Unicode code points, bytes are words of eight bits and
  UTF-16 code units words of sixteen. The codec follows Python's: an encoder skips or replaces code points that
  cannot be encoded, the decoder skips what it cannot read. Both strings and numbers are read back as written.
\<close>

unbundle bit_operations_syntax

section \<open>UTF-16\<close>

type_synonym byte = "8 word"
type_synonym utext = "nat list"

definition text_of :: "string \<Rightarrow> utext" where
  "text_of s = map of_char s"

definition surrogate :: "nat \<Rightarrow> bool" where
  "surrogate c \<longleftrightarrow> 0xD800 \<le> c \<and> c \<le> 0xDFFF"

definition code_point :: "nat \<Rightarrow> bool" where
  "code_point c \<longleftrightarrow> c < 0x110000"

datatype codec_errors = Ignore | Replace

definition utf16_units :: "codec_errors \<Rightarrow> nat \<Rightarrow> 16 word list" where
  "utf16_units errs c =
     (if surrogate c then (case errs of Ignore \<Rightarrow> [] | Replace \<Rightarrow> [63])
      else if c < 0x10000 then [of_nat c]
      else [of_nat (0xD800 + (c - 0x10000) div 0x400), of_nat (0xDC00 + (c - 0x10000) mod 0x400)])"

definition unit_bytes :: "16 word \<Rightarrow> byte list" where
  "unit_bytes u = [ucast u, ucast (drop_bit 8 u)]"

definition encode_utf16le :: "codec_errors \<Rightarrow> utext \<Rightarrow> byte list" where
  "encode_utf16le errs s = concat (map unit_bytes (concat (map (utf16_units errs) s)))"

fun le_units :: "byte list \<Rightarrow> 16 word list" where
  "le_units (a # b # bs) = (ucast a OR push_bit 8 (ucast b)) # le_units bs"
| "le_units _ = []"

definition high_surrogate :: "16 word \<Rightarrow> bool" where
  "high_surrogate u \<longleftrightarrow> 0xD800 \<le> u \<and> u \<le> 0xDBFF"

definition low_surrogate :: "16 word \<Rightarrow> bool" where
  "low_surrogate u \<longleftrightarrow> 0xDC00 \<le> u \<and> u \<le> 0xDFFF"

fun decode_units :: "16 word list \<Rightarrow> utext" where
  "decode_units [] = []"
| "decode_units (u # us) =
     (if high_surrogate u
      then (case us of
              [] \<Rightarrow> []
            | v # vs \<Rightarrow> if low_surrogate v then (0x10000 + (unat u - 0xD800) * 0x400 + (unat v - 0xDC00)) # decode_units vs else decode_units us)
      else if low_surrogate u then decode_units us
      else unat u # decode_units us)"

definition decode_utf16le :: "byte list \<Rightarrow> utext" where
  "decode_utf16le bs = decode_units (le_units bs)"

section \<open>Values\<close>

definition rstrip_nul :: "utext \<Rightarrow> utext" where
  "rstrip_nul s = rev (dropWhile (\<lambda>c. c = 0) (rev s))"

definition reg_sz :: "utext \<Rightarrow> byte list" where
  "reg_sz s = encode_utf16le Ignore (s @ [0])"

definition decode_reg_sz :: "byte list \<Rightarrow> utext" where
  "decode_reg_sz raw = rstrip_nul (decode_utf16le raw)"

fun le_bytes :: "nat \<Rightarrow> int \<Rightarrow> byte list" where
  "le_bytes 0 v = []"
| "le_bytes (Suc n) v = word_of_int v # le_bytes n (v div 256)"

fun from_le_bytes :: "byte list \<Rightarrow> int" where
  "from_le_bytes [] = 0"
| "from_le_bytes (b # bs) = uint b + 256 * from_le_bytes bs"

text \<open>\<^verbatim>\<open>int.to_bytes(4, "little", signed=False)\<close> raises when the number does not fit.\<close>

definition dword_bytes :: "int \<Rightarrow> string + byte list" where
  "dword_bytes v =
     (if v < 0 then Inl (''can'' @ [CHR 0x27] @ ''t convert negative int to unsigned'') else if v \<ge> 2 ^ 32 then Inl ''int too big to convert'' else Inr (le_bytes 4 v))"

fun crlf_to_lf :: "utext \<Rightarrow> utext" where
  "crlf_to_lf (c # d # s) = (if c = 13 \<and> d = 10 then 10 # crlf_to_lf s else c # crlf_to_lf (d # s))"
| "crlf_to_lf s = s"

definition cr_to_lf :: "utext \<Rightarrow> utext" where
  "cr_to_lf s = map (\<lambda>c. if c = 13 then 10 else c) s"

definition lf_to_crlf :: "utext \<Rightarrow> utext" where
  "lf_to_crlf s = concat (map (\<lambda>c. if c = 10 then [13, 10] else [c]) s)"

definition to_crlf :: "utext \<Rightarrow> utext" where
  "to_crlf s = lf_to_crlf (cr_to_lf (crlf_to_lf s))"

definition encode_windows_cmd_script :: "utext \<Rightarrow> byte list" where
  "encode_windows_cmd_script s = [0xFF, 0xFE] @ encode_utf16le Replace (to_crlf s)"

text \<open>The other reader of hives, \<^verbatim>\<open>RegistryReader\<close>, stops at the first terminator.\<close>

definition decode_string :: "byte list \<Rightarrow> utext option" where
  "decode_string raw = (let s = takeWhile (\<lambda>c. c \<noteq> 0) (decode_utf16le raw) in if s = [] then None else Some s)"

definition decode_dword :: "byte list \<Rightarrow> int option" where
  "decode_dword raw = (if length raw < 4 then None else Some (from_le_bytes (take 4 raw)))"

section \<open>Round trips\<close>

lemma unit_bytes_units: "(ucast (ucast u :: byte) :: 16 word) OR push_bit 8 (ucast (ucast (drop_bit 8 u) :: byte)) = u"
  by (rule bit_word_eqI) (auto simp: bit_simps)

lemma le_units_bytes: "le_units (concat (map unit_bytes us)) = us"
  by (induction us) (simp_all add: unit_bytes_def unit_bytes_units)

lemma unat_unit: "c < 0x10000 \<Longrightarrow> unat (of_nat c :: 16 word) = c"
  by (simp add: unsigned_of_nat take_bit_nat_eq_self)

lemma high_surrogate_iff: "high_surrogate u \<longleftrightarrow> 0xD800 \<le> unat u \<and> unat u \<le> 0xDBFF"
  by (simp add: high_surrogate_def word_le_nat_alt)

lemma low_surrogate_iff: "low_surrogate u \<longleftrightarrow> 0xDC00 \<le> unat u \<and> unat u \<le> 0xDFFF"
  by (simp add: low_surrogate_def word_le_nat_alt)

lemma decode_encode_unit:
  assumes "code_point c"
  shows "decode_units (utf16_units Ignore c @ us) = (if surrogate c then [] else [c]) @ decode_units us"
proof (cases "surrogate c \<or> c < 0x10000")
  case True
  then show ?thesis by (auto simp: utf16_units_def high_surrogate_iff low_surrogate_iff unat_unit surrogate_def)
next
  case False
  let ?v = "c - 0x10000"
  from False assms have v: "?v div 0x400 < 0x400" "c = 0x10000 + ?v" by (auto simp: code_point_def)
  have h: "unat (of_nat (0xD800 + ?v div 0x400) :: 16 word) = 0xD800 + ?v div 0x400"
    using v by (intro unat_unit) simp
  have l: "unat (of_nat (0xDC00 + ?v mod 0x400) :: 16 word) = 0xDC00 + ?v mod 0x400"
    by (intro unat_unit) (simp add: less_trans [OF mod_less_divisor])
  have "0xDC00 + ?v mod 0x400 \<le> 0xDFFF" using mod_less_divisor [of "0x400" ?v] by simp
  with False v h l show ?thesis
    by (simp add: utf16_units_def high_surrogate_iff low_surrogate_iff del: of_nat_add)
qed

lemma decode_encode_units: "list_all code_point s \<Longrightarrow> decode_units (concat (map (utf16_units Ignore) s)) = filter (\<lambda>c. \<not> surrogate c) s"
  by (induction s) (simp_all add: decode_encode_unit)

lemma decode_encode: "list_all code_point s \<Longrightarrow> decode_utf16le (encode_utf16le Ignore s) = filter (\<lambda>c. \<not> surrogate c) s"
  by (simp add: decode_utf16le_def encode_utf16le_def le_units_bytes decode_encode_units)

lemma reg_sz_decodes: "list_all code_point s \<Longrightarrow> decode_utf16le (reg_sz s) = filter (\<lambda>c. \<not> surrogate c) s @ [0]"
  using decode_encode [of "s @ [0]"] by (simp add: reg_sz_def code_point_def surrogate_def)

lemma from_le_bytes: "from_le_bytes (le_bytes n v) = v mod 256 ^ n"
proof (induction n arbitrary: v)
  case (Suc n)
  have "uint (word_of_int v :: byte) = v mod 256" by (simp add: unsigned_of_int take_bit_eq_mod)
  with Suc show ?case by (simp add: zmod_zmult2_eq)
qed simp

lemma length_le_bytes [simp]: "length (le_bytes n v) = n"
  by (induction n arbitrary: v) simp_all

lemma dword_bytes_Inr: "dword_bytes v = Inr bs \<longleftrightarrow> 0 \<le> v \<and> v < 2 ^ 32 \<and> bs = le_bytes 4 v"
  by (auto simp: dword_bytes_def)

lemma rstrip_nul_snoc: "rstrip_nul (s @ [0]) = rstrip_nul s"
  by (simp add: rstrip_nul_def)

lemma rstrip_nul_id: "s = [] \<or> last s \<noteq> 0 \<Longrightarrow> rstrip_nul s = s"
  by (cases s rule: rev_cases) (auto simp: rstrip_nul_def)

text \<open>
  A string that was written as \<^verbatim>\<open>REG_SZ\<close> is read back without the code points that cannot be encoded and
  without terminators at its end, so every text of scalar values that does not end with a terminator comes back as it
  was. The other reader returns the same up to the first terminator.
\<close>
theorem reg_sz_roundtrip:
  assumes "list_all code_point s"
  shows "decode_reg_sz (reg_sz s) = rstrip_nul (filter (\<lambda>c. \<not> surrogate c) s) \<and>
    (list_all (\<lambda>c. \<not> surrogate c) s \<and> (s = [] \<or> last s \<noteq> 0) \<longrightarrow> decode_reg_sz (reg_sz s) = s) \<and>
    (0 \<notin> set s \<and> list_all (\<lambda>c. \<not> surrogate c) s \<and> s \<noteq> [] \<longrightarrow> decode_string (reg_sz s) = Some s)"
proof -
  have d: "decode_reg_sz (reg_sz s) = rstrip_nul (filter (\<lambda>c. \<not> surrogate c) s)"
    by (simp add: decode_reg_sz_def reg_sz_decodes [OF assms] rstrip_nul_snoc)
  have f: "filter (\<lambda>c. \<not> surrogate c) s = s" if "list_all (\<lambda>c. \<not> surrogate c) s" using that by (simp add: list_all_iff)
  have "decode_string (reg_sz s) = Some s" if "0 \<notin> set s" "list_all (\<lambda>c. \<not> surrogate c) s" "s \<noteq> []"
  proof -
    have "takeWhile (\<lambda>c. c \<noteq> 0) (s @ [0]) = s" using that(1) by (subst takeWhile_append2) (metis gr0I neq0_conv, simp)
    with that f [OF that(2)] show ?thesis by (simp add: decode_string_def reg_sz_decodes [OF assms] Let_def)
  qed
  with d f show ?thesis by (auto simp: rstrip_nul_id)
qed

theorem reg_sz_roundtrip_witness: "decode_reg_sz (reg_sz [0x43, 0x1F600, 0xD800]) = [0x43, 0x1F600]"
  using reg_sz_roundtrip [of "[0x43, 0x1F600, 0xD800]"] by (simp add: code_point_def surrogate_def rstrip_nul_def)

text \<open>
  A number is written as a \<^verbatim>\<open>REG_DWORD\<close> exactly when it fits in 32 bits, and then both readers give it back;
  any other number raises.
\<close>
theorem dword_roundtrip:
  "(is_ok (dword_bytes v) \<longleftrightarrow> 0 \<le> v \<and> v < 2 ^ 32) \<and>
   (\<forall>bs. dword_bytes v = Inr bs \<longrightarrow> length bs = 4 \<and> from_le_bytes (take 4 bs) = v \<and> decode_dword bs = Some v)"
proof -
  have "is_ok (dword_bytes v) \<longleftrightarrow> 0 \<le> v \<and> v < 2 ^ 32" by (simp add: dword_bytes_def)
  moreover have "length bs = 4 \<and> from_le_bytes (take 4 bs) = v \<and> decode_dword bs = Some v" if "dword_bytes v = Inr bs" for bs
  proof -
    from that have bs: "bs = le_bytes 4 v" and v: "0 \<le> v" "v < 256 ^ 4" by (simp_all add: dword_bytes_Inr)
    then show ?thesis by (simp add: decode_dword_def from_le_bytes)
  qed
  ultimately show ?thesis by blast
qed

theorem dword_roundtrip_witness: "\<exists>bs. dword_bytes 3735928559 = Inr bs \<and> decode_dword bs = Some 3735928559"
  using dword_roundtrip [of 3735928559] by (auto simp: is_ok_def split: sum.splits)

section \<open>Scripts\<close>

lemma crlf_to_lf_expand: "13 \<notin> set s \<Longrightarrow> crlf_to_lf (lf_to_crlf s) = s"
proof (induction s)
  case (Cons c s)
  show ?case
  proof (cases "c = 10")
    case True
    with Cons show ?thesis by (simp add: lf_to_crlf_def)
  next
    case False
    with Cons have "c \<noteq> 13" by simp
    then have "crlf_to_lf (c # t) = c # crlf_to_lf t" for t by (cases t) simp_all
    with False Cons show ?thesis by (simp add: lf_to_crlf_def)
  qed
qed (simp add: lf_to_crlf_def)

text \<open>
  The line ends of a script are normalised: after the normalisation every line feed follows a carriage return, and
  normalising again changes nothing.
\<close>
lemma to_crlf_idem: "to_crlf (to_crlf s) = to_crlf s"
proof -
  have "13 \<notin> set (cr_to_lf (crlf_to_lf s))" and "cr_to_lf (cr_to_lf t) = cr_to_lf t" for t by (auto simp: cr_to_lf_def)
  with crlf_to_lf_expand show ?thesis by (simp add: to_crlf_def)
qed

end
