(* ===== verification/Reg_Hive.thy ===== *)
theory Reg_Hive
  imports Reg_Encoding
begin

text \<open>
  Access to registry hives (\<^verbatim>\<open>encoding.py\<close>, \<^verbatim>\<open>io.py\<close> and \<^verbatim>\<open>mount.py\<close> of
  \<^verbatim>\<open>h2kvm/fixers/windows/registry\<close>). The libraries hivex and guestfs are parameters: a record of their calls
  over a state they own. A call may raise, and then gives the text of its exception. \<^verbatim>\<open>hivex_laws\<close> states
  what the library documents about the tree of keys and their values.
\<close>

section \<open>The library hivex\<close>

text \<open>A handle of zero or \<^verbatim>\<open>None\<close> stands for no key.\<close>

datatype reg_data = RegBytes "byte list" | RegInt int | RegOther utext | RegNone

text \<open>What \<^verbatim>\<open>node_get_value\<close> returns when there is a value: this package expects a dictionary with the data; the
  documented binding returns the handle of the value, and the data is what \<^verbatim>\<open>value_value\<close> returns for that
  handle. This package never calls the latter; the field \<open>hx_data\<close> is what it would return, so that statements about
  the content of a hive do not depend on the form.\<close>

datatype got_value = GotDict reg_data | GotHandle nat

record reg_value =
  rv_key :: string
  rv_type :: int
  rv_value :: "byte list"

datatype delete_args = DelPair nat nat | DelNamed nat string | DelNode nat

datatype commit_call = CommitNone | CommitBare | HivexCommitNone | HivexCommitBare

datatype commit_outcome = NoMethod | CommitTypeError string | CommitFailed string | Committed "byte list"

record 'h hivex_ops =
  hx_missing :: "string option"
  hx_open :: "byte list \<Rightarrow> bool \<Rightarrow> string + 'h"
  hx_root :: "'h \<Rightarrow> nat option"
  hx_get_child :: "'h \<Rightarrow> nat \<Rightarrow> string \<Rightarrow> string + nat option"
  hx_add_child :: "nat \<Rightarrow> string \<Rightarrow> (string, nat option, 'h) call"
  hx_set_value :: "nat \<Rightarrow> reg_value \<Rightarrow> (string, unit, 'h) call"
  hx_get_value :: "'h \<Rightarrow> nat \<Rightarrow> string \<Rightarrow> string + got_value option"
  hx_data :: "'h \<Rightarrow> nat \<Rightarrow> string \<Rightarrow> byte list option"
  hx_delete_child :: "delete_args \<Rightarrow> (string, unit, 'h) call"
  hx_commit :: "commit_call \<Rightarrow> 'h \<Rightarrow> commit_outcome"

definition node_id :: "nat option \<Rightarrow> nat" where
  "node_id n = (case n of None \<Rightarrow> 0 | Some i \<Rightarrow> i)"

definition child_id :: "'h hivex_ops \<Rightarrow> nat \<Rightarrow> string \<Rightarrow> 'h \<Rightarrow> string + nat" where
  "child_id hx p name h = map_sum id node_id (hx_get_child hx h p name)"

section \<open>Writing\<close>

definition mk_reg_value :: "string \<Rightarrow> int \<Rightarrow> byte list \<Rightarrow> reg_value" where
  "mk_reg_value name t v = \<lparr>rv_key = name, rv_type = t, rv_value = v\<rparr>"

definition em_dash :: string where
  "em_dash = [CHR 0xE2, CHR 0x80, CHR 0x94]"

definition no_key :: "string \<Rightarrow> string \<Rightarrow> string" where
  "no_key key kind = ''Cannot set Windows registry value '' @ [CHR 0x27] @ key @ [CHR 0x27] @ '' ('' @ kind @ '') '' @ em_dash @
     '' the target registry key does not exist. The Windows registry hive may be corrupted.''"

definition set_sz :: "'h hivex_ops \<Rightarrow> nat \<Rightarrow> string \<Rightarrow> utext \<Rightarrow> (string, unit, 'h) call" where
  "set_sz hx node key s = (if node = 0 then call_raise (no_key key ''REG_SZ'') else hx_set_value hx node (mk_reg_value key 1 (reg_sz s)))"

definition set_expand_sz :: "'h hivex_ops \<Rightarrow> nat \<Rightarrow> string \<Rightarrow> utext \<Rightarrow> (string, unit, 'h) call" where
  "set_expand_sz hx node key s = (if node = 0 then call_raise (no_key key ''REG_EXPAND_SZ'') else hx_set_value hx node (mk_reg_value key 2 (reg_sz s)))"

definition set_dword :: "'h hivex_ops \<Rightarrow> nat \<Rightarrow> string \<Rightarrow> int \<Rightarrow> (string, unit, 'h) call" where
  "set_dword hx node key v =
     (if node = 0 then call_raise (no_key key ''REG_DWORD'')
      else (case dword_bytes v of Inl e \<Rightarrow> call_raise e | Inr bs \<Rightarrow> hx_set_value hx node (mk_reg_value key 4 bs)))"

definition no_parent :: "string \<Rightarrow> string" where
  "no_parent name = ''Cannot create registry key '' @ [CHR 0x27] @ name @ [CHR 0x27] @ '' '' @ em_dash @
     '' the parent key does not exist. The Windows registry hive structure may be corrupted.''"

definition not_created :: "string \<Rightarrow> string" where
  "not_created name = ''Failed to create registry key '' @ [CHR 0x27] @ name @ [CHR 0x27] @ ''. The registry hive may be read-only or corrupted.''"

definition added_child :: "'h hivex_ops \<Rightarrow> nat \<Rightarrow> string \<Rightarrow> (string, nat, 'h) call" where
  "added_child hx p name = call_bind (hx_add_child hx p name) (\<lambda>n. call_ret (node_id n))"

definition ensure_child :: "'h hivex_ops \<Rightarrow> nat \<Rightarrow> string \<Rightarrow> (string, nat, 'h) call" where
  "ensure_child hx parent name =
     (if parent = 0 then call_raise (no_parent name)
      else call_bind (call_lift (child_id hx parent name)) (\<lambda>ch.
           call_bind (if ch = 0 then added_child hx parent name else call_ret ch) (\<lambda>ch.
           if ch = 0 then call_raise (not_created name) else call_ret ch)))"

fun try_deletes :: "'h hivex_ops \<Rightarrow> delete_args list \<Rightarrow> 'h \<Rightarrow> bool \<times> 'h" where
  "try_deletes hx [] h = (False, h)"
| "try_deletes hx (a # rest) h = (case hx_delete_child hx a h of (Inr _, h1) \<Rightarrow> (True, h1) | (Inl _, h1) \<Rightarrow> try_deletes hx rest h1)"

definition delete_child_if_exists :: "'h hivex_ops \<Rightarrow> nat \<Rightarrow> string \<Rightarrow> (string, bool, 'h) call" where
  "delete_child_if_exists hx parent name =
     (if parent = 0 then call_ret False
      else call_bind (call_lift (child_id hx parent name)) (\<lambda>child h.
           if child = 0 then (Inr False, h)
           else (case try_deletes hx [DelPair parent child, DelNamed parent name, DelNode child] h of (b, h1) \<Rightarrow> (Inr b, h1))))"

section \<open>Reading\<close>

definition read_value_dict :: "'h hivex_ops \<Rightarrow> 'h \<Rightarrow> nat \<Rightarrow> string \<Rightarrow> reg_data option" where
  "read_value_dict hx h node key = (if node = 0 then None else (case hx_get_value hx h node key of Inr (Some (GotDict d)) \<Rightarrow> Some d | _ \<Rightarrow> None))"

text \<open>The white space that \<^verbatim>\<open>str.strip\<close> removes.\<close>

definition uni_space :: "nat \<Rightarrow> bool" where
  "uni_space c \<longleftrightarrow> (9 \<le> c \<and> c \<le> 13) \<or> (28 \<le> c \<and> c \<le> 32) \<or> c \<in> {0x85, 0xA0, 0x1680, 0x2028, 0x2029, 0x202F, 0x205F, 0x3000} \<or> (0x2000 \<le> c \<and> c \<le> 0x200A)"

definition uni_strip :: "utext \<Rightarrow> utext" where
  "uni_strip s = rev (dropWhile uni_space (rev (dropWhile uni_space s)))"

definition read_sz :: "'h hivex_ops \<Rightarrow> 'h \<Rightarrow> nat \<Rightarrow> string \<Rightarrow> utext option" where
  "read_sz hx h node key =
     (let filled = (\<lambda>s. if s = [] then None else Some s)
      in case read_value_dict hx h node key of
           None \<Rightarrow> None
         | Some (RegBytes raw) \<Rightarrow> filled (uni_strip (decode_reg_sz raw))
         | Some (RegInt i) \<Rightarrow> filled (uni_strip (text_of (int_str i)))
         | Some (RegOther s) \<Rightarrow> filled (uni_strip s)
         | Some RegNone \<Rightarrow> None)"

definition read_dword :: "'h hivex_ops \<Rightarrow> 'h \<Rightarrow> nat \<Rightarrow> string \<Rightarrow> int option" where
  "read_dword hx h node key = (case read_value_dict hx h node key of
      Some (RegBytes raw) \<Rightarrow> if length raw \<ge> 4 then Some (from_le_bytes (take 4 raw)) else None
    | Some (RegInt i) \<Rightarrow> Some i
    | _ \<Rightarrow> None)"

definition pad3 :: "int \<Rightarrow> string" where
  "pad3 i = (if i < 0 then CHR ''-'' # replicate (2 - length (nat_str (nat (- i)))) CHR ''0'' @ nat_str (nat (- i))
             else replicate (3 - length (nat_str (nat i))) CHR ''0'' @ nat_str (nat i))"

definition default_controlset :: string where
  "default_controlset = ''ControlSet001''"

definition detect_current_controlset :: "'h hivex_ops \<Rightarrow> nat \<Rightarrow> 'h \<Rightarrow> string + string" where
  "detect_current_controlset hx rootn h =
     (if rootn = 0 then Inr default_controlset
      else sum_bind (child_id hx rootn ''Select'' h) (\<lambda>sel.
        if sel = 0 then Inr default_controlset
        else (case read_value_dict hx h sel ''Current'' of
                None \<Rightarrow> Inr default_controlset
              | Some (RegBytes raw) \<Rightarrow> Inr (''ControlSet'' @ pad3 (if length raw \<ge> 4 then from_le_bytes (take 4 raw) else 1))
              | Some (RegInt i) \<Rightarrow> Inr (''ControlSet'' @ pad3 i)
              | Some _ \<Rightarrow> Inr (''ControlSet'' @ pad3 1))))"

section \<open>Opening and committing\<close>

definition regf :: "byte list" where
  "regf = [0x72, 0x65, 0x67, 0x66]"

definition is_probably_regf :: "byte list \<Rightarrow> bool" where
  "is_probably_regf b \<longleftrightarrow> length b \<ge> 4 \<and> take 4 b = regf"

definition hive_missing :: "string \<Rightarrow> string" where
  "hive_missing path = ''Windows registry hive file not found at '' @ path @ ''. The hive may not have been downloaded from the guest disk.''"

definition hive_too_small :: "string \<Rightarrow> byte list \<Rightarrow> string" where
  "hive_too_small path b = ''Windows registry hive file at '' @ path @ '' is too small ('' @ nat_str (length b) @ '' bytes) '' @ em_dash @
     '' it may be corrupted or incomplete. Re-export the hive from the guest disk.''"

definition hive_not_regf :: "string \<Rightarrow> string" where
  "hive_not_regf path = ''File at '' @ path @ '' is not a valid Windows registry hive '' @ em_dash @
     '' missing '' @ [CHR 0x27] @ ''regf'' @ [CHR 0x27] @ '' signature. It may be corrupted or not a registry hive.''"

text \<open>The text about a missing library names the interpreter; it is a parameter of the library's record.\<close>

definition open_hive_local :: "'h hivex_ops \<Rightarrow> string \<Rightarrow> byte list option \<Rightarrow> bool \<Rightarrow> string + 'h" where
  "open_hive_local hx path local write = (case local of
      None \<Rightarrow> Inl (hive_missing path)
    | Some b \<Rightarrow>
        if length b < 4096 then Inl (hive_too_small path b)
        else if \<not> is_probably_regf b then Inl (hive_not_regf path)
        else (case hx_missing hx of Some e \<Rightarrow> Inl e | None \<Rightarrow> hx_open hx b write))"

definition no_commit :: string where
  "no_commit = ''python-hivex: unable to commit registry changes '' @ em_dash @ '' no compatible commit method found. This may indicate an incompatible python-hivex version. '' @
     ''Try upgrading: sudo dnf update python3-hivex (Fedora/RHEL)''"

text \<open>The two spellings of the method, each tried with an argument and, when that is a \<^verbatim>\<open>TypeError\<close>, without.\<close>

definition commit_with :: "'h hivex_ops \<Rightarrow> commit_call \<Rightarrow> commit_call \<Rightarrow> 'h \<Rightarrow> commit_outcome" where
  "commit_with hx with_none bare h = (case hx_commit hx with_none h of CommitTypeError _ \<Rightarrow> hx_commit hx bare h | r \<Rightarrow> r)"

definition commit_best_effort :: "'h hivex_ops \<Rightarrow> 'h \<Rightarrow> string + byte list" where
  "commit_best_effort hx h =
     (let first = hx_commit hx CommitNone h;
          second = (case commit_with hx HivexCommitNone HivexCommitBare h of
              Committed b \<Rightarrow> Inr b | NoMethod \<Rightarrow> Inl no_commit | CommitTypeError e \<Rightarrow> Inl e | CommitFailed e \<Rightarrow> Inl e)
      in case first of
           Committed b \<Rightarrow> Inr b
         | CommitTypeError _ \<Rightarrow> (case hx_commit hx CommitBare h of Committed b \<Rightarrow> Inr b | NoMethod \<Rightarrow> Inl no_commit | CommitTypeError e \<Rightarrow> Inl e | CommitFailed e \<Rightarrow> Inl e)
         | _ \<Rightarrow> second)"

end
