(* ===== verification/Hive_Transfer.thy ===== *)
theory Hive_Transfer
  imports Reg_Hive
begin

text \<open>
  Finding the Windows volume and moving hives between the guest and the host (\<^verbatim>\<open>io.py\<close> and \<^verbatim>\<open>mount.py\<close> of
  \<^verbatim>\<open>h2kvm/fixers/windows/registry\<close>). The library guestfs is a parameter: a record of its calls over the state
  of the guest. A download is believed only if the file it left looks like a hive.
\<close>

section \<open>The library guestfs\<close>

text \<open>The mount points of a system are a list of pairs or, for a handle made with \<^verbatim>\<open>python_return_dict\<close>, a
  dictionary.\<close>

datatype mountpoints = MpPairs "(string \<times> string) list" | MpDict "(string \<times> string) list"

text \<open>A download may raise and may leave a file, independently; the accessors that read a whole file are listed in
  the order in which they are tried, with what they returned as bytes.\<close>

record 'g guestfs_ops =
  gf_is_file :: "'g \<Rightarrow> string \<Rightarrow> string + bool"
  gf_download :: "'g \<Rightarrow> string \<Rightarrow> byte list option"
  gf_readers :: "('g \<Rightarrow> string \<Rightarrow> string + byte list) list"
  gf_cp :: "string \<Rightarrow> string \<Rightarrow> (string, unit, 'g) call"
  gf_upload :: "byte list \<Rightarrow> string \<Rightarrow> (string, unit, 'g) call"
  gf_inspect_os :: "'g \<Rightarrow> string + string list"
  gf_mountpoints :: "'g \<Rightarrow> string \<Rightarrow> string + mountpoints"
  gf_umount_all :: "'g \<Rightarrow> 'g"
  gf_mount :: "string \<Rightarrow> string \<Rightarrow> (string, unit, 'g) call"

section \<open>Download\<close>

definition usable_hive :: "byte list \<Rightarrow> bool" where
  "usable_hive b \<longleftrightarrow> length b \<ge> 4096 \<and> is_probably_regf b"

fun first_read :: "('g \<Rightarrow> string \<Rightarrow> string + byte list) list \<Rightarrow> 'g \<Rightarrow> string \<Rightarrow> byte list option" where
  "first_read [] g remote = None"
| "first_read (f # fs) g remote = (case f g remote of Inr b \<Rightarrow> Some b | Inl _ \<Rightarrow> first_read fs g remote)"

definition download_failed :: "string \<Rightarrow> string \<Rightarrow> byte list option \<Rightarrow> string" where
  "download_failed remote local data = ''Failed to download hive locally: remote='' @ remote @ '' local='' @ local @ '' (len='' @
     nat_str (case data of None \<Rightarrow> 0 | Some b \<Rightarrow> length b) @ '')''"

definition downloaded_not_regf :: "string \<Rightarrow> string" where
  "downloaded_not_regf local = ''Downloaded file at '' @ local @ '' is not a valid Windows registry hive '' @ em_dash @ '' it is missing the expected '' @
     [CHR 0x27] @ ''regf'' @ [CHR 0x27] @ '' signature. The file may be corrupted or not a registry hive.''"

definition download_hive_local :: "'g guestfs_ops \<Rightarrow> string \<Rightarrow> string \<Rightarrow> 'g \<Rightarrow> string + byte list" where
  "download_hive_local go remote local g =
     (let fallback = (case first_read (gf_readers go) g remote of
              None \<Rightarrow> Inl (download_failed remote local None)
            | Some b \<Rightarrow> if length b < 4096 then Inl (download_failed remote local (Some b))
                else if \<not> is_probably_regf b then Inl (downloaded_not_regf local) else Inr b)
      in case gf_download go g remote of Some b \<Rightarrow> if usable_hive b then Inr b else fallback | None \<Rightarrow> fallback)"

definition hive_candidates :: "string \<Rightarrow> string \<Rightarrow> string list" where
  "hive_candidates rootdir name = map (\<lambda>d. rootdir @ d @ name)
     [''/Windows/System32/config/'', ''/WINDOWS/System32/config/'', ''/Windows/System32/Config/'', ''/winnt/system32/config/'', ''/WINNT/system32/config/'']"

definition is_file_quiet :: "'g guestfs_ops \<Rightarrow> 'g \<Rightarrow> string \<Rightarrow> bool" where
  "is_file_quiet go g p = (case gf_is_file go g p of Inr b \<Rightarrow> b | Inl _ \<Rightarrow> False)"

definition detect_windows_hive :: "'g guestfs_ops \<Rightarrow> 'g \<Rightarrow> string \<Rightarrow> string \<Rightarrow> string option" where
  "detect_windows_hive go g rootdir name = find (is_file_quiet go g) (hive_candidates rootdir name)"

definition download_and_open_hive :: "'g guestfs_ops \<Rightarrow> 'h hivex_ops \<Rightarrow> string \<Rightarrow> string \<Rightarrow> bool \<Rightarrow> 'g \<Rightarrow> string + 'h" where
  "download_and_open_hive go hx remote local write g =
     (case hx_missing hx of
        Some e \<Rightarrow> Inl e
      | None \<Rightarrow> sum_bind (download_hive_local go remote local g) (\<lambda>b. open_hive_local hx local (Some b) write))"

definition open_system_hive_for_edit :: "'g guestfs_ops \<Rightarrow> 'h hivex_ops \<Rightarrow> string \<Rightarrow> string \<Rightarrow> 'g \<Rightarrow> string + ('h \<times> nat option \<times> string)" where
  "open_system_hive_for_edit go hx system_path local g =
     sum_bind (download_and_open_hive go hx system_path local True g) (\<lambda>h.
     sum_bind (detect_current_controlset hx (node_id (hx_root hx h)) h) (\<lambda>cs. Inr (h, hx_root hx h, cs)))"

section \<open>The Windows volume\<close>

definition win_expected_paths :: "string list" where
  "win_expected_paths = [''/Windows/System32/config/SYSTEM'', ''/Windows/System32/config/SOFTWARE'', ''/Windows/System32/cmd.exe'']"

fun guest_path_join_loop :: "string \<Rightarrow> string list \<Rightarrow> string" where
  "guest_path_join_loop out [] = out"
| "guest_path_join_loop out (p # ps) =
     (if p = [] then guest_path_join_loop out ps
      else if out = [] then guest_path_join_loop p ps
      else guest_path_join_loop (rev (dropWhile (\<lambda>c. c = CHR ''/'') (rev out)) @ ''/'' @ dropWhile (\<lambda>c. c = CHR ''/'') p) ps)"

definition guest_path_join :: "string list \<Rightarrow> string" where
  "guest_path_join parts = (let out = guest_path_join_loop [] parts in if out = [] then ''/'' else out)"

definition looks_like_windows_root :: "'g guestfs_ops \<Rightarrow> 'g \<Rightarrow> bool" where
  "looks_like_windows_root go g = list_all (is_file_quiet go g) win_expected_paths"

text \<open>The loop unpacks what iterating the mount points yields: pairs of a list, the keys of a dictionary.\<close>

fun unpack_key :: "string \<Rightarrow> string + (string \<times> string)" where
  "unpack_key [] = Inl ''not enough values to unpack (expected 2, got 0)''"
| "unpack_key [c] = Inl ''not enough values to unpack (expected 2, got 1)''"
| "unpack_key [c, d] = Inr ([c], [d])"
| "unpack_key (c # d # e # cs) = Inl ''too many values to unpack (expected 2)''"

definition mps_sorted :: "mountpoints \<Rightarrow> string + (string + (string \<times> string)) list" where
  "mps_sorted mps = (case mps of
      MpPairs ps \<Rightarrow> Inr (map Inr (sort_key (\<lambda>x. length (fst x)) ps))
    | MpDict kvs \<Rightarrow> if list_ex (\<lambda>(k, _). k = []) kvs then Inl ''string index out of range'' else Inr (map (unpack_key \<circ> fst) kvs))"

fun mount_all :: "'g guestfs_ops \<Rightarrow> (string + (string \<times> string)) list \<Rightarrow> (string, unit, 'g) call" where
  "mount_all go [] g = (Inr (), g)"
| "mount_all go (Inl e # rest) g = (Inl e, g)"
| "mount_all go (Inr (mp, dev) # rest) g = mount_all go rest (snd (gf_mount go dev mp g))"

definition mount_inspected_os :: "'g guestfs_ops \<Rightarrow> (string, bool, 'g) call" where
  "mount_inspected_os go g = (case gf_inspect_os go g of
      Inl _ \<Rightarrow> (Inr False, g)
    | Inr [] \<Rightarrow> (Inr False, g)
    | Inr (r # _) \<Rightarrow> (case gf_mountpoints go g r of
        Inl _ \<Rightarrow> (Inr False, g)
      | Inr mps \<Rightarrow> (case mps_sorted mps of
          Inl e \<Rightarrow> (Inl e, g)
        | Inr items \<Rightarrow> (case mount_all go items (gf_umount_all go g) of
              (Inl e, g1) \<Rightarrow> (Inl e, g1)
            | (Inr _, g1) \<Rightarrow> (Inr (looks_like_windows_root go g1), g1)))))"

definition no_windows_volume :: string where
  "no_windows_volume = ''Could not determine the Windows system volume (C: drive) on the disk image. '' @
     ''The disk may not contain a valid Windows installation, or the partition layout is non-standard. '' @
     ''Verify the disk contains an NTFS partition with a Windows directory.''"

definition hint_found :: "'g guestfs_ops \<Rightarrow> string option \<Rightarrow> 'g \<Rightarrow> bool" where
  "hint_found go hint g = (case hint of None \<Rightarrow> True | Some p \<Rightarrow> p = [] \<or> is_file_quiet go g p)"

definition ensure_windows_root :: "'g guestfs_ops \<Rightarrow> string option \<Rightarrow> (string, unit, 'g) call" where
  "ensure_windows_root go hint g =
     (if looks_like_windows_root go g \<and> hint_found go hint g then (Inr (), g)
      else (case mount_inspected_os go g of
              (Inl e, g1) \<Rightarrow> (Inl e, g1)
            | (Inr ok, g1) \<Rightarrow> if ok \<and> hint_found go hint g1 then (Inr (), g1) else (Inl no_windows_volume, g1)))"

section \<open>What these promise\<close>

lemma download_usable: "download_hive_local go remote local g = Inr b \<Longrightarrow> usable_hive b"
  by (auto simp: download_hive_local_def usable_hive_def Let_def split: option.splits if_splits)

lemma windows_root_found:
  "ensure_windows_root go (Some hive) g = (Inr (), g') \<Longrightarrow> hive \<noteq> [] \<Longrightarrow> looks_like_windows_root go g' \<and> is_file_quiet go g' hive"
  by (auto simp: ensure_windows_root_def hint_found_def mount_inspected_os_def Let_def split: if_splits sum.splits list.splits prod.splits)

text \<open>
  With a handle that returns mount points as a dictionary, which is how the program makes its handles, a
  guest whose volume is not mounted yet is never found: the loop unpacks the first key instead of a pair, so the search
  raises after it has unmounted everything, whatever the guest contains.
\<close>
theorem mountpoint_dict_is_not_mounted:
  assumes "\<not> looks_like_windows_root go g" and "gf_inspect_os go g = Inr (r # rs)"
    and "gf_mountpoints go g r = Inr (MpDict ((''/'', dev) # kvs))" and "list_all (\<lambda>(k, _). k \<noteq> []) kvs"
  shows "ensure_windows_root go hint g = (Inl ''not enough values to unpack (expected 2, got 1)'', gf_umount_all go g)"
proof -
  have "\<not> list_ex (\<lambda>(k, _). k = []) kvs"
    using assms(4) by (induction kvs) auto
  then have "mps_sorted (MpDict ((''/'', dev) # kvs)) = Inr (unpack_key ''/'' # map (unpack_key \<circ> fst) kvs)"
    by (simp add: mps_sorted_def)
  then have "mount_inspected_os go g = (Inl ''not enough values to unpack (expected 2, got 1)'', gf_umount_all go g)"
    using assms(2,3) by (simp add: mount_inspected_os_def)
  then show ?thesis
    using assms(1) by (simp add: ensure_windows_root_def)
qed

text \<open>A guest whose only partition is mounted by the first call of mount; its state says whether it is.\<close>

definition one_volume_guest :: "bool guestfs_ops" where
  "one_volume_guest = \<lparr>gf_is_file = \<lambda>g _. Inr g, gf_download = \<lambda>_ _. None, gf_readers = [], gf_cp = \<lambda>_ _ g. (Inr (), g),
     gf_upload = \<lambda>_ _ g. (Inr (), g), gf_inspect_os = \<lambda>_. Inr [''/dev/sda2''], gf_mountpoints = \<lambda>_ _. Inr (MpDict [(''/'', ''/dev/sda2'')]),
     gf_umount_all = \<lambda>_. False, gf_mount = \<lambda>_ _ g. (Inr (), True)\<rparr>"

theorem mountpoint_dict_is_not_mounted_witness:
  "ensure_windows_root one_volume_guest None False = (Inl ''not enough values to unpack (expected 2, got 1)'', False)"
  using mountpoint_dict_is_not_mounted [of one_volume_guest False "''/dev/sda2''" "[]" "''/dev/sda2''" "[]" None]
  by (simp add: one_volume_guest_def looks_like_windows_root_def win_expected_paths_def is_file_quiet_def)

lemma mountpoint_pairs_are_mounted: "ensure_windows_root (one_volume_guest\<lparr>gf_mountpoints := \<lambda>_ _. Inr (MpPairs [(''/'', ''/dev/sda2'')])\<rparr>) None False = (Inr (), True)"
  by (simp add: one_volume_guest_def looks_like_windows_root_def win_expected_paths_def is_file_quiet_def ensure_windows_root_def mount_inspected_os_def mps_sorted_def hint_found_def)

text \<open>
  Downloading and opening a hive fails only for a reason that the guest or the library gives: a download that is accepted
  has at least 4096 bytes and the signature, so opening it never fails for its size or its signature.
\<close>
theorem accepted_download_opens:
  assumes "download_hive_local go remote local g = Inr b"
  shows "length b \<ge> 4096 \<and> take 4 b = regf \<and> open_hive_local hx p (Some b) write = (case hx_missing hx of Some e \<Rightarrow> Inl e | None \<Rightarrow> hx_open hx b write)"
  using download_usable [OF assms] by (simp add: usable_hive_def is_probably_regf_def open_hive_local_def)

text \<open>A guest on which only the second accessor returns the hive.\<close>

definition example_reader_guest :: "unit guestfs_ops" where
  "example_reader_guest = \<lparr>gf_is_file = \<lambda>_ _. Inr True, gf_download = \<lambda>_ _. Some [], gf_readers = [\<lambda>_ _. Inl ''E'', \<lambda>_ _. Inr (regf @ replicate 4092 0)],
     gf_cp = \<lambda>_ _ g. (Inr (), g), gf_upload = \<lambda>_ _ g. (Inr (), g), gf_inspect_os = \<lambda>_. Inl [], gf_mountpoints = \<lambda>_ _. Inl [],
     gf_umount_all = id, gf_mount = \<lambda>_ _ g. (Inr (), g)\<rparr>"

lemma example_reader_guest_download: "download_hive_local example_reader_guest remote local () = Inr (regf @ replicate 4092 0)"
  by (simp add: example_reader_guest_def download_hive_local_def usable_hive_def is_probably_regf_def regf_def)

definition example_byte_ops :: "byte list hivex_ops" where
  "example_byte_ops = \<lparr>hx_missing = None, hx_open = \<lambda>b _. Inr b, hx_root = \<lambda>_. Some 1, hx_get_child = \<lambda>_ _ _. Inr None, hx_add_child = \<lambda>_ _ h. (Inl [], h),
     hx_set_value = \<lambda>_ _ h. (Inl [], h), hx_get_value = \<lambda>_ _ _. Inr None, hx_data = \<lambda>_ _ _. None, hx_delete_child = \<lambda>_ h. (Inl [], h), hx_commit = \<lambda>_ _. NoMethod\<rparr>"

theorem accepted_download_opens_witness:
  "open_hive_local example_byte_ops ''/tmp/SYSTEM'' (Some (regf @ replicate 4092 0)) True = Inr (regf @ replicate 4092 0)"
  using accepted_download_opens [OF example_reader_guest_download, of example_byte_ops] by (simp add: example_byte_ops_def)

end
