(* ===== verification/System_Hive.thy ===== *)
theory System_Hive
  imports Hive_Transfer
begin

text \<open>
  Editing the SYSTEM hive of a Windows guest (\<^verbatim>\<open>h2kvm/fixers/windows/registry/system.py\<close>): the services of the
  VirtIO drivers, the database of critical devices, the removal of VMware services, the commit and upload and
  the verification of what was written. Each driver and each PCI identifier has its own handler of exceptions, so that
  one that fails does not stop the others.
\<close>

section \<open>Drivers\<close>

text \<open>The start type of a driver: absent, an enumeration whose value may be missing, or a plain value; a
  conversion to a number may fail.\<close>

datatype start_conv = IntOk int | IntBad

datatype start_attr = NoStart | EnumStart "start_conv option" | PlainStart start_conv

record driver =
  drv_name :: string
  drv_service :: string
  drv_dest :: string
  drv_type :: string
  drv_start :: start_attr
  drv_class_guid :: string
  drv_pci_ids :: "string list"

definition conv_or :: "int \<Rightarrow> start_conv \<Rightarrow> int" where
  "conv_or fallback c = (case c of IntOk i \<Rightarrow> i | IntBad \<Rightarrow> fallback)"

definition driver_start_default :: "driver \<Rightarrow> int \<Rightarrow> int" where
  "driver_start_default d fallback = (case drv_start d of
      NoStart \<Rightarrow> fallback
    | EnumStart None \<Rightarrow> fallback
    | EnumStart (Some c) \<Rightarrow> conv_or fallback c
    | PlainStart c \<Rightarrow> conv_or fallback c)"

definition service_group_for_driver_type :: "string \<Rightarrow> string \<Rightarrow> string" where
  "service_group_for_driver_type t storage =
     (if t = storage then ''SCSI miniport'' else if t = ''network'' then ''NDIS'' else ''System Bus Extender'')"

definition image_path :: "string \<Rightarrow> string" where
  "image_path dest = [CHR 0x5C] @ ''SystemRoot'' @ [CHR 0x5C] @ ''System32'' @ [CHR 0x5C] @ ''drivers'' @ [CHR 0x5C] @ dest"

definition expected_start :: "string \<Rightarrow> int \<Rightarrow> driver \<Rightarrow> int" where
  "expected_start storage boot d = (if drv_type d = storage then boot else driver_start_default d 3)"

section \<open>Results\<close>

record svc_entry =
  se_service :: string
  se_type :: string
  se_start :: int
  se_group :: string
  se_image :: string
  se_action :: string

record cdd_entry =
  ce_pci :: string
  ce_service :: string
  ce_action :: string

record sys_results =
  sr_success :: bool
  sr_dry_run :: bool
  sr_modified :: bool
  sr_hive_path :: string
  sr_errors :: "string list"
  sr_services :: "svc_entry list"
  sr_cdd :: "cdd_entry list"
  sr_startoverride :: "string list"
  sr_vmware :: "string list"
  sr_verified :: "string list"
  sr_verification_errors :: "string list"
  sr_uploaded :: "(string \<times> string) list"
  sr_backup :: "string option"
  sr_verification :: "(string \<times> string \<times> bool) option"

definition empty_results :: "bool \<Rightarrow> string \<Rightarrow> sys_results" where
  "empty_results dry_run hive_path = \<lparr>sr_success = False, sr_dry_run = dry_run, sr_modified = False, sr_hive_path = hive_path, sr_errors = [], sr_services = [],
     sr_cdd = [], sr_startoverride = [], sr_vmware = [], sr_verified = [], sr_verification_errors = [], sr_uploaded = [], sr_backup = None, sr_verification = None\<rparr>"

abbreviation add_sys_error :: "string \<Rightarrow> sys_results \<Rightarrow> sys_results" where
  "add_sys_error e r \<equiv> r\<lparr>sr_errors := sr_errors r @ [e]\<rparr>"

section \<open>The control set\<close>

definition no_controlset :: string where
  "no_controlset = ''Windows registry SYSTEM hive has no usable ControlSet (tried CurrentControlSet and ControlSet001). '' @
     ''The Windows installation may be corrupted or in an unrecoverable state.''"

definition resolve_controlset_node :: "'h hivex_ops \<Rightarrow> nat \<Rightarrow> 'h \<Rightarrow> string + (string \<times> nat)" where
  "resolve_controlset_node hx rootn h =
     sum_bind (detect_current_controlset hx rootn h) (\<lambda>cs_name.
     sum_bind (child_id hx rootn cs_name h) (\<lambda>cs.
     if cs \<noteq> 0 then Inr (cs_name, cs)
     else sum_bind (child_id hx rootn default_controlset h) (\<lambda>cs. if cs = 0 then Inl no_controlset else Inr (default_controlset, cs))))"

section \<open>Services\<close>

definition service_not_created :: "string \<Rightarrow> string" where
  "service_not_created svc = ''Failed to create Windows registry service entry '' @ [CHR 0x27] @ svc @ [CHR 0x27] @
     ''. The SYSTEM hive may be read-only or corrupted.''"

definition find_or_add :: "'h hivex_ops \<Rightarrow> nat \<Rightarrow> string \<Rightarrow> string \<Rightarrow> (string, nat \<times> string, 'h) call" where
  "find_or_add hx p name failed =
     call_bind (call_lift (child_id hx p name)) (\<lambda>n.
     call_bind (if n = 0 then added_child hx p name else call_ret n) (\<lambda>n'.
     if n' = 0 then call_raise failed else call_ret (n', if n \<noteq> 0 then ''updated'' else ''created'')))"

definition write_service :: "'h hivex_ops \<Rightarrow> string \<Rightarrow> int \<Rightarrow> driver \<Rightarrow> nat \<Rightarrow> (string, unit, 'h) call" where
  "write_service hx storage boot d n =
     call_bind (set_dword hx n ''Type'' 1) (\<lambda>_.
     call_bind (set_dword hx n ''ErrorControl'' 1) (\<lambda>_.
     call_bind (set_dword hx n ''Start'' (expected_start storage boot d)) (\<lambda>_.
     call_bind (set_sz hx n ''Group'' (text_of (service_group_for_driver_type (drv_type d) storage))) (\<lambda>_.
     call_bind (set_sz hx n ''ImagePath'' (text_of (image_path (drv_dest d)))) (\<lambda>_.
     set_sz hx n ''DisplayName'' (text_of (drv_service d)))))))"

definition service_call :: "'h hivex_ops \<Rightarrow> nat \<Rightarrow> string \<Rightarrow> int \<Rightarrow> driver \<Rightarrow> (string, bool \<times> svc_entry, 'h) call" where
  "service_call hx services storage boot d =
     call_bind (find_or_add hx services (drv_service d) (service_not_created (drv_service d))) (\<lambda>(n, action).
     call_bind (write_service hx storage boot d n) (\<lambda>_.
     call_bind (delete_child_if_exists hx n ''StartOverride'') (\<lambda>removed.
     call_ret (removed, \<lparr>se_service = drv_service d, se_type = drv_type d, se_start = expected_start storage boot d,
        se_group = service_group_for_driver_type (drv_type d) storage, se_image = image_path (drv_dest d), se_action = action\<rparr>))))"

definition service_error :: "driver \<Rightarrow> string \<Rightarrow> string" where
  "service_error d e = ''Failed to register VirtIO driver service '' @ [CHR 0x27] @ drv_service d @ [CHR 0x27] @ '' (driver: '' @ drv_name d @
     '') in Windows registry: '' @ e @ ''. Without this service entry, the '' @ [CHR 0x27] @ drv_name d @ [CHR 0x27] @ '' driver will not load at boot. '' @
     ''If this is the storage driver (viostor), Windows will BSOD. Verify the SYSTEM hive is not corrupted: check Windows'' @ [CHR 0x5C] @ ''System32'' @
     [CHR 0x5C] @ ''config'' @ [CHR 0x5C] @ ''SYSTEM''"

fun edit_system_services :: "'h hivex_ops \<Rightarrow> nat \<Rightarrow> string \<Rightarrow> int \<Rightarrow> driver list \<Rightarrow> 'h \<times> sys_results \<Rightarrow> 'h \<times> sys_results" where
  "edit_system_services hx services storage boot [] s = s"
| "edit_system_services hx services storage boot (d # ds) (h, r) =
     edit_system_services hx services storage boot ds (case service_call hx services storage boot d h of
         (Inr (removed, entry), h1) \<Rightarrow>
           (h1, r\<lparr>sr_startoverride := sr_startoverride r @ (if removed then [drv_service d] else []), sr_services := sr_services r @ [entry]\<rparr>)
       | (Inl e, h1) \<Rightarrow> (h1, add_sys_error (service_error d e) r))"

section \<open>Critical devices\<close>

definition cdd_not_created :: "string \<Rightarrow> string" where
  "cdd_not_created pci = ''Failed to create Windows registry CriticalDeviceDatabase entry for PCI device '' @ [CHR 0x27] @ pci @ [CHR 0x27] @
     ''. The SYSTEM hive may be read-only or corrupted.''"

definition cdd_call :: "'h hivex_ops \<Rightarrow> nat \<Rightarrow> driver \<Rightarrow> string \<Rightarrow> (string, cdd_entry, 'h) call" where
  "cdd_call hx cdd d pci =
     call_bind (find_or_add hx cdd pci (cdd_not_created pci)) (\<lambda>(n, action).
     call_bind (set_sz hx n ''Service'' (text_of (drv_service d))) (\<lambda>_.
     call_bind (set_sz hx n ''ClassGUID'' (text_of (drv_class_guid d))) (\<lambda>_.
     call_bind (set_sz hx n ''Class'' (text_of ''SCSIAdapter'')) (\<lambda>_.
     call_bind (set_sz hx n ''DeviceDesc'' (text_of (drv_name d))) (\<lambda>_.
     call_ret \<lparr>ce_pci = pci, ce_service = drv_service d, ce_action = action\<rparr>)))))"

definition cdd_error :: "string \<Rightarrow> driver \<Rightarrow> string \<Rightarrow> string" where
  "cdd_error pci d e = ''Failed to register CriticalDeviceDatabase entry for PCI device '' @ [CHR 0x27] @ pci @ [CHR 0x27] @ '' (driver: '' @ drv_service d @
     ''): '' @ e @ ''. Without this entry, Windows may not recognize the VirtIO storage controller at boot, '' @
     ''which can cause a BSOD (inaccessible boot device). Verify the SYSTEM hive is writable and not corrupted.''"

fun cdd_loop :: "'h hivex_ops \<Rightarrow> nat \<Rightarrow> (driver \<times> string) list \<Rightarrow> 'h \<times> sys_results \<Rightarrow> 'h \<times> sys_results" where
  "cdd_loop hx cdd [] s = s"
| "cdd_loop hx cdd ((d, pci) # rest) (h, r) =
     cdd_loop hx cdd rest (case cdd_call hx cdd d pci h of
         (Inr entry, h1) \<Rightarrow> (h1, r\<lparr>sr_cdd := sr_cdd r @ [entry]\<rparr>)
       | (Inl e, h1) \<Rightarrow> (h1, add_sys_error (cdd_error pci d e) r))"

definition cdd_pairs :: "string \<Rightarrow> driver list \<Rightarrow> (driver \<times> string) list" where
  "cdd_pairs storage ds = concat (map (\<lambda>d. map (\<lambda>p. (d, p)) (filter (\<lambda>p. p \<noteq> []) (map strip (drv_pci_ids d)))) (filter (\<lambda>d. drv_type d = storage) ds))"

definition on_hive :: "(string, 'a, 'h) call \<Rightarrow> (string, 'a, 'h \<times> 'r) call" where
  "on_hive f s = (case s of (h, r) \<Rightarrow> (case f h of (x, h1) \<Rightarrow> (x, (h1, r))))"

definition edit_system_cdd :: "'h hivex_ops \<Rightarrow> nat \<Rightarrow> string \<Rightarrow> driver list \<Rightarrow> (string, unit, 'h \<times> sys_results) call" where
  "edit_system_cdd hx controlset storage ds =
     call_bind (on_hive (ensure_child hx controlset ''Control'')) (\<lambda>control.
     call_bind (on_hive (ensure_child hx control ''CriticalDeviceDatabase'')) (\<lambda>cdd s.
     (Inr (), cdd_loop hx cdd (cdd_pairs storage ds) s)))"

section \<open>VMware services\<close>

definition vmware_drivers :: "string list" where
  "vmware_drivers = [''vm3dmp'', ''vmmouse'', ''vmusbmouse'', ''vmxnet3'', ''vmxnet'', ''vmhgfs'', ''vmci'', ''vmscsi'', ''pvscsi'', ''vmmemctl'', ''vsock'',
     ''vmrawdsk'', ''vm3dservice'', ''vmvss'', ''VMTools'', ''VGAuthService'', ''vmware-aliases'', ''vmtoolsd'']"

fun remove_services :: "'h hivex_ops \<Rightarrow> nat \<Rightarrow> string list \<Rightarrow> 'h \<times> sys_results \<Rightarrow> 'h \<times> sys_results" where
  "remove_services hx services [] s = s"
| "remove_services hx services (x # xs) (h, r) =
     remove_services hx services xs (case child_id hx services x h of
         Inl _ \<Rightarrow> (h, r)
       | Inr n \<Rightarrow> if n = 0 then (h, r)
           else (case hx_delete_child hx (DelNode n) h of (Inr _, h1) \<Rightarrow> (h1, r\<lparr>sr_vmware := sr_vmware r @ [x]\<rparr>) | (Inl _, h1) \<Rightarrow> (h1, r)))"

definition edit_hive :: "'h hivex_ops \<Rightarrow> nat \<Rightarrow> string \<Rightarrow> int \<Rightarrow> driver list \<Rightarrow> (string, unit, 'h \<times> sys_results) call" where
  "edit_hive hx controlset storage boot ds =
     call_bind (on_hive (ensure_child hx controlset ''Services'')) (\<lambda>services s.
     call_bind (edit_system_cdd hx controlset storage ds) (\<lambda>_ s1.
       (Inr (), remove_services hx services vmware_drivers s1)) (edit_system_services hx services storage boot ds s))"

section \<open>Verification\<close>

definition start_mismatch :: "string \<Rightarrow> int option \<Rightarrow> int \<Rightarrow> string" where
  "start_mismatch svc got want = svc @ '' Start mismatch: got='' @ (case got of None \<Rightarrow> ''None'' | Some i \<Rightarrow> int_str i) @ '' expected='' @ int_str want"

fun verify_loop_services :: "'h hivex_ops \<Rightarrow> 'h \<Rightarrow> nat \<Rightarrow> string \<Rightarrow> int \<Rightarrow> driver list \<Rightarrow> (string, unit, sys_results) call" where
  "verify_loop_services hx h services storage boot [] r = (Inr (), r)"
| "verify_loop_services hx h services storage boot (d # ds) r = (case child_id hx services (drv_service d) h of
      Inl e \<Rightarrow> (Inl e, r)
    | Inr n \<Rightarrow> verify_loop_services hx h services storage boot ds
        (if n = 0 then r\<lparr>sr_verification_errors := sr_verification_errors r @ [''Missing service after edit: '' @ drv_service d]\<rparr>
         else (let got = read_dword hx h n ''Start''
               in if got = Some (expected_start storage boot d) then r\<lparr>sr_verified := sr_verified r @ [drv_service d]\<rparr>
                  else r\<lparr>sr_verification_errors := sr_verification_errors r @ [start_mismatch (drv_service d) got (expected_start storage boot d)]\<rparr>)))"

definition verify_services :: "'h hivex_ops \<Rightarrow> 'h \<Rightarrow> string \<Rightarrow> string \<Rightarrow> int \<Rightarrow> driver list \<Rightarrow> (string, unit, sys_results) call" where
  "verify_services hx h cs_name storage boot ds r =
     (let rootn = node_id (hx_root hx h);
          node = sum_bind (child_id hx rootn cs_name h) (\<lambda>cs.
            sum_bind (if cs = 0 then child_id hx rootn default_controlset h else Inr cs) (\<lambda>cs.
            if cs \<noteq> 0 then child_id hx cs ''Services'' h else Inr 0))
      in case node of
           Inl e \<Rightarrow> (Inl e, r)
         | Inr n \<Rightarrow> if n = 0 then (Inr (), r\<lparr>sr_verification_errors := sr_verification_errors r @ [''Verification failed: Services node missing'']\<rparr>)
                    else verify_loop_services hx h n storage boot ds r)"


section \<open>The whole edit\<close>

text \<open>What the edit is given: the libraries, the digest, the time stamp of the backup and the options.\<close>

record ('g, 'h) hive_env =
  hv_guestfs :: "'g guestfs_ops"
  hv_hivex :: "'h hivex_ops"
  hv_sha :: "byte list \<Rightarrow> string"
  hv_now :: string
  hv_dry_run :: bool

definition hive_backup_path :: "('g, 'h) hive_env \<Rightarrow> string \<Rightarrow> string" where
  "hive_backup_path env hive_path = hive_path @ ''.h2kvm.backup.'' @ hv_now env"

definition hive_backup :: "('g, 'h) hive_env \<Rightarrow> string \<Rightarrow> (string, unit, 'g) call" where
  "hive_backup env hive_path = (if hv_dry_run env then call_ret () else gf_cp (hv_guestfs env) hive_path (hive_backup_path env hive_path))"

definition backup_step :: "('g, 'h) hive_env \<Rightarrow> string \<Rightarrow> (string, unit, 'g \<times> sys_results) call" where
  "backup_step env hive_path s = (case s of (g, r) \<Rightarrow> (case hive_backup env hive_path g of
      (Inl e, g1) \<Rightarrow> (Inl e, (g1, r))
    | (Inr _, g1) \<Rightarrow> (Inr (), (g1, if hv_dry_run env then r else r\<lparr>sr_backup := Some (hive_backup_path env hive_path)\<rparr>))))"

definition upload_hive_and_verify :: "('g, 'h) hive_env \<Rightarrow> string \<Rightarrow> byte list \<Rightarrow> string \<Rightarrow> (string, unit, 'g \<times> sys_results) call" where
  "upload_hive_and_verify env hive_path data sha_before s = (case s of (g, r) \<Rightarrow>
     (case gf_upload (hv_guestfs env) data hive_path g of
        (Inl e, g1) \<Rightarrow> (Inl e, (g1, r))
      | (Inr _, g1) \<Rightarrow>
          (let r1 = r\<lparr>sr_uploaded := sr_uploaded r @ [(hive_path, hv_sha env data)]\<rparr>
           in case download_hive_local (hv_guestfs env) hive_path ''HIVE_verify'' g1 of
                Inl e \<Rightarrow> (Inl e, (g1, r1))
              | Inr b \<Rightarrow> (Inr (), (g1, r1\<lparr>sr_verification := Some (sha_before, hv_sha env b, hv_sha env b \<noteq> sha_before)\<rparr>)))))"

definition verify_step :: "('g, 'h) hive_env \<Rightarrow> string \<Rightarrow> string \<Rightarrow> string \<Rightarrow> int \<Rightarrow> driver list \<Rightarrow> (string, unit, 'g \<times> sys_results) call" where
  "verify_step env hive_path cs_name storage boot ds s = (case s of (g, r) \<Rightarrow>
     (case sum_bind (download_hive_local (hv_guestfs env) hive_path ''SYSTEM_verify'' g) (\<lambda>b. open_hive_local (hv_hivex env) ''SYSTEM_verify'' (Some b) False) of
        Inl e \<Rightarrow> (Inl e, (g, r))
      | Inr h \<Rightarrow> (case verify_services (hv_hivex env) h cs_name storage boot ds r of (x, r1) \<Rightarrow> (x, (g, r1)))))"

definition finish_edit :: "('g, 'h) hive_env \<Rightarrow> string \<Rightarrow> string \<Rightarrow> string \<Rightarrow> string \<Rightarrow> int \<Rightarrow> driver list \<Rightarrow> 'h \<Rightarrow> (string, unit, 'g \<times> sys_results) call" where
  "finish_edit env hive_path sha_before cs_name storage boot ds h =
     (if hv_dry_run env then call_ret ()
      else call_bind (call_lift (\<lambda>_. commit_best_effort (hv_hivex env) h)) (\<lambda>data.
           call_bind (upload_hive_and_verify env hive_path data sha_before) (\<lambda>_ s.
           (case s of (g, r) \<Rightarrow> verify_step env hive_path cs_name storage boot ds
              (g, r\<lparr>sr_modified := (case sr_verification r of None \<Rightarrow> False | Some (_, _, changed) \<Rightarrow> changed)\<rparr>)))))"

definition bad_root :: string where
  "bad_root = ''Windows registry SYSTEM hive is empty or corrupted '' @ em_dash @
     '' the root node could not be read. The hive file may be truncated or damaged.''"

definition edit_open_hive :: "('g, 'h) hive_env \<Rightarrow> string \<Rightarrow> driver list \<Rightarrow> string \<Rightarrow> int \<Rightarrow> string \<Rightarrow> 'h \<Rightarrow> (string, unit, 'g \<times> sys_results) call" where
  "edit_open_hive env hive_path ds storage boot sha_before h =
     (let hx = hv_hivex env; rootn = node_id (hx_root hx h)
      in if rootn = 0 then call_raise bad_root
         else call_bind (call_lift (\<lambda>_. resolve_controlset_node hx rootn h)) (\<lambda>(cs_name, cs) s.
           (case s of (g, r) \<Rightarrow> (case edit_hive hx cs storage boot ds (h, r) of
               (Inl e, (_, r1)) \<Rightarrow> (Inl e, (g, r1))
             | (Inr _, (h1, r1)) \<Rightarrow> finish_edit env hive_path sha_before cs_name storage boot ds h1 (g, r1)))))"

definition edit_body :: "('g, 'h) hive_env \<Rightarrow> string \<Rightarrow> driver list \<Rightarrow> string \<Rightarrow> int \<Rightarrow> (string, unit, 'g \<times> sys_results) call" where
  "edit_body env hive_path ds storage boot =
     call_bind (backup_step env hive_path) (\<lambda>_.
     call_bind (call_lift (\<lambda>(g, r). download_hive_local (hv_guestfs env) hive_path ''SYSTEM'' g)) (\<lambda>b.
     call_bind (call_lift (\<lambda>_. open_hive_local (hv_hivex env) ''SYSTEM'' (Some b) (\<not> hv_dry_run env))) (\<lambda>h.
     edit_open_hive env hive_path ds storage boot (hv_sha env b) h)))"

definition edit_system_hive :: "('g, 'h) hive_env \<Rightarrow> string \<Rightarrow> driver list \<Rightarrow> string \<Rightarrow> int \<Rightarrow> 'g \<Rightarrow> sys_results \<times> 'g" where
  "edit_system_hive env hive_path ds storage boot g =
     (let r = empty_results (hv_dry_run env) hive_path
      in case ensure_windows_root (hv_guestfs env) (Some hive_path) g of
           (Inl e, g1) \<Rightarrow> (add_sys_error e r, g1)
         | (Inr _, g1) \<Rightarrow> (case gf_is_file (hv_guestfs env) g1 hive_path of
               Inl e \<Rightarrow> (add_sys_error (''Failed to stat hive '' @ hive_path @ '': '' @ e) r, g1)
             | Inr False \<Rightarrow> (add_sys_error (''SYSTEM hive not found: '' @ hive_path) r, g1)
             | Inr True \<Rightarrow> (case edit_body env hive_path ds storage boot (g1, r) of
                   (Inr _, (g2, r1)) \<Rightarrow> (r1\<lparr>sr_success := (sr_errors r1 = [])\<rparr>, g2)
                 | (Inl e, (g2, r1)) \<Rightarrow> (add_sys_error (''Registry editing failed: '' @ e) r1, g2))))"

section \<open>One value\<close>

text \<open>The echo of the arguments and the notes of the result are left out.\<close>

record dword_results =
  dr_success :: bool
  dr_modified :: bool
  dr_original :: "int option"
  dr_new :: "int option"
  dr_dw_errors :: "string list"
  dr_uploaded :: "(string \<times> string) list"
  dr_backup :: "string option"
  dr_verification :: "(string \<times> string \<times> bool) option"

definition empty_dword_results :: dword_results where
  "empty_dword_results = \<lparr>dr_success = False, dr_modified = False, dr_original = None, dr_new = None, dr_dw_errors = [], dr_uploaded = [], dr_backup = None, dr_verification = None\<rparr>"

abbreviation add_dword_error :: "string \<Rightarrow> dword_results \<Rightarrow> dword_results" where
  "add_dword_error e r \<equiv> r\<lparr>dr_dw_errors := dr_dw_errors r @ [e]\<rparr>"

fun ensure_key_path :: "'h hivex_ops \<Rightarrow> nat \<Rightarrow> string list \<Rightarrow> (string, nat, 'h) call" where
  "ensure_key_path hx node [] = call_ret node"
| "ensure_key_path hx node (c # cs) = call_bind (ensure_child hx node c) (\<lambda>n. ensure_key_path hx n cs)"

definition set_key_dword :: "'h hivex_ops \<Rightarrow> nat \<Rightarrow> string list \<Rightarrow> string \<Rightarrow> int \<Rightarrow> (string, unit, 'h \<times> dword_results) call" where
  "set_key_dword hx cs key_path name v =
     call_bind (on_hive (ensure_key_path hx cs key_path)) (\<lambda>node s. (case s of (h, r) \<Rightarrow>
       (let old = read_dword hx h node name; r1 = r\<lparr>dr_original := old\<rparr>
        in if old = Some v then (Inr (), (h, r1\<lparr>dr_new := old\<rparr>))
           else (case set_dword hx node name v h of
                   (Inl e, h1) \<Rightarrow> (Inl e, (h1, r1))
                 | (Inr _, h1) \<Rightarrow> (Inr (), (h1, r1\<lparr>dr_modified := True, dr_new := Some v\<rparr>))))))"

definition dword_finish :: "('g, 'h) hive_env \<Rightarrow> string \<Rightarrow> string \<Rightarrow> 'h \<Rightarrow> (string, unit, 'g \<times> dword_results) call" where
  "dword_finish env hive_path sha_before h s = (case s of (g, r) \<Rightarrow>
     if hv_dry_run env then (Inr (), (g, r\<lparr>dr_success := True\<rparr>))
     else (case commit_best_effort (hv_hivex env) h of
             Inl e \<Rightarrow> (Inl e, (g, r))
           | Inr data \<Rightarrow> (case gf_upload (hv_guestfs env) data hive_path g of
               (Inl e, g1) \<Rightarrow> (Inl e, (g1, r))
             | (Inr _, g1) \<Rightarrow>
                 (let r1 = r\<lparr>dr_uploaded := dr_uploaded r @ [(hive_path, hv_sha env data)]\<rparr>
                  in case download_hive_local (hv_guestfs env) hive_path ''SYSTEM_verify'' g1 of
                       Inl e \<Rightarrow> (Inl e, (g1, r1))
                     | Inr b \<Rightarrow> (Inr (), (g1, r1\<lparr>dr_verification := Some (sha_before, hv_sha env b, hv_sha env b \<noteq> sha_before), dr_success := True\<rparr>))))))"

definition set_dword_body :: "('g, 'h) hive_env \<Rightarrow> string \<Rightarrow> string list \<Rightarrow> string \<Rightarrow> int \<Rightarrow> (string, unit, 'g \<times> dword_results) call" where
  "set_dword_body env hive_path key_path name v s = (case s of (g, r) \<Rightarrow>
     (let hx = hv_hivex env
      in case hive_backup env hive_path g of
           (Inl e, g1) \<Rightarrow> (Inl e, (g1, r))
         | (Inr _, g1) \<Rightarrow> (let r = (if hv_dry_run env then r else r\<lparr>dr_backup := Some (hive_backup_path env hive_path)\<rparr>) in
             (case sum_bind (download_hive_local (hv_guestfs env) hive_path ''SYSTEM'' g1) (\<lambda>b.
                   sum_bind (open_hive_local hx ''SYSTEM'' (Some b) (\<not> hv_dry_run env)) (\<lambda>h. Inr (b, h))) of
                Inl e \<Rightarrow> (Inl e, (g1, r))
              | Inr (b, h) \<Rightarrow>
                  if node_id (hx_root hx h) = 0 then (Inr (), (g1, add_dword_error ''Invalid hivex root()'' r))
                  else (case resolve_controlset_node hx (node_id (hx_root hx h)) h of
                          Inl e \<Rightarrow> (Inl e, (g1, r))
                        | Inr (cs_name, cs) \<Rightarrow> (case set_key_dword hx cs key_path name v (h, r) of
                            (Inl e, (_, r1)) \<Rightarrow> (Inl e, (g1, r1))
                          | (Inr _, (h1, r1)) \<Rightarrow> dword_finish env hive_path (hv_sha env b) h1 (g1, r1)))))))"

definition set_system_dword :: "('g, 'h) hive_env \<Rightarrow> string \<Rightarrow> string list \<Rightarrow> string \<Rightarrow> int \<Rightarrow> 'g \<Rightarrow> dword_results \<times> 'g" where
  "set_system_dword env hive_path key_path name v g =
     (let r = empty_dword_results
      in case ensure_windows_root (hv_guestfs env) (Some hive_path) g of
           (Inl e, g1) \<Rightarrow> (add_dword_error e r, g1)
         | (Inr _, g1) \<Rightarrow> (case gf_is_file (hv_guestfs env) g1 hive_path of
               Inl e \<Rightarrow> (add_dword_error (''Failed to stat hive '' @ hive_path @ '': '' @ e) r, g1)
             | Inr False \<Rightarrow> (add_dword_error (''SYSTEM hive not found: '' @ hive_path) r, g1)
             | Inr True \<Rightarrow> (case set_dword_body env hive_path key_path name v (g1, r) of
                   (Inr _, (g2, r1)) \<Rightarrow> (r1, g2)
                 | (Inl e, (g2, r1)) \<Rightarrow> (add_dword_error (''SYSTEM dword set failed: '' @ e) r1, g2))))"

end
