(* ===== verification/Hive_Services.thy ===== *)
theory Hive_Services
  imports System_Hive
begin

text \<open>
  What an edit of the SYSTEM hive leaves in it. The laws of hivex are stated for the handles that are sound (a
  parameter of the laws): keys form a tree in which every key but the root has one parent and one name, names are
  compared without case, a written value is read back, a new key has no children, and deleting a key removes what is
  below it and nothing else. A concrete hive at the end shows that the laws can be met.
\<close>

section \<open>Laws of hivex\<close>

definition same_key :: "string \<Rightarrow> string \<Rightarrow> bool" where
  "same_key a b \<longleftrightarrow> py_lower a = py_lower b"

inductive below :: "'h hivex_ops \<Rightarrow> 'h \<Rightarrow> nat \<Rightarrow> nat \<Rightarrow> bool" for hx h n where
  here: "below hx h n n"
| child: "below hx h n m \<Longrightarrow> hx_get_child hx h m c = Inr (Some k) \<Longrightarrow> below hx h n k"

definition tree_law :: "'h hivex_ops \<Rightarrow> ('h \<Rightarrow> bool) \<Rightarrow> bool" where
  "tree_law hx sound \<longleftrightarrow> (\<forall>h. sound h \<longrightarrow>
     (\<forall>p c n. hx_get_child hx h p c = Inr (Some n) \<longrightarrow> n \<noteq> 0 \<and> p \<noteq> 0 \<and> \<not> below hx h n p) \<and>
     (\<forall>p c q d n. hx_get_child hx h p c = Inr (Some n) \<longrightarrow> hx_get_child hx h q d = Inr (Some n) \<longrightarrow> p = q \<and> same_key c d) \<and>
     (\<forall>p c d. same_key c d \<longrightarrow> hx_get_child hx h p c = hx_get_child hx h p d))"

definition set_law :: "'h hivex_ops \<Rightarrow> ('h \<Rightarrow> bool) \<Rightarrow> bool" where
  "set_law hx sound \<longleftrightarrow> (\<forall>h n v h'. sound h \<longrightarrow> hx_set_value hx n v h = (Inr (), h') \<longrightarrow> sound h' \<and>
     (\<forall>m c. hx_get_child hx h' m c = hx_get_child hx h m c) \<and>
     (\<forall>m k. hx_data hx h' m k = (if m = n \<and> same_key k (rv_key v) then Some (rv_value v) else hx_data hx h m k)))"

definition add_law :: "'h hivex_ops \<Rightarrow> ('h \<Rightarrow> bool) \<Rightarrow> bool" where
  "add_law hx sound \<longleftrightarrow> (\<forall>h p c n h'. sound h \<longrightarrow> hx_get_child hx h p c = Inr None \<longrightarrow> hx_add_child hx p c h = (Inr (Some n), h') \<longrightarrow> sound h' \<and>
     (\<forall>q d. hx_get_child hx h q d \<noteq> Inr (Some n)) \<and> (\<forall>d k. hx_get_child hx h n d \<noteq> Inr (Some k)) \<and>
     (\<forall>q d. hx_get_child hx h' q d = (if q = p \<and> same_key d c then Inr (Some n) else if q = n then Inr None else hx_get_child hx h q d)) \<and>
     (\<forall>m k. m \<noteq> n \<longrightarrow> hx_data hx h' m k = hx_data hx h m k))"

definition delete_law :: "'h hivex_ops \<Rightarrow> ('h \<Rightarrow> bool) \<Rightarrow> bool" where
  "delete_law hx sound \<longleftrightarrow> (\<forall>h p c n h'. sound h \<longrightarrow> hx_get_child hx h p c = Inr (Some n) \<longrightarrow> hx_delete_child hx (DelNode n) h = (Inr (), h') \<longrightarrow> sound h' \<and>
     (\<forall>m. \<not> below hx h n m \<longrightarrow>
        (\<forall>d. hx_get_child hx h' m d = (if m = p \<and> same_key d c then Inr None else hx_get_child hx h m d)) \<and>
        (\<forall>k. hx_data hx h' m k = hx_data hx h m k)))"

text \<open>The library's \<^verbatim>\<open>node_delete_child\<close> takes one argument, so the calls with two raise; a call that raises has
  changed nothing.\<close>

definition raise_law :: "'h hivex_ops \<Rightarrow> bool" where
  "raise_law hx \<longleftrightarrow> (\<forall>h p c name. isl (fst (hx_delete_child hx (DelPair p c) h)) \<and> isl (fst (hx_delete_child hx (DelNamed p name) h))) \<and>
     (\<forall>a h e h'. hx_delete_child hx a h = (Inl e, h') \<longrightarrow> h' = h)"

definition hivex_laws :: "'h hivex_ops \<Rightarrow> ('h \<Rightarrow> bool) \<Rightarrow> bool" where
  "hivex_laws hx sound \<longleftrightarrow> tree_law hx sound \<and> set_law hx sound \<and> add_law hx sound \<and> delete_law hx sound \<and> raise_law hx"

text \<open>A handle opened for writing on which existing keys can be deleted.\<close>

definition deletes_children :: "'h hivex_ops \<Rightarrow> ('h \<Rightarrow> bool) \<Rightarrow> bool" where
  "deletes_children hx sound \<longleftrightarrow> (\<forall>h p c n. sound h \<longrightarrow> hx_get_child hx h p c = Inr (Some n) \<longrightarrow> \<not> isl (fst (hx_delete_child hx (DelNode n) h)))"

lemma same_key_sym: "same_key a b \<Longrightarrow> same_key b a"
  by (simp add: same_key_def)

lemma same_key_trans: "same_key a b \<Longrightarrow> same_key b c \<Longrightarrow> same_key a c"
  by (simp add: same_key_def)

lemma same_key_refl [simp]: "same_key a a"
  by (simp add: same_key_def)

lemma tree_nonzero:
  assumes "hivex_laws hx sound" "sound h" "hx_get_child hx h p c = Inr (Some n)"
  shows "n \<noteq> 0" "p \<noteq> 0" "\<not> below hx h n p"
  using assms unfolding hivex_laws_def tree_law_def by blast+

lemma one_parent:
  assumes "hivex_laws hx sound" "sound h" "hx_get_child hx h p c = Inr (Some n)" "hx_get_child hx h q d = Inr (Some n)"
  shows "p = q" "same_key c d"
  using assms unfolding hivex_laws_def tree_law_def by blast+

lemma same_child: "hivex_laws hx sound \<Longrightarrow> sound h \<Longrightarrow> same_key c d \<Longrightarrow> hx_get_child hx h p c = hx_get_child hx h p d"
  unfolding hivex_laws_def tree_law_def by blast

lemma below_child:
  assumes "hivex_laws hx sound" "sound h" "below hx h k n" "hx_get_child hx h p c = Inr (Some n)"
  shows "n = k \<or> below hx h k p"
  using assms(3)
proof cases
  case (child m d)
  from one_parent(1) [OF assms(1,2) child(2) assms(4)] child(1) show ?thesis by simp
qed simp

lemma set_effect:
  assumes "hivex_laws hx sound" "sound h" "hx_set_value hx n v h = (Inr (), h')"
  shows "sound h'" "hx_get_child hx h' = hx_get_child hx h"
    "hx_data hx h' m k = (if m = n \<and> same_key k (rv_key v) then Some (rv_value v) else hx_data hx h m k)"
proof -
  have "sound h' \<and> (\<forall>m c. hx_get_child hx h' m c = hx_get_child hx h m c) \<and>
     (\<forall>m k. hx_data hx h' m k = (if m = n \<and> same_key k (rv_key v) then Some (rv_value v) else hx_data hx h m k))"
    using assms unfolding hivex_laws_def set_law_def by blast
  then show "sound h'" "hx_get_child hx h' = hx_get_child hx h"
    "hx_data hx h' m k = (if m = n \<and> same_key k (rv_key v) then Some (rv_value v) else hx_data hx h m k)"
    by (auto simp: fun_eq_iff)
qed

lemma add_effect:
  assumes "hivex_laws hx sound" "sound h" "hx_get_child hx h p c = Inr None" "hx_add_child hx p c h = (Inr (Some n), h')"
  shows "sound h'" "hx_get_child hx h q d \<noteq> Inr (Some n)"
    "hx_get_child hx h' q d = (if q = p \<and> same_key d c then Inr (Some n) else if q = n then Inr None else hx_get_child hx h q d)"
    "m \<noteq> n \<Longrightarrow> hx_data hx h' m k = hx_data hx h m k" "hx_get_child hx h n d \<noteq> Inr (Some x)"
proof -
  have "sound h' \<and> (\<forall>q d. hx_get_child hx h q d \<noteq> Inr (Some n)) \<and> (\<forall>d k. hx_get_child hx h n d \<noteq> Inr (Some k)) \<and>
     (\<forall>q d. hx_get_child hx h' q d = (if q = p \<and> same_key d c then Inr (Some n) else if q = n then Inr None else hx_get_child hx h q d)) \<and>
     (\<forall>m k. m \<noteq> n \<longrightarrow> hx_data hx h' m k = hx_data hx h m k)"
    using assms unfolding hivex_laws_def add_law_def by blast
  then show "sound h'" "hx_get_child hx h q d \<noteq> Inr (Some n)"
    "hx_get_child hx h' q d = (if q = p \<and> same_key d c then Inr (Some n) else if q = n then Inr None else hx_get_child hx h q d)"
    "m \<noteq> n \<Longrightarrow> hx_data hx h' m k = hx_data hx h m k" "hx_get_child hx h n d \<noteq> Inr (Some x)" by blast+
qed

lemma delete_effect:
  assumes "hivex_laws hx sound" "sound h" "hx_get_child hx h p c = Inr (Some n)" "hx_delete_child hx (DelNode n) h = (Inr (), h')"
  shows "sound h'"
    "\<not> below hx h n m \<Longrightarrow> hx_get_child hx h' m d = (if m = p \<and> same_key d c then Inr None else hx_get_child hx h m d)"
    "\<not> below hx h n m \<Longrightarrow> hx_data hx h' m k = hx_data hx h m k"
proof -
  have "sound h' \<and> (\<forall>m. \<not> below hx h n m \<longrightarrow>
        (\<forall>d. hx_get_child hx h' m d = (if m = p \<and> same_key d c then Inr None else hx_get_child hx h m d)) \<and>
        (\<forall>k. hx_data hx h' m k = hx_data hx h m k))"
    using assms unfolding hivex_laws_def delete_law_def by blast
  then show "sound h'"
    "\<not> below hx h n m \<Longrightarrow> hx_get_child hx h' m d = (if m = p \<and> same_key d c then Inr None else hx_get_child hx h m d)"
    "\<not> below hx h n m \<Longrightarrow> hx_data hx h' m k = hx_data hx h m k" by blast+
qed


section \<open>A service that Windows will load\<close>

abbreviation child_at :: "'h hivex_ops \<Rightarrow> 'h \<Rightarrow> nat \<Rightarrow> string \<Rightarrow> nat \<Rightarrow> bool" where
  "child_at hx h p c n \<equiv> hx_get_child hx h p c = Inr (Some n)"

definition stored_dword :: "'h hivex_ops \<Rightarrow> 'h \<Rightarrow> nat \<Rightarrow> string \<Rightarrow> int option" where
  "stored_dword hx h n k = (case hx_data hx h n k of Some b \<Rightarrow> decode_dword b | None \<Rightarrow> None)"

definition service_values :: "'h hivex_ops \<Rightarrow> string \<Rightarrow> int \<Rightarrow> driver \<Rightarrow> nat \<Rightarrow> 'h \<Rightarrow> bool" where
  "service_values hx storage boot d n h \<longleftrightarrow>
     stored_dword hx h n ''Type'' = Some 1 \<and> stored_dword hx h n ''Start'' = Some (if drv_type d = storage then boot else driver_start_default d 3) \<and>
     hx_data hx h n ''Group'' = Some (reg_sz (text_of (service_group_for_driver_type (drv_type d) storage))) \<and>
     hx_data hx h n ''ImagePath'' = Some (reg_sz (text_of (image_path (drv_dest d))))"

definition service_ready :: "'h hivex_ops \<Rightarrow> nat \<Rightarrow> string \<Rightarrow> int \<Rightarrow> driver \<Rightarrow> 'h \<Rightarrow> bool" where
  "service_ready hx services storage boot d h \<longleftrightarrow> (\<exists>n. child_at hx h services (drv_service d) n \<and>
     service_values hx storage boot d n h \<and> hx_get_child hx h n ''StartOverride'' = Inr None)"

lemma service_values_cong:
  assumes "\<And>k. hx_data hx h' n k = hx_data hx h n k"
  shows "service_values hx storage boot d n h' = service_values hx storage boot d n h"
  by (simp add: service_values_def stored_dword_def assms)

lemma ready_set:
  assumes laws: "hivex_laws hx sound" "sound h" and set: "hx_set_value hx m v h = (Inr (), h')"
    and ready: "service_ready hx sn storage boot d h" and other: "\<And>n. child_at hx h sn (drv_service d) n \<Longrightarrow> m \<noteq> n"
  shows "service_ready hx sn storage boot d h'"
proof -
  from ready obtain n where n: "child_at hx h sn (drv_service d) n" "service_values hx storage boot d n h" "hx_get_child hx h n ''StartOverride'' = Inr None"
    by (auto simp: service_ready_def)
  note e = set_effect [OF laws set]
  have "service_values hx storage boot d n h'"
    using service_values_cong [of hx h' n h] e(3) other [OF n(1)] n(2) by simp
  with n e(2) show ?thesis unfolding service_ready_def by auto
qed

lemma ready_add:
  assumes laws: "hivex_laws hx sound" "sound h" and fresh: "hx_get_child hx h p c = Inr None" and add: "hx_add_child hx p c h = (Inr (Some m), h')"
    and ready: "service_ready hx sn storage boot d h" and other: "\<And>n. child_at hx h sn (drv_service d) n \<Longrightarrow> p \<noteq> n" and sn: "m \<noteq> sn"
  shows "service_ready hx sn storage boot d h'"
proof -
  from ready obtain n where n: "child_at hx h sn (drv_service d) n" "service_values hx storage boot d n h" "hx_get_child hx h n ''StartOverride'' = Inr None"
    by (auto simp: service_ready_def)
  note e = add_effect [OF laws fresh add]
  have mn: "m \<noteq> n" using e(2) n(1) by blast
  have "\<not> (sn = p \<and> same_key (drv_service d) c)" using same_child [OF laws] n(1) fresh by auto
  then have "child_at hx h' sn (drv_service d) n" using e(3) n(1) sn by auto
  moreover have "service_values hx storage boot d n h'" using service_values_cong [of hx h' n h] e(4) mn n(2) by simp
  moreover have "hx_get_child hx h' n ''StartOverride'' = Inr None" using e(3) other [OF n(1)] n(3) by simp
  ultimately show ?thesis unfolding service_ready_def by blast
qed

lemma ready_delete:
  assumes laws: "hivex_laws hx sound" "sound h" and c: "child_at hx h p c m" and del: "hx_delete_child hx (DelNode m) h = (Inr (), h')"
    and ready: "service_ready hx sn storage boot d h" and sn: "\<not> below hx h m sn" and other: "\<not> (p = sn \<and> same_key (drv_service d) c)"
    and n_below: "\<And>n. child_at hx h sn (drv_service d) n \<Longrightarrow> n \<noteq> m"
  shows "service_ready hx sn storage boot d h'"
proof -
  from ready obtain n where n: "child_at hx h sn (drv_service d) n" "service_values hx storage boot d n h" "hx_get_child hx h n ''StartOverride'' = Inr None"
    by (auto simp: service_ready_def)
  note e = delete_effect [OF laws c del]
  have nb: "\<not> below hx h m n" using below_child [OF laws _ n(1), of m] sn n_below [OF n(1)] by blast
  from e(2) [OF sn] other n(1) have "child_at hx h' sn (drv_service d) n" by auto
  moreover have "service_values hx storage boot d n h'" using service_values_cong [of hx h' n h] e(3) [OF nb] n(2) by simp
  moreover have "hx_get_child hx h' n ''StartOverride'' = Inr None" using e(2) [OF nb] n(3) by simp
  ultimately show ?thesis unfolding service_ready_def by blast
qed


section \<open>Single calls\<close>

lemma set_sz_ok: "set_sz hx n k s h = (Inr (), h') \<longleftrightarrow> n \<noteq> 0 \<and> hx_set_value hx n (mk_reg_value k 1 (reg_sz s)) h = (Inr (), h')"
  by (simp add: set_sz_def)

lemma set_dword_ok:
  "set_dword hx n k v h = (Inr (), h') \<longleftrightarrow> n \<noteq> 0 \<and> 0 \<le> v \<and> v < 2 ^ 32 \<and> hx_set_value hx n (mk_reg_value k 4 (le_bytes 4 v)) h = (Inr (), h')"
  by (auto simp: set_dword_def dword_bytes_def split: sum.splits)

lemma child_id_Inr: "child_id hx p c h = Inr n \<longleftrightarrow> (hx_get_child hx h p c = Inr None \<and> n = 0) \<or> hx_get_child hx h p c = Inr (Some n)"
  by (cases "hx_get_child hx h p c") (auto simp: child_id_def node_id_def split: option.splits)

lemma added_child_ok: "added_child hx p c h = (Inr n, h') \<longleftrightarrow> (\<exists>x. hx_add_child hx p c h = (Inr x, h') \<and> n = node_id x)"
  by (auto simp: added_child_def call_bind_Inr)

text \<open>A key that is looked up and added when it is missing: the key is there afterwards, no edge is lost and the other
  services stay as they were.\<close>

definition adds_key :: "'h hivex_ops \<Rightarrow> ('h \<Rightarrow> bool) \<Rightarrow> nat \<Rightarrow> string \<Rightarrow> nat \<Rightarrow> 'h \<Rightarrow> 'h \<Rightarrow> bool" where
  "adds_key hx sound p c n h h' \<longleftrightarrow> sound h' \<and> child_at hx h' p c n \<and> (\<forall>q e k. child_at hx h q e k \<longrightarrow> child_at hx h' q e k) \<and>
     (\<forall>cs e sn storage boot d. child_at hx h cs e sn \<longrightarrow> service_ready hx sn storage boot d h \<longrightarrow> (\<forall>k. child_at hx h sn (drv_service d) k \<longrightarrow> p \<noteq> k) \<longrightarrow>
        service_ready hx sn storage boot d h')"

lemma adds_key_add:
  assumes laws: "hivex_laws hx sound" "sound h" and fresh: "hx_get_child hx h p c = Inr None" and add: "hx_add_child hx p c h = (Inr (Some n), h')"
  shows "adds_key hx sound p c n h h'"
proof -
  note e = add_effect [OF laws fresh add]
  have "child_at hx h' q f k" if k: "child_at hx h q f k" for q f k
  proof -
    have "\<not> (q = p \<and> same_key f c)" using same_child [OF laws] k fresh by auto
    moreover have "q \<noteq> n" using e(5) k by blast
    ultimately show ?thesis using e(3) k by auto
  qed
  moreover have "service_ready hx sn storage boot d h'"
    if "child_at hx h cs f sn" "service_ready hx sn storage boot d h" "\<forall>k. child_at hx h sn (drv_service d) k \<longrightarrow> p \<noteq> k" for cs f sn storage boot d
  proof -
    have "n \<noteq> sn" using e(2) that(1) by blast
    then show ?thesis using ready_add [OF laws fresh add that(2)] that(3) by blast
  qed
  ultimately show ?thesis using e(1,3) unfolding adds_key_def by (auto simp: e(3))
qed

lemma adds_key_same: "sound h \<Longrightarrow> child_at hx h p c n \<Longrightarrow> adds_key hx sound p c n h h"
  by (simp add: adds_key_def)

lemma lookup_or_add:
  assumes laws: "hivex_laws hx sound" "sound h" and "child_id hx p c h = Inr m"
    and "(if m = 0 then added_child hx p c else call_ret m) h = (Inr n, h')" and "n \<noteq> 0"
  shows "adds_key hx sound p c n h h'"
proof (cases "m = 0")
  case True
  then have none: "hx_get_child hx h p c = Inr None" using assms(3) tree_nonzero(1) [OF laws] by (auto simp: child_id_Inr)
  from True assms(4,5) have "hx_add_child hx p c h = (Inr (Some n), h')" by (auto simp: added_child_ok node_id_def split: option.splits)
  then show ?thesis by (rule adds_key_add [OF laws none])
next
  case False
  with assms(3,4) have "child_at hx h p c n" "h' = h" by (auto simp: child_id_Inr)
  then show ?thesis using adds_key_same [of sound h] laws(2) by simp
qed

lemma find_or_add_effect:
  assumes "hivex_laws hx sound" "sound h" and "find_or_add hx p c failed h = (Inr (n, a), h')"
  shows "adds_key hx sound p c n h h'"
proof -
  from assms(3) obtain m where "child_id hx p c h = Inr m" "(if m = 0 then added_child hx p c else call_ret m) h = (Inr n, h')" "n \<noteq> 0"
    by (auto simp: find_or_add_def call_bind_Inr split: if_splits)
  then show ?thesis by (rule lookup_or_add [OF assms(1,2)])
qed

lemma ensure_child_effect:
  assumes "hivex_laws hx sound" "sound h" and "ensure_child hx p c h = (Inr n, h')"
  shows "adds_key hx sound p c n h h'"
proof -
  from assms(3) obtain m where "child_id hx p c h = Inr m" "(if m = 0 then added_child hx p c else call_ret m) h = (Inr n, h')" "n \<noteq> 0"
    by (auto simp: ensure_child_def call_bind_Inr split: if_splits)
  then show ?thesis by (rule lookup_or_add [OF assms(1,2)])
qed

section \<open>Writing the values\<close>

text \<open>Writing to one key leaves the tree and the values of the other keys.\<close>

definition writes_at :: "'h hivex_ops \<Rightarrow> ('h \<Rightarrow> bool) \<Rightarrow> nat \<Rightarrow> 'h \<Rightarrow> 'h \<Rightarrow> bool" where
  "writes_at hx sound n h h' \<longleftrightarrow> sound h' \<and> hx_get_child hx h' = hx_get_child hx h \<and> (\<forall>m k. m \<noteq> n \<longrightarrow> hx_data hx h' m k = hx_data hx h m k)"

lemma writes_trans: "writes_at hx sound n h h1 \<Longrightarrow> writes_at hx sound n h1 h2 \<Longrightarrow> writes_at hx sound n h h2"
  by (simp add: writes_at_def)

lemma writes_set: "hivex_laws hx sound \<Longrightarrow> sound h \<Longrightarrow> hx_set_value hx n v h = (Inr (), h') \<Longrightarrow> writes_at hx sound n h h'"
  by (simp add: writes_at_def set_effect)

lemma writes_ready:
  assumes "writes_at hx sound m h h'" and "service_ready hx sn storage boot d h" and "\<And>n. child_at hx h sn (drv_service d) n \<Longrightarrow> m \<noteq> n"
  shows "service_ready hx sn storage boot d h'"
  using assms service_values_cong [of hx h' _ h] unfolding service_ready_def writes_at_def by metis

lemma other_keys:
  "\<not> same_key ''Type'' ''ErrorControl''" "\<not> same_key ''Type'' ''Start''" "\<not> same_key ''Type'' ''Group''" "\<not> same_key ''Type'' ''ImagePath''"
  "\<not> same_key ''Type'' ''DisplayName''" "\<not> same_key ''Start'' ''Group''" "\<not> same_key ''Start'' ''ImagePath''" "\<not> same_key ''Start'' ''DisplayName''"
  "\<not> same_key ''Group'' ''ImagePath''" "\<not> same_key ''Group'' ''DisplayName''" "\<not> same_key ''ImagePath'' ''DisplayName''"
  by code_simp+


lemma read_written: "0 \<le> v \<Longrightarrow> v < 2 ^ 32 \<Longrightarrow> hx_data hx h n k = Some (le_bytes 4 v) \<Longrightarrow> stored_dword hx h n k = Some v"
  by (simp add: stored_dword_def decode_dword_def from_le_bytes)

lemma write_service_effect:
  assumes laws: "hivex_laws hx sound" "sound h" and w: "write_service hx storage boot d n h = (Inr (), h')"
  shows "writes_at hx sound n h h'" and "service_values hx storage boot d n h'"
proof -
  let ?v = "expected_start storage boot d"
  from w obtain h1 h2 h3 h4 h5 where s: "n \<noteq> 0" "hx_set_value hx n (mk_reg_value ''Type'' 4 (le_bytes 4 1)) h = (Inr (), h1)"
    "hx_set_value hx n (mk_reg_value ''ErrorControl'' 4 (le_bytes 4 1)) h1 = (Inr (), h2)"
    "0 \<le> ?v" "?v < 2 ^ 32" "hx_set_value hx n (mk_reg_value ''Start'' 4 (le_bytes 4 ?v)) h2 = (Inr (), h3)"
    "hx_set_value hx n (mk_reg_value ''Group'' 1 (reg_sz (text_of (service_group_for_driver_type (drv_type d) storage)))) h3 = (Inr (), h4)"
    "hx_set_value hx n (mk_reg_value ''ImagePath'' 1 (reg_sz (text_of (image_path (drv_dest d))))) h4 = (Inr (), h5)"
    "hx_set_value hx n (mk_reg_value ''DisplayName'' 1 (reg_sz (text_of (drv_service d)))) h5 = (Inr (), h')"
    by (auto simp: write_service_def call_bind_Inr set_sz_ok set_dword_ok)
  have e1: "sound h1" using set_effect(1) [OF laws s(2)] .
  have e2: "sound h2" using set_effect(1) [OF laws(1) e1 s(3)] .
  have e3: "sound h3" using set_effect(1) [OF laws(1) e2 s(6)] .
  have e4: "sound h4" using set_effect(1) [OF laws(1) e3 s(7)] .
  have e5: "sound h5" using set_effect(1) [OF laws(1) e4 s(8)] .
  note w1 = writes_set [OF laws s(2)] and w2 = writes_set [OF laws(1) e1 s(3)] and w3 = writes_set [OF laws(1) e2 s(6)]
    and w4 = writes_set [OF laws(1) e3 s(7)] and w5 = writes_set [OF laws(1) e4 s(8)] and w6 = writes_set [OF laws(1) e5 s(9)]
  show "writes_at hx sound n h h'"
    by (rule writes_trans [OF writes_trans [OF writes_trans [OF writes_trans [OF writes_trans [OF w1 w2] w3] w4] w5] w6])
  note vals = set_effect(3) [OF laws s(2)] set_effect(3) [OF laws(1) e1 s(3)] set_effect(3) [OF laws(1) e2 s(6)] set_effect(3) [OF laws(1) e3 s(7)]
    set_effect(3) [OF laws(1) e4 s(8)] set_effect(3) [OF laws(1) e5 s(9)]
  have "hx_data hx h' n ''Type'' = Some (le_bytes 4 1)" "hx_data hx h' n ''Start'' = Some (le_bytes 4 ?v)"
    "hx_data hx h' n ''Group'' = Some (reg_sz (text_of (service_group_for_driver_type (drv_type d) storage)))"
    "hx_data hx h' n ''ImagePath'' = Some (reg_sz (text_of (image_path (drv_dest d))))"
    by (simp_all add: vals mk_reg_value_def other_keys del: le_bytes.simps)
  then show "service_values hx storage boot d n h'"
    using read_written [of 1 hx h' n "''Type''"] read_written [OF s(4,5), of hx h' n "''Start''"] by (simp add: service_values_def expected_start_def)
qed

section \<open>Removing a key\<close>

lemma try_deletes_node:
  assumes "raise_law hx" and "\<not> isl (fst (hx_delete_child hx (DelNode k) h))"
  shows "\<exists>h'. try_deletes hx [DelPair p k, DelNamed p c, DelNode k] h = (True, h') \<and> hx_delete_child hx (DelNode k) h = (Inr (), h')"
proof -
  obtain e1 e2 where d: "hx_delete_child hx (DelPair p k) h = (Inl e1, h)" "hx_delete_child hx (DelNamed p c) h = (Inl e2, h)"
    using assms(1) unfolding raise_law_def by (metis fst_conv isl_def prod.collapse)
  obtain h' where "hx_delete_child hx (DelNode k) h = (Inr (), h')"
    using assms(2) by (cases "hx_delete_child hx (DelNode k) h"; cases "fst (hx_delete_child hx (DelNode k) h)") auto
  with d show ?thesis by simp
qed

lemma delete_if_exists_effect:
  assumes laws: "hivex_laws hx sound" "sound h" "deletes_children hx sound" and p: "p \<noteq> 0"
    and del: "delete_child_if_exists hx p c h = (Inr b, h')"
  shows "h' = h \<and> hx_get_child hx h p c = Inr None \<or>
    (\<exists>k. child_at hx h p c k \<and> hx_delete_child hx (DelNode k) h = (Inr (), h'))"
proof -
  from del p obtain k where k: "child_id hx p c h = Inr k" and r: "(if k = 0 then (Inr False, h)
      else case try_deletes hx [DelPair p k, DelNamed p c, DelNode k] h of (b, h1) \<Rightarrow> (Inr b, h1)) = (Inr b :: string + bool, h')"
    by (auto simp: delete_child_if_exists_def call_bind_Inr)
  show ?thesis
  proof (cases "k = 0")
    case True
    with k tree_nonzero(1) [OF laws(1,2)] have "hx_get_child hx h p c = Inr None" by (auto simp: child_id_Inr)
    with True r show ?thesis by simp
  next
    case False
    with k have c: "child_at hx h p c k" by (simp add: child_id_Inr)
    with laws have "raise_law hx" "\<not> isl (fst (hx_delete_child hx (DelNode k) h))" unfolding hivex_laws_def deletes_children_def by blast+
    from try_deletes_node [OF this, of p c] False r c show ?thesis by auto
  qed
qed


section \<open>The services\<close>

text \<open>The place of the services in the tree, and the drivers that are ready there.\<close>

definition services_inv :: "'h hivex_ops \<Rightarrow> ('h \<Rightarrow> bool) \<Rightarrow> nat \<Rightarrow> nat \<Rightarrow> string \<Rightarrow> int \<Rightarrow> driver set \<Rightarrow> 'h \<Rightarrow> bool" where
  "services_inv hx sound cs sn storage boot D h \<longleftrightarrow> sound h \<and> child_at hx h cs ''Services'' sn \<and> (\<forall>d\<in>D. service_ready hx sn storage boot d h)"

lemma adds_services:
  assumes "adds_key hx sound p c n h h'" and "services_inv hx sound cs sn storage boot D h"
    and "\<And>d k. d \<in> D \<Longrightarrow> child_at hx h sn (drv_service d) k \<Longrightarrow> p \<noteq> k"
  shows "services_inv hx sound cs sn storage boot D h'"
  using assms unfolding services_inv_def adds_key_def by blast

lemma writes_services:
  assumes "writes_at hx sound m h h'" and "services_inv hx sound cs sn storage boot D h"
    and "\<And>d k. d \<in> D \<Longrightarrow> child_at hx h sn (drv_service d) k \<Longrightarrow> m \<noteq> k"
  shows "services_inv hx sound cs sn storage boot D h'"
proof -
  have "service_ready hx sn storage boot d h'" if "d \<in> D" for d
    using writes_ready [OF assms(1), of sn storage boot d] assms(2,3) that unfolding services_inv_def by blast
  with assms(1,2) show ?thesis by (simp add: services_inv_def writes_at_def)
qed

lemma services_not_own_child:
  assumes laws: "hivex_laws hx sound" "sound h" and "child_at hx h cs ''Services'' sn" "child_at hx h sn s k"
  shows "sn \<noteq> k" "cs \<noteq> k" "sn \<noteq> cs"
proof -
  note t1 = tree_nonzero(3) [OF laws assms(3)] and t2 = tree_nonzero(3) [OF laws assms(4)]
  from t2 below.here [of hx h k] show "sn \<noteq> k" by metis
  from t1 below.here [of hx h sn] show "sn \<noteq> cs" by metis
  from t1 below.child [OF below.here assms(4)] show "cs \<noteq> k" by metis
qed

lemma delete_services:
  assumes laws: "hivex_laws hx sound" and inv: "services_inv hx sound cs sn storage boot D h" and c: "child_at hx h p c m"
    and del: "hx_delete_child hx (DelNode m) h = (Inr (), h')" and sn: "\<not> below hx h m sn" "\<not> (p = cs \<and> same_key ''Services'' c)"
    and other: "\<And>d. d \<in> D \<Longrightarrow> \<not> (p = sn \<and> same_key (drv_service d) c)" and k: "\<And>d k. d \<in> D \<Longrightarrow> child_at hx h sn (drv_service d) k \<Longrightarrow> k \<noteq> m"
  shows "services_inv hx sound cs sn storage boot D h'"
proof -
  from inv have i: "sound h" "child_at hx h cs ''Services'' sn" by (simp_all add: services_inv_def)
  note e = delete_effect [OF laws i(1) c del]
  have "\<not> below hx h m cs" using below.child [OF _ i(2), of m] sn(1) by blast
  from e(2) [OF this] i(2) sn(2) have "child_at hx h' cs ''Services'' sn" by auto
  moreover have "service_ready hx sn storage boot d h'" if "d \<in> D" for d
    using ready_delete [OF laws i(1) c del _ sn(1) other [OF that] k [OF that]] inv that by (simp add: services_inv_def)
  ultimately show ?thesis using e(1) by (simp add: services_inv_def)
qed

lemma service_call_effect:
  assumes laws: "hivex_laws hx sound" "deletes_children hx sound" and inv: "services_inv hx sound cs sn storage boot D h"
    and call: "service_call hx sn storage boot d h = (Inr x, h')" and names: "\<And>e. e \<in> D \<Longrightarrow> \<not> same_key (drv_service e) (drv_service d)"
  shows "services_inv hx sound cs sn storage boot (insert d D) h'"
proof -
  from call obtain n a h1 h2 b where f: "find_or_add hx sn (drv_service d) (service_not_created (drv_service d)) h = (Inr (n, a), h1)"
    and w: "write_service hx storage boot d n h1 = (Inr (), h2)" and del: "delete_child_if_exists hx n ''StartOverride'' h2 = (Inr b, h')"
    by (auto simp: service_call_def call_bind_Inr)
  from inv have i: "sound h" "child_at hx h cs ''Services'' sn" by (simp_all add: services_inv_def)
  note add = find_or_add_effect [OF laws(1) i(1) f]
  have "sn \<noteq> k" if "child_at hx h sn s k" for s k using services_not_own_child(1) [OF laws(1) i that] .
  with adds_services [OF add inv] have inv1: "services_inv hx sound cs sn storage boot D h1" by blast
  from add have s1: "sound h1" and n: "child_at hx h1 sn (drv_service d) n" by (simp_all add: adds_key_def)
  have other: "n \<noteq> k" if "e \<in> D" "child_at hx h1 sn (drv_service e) k" for e k
    using one_parent(2) [OF laws(1) s1 that(2)] n names [OF that(1)] by blast
  note w1 = write_service_effect [OF laws(1) s1 w]
  from writes_services [OF w1(1) inv1] other have inv2: "services_inv hx sound cs sn storage boot D h2" by blast
  from w1(1) have s2: "sound h2" and eq: "hx_get_child hx h2 = hx_get_child hx h1" by (simp_all add: writes_at_def)
  from n eq have n2: "child_at hx h2 sn (drv_service d) n" by simp
  from inv2 have cs2: "child_at hx h2 cs ''Services'' sn" by (simp add: services_inv_def)
  have n0: "n \<noteq> 0" using tree_nonzero(1) [OF laws(1) s2 n2] .
  from delete_if_exists_effect [OF laws(1) s2 laws(2) n0 del] show ?thesis
  proof
    assume "h' = h2 \<and> hx_get_child hx h2 n ''StartOverride'' = Inr None"
    with inv2 n2 w1(2) show ?thesis by (auto simp: services_inv_def service_ready_def)
  next
    assume "\<exists>k. child_at hx h2 n ''StartOverride'' k \<and> hx_delete_child hx (DelNode k) h2 = (Inr (), h')"
    then obtain k where k: "child_at hx h2 n ''StartOverride'' k" and dk: "hx_delete_child hx (DelNode k) h2 = (Inr (), h')" by blast
    note e = delete_effect [OF laws(1) s2 k dk]
    have nk: "\<not> below hx h2 k n" using tree_nonzero(3) [OF laws(1) s2 k] .
    have snk: "\<not> below hx h2 k sn" using below.child [OF _ n2, of k] nk by blast
    note ne = services_not_own_child [OF laws(1) s2 cs2 n2]
    have kd: "k' \<noteq> k" if "child_at hx h2 sn s k'" for s k' using one_parent(1) [OF laws(1) s2 that, of n] k ne(1) by blast
    have inv3: "services_inv hx sound cs sn storage boot D h'"
      by (rule delete_services [OF laws(1) inv2 k dk snk]) (use ne kd in blast)+
    have "child_at hx h' sn (drv_service d) n" using e(2) [OF snk] n2 ne(1) by auto
    moreover have "service_values hx storage boot d n h'" using service_values_cong [of hx h' n h2] e(3) [OF nk] w1(2) by simp
    moreover have "hx_get_child hx h' n ''StartOverride'' = Inr None" using e(2) [OF nk] by simp
    ultimately show ?thesis using inv3 by (auto simp: services_inv_def service_ready_def)
  qed
qed


lemma services_errors_grow: "sr_errors (snd (edit_system_services hx sn storage boot ds s)) = [] \<Longrightarrow> sr_errors (snd s) = []"
  by (induction hx sn storage boot ds s rule: edit_system_services.induct) (auto split: prod.splits sum.splits)

lemma edit_services_effect:
  assumes laws: "hivex_laws hx sound" "deletes_children hx sound"
  shows "services_inv hx sound cs sn storage boot D h \<Longrightarrow> edit_system_services hx sn storage boot ds (h, r) = (h', r') \<Longrightarrow> sr_errors r' = [] \<Longrightarrow>
    distinct (map (py_lower \<circ> drv_service) ds) \<Longrightarrow> (\<forall>e\<in>D. \<forall>d\<in>set ds. \<not> same_key (drv_service e) (drv_service d)) \<Longrightarrow>
    services_inv hx sound cs sn storage boot (D \<union> set ds) h'"
proof (induction ds arbitrary: D h r)
  case (Cons d ds)
  obtain x h1 where call: "service_call hx sn storage boot d h = (x, h1)" by fastforce
  show ?case
  proof (cases x)
    case (Inl e)
    with Cons.prems(2) call have "edit_system_services hx sn storage boot ds (h1, add_sys_error (service_error d e) r) = (h', r')" by simp
    with services_errors_grow [of hx sn storage boot ds "(h1, add_sys_error (service_error d e) r)"] Cons.prems(3) show ?thesis by simp
  next
    case (Inr y)
    obtain removed entry where y: "y = (removed, entry)" by fastforce
    from Inr y Cons.prems(2) call obtain r1 where rest: "edit_system_services hx sn storage boot ds (h1, r1) = (h', r')" by simp
    from Inr call have ok: "service_call hx sn storage boot d h = (Inr y, h1)" by simp
    have "services_inv hx sound cs sn storage boot (insert d D) h1"
      by (rule service_call_effect [OF laws Cons.prems(1) ok]) (use Cons.prems(5) in simp)
    from Cons.IH [OF this rest Cons.prems(3)] Cons.prems(4,5) show ?thesis by (auto simp: same_key_def)
  qed
qed simp

section \<open>Critical devices and VMware services\<close>

definition cdd_inv :: "'h hivex_ops \<Rightarrow> ('h \<Rightarrow> bool) \<Rightarrow> nat \<Rightarrow> nat \<Rightarrow> nat \<Rightarrow> nat \<Rightarrow> string \<Rightarrow> int \<Rightarrow> driver set \<Rightarrow> 'h \<Rightarrow> bool" where
  "cdd_inv hx sound cs sn control cdd storage boot D h \<longleftrightarrow> services_inv hx sound cs sn storage boot D h \<and>
     child_at hx h cs ''Control'' control \<and> child_at hx h control ''CriticalDeviceDatabase'' cdd"

lemma control_not_services: "\<not> same_key ''Control'' ''Services''"
  by code_simp

lemma cdd_apart:
  assumes laws: "hivex_laws hx sound" and inv: "cdd_inv hx sound cs sn control cdd storage boot D h" and k: "child_at hx h sn s k"
  shows "cdd \<noteq> k" and "child_at hx h cdd pci n \<Longrightarrow> n \<noteq> k"
proof -
  from inv have i: "sound h" "child_at hx h cs ''Services'' sn" "child_at hx h cs ''Control'' control" "child_at hx h control ''CriticalDeviceDatabase'' cdd"
    by (simp_all add: cdd_inv_def services_inv_def)
  have 1: "control \<noteq> sn" using one_parent(2) [OF laws i(1) i(3), of cs "''Services''"] i(2) control_not_services by blast
  have 2: "control \<noteq> cs" using tree_nonzero(3) [OF laws i(1) i(3)] below.here [of hx h control] by metis
  show "cdd \<noteq> k" using one_parent(1) [OF laws i(1) i(4), of sn s] k 1 by blast
  show "n \<noteq> k" if "child_at hx h cdd pci n"
  proof
    assume "n = k"
    with that k have "cdd = sn" using one_parent(1) [OF laws i(1) that, of sn s] by simp
    with i(4,2) have "control = cs" using one_parent(1) [OF laws i(1) i(4), of cs "''Services''"] by simp
    with 2 show False by simp
  qed
qed

lemma adds_cdd:
  assumes "adds_key hx sound p c n h h'" and "cdd_inv hx sound cs sn control cdd storage boot D h"
    and "\<And>d k. d \<in> D \<Longrightarrow> child_at hx h sn (drv_service d) k \<Longrightarrow> p \<noteq> k"
  shows "cdd_inv hx sound cs sn control cdd storage boot D h'"
  using assms adds_services [OF assms(1), of cs sn storage boot D] unfolding cdd_inv_def adds_key_def by blast

lemma writes_cdd:
  assumes "writes_at hx sound m h h'" and "cdd_inv hx sound cs sn control cdd storage boot D h"
    and "\<And>d k. d \<in> D \<Longrightarrow> child_at hx h sn (drv_service d) k \<Longrightarrow> m \<noteq> k"
  shows "cdd_inv hx sound cs sn control cdd storage boot D h'"
proof -
  have "hx_get_child hx h' = hx_get_child hx h" using assms(1) by (simp add: writes_at_def)
  with assms writes_services [OF assms(1), of cs sn storage boot D] show ?thesis by (simp add: cdd_inv_def)
qed

lemma set_sz_writes: "hivex_laws hx sound \<Longrightarrow> sound h \<Longrightarrow> set_sz hx n k s h = (Inr (), h') \<Longrightarrow> writes_at hx sound n h h'"
  by (auto simp: set_sz_ok intro: writes_set)

lemma cdd_call_effect:
  assumes laws: "hivex_laws hx sound" and inv: "cdd_inv hx sound cs sn control cdd storage boot D h" and call: "cdd_call hx cdd d pci h = (Inr x, h')"
  shows "cdd_inv hx sound cs sn control cdd storage boot D h'"
proof -
  from inv have s: "sound h" by (simp add: cdd_inv_def services_inv_def)
  from call obtain n a h1 h2 h3 h4 where f: "find_or_add hx cdd pci (cdd_not_created pci) h = (Inr (n, a), h1)"
    and w: "set_sz hx n ''Service'' (text_of (drv_service d)) h1 = (Inr (), h2)" "set_sz hx n ''ClassGUID'' (text_of (drv_class_guid d)) h2 = (Inr (), h3)"
      "set_sz hx n ''Class'' (text_of ''SCSIAdapter'') h3 = (Inr (), h4)" "set_sz hx n ''DeviceDesc'' (text_of (drv_name d)) h4 = (Inr (), h')"
    by (auto simp: cdd_call_def call_bind_Inr)
  note add = find_or_add_effect [OF laws s f]
  from adds_cdd [OF add inv] cdd_apart(1) [OF laws inv] have inv1: "cdd_inv hx sound cs sn control cdd storage boot D h1" by blast
  from add have s1: "sound h1" and n: "child_at hx h1 cdd pci n" by (simp_all add: adds_key_def)
  have w1: "writes_at hx sound n h1 h2" using set_sz_writes [OF laws s1 w(1)] .
  then have w2: "writes_at hx sound n h2 h3" using set_sz_writes [OF laws _ w(2)] by (simp add: writes_at_def)
  then have w3: "writes_at hx sound n h3 h4" using set_sz_writes [OF laws _ w(3)] by (simp add: writes_at_def)
  then have w4: "writes_at hx sound n h4 h'" using set_sz_writes [OF laws _ w(4)] by (simp add: writes_at_def)
  from writes_trans [OF writes_trans [OF writes_trans [OF w1 w2] w3] w4] have "writes_at hx sound n h1 h'" .
  from writes_cdd [OF this inv1] cdd_apart(2) [OF laws inv1 _ n] show ?thesis by blast
qed

lemma cdd_errors_grow: "sr_errors (snd (cdd_loop hx cdd ps s)) = [] \<Longrightarrow> sr_errors (snd s) = []"
  by (induction hx cdd ps s rule: cdd_loop.induct) (auto split: prod.splits sum.splits)

lemma cdd_loop_effect:
  assumes laws: "hivex_laws hx sound"
  shows "cdd_inv hx sound cs sn control cdd storage boot D h \<Longrightarrow> cdd_loop hx cdd ps (h, r) = (h', r') \<Longrightarrow> sr_errors r' = [] \<Longrightarrow>
    cdd_inv hx sound cs sn control cdd storage boot D h'"
proof (induction ps arbitrary: h r)
  case (Cons p ps)
  obtain d pci where p: "p = (d, pci)" by fastforce
  obtain x h1 where call: "cdd_call hx cdd d pci h = (x, h1)" by fastforce
  show ?case
  proof (cases x)
    case (Inl e)
    with Cons.prems(2) call p have "cdd_loop hx cdd ps (h1, add_sys_error (cdd_error pci d e) r) = (h', r')" by simp
    with cdd_errors_grow [of hx cdd ps "(h1, add_sys_error (cdd_error pci d e) r)"] Cons.prems(3) show ?thesis by simp
  next
    case (Inr y)
    with Cons.prems(2) call p obtain r1 where rest: "cdd_loop hx cdd ps (h1, r1) = (h', r')" by simp
    from Inr call have "cdd_call hx cdd d pci h = (Inr y, h1)" by simp
    from Cons.IH [OF cdd_call_effect [OF laws Cons.prems(1) this] rest Cons.prems(3)] show ?thesis .
  qed
qed simp

lemma remove_errors [simp]: "sr_errors (snd (remove_services hx sn xs s)) = sr_errors (snd s)"
  by (induction hx sn xs s rule: remove_services.induct) (auto split: sum.splits prod.splits)

lemma remove_services_effect:
  assumes laws: "hivex_laws hx sound"
  shows "services_inv hx sound cs sn storage boot D h \<Longrightarrow> remove_services hx sn xs (h, r) = (h', r') \<Longrightarrow>
    (\<forall>d\<in>D. \<forall>x\<in>set xs. \<not> same_key (drv_service d) x) \<Longrightarrow> services_inv hx sound cs sn storage boot D h'"
proof (induction xs arbitrary: h r)
  case (Cons x xs)
  from Cons.prems(1) have i: "sound h" "child_at hx h cs ''Services'' sn" by (simp_all add: services_inv_def)
  show ?case
  proof (cases "\<exists>n. child_at hx h sn x n \<and> \<not> isl (fst (hx_delete_child hx (DelNode n) h))")
    case False
    have "remove_services hx sn xs (h, r) = (h', r')"
    proof (cases "\<exists>n. n \<noteq> 0 \<and> child_id hx sn x h = Inr n")
      case True
      then obtain n where n: "n \<noteq> 0" "child_id hx sn x h = Inr n" by blast
      with False have "isl (fst (hx_delete_child hx (DelNode n) h))" by (auto simp: child_id_Inr)
      then obtain e where "hx_delete_child hx (DelNode n) h = (Inl e, h)"
        using laws unfolding hivex_laws_def raise_law_def by (metis isl_def prod.collapse)
      with n Cons.prems(2) show ?thesis by simp
    next
      case False
      with Cons.prems(2) show ?thesis by (cases "child_id hx sn x h") auto
    qed
    with Cons.IH [OF Cons.prems(1)] Cons.prems(3) show ?thesis by simp
  next
    case True
    then obtain n h1 where n: "child_at hx h sn x n" and del: "hx_delete_child hx (DelNode n) h = (Inr (), h1)"
      by (metis isl_def old.unit.exhaust prod.collapse sum.collapse(2))
    have nz: "n \<noteq> 0" using tree_nonzero(1) [OF laws i(1) n] .
    note ne = services_not_own_child [OF laws i n]
    have snb: "\<not> below hx h n sn" using tree_nonzero(3) [OF laws i(1) n] .
    have k: "k \<noteq> n" if "d \<in> D" "child_at hx h sn (drv_service d) k" for d k
      using one_parent(2) [OF laws i(1) that(2)] n Cons.prems(3) that(1) by fastforce
    have "services_inv hx sound cs sn storage boot D h1"
      by (rule delete_services [OF laws Cons.prems(1) n del snb]) (use ne k Cons.prems(3) in auto)
    moreover from Cons.prems(2) n nz del obtain r1 where "remove_services hx sn xs (h1, r1) = (h', r')"
      by (auto simp: child_id_def node_id_def)
    ultimately show ?thesis using Cons.IH Cons.prems(3) by simp
  qed
qed simp


section \<open>The edited hive\<close>

lemma on_hive_ok: "on_hive f (h, r) = (x, s') \<longleftrightarrow> (\<exists>h'. f h = (x, h') \<and> s' = (h', r))"
  by (auto simp: on_hive_def split: prod.splits)

lemma edit_cdd_errors:
  assumes "edit_system_cdd hx cs storage ds (h, r) = (Inr (), (h', r'))" and "sr_errors r' = []"
  shows "sr_errors r = []"
proof -
  from assms(1) obtain cdd h2 where "cdd_loop hx cdd (cdd_pairs storage ds) (h2, r) = (h', r')"
    by (auto simp: edit_system_cdd_def call_bind_Inr on_hive_ok)
  with cdd_errors_grow [of hx cdd "cdd_pairs storage ds" "(h2, r)"] assms(2) show ?thesis by simp
qed

lemma edit_cdd_effect:
  assumes laws: "hivex_laws hx sound" and inv: "services_inv hx sound cs sn storage boot D h"
    and ed: "edit_system_cdd hx cs storage ds (h, r) = (Inr (), (h', r'))" and "sr_errors r' = []"
  shows "services_inv hx sound cs sn storage boot D h'"
proof -
  from ed obtain control cdd h1 h2 where e1: "ensure_child hx cs ''Control'' h = (Inr control, h1)"
    and e2: "ensure_child hx control ''CriticalDeviceDatabase'' h1 = (Inr cdd, h2)" and loop: "cdd_loop hx cdd (cdd_pairs storage ds) (h2, r) = (h', r')"
    by (auto simp: edit_system_cdd_def call_bind_Inr on_hive_ok)
  from inv have i: "sound h" "child_at hx h cs ''Services'' sn" by (simp_all add: services_inv_def)
  note a1 = ensure_child_effect [OF laws i(1) e1]
  from services_not_own_child(2) [OF laws i] adds_services [OF a1 inv] have inv1: "services_inv hx sound cs sn storage boot D h1" by blast
  from a1 have s1: "sound h1" and c1: "child_at hx h1 cs ''Control'' control" by (simp_all add: adds_key_def)
  from inv1 have sn1: "child_at hx h1 cs ''Services'' sn" by (simp add: services_inv_def)
  note a2 = ensure_child_effect [OF laws s1 e2]
  have "control \<noteq> k" if "child_at hx h1 sn s k" for s k
    using one_parent(1) [OF laws s1 c1, of sn s] that services_not_own_child(3) [OF laws s1 sn1 that] by blast
  with adds_services [OF a2 inv1] have inv2: "services_inv hx sound cs sn storage boot D h2" by blast
  from a2 c1 have "cdd_inv hx sound cs sn control cdd storage boot D h2" using inv2 unfolding cdd_inv_def adds_key_def by blast
  from cdd_loop_effect [OF laws this loop assms(4)] show "services_inv hx sound cs sn storage boot D h'" by (simp add: cdd_inv_def)
qed

text \<open>
  C27 (safety). After an edit of the SYSTEM hive that reports no error, every driver has its service under the control set that was
  edited: a kernel driver with the start value it needs (the boot value for a storage driver), its group and image path
  in place, and no key \<^verbatim>\<open>StartOverride\<close> that could disable it. This needs drivers with distinct names that are not names of
  VMware services, and a handle that lets keys be deleted.
\<close>
theorem edited_services_are_ready:
  assumes "hivex_laws hx sound" and "deletes_children hx sound" and "sound h"
    and "edit_hive hx cs storage boot ds (h, r) = (Inr (), (h', r'))" and "sr_errors r' = []"
    and "distinct (map (py_lower \<circ> drv_service) ds)" and "\<forall>d\<in>set ds. \<forall>x\<in>set vmware_drivers. \<not> same_key (drv_service d) x"
  shows "\<exists>sn. child_at hx h' cs ''Services'' sn \<and> (\<forall>d\<in>set ds. service_ready hx sn storage boot d h')"
proof -
  from assms(4) obtain sn h1 h3 r3 where e: "ensure_child hx cs ''Services'' h = (Inr sn, h1)"
    and c: "edit_system_cdd hx cs storage ds (edit_system_services hx sn storage boot ds (h1, r)) = (Inr (), (h3, r3))"
    and rem: "remove_services hx sn vmware_drivers (h3, r3) = (h', r')"
    by (auto simp: edit_hive_def call_bind_Inr on_hive_ok)
  obtain h2 r2 where svc: "edit_system_services hx sn storage boot ds (h1, r) = (h2, r2)" by fastforce
  with c have cdd: "edit_system_cdd hx cs storage ds (h2, r2) = (Inr (), (h3, r3))" by simp
  from remove_errors [of hx sn vmware_drivers "(h3, r3)"] rem assms(5) have r3: "sr_errors r3 = []" by simp
  from ensure_child_effect [OF assms(1,3) e] have "services_inv hx sound cs sn storage boot {} h1" by (simp add: adds_key_def services_inv_def)
  note i2 = edit_services_effect [OF assms(1,2) this svc]
  obtain D where D: "D = set ds" by simp
  from edit_cdd_errors [OF cdd r3] have "sr_errors r2 = []" .
  with i2 assms(6) D have "services_inv hx sound cs sn storage boot D h2" by simp
  from edit_cdd_effect [OF assms(1) this cdd r3] have "services_inv hx sound cs sn storage boot D h3" .
  from remove_services_effect [OF assms(1) this rem] assms(7) D have "services_inv hx sound cs sn storage boot D h'" by simp
  with D show ?thesis by (auto simp: services_inv_def)
qed


section \<open>A hive in memory\<close>

text \<open>Keys by parent and name without case, with the next free handle, and values by key and name: a hive that satisfies the
  laws, used to show that they can be satisfied.\<close>

record mem_hive =
  mh_next :: nat
  mh_keys :: "((nat \<times> string) \<times> nat) list"
  mh_values :: "((nat \<times> string) \<times> byte list) list"

definition mem_ops :: "mem_hive hivex_ops" where
  "mem_ops = \<lparr>hx_missing = None, hx_open = \<lambda>_ _. Inl ''closed'', hx_root = \<lambda>_. Some 1,
     hx_get_child = \<lambda>h p c. Inr (map_of (mh_keys h) (p, py_lower c)),
     hx_add_child = \<lambda>p c h. if 0 < p \<and> p < mh_next h then (Inr (Some (mh_next h)), h\<lparr>mh_next := Suc (mh_next h), mh_keys := ((p, py_lower c), mh_next h) # mh_keys h\<rparr>)
        else (Inl ''no such key'', h),
     hx_set_value = \<lambda>n v h. (Inr (), h\<lparr>mh_values := ((n, py_lower (rv_key v)), rv_value v) # mh_values h\<rparr>),
     hx_get_value = \<lambda>h n k. Inr (map_option (\<lambda>_. GotHandle n) (map_of (mh_values h) (n, py_lower k))),
     hx_data = \<lambda>h n k. map_of (mh_values h) (n, py_lower k),
     hx_delete_child = \<lambda>a h. (case a of DelNode n \<Rightarrow> (Inr (), h\<lparr>mh_keys := filter (\<lambda>(k, i). i \<noteq> n) (mh_keys h)\<rparr>) | _ \<Rightarrow> (Inl ''one argument'', h)),
     hx_commit = \<lambda>_ _. NoMethod\<rparr>"

definition mem_sound :: "mem_hive \<Rightarrow> bool" where
  "mem_sound h \<longleftrightarrow> distinct (map fst (mh_keys h)) \<and> distinct (map snd (mh_keys h)) \<and> list_all (\<lambda>((p, c), i). 0 < p \<and> p < i \<and> i < mh_next h) (mh_keys h)"

lemma mem_child [simp]: "hx_get_child mem_ops h p c = Inr x \<longleftrightarrow> map_of (mh_keys h) (p, py_lower c) = x"
  by (simp add: mem_ops_def)

lemma mem_edge: "mem_sound h \<Longrightarrow> map_of (mh_keys h) (p, c) = Some n \<Longrightarrow> 0 < p \<and> p < n \<and> n < mh_next h"
  by (auto simp: mem_sound_def list_all_iff dest: map_of_SomeD)

lemma mem_below: "below mem_ops h n m \<Longrightarrow> mem_sound h \<Longrightarrow> n \<le> m"
proof (induction rule: below.induct)
  case (child m c k)
  then have "map_of (mh_keys h) (m, py_lower c) = Some k" by (simp add: mem_ops_def)
  from mem_edge [OF child.prems this] child.IH [OF child.prems] show ?case by simp
qed simp

lemma mem_one_parent:
  assumes "mem_sound h" "map_of (mh_keys h) a = Some n" "map_of (mh_keys h) b = Some n"
  shows "a = b"
proof -
  have "distinct (map snd (mh_keys h))" using assms(1) by (simp add: mem_sound_def)
  with map_of_SomeD [OF assms(2)] map_of_SomeD [OF assms(3)] show ?thesis by (metis distinct_map inj_onD prod.sel(2) prod.inject)
qed

lemma mem_filter: "distinct (map fst ks) \<Longrightarrow> map_of (filter (\<lambda>(k, i). i \<noteq> n) ks) a = (if map_of ks a = Some n then None else map_of ks a)"
  by (induction ks) (auto simp: map_of_eq_None_iff split: if_splits dest: map_of_SomeD)

lemma mem_tree: "tree_law mem_ops mem_sound"
  unfolding tree_law_def
proof (intro allI impI conjI)
  fix h p c n
  assume s: "mem_sound h" and c: "child_at mem_ops h p c n"
  from c mem_edge [OF s, of p "py_lower c" n] have e: "0 < p" "p < n" by simp_all
  then show "n \<noteq> 0" "p \<noteq> 0" by simp_all
  show "\<not> below mem_ops h n p" using mem_below [OF _ s] e by fastforce
next
  fix h p c q d n
  assume s: "mem_sound h" and c: "child_at mem_ops h p c n" and d: "child_at mem_ops h q d n"
  from c d mem_one_parent [OF s, of "(p, py_lower c)" n "(q, py_lower d)"] show "p = q" "same_key c d" by (simp_all add: same_key_def)
next
  fix h p c d
  assume "same_key c d"
  then show "hx_get_child mem_ops h p c = hx_get_child mem_ops h p d" by (simp add: mem_ops_def same_key_def)
qed

lemma mem_set: "set_law mem_ops mem_sound"
  by (auto simp: set_law_def mem_ops_def mem_sound_def same_key_def)

lemma mem_add: "add_law mem_ops mem_sound"
  unfolding add_law_def
proof (intro allI impI)
  fix h p c n h'
  assume s: "mem_sound h" and none: "hx_get_child mem_ops h p c = Inr None" and add: "hx_add_child mem_ops p c h = (Inr (Some n), h')"
  from add have p: "0 < p" "p < mh_next h" and n: "n = mh_next h" and h': "h' = h\<lparr>mh_next := Suc n, mh_keys := ((p, py_lower c), n) # mh_keys h\<rparr>"
    by (auto simp: mem_ops_def split: if_splits)
  have new: "n \<notin> snd ` set (mh_keys h)" "(p, py_lower c) \<notin> fst ` set (mh_keys h)" "\<And>q d i. map_of (mh_keys h) (q, d) = Some i \<Longrightarrow> q \<noteq> n \<and> i \<noteq> n"
    using s n none mem_edge [OF s] by (fastforce simp: mem_sound_def list_all_iff map_of_eq_None_iff)+
  have "list_all (\<lambda>((p, c), i). 0 < p \<and> p < i \<and> i < Suc n) (mh_keys h)"
    using s n by (auto simp: mem_sound_def list_all_iff dest: less_SucI)
  with s p n new have "mem_sound h'" by (simp add: h' mem_sound_def)
  moreover have "map_of (mh_keys h) (n, d) = None" for d using new(3) by (cases "map_of (mh_keys h) (n, d)") auto
  ultimately show "mem_sound h' \<and> (\<forall>q d. hx_get_child mem_ops h q d \<noteq> Inr (Some n)) \<and> (\<forall>d k. hx_get_child mem_ops h n d \<noteq> Inr (Some k)) \<and>
     (\<forall>q d. hx_get_child mem_ops h' q d = (if q = p \<and> same_key d c then Inr (Some n) else if q = n then Inr None else hx_get_child mem_ops h q d)) \<and>
     (\<forall>m k. m \<noteq> n \<longrightarrow> hx_data mem_ops h' m k = hx_data mem_ops h m k)"
    using new(3) p n by (auto simp: mem_ops_def h' same_key_def)
qed

lemma mem_delete: "delete_law mem_ops mem_sound"
  unfolding delete_law_def
proof (intro allI impI)
  fix h p c n h'
  assume s: "mem_sound h" and c: "child_at mem_ops h p c n" and del: "hx_delete_child mem_ops (DelNode n) h = (Inr (), h')"
  from del have h': "h' = h\<lparr>mh_keys := filter (\<lambda>(k, i). i \<noteq> n) (mh_keys h)\<rparr>" by (simp add: mem_ops_def)
  from s have ks: "distinct (map fst (mh_keys h))" by (simp add: mem_sound_def)
  have "mem_sound h'" using s by (auto simp: h' mem_sound_def distinct_map_filter list_all_iff)
  moreover have "map_of (mh_keys h) (m, py_lower d) = Some n \<longleftrightarrow> m = p \<and> same_key d c" for m d
    using mem_one_parent [OF s, of "(m, py_lower d)" n "(p, py_lower c)"] c by (auto simp: same_key_def)
  ultimately show "mem_sound h' \<and> (\<forall>m. \<not> below mem_ops h n m \<longrightarrow>
        (\<forall>d. hx_get_child mem_ops h' m d = (if m = p \<and> same_key d c then Inr None else hx_get_child mem_ops h m d)) \<and>
        (\<forall>k. hx_data mem_ops h' m k = hx_data mem_ops h m k))"
    by (simp add: mem_ops_def h' mem_filter [OF ks])
qed

lemma mem_laws: "hivex_laws mem_ops mem_sound" "deletes_children mem_ops mem_sound"
proof -
  have "raise_law mem_ops" by (auto simp: raise_law_def mem_ops_def split: delete_args.splits)
  then show "hivex_laws mem_ops mem_sound" using mem_tree mem_set mem_add mem_delete by (simp add: hivex_laws_def)
  show "deletes_children mem_ops mem_sound" by (simp add: deletes_children_def mem_ops_def)
qed


definition example_hive :: mem_hive where
  "example_hive = \<lparr>mh_next = 6, mh_keys = [((1, ''controlset001''), 2), ((2, ''services''), 3), ((3, ''viostor''), 4), ((4, ''startoverride''), 5)], mh_values = []\<rparr>"

definition example_driver :: driver where
  "example_driver = \<lparr>drv_name = ''VirtIO SCSI'', drv_service = ''viostor'', drv_dest = ''v.sys'', drv_type = ''storage'', drv_start = NoStart,
     drv_class_guid = ''g'', drv_pci_ids = [''p'']\<rparr>"

lemma mem_writes:
  "n \<noteq> 0 \<Longrightarrow> set_sz mem_ops n k v h = (Inr (), h\<lparr>mh_values := ((n, py_lower k), reg_sz v) # mh_values h\<rparr>)"
  "n \<noteq> 0 \<Longrightarrow> 0 \<le> i \<Longrightarrow> i < 2 ^ 32 \<Longrightarrow> set_dword mem_ops n k i h = (Inr (), h\<lparr>mh_values := ((n, py_lower k), le_bytes 4 i) # mh_values h\<rparr>)"
  by (simp_all add: set_sz_def set_dword_def dword_bytes_def mem_ops_def mk_reg_value_def del: le_bytes.simps)

lemma mem_changes:
  "hx_delete_child mem_ops (DelNode n) h = (Inr (), h\<lparr>mh_keys := filter (\<lambda>(k, i). i \<noteq> n) (mh_keys h)\<rparr>)"
  "hx_delete_child mem_ops (DelPair p n) h = (Inl ''one argument'', h)" "hx_delete_child mem_ops (DelNamed p c) h = (Inl ''one argument'', h)"
  "0 < p \<Longrightarrow> p < mh_next h \<Longrightarrow>
     added_child mem_ops p c h = (Inr (mh_next h), h\<lparr>mh_next := Suc (mh_next h), mh_keys := ((p, py_lower c), mh_next h) # mh_keys h\<rparr>)"
  by (simp_all add: mem_ops_def added_child_def call_bind_def node_id_def)

lemma mem_child_id: "child_id mem_ops p c h = Inr (node_id (map_of (mh_keys h) (p, py_lower c)))"
  by (simp add: child_id_def mem_ops_def)

lemma remove_absent: "\<forall>x\<in>set xs. child_id hx sn x h = Inr 0 \<Longrightarrow> remove_services hx sn xs (h, r) = (h, r)"
  by (induction xs) auto

lemma example_names:
  "py_lower ''Services'' = ''services''" "py_lower ''viostor'' = ''viostor''" "py_lower ''StartOverride'' = ''startoverride''" "py_lower ''Control'' = ''control''"
  "py_lower ''CriticalDeviceDatabase'' = ''criticaldevicedatabase''" "py_lower ''p'' = ''p''" "strip ''p'' = ''p''"
  by code_simp+

lemma example_service:
  "\<exists>vs x. service_call mem_ops 3 ''storage'' 0 example_driver example_hive =
     (Inr x, example_hive\<lparr>mh_keys := [((1, ''controlset001''), 2), ((2, ''services''), 3), ((3, ''viostor''), 4)], mh_values := vs\<rparr>)"
  by (auto simp: service_call_def find_or_add_def write_service_def call_bind_def mem_child_id mem_writes example_names example_driver_def example_hive_def
      node_id_def expected_start_def delete_child_if_exists_def mem_changes)


lemma example_cdd:
  "\<exists>vs c. cdd_call mem_ops 7 example_driver ''p'' (example_hive\<lparr>mh_next := 8, mh_keys := ks, mh_values := ws\<rparr>) =
     (Inr c, example_hive\<lparr>mh_next := 9, mh_keys := ((7, ''p''), 8) # ks, mh_values := vs\<rparr>)" if "map_of ks (7, ''p'') = None"
  using that by (auto simp: cdd_call_def find_or_add_def call_bind_def mem_child_id mem_writes mem_changes example_names example_driver_def example_hive_def node_id_def)

lemma example_edit:
  "\<exists>h' r'. edit_hive mem_ops 2 ''storage'' 0 [example_driver] (example_hive, empty_results False ''/S'') = (Inr (), (h', r')) \<and> sr_errors r' = []"
proof -
  let ?ks = "[((6, ''criticaldevicedatabase''), 7), ((2, ''control''), 6), ((1, ''controlset001''), 2), ((2, ''services''), 3), ((3, ''viostor''), 4)] :: ((nat \<times> string) \<times> nat) list"
  obtain vs x where svc: "service_call mem_ops 3 ''storage'' 0 example_driver example_hive =
     (Inr x, example_hive\<lparr>mh_keys := [((1, ''controlset001''), 2), ((2, ''services''), 3), ((3, ''viostor''), 4)], mh_values := vs\<rparr>)"
    using example_service by blast
  obtain ws c where cdd: "cdd_call mem_ops 7 example_driver ''p'' (example_hive\<lparr>mh_next := 8, mh_keys := ?ks, mh_values := vs\<rparr>) =
     (Inr c, example_hive\<lparr>mh_next := 9, mh_keys := ((7, ''p''), 8) # ?ks, mh_values := ws\<rparr>)"
    using example_cdd [of ?ks vs] by auto
  have "\<forall>x\<in>set vmware_drivers. py_lower x \<noteq> ''viostor''" by code_simp
  then have rem: "remove_services mem_ops 3 vmware_drivers (example_hive\<lparr>mh_next := 9, mh_keys := ((7, ''p''), 8) # ?ks, mh_values := ws\<rparr>, r) =
      (example_hive\<lparr>mh_next := 9, mh_keys := ((7, ''p''), 8) # ?ks, mh_values := ws\<rparr>, r)" for r
    by (intro remove_absent) (simp add: mem_child_id node_id_def)
  have e: "ensure_child mem_ops 2 ''Services'' example_hive = (Inr 3, example_hive)"
    by (simp add: ensure_child_def call_bind_def mem_child_id example_names example_hive_def node_id_def)
  have pairs: "cdd_pairs ''storage'' [example_driver] = [(example_driver, ''p'')]" by (simp add: cdd_pairs_def example_driver_def example_names)
  obtain removed entry where x: "x = (removed, entry)" by fastforce
  show ?thesis
    using svc cdd rem
    by (simp add: edit_hive_def call_bind_def on_hive_def e x edit_system_cdd_def pairs ensure_child_def mem_child_id mem_changes example_names example_hive_def node_id_def
        empty_results_def)
qed

theorem edited_services_are_ready_witness:
  "\<exists>h' sn. service_ready mem_ops sn ''storage'' 0 example_driver h'"
proof -
  let ?x = "edit_hive mem_ops 2 ''storage'' 0 [example_driver] (example_hive, empty_results False ''/S'')"
  obtain h' r' where x: "?x = (Inr (), (h', r'))" "sr_errors r' = []"
    using example_edit by blast
  have "mem_sound example_hive" by code_simp
  moreover have "\<forall>d\<in>set [example_driver]. \<forall>x\<in>set vmware_drivers. \<not> same_key (drv_service d) x" by code_simp
  ultimately show ?thesis using edited_services_are_ready [OF mem_laws _ x] by auto
qed



section \<open>Dry runs\<close>

text \<open>A handle that was opened for reading: the calls that would change the hive raise.\<close>

definition read_only :: "'h hivex_ops \<Rightarrow> 'h \<Rightarrow> bool" where
  "read_only hx h \<longleftrightarrow> (\<forall>n v. isl (fst (hx_set_value hx n v h)) \<and> snd (hx_set_value hx n v h) = h) \<and>
     (\<forall>n c. isl (fst (hx_add_child hx n c h)) \<and> snd (hx_add_child hx n c h) = h)"

lemma read_only_set: "read_only hx h \<Longrightarrow> \<exists>e. hx_set_value hx n v h = (Inl e, h)"
  unfolding read_only_def by (metis isl_def prod.collapse)

lemma read_only_add: "read_only hx h \<Longrightarrow> \<exists>e. hx_add_child hx n c h = (Inl e, h)"
  unfolding read_only_def by (metis isl_def prod.collapse)

lemma read_only_write_service: "read_only hx h \<Longrightarrow> n \<noteq> 0 \<Longrightarrow> \<exists>e. write_service hx storage boot d n h = (Inl e, h)"
  using read_only_set [of hx h n "mk_reg_value ''Type'' 4 (le_bytes 4 1)"]
  by (auto simp: write_service_def set_dword_def dword_bytes_def call_bind_def simp del: le_bytes.simps)

lemma read_only_service_call:
  assumes "read_only hx h"
  shows "\<exists>e. service_call hx sn storage boot d h = (Inl e, h)"
proof (cases "find_or_add hx sn (drv_service d) (service_not_created (drv_service d)) h")
  case (Pair x h1)
  obtain e where add: "hx_add_child hx sn (drv_service d) h = (Inl e, h)" using read_only_add [OF assms] by blast
  have h1: "h1 = h" and n: "\<And>n a. x = Inr (n, a) \<Longrightarrow> n \<noteq> 0"
    using Pair add by (auto simp: find_or_add_def added_child_def call_bind_def split: sum.splits if_splits)
  show ?thesis
  proof (cases x)
    case (Inl e)
    with Pair h1 show ?thesis by (simp add: service_call_def call_bind_def)
  next
    case (Inr y)
    obtain n' a where y: "y = (n', a)" by fastforce
    with Inr n have "n' \<noteq> 0" by blast
    from read_only_write_service [OF assms this] obtain e where "write_service hx storage boot d n' h = (Inl e, h)" by blast
    with Pair h1 Inr y show ?thesis by (simp add: service_call_def call_bind_def)
  qed
qed

lemma read_only_services:
  "read_only hx h \<Longrightarrow> length (sr_errors (snd (edit_system_services hx sn storage boot ds (h, r)))) = length (sr_errors r) + length ds"
proof (induction ds arbitrary: r)
  case (Cons d ds)
  from read_only_service_call [OF Cons.prems] obtain e where "service_call hx sn storage boot d h = (Inl e, h)" by blast
  with Cons show ?case by simp
qed simp

lemma read_only_edit_hive:
  assumes "read_only hx h" and "edit_hive hx cs storage boot ds (h, r) = (Inr (), (h', r'))" and "sr_errors r' = []"
  shows "ds = []"
proof -
  from assms(2) obtain sn h1 h3 r3 where e: "ensure_child hx cs ''Services'' h = (Inr sn, h1)"
    and c: "edit_system_cdd hx cs storage ds (edit_system_services hx sn storage boot ds (h1, r)) = (Inr (), (h3, r3))"
    and rem: "remove_services hx sn vmware_drivers (h3, r3) = (h', r')"
    by (auto simp: edit_hive_def call_bind_Inr on_hive_ok)
  obtain f where add: "hx_add_child hx cs ''Services'' h = (Inl f, h)" using read_only_add [OF assms(1)] by blast
  with e have "h1 = h" by (auto simp: ensure_child_def added_child_def call_bind_def split: sum.splits if_splits)
  obtain h2 r2 where svc: "edit_system_services hx sn storage boot ds (h1, r) = (h2, r2)" by fastforce
  from remove_errors [of hx sn vmware_drivers "(h3, r3)"] rem assms(3) have "sr_errors r3 = []" by simp
  with c svc edit_cdd_errors have "sr_errors r2 = []" by metis
  with read_only_services [OF assms(1), of sn storage boot ds r] svc \<open>h1 = h\<close> show ?thesis by simp
qed

lemma edit_open_dry:
  assumes "hv_dry_run env" and "edit_open_hive env hive_path ds storage boot sha h (g, r) = (Inr (), (g2, r1))"
  shows "\<exists>cs h1. edit_hive (hv_hivex env) cs storage boot ds (h, r) = (Inr (), (h1, r1))"
proof -
  from assms(2) obtain cs_name cs where body: "(case edit_hive (hv_hivex env) cs storage boot ds (h, r) of
               (Inl e, (_, r1)) \<Rightarrow> (Inl e, (g, r1))
             | (Inr _, (h1, r1)) \<Rightarrow> finish_edit env hive_path sha cs_name storage boot ds h1 (g, r1)) = (Inr (), (g2, r1))"
    by (auto simp: edit_open_hive_def call_bind_Inr Let_def split: if_splits)
  obtain x h1 r2 where ed: "edit_hive (hv_hivex env) cs storage boot ds (h, r) = (x, (h1, r2))" by (metis prod.exhaust)
  with body assms(1) show ?thesis by (cases x) (auto simp: finish_edit_def)
qed

lemma edit_body_dry:
  assumes "hv_dry_run env" and "edit_body env hive_path ds storage boot (g1, r) = (Inr (), (g2, r1))"
  shows "\<exists>b h cs h1. open_hive_local (hv_hivex env) ''SYSTEM'' (Some b) False = Inr h \<and> edit_hive (hv_hivex env) cs storage boot ds (h, r) = (Inr (), (h1, r1))"
proof -
  have "backup_step env hive_path (g1, r) = (Inr (), (g1, r))" using assms(1) by (simp add: backup_step_def hive_backup_def)
  with assms obtain b h where "open_hive_local (hv_hivex env) ''SYSTEM'' (Some b) False = Inr h"
    and "edit_open_hive env hive_path ds storage boot (hv_sha env b) h (g1, r) = (Inr (), (g2, r1))"
    by (auto simp: edit_body_def call_bind_Inr)
  with edit_open_dry [OF assms(1)] show ?thesis by blast
qed

text \<open>Nothing before the end of the edit touches the flag of success.\<close>

lemma services_success [simp]: "sr_success (snd (edit_system_services hx sn storage boot ds s)) = sr_success (snd s)"
  by (induction hx sn storage boot ds s rule: edit_system_services.induct) (auto split: prod.splits sum.splits)

lemma cdd_success [simp]: "sr_success (snd (cdd_loop hx cdd ps s)) = sr_success (snd s)"
  by (induction hx cdd ps s rule: cdd_loop.induct) (auto split: prod.splits sum.splits)

lemma remove_success [simp]: "sr_success (snd (remove_services hx sn xs s)) = sr_success (snd s)"
  by (induction hx sn xs s rule: remove_services.induct) (auto split: prod.splits sum.splits)

lemma verify_success: "verify_loop_services hx h n storage boot ds r = (x, r') \<Longrightarrow> sr_success r' = sr_success r"
  by (induction hx h n storage boot ds r rule: verify_loop_services.induct) (auto simp: Let_def split: sum.splits if_splits)

definition keeps_success :: "(string, 'a, 's \<times> sys_results) call \<Rightarrow> bool" where
  "keeps_success f \<longleftrightarrow> (\<forall>s r s'. f s = (r, s') \<longrightarrow> sr_success (snd s') = sr_success (snd s))"

lemma keeps_success_bind: "keeps_success f \<Longrightarrow> (\<And>x. keeps_success (g x)) \<Longrightarrow> keeps_success (call_bind f g)"
  unfolding keeps_success_def call_bind_def by (simp split: prod.splits sum.splits)

lemma keeps_success_lift: "keeps_success (call_lift f)" "keeps_success (call_raise e)" "keeps_success (call_ret y)" "keeps_success (on_hive k)"
  by (auto simp: keeps_success_def on_hive_def split: prod.splits)

lemma keeps_success_pure: "(\<And>s. sr_success (snd (f s)) = sr_success (snd s)) \<Longrightarrow> keeps_success (\<lambda>s. (Inr y, f s))"
  unfolding keeps_success_def by (metis prod.inject)

lemma keeps_success_edit: "keeps_success (edit_hive hx cs storage boot ds)"
proof -
  have "keeps_success (\<lambda>s. (Inr (), cdd_loop hx cdd ps s))" for cdd ps by (rule keeps_success_pure) simp
  then have cdd: "keeps_success (edit_system_cdd hx cs storage ds)"
    unfolding edit_system_cdd_def by (intro keeps_success_bind keeps_success_lift)
  have "keeps_success (\<lambda>s. (Inr (), remove_services hx sn xs s))" for sn xs by (rule keeps_success_pure) simp
  with cdd have k: "keeps_success (call_bind (edit_system_cdd hx cs storage ds) (\<lambda>_ s1. (Inr (), remove_services hx sn xs s1)))" for sn xs
    by (intro keeps_success_bind)
  have "keeps_success (\<lambda>s. call_bind (edit_system_cdd hx cs storage ds) (\<lambda>_ s1. (Inr (), remove_services hx sn vmware_drivers s1))
      (edit_system_services hx sn storage boot ds s))" for sn
    using k [of sn vmware_drivers] services_success [of hx sn storage boot ds] unfolding keeps_success_def by (metis snd_conv)
  then show ?thesis unfolding edit_hive_def by (intro keeps_success_bind keeps_success_lift)
qed

lemma keeps_success_finish: "keeps_success (finish_edit env hive_path sha cs_name storage boot ds h)"
proof -
  have "keeps_success (upload_hive_and_verify env hive_path data sha)" for data
    by (auto simp: keeps_success_def upload_hive_and_verify_def Let_def split: prod.splits sum.splits)
  moreover have "keeps_success (\<lambda>s. case s of (g, r) \<Rightarrow> verify_step env hive_path cs_name storage boot ds (g, r\<lparr>sr_modified := m r\<rparr>))" for m :: "sys_results \<Rightarrow> bool"
    by (auto simp: keeps_success_def verify_step_def verify_services_def Let_def split: prod.splits sum.splits if_splits dest!: verify_success)
  ultimately show ?thesis unfolding finish_edit_def by (auto intro!: keeps_success_bind keeps_success_lift)
qed

lemma keeps_success_body: "keeps_success (edit_body env hive_path ds storage boot)"
proof -
  have "keeps_success (\<lambda>s. case s of (g, r) \<Rightarrow> (case edit_hive hx cs storage boot ds (h, r) of
               (Inl e, (_, r1)) \<Rightarrow> (Inl e, (g, r1))
             | (Inr _, (h1, r1)) \<Rightarrow> finish_edit env hive_path sha cs_name storage boot ds h1 (g, r1)))" for hx cs cs_name sha h
    unfolding keeps_success_def
  proof (intro allI impI)
    fix s y s'
    assume run: "(case s of (g, r) \<Rightarrow> (case edit_hive hx cs storage boot ds (h, r) of
               (Inl e, (_, r1)) \<Rightarrow> (Inl e, (g, r1))
             | (Inr _, (h1, r1)) \<Rightarrow> finish_edit env hive_path sha cs_name storage boot ds h1 (g, r1))) = (y, s')"
    obtain g r where s: "s = (g, r)" by fastforce
    obtain x h1 r1 where ed: "edit_hive hx cs storage boot ds (h, r) = (x, (h1, r1))" by (metis prod.exhaust)
    have 1: "sr_success r1 = sr_success r" using keeps_success_edit [of hx cs storage boot ds] ed unfolding keeps_success_def by fastforce
    show "sr_success (snd s') = sr_success (snd s)"
    proof (cases x)
      case (Inl e)
      with run s ed 1 show ?thesis by auto
    next
      case (Inr u)
      with run s ed have "finish_edit env hive_path sha cs_name storage boot ds h1 (g, r1) = (y, s')" by simp
      with keeps_success_finish [of env hive_path sha cs_name storage boot ds h1] 1 s show ?thesis unfolding keeps_success_def by fastforce
    qed
  qed
  then have "keeps_success (edit_open_hive env hive_path ds storage boot sha h)" for sha h
    unfolding edit_open_hive_def Let_def by (auto intro!: keeps_success_bind keeps_success_lift split: prod.split)
  moreover have "keeps_success (backup_step env hive_path)" by (auto simp: keeps_success_def backup_step_def split: prod.splits sum.splits)
  ultimately show ?thesis unfolding edit_body_def by (intro keeps_success_bind keeps_success_lift)
qed

text \<open>
  A dry run never reports success when there is a driver to register: the hive is opened for reading and the edits are
  made on it all the same, so every one of them raises and is reported as an error.
\<close>
theorem dry_run_reports_failure:
  assumes "hv_dry_run env" and "ds \<noteq> []" and "\<And>b h. hx_open (hv_hivex env) b False = Inr h \<Longrightarrow> read_only (hv_hivex env) h"
  shows "\<not> sr_success (fst (edit_system_hive env hive_path ds storage boot g))"
proof -
  have body: "sr_errors r1 \<noteq> []" if run: "edit_body env hive_path ds storage boot (g1, r) = (Inr (), (g2, r1))" for g1 r g2 r1
  proof
    assume none: "sr_errors r1 = []"
    from edit_body_dry [OF assms(1) run] obtain b h cs h1 where op: "open_hive_local (hv_hivex env) ''SYSTEM'' (Some b) False = Inr h"
      and ed: "edit_hive (hv_hivex env) cs storage boot ds (h, r) = (Inr (), (h1, r1))" by blast
    from op have "hx_open (hv_hivex env) b False = Inr h" by (auto simp: open_hive_local_def split: if_splits option.splits)
    from read_only_edit_hive [OF assms(3) [OF this] ed none] assms(2) show False by simp
  qed
  have same: "sr_success r1 = sr_success r" if "edit_body env hive_path ds storage boot (g1, r) = (Inl e, (g2, r1))" for g1 r g2 r1 e
    using keeps_success_body [of env hive_path ds storage boot] that unfolding keeps_success_def by fastforce
  show ?thesis
    using body same by (auto simp: edit_system_hive_def Let_def empty_results_def split: prod.splits sum.splits bool.splits)
qed


text \<open>A guest without the hive's content, and a library whose handles cannot be written.\<close>

definition example_guest :: "unit guestfs_ops" where
  "example_guest = \<lparr>gf_is_file = \<lambda>_ _. Inr True, gf_download = \<lambda>_ _. Some (regf @ replicate 4092 0), gf_readers = [], gf_cp = \<lambda>_ _ g. (Inr (), g),
     gf_upload = \<lambda>_ _ g. (Inr (), g), gf_inspect_os = \<lambda>_. Inl [], gf_mountpoints = \<lambda>_ _. Inl [], gf_umount_all = id, gf_mount = \<lambda>_ _ g. (Inr (), g)\<rparr>"

definition read_only_ops :: "mem_hive hivex_ops" where
  "read_only_ops = mem_ops\<lparr>hx_open := \<lambda>_ _. Inr example_hive, hx_set_value := \<lambda>_ _ h. (Inl ''read-only'', h), hx_add_child := \<lambda>_ _ h. (Inl ''read-only'', h)\<rparr>"

definition example_dry_env :: "(unit, mem_hive) hive_env" where
  "example_dry_env = \<lparr>hv_guestfs = example_guest, hv_hivex = read_only_ops, hv_sha = \<lambda>_. [], hv_now = [], hv_dry_run = True\<rparr>"

theorem dry_run_reports_failure_witness:
  "\<not> sr_success (fst (edit_system_hive example_dry_env ''/S'' [example_driver] ''storage'' 0 ()))"
  by (rule dry_run_reports_failure) (simp_all add: example_dry_env_def read_only_ops_def read_only_def)

section \<open>Values behind handles\<close>

definition returns_handles :: "'h hivex_ops \<Rightarrow> 'h \<Rightarrow> bool" where
  "returns_handles hx h \<longleftrightarrow> (\<forall>n k d. hx_get_value hx h n k \<noteq> Inr (Some (GotDict d)))"

lemma handles_unread: "returns_handles hx h \<Longrightarrow> read_value_dict hx h n k = None"
  by (auto simp: returns_handles_def read_value_dict_def split: sum.splits option.splits got_value.splits)

lemma handles_unverified:
  assumes "returns_handles hx h"
  shows "verify_loop_services hx h n storage boot ds r = (Inr (), r') \<Longrightarrow>
    sr_verified r' = sr_verified r \<and> length (sr_verification_errors r') = length (sr_verification_errors r) + length ds"
proof (induction ds arbitrary: r)
  case (Cons d ds)
  have "read_dword hx h m ''Start'' = None" for m
    using handles_unread [OF assms] by (simp add: read_dword_def)
  with Cons.prems Cons.IH show ?case
    by (fastforce simp: Let_def split: sum.splits if_splits)
qed simp

lemma handles_controlset:
  assumes "returns_handles hx h"
  shows "detect_current_controlset hx rootn h = Inr name \<Longrightarrow> name = default_controlset"
  using handles_unread [OF assms] by (cases "child_id hx rootn ''Select'' h") (auto simp: detect_current_controlset_def split: if_splits)

text \<open>
  With the documented binding of hivex, which returns the handle of a value, no value is ever read: the
  control set that is edited is ControlSet001 whatever the value Current of the key Select says, and the check after the write
  confirms no service and reports an error for every driver.
\<close>
theorem current_controlset_is_ignored:
  assumes "returns_handles hx h"
  shows "(resolve_controlset_node hx rootn h = Inr (name, cs) \<longrightarrow> name = ''ControlSet001'') \<and>
    (verify_loop_services hx h n storage boot ds r = (Inr (), r') \<longrightarrow>
       sr_verified r' = sr_verified r \<and> length (sr_verification_errors r') = length (sr_verification_errors r) + length ds)"
proof -
  have "resolve_controlset_node hx rootn h = Inr (name, cs) \<Longrightarrow> name = ''ControlSet001''"
    using handles_controlset [OF assms, of rootn]
    by (auto simp: resolve_controlset_node_def default_controlset_def sum_bind_Inr_iff split: if_splits)
  then show ?thesis
    using handles_unverified [OF assms] by blast
qed

text \<open>A hive whose current control set is the second.\<close>

definition second_set_hive :: mem_hive where
  "second_set_hive = \<lparr>mh_next = 5, mh_keys = [((1, ''select''), 2), ((1, ''controlset001''), 3), ((1, ''controlset002''), 4)],
     mh_values = [((2, ''current''), le_bytes 4 2)]\<rparr>"

theorem current_controlset_is_ignored_witness:
  "stored_dword mem_ops second_set_hive 2 ''Current'' = Some 2 \<and> resolve_controlset_node mem_ops 1 second_set_hive = Inr (''ControlSet001'', 3)"
proof
  have handles: "returns_handles mem_ops second_set_hive"
    by (auto simp: returns_handles_def mem_ops_def)
  have low: "py_lower ''Current'' = ''current''" "py_lower ''Select'' = ''select''" "py_lower ''ControlSet001'' = ''controlset001''"
    by code_simp+
  show "stored_dword mem_ops second_set_hive 2 ''Current'' = Some 2"
    by (simp add: stored_dword_def mem_ops_def second_set_hive_def low decode_dword_def from_le_bytes)
  have ids: "child_id mem_ops 1 ''Select'' second_set_hive = Inr 2" "child_id mem_ops 1 default_controlset second_set_hive = Inr 3"
    by (simp_all add: mem_child_id second_set_hive_def low default_controlset_def node_id_def)
  have "\<exists>name. resolve_controlset_node mem_ops 1 second_set_hive = Inr (name, 3)"
    by (simp add: resolve_controlset_node_def detect_current_controlset_def ids [unfolded One_nat_def] handles_unread [OF handles])
  with current_controlset_is_ignored [OF handles] show "resolve_controlset_node mem_ops 1 second_set_hive = Inr (''ControlSet001'', 3)"
    by blast
qed

end
