(* ===== verification/Job_Schemas.thy ===== *)
theory Job_Schemas
  imports H2K_Prelude
begin

text \<open>
  The data of the worker protocol, \<^verbatim>\<open>h2kvm/runtime/worker/schemas.py\<close>: the two string
  enums with their values, and one record per pydantic model. Pydantic checks the declared
  bounds when a model is built; each bound or validator of the source is a conjunct of the
  model's \<open>_ok\<close> predicate.
\<close>

section \<open>Enums\<close>

datatype job_state =
    CREATED | VALIDATED | QUEUED | ASSIGNED | RUNNING | PROGRESSING
  | COMPLETED | FAILED | CANCELLED | RETRYING

fun job_state_value :: "job_state \<Rightarrow> string" where
  "job_state_value CREATED = ''Created''"
| "job_state_value VALIDATED = ''Validated''"
| "job_state_value QUEUED = ''Queued''"
| "job_state_value ASSIGNED = ''Assigned''"
| "job_state_value RUNNING = ''Running''"
| "job_state_value PROGRESSING = ''Progressing''"
| "job_state_value COMPLETED = ''Completed''"
| "job_state_value FAILED = ''Failed''"
| "job_state_value CANCELLED = ''Cancelled''"
| "job_state_value RETRYING = ''Retrying''"

definition all_job_states :: "job_state list" where
  "all_job_states = [CREATED, VALIDATED, QUEUED, ASSIGNED, RUNNING, PROGRESSING,
                     COMPLETED, FAILED, CANCELLED, RETRYING]"

text \<open>The enum call \<^verbatim>\<open>JobState(value)\<close>.\<close>

definition JobState :: "json \<Rightarrow> py_exc + job_state" where
  "JobState v = (case find (\<lambda>s. v = JStr (job_state_value s)) all_job_states of
      None \<Rightarrow> Inl (ValueError ''not a valid JobState'')
    | Some s \<Rightarrow> Inr s)"

lemma JobState_value [simp]: "JobState (JStr (job_state_value s)) = Inr s"
  by (cases s) (simp_all add: JobState_def all_job_states_def)

lemma job_state_value_inj [simp]: "job_state_value a = job_state_value b \<longleftrightarrow> a = b"
  by (cases a; cases b) simp_all

datatype operation_type =
    INSPECT | CONVERT | OFFLINE_FIX | BOOT_REPAIR | SELINUX_PREP | LVM_REPAIR
  | FS_REPAIR | INITRAMFS_REGEN

fun operation_value :: "operation_type \<Rightarrow> string" where
  "operation_value INSPECT = ''inspect''"
| "operation_value CONVERT = ''convert''"
| "operation_value OFFLINE_FIX = ''offline_fix''"
| "operation_value BOOT_REPAIR = ''boot_repair''"
| "operation_value SELINUX_PREP = ''selinux_prep''"
| "operation_value LVM_REPAIR = ''lvm_repair''"
| "operation_value FS_REPAIR = ''fs_repair''"
| "operation_value INITRAMFS_REGEN = ''initramfs_regenerate''"

section \<open>Job specification\<close>

record image_spec =
  img_path :: string
  img_format :: "string option"
  img_checksum :: "string option"
  img_size_bytes :: "int option"

text \<open>\<^verbatim>\<open>validate_format\<close>: no format, or one of the known ones.\<close>

definition validate_format :: "string option \<Rightarrow> py_exc + string option" where
  "validate_format v = (case v of
      None \<Rightarrow> Inr None
    | Some f \<Rightarrow>
        if f \<in> set [''qcow2'', ''vmdk'', ''raw'', ''vdi'', ''vhd'', ''vhdx''] then Inr (Some f)
        else Inl (ValueError ''Format must be one of the valid formats''))"

definition image_spec_ok :: "image_spec \<Rightarrow> bool" where
  "image_spec_ok i = (is_ok (validate_format (img_format i)) \<and>
     (case img_size_bytes i of None \<Rightarrow> True | Some n \<Rightarrow> 0 \<le> n))"

record capability_requirements =
  needs_nbd :: bool
  needs_lvm :: bool
  needs_mount :: bool
  needs_selinux_tools :: bool
  min_memory_gb :: "int option"
  min_disk_space_gb :: "int option"

definition capability_requirements_ok :: "capability_requirements \<Rightarrow> bool" where
  "capability_requirements_ok c =
     ((case min_memory_gb c of None \<Rightarrow> True | Some n \<Rightarrow> 1 \<le> n) \<and>
      (case min_disk_space_gb c of None \<Rightarrow> True | Some n \<Rightarrow> 1 \<le> n))"

definition default_requirements :: capability_requirements where
  "default_requirements = \<lparr>needs_nbd = False, needs_lvm = False, needs_mount = False,
     needs_selinux_tools = False, min_memory_gb = None, min_disk_space_gb = None\<rparr>"

record execution_policy =
  retry_count :: int
  timeout_seconds :: int
  idempotent :: bool
  priority :: int

definition execution_policy_ok :: "execution_policy \<Rightarrow> bool" where
  "execution_policy_ok p =
     (0 \<le> retry_count p \<and> retry_count p \<le> 5 \<and>
      60 \<le> timeout_seconds p \<and> timeout_seconds p \<le> 86400 \<and>
      1 \<le> priority p \<and> priority p \<le> 10)"

definition default_policy :: execution_policy where
  "default_policy = \<lparr>retry_count = 0, timeout_seconds = 7200, idempotent = True, priority = 5\<rparr>"

record artifact_config =
  log_upload :: bool
  store_fixed_image :: bool
  output_path :: string
  keep_intermediates :: bool

record audit_info =
  requested_by :: string
  ticket :: "string option"
  tags :: "(string, string) dict option"

record job_spec =
  spec_version :: string
  job_id :: string
  created_at :: time
  operation :: operation_type
  image :: image_spec
  requested_actions :: "string list"
  capability_requirements :: capability_requirements
  execution_policy :: execution_policy
  artifacts :: artifact_config
  audit :: audit_info
  parameters :: "(string, json) dict option"

definition job_spec_ok :: "job_spec \<Rightarrow> bool" where
  "job_spec_ok j = (image_spec_ok (image j) \<and>
     capability_requirements_ok (capability_requirements j) \<and>
     execution_policy_ok (execution_policy j))"

abbreviation job_priority :: "job_spec \<Rightarrow> int" where
  "job_priority j \<equiv> priority (execution_policy j)"

section \<open>Progress and results\<close>

record progress_event =
  ev_job_id :: string
  ev_timestamp :: time
  ev_phase :: string
  ev_percent :: int
  ev_message :: string
  ev_details :: "json option"

definition progress_event_ok :: "progress_event \<Rightarrow> bool" where
  "progress_event_ok e = (0 \<le> ev_percent e \<and> ev_percent e \<le> 100)"

record error_info =
  err_phase :: string
  err_code :: string
  err_message :: string
  err_details :: "json option"
  err_stack_trace :: "string option"

record job_output =
  fixed_image :: "string option"
  out_logs :: "string option"
  out_report :: "string option"
  intermediates :: "string list option"

definition empty_output :: job_output where
  "empty_output = \<lparr>fixed_image = None, out_logs = None, out_report = None, intermediates = None\<rparr>"

record job_metrics =
  execution_seconds :: int
  nbd_attach_seconds :: "int option"
  lvm_activate_seconds :: "int option"
  fsck_seconds :: "int option"
  initramfs_seconds :: "int option"
  disk_read_bytes :: "int option"
  disk_write_bytes :: "int option"

definition opt_ge :: "int \<Rightarrow> int option \<Rightarrow> bool" where
  "opt_ge k v = (case v of None \<Rightarrow> True | Some n \<Rightarrow> k \<le> n)"

definition job_metrics_ok :: "job_metrics \<Rightarrow> bool" where
  "job_metrics_ok m = (0 \<le> execution_seconds m \<and> list_all (opt_ge 0)
     [nbd_attach_seconds m, lvm_activate_seconds m, fsck_seconds m, initramfs_seconds m,
      disk_read_bytes m, disk_write_bytes m])"

text \<open>\<^verbatim>\<open>JobMetrics(execution_seconds=n)\<close>\<close>

definition metrics_of :: "int \<Rightarrow> job_metrics" where
  "metrics_of n = \<lparr>execution_seconds = n, nbd_attach_seconds = None, lvm_activate_seconds = None,
     fsck_seconds = None, initramfs_seconds = None, disk_read_bytes = None, disk_write_bytes = None\<rparr>"

record job_result =
  res_job_id :: string
  res_status :: job_state
  res_completed_at :: time
  res_outputs :: "job_output option"
  res_metrics :: "job_metrics option"
  res_error :: "error_info option"
  res_worker_id :: "string option"
  res_retry_attempt :: int

section \<open>Workers\<close>

record worker_capabilities =
  worker_id :: string
  w_hostname :: "string option"
  capabilities :: "(string, bool) dict"
  max_disk_size_tb :: int
  max_concurrent_jobs :: int
  memory_gb :: int
  disk_space_gb :: int
  os_info :: "(string, string) dict option"
  kernel_version :: "string option"
  last_heartbeat :: time

definition worker_capabilities_ok :: "worker_capabilities \<Rightarrow> bool" where
  "worker_capabilities_ok w =
     (1 \<le> max_disk_size_tb w \<and> 1 \<le> max_concurrent_jobs w \<and> max_concurrent_jobs w \<le> 10 \<and>
      1 \<le> memory_gb w \<and> 10 \<le> disk_space_gb w)"

section \<open>A sample job\<close>

text \<open>\<^verbatim>\<open>create_sample_job_spec\<close> of \<^verbatim>\<open>engine.py\<close>; the UUID and the creation time are
  arguments.\<close>

definition create_sample_job_spec :: "string \<Rightarrow> time \<Rightarrow> string \<Rightarrow> string \<Rightarrow> operation_type \<Rightarrow> job_spec" where
  "create_sample_job_spec uuid now image_path output_dir op =
     \<lparr>spec_version = ''1.0'', job_id = uuid, created_at = now, operation = op,
      image = \<lparr>img_path = image_path, img_format = Some ''qcow2'', img_checksum = None,
               img_size_bytes = None\<rparr>,
      requested_actions = [], capability_requirements = default_requirements,
      execution_policy = default_policy,
      artifacts = \<lparr>log_upload = True, store_fixed_image = True, output_path = output_dir,
                   keep_intermediates = False\<rparr>,
      audit = \<lparr>requested_by = ''test-user'', ticket = None, tags = None\<rparr>,
      parameters = None\<rparr>"

lemma sample_job_spec_ok: "job_spec_ok (create_sample_job_spec u t p d op)"
  by (simp add: job_spec_ok_def create_sample_job_spec_def image_spec_ok_def validate_format_def
      capability_requirements_ok_def default_requirements_def execution_policy_ok_def default_policy_def)

end
