(* ===== verification/Job_State_Machine.thy ===== *)
theory Job_State_Machine
  imports Job_Schemas
begin

text \<open>
  \<^verbatim>\<open>h2kvm/runtime/worker/state_machine.py\<close>: the life cycle of one job
  (\<^verbatim>\<open>JobStateMachine\<close>) and the registry that keeps the machines in memory and on disk
  (\<^verbatim>\<open>JobRegistry\<close>).

  A history entry is the JSON object the code appends. The state directory is a dictionary from
  file names to their parsed contents and modification times; its order stands for the order in
  which the directory is listed. Job identifiers contain no path separator. A machine object is
  shared between the registry and its callers, so a transition of it is an update of the
  registry's entry. A document whose \<^verbatim>\<open>job_id\<close> is not a string or whose
  \<^verbatim>\<open>state_history\<close> is not a list is treated as unreadable.
\<close>

section \<open>The state machine\<close>

datatype sm_exc =
    InvalidStateTransition job_state job_state string
  | PyExc py_exc

record job_sm =
  sm_job_id :: string
  current_state :: job_state
  state_history :: "json list"

fun TRANSITIONS :: "job_state \<Rightarrow> job_state set" where
  "TRANSITIONS CREATED = {VALIDATED, CANCELLED}"
| "TRANSITIONS VALIDATED = {QUEUED, CANCELLED}"
| "TRANSITIONS QUEUED = {ASSIGNED, CANCELLED}"
| "TRANSITIONS ASSIGNED = {RUNNING, CANCELLED}"
| "TRANSITIONS RUNNING = {PROGRESSING, COMPLETED, FAILED, RETRYING, CANCELLED}"
| "TRANSITIONS PROGRESSING = {PROGRESSING, COMPLETED, FAILED, RETRYING, CANCELLED}"
| "TRANSITIONS RETRYING = {QUEUED, FAILED, CANCELLED}"
| "TRANSITIONS COMPLETED = {COMPLETED}"
| "TRANSITIONS FAILED = {FAILED}"
| "TRANSITIONS CANCELLED = {CANCELLED}"

definition TERMINAL_STATES :: "job_state set" where
  "TERMINAL_STATES = {COMPLETED, FAILED, CANCELLED}"

definition init_entry :: "job_state \<Rightarrow> time \<Rightarrow> json" where
  "init_entry s now = JObj [(''state'', JStr (job_state_value s)), (''timestamp'', JTime now),
     (''reason'', JStr ''Job created'')]"

definition JobStateMachine :: "string \<Rightarrow> job_state \<Rightarrow> time \<Rightarrow> job_sm" where
  "JobStateMachine jid s now =
     \<lparr>sm_job_id = jid, current_state = s, state_history = [init_entry s now]\<rparr>"

definition can_transition :: "job_sm \<Rightarrow> job_state \<Rightarrow> bool" where
  "can_transition sm to_state =
     (if current_state sm = to_state then True
      else to_state \<in> TRANSITIONS (current_state sm))"

definition trans_entry :: "job_state \<Rightarrow> job_state \<Rightarrow> time \<Rightarrow> string \<Rightarrow> json" where
  "trans_entry a b now reason = JObj [(''from_state'', JStr (job_state_value a)),
     (''to_state'', JStr (job_state_value b)), (''timestamp'', JTime now), (''reason'', JStr reason)]"

definition transition :: "time \<Rightarrow> job_sm \<Rightarrow> job_state \<Rightarrow> string \<Rightarrow> sm_exc + job_sm" where
  "transition now sm to_state reason =
     (if \<not> can_transition sm to_state
      then Inl (InvalidStateTransition (current_state sm) to_state
                  (if reason = [] then ''Transition not allowed'' else reason))
      else Inr (sm\<lparr>state_history := state_history sm @
                      [trans_entry (current_state sm) to_state now reason],
                   current_state := to_state\<rparr>))"

definition is_terminal :: "job_sm \<Rightarrow> bool" where
  "is_terminal sm = (current_state sm \<in> TERMINAL_STATES)"

text \<open>\<^verbatim>\<open>datetime.fromisoformat(h["timestamp"])\<close>\<close>

definition entry_time :: "json \<Rightarrow> py_exc + time" where
  "entry_time h = (case json_item h ''timestamp'' of
      Inl e \<Rightarrow> Inl e
    | Inr (JTime t) \<Rightarrow> Inr t
    | Inr (JStr s) \<Rightarrow> Inl (ValueError ''Invalid isoformat string'')
    | Inr _ \<Rightarrow> Inl (TypeError ''fromisoformat: argument must be str''))"

fun list_index :: "'a list \<Rightarrow> 'a \<Rightarrow> nat" where
  "list_index [] y = 0"
| "list_index (x # xs) y = (if x = y then 0 else Suc (list_index xs y))"

definition get_state_duration :: "time \<Rightarrow> job_sm \<Rightarrow> job_state \<Rightarrow> py_exc + time option" where
  "get_state_duration now sm s =
     (let entries = filter (\<lambda>h. json_get h ''to_state'' JNull = JStr (job_state_value s))
                      (state_history sm)
      in case entries of
           [] \<Rightarrow> Inr None
         | e # _ \<Rightarrow>
             (case entry_time e of
                Inl x \<Rightarrow> Inl x
              | Inr t0 \<Rightarrow>
                  (let i = list_index (state_history sm) e
                   in if i + 1 < length (state_history sm)
                      then (case entry_time (state_history sm ! (i + 1)) of
                              Inl x \<Rightarrow> Inl x
                            | Inr t1 \<Rightarrow> Inr (Some (t1 - t0)))
                      else Inr (Some (now - t0)))))"

section \<open>Serialisation\<close>

definition sm_to_dict :: "job_sm \<Rightarrow> json" where
  "sm_to_dict sm = JObj [(''job_id'', JStr (sm_job_id sm)),
     (''current_state'', JStr (job_state_value (current_state sm))),
     (''state_history'', JList (state_history sm)),
     (''is_terminal'', JBool (is_terminal sm))]"

definition sm_from_dict :: "time \<Rightarrow> json \<Rightarrow> py_exc + job_sm" where
  "sm_from_dict now data =
     (case json_item data ''job_id'' of
        Inl e \<Rightarrow> Inl e
      | Inr (JStr jid) \<Rightarrow>
          (case json_item data ''current_state'' of
             Inl e \<Rightarrow> Inl e
           | Inr v \<Rightarrow>
               (case JobState v of
                  Inl e \<Rightarrow> Inl e
                | Inr s \<Rightarrow>
                    (case json_get data ''state_history'' (JList []) of
                       JList h \<Rightarrow> Inr ((JobStateMachine jid s now)\<lparr>state_history := h\<rparr>)
                     | _ \<Rightarrow> Inl (TypeError ''state_history''))))
      | Inr _ \<Rightarrow> Inl (TypeError ''job_id''))"

section \<open>The registry\<close>

type_synonym state_disk = "(string, disk_file \<times> time) dict"

record job_registry =
  jobs :: "(string, job_sm) dict"
  state_dir :: state_disk

definition state_file :: "string \<Rightarrow> string" where
  "state_file jid = jid @ ''.state.json''"

definition sm_save :: "time \<Rightarrow> job_sm \<Rightarrow> state_disk \<Rightarrow> state_disk" where
  "sm_save now sm d = dict_set (state_file (sm_job_id sm)) (JsonDoc (sm_to_dict sm), now) d"

definition sm_load :: "time \<Rightarrow> string \<Rightarrow> state_disk \<Rightarrow> job_sm option" where
  "sm_load now jid d = (case dict_get d (state_file jid) of
      None \<Rightarrow> None
    | Some (NotJson, _) \<Rightarrow> None
    | Some (JsonDoc data, _) \<Rightarrow>
        (case sm_from_dict now data of Inl _ \<Rightarrow> None | Inr sm \<Rightarrow> Some sm))"

definition JobRegistry :: "state_disk \<Rightarrow> job_registry" where
  "JobRegistry d = \<lparr>jobs = [], state_dir = d\<rparr>"

definition registry_register :: "time \<Rightarrow> job_spec \<Rightarrow> job_registry \<Rightarrow> job_registry" where
  "registry_register now spec r =
     (let sm = JobStateMachine (job_id spec) CREATED now
      in r\<lparr>jobs := dict_set (job_id spec) sm (jobs r),
           state_dir := sm_save now sm (state_dir r)\<rparr>)"

definition registry_get :: "time \<Rightarrow> string \<Rightarrow> job_registry \<Rightarrow> job_sm option \<times> job_registry" where
  "registry_get now jid r =
     (case dict_get (jobs r) jid of
        Some sm \<Rightarrow> (Some sm, r)
      | None \<Rightarrow>
          (case sm_load now jid (state_dir r) of
             None \<Rightarrow> (None, r)
           | Some sm \<Rightarrow> (Some sm, r\<lparr>jobs := dict_set jid sm (jobs r)\<rparr>)))"

text \<open>A transition of the machine object that the registry holds under \<open>jid\<close>. It is not
  written to disk.\<close>

definition registry_transition ::
  "time \<Rightarrow> string \<Rightarrow> job_state \<Rightarrow> string \<Rightarrow> job_registry \<Rightarrow> (sm_exc, unit, job_registry) outcome" where
  "registry_transition now jid to_state reason r =
     (case dict_get (jobs r) jid of
        None \<Rightarrow> (Inr (), r)
      | Some sm \<Rightarrow>
          (case transition now sm to_state reason of
             Inl e \<Rightarrow> (Inl e, r)
           | Inr sm' \<Rightarrow> (Inr (), r\<lparr>jobs := dict_set jid sm' (jobs r)\<rparr>)))"

definition registry_update_state ::
  "time \<Rightarrow> string \<Rightarrow> job_state \<Rightarrow> string \<Rightarrow> job_registry \<Rightarrow> (sm_exc, unit, job_registry) outcome" where
  "registry_update_state now jid new_state reason r =
     (case registry_get now jid r of
        (None, r1) \<Rightarrow> (Inl (PyExc (ValueError ''Job not found'')), r1)
      | (Some sm, r1) \<Rightarrow>
          (case transition now sm new_state reason of
             Inl e \<Rightarrow> (Inl e, r1)
           | Inr sm' \<Rightarrow>
               (Inr (), r1\<lparr>jobs := dict_set jid sm' (jobs r1),
                           state_dir := sm_save now sm' (state_dir r1)\<rparr>)))"

text \<open>\<^verbatim>\<open>glob("*.state.json")\<close>, and the job identifier recovered from a file name by
  \<^verbatim>\<open>stem.replace(".state", "")\<close>.\<close>

definition glob_state :: "state_disk \<Rightarrow> string list" where
  "glob_state d = filter (\<lambda>n. endswith n ''.state.json'') (dict_keys d)"

definition file_job_id :: "string \<Rightarrow> string" where
  "file_job_id n = replace_all ''.state'' [] (take (length n - length ''.json'') n)"

fun list_jobs_loop ::
  "time \<Rightarrow> job_state option \<Rightarrow> string list \<Rightarrow> job_registry \<Rightarrow> string list \<Rightarrow> string list \<times> job_registry" where
  "list_jobs_loop now flt [] r acc = (acc, r)"
| "list_jobs_loop now flt (f # fs) r acc =
     (let jid = file_job_id f; (osm, r') = registry_get now jid r
      in case osm of
           None \<Rightarrow> list_jobs_loop now flt fs r' acc
         | Some sm \<Rightarrow>
             if flt = None \<or> flt = Some (current_state sm)
             then list_jobs_loop now flt fs r' (acc @ [jid])
             else list_jobs_loop now flt fs r' acc)"

definition registry_list_jobs :: "time \<Rightarrow> job_state option \<Rightarrow> job_registry \<Rightarrow> string list \<times> job_registry" where
  "registry_list_jobs now flt r = list_jobs_loop now flt (glob_state (state_dir r)) r []"

fun cleanup_loop :: "time \<Rightarrow> time \<Rightarrow> string list \<Rightarrow> job_registry \<Rightarrow> nat \<Rightarrow> nat \<times> job_registry" where
  "cleanup_loop now cutoff [] r removed = (removed, r)"
| "cleanup_loop now cutoff (f # fs) r removed =
     (case dict_get (state_dir r) f of
        None \<Rightarrow> cleanup_loop now cutoff fs r removed
      | Some (_, mtime) \<Rightarrow>
          if mtime < cutoff
          then (let jid = file_job_id f; (osm, r') = registry_get now jid r
                in case osm of
                     None \<Rightarrow> cleanup_loop now cutoff fs r' removed
                   | Some sm \<Rightarrow>
                       if is_terminal sm
                       then cleanup_loop now cutoff fs
                              (r'\<lparr>state_dir := dict_pop f (state_dir r'),
                                  jobs := dict_pop jid (jobs r')\<rparr>) (removed + 1)
                       else cleanup_loop now cutoff fs r' removed)
          else cleanup_loop now cutoff fs r removed)"

definition registry_cleanup :: "time \<Rightarrow> int \<Rightarrow> job_registry \<Rightarrow> nat \<times> job_registry" where
  "registry_cleanup now max_age_hours r =
     cleanup_loop now (now - of_int (max_age_hours * 3600)) (glob_state (state_dir r)) r 0"

section \<open>Runs of one machine\<close>

inductive sm_run :: "job_sm \<Rightarrow> job_sm \<Rightarrow> bool" where
  run_refl: "sm_run sm sm"
| run_step: "sm_run sm sm1 \<Longrightarrow> transition now sm1 to_state reason = Inr sm2 \<Longrightarrow> sm_run sm sm2"

lemma transition_Inr_iff:
  "transition now sm to_state reason = Inr sm' \<longleftrightarrow>
     can_transition sm to_state \<and>
     sm' = sm\<lparr>state_history := state_history sm @ [trans_entry (current_state sm) to_state now reason],
              current_state := to_state\<rparr>"
  by (auto simp: transition_def)

lemma transition_Inl_iff:
  "transition now sm to_state reason = Inl e \<longleftrightarrow>
     \<not> can_transition sm to_state \<and>
     e = InvalidStateTransition (current_state sm) to_state
           (if reason = [] then ''Transition not allowed'' else reason)"
  by (auto simp: transition_def)

lemma transition_job_id: "transition now sm to_state reason = Inr sm' \<Longrightarrow> sm_job_id sm' = sm_job_id sm"
  by (simp add: transition_Inr_iff)

text \<open>A path of the life cycle: the states entered one after the other, each by an allowed
  transition, and the history it leaves.\<close>

fun valid_path :: "job_state \<Rightarrow> (job_state \<times> time \<times> string) list \<Rightarrow> job_state \<Rightarrow> bool" where
  "valid_path s [] s' = (s = s')"
| "valid_path s ((t, _, _) # p) s' = ((t = s \<or> t \<in> TRANSITIONS s) \<and> valid_path t p s')"

fun path_entries :: "job_state \<Rightarrow> (job_state \<times> time \<times> string) list \<Rightarrow> json list" where
  "path_entries s [] = []"
| "path_entries s ((t, now, reason) # p) = trans_entry s t now reason # path_entries t p"

lemma valid_path_snoc:
  "valid_path s (p @ [(t, now, r)]) s' \<longleftrightarrow>
     (\<exists>m. valid_path s p m \<and> (t = m \<or> t \<in> TRANSITIONS m) \<and> s' = t)"
  by (induction s p s' rule: valid_path.induct) auto

lemma path_entries_snoc:
  "valid_path s p m \<Longrightarrow>
   path_entries s (p @ [(t, now, r)]) = path_entries s p @ [trans_entry m t now r]"
  by (induction s p m rule: valid_path.induct) auto

lemma sm_run_path:
  assumes "sm_run sm0 sm"
  shows "\<exists>p. valid_path (current_state sm0) p (current_state sm) \<and>
             state_history sm = state_history sm0 @ path_entries (current_state sm0) p"
  using assms
proof (induction rule: sm_run.induct)
  case (run_refl sm)
  show ?case by (rule exI [of _ "[]"]) simp
next
  case (run_step sm0 sm1 now to_state reason sm2)
  then obtain p where p: "valid_path (current_state sm0) p (current_state sm1)"
    and h: "state_history sm1 = state_history sm0 @ path_entries (current_state sm0) p" by blast
  from run_step.hyps have "can_transition sm1 to_state"
    and sm2: "current_state sm2 = to_state"
      "state_history sm2 = state_history sm1 @ [trans_entry (current_state sm1) to_state now reason]"
    by (auto simp: transition_Inr_iff)
  with p have "valid_path (current_state sm0) (p @ [(to_state, now, reason)]) (current_state sm2)"
    by (auto simp: valid_path_snoc can_transition_def split: if_splits)
  with sm2 h path_entries_snoc [OF p] show ?case by auto
qed



text \<open>The states a history says were entered, in order.\<close>

definition entered_states :: "json list \<Rightarrow> json list" where
  "entered_states h = map (\<lambda>e. json_get e ''to_state'' JNull) h"

lemma entered_path_entries:
  "entered_states (path_entries s p) = map (\<lambda>(t, _, _). JStr (job_state_value t)) p"
  by (induction s p rule: path_entries.induct) (auto simp: entered_states_def trans_entry_def)

fun milestones :: "job_state \<Rightarrow> job_state list" where
  "milestones CREATED = []"
| "milestones VALIDATED = [VALIDATED]"
| "milestones QUEUED = [VALIDATED, QUEUED]"
| "milestones ASSIGNED = [VALIDATED, QUEUED, ASSIGNED]"
| "milestones COMPLETED = [VALIDATED, QUEUED, ASSIGNED, RUNNING, COMPLETED]"
| "milestones FAILED = [VALIDATED, QUEUED, ASSIGNED, RUNNING, FAILED]"
| "milestones CANCELLED = [CANCELLED]"
| "milestones _ = [VALIDATED, QUEUED, ASSIGNED, RUNNING]"

lemma milestones_step:
  "t \<in> TRANSITIONS s \<Longrightarrow> subseq (milestones t) (milestones s @ [t])"
  by (cases s) auto

lemma valid_path_milestones:
  "valid_path s p s' \<Longrightarrow> subseq (milestones s') (milestones s @ map fst p)"
proof (induction p arbitrary: s' rule: rev_induct)
  case (snoc x p)
  obtain t now r where x: "x = (t, now, r)" by (cases x)
  with snoc.prems obtain m where m: "valid_path s p m" "t = m \<or> t \<in> TRANSITIONS m" "s' = t"
    by (auto simp: valid_path_snoc)
  from snoc.IH [OF m(1)] have IH: "subseq (milestones m) (milestones s @ map fst p)" .
  from m(2) have "subseq (milestones t) (milestones m @ [t])"
    using milestones_step by auto
  moreover have "subseq (milestones m @ [t]) ((milestones s @ map fst p) @ [t])"
    using IH by (simp only: subseq_append)
  ultimately have "subseq (milestones t) ((milestones s @ map fst p) @ [t])"
    by (rule subseq_order.trans)
  then show ?case using x m(3) by simp
qed simp

text \<open>
  C2 (safety). The order of the life cycle cannot be short-circuited: a job that was created and
  reached Completed (or Failed) was validated, queued, assigned and running before, in that order,
  and its history records it.
\<close>
theorem finished_jobs_passed_all_stages:
  assumes "sm_run (JobStateMachine jid CREATED t0) sm"
    and "current_state sm = s" and "s = COMPLETED \<or> s = FAILED"
  shows "subseq (map (JStr \<circ> job_state_value) [VALIDATED, QUEUED, ASSIGNED, RUNNING, s])
           (entered_states (state_history sm))"
proof -
  let ?m = "map (JStr \<circ> job_state_value) [VALIDATED, QUEUED, ASSIGNED, RUNNING, s]"
  from sm_run_path [OF assms(1)] obtain p where
    p: "valid_path CREATED p s"
    and h: "state_history sm = init_entry CREATED t0 # path_entries CREATED p"
    using assms(2) by (auto simp: JobStateMachine_def)
  from valid_path_milestones [OF p] assms(3)
  have "subseq [VALIDATED, QUEUED, ASSIGNED, RUNNING, s] (map fst p)" by auto
  then have "subseq ?m (map (JStr \<circ> job_state_value) (map fst p))"
    by (rule subseq_map)
  also have "map (JStr \<circ> job_state_value) (map fst p) = entered_states (path_entries CREATED p)"
    by (auto simp: entered_path_entries)
  finally have "subseq ?m (entered_states (path_entries CREATED p))" .
  then have "subseq ?m (x # entered_states (path_entries CREATED p))" for x
    by (rule list_emb_Cons)
  then show ?thesis using h by (simp only: entered_states_def list.map)
qed

theorem finished_jobs_passed_all_stages_witness:
  "subseq (map (JStr \<circ> job_state_value) [VALIDATED, QUEUED, ASSIGNED, RUNNING, COMPLETED])
     (JNull # map JStr [''Validated'', ''Queued'', ''Assigned'', ''Running'', ''Completed''])"
proof -
  define go :: "job_sm \<Rightarrow> job_state \<Rightarrow> job_sm" where "go = (\<lambda>sm t. sm\<lparr>state_history := state_history sm @
      [trans_entry (current_state sm) t 1 ''x''], current_state := t\<rparr>)"
  let ?m = "go (go (go (go (go (JobStateMachine ''j'' CREATED 0) VALIDATED) QUEUED) ASSIGNED) RUNNING) COMPLETED"
  have st: "sm_run a b \<Longrightarrow> can_transition b t \<Longrightarrow> sm_run a (go b t)" for a b t
    by (rule sm_run.run_step [of _ _ 1 t "''x''"]) (auto simp: transition_def go_def)
  have "sm_run (JobStateMachine ''j'' CREATED 0) ?m"
    by (intro st sm_run.run_refl) (simp_all add: can_transition_def go_def JobStateMachine_def)
  moreover have "current_state ?m = COMPLETED" by (simp add: go_def)
  ultimately have "subseq (map (JStr \<circ> job_state_value) [VALIDATED, QUEUED, ASSIGNED, RUNNING, COMPLETED])
      (entered_states (state_history ?m))"
    by (intro finished_jobs_passed_all_stages) simp_all
  then show ?thesis
    by (simp add: go_def JobStateMachine_def entered_states_def trans_entry_def init_entry_def)
qed

lemma terminal_step:
  "is_terminal sm \<Longrightarrow> can_transition sm t \<Longrightarrow> t = current_state sm"
  by (auto simp: is_terminal_def TERMINAL_STATES_def can_transition_def split: if_splits)

text \<open>
  Terminal states are absorbing: whatever transitions are attempted after a job
  completed, failed or was cancelled, the ones that succeed leave it in that state.
\<close>
theorem terminal_states_absorbing:
  assumes "sm_run sm sm'" and "is_terminal sm"
  shows "current_state sm' = current_state sm"
  using assms
proof (induction rule: sm_run.induct)
  case (run_step sm sm1 now to_state reason sm2)
  then have "current_state sm1 = current_state sm" by simp
  with run_step have "is_terminal sm1" by (simp add: is_terminal_def)
  with run_step show ?case
    by (auto simp: transition_Inr_iff dest: terminal_step)
qed simp

theorem terminal_states_absorbing_witness:
  "current_state ((JobStateMachine ''j'' FAILED 0)\<lparr>state_history :=
      [init_entry FAILED 0, trans_entry FAILED FAILED 3 ''again'']\<rparr>) = FAILED"
proof -
  let ?m = "JobStateMachine ''j'' FAILED 0"
  let ?m' = "?m\<lparr>state_history := [init_entry FAILED 0, trans_entry FAILED FAILED 3 ''again'']\<rparr>"
  have "transition 3 ?m FAILED ''again'' = Inr ?m'"
    by (simp add: transition_def can_transition_def JobStateMachine_def)
  then have "sm_run ?m ?m'" by (meson sm_run.intros)
  from terminal_states_absorbing [OF this] show ?thesis
    by (simp add: is_terminal_def TERMINAL_STATES_def JobStateMachine_def)
qed

section \<open>Serialisation is lossless\<close>

lemma sm_from_to_dict [simp]: "sm_from_dict now (sm_to_dict sm) = Inr sm"
  by (simp add: sm_from_dict_def sm_to_dict_def JobStateMachine_def)

text \<open>
  C3 (roundtrip). Reading back the dictionary form of a machine gives the machine, history
  included, whatever the time of the read.
\<close>
theorem sm_dict_roundtrip: "sm_from_dict now (sm_to_dict sm) = Inr sm"
  by (rule sm_from_to_dict)

lemma sm_from_dict_now: "sm_from_dict now d = sm_from_dict now' d"
  by (simp add: sm_from_dict_def JobStateMachine_def split: sum.splits json.splits)

lemma sm_load_now: "sm_load now jid d = sm_load now' jid d"
  by (simp add: sm_load_def sm_from_dict_now [of now _ now'] split: option.splits disk_file.splits)

lemma state_file_inj [simp]: "state_file a = state_file b \<longleftrightarrow> a = b"
  by (simp add: state_file_def)

lemma sm_load_save:
  "sm_load now jid (sm_save t sm d) = (if jid = sm_job_id sm then Some sm else sm_load now jid d)"
  by (simp add: sm_load_def sm_save_def)

section \<open>Stores of machines\<close>

text \<open>
  Scheduler and engine drive a job through several states by successive transitions of its
  machine. \<open>drive\<close> is that sequence, stopping at the first exception. The locale states what
  they rely on: a move applies the transition to the job's machine, reports its exception without
  changing anything, and leaves other jobs alone.
\<close>

fun drive :: "(time \<Rightarrow> string \<Rightarrow> job_state \<Rightarrow> string \<Rightarrow> 'r \<Rightarrow> (sm_exc, unit, 'r) outcome) \<Rightarrow> string \<Rightarrow>
    (job_state \<times> time \<times> string) list \<Rightarrow> 'r \<Rightarrow> (sm_exc, unit, 'r) outcome" where
  "drive move jid [] r = (Inr (), r)"
| "drive move jid ((t, now, reason) # p) r =
     (case move now jid t reason r of
        (Inl e, r') \<Rightarrow> (Inl e, r')
      | (Inr _, r') \<Rightarrow> drive move jid p r')"

locale machine_store =
  fixes lookup :: "'r \<Rightarrow> string \<Rightarrow> job_sm option"
    and move :: "time \<Rightarrow> string \<Rightarrow> job_state \<Rightarrow> string \<Rightarrow> 'r \<Rightarrow> (sm_exc, unit, 'r) outcome"
    and ok :: "'r \<Rightarrow> bool"
  assumes move_ok: "ok r \<Longrightarrow> lookup r jid = Some sm \<Longrightarrow> transition now sm t reason = Inr sm' \<Longrightarrow>
      fst (move now jid t reason r) = Inr () \<and> lookup (snd (move now jid t reason r)) jid = Some sm'"
    and move_err: "ok r \<Longrightarrow> lookup r jid = Some sm \<Longrightarrow> transition now sm t reason = Inl e \<Longrightarrow>
      fst (move now jid t reason r) = Inl e \<and> lookup (snd (move now jid t reason r)) jid = Some sm"
    and move_frame: "ok r \<Longrightarrow> jid' \<noteq> jid \<Longrightarrow> lookup (snd (move now jid t reason r)) jid' = lookup r jid'"
    and move_inv: "ok r \<Longrightarrow> ok (snd (move now jid t reason r))"
begin

lemma drive_inv: "ok r \<Longrightarrow> ok (snd (drive move jid p r))"
proof (induction p arbitrary: r)
  case (Cons x p)
  obtain t now reason where x: "x = (t, now, reason)" by (cases x)
  from move_inv [OF Cons.prems, of now jid t reason] Cons.IH x
  show ?case by (auto split: prod.splits sum.splits)
qed simp

lemma drive_frame: "ok r \<Longrightarrow> jid' \<noteq> jid \<Longrightarrow> lookup (snd (drive move jid p r)) jid' = lookup r jid'"
proof (induction p arbitrary: r)
  case (Cons x p)
  obtain t now reason where x: "x = (t, now, reason)" by (cases x)
  from move_inv [OF Cons.prems(1), of now jid t reason]
    move_frame [OF Cons.prems, of now t reason] Cons.IH Cons.prems(2) x
  show ?case by (auto split: prod.splits sum.splits)
qed simp

text \<open>Driving a job along an allowed path succeeds and leaves its machine at the end of the path
  with one history entry per step.\<close>

lemma drive_valid_path:
  "ok r \<Longrightarrow> lookup r jid = Some sm \<Longrightarrow> valid_path (current_state sm) p s' \<Longrightarrow>
   fst (drive move jid p r) = Inr () \<and>
   lookup (snd (drive move jid p r)) jid =
     Some (sm\<lparr>state_history := state_history sm @ path_entries (current_state sm) p,
              current_state := s'\<rparr>)"
proof (induction p arbitrary: r sm)
  case (Cons x p)
  obtain t now reason where x: "x = (t, now, reason)" by (cases x)
  let ?sm1 = "sm\<lparr>state_history := state_history sm @ [trans_entry (current_state sm) t now reason],
                 current_state := t\<rparr>"
  from Cons.prems x have "can_transition sm t" and p: "valid_path (current_state ?sm1) p s'"
    by (auto simp: can_transition_def)
  then have "transition now sm t reason = Inr ?sm1" by (simp add: transition_def)
  from move_ok [OF Cons.prems(1,2) this] obtain r1 where
    r1: "move now jid t reason r = (Inr (), r1)" "lookup r1 jid = Some ?sm1"
    by (metis prod.collapse)
  with move_inv [OF Cons.prems(1), of now jid t reason] have "ok r1" by simp
  from Cons.IH [OF this r1(2) p] r1(1) x show ?case by simp
qed simp

end

text \<open>Transitions of registered machines, in memory only.\<close>

definition reg_lookup :: "job_registry \<Rightarrow> string \<Rightarrow> job_sm option" where
  "reg_lookup r jid = dict_get (jobs r) jid"

interpretation mem: machine_store reg_lookup registry_transition "\<lambda>_. True"
  by unfold_locales
    (auto simp: reg_lookup_def registry_transition_def split: option.splits sum.splits)

text \<open>\<^verbatim>\<open>update_state\<close>: in memory and on disk. The machines are filed under their own
  identifiers.\<close>

definition store_lookup :: "job_registry \<Rightarrow> string \<Rightarrow> job_sm option" where
  "store_lookup r jid = fst (registry_get 0 jid r)"

definition registry_ok :: "job_registry \<Rightarrow> bool" where
  "registry_ok r = ((\<forall>jid sm. dict_get (jobs r) jid = Some sm \<longrightarrow> sm_job_id sm = jid) \<and>
                    (\<forall>jid sm. sm_load 0 jid (state_dir r) = Some sm \<longrightarrow> sm_job_id sm = jid))"

lemma store_lookup_alt:
  "store_lookup r jid = (case dict_get (jobs r) jid of Some sm \<Rightarrow> Some sm | None \<Rightarrow> sm_load 0 jid (state_dir r))"
  by (simp add: store_lookup_def registry_get_def split: option.splits)

lemma registry_get_lookup:
  "registry_get now jid r = (store_lookup r jid, snd (registry_get now jid r))"
  by (auto simp: store_lookup_alt registry_get_def sm_load_now [of now _ _ 0] split: option.splits)

lemma registry_get_store [simp]: "store_lookup (snd (registry_get now jid r)) k = store_lookup r k"
  by (auto simp: store_lookup_alt registry_get_def sm_load_now [of now _ _ 0] split: option.splits)

lemma store_lookup_id: "registry_ok r \<Longrightarrow> store_lookup r jid = Some sm \<Longrightarrow> sm_job_id sm = jid"
  by (auto simp: registry_ok_def store_lookup_alt split: option.splits)

lemma registry_get_dir [simp]: "state_dir (snd (registry_get now jid r)) = state_dir r"
  by (auto simp: registry_get_def split: option.splits)

lemma registry_get_ok [inv_intros]: "registry_ok r \<Longrightarrow> registry_ok (snd (registry_get now jid r))"
  by (auto simp: registry_ok_def registry_get_def sm_load_now [of now _ _ 0] split: option.splits)

lemma registry_register_ok [inv_intros]: "registry_ok r \<Longrightarrow> registry_ok (registry_register now spec r)"
  by (auto simp: registry_ok_def registry_register_def JobStateMachine_def sm_load_save Let_def
      split: if_splits)

lemma registry_JobRegistry_ok:
  "registry_ok r \<Longrightarrow> registry_ok (JobRegistry (state_dir r))"
  by (simp add: registry_ok_def JobRegistry_def)

lemma update_state_Some:
  assumes "registry_ok r" "store_lookup r jid = Some sm" "transition now sm t reason = Inr sm'"
  shows "registry_update_state now jid t reason r =
     (Inr (), (snd (registry_get now jid r))\<lparr>
        jobs := dict_set jid sm' (jobs (snd (registry_get now jid r))),
        state_dir := sm_save now sm' (state_dir r)\<rparr>)"
  using assms by (subst registry_update_state_def, subst registry_get_lookup) simp

lemma update_state_err:
  assumes "store_lookup r jid = Some sm" "transition now sm t reason = Inl e"
  shows "registry_update_state now jid t reason r = (Inl e, snd (registry_get now jid r))"
  using assms by (subst registry_update_state_def, subst registry_get_lookup) simp

lemma update_state_None:
  assumes "store_lookup r jid = None"
  shows "registry_update_state now jid t reason r =
     (Inl (PyExc (ValueError ''Job not found'')), snd (registry_get now jid r))"
  using assms by (subst registry_update_state_def, subst registry_get_lookup) simp

lemma update_state_cases:
  assumes "registry_ok r"
  obtains (none) "store_lookup r jid = None"
      "snd (registry_update_state now jid t reason r) = snd (registry_get now jid r)"
  | (err) sm e where "store_lookup r jid = Some sm" "transition now sm t reason = Inl e"
      "registry_update_state now jid t reason r = (Inl e, snd (registry_get now jid r))"
  | (ok) sm sm' where "store_lookup r jid = Some sm" "transition now sm t reason = Inr sm'"
      "sm_job_id sm' = jid"
      "registry_update_state now jid t reason r =
        (Inr (), (snd (registry_get now jid r))\<lparr>
        jobs := dict_set jid sm' (jobs (snd (registry_get now jid r))),
        state_dir := sm_save now sm' (state_dir r)\<rparr>)"
proof (cases "store_lookup r jid")
  case None
  then show thesis using none update_state_None by simp
next
  case (Some sm)
  show thesis
  proof (cases "transition now sm t reason")
    case (Inl e)
    with Some err update_state_err show thesis by simp
  next
    case (Inr sm')
    from store_lookup_id [OF assms Some] transition_job_id [OF Inr] have "sm_job_id sm' = jid" by simp
    with ok Some Inr update_state_Some [OF assms Some Inr] show thesis by simp
  qed
qed

interpretation durable: machine_store store_lookup registry_update_state registry_ok
proof unfold_locales
  fix r jid sm now t reason sm'
  assume a: "registry_ok r" "store_lookup r jid = Some sm" "transition now sm t reason = Inr sm'"
  then show "fst (registry_update_state now jid t reason r) = Inr () \<and>
      store_lookup (snd (registry_update_state now jid t reason r)) jid = Some sm'"
    by (simp add: update_state_Some store_lookup_alt)
next
  fix r jid sm now t reason e
  assume "registry_ok r" "store_lookup r jid = Some sm" "transition now sm t reason = Inl e"
  then show "fst (registry_update_state now jid t reason r) = Inl e \<and>
      store_lookup (snd (registry_update_state now jid t reason r)) jid = Some sm"
    by (simp add: update_state_err)
next
  fix r and jid' jid :: string and now t reason
  assume "registry_ok r" "jid' \<noteq> jid"
  then show "store_lookup (snd (registry_update_state now jid t reason r)) jid' = store_lookup r jid'"
    by (cases rule: update_state_cases [of r jid now t reason])
      (auto simp: store_lookup_alt sm_load_save registry_get_def sm_load_now [of now _ _ 0]
        split: option.splits)
next
  fix r now jid t reason
  assume ok: "registry_ok r"
  then show "registry_ok (snd (registry_update_state now jid t reason r))"
  proof (cases rule: update_state_cases [of r jid now t reason])
    case (ok sm sm')
    with registry_get_ok [OF \<open>registry_ok r\<close>, of now jid] show ?thesis
      by (auto simp: registry_ok_def sm_load_save)
  qed (simp_all add: registry_get_ok ok)
qed

section \<open>Durability and cleanup\<close>

text \<open>
  C4 (refinement). A successful update of a job's state is durable: a registry opened later on the
  same directory finds the job at the new state with the step appended to its history, and finds
  every other job as a registry opened before the update would have.
\<close>
theorem update_state_is_durable:
  assumes ok: "registry_ok r" and upd: "registry_update_state now jid t reason r = (Inr (), r')"
  shows "\<exists>sm. fst (registry_get now jid r) = Some sm \<and> can_transition sm t \<and>
      fst (registry_get later jid (JobRegistry (state_dir r'))) =
        Some (sm\<lparr>state_history := state_history sm @ [trans_entry (current_state sm) t now reason],
                 current_state := t\<rparr>)
      \<and> (\<forall>k. k = jid \<or> fst (registry_get later k (JobRegistry (state_dir r')))
                 = fst (registry_get later k (JobRegistry (state_dir r))))"
proof -
  have fresh: "fst (registry_get later k (JobRegistry d)) = sm_load later k d" for k d
    by (simp add: registry_get_def JobRegistry_def split: option.splits)
  show ?thesis
    using ok
  proof (cases rule: update_state_cases [of r jid now t reason])
    case none
    with upd show ?thesis by (simp add: update_state_None)
  next
    case (err sm e)
    with upd show ?thesis by simp
  next
    case (ok sm sm')
    then have "state_dir r' = sm_save now sm' (state_dir r)" using upd by auto
    with ok show ?thesis
      by (subst registry_get_lookup) (auto simp: fresh sm_load_save transition_Inr_iff)
  qed
qed

theorem update_state_is_durable_witness:
  "\<exists>sm. fst (registry_get 1 ''j'' (registry_register 0 (create_sample_job_spec ''j'' 0 ''/a'' ''/b'' INSPECT)
          (JobRegistry []))) = Some sm \<and> current_state sm = CREATED"
proof -
  let ?r = "registry_register 0 (create_sample_job_spec ''j'' 0 ''/a'' ''/b'' INSPECT) (JobRegistry [])"
  have ok: "registry_ok ?r"
    by (rule registry_register_ok) (simp add: registry_ok_def JobRegistry_def sm_load_def)
  have "fst (registry_update_state 1 ''j'' VALIDATED ''v'' ?r) = Inr ()"
    by (simp add: registry_update_state_def registry_get_def registry_register_def transition_def
        can_transition_def JobStateMachine_def create_sample_job_spec_def JobRegistry_def Let_def)
  then have "registry_update_state 1 ''j'' VALIDATED ''v'' ?r =
     (Inr (), snd (registry_update_state 1 ''j'' VALIDATED ''v'' ?r))" by (metis prod.collapse)
  from update_state_is_durable [OF ok this, of 2] obtain sm where
    "fst (registry_get 1 ''j'' ?r) = Some sm" by blast
  then show ?thesis
    by (auto simp: registry_get_def registry_register_def JobStateMachine_def
        create_sample_job_spec_def JobRegistry_def Let_def)
qed

text \<open>The files that a cleanup with the given cutoff is meant to remove: older than the cutoff,
  and the job's machine is known and terminal.\<close>

definition removable :: "time \<Rightarrow> job_registry \<Rightarrow> string \<Rightarrow> bool" where
  "removable cutoff r f = (case dict_get (state_dir r) f of
      None \<Rightarrow> False
    | Some (_, mtime) \<Rightarrow> mtime < cutoff \<and>
        (case store_lookup r (file_job_id f) of None \<Rightarrow> False | Some sm \<Rightarrow> is_terminal sm))"

definition file_names_ok :: "string list \<Rightarrow> bool" where
  "file_names_ok fs = (distinct fs \<and> list_all (\<lambda>f. state_file (file_job_id f) = f) fs)"

text \<open>The names that the registry writes are of this form when the identifiers do not contain
  \<^verbatim>\<open>.state\<close> themselves.\<close>

lemma prefix_state_append:
  assumes "prefix ''.state'' (s @ ''.state'')" and "s \<noteq> []"
  shows "prefix ''.state'' s"
proof -
  from assms(1) obtain zs where zs: "s @ ''.state'' = ''.state'' @ zs" by (auto elim: prefixE)
  have "(s @ ''.state'') ! i = ''.state'' ! i" if "i < 6" for i
    unfolding zs using that by (subst nth_append) simp
  then have at: "length s < 6 \<Longrightarrow> CHR ''.'' = ''.state'' ! length s"
    by (metis append_Cons nth_append_length)
  show ?thesis
  proof (cases "length s < 6")
    case True
    moreover have "\<forall>i<6. 0 < i \<longrightarrow> ''.state'' ! i \<noteq> CHR ''.''"
      by (auto simp: less_Suc_eq numeral_eq_Suc)
    ultimately show ?thesis using at assms(2) by force
  next
    case False
    then show ?thesis using assms(1) by (auto intro: prefix_length_prefix [of _ "s @ ''.state''"])
  qed
qed

lemma replace_state_suffix:
  "\<not> contains ''.state'' s \<Longrightarrow> replace_all ''.state'' [] (s @ ''.state'') = s"
proof (induction s)
  case (Cons c s)
  then have "\<not> prefix ''.state'' (c # s)" "\<not> contains ''.state'' s" by auto
  with Cons.IH prefix_state_append [of "c # s"] show ?case by auto
qed (simp add: prefix_def)

lemma file_job_id_state_file: "\<not> contains ''.state'' jid \<Longrightarrow> file_job_id (state_file jid) = jid"
  by (simp add: file_job_id_def state_file_def replace_state_suffix)

lemma file_names_ok_state_files:
  "distinct js \<Longrightarrow> list_all (\<lambda>j. \<not> contains ''.state'' j) js \<Longrightarrow> file_names_ok (map state_file js)"
  by (auto simp: file_names_ok_def distinct_map inj_on_def list_all_iff file_job_id_state_file)

lemma file_names_ok_Cons:
  "file_names_ok (f # fs) \<longleftrightarrow> f \<notin> set fs \<and> state_file (file_job_id f) = f \<and> file_names_ok fs"
  by (auto simp: file_names_ok_def)

lemma file_names_ok_id_neq:
  "file_names_ok (f # fs) \<Longrightarrow> g \<in> set fs \<Longrightarrow> file_job_id g \<noteq> file_job_id f"
proof
  assume ok: "file_names_ok (f # fs)" and g: "g \<in> set fs" and eq: "file_job_id g = file_job_id f"
  from ok g have "state_file (file_job_id g) = g" "state_file (file_job_id f) = f" "f \<noteq> g"
    by (auto simp: file_names_ok_def list_all_iff)
  with eq show False by simp
qed

lemma store_lookup_drop:
  assumes "state_file jid = f"
  shows "store_lookup (r\<lparr>state_dir := dict_pop f (state_dir r), jobs := dict_pop jid (jobs r)\<rparr>) k =
    (if k = jid then None else store_lookup r k)"
  using assms by (auto simp: store_lookup_alt sm_load_def split: option.splits)

lemma cleanup_loop_step:
  "cleanup_loop now c (f # fs) r n =
     (let r1 = (if (case dict_get (state_dir r) f of None \<Rightarrow> False | Some (_, m) \<Rightarrow> m < c)
                then snd (registry_get now (file_job_id f) r) else r)
      in if removable c r f
         then cleanup_loop now c fs (r1\<lparr>state_dir := dict_pop f (state_dir r1),
                jobs := dict_pop (file_job_id f) (jobs r1)\<rparr>) (n + 1)
         else cleanup_loop now c fs r1 n)"
proof (cases "dict_get (state_dir r) f")
  case None
  then show ?thesis by (simp add: removable_def)
next
  case (Some x)
  obtain d m where x: "x = (d, m)" by (cases x)
  obtain r' where g: "registry_get now (file_job_id f) r = (store_lookup r (file_job_id f), r')"
    using registry_get_lookup by metis
  show ?thesis
    using Some x g by (cases "store_lookup r (file_job_id f)") (simp_all add: removable_def)
qed

lemma removable_cong:
  assumes "dict_get (state_dir r) g = dict_get (state_dir r') g"
    and "store_lookup r (file_job_id g) = store_lookup r' (file_job_id g)"
  shows "removable c r g = removable c r' g"
  using assms by (simp add: removable_def split: option.splits)

lemma cleanup_loop_spec:
  assumes "file_names_ok fs"
  shows "fst (cleanup_loop now c fs r n) = n + length (filter (removable c r) fs) \<and>
    state_dir (snd (cleanup_loop now c fs r n)) =
      filter (\<lambda>(f, _). \<not> (f \<in> set fs \<and> removable c r f)) (state_dir r) \<and>
    (\<forall>f\<in>set fs. store_lookup (snd (cleanup_loop now c fs r n)) (file_job_id f) =
       (if removable c r f then None else store_lookup r (file_job_id f))) \<and>
    (\<forall>k. state_file k \<notin> set fs \<longrightarrow> store_lookup (snd (cleanup_loop now c fs r n)) k = store_lookup r k)"
  using assms
proof (induction fs arbitrary: r n)
  case Nil
  then show ?case by (simp add: case_prod_unfold)
next
  case (Cons f fs)
  define r1 where "r1 = (if (case dict_get (state_dir r) f of None \<Rightarrow> False | Some (_, m) \<Rightarrow> m < c)
                then snd (registry_get now (file_job_id f) r) else r)"
  define r2 where "r2 = (if removable c r f then r1\<lparr>state_dir := dict_pop f (state_dir r1),
                jobs := dict_pop (file_job_id f) (jobs r1)\<rparr> else r1)"
  let ?b = "removable c r f"
  have loop: "cleanup_loop now c (f # fs) r n = cleanup_loop now c fs r2 (if ?b then n + 1 else n)"
    unfolding cleanup_loop_step r2_def r1_def Let_def by simp
  from Cons.prems have fs: "file_names_ok fs" and f: "f \<notin> set fs" "state_file (file_job_id f) = f"
    by (auto simp: file_names_ok_Cons)
  have dir2: "state_dir r2 = (if ?b then dict_pop f (state_dir r) else state_dir r)"
    by (simp add: r2_def r1_def)
  have look2: "store_lookup r2 k = (if ?b \<and> k = file_job_id f then None else store_lookup r k)" for k
    using store_lookup_drop [OF f(2), of r1 k] by (auto simp: r2_def r1_def)
  have same: "removable c r2 g = removable c r g" if "g \<in> set fs" for g
  proof (rule removable_cong)
    show "dict_get (state_dir r2) g = dict_get (state_dir r) g" using that f by (auto simp: dir2)
    show "store_lookup r2 (file_job_id g) = store_lookup r (file_job_id g)"
      using file_names_ok_id_neq [OF Cons.prems that] by (simp add: look2)
  qed
  have "filter (removable c r2) fs = filter (removable c r) fs"
    using same by (simp cong: filter_cong)
  moreover have "filter (\<lambda>(g, _). \<not> (g \<in> set fs \<and> removable c r2 g)) (state_dir r2) =
      filter (\<lambda>(g, _). \<not> (g \<in> set (f # fs) \<and> removable c r g)) (state_dir r)"
    using same f(1) unfolding dir2 AList.delete_eq by (auto intro!: filter_cong)
  ultimately show ?case
    using Cons.IH [OF fs, of r2 "if ?b then n + 1 else n"] same f file_names_ok_id_neq [OF Cons.prems]
    unfolding loop look2 by auto
qed

text \<open>
  Cleaning up terminal jobs removes exactly the state files that are older than
  the cutoff and whose job is terminal, keeps every other file untouched and in place, returns the
  number of files removed, and afterwards the registry finds the removed jobs neither in memory nor
  on disk and every other listed job as before. The directory's file names must be of the form the
  registry itself writes.
\<close>
theorem cleanup_removes_old_terminal_jobs:
  assumes "file_names_ok (glob_state (state_dir r))"
    and "registry_cleanup now h r = (n, r')"
    and "cutoff = now - of_int (h * 3600)" and "gone = (\<lambda>f. endswith f ''.state.json'' \<and> removable cutoff r f)"
  shows "state_dir r' = filter (\<lambda>(f, _). \<not> gone f) (state_dir r) \<and>
    n = length (filter gone (dict_keys (state_dir r))) \<and>
    (\<forall>f\<in>set (glob_state (state_dir r)). fst (registry_get t (file_job_id f) r') =
        (if gone f then None else fst (registry_get t (file_job_id f) r)))"
proof -
  let ?fs = "glob_state (state_dir r)"
  have look: "fst (registry_get t k q) = store_lookup q k" for k q
    using registry_get_lookup [of t k q] by (metis fst_conv)
  have fs: "set ?fs = {f. endswith f ''.state.json'' \<and> f \<in> fst ` set (state_dir r)}"
    by (auto simp: glob_state_def dict_keys_def)
  from assms(2,3) have loop: "cleanup_loop now cutoff ?fs r 0 = (n, r')"
    by (simp add: registry_cleanup_def)
  note spec = cleanup_loop_spec [OF assms(1), of now cutoff r 0, unfolded loop, simplified]
  have "state_dir r' = filter (\<lambda>(f, _). \<not> gone f) (state_dir r)"
    using spec by (auto simp: fs assms(4) intro!: filter_cong) force
  moreover have "n = length (filter gone (dict_keys (state_dir r)))"
    using spec by (simp add: glob_state_def assms(4) conj_commute)
  moreover have "fst (registry_get t (file_job_id f) r') =
           (if gone f then None else fst (registry_get t (file_job_id f) r))" if "f \<in> set ?fs" for f
    using spec that by (simp add: look fs assms(4))
  ultimately show ?thesis by blast
qed

theorem cleanup_removes_old_terminal_jobs_witness:
  "fst (registry_cleanup 90000 24
     (JobRegistry [(''a.state.json'', JsonDoc (sm_to_dict (JobStateMachine ''a'' FAILED 0)), 0),
                   (''b.state.json'', JsonDoc (sm_to_dict (JobStateMachine ''b'' RUNNING 0)), 0)])) = 1"
proof -
  let ?r = "JobRegistry [(''a.state.json'', JsonDoc (sm_to_dict (JobStateMachine ''a'' FAILED 0)), 0),
                   (''b.state.json'', JsonDoc (sm_to_dict (JobStateMachine ''b'' RUNNING 0)), 0)]"
  have ids: "file_job_id ''a.state.json'' = ''a''" "file_job_id ''b.state.json'' = ''b''"
    by code_simp+
  have ok: "file_names_ok (glob_state (state_dir ?r))"
    by code_simp
  have rem: "removable 3600 ?r ''a.state.json''" "\<not> removable 3600 ?r ''b.state.json''"
    by (simp_all add: removable_def JobRegistry_def ids store_lookup_alt sm_load_def state_file_def
        is_terminal_def TERMINAL_STATES_def JobStateMachine_def)
  obtain n r' where run: "registry_cleanup 90000 24 ?r = (n, r')" by (cases "registry_cleanup 90000 24 ?r")
  from cleanup_removes_old_terminal_jobs [OF ok run, of 3600 "\<lambda>f. endswith f ''.state.json'' \<and> removable 3600 ?r f"]
  have "fst (registry_cleanup 90000 24 ?r) =
      length (filter (\<lambda>f. endswith f ''.state.json'' \<and> removable 3600 ?r f) (dict_keys (state_dir ?r)))"
    using run by simp
  also have "\<dots> = 1" using rem by (simp add: JobRegistry_def dict_keys_def endswith_def suffix_Cons)
  finally show ?thesis .
qed

end
