(* ===== verification/Job_Scheduler.thy ===== *)
theory Job_Scheduler
  imports Job_State_Machine "HOL-Library.Multiset"
begin

text \<open>
  \<^verbatim>\<open>h2kvm/runtime/worker/scheduler.py\<close>: the persistent priority queue of jobs
  (\<^verbatim>\<open>JobQueue\<close>), the registry of workers (\<^verbatim>\<open>WorkerRegistry\<close>) and the scheduler that
  combines them with the job registry (\<^verbatim>\<open>JobScheduler\<close>).

  Every method body runs under a lock, so a method is one step. The queue directory is a
  dictionary from file names to contents of a type \<open>'d\<close>; pydantic's \<^verbatim>\<open>model_dump_json\<close> and
  \<^verbatim>\<open>JobSpec(**json.load(f))\<close> are the parameters \<open>dump\<close> and \<open>parse\<close> (\<open>None\<close> when parsing or
  validation raises). Writing and unlinking a file succeed.
\<close>

section \<open>The job queue\<close>

record 'd job_queue =
  queues :: "(int, job_spec list) dict"
  queue_dir :: "(string, 'd) dict"

definition empty_queues :: "(int, job_spec list) dict" where
  "empty_queues = map (\<lambda>i. (i, [])) [1..10]"

definition job_file :: "string \<Rightarrow> string" where
  "job_file jid = jid @ ''.job.json''"

definition queue_append :: "job_spec \<Rightarrow> (int, job_spec list) dict \<Rightarrow> py_exc + (int, job_spec list) dict" where
  "queue_append j qs = (case dict_get qs (job_priority j) of
      None \<Rightarrow> Inl (KeyError ''priority'')
    | Some q \<Rightarrow> Inr (dict_set (job_priority j) (q @ [j]) qs))"

text \<open>\<^verbatim>\<open>_load_from_disk\<close>: an unreadable or invalid file is logged and skipped.\<close>

fun load_loop :: "('d \<Rightarrow> job_spec option) \<Rightarrow> (string \<times> 'd) list \<Rightarrow>
    (int, job_spec list) dict \<Rightarrow> (int, job_spec list) dict" where
  "load_loop parse [] qs = qs"
| "load_loop parse ((n, d) # fs) qs =
     (case parse d of
        None \<Rightarrow> load_loop parse fs qs
      | Some j \<Rightarrow>
          (case queue_append j qs of
             Inl _ \<Rightarrow> load_loop parse fs qs
           | Inr qs' \<Rightarrow> load_loop parse fs qs'))"

definition load_from_disk :: "('d \<Rightarrow> job_spec option) \<Rightarrow> 'd job_queue \<Rightarrow> 'd job_queue" where
  "load_from_disk parse q = q\<lparr>queues :=
     load_loop parse (filter (\<lambda>(n, _). endswith n ''.job.json'') (queue_dir q)) (queues q)\<rparr>"

definition JobQueue :: "('d \<Rightarrow> job_spec option) \<Rightarrow> (string, 'd) dict \<Rightarrow> 'd job_queue" where
  "JobQueue parse d = load_from_disk parse \<lparr>queues = empty_queues, queue_dir = d\<rparr>"

definition persist_to_disk :: "(job_spec \<Rightarrow> 'd) \<Rightarrow> job_spec \<Rightarrow> 'd job_queue \<Rightarrow> 'd job_queue" where
  "persist_to_disk dump j q = q\<lparr>queue_dir := dict_set (job_file (job_id j)) (dump j) (queue_dir q)\<rparr>"

definition remove_from_disk :: "string \<Rightarrow> 'd job_queue \<Rightarrow> 'd job_queue" where
  "remove_from_disk jid q =
     (if dict_has (queue_dir q) (job_file jid)
      then q\<lparr>queue_dir := dict_pop (job_file jid) (queue_dir q)\<rparr> else q)"

definition enqueue :: "(job_spec \<Rightarrow> 'd) \<Rightarrow> job_spec \<Rightarrow> 'd job_queue \<Rightarrow> (py_exc, unit, 'd job_queue) outcome" where
  "enqueue dump j q = (case queue_append j (queues q) of
      Inl e \<Rightarrow> (Inl e, q)
    | Inr qs \<Rightarrow> (Inr (), persist_to_disk dump j (q\<lparr>queues := qs\<rparr>)))"

definition requirements_of :: "job_spec \<Rightarrow> (string, bool) dict" where
  "requirements_of j = (let r = capability_requirements j in
     [(''nbd'', needs_nbd r), (''lvm'', needs_lvm r), (''mount'', needs_mount r),
      (''selinux'', needs_selinux_tools r)])"

definition cap_get :: "(string, bool) dict \<Rightarrow> string \<Rightarrow> bool" where
  "cap_get caps c = (case dict_get caps c of None \<Rightarrow> False | Some b \<Rightarrow> b)"

definition job_matches_worker :: "job_spec \<Rightarrow> (string, bool) dict option \<Rightarrow> bool" where
  "job_matches_worker j worker_caps = (case worker_caps of
      None \<Rightarrow> True
    | Some caps \<Rightarrow> list_all (\<lambda>(cap, required). \<not> (required \<and> \<not> cap_get caps cap)) (requirements_of j))"

fun dequeue_scan :: "(string, bool) dict option \<Rightarrow> int list \<Rightarrow> 'd job_queue \<Rightarrow> job_spec option \<times> 'd job_queue" where
  "dequeue_scan caps [] q = (None, q)"
| "dequeue_scan caps (p # ps) q =
     (case dict_get (queues q) p of
        None \<Rightarrow> dequeue_scan caps ps q
      | Some js \<Rightarrow>
          (case find (\<lambda>j. job_matches_worker j caps) js of
             None \<Rightarrow> dequeue_scan caps ps q
           | Some j \<Rightarrow>
               (Some j, remove_from_disk (job_id j) (q\<lparr>queues := dict_set p (remove1 j js) (queues q)\<rparr>))))"

definition dequeue :: "(string, bool) dict option \<Rightarrow> 'd job_queue \<Rightarrow> job_spec option \<times> 'd job_queue" where
  "dequeue caps q = dequeue_scan caps (sort (dict_keys (queues q))) q"

definition queue_at :: "'d job_queue \<Rightarrow> int \<Rightarrow> job_spec list" where
  "queue_at q p = (case dict_get (queues q) p of None \<Rightarrow> [] | Some js \<Rightarrow> js)"

fun peek_scan :: "int list \<Rightarrow> 'd job_queue \<Rightarrow> job_spec option" where
  "peek_scan [] q = None"
| "peek_scan (p # ps) q = (case queue_at q p of [] \<Rightarrow> peek_scan ps q | j # _ \<Rightarrow> Some j)"

definition peek :: "'d job_queue \<Rightarrow> job_spec option" where
  "peek q = peek_scan (sort (dict_keys (queues q))) q"

definition queue_size :: "'d job_queue \<Rightarrow> nat" where
  "queue_size q = sum_list (map length (dict_values (queues q)))"

definition list_queued :: "'d job_queue \<Rightarrow> job_spec list" where
  "list_queued q = concat (map (queue_at q) (sort (dict_keys (queues q))))"

section \<open>The worker registry\<close>

record worker_registry =
  heartbeat_timeout :: int
  workers :: "(string, worker_capabilities) dict"

definition WorkerRegistry :: "int \<Rightarrow> worker_registry" where
  "WorkerRegistry t = \<lparr>heartbeat_timeout = t, workers = []\<rparr>"

definition worker_register :: "worker_capabilities \<Rightarrow> worker_registry \<Rightarrow> worker_registry" where
  "worker_register w r = r\<lparr>workers := dict_set (worker_id w) w (workers r)\<rparr>"

definition worker_heartbeat :: "time \<Rightarrow> string \<Rightarrow> worker_registry \<Rightarrow> bool \<times> worker_registry" where
  "worker_heartbeat now wid r = (case dict_get (workers r) wid of
      Some w \<Rightarrow> (True, r\<lparr>workers := dict_set wid (w\<lparr>last_heartbeat := now\<rparr>) (workers r)\<rparr>)
    | None \<Rightarrow> (False, r))"

definition worker_unregister :: "string \<Rightarrow> worker_registry \<Rightarrow> worker_registry" where
  "worker_unregister wid r =
     (if dict_has (workers r) wid then r\<lparr>workers := dict_pop wid (workers r)\<rparr> else r)"

definition get_worker :: "worker_registry \<Rightarrow> string \<Rightarrow> worker_capabilities option" where
  "get_worker r wid = dict_get (workers r) wid"

definition list_workers :: "time \<Rightarrow> bool \<Rightarrow> worker_registry \<Rightarrow> worker_capabilities list" where
  "list_workers now only_alive r =
     (let cutoff = now - of_int (heartbeat_timeout r)
      in filter (\<lambda>w. only_alive \<longrightarrow> last_heartbeat w > cutoff) (dict_values (workers r)))"

definition worker_matches_requirements :: "worker_capabilities \<Rightarrow> (string, bool) dict \<Rightarrow> bool" where
  "worker_matches_requirements w reqs =
     list_all (\<lambda>(cap, required). \<not> (required \<and> \<not> cap_get (capabilities w) cap)) reqs"

definition find_capable_worker :: "time \<Rightarrow> (string, bool) dict \<Rightarrow> worker_registry \<Rightarrow> worker_capabilities option" where
  "find_capable_worker now reqs r =
     find (\<lambda>w. worker_matches_requirements w reqs) (list_workers now True r)"

section \<open>The scheduler\<close>

record 'd scheduler =
  sched_queue :: "'d job_queue"
  sched_workers :: worker_registry
  sched_jobs :: job_registry
  assigned_jobs :: "(string, string) dict"

definition JobScheduler :: "'d job_queue \<Rightarrow> worker_registry \<Rightarrow> job_registry \<Rightarrow> 'd scheduler" where
  "JobScheduler q w r = \<lparr>sched_queue = q, sched_workers = w, sched_jobs = r, assigned_jobs = []\<rparr>"

definition submit_job ::
  "(job_spec \<Rightarrow> 'd) \<Rightarrow> time \<Rightarrow> job_spec \<Rightarrow> 'd scheduler \<Rightarrow> (sm_exc, unit, 'd scheduler) outcome" where
  "submit_job dump now j s =
     (let r0 = registry_register now j (sched_jobs s)
      in case registry_transition now (job_id j) VALIDATED ''Job validated'' r0 of
           (Inl e, r1) \<Rightarrow> (Inl e, s\<lparr>sched_jobs := r1\<rparr>)
         | (Inr _, r1) \<Rightarrow>
             (case registry_transition now (job_id j) QUEUED ''Job queued for execution'' r1 of
                (Inl e, r2) \<Rightarrow> (Inl e, s\<lparr>sched_jobs := r2\<rparr>)
              | (Inr _, r2) \<Rightarrow>
                  (case enqueue dump j (sched_queue s) of
                     (Inl e, q) \<Rightarrow> (Inl (PyExc e), s\<lparr>sched_jobs := r2, sched_queue := q\<rparr>)
                   | (Inr _, q) \<Rightarrow> (Inr (), s\<lparr>sched_jobs := r2, sched_queue := q\<rparr>))))"

definition assign_job :: "time \<Rightarrow> string \<Rightarrow> 'd scheduler \<Rightarrow> (sm_exc, job_spec option, 'd scheduler) outcome" where
  "assign_job now wid s =
     (case get_worker (sched_workers s) wid of
        None \<Rightarrow> (Inr None, s)
      | Some w \<Rightarrow>
          (case dequeue (Some (capabilities w)) (sched_queue s) of
             (None, q) \<Rightarrow> (Inr None, s\<lparr>sched_queue := q\<rparr>)
           | (Some j, q) \<Rightarrow>
               (let s1 = s\<lparr>sched_queue := q, assigned_jobs := dict_set (job_id j) wid (assigned_jobs s)\<rparr>
                in case registry_get now (job_id j) (sched_jobs s1) of
                     (None, r1) \<Rightarrow> (Inr (Some j), s1\<lparr>sched_jobs := r1\<rparr>)
                   | (Some _, r1) \<Rightarrow>
                       (case registry_transition now (job_id j) ASSIGNED (''Assigned to worker '' @ wid) r1 of
                          (Inl e, r2) \<Rightarrow> (Inl e, s1\<lparr>sched_jobs := r2\<rparr>)
                        | (Inr _, r2) \<Rightarrow> (Inr (Some j), s1\<lparr>sched_jobs := r2\<rparr>)))))"

definition complete_job ::
  "time \<Rightarrow> string \<Rightarrow> bool \<Rightarrow> string \<Rightarrow> 'd scheduler \<Rightarrow> (sm_exc, unit, 'd scheduler) outcome" where
  "complete_job now jid success reason s =
     (let s1 = s\<lparr>assigned_jobs := dict_pop jid (assigned_jobs s)\<rparr>
      in case registry_get now jid (sched_jobs s1) of
           (None, r1) \<Rightarrow> (Inr (), s1\<lparr>sched_jobs := r1\<rparr>)
         | (Some _, r1) \<Rightarrow>
             (case registry_transition now jid (if success then COMPLETED else FAILED)
                     (if reason \<noteq> [] then reason
                      else if success then ''Job completed'' else ''Job failed'') r1 of
                (res, r2) \<Rightarrow> (res, s1\<lparr>sched_jobs := r2\<rparr>)))"

definition get_queue_size :: "'d scheduler \<Rightarrow> nat" where
  "get_queue_size s = queue_size (sched_queue s)"

definition get_assigned_jobs :: "'d scheduler \<Rightarrow> (string, string) dict" where
  "get_assigned_jobs s = assigned_jobs s"

text \<open>\<^verbatim>\<open>get_scheduler\<close>: the global instance, built on first use.\<close>

definition get_scheduler :: "'d scheduler \<Rightarrow> 'd scheduler option \<Rightarrow> 'd scheduler \<times> 'd scheduler option" where
  "get_scheduler fresh g = (case g of Some s \<Rightarrow> (s, g) | None \<Rightarrow> (fresh, Some fresh))"

section \<open>Priority lists\<close>

text \<open>The abstract queue is one list: a new job goes behind the jobs of its priority and of
  higher ones (lower numbers).\<close>

definition insert_prio :: "job_spec \<Rightarrow> job_spec list \<Rightarrow> job_spec list" where
  "insert_prio j xs = takeWhile (\<lambda>x. job_priority x \<le> job_priority j) xs @ j #
     dropWhile (\<lambda>x. job_priority x \<le> job_priority j) xs"

lemma insert_prio_before:
  "\<forall>x\<in>set xs. job_priority x \<le> job_priority j \<Longrightarrow> insert_prio j (xs @ ys) = xs @ insert_prio j ys"
  by (simp add: insert_prio_def takeWhile_append2 dropWhile_append2)

lemma insert_prio_front:
  "\<forall>x\<in>set ys. job_priority j < job_priority x \<Longrightarrow> insert_prio j ys = j # ys"
  by (cases ys) (auto simp: insert_prio_def)

lemma mset_insert_prio [simp]: "mset (insert_prio j xs) = add_mset j (mset xs)"
  by (simp add: insert_prio_def) (metis mset_append takeWhile_dropWhile_id)

lemma set_insert_prio [simp]: "set (insert_prio j xs) = insert j (set xs)"
  by (metis mset_insert_prio set_mset_add_mset_insert set_mset_mset)

lemma sorted_insert_prio:
  assumes "sorted (map job_priority xs)"
  shows "sorted (map job_priority (insert_prio j xs))"
  using assms
proof (induction xs)
  case (Cons x xs)
  then show ?case
  proof (cases "job_priority x \<le> job_priority j")
    case True
    then have "insert_prio j (x # xs) = x # insert_prio j xs"
      using insert_prio_before [of "[x]" j xs] by simp
    with Cons True show ?thesis by auto
  next
    case False
    then show ?thesis using Cons by (auto simp: insert_prio_def)
  qed
qed (simp add: insert_prio_def)

lemma filter_insert_prio:
  assumes "sorted (map job_priority xs)"
  shows "filter (\<lambda>x. k = job_priority x) (insert_prio j xs) =
    filter (\<lambda>x. k = job_priority x) xs @ (if k = job_priority j then [j] else [])"
proof -
  let ?P = "\<lambda>x. job_priority x \<le> job_priority j"
  have srt: "sorted (map job_priority (dropWhile ?P xs))"
    using assms by (metis dropWhile_eq_drop drop_map sorted_wrt_drop)
  have "job_priority j < job_priority x" if x: "x \<in> set (dropWhile ?P xs)" for x
  proof -
    from x obtain y ys where d: "dropWhile ?P xs = y # ys" by (cases "dropWhile ?P xs") auto
    then have "job_priority j < job_priority y" using hd_dropWhile [of ?P xs] by force
    with srt x d show ?thesis by auto
  qed
  then have "k = job_priority j \<Longrightarrow> filter (\<lambda>x. k = job_priority x) (dropWhile ?P xs) = []"
    by (fastforce simp: filter_empty_conv)
  moreover have "filter (\<lambda>x. k = job_priority x) xs =
      filter (\<lambda>x. k = job_priority x) (takeWhile ?P xs) @ filter (\<lambda>x. k = job_priority x) (dropWhile ?P xs)"
    by (metis filter_append takeWhile_dropWhile_id)
  ultimately show ?thesis by (auto simp: insert_prio_def)
qed

text \<open>Inserting a batch of jobs one after the other sorts it by priority, and stably: jobs of one
  priority keep their order.\<close>

lemma fold_insert_prio: "fold insert_prio js [] = sort_key job_priority js"
proof -
  have "mset (fold insert_prio js xs) = mset js + mset xs \<and>
      (sorted (map job_priority xs) \<longrightarrow> sorted (map job_priority (fold insert_prio js xs)) \<and>
       (\<forall>k. filter (\<lambda>x. k = job_priority x) (fold insert_prio js xs) =
            filter (\<lambda>x. k = job_priority x) xs @ filter (\<lambda>x. k = job_priority x) js))" for xs
    by (induction js arbitrary: xs) (auto simp: sorted_insert_prio filter_insert_prio)
  from this [of "[]"] show ?thesis
    by (intro properties_for_sort_key [symmetric]) auto
qed

lemma sorted_head_split:
  "sorted (map job_priority (a @ x # b)) \<Longrightarrow> y \<in> set b \<Longrightarrow> job_priority x \<le> job_priority y"
  by (auto simp: sorted_append)

section \<open>The interface of a priority queue\<close>

text \<open>A batch of jobs enqueued one after the other, and up to \<open>n\<close> jobs taken out by a worker that
  accepts any job.\<close>

fun enq_all :: "(job_spec \<Rightarrow> 'q \<Rightarrow> (py_exc, unit, 'q) outcome) \<Rightarrow> job_spec list \<Rightarrow> 'q \<Rightarrow> 'q" where
  "enq_all enq [] q = q"
| "enq_all enq (j # js) q = enq_all enq js (snd (enq j q))"

fun drain :: "((string, bool) dict option \<Rightarrow> 'q \<Rightarrow> job_spec option \<times> 'q) \<Rightarrow> nat \<Rightarrow> 'q \<Rightarrow> job_spec list" where
  "drain deq 0 q = []"
| "drain deq (Suc n) q = (case deq None q of (None, _) \<Rightarrow> [] | (Some j, q') \<Rightarrow> j # drain deq n q')"

text \<open>
  What the scheduler relies on: enqueueing inserts by priority, dequeueing takes the first job in
  queue order that the caller accepts and nothing else.
\<close>

locale prio_queue =
  fixes contents :: "'q \<Rightarrow> job_spec list"
    and enq :: "job_spec \<Rightarrow> 'q \<Rightarrow> (py_exc, unit, 'q) outcome"
    and deq :: "(string, bool) dict option \<Rightarrow> 'q \<Rightarrow> job_spec option \<times> 'q"
    and wf :: "'q \<Rightarrow> bool"
  assumes wf_sorted: "wf q \<Longrightarrow> sorted (map job_priority (contents q))"
    and enq_result: "wf q \<Longrightarrow> job_spec_ok j \<Longrightarrow> fst (enq j q) = Inr ()"
    and enq_contents: "wf q \<Longrightarrow> job_spec_ok j \<Longrightarrow> contents (snd (enq j q)) = insert_prio j (contents q)"
    and enq_wf: "wf q \<Longrightarrow> wf (snd (enq j q))"
    and deq_result: "wf q \<Longrightarrow> fst (deq c q) = find (\<lambda>j. job_matches_worker j c) (contents q)"
    and deq_contents: "wf q \<Longrightarrow> contents (snd (deq c q)) =
          (case find (\<lambda>j. job_matches_worker j c) (contents q) of None \<Rightarrow> contents q
           | Some j \<Rightarrow> remove1 j (contents q))"
    and deq_wf: "wf q \<Longrightarrow> wf (snd (deq c q))"
begin

lemma enq_all_contents:
  "wf q \<Longrightarrow> list_all job_spec_ok js \<Longrightarrow>
   wf (enq_all enq js q) \<and> contents (enq_all enq js q) = fold insert_prio js (contents q)"
  by (induction js arbitrary: q) (auto simp: enq_contents enq_wf)

lemma drain_contents: "wf q \<Longrightarrow> drain deq n q = take n (contents q)"
proof (induction n arbitrary: q)
  case (Suc n)
  obtain r q' where d: "deq None q = (r, q')" by (cases "deq None q")
  note res = deq_result [OF Suc.prems, of None] deq_contents [OF Suc.prems, of None]
    deq_wf [OF Suc.prems, of None]
  show ?case
  proof (cases "contents q")
    case Nil
    with res d show ?thesis by simp
  next
    case (Cons j js)
    with res d have "r = Some j" "contents q' = js" "wf q'" by (simp_all add: job_matches_worker_def)
    with Suc.IH d Cons show ?thesis by simp
  qed
qed simp

text \<open>A batch submitted to an empty queue comes out sorted by priority, first come first served
  within a priority.\<close>

lemma batch_order:
  "wf q \<Longrightarrow> contents q = [] \<Longrightarrow> list_all job_spec_ok js \<Longrightarrow>
   drain deq (length js) (enq_all enq js q) = sort_key job_priority js"
  by (simp add: drain_contents enq_all_contents fold_insert_prio)

text \<open>A dequeued job is acceptable, and every job that was before it in the queue is not.\<close>

lemma deq_best:
  assumes "wf q" and "fst (deq c q) = Some j"
  shows "job_matches_worker j c \<and> j \<in> set (contents q) \<and>
    (\<forall>i\<in>set (contents q). job_matches_worker i c \<longrightarrow> job_priority j \<le> job_priority i)"
proof -
  from assms deq_result have f: "find (\<lambda>j. job_matches_worker j c) (contents q) = Some j" by simp
  then obtain i where i: "i < length (contents q)" "job_matches_worker (contents q ! i) c"
    "j = contents q ! i" "\<forall>k<i. \<not> job_matches_worker (contents q ! k) c"
    by (auto simp: find_Some_iff)
  have "job_priority j \<le> job_priority x"
    if x: "x \<in> set (contents q)" "job_matches_worker x c" for x
  proof -
    from x(1) obtain k where k: "k < length (contents q)" "x = contents q ! k" by (auto simp: in_set_conv_nth)
    with i x(2) have "i \<le> k" by (meson not_le)
    with wf_sorted [OF assms(1)] i k show ?thesis by (simp add: sorted_iff_nth_mono)
  qed
  with i show ?thesis by auto
qed

end

section \<open>The queue implements the interface\<close>

definition prios :: "int list" where
  "prios = [1..10]"

lemma prios_props: "sorted_wrt (<) prios" "distinct prios" "set prios = {1..10}" "sort prios = prios"
  by (simp_all add: prios_def set_upto del: upto_rec_numeral)

definition queue_wf :: "'d job_queue \<Rightarrow> bool" where
  "queue_wf q = (dict_keys (queues q) = prios \<and> (\<forall>p. \<forall>j\<in>set (queue_at q p). job_priority j = p))"

lemma list_queued_wf: "queue_wf q \<Longrightarrow> list_queued q = concat (map (queue_at q) prios)"
  by (simp add: list_queued_def queue_wf_def prios_props)

lemma queue_wf_has: "queue_wf q \<Longrightarrow> dict_has (queues q) p \<longleftrightarrow> p \<in> set prios"
  unfolding dict_has_iff queue_wf_def dict_keys_def by (metis list.set_map)

lemma queue_wf_get: "queue_wf q \<Longrightarrow> p \<in> set prios \<Longrightarrow> dict_get (queues q) p = Some (queue_at q p)"
  using queue_wf_has [of q p] by (auto simp: queue_at_def dict_has_def)

lemma queue_wf_priority: "queue_wf q \<Longrightarrow> j \<in> set (queue_at q p) \<Longrightarrow> job_priority j = p"
  by (simp add: queue_wf_def)

lemma queue_at_in_prios: "queue_wf q \<Longrightarrow> j \<in> set (queue_at q p) \<Longrightarrow> p \<in> set prios"
  using queue_wf_has [of q p] by (auto simp: queue_at_def dict_has_def split: option.splits)

lemma concat_insert_prio:
  assumes "\<And>p x. x \<in> set (f p) \<Longrightarrow> job_priority x = p" and "sorted_wrt (<) ps" "job_priority j \<in> set ps"
  shows "concat (map (f(job_priority j := f (job_priority j) @ [j])) ps) = insert_prio j (concat (map f ps))"
  using assms(2,3)
proof (induction ps)
  case (Cons p ps)
  show ?case
  proof (cases "p = job_priority j")
    case True
    with Cons.prems have "concat (map (f(job_priority j := f (job_priority j) @ [j])) ps) = concat (map f ps)"
      by (intro arg_cong [of _ _ concat] map_cong) auto
    moreover have "insert_prio j (f p @ concat (map f ps)) = f p @ j # concat (map f ps)"
      using Cons.prems assms(1) True by (subst insert_prio_before) (auto intro!: insert_prio_front)
    ultimately show ?thesis using True by (simp add: fun_upd_def)
  next
    case False
    with Cons.prems have "p < job_priority j" by auto
    then have "insert_prio j (f p @ concat (map f ps)) = f p @ insert_prio j (concat (map f ps))"
      using assms(1) by (intro insert_prio_before) force
    with Cons False show ?thesis by simp
  qed
qed simp

lemma sorted_concat_prio:
  assumes "\<And>p x. x \<in> set (f p) \<Longrightarrow> job_priority x = p" and "sorted_wrt (<) ps"
  shows "sorted (map job_priority (concat (map f ps)))"
  using assms(2)
proof (induction ps)
  case (Cons p ps)
  have "map job_priority (f p) = replicate (length (f p)) p"
    using assms(1) by (intro replicate_eqI) auto
  with Cons assms(1) show ?case by (fastforce simp: sorted_append)
qed simp

lemma concat_remove1:
  assumes "\<And>p x. x \<in> set (f p) \<Longrightarrow> job_priority x = p" and "distinct ps" "job_priority j \<in> set ps"
    and "j \<in> set (f (job_priority j))"
  shows "concat (map (f(job_priority j := remove1 j (f (job_priority j)))) ps) = remove1 j (concat (map f ps))"
  using assms(2,3)
proof (induction ps)
  case (Cons p ps)
  show ?case
  proof (cases "p = job_priority j")
    case True
    with Cons.prems have "concat (map (f(job_priority j := remove1 j (f (job_priority j)))) ps) = concat (map f ps)"
      by (intro arg_cong [of _ _ concat] map_cong) auto
    with True assms(4) show ?thesis by (simp add: remove1_append fun_upd_def)
  next
    case False
    with assms(1) have "j \<notin> set (f p)" by blast
    with Cons False show ?thesis by (simp add: remove1_append)
  qed
qed simp

lemma remove_from_disk_queues [simp]:
  "queues (remove_from_disk jid q) = queues q" "queue_at (remove_from_disk jid q) = queue_at q"
  by (simp_all add: remove_from_disk_def queue_at_def fun_eq_iff)

lemma persist_to_disk_queues [simp]:
  "queues (persist_to_disk dump j q) = queues q" "queue_at (persist_to_disk dump j q) = queue_at q"
  by (simp_all add: persist_to_disk_def queue_at_def fun_eq_iff)

lemma queue_at_set:
  "queue_at (q\<lparr>queues := dict_set p js (queues q)\<rparr>) = (queue_at q)(p := js)"
  by (auto simp: queue_at_def fun_eq_iff)

lemma queue_wf_set:
  assumes "queue_wf q" "p \<in> set prios" "\<forall>j\<in>set js. job_priority j = p"
  shows "queue_wf (q\<lparr>queues := dict_set p js (queues q)\<rparr>)"
  using assms queue_wf_get [OF assms(1,2)]
  by (auto simp: queue_wf_def queue_at_set dict_keys_set dict_has_def)

lemma queue_append_wf:
  "queue_wf q \<Longrightarrow> queue_append j (queues q) =
     (if job_priority j \<in> set prios
      then Inr (dict_set (job_priority j) (queue_at q (job_priority j) @ [j]) (queues q))
      else Inl (KeyError ''priority''))"
  using queue_wf_has [of q "job_priority j"]
  by (auto simp: queue_append_def queue_wf_get dict_has_def)

lemma enqueue_wf_eq:
  "queue_wf q \<Longrightarrow> enqueue dump j q =
     (if job_priority j \<in> set prios
      then (Inr (), persist_to_disk dump j
             (q\<lparr>queues := dict_set (job_priority j) (queue_at q (job_priority j) @ [j]) (queues q)\<rparr>))
      else (Inl (KeyError ''priority''), q))"
  by (simp add: enqueue_def queue_append_wf)

lemma dequeue_scan_eq:
  assumes "queue_wf q" "set ps \<subseteq> set prios"
  shows "dequeue_scan c ps q =
    (case find (\<lambda>j. job_matches_worker j c) (concat (map (queue_at q) ps)) of
       None \<Rightarrow> (None, q)
     | Some j \<Rightarrow> (Some j, remove_from_disk (job_id j)
         (q\<lparr>queues := dict_set (job_priority j) (remove1 j (queue_at q (job_priority j))) (queues q)\<rparr>)))"
  using assms(2)
proof (induction ps)
  case (Cons p ps)
  let ?P = "\<lambda>j. job_matches_worker j c"
  have get: "dict_get (queues q) p = Some (queue_at q p)"
    using Cons.prems assms(1) by (simp add: queue_wf_get)
  show ?case
  proof (cases "find ?P (queue_at q p)")
    case None
    with Cons get show ?thesis by (simp add: find_append)
  next
    case (Some j)
    then have "job_priority j = p"
      using find_Some_set queue_wf_priority [OF assms(1)] by metis
    with Some get show ?thesis by (simp add: find_append)
  qed
qed simp

lemma dequeue_eq:
  assumes "queue_wf q"
  shows "dequeue c q =
    (case find (\<lambda>j. job_matches_worker j c) (list_queued q) of
       None \<Rightarrow> (None, q)
     | Some j \<Rightarrow> (Some j, remove_from_disk (job_id j)
         (q\<lparr>queues := dict_set (job_priority j) (remove1 j (queue_at q (job_priority j))) (queues q)\<rparr>)))"
  using dequeue_scan_eq [OF assms subset_refl, of c] assms
  by (simp add: dequeue_def queue_wf_def prios_props list_queued_wf)

lemma in_list_queued: "queue_wf q \<Longrightarrow> j \<in> set (list_queued q) \<longleftrightarrow> j \<in> set (queue_at q (job_priority j))"
proof -
  assume wf: "queue_wf q"
  have "j \<in> set (list_queued q) \<longleftrightarrow> (\<exists>p\<in>set prios. j \<in> set (queue_at q p))"
    using wf by (simp add: list_queued_wf)
  then show ?thesis using queue_wf_priority [OF wf] queue_at_in_prios [OF wf] by blast
qed

lemma queue_wf_disk_indep: "queues q = queues q' \<Longrightarrow> queue_wf q = queue_wf q'"
  by (simp add: queue_wf_def queue_at_def)

lemma job_spec_ok_prio: "job_spec_ok j \<Longrightarrow> job_priority j \<in> set prios"
  by (simp add: job_spec_ok_def execution_policy_ok_def prios_props)

lemma enqueue_contents:
  assumes "queue_wf q" "job_priority j \<in> set prios"
  shows "list_queued (snd (enqueue dump j q)) = insert_prio j (list_queued q)"
    and "queue_wf (snd (enqueue dump j q))"
proof -
  let ?q = "q\<lparr>queues := dict_set (job_priority j) (queue_at q (job_priority j) @ [j]) (queues q)\<rparr>"
  have wf: "queue_wf ?q"
    using assms by (intro queue_wf_set) (auto simp: queue_wf_priority)
  then show wf': "queue_wf (snd (enqueue dump j q))"
    using assms queue_wf_disk_indep [of "persist_to_disk dump j ?q" ?q] by (simp add: enqueue_wf_eq)
  have "list_queued (snd (enqueue dump j q)) = concat (map (queue_at (persist_to_disk dump j ?q)) prios)"
    using list_queued_wf [OF wf'] assms by (simp add: enqueue_wf_eq)
  also have "\<dots> = concat (map ((queue_at q)(job_priority j := queue_at q (job_priority j) @ [j])) prios)"
    by (simp only: persist_to_disk_queues queue_at_set)
  also have "\<dots> = insert_prio j (concat (map (queue_at q) prios))"
    using assms queue_wf_priority prios_props by (intro concat_insert_prio) auto
  finally show "list_queued (snd (enqueue dump j q)) = insert_prio j (list_queued q)"
    using assms by (simp add: list_queued_wf)
qed

lemma dequeue_contents:
  assumes "queue_wf q"
  shows "list_queued (snd (dequeue c q)) =
      (case find (\<lambda>j. job_matches_worker j c) (list_queued q) of None \<Rightarrow> list_queued q
       | Some j \<Rightarrow> remove1 j (list_queued q)) \<and> queue_wf (snd (dequeue c q))"
proof (cases "find (\<lambda>j. job_matches_worker j c) (list_queued q)")
  case None
  with assms show ?thesis by (simp add: dequeue_eq)
next
  case (Some j)
  let ?q = "q\<lparr>queues := dict_set (job_priority j) (remove1 j (queue_at q (job_priority j))) (queues q)\<rparr>"
  from Some have j: "j \<in> set (queue_at q (job_priority j))"
    using find_Some_set in_list_queued [OF assms] by metis
  then have p: "job_priority j \<in> set prios" using queue_at_in_prios [OF assms] by blast
  have wf: "queue_wf ?q"
    using assms p by (intro queue_wf_set) (auto dest: set_remove1_subset [THEN subsetD] simp: queue_wf_priority)
  have wf': "queue_wf (snd (dequeue c q))"
    using wf assms Some queue_wf_disk_indep [of "remove_from_disk (job_id j) ?q" ?q] by (simp add: dequeue_eq)
  have "list_queued (snd (dequeue c q)) = concat (map (queue_at (remove_from_disk (job_id j) ?q)) prios)"
    using list_queued_wf [OF wf'] assms Some by (simp add: dequeue_eq)
  also have "\<dots> = concat (map ((queue_at q)(job_priority j := remove1 j (queue_at q (job_priority j)))) prios)"
    by (simp only: remove_from_disk_queues queue_at_set)
  also have "\<dots> = remove1 j (concat (map (queue_at q) prios))"
    using assms queue_wf_priority prios_props p j by (intro concat_remove1) auto
  finally show ?thesis
    using assms Some wf' by (simp add: list_queued_wf)
qed

lemma enqueue_result: "queue_wf q \<Longrightarrow> job_spec_ok j \<Longrightarrow> fst (enqueue dump j q) = Inr ()"
  by (simp add: enqueue_wf_eq job_spec_ok_prio)

lemma dequeue_result: "queue_wf q \<Longrightarrow> fst (dequeue c q) = find (\<lambda>j. job_matches_worker j c) (list_queued q)"
  by (simp add: dequeue_eq split: option.splits)

lemma list_queued_sorted: "queue_wf q \<Longrightarrow> sorted (map job_priority (list_queued q))"
  unfolding list_queued_wf by (rule sorted_concat_prio) (auto simp: queue_wf_priority prios_props)

interpretation jq: prio_queue list_queued "enqueue dump" dequeue queue_wf
  for dump :: "job_spec \<Rightarrow> 'd"
proof unfold_locales
  fix q :: "'d job_queue" and j
  assume wf: "queue_wf q"
  show "queue_wf (snd (enqueue dump j q))"
  proof (cases "job_priority j \<in> set prios")
    case True
    with wf show ?thesis by (rule enqueue_contents(2))
  qed (simp add: enqueue_wf_eq wf)
qed (simp_all add: list_queued_sorted enqueue_result enqueue_contents job_spec_ok_prio dequeue_result dequeue_contents)

lemma queue_at_empty: "queue_at \<lparr>queues = empty_queues, queue_dir = d\<rparr> p = []"
  by (auto simp: queue_at_def empty_queues_def dest!: map_of_SomeD split: option.splits
      simp del: upto_rec_numeral)

lemma empty_queue_wf: "queue_wf \<lparr>queues = empty_queues, queue_dir = d\<rparr>"
  by (simp add: queue_wf_def queue_at_empty)
    (simp add: empty_queues_def prios_def dict_keys_def o_def del: upto_rec_numeral)

lemma empty_queue_contents: "list_queued \<lparr>queues = empty_queues, queue_dir = d\<rparr> = []"
  by (simp add: list_queued_def queue_at_empty)

text \<open>
  Jobs enqueued into an empty queue and then taken out one by one come out sorted
  by priority, and in order of submission within one priority; none is lost or duplicated.
\<close>
theorem queue_serves_by_priority:
  assumes "list_all job_spec_ok js"
  shows "drain dequeue (length js) (enq_all (enqueue dump) js \<lparr>queues = empty_queues, queue_dir = d\<rparr>)
     = sort_key job_priority js"
  using assms by (simp add: jq.batch_order empty_queue_wf empty_queue_contents)

theorem queue_serves_by_priority_witness:
  "\<exists>a b. job_priority a = 5 \<and> job_priority b = 1 \<and>
     drain dequeue 2 (enq_all (enqueue (\<lambda>j. j)) [a, b] \<lparr>queues = empty_queues, queue_dir = []\<rparr>) = [b, a]"
proof -
  let ?a = "create_sample_job_spec ''a'' 0 ''/i'' ''/o'' INSPECT"
  let ?b = "(create_sample_job_spec ''b'' 0 ''/i'' ''/o'' INSPECT)
    \<lparr>execution_policy := default_policy\<lparr>priority := 1\<rparr>\<rparr>"
  have pr: "job_priority ?a = 5" "job_priority ?b = 1"
    by (simp_all add: create_sample_job_spec_def default_policy_def)
  have "job_spec_ok ?b"
    by (simp add: job_spec_ok_def create_sample_job_spec_def image_spec_ok_def validate_format_def
        capability_requirements_ok_def default_requirements_def execution_policy_ok_def default_policy_def)
  then have ok: "list_all job_spec_ok [?a, ?b]" by (simp add: sample_job_spec_ok)
  have "sort_key job_priority [?a, ?b] = [?b, ?a]"
    unfolding sort_key_simps by (simp add: pr)
  with queue_serves_by_priority [OF ok, of "\<lambda>j. j" "[]"] pr show ?thesis
    by (intro exI [of _ ?a] exI [of _ ?b]) (simp add: numeral_2_eq_2)
qed

text \<open>
  A dequeue with a worker's capabilities returns a job exactly when the queue has
  one that the worker can run. The job returned has the best priority of those, it is the one
  queued first among equals, and it is the only one removed.
\<close>
theorem dequeue_takes_best_match:
  assumes "queue_wf q"
  shows "case fst (dequeue c q) of
     None \<Rightarrow> list_all (\<lambda>j. \<not> job_matches_worker j c) (list_queued q) \<and> snd (dequeue c q) = q
   | Some j \<Rightarrow> \<exists>before after. list_queued q = before @ j # after \<and>
        job_matches_worker j c \<and> list_all (\<lambda>i. \<not> job_matches_worker i c) before \<and>
        list_all (\<lambda>i. job_priority j \<le> job_priority i) after \<and>
        list_queued (snd (dequeue c q)) = before @ after"
proof (cases "find (\<lambda>j. job_matches_worker j c) (list_queued q)")
  case None
  then have "list_all (\<lambda>j. \<not> job_matches_worker j c) (list_queued q)"
    by (simp add: find_None_iff list_all_iff)
  with None assms show ?thesis by (simp add: dequeue_eq)
next
  case (Some j)
  then obtain i where i: "i < length (list_queued q)" "job_matches_worker j c" "j = list_queued q ! i"
    "\<forall>k<i. \<not> job_matches_worker (list_queued q ! k) c" by (auto simp: find_Some_iff)
  let ?b = "take i (list_queued q)" and ?a = "drop (Suc i) (list_queued q)"
  from i have split: "list_queued q = ?b @ j # ?a" by (simp add: id_take_nth_drop)
  from i have b: "list_all (\<lambda>i. \<not> job_matches_worker i c) ?b" by (auto simp: list_all_length)
  with i(2) have "j \<notin> set ?b" by (auto simp: list_all_iff)
  then have "remove1 j (list_queued q) = ?b @ ?a" by (subst split) (simp add: remove1_append)
  moreover have "list_all (\<lambda>i. job_priority j \<le> job_priority i) ?a"
    using list_queued_sorted [OF assms] sorted_head_split split unfolding list_all_iff by metis
  ultimately show ?thesis
    using Some split b i(2) dequeue_contents [OF assms, of c] dequeue_result [OF assms, of c] by auto
qed

theorem dequeue_takes_best_match_witness:
  "fst (dequeue (Some [(''nbd'', True)])
     (snd (enqueue (\<lambda>j. j) (create_sample_job_spec ''a'' 0 ''/i'' ''/o'' INSPECT)
        \<lparr>queues = empty_queues, queue_dir = []\<rparr>))) \<noteq> None"
proof -
  let ?a = "create_sample_job_spec ''a'' 0 ''/i'' ''/o'' INSPECT" and ?c = "Some [(''nbd'', True)]"
  let ?q = "snd (enqueue (\<lambda>j. j) ?a \<lparr>queues = empty_queues, queue_dir = []\<rparr>)"
  have wf: "queue_wf ?q" by (rule jq.enq_wf [OF empty_queue_wf])
  have q: "list_queued ?q = [?a]"
    by (simp add: jq.enq_contents [OF empty_queue_wf sample_job_spec_ok] empty_queue_contents insert_prio_def)
  have "job_matches_worker ?a ?c"
    by (simp add: job_matches_worker_def requirements_of_def create_sample_job_spec_def default_requirements_def)
  with dequeue_takes_best_match [OF wf, of ?c] q show ?thesis by (auto split: option.splits)
qed

section \<open>The queue directory mirrors the queue\<close>

text \<open>The queues that a process can produce from an empty directory by enqueueing valid jobs with
  new identifiers and dequeueing.\<close>

inductive queue_reach :: "(job_spec \<Rightarrow> 'd) \<Rightarrow> 'd job_queue \<Rightarrow> bool" for dump where
  start: "queue_reach dump \<lparr>queues = empty_queues, queue_dir = []\<rparr>"
| enq: "queue_reach dump q \<Longrightarrow> job_spec_ok j \<Longrightarrow> job_id j \<notin> job_id ` set (list_queued q) \<Longrightarrow>
        queue_reach dump (snd (enqueue dump j q))"
| deq: "queue_reach dump q \<Longrightarrow> queue_reach dump (snd (dequeue c q))"

definition queue_sync :: "(job_spec \<Rightarrow> 'd) \<Rightarrow> 'd job_queue \<Rightarrow> bool" where
  "queue_sync dump q = (queue_wf q \<and> dict_ok (queue_dir q) \<and>
     list_all job_spec_ok (list_queued q) \<and> distinct (map job_id (list_queued q)) \<and>
     (\<forall>n d. dict_get (queue_dir q) n = Some d \<longleftrightarrow>
            (\<exists>j\<in>set (list_queued q). n = job_file (job_id j) \<and> d = dump j)))"

lemma job_file_inj [simp]: "job_file a = job_file b \<longleftrightarrow> a = b"
  by (simp add: job_file_def)

lemma enqueue_dir:
  "queue_wf q \<Longrightarrow> job_spec_ok j \<Longrightarrow>
   queue_dir (snd (enqueue dump j q)) = dict_set (job_file (job_id j)) (dump j) (queue_dir q)"
  by (simp add: enqueue_wf_eq job_spec_ok_prio persist_to_disk_def)

lemma dequeue_dir:
  "queue_wf q \<Longrightarrow> find (\<lambda>j. job_matches_worker j c) (list_queued q) = Some j \<Longrightarrow>
   dict_get (queue_dir (snd (dequeue c q))) n =
     (if n = job_file (job_id j) then None else dict_get (queue_dir q) n) \<and>
   (dict_ok (queue_dir q) \<longrightarrow> dict_ok (queue_dir (snd (dequeue c q))))"
  by (auto simp: dequeue_eq remove_from_disk_def dict_has_def)

lemma distinct_insert_prio:
  "distinct (map job_id (insert_prio j xs)) \<longleftrightarrow> job_id j \<notin> job_id ` set xs \<and> distinct (map job_id xs)"
proof -
  have "mset (map job_id (insert_prio j xs)) = mset (map job_id (j # xs))" by simp
  then have "distinct (map job_id (insert_prio j xs)) = distinct (map job_id (j # xs))"
    by (rule mset_eq_imp_distinct_iff)
  then show ?thesis by simp
qed

lemma enqueue_sync:
  assumes "queue_sync dump q" "job_spec_ok j" "job_id j \<notin> job_id ` set (list_queued q)"
  shows "queue_sync dump (snd (enqueue dump j q))"
proof -
  from assms have wf: "queue_wf q" by (simp add: queue_sync_def)
  from wf assms(2) have "list_queued (snd (enqueue dump j q)) = insert_prio j (list_queued q)"
    by (rule jq.enq_contents)
  moreover have "queue_wf (snd (enqueue dump j q))" using wf by (rule jq.enq_wf)
  ultimately show ?thesis
    using assms by (auto simp: queue_sync_def enqueue_dir [OF wf assms(2)] list_all_iff distinct_insert_prio)
qed

lemma dequeue_sync:
  assumes "queue_sync dump q"
  shows "queue_sync dump (snd (dequeue c q))"
proof (cases "find (\<lambda>j. job_matches_worker j c) (list_queued q)")
  case None
  with assms show ?thesis by (simp add: queue_sync_def dequeue_eq)
next
  case (Some j)
  from assms have wf: "queue_wf q" and dist: "distinct (map job_id (list_queued q))"
    by (simp_all add: queue_sync_def)
  have cont: "list_queued (snd (dequeue c q)) = remove1 j (list_queued q)"
    using jq.deq_contents [OF wf, of c] Some by simp
  from Some have j: "j \<in> set (list_queued q)" using find_Some_set by metis
  have set: "set (remove1 j (list_queued q)) = {i \<in> set (list_queued q). job_id i \<noteq> job_id j}"
    using dist j by (auto simp: distinct_map set_remove1_eq inj_on_def)
  have "distinct (map job_id (remove1 j (list_queued q)))"
    using dist by (auto simp: distinct_map inj_on_def dest: set_remove1_subset [THEN subsetD])
  then show ?thesis
    using assms dequeue_dir [OF wf Some] jq.deq_wf [OF wf, of c]
    by (auto simp: queue_sync_def cont set list_all_iff)
qed

lemma queue_reach_sync: "queue_reach dump q \<Longrightarrow> queue_sync dump q"
proof (induction rule: queue_reach.induct)
  case start
  show ?case by (simp add: queue_sync_def empty_queue_wf empty_queue_contents)
qed (simp_all add: enqueue_sync dequeue_sync)

text \<open>Reading the directory enqueues the readable jobs in the order of the listing.\<close>

definition readable :: "('d \<Rightarrow> job_spec option) \<Rightarrow> (string \<times> 'd) list \<Rightarrow> job_spec list" where
  "readable parse fs = concat (map (\<lambda>(n, d). case parse d of None \<Rightarrow> []
     | Some j \<Rightarrow> if job_priority j \<in> set prios then [j] else []) fs)"

lemma list_queued_cong: "queues q = queues q' \<Longrightarrow> list_queued q = list_queued q'"
  unfolding list_queued_def by (intro arg_cong [of _ _ concat] map_cong) (simp_all add: queue_at_def)

lemma load_loop_contents:
  "queue_wf q \<Longrightarrow> queue_wf (q\<lparr>queues := load_loop parse fs (queues q)\<rparr>) \<and>
   list_queued (q\<lparr>queues := load_loop parse fs (queues q)\<rparr>) =
     fold insert_prio (readable parse fs) (list_queued q)"
proof (induction fs arbitrary: q)
  case (Cons f fs)
  obtain n d where f: "f = (n, d)" by (cases f)
  show ?case
  proof (cases "\<exists>j. parse d = Some j \<and> job_priority j \<in> set prios")
    case False
    with Cons f show ?thesis by (auto simp: readable_def queue_append_wf split: option.splits)
  next
    case True
    then obtain j where j: "parse d = Some j" "job_priority j \<in> set prios" by blast
    let ?q = "q\<lparr>queues := dict_set (job_priority j) (queue_at q (job_priority j) @ [j]) (queues q)\<rparr>"
    have "queues ?q = queues (snd (enqueue undefined j q))"
      using Cons.prems j by (simp add: enqueue_wf_eq)
    from queue_wf_disk_indep [OF this] list_queued_cong [OF this] enqueue_contents [OF Cons.prems j(2)]
    have q': "queue_wf ?q" "list_queued ?q = insert_prio j (list_queued q)" by simp_all
    have app: "queue_append j (queues q) = Inr (queues ?q)"
      using Cons.prems j by (simp add: queue_append_wf)
    from Cons.IH [OF q'(1)] show ?thesis
      using j app q'(2) f by (simp add: readable_def)
  qed
qed (simp add: readable_def)

lemma JobQueue_contents:
  "queue_wf (JobQueue parse d) \<and> list_queued (JobQueue parse d) =
     sort_key job_priority (readable parse (filter (\<lambda>(n, _). endswith n ''.job.json'') d))"
  using load_loop_contents [OF empty_queue_wf [of d], of parse "filter (\<lambda>(n, _). endswith n ''.job.json'') d"]
  by (simp add: JobQueue_def load_from_disk_def empty_queue_contents fold_insert_prio)

lemma readable_sync:
  assumes sync: "queue_sync dump q" and rt: "\<And>j. job_spec_ok j \<Longrightarrow> parse (dump j) = Some j"
  shows "mset (readable parse (filter (\<lambda>(n, _). endswith n ''.job.json'') (queue_dir q))) = mset (list_queued q)"
proof -
  let ?d = "queue_dir q" and ?js = "set (list_queued q)"
  have ok: "dict_ok ?d" and dist: "distinct (map job_id (list_queued q))"
    and specs: "\<And>j. j \<in> ?js \<Longrightarrow> job_spec_ok j"
    and dir: "\<And>n d. dict_get ?d n = Some d \<longleftrightarrow> (\<exists>j\<in>?js. n = job_file (job_id j) \<and> d = dump j)"
    using sync by (auto simp: queue_sync_def list_all_iff)
  have entry: "\<exists>j\<in>?js. n = job_file (job_id j) \<and> d = dump j \<and> parse d = Some j \<and> job_priority j \<in> set prios"
    if "(n, d) \<in> set ?d" for n d
    using that ok dir specs rt job_spec_ok_prio by (metis dict_ok_def map_of_eq_Some_iff)
  have names: "filter (\<lambda>(n, _). endswith n ''.job.json'') ?d = ?d"
    by (rule filter_True) (auto dest!: entry simp: job_file_def endswith_def suffix_def)
  have singles: "map (\<lambda>(n, d). case parse d of None \<Rightarrow> []
      | Some j \<Rightarrow> if job_priority j \<in> set prios then [j] else []) ?d = map (\<lambda>(n, d). [the (parse d)]) ?d"
    by (auto dest!: entry)
  have r: "readable parse ?d = map (\<lambda>(n, d). the (parse d)) ?d"
    unfolding readable_def singles by (induction ?d) (auto simp: split_def concat_map_singleton)
  have "map (\<lambda>j. job_file (job_id j)) (readable parse ?d) = map fst ?d"
    unfolding r map_map by (rule map_cong) (auto dest!: entry)
  with ok have "distinct (readable parse ?d)" by (metis dict_ok_def distinct_map)
  moreover have "distinct (list_queued q)" using dist by (simp add: distinct_map)
  moreover have "set (readable parse ?d) = ?js"
  proof
    show "set (readable parse ?d) \<subseteq> ?js" unfolding r by (auto dest!: entry)
    show "?js \<subseteq> set (readable parse ?d)"
    proof
      fix j assume j: "j \<in> ?js"
      then have "dict_get ?d (job_file (job_id j)) = Some (dump j)" using dir by blast
      then have "(job_file (job_id j), dump j) \<in> set ?d" by (rule map_of_SomeD)
      then show "j \<in> set (readable parse ?d)" unfolding r using rt [OF specs [OF j]] by force
    qed
  qed
  ultimately show ?thesis unfolding names by (simp add: set_eq_iff_mset_eq_distinct)
qed

text \<open>
  C5 (refinement). The queue survives a restart: whatever valid jobs with new identifiers were
  enqueued and dequeued, a queue opened later on the same directory holds exactly the jobs that
  were still queued, each once, in priority order. It relies on pydantic reading back what it
  wrote.
\<close>
theorem queue_survives_restart:
  assumes "queue_reach dump q" and "\<And>j. job_spec_ok j \<Longrightarrow> parse (dump j) = Some j"
  shows "mset (list_queued (JobQueue parse (queue_dir q))) = mset (list_queued q) \<and>
         sorted (map job_priority (list_queued (JobQueue parse (queue_dir q))))"
  using readable_sync [OF queue_reach_sync [OF assms(1)] assms(2)] JobQueue_contents [of parse "queue_dir q"]
  by (simp add: list_queued_sorted)

theorem queue_survives_restart_witness:
  "\<exists>j. mset (list_queued (JobQueue Some
       (queue_dir (snd (enqueue (\<lambda>j. j) j \<lparr>queues = empty_queues, queue_dir = []\<rparr>))))) = {#j#}"
proof -
  let ?j = "create_sample_job_spec ''a'' 0 ''/i'' ''/o'' INSPECT"
  let ?q = "snd (enqueue (\<lambda>j. j) ?j \<lparr>queues = empty_queues, queue_dir = []\<rparr>)"
  have "queue_reach (\<lambda>j. j) ?q"
    by (rule queue_reach.enq [OF queue_reach.start sample_job_spec_ok]) (simp add: empty_queue_contents)
  from queue_survives_restart [OF this, of Some]
  have "mset (list_queued (JobQueue Some (queue_dir ?q))) = mset (list_queued ?q)" by simp
  also have "list_queued ?q = [?j]"
    by (simp add: jq.enq_contents [OF empty_queue_wf sample_job_spec_ok] empty_queue_contents insert_prio_def)
  finally show ?thesis by auto
qed

section \<open>Reachable schedulers\<close>

text \<open>A scheduler starts with an empty queue and an empty cache of machines (over any state
  directory); jobs are valid and submitted under identifiers it does not know; workers come, go and
  send heartbeats at any time.\<close>

inductive sched_reach :: "(job_spec \<Rightarrow> 'd) \<Rightarrow> 'd scheduler \<Rightarrow> bool" for dump where
  start: "sched_reach dump (JobScheduler \<lparr>queues = empty_queues, queue_dir = []\<rparr> (WorkerRegistry t) (JobRegistry d))"
| submit: "sched_reach dump s \<Longrightarrow> job_spec_ok j \<Longrightarrow> \<not> dict_has (jobs (sched_jobs s)) (job_id j) \<Longrightarrow>
     sched_reach dump (snd (submit_job dump now j s))"
| assign: "sched_reach dump s \<Longrightarrow> sched_reach dump (snd (assign_job now wid s))"
| complete: "sched_reach dump s \<Longrightarrow> sched_reach dump (snd (complete_job now jid success reason s))"
| register: "sched_reach dump s \<Longrightarrow> sched_reach dump (s\<lparr>sched_workers := worker_register w (sched_workers s)\<rparr>)"
| heartbeat: "sched_reach dump s \<Longrightarrow>
     sched_reach dump (s\<lparr>sched_workers := snd (worker_heartbeat now wid (sched_workers s))\<rparr>)"
| unregister: "sched_reach dump s \<Longrightarrow> sched_reach dump (s\<lparr>sched_workers := worker_unregister wid (sched_workers s)\<rparr>)"

definition in_state :: "job_registry \<Rightarrow> string \<Rightarrow> job_state \<Rightarrow> bool" where
  "in_state r jid st = (case reg_lookup r jid of None \<Rightarrow> False | Some sm \<Rightarrow> current_state sm = st)"

definition sched_inv :: "'d scheduler \<Rightarrow> bool" where
  "sched_inv s = (queue_wf (sched_queue s) \<and> list_all job_spec_ok (list_queued (sched_queue s)) \<and>
     distinct (map job_id (list_queued (sched_queue s))) \<and>
     (\<forall>j\<in>set (list_queued (sched_queue s)). in_state (sched_jobs s) (job_id j) QUEUED) \<and>
     (\<forall>jid wid. dict_get (assigned_jobs s) jid = Some wid \<longrightarrow> in_state (sched_jobs s) jid ASSIGNED))"

lemma in_state_unique: "in_state r jid a \<Longrightarrow> in_state r jid b \<Longrightarrow> a = b"
  by (auto simp: in_state_def split: option.splits)

lemma in_state_has: "in_state r jid a \<Longrightarrow> dict_has (jobs r) jid"
  by (auto simp: in_state_def reg_lookup_def dict_has_def split: option.splits)

lemma in_state_cong: "reg_lookup r jid = reg_lookup r' jid \<Longrightarrow> in_state r jid a = in_state r' jid a"
  by (simp add: in_state_def)

lemma reg_lookup_register:
  "reg_lookup (registry_register now j r) k =
     (if k = job_id j then Some (JobStateMachine (job_id j) CREATED now) else reg_lookup r k)"
  by (simp add: reg_lookup_def registry_register_def Let_def)

lemma registry_get_cached: "reg_lookup r jid = Some sm \<Longrightarrow> registry_get now jid r = (Some sm, r)"
  by (simp add: reg_lookup_def registry_get_def)

lemma registry_get_keeps:
  "reg_lookup r k = Some sm \<Longrightarrow> reg_lookup (snd (registry_get now jid r)) k = Some sm"
  by (auto simp: reg_lookup_def registry_get_def split: option.splits)

lemma registry_transition_from:
  "in_state r jid a \<Longrightarrow> t \<noteq> a \<Longrightarrow> t \<notin> TRANSITIONS a \<Longrightarrow> reason \<noteq> [] \<Longrightarrow>
   registry_transition now jid t reason r = (Inl (InvalidStateTransition a t reason), r)"
  by (auto simp: in_state_def reg_lookup_def registry_transition_def transition_def can_transition_def
      split: option.splits)

definition submit_path :: "time \<Rightarrow> (job_state \<times> time \<times> string) list" where
  "submit_path now = [(VALIDATED, now, ''Job validated''), (QUEUED, now, ''Job queued for execution'')]"

definition queued_machine :: "string \<Rightarrow> time \<Rightarrow> job_sm" where
  "queued_machine jid now = \<lparr>sm_job_id = jid, current_state = QUEUED,
     state_history = init_entry CREATED now # path_entries CREATED (submit_path now)\<rparr>"

lemma submit_job_drive:
  "submit_job dump now j s =
     (case drive registry_transition (job_id j) (submit_path now) (registry_register now j (sched_jobs s)) of
        (Inl e, r) \<Rightarrow> (Inl e, s\<lparr>sched_jobs := r\<rparr>)
      | (Inr _, r) \<Rightarrow>
          (case enqueue dump j (sched_queue s) of
             (Inl e, q) \<Rightarrow> (Inl (PyExc e), s\<lparr>sched_jobs := r, sched_queue := q\<rparr>)
           | (Inr _, q) \<Rightarrow> (Inr (), s\<lparr>sched_jobs := r, sched_queue := q\<rparr>)))"
  by (simp add: submit_job_def submit_path_def Let_def split: prod.splits sum.splits)

lemma submit_registry:
  fixes now j r
  defines "r' \<equiv> drive registry_transition (job_id j) (submit_path now) (registry_register now j r)"
  shows "fst r' = Inr () \<and>
     reg_lookup (snd r') k = (if k = job_id j then Some (queued_machine (job_id j) now) else reg_lookup r k)"
proof -
  let ?r0 = "registry_register now j r"
  have "fst r' = Inr () \<and> reg_lookup (snd r') (job_id j) = Some (queued_machine (job_id j) now)"
    using mem.drive_valid_path [of ?r0 "job_id j" "JobStateMachine (job_id j) CREATED now" "submit_path now" QUEUED]
    by (simp add: r'_def reg_lookup_register submit_path_def JobStateMachine_def queued_machine_def)
  moreover have "reg_lookup (snd r') k = reg_lookup r k" if "k \<noteq> job_id j"
    using mem.drive_frame [of k "job_id j" "submit_path now" ?r0] that by (simp add: r'_def reg_lookup_register)
  ultimately show ?thesis by simp
qed

lemma submit_job_ok:
  assumes "queue_wf (sched_queue s)" "job_spec_ok j"
  shows "submit_job dump now j s = (Inr (), s\<lparr>sched_queue := snd (enqueue dump j (sched_queue s)),
     sched_jobs := snd (drive registry_transition (job_id j) (submit_path now)
                         (registry_register now j (sched_jobs s)))\<rparr>)"
  using submit_registry [where r = "sched_jobs s" and j = j and now = now]
    jq.enq_result [OF assms, of dump]
  by (auto simp: submit_job_drive split: prod.splits sum.splits)

lemma sched_inv_submit:
  assumes inv: "sched_inv s" and j: "job_spec_ok j" and new: "\<not> dict_has (jobs (sched_jobs s)) (job_id j)"
  shows "sched_inv (snd (submit_job dump now j s))"
proof -
  let ?q = "sched_queue s"
  from inv have wf: "queue_wf ?q" by (simp add: sched_inv_def)
  have cont: "list_queued (snd (enqueue dump j ?q)) = insert_prio j (list_queued ?q)"
    using wf j by (rule jq.enq_contents)
  define r where "r = snd (drive registry_transition (job_id j) (submit_path now)
      (registry_register now j (sched_jobs s)))"
  have look: "reg_lookup r k =
      (if k = job_id j then Some (queued_machine (job_id j) now) else reg_lookup (sched_jobs s) k)" for k
    using submit_registry [where r = "sched_jobs s" and j = j and now = now] by (simp add: r_def)
  have old: "in_state r k a \<longleftrightarrow> in_state (sched_jobs s) k a" if "in_state (sched_jobs s) k b" for k a b
    using that look [of k] in_state_has new by (metis in_state_cong)
  have fresh: "job_id j \<notin> job_id ` set (list_queued ?q)"
    using inv new in_state_has by (fastforce simp: sched_inv_def)
  have "in_state r (job_id j) QUEUED" by (simp add: in_state_def look queued_machine_def)
  then show ?thesis
    using inv j jq.enq_wf [OF wf] fresh old
    by (auto simp: submit_job_ok [OF wf j] sched_inv_def cont list_all_iff distinct_insert_prio r_def [symmetric])
qed

lemma assign_job_Some:
  assumes inv: "sched_inv s" and w: "get_worker (sched_workers s) wid = Some w"
    and j: "find (\<lambda>j. job_matches_worker j (Some (capabilities w))) (list_queued (sched_queue s)) = Some j"
    and sm: "reg_lookup (sched_jobs s) (job_id j) = Some sm"
  shows "assign_job now wid s = (Inr (Some j),
      s\<lparr>sched_queue := snd (dequeue (Some (capabilities w)) (sched_queue s)),
        assigned_jobs := dict_set (job_id j) wid (assigned_jobs s),
        sched_jobs := (sched_jobs s)\<lparr>jobs := dict_set (job_id j)
          (sm\<lparr>state_history := state_history sm @
               [trans_entry QUEUED ASSIGNED now (''Assigned to worker '' @ wid)], current_state := ASSIGNED\<rparr>)
          (jobs (sched_jobs s))\<rparr>\<rparr>)"
proof -
  from inv have wf: "queue_wf (sched_queue s)" by (simp add: sched_inv_def)
  have "j \<in> set (list_queued (sched_queue s))" using j find_Some_set by metis
  with inv sm have q: "current_state sm = QUEUED" by (auto simp: sched_inv_def in_state_def)
  obtain q' where d: "dequeue (Some (capabilities w)) (sched_queue s) = (Some j, q')"
    using jq.deq_result [OF wf, of "Some (capabilities w)"] j by (metis prod.collapse)
  have g: "registry_get now (job_id j) (sched_jobs s) = (Some sm, sched_jobs s)"
    using sm by (rule registry_get_cached)
  show ?thesis
    using w d g sm q
    by (simp add: assign_job_def Let_def registry_transition_def reg_lookup_def transition_def can_transition_def)
qed

lemma assign_job_none:
  assumes "queue_wf (sched_queue s)"
    and "get_worker (sched_workers s) wid = None \<or>
      (\<exists>w. get_worker (sched_workers s) wid = Some w \<and>
        find (\<lambda>j. job_matches_worker j (Some (capabilities w))) (list_queued (sched_queue s)) = None)"
  shows "assign_job now wid s = (Inr None, s)"
  using assms by (auto simp: assign_job_def dequeue_eq)

lemma sched_inv_queued_lookup:
  assumes "sched_inv s" "j \<in> set (list_queued (sched_queue s))"
  obtains sm where "reg_lookup (sched_jobs s) (job_id j) = Some sm" "current_state sm = QUEUED"
  using assms by (auto simp: sched_inv_def in_state_def split: option.splits)

lemma sched_inv_wf: "sched_inv s \<Longrightarrow> queue_wf (sched_queue s)"
  by (simp add: sched_inv_def)

lemma assign_job_cases:
  assumes inv: "sched_inv s"
  obtains (none) "assign_job now wid s = (Inr None, s)"
  | (assigned) w j sm where "get_worker (sched_workers s) wid = Some w"
      "find (\<lambda>j. job_matches_worker j (Some (capabilities w))) (list_queued (sched_queue s)) = Some j"
      "reg_lookup (sched_jobs s) (job_id j) = Some sm" "current_state sm = QUEUED"
proof (cases "get_worker (sched_workers s) wid")
  case None
  with none assign_job_none [OF sched_inv_wf [OF inv]] show thesis by blast
next
  case (Some w)
  show thesis
  proof (cases "find (\<lambda>j. job_matches_worker j (Some (capabilities w))) (list_queued (sched_queue s))")
    case None
    with Some none assign_job_none [OF sched_inv_wf [OF inv]] show thesis by blast
  next
    fix j assume j: "find (\<lambda>j. job_matches_worker j (Some (capabilities w))) (list_queued (sched_queue s)) = Some j"
    then have "j \<in> set (list_queued (sched_queue s))" using find_Some_set by metis
    with sched_inv_queued_lookup [OF inv] j Some assigned show thesis by metis
  qed
qed

lemma in_state_update:
  "in_state (r\<lparr>jobs := dict_set jid sm (jobs r)\<rparr>) k a =
     (if k = jid then current_state sm = a else in_state r k a)"
  by (simp add: in_state_def reg_lookup_def)

lemma sched_inv_assign:
  assumes inv: "sched_inv s"
  shows "sched_inv (snd (assign_job now wid s))"
  using inv
proof (cases rule: assign_job_cases [where s = s and now = now and wid = wid])
  case none
  with inv show ?thesis by simp
next
  case (assigned w j sm)
  from inv have wf: "queue_wf (sched_queue s)" and dist: "distinct (map job_id (list_queued (sched_queue s)))"
    by (simp_all add: sched_inv_def)
  have jin: "j \<in> set (list_queued (sched_queue s))" using assigned(2) find_Some_set by metis
  let ?q = "snd (dequeue (Some (capabilities w)) (sched_queue s))"
  have cont: "list_queued ?q = remove1 j (list_queued (sched_queue s))"
    using jq.deq_contents [OF wf, of "Some (capabilities w)"] assigned(2) by simp
  have set: "set (remove1 j (list_queued (sched_queue s))) =
      {i \<in> set (list_queued (sched_queue s)). job_id i \<noteq> job_id j}"
    using dist jin by (auto simp: distinct_map set_remove1_eq inj_on_def)
  have "distinct (map job_id (remove1 j (list_queued (sched_queue s))))"
    using dist by (auto simp: distinct_map inj_on_def dest: set_remove1_subset [THEN subsetD])
  then show ?thesis
    using inv jq.deq_wf [OF wf, of "Some (capabilities w)"]
    by (simp add: assign_job_Some [OF inv assigned(1,2,3)] sched_inv_def cont set list_all_iff in_state_update)
qed

lemma complete_job_registry:
  assumes "in_state (sched_jobs s) k a" "a = QUEUED \<or> a = ASSIGNED"
  shows "in_state (sched_jobs (snd (complete_job now jid success reason s))) k a"
proof -
  obtain sm where sm: "reg_lookup (sched_jobs s) k = Some sm" "current_state sm = a"
    using assms(1) by (auto simp: in_state_def split: option.splits)
  let ?r1 = "snd (registry_get now jid (sched_jobs s))"
  have keep: "in_state ?r1 k a" using registry_get_keeps [OF sm(1)] sm(2) by (simp add: in_state_def)
  have "in_state (snd (registry_transition now jid t re ?r1)) k a" if t: "t = COMPLETED \<or> t = FAILED" for t re
  proof (cases "k = jid")
    case True
    with keep sm(2) assms(2) t show ?thesis
      by (auto simp: registry_transition_def in_state_def reg_lookup_def transition_def can_transition_def
          split: option.splits if_splits)
  next
    case False
    then have "reg_lookup (snd (registry_transition now jid t re ?r1)) k = reg_lookup ?r1 k"
      by (intro mem.move_frame) simp_all
    from in_state_cong [OF this] keep show ?thesis by simp
  qed
  with keep show ?thesis
    by (simp add: complete_job_def Let_def split_def split: option.splits)
qed

lemma sched_inv_complete:
  assumes inv: "sched_inv s"
  shows "sched_inv (snd (complete_job now jid success reason s))"
proof -
  let ?s = "snd (complete_job now jid success reason s)"
  have "sched_queue ?s = sched_queue s" "assigned_jobs ?s = dict_pop jid (assigned_jobs s)"
    by (auto simp: complete_job_def Let_def split: prod.splits option.splits)
  with inv show ?thesis by (auto simp: sched_inv_def complete_job_registry split: if_splits)
qed

lemma sched_reach_inv: "sched_reach dump s \<Longrightarrow> sched_inv s"
proof (induction rule: sched_reach.induct)
  case (start t d)
  show ?case by (simp add: sched_inv_def JobScheduler_def empty_queue_wf empty_queue_contents)
qed (simp_all add: sched_inv_submit sched_inv_assign sched_inv_complete, simp_all add: sched_inv_def)

section \<open>What the scheduler guarantees\<close>


text \<open>
  The scheduler cannot finish a job that it has assigned: in every reachable scheduler,
  reporting an assigned job as completed or failed raises InvalidStateTransition, because the life
  cycle has no step from Assigned to either state and no operation of the scheduler moves a job to
  Running. The assignment is dropped all the same.
\<close>
theorem completion_of_assigned_job_raises:
  assumes "sched_reach dump s" and "dict_get (assigned_jobs s) jid = Some wid"
  shows "complete_job now jid success reason s =
     (Inl (InvalidStateTransition ASSIGNED (if success then COMPLETED else FAILED)
             (if reason \<noteq> [] then reason else if success then ''Job completed'' else ''Job failed'')),
      s\<lparr>assigned_jobs := dict_pop jid (assigned_jobs s)\<rparr>)"
proof -
  from sched_reach_inv [OF assms(1)] assms(2) have st: "in_state (sched_jobs s) jid ASSIGNED"
    by (auto simp: sched_inv_def)
  then obtain sm where sm: "reg_lookup (sched_jobs s) jid = Some sm"
    by (auto simp: in_state_def split: option.splits)
  let ?re = "if reason \<noteq> [] then reason else if success then ''Job completed'' else ''Job failed''"
  have "registry_transition now jid (if success then COMPLETED else FAILED) ?re (sched_jobs s) =
     (Inl (InvalidStateTransition ASSIGNED (if success then COMPLETED else FAILED) ?re), sched_jobs s)"
    by (rule registry_transition_from [OF st]) auto
  then show ?thesis by (simp add: complete_job_def Let_def registry_get_cached [OF sm])
qed

definition demo_worker :: worker_capabilities where
  "demo_worker = \<lparr>worker_id = ''w'', w_hostname = None, capabilities = [], max_disk_size_tb = 1,
     max_concurrent_jobs = 1, memory_gb = 1, disk_space_gb = 10, os_info = None, kernel_version = None, last_heartbeat = 0\<rparr>"

definition demo_sched :: "job_spec scheduler" where
  "demo_sched = (let s = JobScheduler \<lparr>queues = empty_queues, queue_dir = []\<rparr> (WorkerRegistry 300) (JobRegistry []);
       s = snd (submit_job (\<lambda>j. j) 0 (create_sample_job_spec ''a'' 0 ''/i'' ''/o'' INSPECT) s)
     in s\<lparr>sched_workers := worker_register demo_worker (sched_workers s)\<rparr>)"

lemma demo_sched_reach: "sched_reach (\<lambda>j. j) demo_sched"
  unfolding demo_sched_def Let_def
  by (intro sched_reach.register sched_reach.submit sched_reach.start sample_job_spec_ok)
    (simp add: JobScheduler_def JobRegistry_def dict_has_def)

lemma demo_sched_queue:
  "list_queued (sched_queue demo_sched) = [create_sample_job_spec ''a'' 0 ''/i'' ''/o'' INSPECT]"
  "get_worker (sched_workers demo_sched) ''w'' = Some demo_worker"
  by (simp_all add: demo_sched_def JobScheduler_def submit_job_ok empty_queue_wf sample_job_spec_ok
      jq.enq_contents empty_queue_contents insert_prio_def get_worker_def worker_register_def demo_worker_def)


theorem completion_of_assigned_job_raises_witness:
  "fst (complete_job 2 ''a'' True [] (snd (assign_job 1 ''w'' demo_sched))) =
     Inl (InvalidStateTransition ASSIGNED COMPLETED ''Job completed'')"
proof -
  let ?j = "create_sample_job_spec ''a'' 0 ''/i'' ''/o'' INSPECT"
  have inv: "sched_inv demo_sched" using demo_sched_reach by (rule sched_reach_inv)
  obtain sm where sm: "reg_lookup (sched_jobs demo_sched) (job_id ?j) = Some sm"
    using sched_inv_queued_lookup [OF inv, of ?j] demo_sched_queue by auto
  have "job_matches_worker ?j (Some (capabilities demo_worker))"
    by (simp add: job_matches_worker_def requirements_of_def create_sample_job_spec_def
        default_requirements_def demo_worker_def)
  then have "dict_get (assigned_jobs (snd (assign_job 1 ''w'' demo_sched))) (job_id ?j) = Some ''w''"
    by (subst assign_job_Some [OF inv demo_sched_queue(2) _ sm]) (simp_all add: demo_sched_queue)
  then have "dict_get (assigned_jobs (snd (assign_job 1 ''w'' demo_sched))) ''a'' = Some ''w''"
    by (simp add: create_sample_job_spec_def)
  from completion_of_assigned_job_raises [OF sched_reach.assign [OF demo_sched_reach] this, of 2 True "[]"]
  show ?thesis by simp
qed

lemma drive_state_dir: "state_dir (snd (drive registry_transition jid p r)) = state_dir r"
proof (induction p arbitrary: r)
  case (Cons x p)
  obtain t now reason where x: "x = (t, now, reason)" by (cases x)
  have "state_dir (snd (registry_transition now jid t reason r)) = state_dir r"
    by (auto simp: registry_transition_def split: option.splits sum.splits)
  with Cons.IH x show ?case by (auto split: prod.splits sum.splits)
qed simp

text \<open>
  C7 (error). A submitted job does not survive a restart of the scheduler: submission saves its
  machine in state Created only, so a scheduler opened on the same directories finds the job in its
  queue, and the first capable worker that asks for work makes the assignment raise, after the job
  has been removed from the queue and from the queue directory.
\<close>
theorem restart_before_assignment_loses_job:
  assumes "job_spec_ok j" and "parse (dump j) = Some j"
    and "job_matches_worker j (Some (capabilities w))"
    and "s = snd (submit_job dump now j
            (JobScheduler \<lparr>queues = empty_queues, queue_dir = []\<rparr> (WorkerRegistry t) (JobRegistry [])))"
    and "s1 = JobScheduler (JobQueue parse (queue_dir (sched_queue s)))
            (worker_register w (WorkerRegistry t)) (JobRegistry (state_dir (sched_jobs s)))"
    and "r = assign_job later (worker_id w) s1"
  shows "list_queued (sched_queue s1) = [j] \<and>
    fst r = Inl (InvalidStateTransition CREATED ASSIGNED (''Assigned to worker '' @ worker_id w)) \<and>
    list_queued (sched_queue (snd r)) = [] \<and> queue_dir (sched_queue (snd r)) = []"
proof -
  let ?e = "\<lparr>queues = empty_queues, queue_dir = []\<rparr>" and ?q = "sched_queue s1" and ?c = "Some (capabilities w)"
  have s: "queue_dir (sched_queue s) = [(job_file (job_id j), dump j)]"
    "state_dir (sched_jobs s) = [(state_file (job_id j), JsonDoc (sm_to_dict (JobStateMachine (job_id j) CREATED now)), now)]"
    using assms(1,4)
    by (simp_all add: JobScheduler_def submit_job_ok empty_queue_wf enqueue_dir drive_state_dir
        registry_register_def Let_def JobRegistry_def sm_save_def JobStateMachine_def)
  have qdir: "queue_dir ?q = [(job_file (job_id j), dump j)]"
    by (simp add: assms(5) JobScheduler_def JobQueue_def load_from_disk_def s)
  have "endswith (job_file (job_id j)) ''.job.json''"
    by (simp add: endswith_def job_file_def suffix_def)
  then have "readable parse (filter (\<lambda>(n, _). endswith n ''.job.json'') (queue_dir (sched_queue s))) = [j]"
    using assms(1,2) by (simp add: s readable_def job_spec_ok_prio)
  with JobQueue_contents [of parse "queue_dir (sched_queue s)"]
  have q: "queue_wf ?q" "list_queued ?q = [j]" by (simp_all add: assms(5) JobScheduler_def)
  with assms(3) have find: "find (\<lambda>j. job_matches_worker j ?c) (list_queued ?q) = Some j" by simp
  obtain q' where d: "dequeue ?c ?q = (Some j, q')"
    using jq.deq_result [OF q(1), of ?c] find by (metis prod.collapse)
  have q': "list_queued q' = []" using jq.deq_contents [OF q(1), of ?c] find d q(2) by simp
  have dir: "queue_dir q' = []"
    using d dequeue_eq [OF q(1), of ?c] find qdir by (auto simp: remove_from_disk_def dict_has_def)
  let ?sm = "JobStateMachine (job_id j) CREATED now"
  have jobs: "sched_jobs s1 = \<lparr>jobs = [], state_dir = state_dir (sched_jobs s)\<rparr>"
    by (simp add: assms(5) JobScheduler_def JobRegistry_def)
  have get: "registry_get later (job_id j) (sched_jobs s1) =
      (Some ?sm, (sched_jobs s1)\<lparr>jobs := [(job_id j, ?sm)]\<rparr>)"
    by (simp add: jobs registry_get_def sm_load_def s)
  have w: "get_worker (sched_workers s1) (worker_id w) = Some w"
    by (simp add: assms(5) JobScheduler_def get_worker_def worker_register_def)
  have tr: "registry_transition later (job_id j) ASSIGNED re ((sched_jobs s1)\<lparr>jobs := [(job_id j, ?sm)]\<rparr>) =
      (Inl (InvalidStateTransition CREATED ASSIGNED re), (sched_jobs s1)\<lparr>jobs := [(job_id j, ?sm)]\<rparr>)"
    if "re \<noteq> []" for re
    using that by (intro registry_transition_from) (simp_all add: in_state_def reg_lookup_def JobStateMachine_def)
  show ?thesis
    using q(2) q' dir by (simp add: assms(6) assign_job_def w d Let_def get tr)
qed

theorem restart_before_assignment_loses_job_witness:
  "\<exists>s1 :: job_spec scheduler. length (list_queued (sched_queue s1)) = 1 \<and>
     fst (assign_job 9 ''w'' s1) = Inl (InvalidStateTransition CREATED ASSIGNED ''Assigned to worker w'')"
proof -
  let ?j = "create_sample_job_spec ''a'' 0 ''/i'' ''/o'' INSPECT"
  have "job_matches_worker ?j (Some (capabilities demo_worker))"
    by (simp add: job_matches_worker_def requirements_of_def create_sample_job_spec_def
        default_requirements_def demo_worker_def)
  then have "\<exists>s1 :: job_spec scheduler. list_queued (sched_queue s1) = [?j] \<and>
      fst (assign_job 9 (worker_id demo_worker) s1) =
        Inl (InvalidStateTransition CREATED ASSIGNED (''Assigned to worker '' @ worker_id demo_worker))"
    using restart_before_assignment_loses_job
      [OF sample_job_spec_ok _ _ refl refl refl, where parse = Some and dump = "\<lambda>j. j"] by blast
  then obtain s1 :: "job_spec scheduler" where "list_queued (sched_queue s1) = [?j]"
    "fst (assign_job 9 (worker_id demo_worker) s1) =
        Inl (InvalidStateTransition CREATED ASSIGNED (''Assigned to worker '' @ worker_id demo_worker))" by blast
  then show ?thesis by (intro exI [of _ s1]) (simp add: demo_worker_def)
qed

end
