(* ===== verification/Circuit_Breaker.thy ===== *)
theory Circuit_Breaker
  imports H2K_Prelude
begin

text \<open>
  \<^verbatim>\<open>h2kvm/core/circuit_breaker.py\<close>: the breaker that guards calls to remote services, its
  named registry and its two front ends, the context manager and the decorator.

  Every method holds the breaker's lock, so it is one step; the steps of concurrent callers
  interleave freely, which the sequences of operations below account for. A method reads the
  monotonic clock once, at the instant \<open>now\<close>. Counters are unbounded, as in Python.
\<close>

section \<open>The breaker\<close>

datatype circuit_state = CLOSED_ST | OPEN_ST | HALF_OPEN_ST

datatype circuit_open_error = CircuitOpenError string time

record circuit_breaker =
  cb_name :: string
  failure_threshold :: int
  recovery_timeout :: time
  half_open_max_calls :: int
  cb_state :: circuit_state
  failure_count :: int
  success_count :: int
  half_open_calls :: int
  last_failure_time :: time
  opened_at :: time

definition CircuitBreaker :: "string \<Rightarrow> int \<Rightarrow> time \<Rightarrow> int \<Rightarrow> circuit_breaker" where
  "CircuitBreaker n th rt mc = \<lparr>cb_name = n, failure_threshold = th, recovery_timeout = rt,
     half_open_max_calls = mc, cb_state = CLOSED_ST, failure_count = 0, success_count = 0,
     half_open_calls = 0, last_failure_time = 0, opened_at = 0\<rparr>"

definition cb_transition :: "time \<Rightarrow> circuit_state \<Rightarrow> circuit_breaker \<Rightarrow> circuit_breaker" where
  "cb_transition now new b = (case new of
      CLOSED_ST \<Rightarrow> b\<lparr>cb_state := CLOSED_ST, failure_count := 0, success_count := 0, half_open_calls := 0\<rparr>
    | OPEN_ST \<Rightarrow> b\<lparr>cb_state := OPEN_ST, opened_at := now, half_open_calls := 0, success_count := 0\<rparr>
    | HALF_OPEN_ST \<Rightarrow> b\<lparr>cb_state := HALF_OPEN_ST, half_open_calls := 0, success_count := 0\<rparr>)"

definition maybe_half_open :: "time \<Rightarrow> circuit_breaker \<Rightarrow> circuit_breaker" where
  "maybe_half_open now b =
     (if cb_state b \<noteq> OPEN_ST then b
      else if now - opened_at b \<ge> recovery_timeout b then cb_transition now HALF_OPEN_ST b else b)"

definition read_state :: "time \<Rightarrow> circuit_breaker \<Rightarrow> circuit_state \<times> circuit_breaker" where
  "read_state now b = (let b' = maybe_half_open now b in (cb_state b', b'))"

definition before_call :: "time \<Rightarrow> circuit_breaker \<Rightarrow> (circuit_open_error, unit, circuit_breaker) outcome" where
  "before_call now b =
     (let b' = maybe_half_open now b;
          rejected = (Inl (CircuitOpenError (cb_name b') (max 0 (recovery_timeout b' - (now - opened_at b')))), b')
      in case cb_state b' of
           CLOSED_ST \<Rightarrow> (Inr (), b')
         | OPEN_ST \<Rightarrow> rejected
         | HALF_OPEN_ST \<Rightarrow>
             if half_open_calls b' \<ge> half_open_max_calls b' then rejected
             else (Inr (), b'\<lparr>half_open_calls := half_open_calls b' + 1\<rparr>))"

definition record_success :: "time \<Rightarrow> circuit_breaker \<Rightarrow> circuit_breaker" where
  "record_success now b =
     (if cb_state b = HALF_OPEN_ST
      then (let b' = b\<lparr>success_count := success_count b + 1\<rparr>
            in if success_count b' \<ge> half_open_max_calls b' then cb_transition now CLOSED_ST b' else b')
      else b\<lparr>failure_count := 0, success_count := success_count b + 1\<rparr>)"

definition record_failure :: "time \<Rightarrow> circuit_breaker \<Rightarrow> circuit_breaker" where
  "record_failure now b =
     (let b' = b\<lparr>failure_count := failure_count b + 1, last_failure_time := now\<rparr>
      in case cb_state b' of
           HALF_OPEN_ST \<Rightarrow> cb_transition now OPEN_ST b'
         | CLOSED_ST \<Rightarrow> if failure_count b' \<ge> failure_threshold b' then cb_transition now OPEN_ST b' else b'
         | OPEN_ST \<Rightarrow> b')"

definition cb_reset :: "time \<Rightarrow> circuit_breaker \<Rightarrow> circuit_breaker" where
  "cb_reset now b = cb_transition now CLOSED_ST b"

section \<open>Front ends\<close>

text \<open>How the guarded code ends: a value, an \<^verbatim>\<open>Exception\<close>, or another
  \<^verbatim>\<open>BaseException\<close> such as KeyboardInterrupt. It ends at a later instant.\<close>

datatype 'a body_end = Returns 'a | RaisesException string | RaisesBase string

datatype 'a call_end = Rejected circuit_open_error | Ended "'a body_end"

definition cb_exit :: "time \<Rightarrow> 'a body_end \<Rightarrow> circuit_breaker \<Rightarrow> circuit_breaker" where
  "cb_exit now e b = (case e of Returns _ \<Rightarrow> record_success now b | _ \<Rightarrow> record_failure now b)"

definition with_breaker :: "time \<Rightarrow> time \<Rightarrow> 'a body_end \<Rightarrow> circuit_breaker \<Rightarrow> 'a call_end \<times> circuit_breaker" where
  "with_breaker t0 t1 e b = (case before_call t0 b of
      (Inl x, b') \<Rightarrow> (Rejected x, b')
    | (Inr _, b') \<Rightarrow> (Ended e, cb_exit t1 e b'))"

definition decorated_call :: "time \<Rightarrow> time \<Rightarrow> 'a body_end \<Rightarrow> circuit_breaker \<Rightarrow> 'a call_end \<times> circuit_breaker" where
  "decorated_call t0 t1 e b = (case before_call t0 b of
      (Inl x, b') \<Rightarrow> (Rejected x, b')
    | (Inr _, b') \<Rightarrow>
        (case e of
           Returns v \<Rightarrow> (Ended e, record_success t1 b')
         | RaisesException m \<Rightarrow> (Ended e, record_failure t1 b')
         | RaisesBase m \<Rightarrow> (Ended e, b')))"

definition get_breaker ::
  "string \<Rightarrow> int \<Rightarrow> time \<Rightarrow> int \<Rightarrow> (string, circuit_breaker) dict \<Rightarrow> circuit_breaker \<times> (string, circuit_breaker) dict" where
  "get_breaker n th rt mc reg = (case dict_get reg n of
      Some b \<Rightarrow> (b, reg)
    | None \<Rightarrow> (let b = CircuitBreaker n th rt mc in (b, dict_set n b reg)))"

section \<open>Sequences of operations\<close>

datatype cb_op = BeforeCall | RecordSuccess | RecordFailure | ReadState

definition cb_step :: "time \<times> cb_op \<Rightarrow> circuit_breaker \<Rightarrow> circuit_breaker" where
  "cb_step x b = (case x of
      (now, BeforeCall) \<Rightarrow> snd (before_call now b)
    | (now, RecordSuccess) \<Rightarrow> record_success now b
    | (now, RecordFailure) \<Rightarrow> record_failure now b
    | (now, ReadState) \<Rightarrow> snd (read_state now b))"

lemmas cb_defs = cb_step_def before_call_def record_success_def record_failure_def read_state_def
  maybe_half_open_def cb_transition_def

text \<open>The configuration never changes.\<close>

lemma cb_step_config [simp]:
  "failure_threshold (cb_step x b) = failure_threshold b" "recovery_timeout (cb_step x b) = recovery_timeout b"
  "half_open_max_calls (cb_step x b) = half_open_max_calls b" "cb_name (cb_step x b) = cb_name b"
  by (auto simp: cb_defs Let_def split: prod.splits cb_op.splits circuit_state.splits)

lemma open_step:
  assumes "cb_state b = OPEN_ST" "now < opened_at b + recovery_timeout b"
  shows "cb_state (cb_step (now, op) b) = OPEN_ST \<and> opened_at (cb_step (now, op) b) = opened_at b"
  using assms by (cases op) (auto simp: cb_defs Let_def)

lemma open_run:
  "cb_state b = OPEN_ST \<Longrightarrow> list_all (\<lambda>(now, _). now < opened_at b + recovery_timeout b) ops \<Longrightarrow>
   cb_state (fold cb_step ops b) = OPEN_ST \<and> opened_at (fold cb_step ops b) = opened_at b \<and>
   recovery_timeout (fold cb_step ops b) = recovery_timeout b \<and> cb_name (fold cb_step ops b) = cb_name b"
proof (induction ops arbitrary: b)
  case (Cons x ops)
  obtain now op where x: "x = (now, op)" by (cases x)
  have "cb_state (cb_step x b) = OPEN_ST \<and> opened_at (cb_step x b) = opened_at b"
    using open_step Cons.prems x by auto
  with Cons show ?case by simp
qed simp

text \<open>
  Once the breaker has opened, nothing the callers do closes it or lets a call through
  before the recovery timeout is over: after any interleaving of call attempts, late successes, late
  failures and state reads within that time, a call attempt is rejected with the time still to wait,
  which is positive and counted from the instant of opening.
\<close>
theorem open_breaker_rejects_until_timeout:
  assumes "cb_state b = OPEN_ST"
    and "list_all (\<lambda>(t, _). t < opened_at b + recovery_timeout b) ops"
    and "now < opened_at b + recovery_timeout b"
  shows "\<exists>b' w. before_call now (fold cb_step ops b) = (Inl (CircuitOpenError (cb_name b) w), b') \<and>
     w = opened_at b + recovery_timeout b - now \<and> 0 < w \<and> cb_state b' = OPEN_ST"
  using open_run [OF assms(1,2)] assms(3) by (simp add: before_call_def maybe_half_open_def Let_def max_def)

theorem open_breaker_rejects_until_timeout_witness:
  "\<exists>b'. before_call 12 (record_failure 10 (CircuitBreaker ''vc'' 1 60 1)) =
     (Inl (CircuitOpenError ''vc'' 58), b')"
proof -
  let ?b = "record_failure 10 (CircuitBreaker ''vc'' 1 60 1)"
  have b: "cb_state ?b = OPEN_ST" "opened_at ?b = 10" "recovery_timeout ?b = 60" "cb_name ?b = ''vc''"
    by (simp_all add: cb_defs CircuitBreaker_def Let_def)
  from open_breaker_rejects_until_timeout [OF b(1), of "[]" 12] show ?thesis by (auto simp: b)
qed

section \<open>When the breaker opens\<close>

definition record_outcome :: "time \<times> bool \<Rightarrow> circuit_breaker \<Rightarrow> circuit_breaker" where
  "record_outcome x b = (case x of (now, ok) \<Rightarrow> if ok then record_success now b else record_failure now b)"

text \<open>The number of failures at the end of a sequence of outcomes, and whether it contains a run of
  \<open>n\<close> failures.\<close>

definition trailing_failures :: "bool list \<Rightarrow> nat" where
  "trailing_failures bs = length (takeWhile Not (rev bs))"

definition has_failure_run :: "nat \<Rightarrow> bool list \<Rightarrow> bool" where
  "has_failure_run n bs = (\<exists>xs ys. bs = xs @ replicate n False @ ys)"

lemma trailing_snoc: "trailing_failures (bs @ [b]) = (if b then 0 else Suc (trailing_failures bs))"
  by (simp add: trailing_failures_def)

lemma trailing_split: "\<exists>xs. bs = xs @ replicate (trailing_failures bs) False"
proof (induction bs rule: rev_induct)
  case (snoc b bs)
  then obtain xs where "bs = xs @ replicate (trailing_failures bs) False" by blast
  then have "bs @ [False] = xs @ replicate (Suc (trailing_failures bs)) False"
    by (metis append.assoc replicate_Suc replicate_append_same)
  moreover have "trailing_failures (bs @ [False]) = Suc (trailing_failures bs)" by (simp add: trailing_snoc)
  ultimately have "\<exists>xs. bs @ [False] = xs @ replicate (trailing_failures (bs @ [False])) False"
    by (intro exI [of _ xs]) simp
  then show ?case by (cases b) (simp_all add: trailing_snoc)
qed (simp add: trailing_failures_def)

lemma has_failure_run_mono: "has_failure_run n bs \<Longrightarrow> has_failure_run n (bs @ cs)"
  by (fastforce simp: has_failure_run_def)

lemma trailing_ge_replicate: "trailing_failures (xs @ replicate n False) \<ge> n"
proof (induction n)
  case (Suc n)
  have "xs @ replicate (Suc n) False = (xs @ replicate n False) @ [False]"
    by (simp add: replicate_append_same)
  with Suc show ?case by (metis Suc_le_mono trailing_snoc)
qed simp

lemma has_failure_run_snoc:
  assumes "\<not> has_failure_run n bs" "0 < n"
  shows "has_failure_run n (bs @ [b]) \<longleftrightarrow> \<not> b \<and> Suc (trailing_failures bs) \<ge> n"
proof
  assume "has_failure_run n (bs @ [b])"
  then obtain xs ys where e: "bs @ [b] = xs @ replicate n False @ ys" by (auto simp: has_failure_run_def)
  have "ys = []"
  proof (rule ccontr)
    assume "ys \<noteq> []"
    then have "bs = xs @ replicate n False @ butlast ys" using e by (metis append.assoc butlast_append butlast_snoc)
    with assms show False by (auto simp: has_failure_run_def)
  qed
  with e have "trailing_failures (bs @ [b]) \<ge> n" using trailing_ge_replicate by simp
  with assms(2) show "\<not> b \<and> Suc (trailing_failures bs) \<ge> n" by (auto simp: trailing_snoc split: if_splits)
next
  assume a: "\<not> b \<and> Suc (trailing_failures bs) \<ge> n"
  obtain xs where "bs @ [b] = xs @ replicate (trailing_failures (bs @ [b])) False"
    using trailing_split by blast
  moreover have "trailing_failures (bs @ [b]) \<ge> n" using a by (simp add: trailing_snoc)
  ultimately have "bs @ [b] = (xs @ replicate (trailing_failures (bs @ [b]) - n) False) @ replicate n False"
    by (metis append.assoc le_add_diff_inverse2 replicate_add)
  then show "has_failure_run n (bs @ [b])" unfolding has_failure_run_def by (metis append.right_neutral append.assoc)
qed

lemma opening_state:
  assumes "0 < th"
  shows "let b = fold record_outcome outs (CircuitBreaker n (int th) rt mc); bs = map snd outs in
     failure_threshold b = int th \<and>
     (if has_failure_run th bs then cb_state b = OPEN_ST
      else cb_state b = CLOSED_ST \<and> failure_count b = int (trailing_failures bs))"
proof (induction outs rule: rev_induct)
  case Nil
  have "\<not> has_failure_run th []" using assms by (simp add: has_failure_run_def)
  then show ?case by (simp add: CircuitBreaker_def trailing_failures_def)
next
  case (snoc x outs)
  obtain now ok where x: "x = (now, ok)" by (cases x)
  let ?b = "fold record_outcome outs (CircuitBreaker n (int th) rt mc)" and ?bs = "map snd outs"
  show ?case
  proof (cases "has_failure_run th ?bs")
    case True
    with snoc.IH x has_failure_run_mono [OF True, of "[ok]"] show ?thesis
      by (cases ok) (simp_all add: record_outcome_def record_success_def record_failure_def Let_def)
  next
    case False
    with snoc.IH x has_failure_run_snoc [OF False assms, of ok] show ?thesis
      by (cases ok) (auto simp: record_outcome_def record_success_def record_failure_def Let_def
          trailing_snoc cb_transition_def)
  qed
qed

text \<open>
  A breaker with threshold \<open>th\<close> that only sees outcomes of calls opens exactly
  when \<open>th\<close> failures have come in a row somewhere in the sequence of outcomes; otherwise it is
  closed and its failure count is the number of failures since the last success.
\<close>
theorem breaker_opens_on_consecutive_failures:
  assumes "0 < th" and "b = fold record_outcome outs (CircuitBreaker n (int th) rt mc)"
  shows "(cb_state b = OPEN_ST \<longleftrightarrow> has_failure_run th (map snd outs)) \<and>
    (cb_state b = CLOSED_ST \<longleftrightarrow> \<not> has_failure_run th (map snd outs)) \<and>
    (cb_state b = CLOSED_ST \<longrightarrow> failure_count b = int (trailing_failures (map snd outs)))"
  using opening_state [OF assms(1), of outs n rt mc] assms(2) by (auto simp: Let_def split: if_splits)

theorem breaker_opens_on_consecutive_failures_witness:
  "cb_state (fold record_outcome [(1, False), (2, True), (3, False), (4, False)] (CircuitBreaker ''x'' (int 2) 60 1))
     = OPEN_ST"
proof -
  have "has_failure_run 2 (map snd [(1::time, False), (2, True), (3, False), (4, False)])"
    unfolding has_failure_run_def
    by (intro exI [of _ "[False, True]"] exI [of _ "[]"]) (simp add: numeral_2_eq_2)
  with breaker_opens_on_consecutive_failures [OF _ refl, of 2 "[(1, False), (2, True), (3, False), (4, False)]" "''x''" 60 1]
  show ?thesis by simp
qed

section \<open>Recovery\<close>

text \<open>\<open>k\<close> call attempts at the same instant, with the number admitted.\<close>

fun attempts :: "nat \<Rightarrow> time \<Rightarrow> circuit_breaker \<Rightarrow> nat \<times> circuit_breaker" where
  "attempts 0 now b = (0, b)"
| "attempts (Suc k) now b =
     (case before_call now b of
        (Inl _, b') \<Rightarrow> attempts k now b'
      | (Inr _, b') \<Rightarrow> (let (n, b'') = attempts k now b' in (Suc n, b'')))"

lemma attempts_half_open:
  assumes "cb_state b = HALF_OPEN_ST" "half_open_calls b = int c" "half_open_max_calls b = int m" "c \<le> m"
  shows "attempts k now b = (min k (m - c), b\<lparr>half_open_calls := int (min (c + k) m)\<rparr>)"
  using assms
proof (induction k arbitrary: b c)
  case (Suc k)
  show ?case
  proof (cases "c < m")
    case True
    let ?b = "b\<lparr>half_open_calls := int (Suc c)\<rparr>"
    have "before_call now b = (Inr (), ?b)"
      using Suc.prems True by (simp add: before_call_def maybe_half_open_def Let_def)
    moreover have "attempts k now ?b = (min k (m - Suc c), ?b\<lparr>half_open_calls := int (min (Suc c + k) m)\<rparr>)"
      using Suc.prems True by (intro Suc.IH) simp_all
    ultimately show ?thesis using True by (auto simp: min_def)
  next
    case False
    then have "\<exists>e. before_call now b = (Inl e, b)"
      using Suc.prems by (simp add: before_call_def maybe_half_open_def Let_def)
    with Suc False show ?thesis by (auto simp: min_def)
  qed
qed (simp add: min_def)

lemma successes_half_open:
  assumes "cb_state b = HALF_OPEN_ST" "success_count b = 0" "half_open_max_calls b = int m" "0 < k" "k \<le> m"
    and "length ts = k"
  shows "fold record_success ts b =
    (if k < m then b\<lparr>success_count := int k\<rparr> else b\<lparr>cb_state := CLOSED_ST, failure_count := 0,
       success_count := 0, half_open_calls := 0\<rparr>)"
  using assms
proof (induction k arbitrary: ts)
  case (Suc k)
  then obtain us t where ts: "ts = us @ [t]" "length us = k" by (metis length_Suc_conv_rev)
  have us: "fold record_success us b = b\<lparr>success_count := int k\<rparr>"
  proof (cases "k = 0")
    case True
    with ts Suc.prems show ?thesis by simp
  next
    case False
    with Suc.IH [of us] Suc.prems ts show ?thesis by simp
  qed
  have ts': "fold record_success ts b = record_success t (b\<lparr>success_count := int k\<rparr>)"
    by (simp add: ts(1) us)
  show ?case unfolding ts' using Suc.prems by (auto simp: record_success_def cb_transition_def Let_def)
qed simp

text \<open>
  C20 (liveness). After the recovery timeout an open breaker recovers: of any number of call
  attempts it admits at most \<open>m\<close> probes (exactly \<open>m\<close> when that many come), and when the \<open>m\<close>
  probes succeed it is closed again with all counters reset. A single failing probe opens it for
  another full timeout.
\<close>
theorem breaker_recovers:
  assumes "cb_state b = OPEN_ST" and "opened_at b + recovery_timeout b \<le> now"
    and "half_open_max_calls b = int m" and "0 < m" and "m \<le> k" and "length ts = m"
    and "attempts k now b = (n, b1)"
  shows "n = m \<and> cb_state b1 = HALF_OPEN_ST \<and>
    (let b2 = fold record_success ts b1 in cb_state b2 = CLOSED_ST \<and> failure_count b2 = 0 \<and>
       success_count b2 = 0 \<and> half_open_calls b2 = 0) \<and>
    cb_state (record_failure t b1) = OPEN_ST \<and> opened_at (record_failure t b1) = t"
proof -
  let ?h = "cb_transition now HALF_OPEN_ST b"
  have h: "maybe_half_open now b = ?h" "maybe_half_open now ?h = ?h"
    using assms(1,2) by (auto simp: maybe_half_open_def cb_transition_def)
  have "before_call now b = before_call now ?h" by (simp add: before_call_def h)
  then have "attempts k now b = attempts k now ?h" using assms(4,5) by (cases k) simp_all
  also have "\<dots> = (min k (m - 0), ?h\<lparr>half_open_calls := int (min (0 + k) m)\<rparr>)"
    using assms(3) by (intro attempts_half_open) (simp_all add: cb_transition_def)
  finally have b1: "n = m" "b1 = ?h\<lparr>half_open_calls := int m\<rparr>" using assms(5,7) by (simp_all add: min_def)
  have f: "fold record_success ts b1 = b1\<lparr>cb_state := CLOSED_ST, failure_count := 0,
       success_count := 0, half_open_calls := 0\<rparr>"
    using successes_half_open [of b1 m m ts] assms(3,4,6) by (simp add: b1(2) cb_transition_def)
  show ?thesis unfolding f Let_def
    by (simp add: b1 cb_transition_def record_failure_def)
qed

theorem breaker_recovers_witness:
  "\<exists>b1. attempts 3 70 (record_failure 10 (CircuitBreaker ''vc'' 1 60 1)) = (1, b1) \<and>
      cb_state (record_success 71 b1) = CLOSED_ST"
proof -
  let ?b = "record_failure 10 (CircuitBreaker ''vc'' 1 60 1)"
  have b: "cb_state ?b = OPEN_ST" "opened_at ?b + recovery_timeout ?b \<le> 70" "half_open_max_calls ?b = int 1"
    by (simp_all add: cb_defs CircuitBreaker_def Let_def)
  obtain n b1 where a: "attempts 3 70 ?b = (n, b1)" by (cases "attempts 3 70 ?b")
  from breaker_recovers [OF b _ _ _ a, of "[71]"] a show ?thesis by (auto simp: Let_def)
qed

text \<open>
  A probe whose outcome is never recorded blocks the breaker for good: when the
  function guarded by the decorator is left by a BaseException that is not an Exception, no outcome
  is recorded, and if that used the last probe every later attempt is rejected, at whatever time.
  The context manager records a failure in the same situation and so reopens.
\<close>
theorem lost_probe_blocks_breaker:
  assumes "cb_state b = OPEN_ST" and "opened_at b + recovery_timeout b \<le> t0" and "half_open_max_calls b = 1"
    and "decorated_call t0 t1 (RaisesBase m :: 'a body_end) b = (r, b1)"
    and "with_breaker t0 t1 (RaisesBase m :: 'a body_end) b = (r', b2)"
  shows "r = Ended (RaisesBase m) \<and> cb_state b1 = HALF_OPEN_ST \<and>
    (\<forall>times. fst (fold (\<lambda>t (n, x). case before_call t x of (Inl _, x') \<Rightarrow> (n, x') | (Inr _, x') \<Rightarrow> (n + 1, x'))
        times (0::nat, b1)) = 0) \<and> cb_state b2 = OPEN_ST"
proof -
  let ?h = "(cb_transition t0 HALF_OPEN_ST b)\<lparr>half_open_calls := 1\<rparr>"
  have bc: "before_call t0 b = (Inr (), ?h)"
    using assms(1-3) by (simp add: before_call_def maybe_half_open_def cb_transition_def Let_def)
  then have b1: "r = Ended (RaisesBase m)" "b1 = ?h" using assms(4) by (simp_all add: decorated_call_def)
  have b2: "cb_state b2 = OPEN_ST"
    using assms(5) bc by (auto simp: with_breaker_def cb_exit_def record_failure_def cb_transition_def Let_def)
  have rej: "\<exists>e. before_call t b1 = (Inl e, b1)" for t
    using assms(3) by (simp add: b1 before_call_def maybe_half_open_def cb_transition_def Let_def)
  have "fold (\<lambda>t (n, x). case before_call t x of (Inl _, x') \<Rightarrow> (n, x') | (Inr _, x') \<Rightarrow> (n + 1, x'))
        times (n :: nat, b1) = (n, b1)" for times n
  proof (induction times)
    case (Cons t ts)
    obtain e where "before_call t b1 = (Inl e, b1)" using rej by blast
    with Cons show ?case by simp
  qed simp
  then show ?thesis using b1 b2 by (simp add: cb_transition_def)
qed

theorem lost_probe_blocks_breaker_witness:
  "fst (before_call 1000 (snd (decorated_call 70 71 (RaisesBase ''KeyboardInterrupt'' :: unit body_end)
      (record_failure 10 (CircuitBreaker ''vc'' 1 60 1))))) \<noteq> Inr ()"
proof -
  let ?b = "record_failure 10 (CircuitBreaker ''vc'' 1 60 1)"
  let ?d = "decorated_call 70 71 (RaisesBase ''KeyboardInterrupt'' :: unit body_end) ?b"
  let ?w = "with_breaker 70 71 (RaisesBase ''KeyboardInterrupt'' :: unit body_end) ?b"
  have b: "cb_state ?b = OPEN_ST" "opened_at ?b + recovery_timeout ?b \<le> 70" "half_open_max_calls ?b = 1"
    by (simp_all add: cb_defs CircuitBreaker_def Let_def)
  from lost_probe_blocks_breaker [OF b surjective_pairing [of ?d] surjective_pairing [of ?w]]
  have "fst (fold (\<lambda>t (n, x). case before_call t x of (Inl _, x') \<Rightarrow> (n, x') | (Inr _, x') \<Rightarrow> (n + 1, x'))
        [1000] (0::nat, snd ?d)) = 0" by blast
  then show ?thesis by (auto split: prod.splits sum.splits)
qed

end
