(* ===== verification/Retry.thy ===== *)
theory Retry
  imports H2K_Prelude
begin

text \<open>
  Retrying with exponential backoff: \<^verbatim>\<open>h2kvm/core/retry.py\<close> (decorator and direct call),
  \<^verbatim>\<open>h2kvm/core/retry_decorator.py\<close> (\<^verbatim>\<open>api_retry\<close>) and
  \<^verbatim>\<open>h2kvm/core/retry_enhanced.py\<close> (choice of an implementation, retry contexts).

  The operation is a function of the world \<open>'w\<close>, which it may change; its outcome is a value or an
  exception of a type \<open>'e\<close>. The exception classes to retry on are a predicate on exceptions. The
  random numbers are given per attempt by a function \<open>jit\<close>: \<open>jit a\<close> is what
  \<^verbatim>\<open>random.uniform\<close> returns after attempt \<open>a\<close>. The result lists the sleeps.
\<close>

section \<open>The loops\<close>

datatype 'e retry_exc = Raised 'e | NoErrorCaptured

record 'e backoff_policy =
  max_attempts :: int
  base_backoff_s :: real
  max_backoff_s :: real
  jitter_s :: real
  retry_on :: "'e \<Rightarrow> bool"

definition backoff :: "real \<Rightarrow> real \<Rightarrow> int \<Rightarrow> real" where
  "backoff base cap attempt = min (base * 2 ^ nat (attempt - 1)) cap"

definition sleep_time :: "'e backoff_policy \<Rightarrow> (int \<Rightarrow> real) \<Rightarrow> int \<Rightarrow> real" where
  "sleep_time p jit attempt = (let t = backoff (base_backoff_s p) (max_backoff_s p) attempt in
     if jitter_s p > 0 then t + jit attempt else t)"

type_synonym ('e, 'a, 'w) operation = "'w \<Rightarrow> ('e + 'a) \<times> 'w"

function backoff_loop :: "'e backoff_policy \<Rightarrow> (int \<Rightarrow> real) \<Rightarrow> ('e, 'a, 'w) operation \<Rightarrow> int \<Rightarrow> 'e option \<Rightarrow>
    'w \<Rightarrow> real list \<Rightarrow> ('e retry_exc + 'a) \<times> 'w \<times> real list" where
  "backoff_loop p jit op attempt last_exc w sleeps =
     (if attempt > max_attempts p
      then (Inl (case last_exc of Some e \<Rightarrow> Raised e | None \<Rightarrow> NoErrorCaptured), w, sleeps)
      else (case op w of
              (Inr v, w') \<Rightarrow> (Inr v, w', sleeps)
            | (Inl e, w') \<Rightarrow>
                if \<not> retry_on p e then (Inl (Raised e), w', sleeps)
                else if attempt < max_attempts p
                then backoff_loop p jit op (attempt + 1) (Some e) w' (sleeps @ [sleep_time p jit attempt])
                else backoff_loop p jit op (attempt + 1) (Some e) w' sleeps))"
  by pat_completeness auto
termination
  by (relation "measure (\<lambda>(p, _, _, a, _). nat (max_attempts p + 1 - a))") auto

declare backoff_loop.simps [simp del]

definition retry_with_backoff :: "'e backoff_policy \<Rightarrow> (int \<Rightarrow> real) \<Rightarrow> ('e, 'a, 'w) operation \<Rightarrow> 'w \<Rightarrow>
    ('e retry_exc + 'a) \<times> 'w \<times> real list" where
  "retry_with_backoff p jit op w = backoff_loop p jit op 1 None w []"

definition retry_operation :: "('e, 'a, 'w) operation \<Rightarrow> 'e backoff_policy \<Rightarrow> (int \<Rightarrow> real) \<Rightarrow> 'w \<Rightarrow>
    ('e retry_exc + 'a) \<times> 'w \<times> real list" where
  "retry_operation op p jit w = backoff_loop p jit op 1 None w []"

record 'e api_policy =
  max_retries :: int
  backoff_base :: real
  backoff_cap :: real
  retryable :: "'e \<Rightarrow> bool"

text \<open>Full jitter: the sleep is the random number itself, drawn from 0 to the capped backoff.\<close>

function api_loop :: "'e api_policy \<Rightarrow> (int \<Rightarrow> real) \<Rightarrow> ('e, 'a, 'w) operation \<Rightarrow> int \<Rightarrow>
    'w \<Rightarrow> real list \<Rightarrow> ('e retry_exc + 'a) \<times> 'w \<times> real list" where
  "api_loop p jit op attempt w sleeps =
     (if attempt > 1 + max_retries p then (Inl NoErrorCaptured, w, sleeps)
      else (case op w of
              (Inr v, w') \<Rightarrow> (Inr v, w', sleeps)
            | (Inl e, w') \<Rightarrow>
                if \<not> retryable p e then (Inl (Raised e), w', sleeps)
                else if attempt \<ge> 1 + max_retries p then (Inl (Raised e), w', sleeps)
                else api_loop p jit op (attempt + 1) w' (sleeps @ [jit attempt])))"
  by pat_completeness auto
termination
  by (relation "measure (\<lambda>(p, _, _, a, _). nat (2 + max_retries p - a))") auto

declare api_loop.simps [simp del]

definition api_retry :: "'e api_policy \<Rightarrow> (int \<Rightarrow> real) \<Rightarrow> ('e, 'a, 'w) operation \<Rightarrow> 'w \<Rightarrow>
    ('e retry_exc + 'a) \<times> 'w \<times> real list" where
  "api_retry p jit op w = api_loop p jit op 1 w []"

section \<open>Choice of the implementation\<close>

text \<open>The decorator that \<^verbatim>\<open>retry_enhanced\<close> builds: tenacity's when that package is
  available, otherwise the one above. Whether an exception is an instance of a class of the
  standard library or of an optional package is a parameter.\<close>

record 'e exc_classes =
  is_oserror :: "'e \<Rightarrow> bool" \<comment> \<open>with ConnectionError and TimeoutError, its subclasses\<close>
  is_request_exception :: "'e \<Rightarrow> bool"
  is_not_authenticated :: "'e \<Rightarrow> bool"

datatype wait = WaitExponential real real real | WaitFixed real

datatype 'e retry_decorator =
    TenacityRetry int wait "'e \<Rightarrow> bool"
  | StdlibRetry "'e backoff_policy"

definition retry_network_operation ::
  "'e exc_classes \<Rightarrow> bool \<Rightarrow> bool \<Rightarrow> int \<Rightarrow> real \<Rightarrow> real \<Rightarrow> 'e retry_decorator" where
  "retry_network_operation c requests_available tenacity_available n min_wait max_wait =
     (let exceptions = (if requests_available then (\<lambda>e. is_request_exception c e \<or> is_oserror c e)
                        else is_oserror c)
      in if tenacity_available then TenacityRetry n (WaitExponential 1 min_wait max_wait) exceptions
         else StdlibRetry \<lparr>max_attempts = n, base_backoff_s = min_wait, max_backoff_s = max_wait,
                           jitter_s = 1, retry_on = exceptions\<rparr>)"

definition retry_vmware_api ::
  "'e exc_classes \<Rightarrow> bool \<Rightarrow> bool \<Rightarrow> int \<Rightarrow> real \<Rightarrow> real \<Rightarrow> 'e retry_decorator" where
  "retry_vmware_api c pyvmomi_available tenacity_available n min_wait max_wait =
     (let exceptions = (if pyvmomi_available then (\<lambda>e. is_not_authenticated c e \<or> is_oserror c e)
                        else is_oserror c)
      in if tenacity_available then TenacityRetry n (WaitExponential 2 min_wait max_wait) exceptions
         else StdlibRetry \<lparr>max_attempts = n, base_backoff_s = min_wait, max_backoff_s = max_wait,
                           jitter_s = 1, retry_on = exceptions\<rparr>)"

definition retry_file_operation :: "'e exc_classes \<Rightarrow> bool \<Rightarrow> int \<Rightarrow> real \<Rightarrow> 'e retry_decorator" where
  "retry_file_operation c tenacity_available n wait_time =
     (if tenacity_available then TenacityRetry n (WaitFixed wait_time) (is_oserror c)
      else StdlibRetry \<lparr>max_attempts = n, base_backoff_s = wait_time, max_backoff_s = wait_time,
                        jitter_s = 0, retry_on = is_oserror c\<rparr>)"

text \<open>The generator of \<^verbatim>\<open>RetryContext\<close>: each \<^verbatim>\<open>next\<close> sleeps before every attempt but
  the first, then yields the attempt's number and whether it is the last.\<close>

record retry_context =
  rc_max_attempts :: int
  rc_wait_time :: real
  current_attempt :: int

definition RetryContext :: "int \<Rightarrow> real \<Rightarrow> retry_context" where
  "RetryContext n wt = \<lparr>rc_max_attempts = n, rc_wait_time = wt, current_attempt = 0\<rparr>"

definition rc_next :: "retry_context \<Rightarrow> real list \<times> (int \<times> bool) option \<times> retry_context" where
  "rc_next c = (let i = current_attempt c in
     if i \<ge> rc_max_attempts c then ([], None, c)
     else (if i \<ge> 1 then [rc_wait_time c] else [], Some (i + 1, i + 1 = rc_max_attempts c),
           c\<lparr>current_attempt := i + 1\<rparr>))"

section \<open>What retrying means\<close>

text \<open>The abstract behaviour: run the operation up to \<open>n\<close> times and stop at the first outcome that
  is not a retryable exception; the outcome of the last run, the world it left and the number of
  runs.\<close>

fun try_upto :: "('e \<Rightarrow> bool) \<Rightarrow> ('e, 'a, 'w) operation \<Rightarrow> nat \<Rightarrow> 'w \<Rightarrow> ('e + 'a) \<times> 'w \<times> nat" where
  "try_upto catch op n w =
     (case op w of
        (Inr v, w') \<Rightarrow> (Inr v, w', 1)
      | (Inl e, w') \<Rightarrow>
          (case n of
             0 \<Rightarrow> (Inl e, w', 1)
           | Suc m \<Rightarrow>
               if \<not> catch e \<or> m = 0 then (Inl e, w', 1)
               else (case try_upto catch op m w' of (r, w'', k) \<Rightarrow> (r, w'', Suc k))))"

declare try_upto.simps [simp del]

definition as_exc :: "'e + 'a \<Rightarrow> 'e retry_exc + 'a" where
  "as_exc r = (case r of Inl e \<Rightarrow> Inl (Raised e) | Inr v \<Rightarrow> Inr v)"

definition world_after :: "('e, 'a, 'w) operation \<Rightarrow> nat \<Rightarrow> 'w \<Rightarrow> 'w" where
  "world_after op i w = ((\<lambda>x. snd (op x)) ^^ i) w"

definition retries_after :: "('e \<Rightarrow> bool) \<Rightarrow> ('e, 'a, 'w) operation \<Rightarrow> 'w \<Rightarrow> bool" where
  "retries_after catch op w = (case fst (op w) of Inl e \<Rightarrow> catch e | Inr _ \<Rightarrow> False)"

lemma world_after_Suc: "world_after op (Suc i) w = world_after op i (snd (op w))"
  by (simp only: world_after_def funpow_Suc_right o_apply)

lemma try_upto_stop:
  assumes "\<not> retries_after catch op w \<or> n \<le> 1"
  shows "try_upto catch op n w = (fst (op w), snd (op w), 1)"
  using assms by (subst try_upto.simps)
    (auto simp: retries_after_def split: prod.splits sum.splits nat.splits)

lemma try_upto_retry:
  assumes "retries_after catch op w" "0 < n"
  shows "try_upto catch op (Suc n) w =
    (case try_upto catch op n (snd (op w)) of (r, w', k) \<Rightarrow> (r, w', Suc k))"
  using assms by (subst try_upto.simps) (auto simp: retries_after_def split: prod.splits sum.splits)

text \<open>It stops with the first run that needs no retry, or with the last one allowed.\<close>

lemma try_upto_first:
  "\<forall>i<k. retries_after catch op (world_after op i w) \<Longrightarrow>
   k < n \<Longrightarrow> \<not> retries_after catch op (world_after op k w) \<or> Suc k = n \<Longrightarrow>
   try_upto catch op n w = (fst (op (world_after op k w)), world_after op (Suc k) w, Suc k)"
proof (induction k arbitrary: n w)
  case 0
  then show ?case by (subst try_upto_stop) (auto simp: world_after_def)
next
  case (Suc k)
  then obtain m where n: "n = Suc m" "0 < m" "k < m" by (cases n) auto
  have "retries_after catch op w" using Suc.prems(1) by (force simp: world_after_def)
  moreover have "try_upto catch op m (snd (op w)) =
      (fst (op (world_after op k (snd (op w)))), world_after op (Suc k) (snd (op w)), Suc k)"
    using Suc.prems n by (intro Suc.IH) (auto simp: world_after_Suc [symmetric])
  ultimately show ?case using n by (simp add: try_upto_retry world_after_Suc)
qed

lemma try_upto_runs: "0 < n \<Longrightarrow> try_upto catch op n w = (r, w', k) \<Longrightarrow> 1 \<le> k \<and> k \<le> n"
proof (induction n arbitrary: w r w' k)
  case (Suc n)
  show ?case
  proof (cases "\<not> retries_after catch op w \<or> n = 0")
    case True
    with Suc.prems try_upto_stop [of catch op w "Suc n"] show ?thesis by auto
  next
    case False
    with Suc show ?thesis by (auto simp: try_upto_retry split: prod.splits)
  qed
qed simp

section \<open>The interface of a retrier\<close>

text \<open>Both decorators promise the same: under a valid policy a call behaves like \<open>try_upto\<close> with
  the policy's limit and retryable exceptions, and sleeps once between consecutive runs.\<close>

definition delays :: "(int \<Rightarrow> real) \<Rightarrow> int \<Rightarrow> nat \<Rightarrow> real list" where
  "delays d a n = map (\<lambda>i. d (a + int i)) [0..<n]"

lemma delays_Suc: "delays d a (Suc n) = d a # delays d (a + 1) n"
  by (simp add: delays_def map_upt_Suc add.assoc del: upt_Suc)

lemma delays_0 [simp]: "delays d a 0 = []"
  by (simp add: delays_def)

lemma length_delays [simp]: "length (delays d a n) = n"
  by (simp add: delays_def)

locale retrier =
  fixes run :: "'p \<Rightarrow> (int \<Rightarrow> real) \<Rightarrow> ('e, 'a, 'w) operation \<Rightarrow> 'w \<Rightarrow> ('e retry_exc + 'a) \<times> 'w \<times> real list"
    and limit :: "'p \<Rightarrow> nat"
    and catch :: "'p \<Rightarrow> 'e \<Rightarrow> bool"
    and delay :: "'p \<Rightarrow> (int \<Rightarrow> real) \<Rightarrow> int \<Rightarrow> real"
    and valid :: "'p \<Rightarrow> bool"
  assumes limit_pos: "valid p \<Longrightarrow> 0 < limit p"
    and run_spec: "valid p \<Longrightarrow> run p jit op w =
      (case try_upto (catch p) op (limit p) w of
         (r, w', k) \<Rightarrow> (as_exc r, w', delays (delay p jit) 1 (k - 1)))"
begin

text \<open>The operation is run until it returns or raises something else, and never more than
  \<open>limit\<close> times.\<close>

lemma stops_at:
  assumes "valid p" "\<forall>i<k. retries_after (catch p) op (world_after op i w)" "k < limit p"
    and "\<not> retries_after (catch p) op (world_after op k w) \<or> Suc k = limit p"
  shows "run p jit op w = (as_exc (fst (op (world_after op k w))), world_after op (Suc k) w,
           delays (delay p jit) 1 k)"
  using run_spec [OF assms(1)] try_upto_first [OF assms(2-4)] by simp

lemma run_cases:
  assumes "valid p"
  obtains k where "k < limit p" "\<forall>i<k. retries_after (catch p) op (world_after op i w)"
    "\<not> retries_after (catch p) op (world_after op k w) \<or> Suc k = limit p"
proof -
  let ?P = "\<lambda>k. \<not> retries_after (catch p) op (world_after op k w) \<or> Suc k = limit p"
  have ex: "?P (limit p - 1)" using limit_pos [OF assms] by simp
  define k where "k = (LEAST k. ?P k)"
  have k: "?P k" unfolding k_def using ex by (rule LeastI)
  have "k \<le> limit p - 1" unfolding k_def using ex by (rule Least_le)
  then have kl: "k < limit p" using limit_pos [OF assms] by simp
  have "\<forall>i<k. retries_after (catch p) op (world_after op i w)"
    unfolding k_def using not_less_Least by blast
  with k kl show thesis using that by blast
qed

lemma sleeps_bound: "valid p \<Longrightarrow> length (snd (snd (run p jit op w))) < limit p"
  by (cases rule: run_cases [of p op w]) (simp_all add: stops_at)

end

lemma backoff_loop_spec:
  assumes "attempt \<le> max_attempts p" "n = nat (max_attempts p + 1 - attempt)"
  shows "backoff_loop p jit op attempt last_exc w sl =
    (case try_upto (retry_on p) op n w of
       (r, w', k) \<Rightarrow> (as_exc r, w', sl @ delays (sleep_time p jit) attempt (k - 1)))"
  using assms
proof (induction n arbitrary: attempt last_exc w sl)
  case (Suc n)
  obtain r w1 where op: "op w = (r, w1)" by (cases "op w")
  show ?case
  proof (cases "retries_after (retry_on p) op w")
    case False
    with op Suc.prems show ?thesis
      by (subst backoff_loop.simps, subst try_upto_stop)
        (auto simp: retries_after_def as_exc_def split: sum.splits)
  next
    case True
    with op obtain e where e: "r = Inl e" "retry_on p e" by (auto simp: retries_after_def split: sum.splits)
    show ?thesis
    proof (cases "attempt < max_attempts p")
      case False
      with Suc.prems have n: "n = 0" "\<not> attempt + 1 \<le> max_attempts p" by auto
      then show ?thesis
        using op e Suc.prems False
        by (subst backoff_loop.simps, subst backoff_loop.simps, subst try_upto_stop) (simp_all add: as_exc_def)
    next
      case less: True
      then have n: "0 < n" "n = nat (max_attempts p + 1 - (attempt + 1))" using Suc.prems by auto
      obtain r' w2 k where t: "try_upto (retry_on p) op n w1 = (r', w2, k)" by (cases "try_upto (retry_on p) op n w1")
      then obtain k' where k: "k = Suc k'" using try_upto_runs [OF n(1)] by (cases k) fastforce+
      have "backoff_loop p jit op attempt last_exc w sl =
          backoff_loop p jit op (attempt + 1) (Some e) w1 (sl @ [sleep_time p jit attempt])"
        using op e less by (subst backoff_loop.simps) simp
      also have "\<dots> = (as_exc r', w2, (sl @ [sleep_time p jit attempt]) @ delays (sleep_time p jit) (attempt + 1) k')"
        by (subst Suc.IH [OF _ n(2)]) (use less t k in simp_all)
      also have "\<dots> = (as_exc r', w2, sl @ delays (sleep_time p jit) attempt k)"
        by (simp add: k delays_Suc)
      finally show ?thesis using True n(1) op t by (simp add: try_upto_retry)
    qed
  qed
qed simp

lemma api_loop_spec:
  assumes "attempt \<le> 1 + max_retries p" "n = nat (2 + max_retries p - attempt)"
  shows "api_loop p jit op attempt w sl =
    (case try_upto (retryable p) op n w of
       (r, w', k) \<Rightarrow> (as_exc r, w', sl @ delays jit attempt (k - 1)))"
  using assms
proof (induction n arbitrary: attempt w sl)
  case (Suc n)
  obtain r w1 where op: "op w = (r, w1)" by (cases "op w")
  show ?case
  proof (cases "retries_after (retryable p) op w \<and> attempt < 1 + max_retries p")
    case False
    then have "\<not> retries_after (retryable p) op w \<or> Suc n \<le> 1" using Suc.prems by auto
    with False op Suc.prems show ?thesis
      by (subst api_loop.simps, subst try_upto_stop)
        (auto simp: retries_after_def as_exc_def split: sum.splits)
  next
    case True
    with op obtain e where e: "r = Inl e" "retryable p e" by (auto simp: retries_after_def split: sum.splits)
    have n: "0 < n" "n = nat (2 + max_retries p - (attempt + 1))" using Suc.prems True by auto
    obtain r' w2 k where t: "try_upto (retryable p) op n w1 = (r', w2, k)" by (cases "try_upto (retryable p) op n w1")
    then obtain k' where k: "k = Suc k'" using try_upto_runs [OF n(1)] by (cases k) fastforce+
    have "api_loop p jit op attempt w sl = api_loop p jit op (attempt + 1) w1 (sl @ [jit attempt])"
      using op e True by (subst api_loop.simps) simp
    also have "\<dots> = (as_exc r', w2, (sl @ [jit attempt]) @ delays jit (attempt + 1) k')"
      by (subst Suc.IH [OF _ n(2)]) (use True t k in simp_all)
    also have "\<dots> = (as_exc r', w2, sl @ delays jit attempt k)"
      by (simp add: k delays_Suc)
    finally show ?thesis using True n(1) op t by (simp add: try_upto_retry)
  qed
qed simp

interpretation bo: retrier retry_with_backoff "\<lambda>p. nat (max_attempts p)" retry_on sleep_time "\<lambda>p. 1 \<le> max_attempts p"
  by unfold_locales (simp_all add: retry_with_backoff_def backoff_loop_spec)

interpretation api: retrier api_retry "\<lambda>p. nat (1 + max_retries p)" retryable "\<lambda>_ jit. jit" "\<lambda>p. 0 \<le> max_retries p"
  by unfold_locales (simp_all add: api_retry_def api_loop_spec)

section \<open>Properties\<close>

lemma sleep_time_bounds:
  assumes "0 \<le> jit a" "jit a \<le> jitter_s p"
  shows "backoff (base_backoff_s p) (max_backoff_s p) a \<le> sleep_time p jit a \<and>
    sleep_time p jit a \<le> max_backoff_s p + jitter_s p"
  using assms by (auto simp: sleep_time_def backoff_def Let_def)

text \<open>
  A retried operation is run up to the configured number of attempts and stops at
  the first run that returns or raises an exception outside the retryable classes: the caller gets
  the outcome of that run, or of the last one allowed, and the world that exactly those runs
  produced. Between run \<open>i\<close> and the next it sleeps at least the base time doubled \<open>i\<close> times, capped,
  and never more than the cap plus the jitter.
\<close>
theorem backoff_stops_at_first_final_outcome:
  assumes "1 \<le> max_attempts p" and "\<And>a. 0 \<le> jit a \<and> jit a \<le> jitter_s p"
  shows "\<exists>k sleeps. k < nat (max_attempts p) \<and>
    retry_with_backoff p jit op w = (as_exc (fst (op (world_after op k w))), world_after op (Suc k) w, sleeps) \<and>
    (\<forall>i<k. retries_after (retry_on p) op (world_after op i w)) \<and>
    (\<not> retries_after (retry_on p) op (world_after op k w) \<or> Suc k = nat (max_attempts p)) \<and>
    length sleeps = k \<and>
    (\<forall>i<k. min (base_backoff_s p * 2 ^ i) (max_backoff_s p) \<le> sleeps ! i \<and>
           sleeps ! i \<le> max_backoff_s p + jitter_s p)"
proof -
  from assms(1) obtain k where k: "k < nat (max_attempts p)"
    "\<forall>i<k. retries_after (retry_on p) op (world_after op i w)"
    "\<not> retries_after (retry_on p) op (world_after op k w) \<or> Suc k = nat (max_attempts p)"
    by (rule bo.run_cases)
  let ?sl = "delays (sleep_time p jit) 1 k"
  have "?sl ! i = sleep_time p jit (1 + int i)" if "i < k" for i using that by (simp add: delays_def)
  moreover have "backoff (base_backoff_s p) (max_backoff_s p) (1 + int i) =
      min (base_backoff_s p * 2 ^ i) (max_backoff_s p)" for i by (simp add: backoff_def)
  ultimately have "\<forall>i<k. min (base_backoff_s p * 2 ^ i) (max_backoff_s p) \<le> ?sl ! i \<and>
           ?sl ! i \<le> max_backoff_s p + jitter_s p"
    using sleep_time_bounds [of jit _ p] assms(2) by metis
  then show ?thesis
    using k bo.stops_at [OF assms(1) k(2,1,3), of jit] by (intro exI [of _ k] exI [of _ ?sl]) simp
qed

text \<open>A scripted operation: the world is the list of the outcomes still to come.\<close>

definition scripted :: "('e + 'a) list \<Rightarrow> ('e + 'a) \<times> ('e + 'a) list" where
  "scripted s = (hd s, tl s)"

theorem backoff_stops_at_first_final_outcome_witness:
  "\<exists>sleeps. retry_with_backoff \<lparr>max_attempts = 3, base_backoff_s = 2, max_backoff_s = 60, jitter_s = 0, retry_on = (\<lambda>_. True)\<rparr>
     (\<lambda>_. 0) scripted [Inl ''down'', Inr (7::int), Inr 8] = (Inr 7, [Inr 8], sleeps) \<and> length sleeps = 1"
proof -
  let ?p = "\<lparr>max_attempts = 3, base_backoff_s = 2, max_backoff_s = 60, jitter_s = 0, retry_on = (\<lambda>_. True)\<rparr>
    :: string backoff_policy"
  let ?w = "[Inl ''down'', Inr (7::int), Inr 8]"
  have wa: "world_after scripted 0 ?w = ?w" "world_after scripted (Suc 0) ?w = [Inr 7, Inr 8]"
    "world_after scripted (Suc (Suc 0)) ?w = [Inr 8]" by (simp_all add: world_after_def scripted_def)
  have r0: "retries_after (retry_on ?p) scripted (world_after scripted 0 ?w)"
    and r1: "\<not> retries_after (retry_on ?p) scripted (world_after scripted (Suc 0) ?w)"
    unfolding wa by (simp_all add: retries_after_def scripted_def)
  from backoff_stops_at_first_final_outcome [of ?p "\<lambda>_. 0" scripted ?w] obtain k sleeps where
    k: "k < 3" "retry_with_backoff ?p (\<lambda>_. 0) scripted ?w =
      (as_exc (fst (scripted (world_after scripted k ?w))), world_after scripted (Suc k) ?w, sleeps)"
    "\<forall>i<k. retries_after (retry_on ?p) scripted (world_after scripted i ?w)"
    "\<not> retries_after (retry_on ?p) scripted (world_after scripted k ?w) \<or> Suc k = 3" "length sleeps = k"
    by auto
  have "k \<noteq> 0" using k(4) r0 by (metis One_nat_def numeral_eq_one_iff semiring_norm(86))
  moreover have "\<not> Suc 0 < k" using k(3) r1 by blast
  ultimately have "k = Suc 0" by simp
  with k wa show ?thesis by (auto simp: as_exc_def scripted_def)
qed

text \<open>
  C21 (equivalence). The two decorators agree: \<^verbatim>\<open>api_retry\<close> with \<open>r\<close> retries gives the same
  outcome, leaves the same world and sleeps the same number of times as
  \<^verbatim>\<open>retry_with_backoff\<close> with \<open>1 + r\<close> attempts and the same retryable exceptions; they
  differ only in how long they sleep.
\<close>
theorem api_retry_equals_backoff:
  assumes "0 \<le> max_retries p" and "max_attempts q = 1 + max_retries p" and "retry_on q = retryable p"
    and "api_retry p jit op w = (r, w1, s1)" and "retry_with_backoff q jit' op w = (r', w2, s2)"
  shows "r = r' \<and> w1 = w2 \<and> length s1 = length s2"
proof -
  obtain x w' k where t: "try_upto (retryable p) op (nat (1 + max_retries p)) w = (x, w', k)"
    by (cases "try_upto (retryable p) op (nat (1 + max_retries p)) w")
  from assms(1,2) have "1 \<le> max_attempts q" by simp
  from bo.run_spec [OF this, of jit' op w] api.run_spec [OF assms(1), of jit op w] t assms(2-5)
  show ?thesis by auto
qed

theorem api_retry_equals_backoff_witness:
  "fst (api_retry \<lparr>max_retries = 1, backoff_base = 2, backoff_cap = 60, retryable = (\<lambda>_. True)\<rparr> (\<lambda>_. 0)
      scripted [Inl ''a'', Inl ''b'', Inr (1::int)]) =
   fst (retry_with_backoff \<lparr>max_attempts = 2, base_backoff_s = 1, max_backoff_s = 9, jitter_s = 0, retry_on = (\<lambda>_. True)\<rparr>
      (\<lambda>_. 0) scripted [Inl ''a'', Inl ''b'', Inr 1])"
proof -
  let ?p = "\<lparr>max_retries = 1, backoff_base = 2, backoff_cap = 60, retryable = (\<lambda>_. True)\<rparr> :: string api_policy"
  let ?q = "\<lparr>max_attempts = 2, base_backoff_s = 1, max_backoff_s = 9, jitter_s = 0, retry_on = (\<lambda>_. True)\<rparr>
    :: string backoff_policy"
  let ?w = "[Inl ''a'', Inl ''b'', Inr (1::int)]"
  obtain r w1 s1 where a: "api_retry ?p (\<lambda>_. 0) scripted ?w = (r, w1, s1)" by (cases "api_retry ?p (\<lambda>_. 0) scripted ?w")
  obtain r' w2 s2 where b: "retry_with_backoff ?q (\<lambda>_. 0) scripted ?w = (r', w2, s2)"
    by (cases "retry_with_backoff ?q (\<lambda>_. 0) scripted ?w")
  from api_retry_equals_backoff [OF _ _ _ a b] a b show ?thesis by simp
qed

text \<open>A policy that allows no attempt raises the internal error without running the operation.\<close>

lemma no_attempts:
  "max_attempts p < 1 \<Longrightarrow> retry_with_backoff p jit op w = (Inl NoErrorCaptured, w, [])"
  by (simp add: retry_with_backoff_def backoff_loop.simps)

text \<open>A retry context yields the attempts 1 to \<open>n\<close> in order, the last one flagged, and sleeps between
  them.\<close>

lemma rc_next_steps:
  "0 \<le> current_attempt c \<Longrightarrow> current_attempt c < rc_max_attempts c \<Longrightarrow>
   \<exists>sl c'. rc_next c = (sl, Some (current_attempt c + 1, current_attempt c + 1 = rc_max_attempts c), c') \<and>
     current_attempt c' = current_attempt c + 1 \<and> (sl = [] \<longleftrightarrow> current_attempt c = 0)"
  by (auto simp: rc_next_def Let_def)

end
