(* ===== verification/Rollback_Snapshots.thy ===== *)
theory Rollback_Snapshots
  imports H2K_Prelude
begin

text \<open>
  \<^verbatim>\<open>h2kvm/infrastructure/rollback/snapshot_manager.py\<close>: snapshots of disk images, taken before
  a migration and restored by a rollback.

  The manager's record carries the file system: a dictionary from paths to contents of a type \<open>'c\<close>
  (directories are not represented), and the metadata directory with its parsed files. What the code
  obtains from outside is a parameter: the size and SHA-256 digest of a content, the current
  directory, and \<^verbatim>\<open>qemu-img create -b\<close>, which fails or yields the content of the new overlay.
  Paths are normalised and have a file name; copying an existing file and writing succeed.
\<close>

section \<open>Snapshots\<close>

datatype snapshot_type = FULL | QCOW2 | LVM | FILESYSTEM

fun snapshot_type_value :: "snapshot_type \<Rightarrow> string" where
  "snapshot_type_value FULL = ''full''"
| "snapshot_type_value QCOW2 = ''qcow2''"
| "snapshot_type_value LVM = ''lvm''"
| "snapshot_type_value FILESYSTEM = ''filesystem''"

definition SnapshotType :: "json \<Rightarrow> py_exc + snapshot_type" where
  "SnapshotType v = (case find (\<lambda>s. v = JStr (snapshot_type_value s)) [FULL, QCOW2, LVM, FILESYSTEM] of
      None \<Rightarrow> Inl (ValueError ''not a valid SnapshotType'')
    | Some s \<Rightarrow> Inr s)"

lemma SnapshotType_value [simp]: "SnapshotType (JStr (snapshot_type_value s)) = Inr s"
  by (cases s) (simp_all add: SnapshotType_def)

record snapshot =
  snapshot_id :: string
  snapshot_type :: snapshot_type
  source_path :: string
  snapshot_path :: string
  snap_created_at :: time
  size_bytes :: int
  checksum :: "string option"
  snap_metadata :: "(string \<times> json) list"

definition opt_str :: "string option \<Rightarrow> json" where
  "opt_str v = (case v of None \<Rightarrow> JNull | Some s \<Rightarrow> JStr s)"

definition snap_to_dict :: "snapshot \<Rightarrow> json" where
  "snap_to_dict s = JObj [(''snapshot_id'', JStr (snapshot_id s)),
     (''snapshot_type'', JStr (snapshot_type_value (snapshot_type s))),
     (''source_path'', JStr (source_path s)), (''snapshot_path'', JStr (snapshot_path s)),
     (''created_at'', JTime (snap_created_at s)), (''size_bytes'', JInt (size_bytes s)),
     (''checksum'', opt_str (checksum s)), (''metadata'', JObj (snap_metadata s))]"

fun json_str :: "json \<Rightarrow> py_exc + string" where
  "json_str (JStr s) = Inr s"
| "json_str _ = Inl (TypeError ''str expected'')"

text \<open>A document with a missing key, an unknown type or fields of other types is unreadable.\<close>

definition snap_from_dict :: "json \<Rightarrow> py_exc + snapshot" where
  "snap_from_dict d =
     (case (json_item d ''snapshot_id'', json_item d ''snapshot_type'', json_item d ''source_path'',
            json_item d ''snapshot_path'', json_item d ''created_at'', json_item d ''size_bytes'') of
        (Inr (JStr i), Inr ty, Inr (JStr src), Inr (JStr path), Inr (JTime t), Inr (JInt n)) \<Rightarrow>
          (case (SnapshotType ty, json_get d ''checksum'' JNull, json_get d ''metadata'' (JObj [])) of
             (Inr sty, JNull, JObj m) \<Rightarrow>
               Inr \<lparr>snapshot_id = i, snapshot_type = sty, source_path = src, snapshot_path = path,
                    snap_created_at = t, size_bytes = n, checksum = None, snap_metadata = m\<rparr>
           | (Inr sty, JStr c, JObj m) \<Rightarrow>
               Inr \<lparr>snapshot_id = i, snapshot_type = sty, source_path = src, snapshot_path = path,
                    snap_created_at = t, size_bytes = n, checksum = Some c, snap_metadata = m\<rparr>
           | _ \<Rightarrow> Inl (ValueError ''snapshot''))
      | _ \<Rightarrow> Inl (ValueError ''snapshot''))"

lemma snap_from_to_dict [simp]: "snap_from_dict (snap_to_dict s) = Inr s"
  by (cases "checksum s") (simp_all add: snap_from_dict_def snap_to_dict_def opt_str_def)

section \<open>The manager\<close>

datatype 'c qemu_result = QemuFails string | QemuMissing | QemuOk 'c

record 'c snap_env =
  e_size :: "'c \<Rightarrow> int"
  e_sha256 :: "'c \<Rightarrow> string"
  e_cwd :: string
  e_qemu_img :: "string \<Rightarrow> string \<Rightarrow> (string, 'c) dict \<Rightarrow> 'c qemu_result"

record 'c snapshot_manager =
  snapshot_dir :: string
  snapshots :: "(string, snapshot) dict"
  metadata_dir :: "(string, disk_file) dict"
  files :: "(string, 'c) dict"

datatype snap_exc =
    DiskConversionError int
  | InfrastructureError int
  | ChecksumMismatch string string
  | MissingFile string
  | ProgramNotFound

fun load_snapshots :: "(string \<times> disk_file) list \<Rightarrow> (string, snapshot) dict \<Rightarrow> (string, snapshot) dict" where
  "load_snapshots [] acc = acc"
| "load_snapshots ((n, f) # fs) acc =
     (if endswith n ''.json''
      then (case f of
              JsonDoc d \<Rightarrow>
                (case snap_from_dict d of
                   Inl _ \<Rightarrow> load_snapshots fs acc
                 | Inr s \<Rightarrow> load_snapshots fs (dict_set (snapshot_id s) s acc))
            | NotJson \<Rightarrow> load_snapshots fs acc)
      else load_snapshots fs acc)"

definition SnapshotManager :: "string \<Rightarrow> (string, disk_file) dict \<Rightarrow> (string, 'c) dict \<Rightarrow> 'c snapshot_manager" where
  "SnapshotManager dir meta fs =
     \<lparr>snapshot_dir = dir, snapshots = load_snapshots meta [], metadata_dir = meta, files = fs\<rparr>"

definition meta_file :: "string \<Rightarrow> string" where
  "meta_file i = i @ ''.json''"

definition save_snapshot_metadata :: "snapshot \<Rightarrow> 'c snapshot_manager \<Rightarrow> 'c snapshot_manager" where
  "save_snapshot_metadata s m =
     m\<lparr>metadata_dir := dict_set (meta_file (snapshot_id s)) (JsonDoc (snap_to_dict s)) (metadata_dir m)\<rparr>"

definition abs_path :: "string \<Rightarrow> string \<Rightarrow> string" where
  "abs_path cwd p = (if startswith p ''/'' then p else path_join cwd p)"

definition create_qcow2_snapshot ::
  "'c snap_env \<Rightarrow> time \<Rightarrow> string \<Rightarrow> string \<Rightarrow> 'c snapshot_manager \<Rightarrow> (snap_exc, snapshot, 'c snapshot_manager) outcome" where
  "create_qcow2_snapshot env now src sid m =
     (let path = path_join (path_join (snapshot_dir m) sid) (path_name src @ ''.snapshot'')
      in case e_qemu_img env (abs_path (e_cwd env) src) path (files m) of
           QemuFails _ \<Rightarrow> (Inl (DiskConversionError 73), m)
         | QemuMissing \<Rightarrow> (Inl ProgramNotFound, m)
         | QemuOk c \<Rightarrow>
             (Inr \<lparr>snapshot_id = sid, snapshot_type = QCOW2, source_path = src, snapshot_path = path,
                   snap_created_at = now, size_bytes = e_size env c, checksum = None,
                   snap_metadata = [(''backing_file'', JStr src)]\<rparr>,
              m\<lparr>files := dict_set path c (files m)\<rparr>))"

text \<open>\<^verbatim>\<open>shutil.copy2\<close>\<close>

definition copy2 :: "string \<Rightarrow> string \<Rightarrow> (string, 'c) dict \<Rightarrow> snap_exc + (string, 'c) dict" where
  "copy2 src dst fs = (case dict_get fs src of None \<Rightarrow> Inl (MissingFile src) | Some c \<Rightarrow> Inr (dict_set dst c fs))"

definition create_full_snapshot ::
  "'c snap_env \<Rightarrow> time \<Rightarrow> string \<Rightarrow> string \<Rightarrow> 'c snapshot_manager \<Rightarrow> (snap_exc, snapshot, 'c snapshot_manager) outcome" where
  "create_full_snapshot env now src sid m =
     (let path = path_join (path_join (snapshot_dir m) sid) (path_name src)
      in case copy2 src path (files m) of
           Inl _ \<Rightarrow> (Inl (DiskConversionError 73), m)
         | Inr fs \<Rightarrow>
             (case dict_get fs path of
                None \<Rightarrow> (Inl (DiskConversionError 73), m\<lparr>files := fs\<rparr>)
              | Some c \<Rightarrow>
                  (Inr \<lparr>snapshot_id = sid, snapshot_type = FULL, source_path = src, snapshot_path = path,
                        snap_created_at = now, size_bytes = e_size env c, checksum = None,
                        snap_metadata = []\<rparr>,
                   m\<lparr>files := fs\<rparr>)))"

definition compute_checksum :: "'c snap_env \<Rightarrow> string \<Rightarrow> (string, 'c) dict \<Rightarrow> snap_exc + string" where
  "compute_checksum env p fs = (case dict_get fs p of
      None \<Rightarrow> Inl (MissingFile p) | Some c \<Rightarrow> Inr (e_sha256 env c))"

text \<open>\<open>stamp\<close> is the formatted creation time.\<close>

definition create_snapshot :: "'c snap_env \<Rightarrow> time \<Rightarrow> string \<Rightarrow> string \<Rightarrow> snapshot_type \<Rightarrow> bool \<Rightarrow>
    'c snapshot_manager \<Rightarrow> (snap_exc, snapshot, 'c snapshot_manager) outcome" where
  "create_snapshot env now stamp src ty want_checksum m =
     (if \<not> dict_has (files m) src then (Inl (DiskConversionError 66), m)
      else
        (let sid = ''snapshot_'' @ path_stem src @ ''_'' @ stamp;
             created = (case ty of
                 QCOW2 \<Rightarrow> create_qcow2_snapshot env now src sid m
               | FULL \<Rightarrow> create_full_snapshot env now src sid m
               | _ \<Rightarrow> (Inl (InfrastructureError 38), m))
         in case created of
              (Inl e, m1) \<Rightarrow> (Inl e, m1)
            | (Inr s, m1) \<Rightarrow>
                (case (if want_checksum
                       then (case compute_checksum env (snapshot_path s) (files m1) of
                               Inl e \<Rightarrow> Inl e
                             | Inr c \<Rightarrow> Inr (s\<lparr>checksum := Some c\<rparr>))
                       else Inr s) of
                   Inl e \<Rightarrow> (Inl e, m1)
                 | Inr s1 \<Rightarrow>
                     (let m2 = save_snapshot_metadata s1 m1
                      in (Inr s1, m2\<lparr>snapshots := dict_set sid s1 (snapshots m2)\<rparr>)))))"

definition backup_path :: "string \<Rightarrow> string" where
  "backup_path src = with_suffix src (path_suffix src @ ''.pre-restore'')"

text \<open>\<^verbatim>\<open>shutil.move\<close> of a file\<close>

definition move_file :: "string \<Rightarrow> string \<Rightarrow> (string, 'c) dict \<Rightarrow> (string, 'c) dict" where
  "move_file a b fs = (case dict_get fs a of None \<Rightarrow> fs | Some c \<Rightarrow> dict_set b c (dict_pop a fs))"

definition restore_full_snapshot :: "snapshot \<Rightarrow> 'c snapshot_manager \<Rightarrow> (snap_exc, unit, 'c snapshot_manager) outcome" where
  "restore_full_snapshot s m =
     (let src = source_path s;
          fs1 = (if dict_has (files m) src then move_file src (backup_path src) (files m) else files m)
      in case copy2 (snapshot_path s) src fs1 of
           Inl e \<Rightarrow> (Inl e, m\<lparr>files := fs1\<rparr>)
         | Inr fs2 \<Rightarrow> (Inr (), m\<lparr>files := fs2\<rparr>))"

definition restore_qcow2_snapshot :: "snapshot \<Rightarrow> 'c snapshot_manager \<Rightarrow> (snap_exc, unit, 'c snapshot_manager) outcome" where
  "restore_qcow2_snapshot s m =
     (let src = source_path s;
          fs1 = (if dict_has (files m) src then move_file src (backup_path src) (files m) else files m)
      in case copy2 (snapshot_path s) src fs1 of
           Inl e \<Rightarrow> (Inl e, m\<lparr>files := fs1\<rparr>)
         | Inr fs2 \<Rightarrow> (Inr (), m\<lparr>files := fs2\<rparr>))"

definition restore_snapshot :: "'c snap_env \<Rightarrow> string \<Rightarrow> bool \<Rightarrow> 'c snapshot_manager \<Rightarrow>
    (snap_exc, unit, 'c snapshot_manager) outcome" where
  "restore_snapshot env sid verify m =
     (case dict_get (snapshots m) sid of
        None \<Rightarrow> (Inl (InfrastructureError 2), m)
      | Some s \<Rightarrow>
          (let checked = (case (verify, checksum s) of
                (True, Some c) \<Rightarrow>
                  if c = [] then Inr ()
                  else (case compute_checksum env (snapshot_path s) (files m) of
                          Inl e \<Rightarrow> Inl e
                        | Inr c' \<Rightarrow> if c' \<noteq> c then Inl (ChecksumMismatch c c') else Inr ())
              | _ \<Rightarrow> Inr ())
           in case checked of
                Inl e \<Rightarrow> (Inl e, m)
              | Inr _ \<Rightarrow>
                  (case snapshot_type s of
                     FULL \<Rightarrow> restore_full_snapshot s m
                   | QCOW2 \<Rightarrow> restore_qcow2_snapshot s m
                   | _ \<Rightarrow> (Inl (InfrastructureError 38), m))))"

definition delete_snapshot :: "string \<Rightarrow> 'c snapshot_manager \<Rightarrow> (snap_exc, unit, 'c snapshot_manager) outcome" where
  "delete_snapshot sid m =
     (case dict_get (snapshots m) sid of
        None \<Rightarrow> (Inl (InfrastructureError 2), m)
      | Some s \<Rightarrow>
          (let m1 = (if dict_has (files m) (snapshot_path s)
                     then m\<lparr>files := dict_pop (snapshot_path s) (files m)\<rparr> else m);
               m2 = (if dict_has (metadata_dir m1) (meta_file sid)
                     then m1\<lparr>metadata_dir := dict_pop (meta_file sid) (metadata_dir m1)\<rparr> else m1)
           in (Inr (), m2\<lparr>snapshots := dict_pop sid (snapshots m2)\<rparr>)))"

definition list_snapshots :: "string option \<Rightarrow> 'c snapshot_manager \<Rightarrow> snapshot list" where
  "list_snapshots src m =
     (let all = dict_values (snapshots m);
          sel = (case src of None \<Rightarrow> all | Some p \<Rightarrow> if p = [] then all else filter (\<lambda>s. source_path s = p) all)
      in sort_key (\<lambda>s. - snap_created_at s) sel)"

definition get_snapshot :: "'c snapshot_manager \<Rightarrow> string \<Rightarrow> snapshot option" where
  "get_snapshot m sid = dict_get (snapshots m) sid"

section \<open>Restoring\<close>

lemma backup_path_append: "backup_path src = src @ ''.pre-restore''"
  by (simp add: backup_path_def with_suffix_append)

lemma restore_copies:
  assumes "dict_get (files m) (snapshot_path s) = Some c" and "snapshot_path s \<noteq> source_path s"
    and "snapshot_path s \<noteq> backup_path (source_path s)"
  shows "\<exists>m'. restore_full_snapshot s m = (Inr (), m') \<and> restore_qcow2_snapshot s m = (Inr (), m') \<and>
    (\<forall>p. dict_get (files m') p =
       (if p = source_path s then Some c
        else if p = backup_path (source_path s) \<and> dict_has (files m) (source_path s)
        then dict_get (files m) (source_path s) else dict_get (files m) p))"
  using assms
  by (auto simp: restore_full_snapshot_def restore_qcow2_snapshot_def move_file_def copy2_def Let_def
      dict_has_def split: option.splits)

lemma create_full_result:
  assumes "create_snapshot env now stamp src FULL ck m = (Inr s, m1)"
  shows "snapshot_type s = FULL \<and> source_path s = src \<and>
    dict_get (files m1) (snapshot_path s) = dict_get (files m) src \<and>
    dict_get (snapshots m1) (snapshot_id s) = Some s \<and>
    (\<forall>x. checksum s = Some x \<longrightarrow> (\<exists>c. dict_get (files m) src = Some c \<and> x = e_sha256 env c))"
  using assms
  by (auto simp: create_snapshot_def create_full_snapshot_def copy2_def compute_checksum_def Let_def
      save_snapshot_metadata_def split: if_splits option.splits prod.splits sum.splits)

text \<open>
  C8 (roundtrip). A full snapshot brings the image back: whatever happens to the file system after
  the snapshot was taken, as long as the snapshot file itself is intact, restoring it succeeds, with
  or without checksum verification. The image then has exactly the content it had at snapshot time,
  the content it had just before the restore is kept in the backup file, and no other file changes.
\<close>
theorem full_snapshot_restores_image:
  assumes "create_snapshot env now stamp src FULL ck m = (Inr s, m1)"
    and "dict_get fs (snapshot_path s) = dict_get (files m1) (snapshot_path s)"
    and "snapshot_path s \<noteq> src" and "snapshot_path s \<noteq> src @ ''.pre-restore''"
    and "restore_snapshot env (snapshot_id s) verify (m1\<lparr>files := fs\<rparr>) = (r, m2)"
  shows "r = Inr () \<and> dict_get (files m2) src = dict_get (files m) src \<and> dict_has (files m2) src \<and>
    (\<forall>p. p = src \<or> dict_get (files m2) p =
       (if p = src @ ''.pre-restore'' \<and> dict_has fs src then dict_get fs src else dict_get fs p))"
proof -
  note s = create_full_result [OF assms(1)]
  from assms(1) have "dict_has (files m) src" by (simp add: create_snapshot_def split: if_splits)
  then obtain c where c: "dict_get (files m) src = Some c" by (auto simp: dict_has_def)
  with s assms(2) have snap: "dict_get fs (snapshot_path s) = Some c" by simp
  obtain m' where m': "restore_full_snapshot s (m1\<lparr>files := fs\<rparr>) = (Inr (), m')"
    and look: "\<And>p. dict_get (files m') p =
       (if p = src then Some c
        else if p = src @ ''.pre-restore'' \<and> dict_has fs src then dict_get fs src else dict_get fs p)"
    using restore_copies [of "m1\<lparr>files := fs\<rparr>" s c] snap s assms(3,4) by (auto simp: backup_path_append)
  have "restore_snapshot env (snapshot_id s) verify (m1\<lparr>files := fs\<rparr>) = (Inr (), m')"
    using s snap c m' by (cases verify) (auto simp: restore_snapshot_def compute_checksum_def Let_def split: option.splits)
  with assms(5) have "r = Inr ()" "m2 = m'" by simp_all
  with look c show ?thesis by (auto simp: dict_has_def)
qed

definition demo_env :: "string snap_env" where
  "demo_env = \<lparr>e_size = (\<lambda>c. int (length c)), e_sha256 = (\<lambda>c. c), e_cwd = ''/'',
     e_qemu_img = (\<lambda>b d fs. QemuOk (''overlay:'' @ b))\<rparr>"

definition demo_mgr :: "string snapshot_manager" where
  "demo_mgr = SnapshotManager ''/snap'' [] [(''/vm/a.qcow2'', ''disk'')]"

definition demo_snap :: snapshot where
  "demo_snap = \<lparr>snapshot_id = ''s'', snapshot_type = FULL, source_path = ''/vm/a.qcow2'',
     snapshot_path = ''/vm/a.qcow2'', snap_created_at = 0, size_bytes = 4, checksum = Some ''other'',
     snap_metadata = []\<rparr>"

theorem full_snapshot_restores_image_witness:
  "\<exists>s m1 m2. create_snapshot demo_env 0 ''t'' ''/vm/a.qcow2'' FULL True demo_mgr = (Inr s, m1) \<and>
     restore_snapshot demo_env (snapshot_id s) True (m1\<lparr>files := dict_set ''/vm/a.qcow2'' ''broken'' (files m1)\<rparr>)
       = (Inr (), m2) \<and> dict_get (files m2) ''/vm/a.qcow2'' = Some ''disk''"
proof -
  let ?c = "create_snapshot demo_env 0 ''t'' ''/vm/a.qcow2'' FULL True demo_mgr"
  have "is_ok (fst ?c)" by code_simp
  then obtain s m1 where c: "?c = (Inr s, m1)" by (cases ?c) (auto elim: is_okE)
  let ?fs = "dict_set ''/vm/a.qcow2'' ''broken'' (files m1)"
  obtain r m2 where r: "restore_snapshot demo_env (snapshot_id s) True (m1\<lparr>files := ?fs\<rparr>) = (r, m2)"
    by (cases "restore_snapshot demo_env (snapshot_id s) True (m1\<lparr>files := ?fs\<rparr>)")
  have "(case fst ?c of Inl _ \<Rightarrow> [] | Inr s \<Rightarrow> snapshot_path s) = ''/snap/snapshot_a_t/a.qcow2''" by code_simp
  with c have path: "snapshot_path s = ''/snap/snapshot_a_t/a.qcow2''" by simp
  from full_snapshot_restores_image [OF c _ _ _ r] c r
  show ?thesis by (intro exI [of _ s] exI [of _ m1] exI [of _ m2]) (simp add: path demo_mgr_def SnapshotManager_def)
qed

text \<open>
  A damaged snapshot is never restored when verification is requested: if the snapshot
  has a recorded checksum and its file is missing or has another digest, the restore raises and the
  manager, the image included, is left exactly as it was.
\<close>
theorem damaged_snapshot_is_not_restored:
  assumes "dict_get (snapshots m) sid = Some s" and "checksum s = Some x" and "x \<noteq> []"
    and "map_option (e_sha256 env) (dict_get (files m) (snapshot_path s)) \<noteq> Some x"
  shows "\<exists>e. restore_snapshot env sid True m = (Inl e, m)"
  using assms by (auto simp: restore_snapshot_def compute_checksum_def Let_def split: option.splits)

theorem damaged_snapshot_is_not_restored_witness:
  "\<exists>e. restore_snapshot demo_env ''s'' True (demo_mgr\<lparr>snapshots := [(''s'', demo_snap)]\<rparr>) =
     (Inl e, demo_mgr\<lparr>snapshots := [(''s'', demo_snap)]\<rparr>)"
  by (rule damaged_snapshot_is_not_restored [where x = "''other''" and s = demo_snap])
    (simp_all add: demo_snap_def demo_mgr_def SnapshotManager_def demo_env_def)

text \<open>
  Restoring a QCOW2 snapshot, the default type, does not bring the image back. The
  snapshot is an overlay whose backing file is the image's own path, and the restore copies it over
  that path after moving the image away: the file at the image's path is now an overlay backed by
  itself, and the data exist only in the backup file. It relies on qemu-img recording in the new
  image the backing file it is given.
\<close>
theorem qcow2_restore_makes_self_backed_image:
  assumes "\<And>b d fs c. e_qemu_img env b d fs = QemuOk c \<Longrightarrow> backing c = Some b"
    and "startswith src ''/''"
    and "create_snapshot env now stamp src QCOW2 ck m = (Inr s, m1)"
    and "snapshot_path s \<noteq> src" and "snapshot_path s \<noteq> src @ ''.pre-restore''"
    and "restore_snapshot env (snapshot_id s) verify m1 = (r, m2)"
  shows "r = Inr () \<and> (\<exists>c. dict_get (files m2) src = Some c \<and> backing c = Some src) \<and>
    dict_get (files m2) (src @ ''.pre-restore'') = dict_get (files m) src"
proof -
  from assms(3) obtain c where s: "snapshot_type s = QCOW2" "source_path s = src"
      "dict_get (files m1) (snapshot_path s) = Some c"
    and sn: "dict_get (snapshots m1) (snapshot_id s) = Some s"
    and ck: "\<forall>x. checksum s = Some x \<longrightarrow> x = e_sha256 env c"
    and q: "e_qemu_img env (abs_path (e_cwd env) src) (snapshot_path s) (files m) = QemuOk c"
    and fs: "files m1 = dict_set (snapshot_path s) c (files m)" and has: "dict_has (files m) src"
    by (auto simp: create_snapshot_def create_qcow2_snapshot_def compute_checksum_def Let_def
        save_snapshot_metadata_def split: if_splits option.splits prod.splits sum.splits qemu_result.splits)
  have b: "backing c = Some src" using assms(1) [OF q] assms(2) by (simp add: abs_path_def)
  obtain m' where m': "restore_qcow2_snapshot s m1 = (Inr (), m')"
    and look: "\<And>p. dict_get (files m') p =
       (if p = src then Some c
        else if p = src @ ''.pre-restore'' \<and> dict_has (files m1) src then dict_get (files m1) src
        else dict_get (files m1) p)"
    using restore_copies [of m1 s c] s assms(4,5) by (auto simp: backup_path_append)
  have "restore_snapshot env (snapshot_id s) verify m1 = (Inr (), m')"
    using s sn ck m' by (cases verify) (auto simp: restore_snapshot_def compute_checksum_def Let_def split: option.splits)
  with assms(6) have "r = Inr ()" "m2 = m'" by simp_all
  with look b fs has assms(4) show ?thesis by simp
qed

theorem qcow2_restore_makes_self_backed_image_witness:
  "\<exists>s m1. create_snapshot demo_env 0 ''t'' ''/vm/a.qcow2'' QCOW2 False demo_mgr = (Inr s, m1) \<and>
     dict_get (files (snd (restore_snapshot demo_env (snapshot_id s) False m1))) ''/vm/a.qcow2.pre-restore'' = Some ''disk''"
proof -
  let ?c = "create_snapshot demo_env 0 ''t'' ''/vm/a.qcow2'' QCOW2 False demo_mgr"
  have "is_ok (fst ?c)" by code_simp
  then obtain s m1 where c: "?c = (Inr s, m1)" by (cases ?c) (auto elim: is_okE)
  obtain r m2 where r: "restore_snapshot demo_env (snapshot_id s) False m1 = (r, m2)"
    by (cases "restore_snapshot demo_env (snapshot_id s) False m1")
  have "(case fst ?c of Inl _ \<Rightarrow> [] | Inr s \<Rightarrow> snapshot_path s) = ''/snap/snapshot_a_t/a.qcow2.snapshot''" by code_simp
  with c have path: "snapshot_path s = ''/snap/snapshot_a_t/a.qcow2.snapshot''" by simp
  have q: "e_qemu_img demo_env b d fs = QemuOk x \<Longrightarrow> (\<lambda>c. Some (drop 8 c)) x = Some b" for b d fs x
    by (auto simp: demo_env_def)
  from qcow2_restore_makes_self_backed_image [OF q _ c _ _ r] r c show ?thesis
    by (intro exI [of _ s] exI [of _ m1]) (simp add: path demo_mgr_def SnapshotManager_def startswith_def)
qed

end
