(* ===== verification/Rollback_State.thy ===== *)
theory Rollback_State
  imports H2K_Prelude
begin

text \<open>
  \<^verbatim>\<open>h2kvm/infrastructure/rollback/state_tracker.py\<close>: the checkpoints of a running
  migration, the plan for undoing them, and the state file that lets a later process continue.

  The state file is part of the tracker's state: no path configured, a path with no file yet, a
  parsed document, or a file that is not JSON. In a document that is read, descriptions are strings,
  \<^verbatim>\<open>reversible\<close> is a boolean, \<^verbatim>\<open>data\<close> and \<^verbatim>\<open>metadata\<close> are objects and
  \<^verbatim>\<open>checkpoints\<close> is a list; other shapes count as unreadable.
\<close>

section \<open>Checkpoints\<close>

datatype migration_state =
    NOT_STARTED | SNAPSHOT_CREATED | PRE_MIGRATION_CHECKS | STORAGE_ACTIVATED | FILESYSTEM_MOUNTED
  | BOOTLOADER_FIXED | DRIVERS_INSTALLED | NETWORK_CONFIGURED | FSTAB_STABILIZED | VALIDATION_PASSED
  | MIG_COMPLETED | MIG_FAILED | ROLLED_BACK

fun migration_state_value :: "migration_state \<Rightarrow> string" where
  "migration_state_value NOT_STARTED = ''not_started''"
| "migration_state_value SNAPSHOT_CREATED = ''snapshot_created''"
| "migration_state_value PRE_MIGRATION_CHECKS = ''pre_migration_checks''"
| "migration_state_value STORAGE_ACTIVATED = ''storage_activated''"
| "migration_state_value FILESYSTEM_MOUNTED = ''filesystem_mounted''"
| "migration_state_value BOOTLOADER_FIXED = ''bootloader_fixed''"
| "migration_state_value DRIVERS_INSTALLED = ''drivers_installed''"
| "migration_state_value NETWORK_CONFIGURED = ''network_configured''"
| "migration_state_value FSTAB_STABILIZED = ''fstab_stabilized''"
| "migration_state_value VALIDATION_PASSED = ''validation_passed''"
| "migration_state_value MIG_COMPLETED = ''completed''"
| "migration_state_value MIG_FAILED = ''failed''"
| "migration_state_value ROLLED_BACK = ''rolled_back''"

definition all_migration_states :: "migration_state list" where
  "all_migration_states = [NOT_STARTED, SNAPSHOT_CREATED, PRE_MIGRATION_CHECKS, STORAGE_ACTIVATED,
     FILESYSTEM_MOUNTED, BOOTLOADER_FIXED, DRIVERS_INSTALLED, NETWORK_CONFIGURED, FSTAB_STABILIZED,
     VALIDATION_PASSED, MIG_COMPLETED, MIG_FAILED, ROLLED_BACK]"

definition MigrationState :: "json \<Rightarrow> py_exc + migration_state" where
  "MigrationState v = (case find (\<lambda>s. v = JStr (migration_state_value s)) all_migration_states of
      None \<Rightarrow> Inl (ValueError ''not a valid MigrationState'')
    | Some s \<Rightarrow> Inr s)"

lemma MigrationState_value [simp]: "MigrationState (JStr (migration_state_value s)) = Inr s"
  by (cases s) (simp_all add: MigrationState_def all_migration_states_def)

record state_checkpoint =
  cp_state :: migration_state
  cp_timestamp :: time
  cp_description :: string
  cp_reversible :: bool
  cp_data :: "(string \<times> json) list"

definition cp_to_dict :: "state_checkpoint \<Rightarrow> json" where
  "cp_to_dict cp = JObj [(''state'', JStr (migration_state_value (cp_state cp))),
     (''timestamp'', JTime (cp_timestamp cp)), (''description'', JStr (cp_description cp)),
     (''reversible'', JBool (cp_reversible cp)), (''data'', JObj (cp_data cp))]"

definition cp_from_dict :: "json \<Rightarrow> py_exc + state_checkpoint" where
  "cp_from_dict d =
     (case json_item d ''state'' of
        Inl e \<Rightarrow> Inl e
      | Inr v \<Rightarrow>
          (case MigrationState v of
             Inl e \<Rightarrow> Inl e
           | Inr s \<Rightarrow>
               (case json_item d ''timestamp'' of
                  Inl e \<Rightarrow> Inl e
                | Inr (JTime t) \<Rightarrow>
                    (case json_item d ''description'' of
                       Inl e \<Rightarrow> Inl e
                     | Inr (JStr descr) \<Rightarrow>
                         (case (json_get d ''reversible'' (JBool True), json_get d ''data'' (JObj [])) of
                            (JBool rv, JObj dat) \<Rightarrow>
                              Inr \<lparr>cp_state = s, cp_timestamp = t, cp_description = descr,
                                   cp_reversible = rv, cp_data = dat\<rparr>
                          | _ \<Rightarrow> Inl (TypeError ''checkpoint''))
                     | Inr _ \<Rightarrow> Inl (TypeError ''description''))
                | Inr _ \<Rightarrow> Inl (ValueError ''timestamp''))))"

section \<open>The tracker\<close>

datatype tracker_file = NoPath | NoFile | Document json | Unparsable

record state_tracker =
  st_file :: tracker_file
  st_current :: migration_state
  checkpoints :: "state_checkpoint list"
  st_metadata :: "(string, json) dict"

fun load_checkpoints :: "json list \<Rightarrow> py_exc + state_checkpoint list" where
  "load_checkpoints [] = Inr []"
| "load_checkpoints (d # ds) =
     (case cp_from_dict d of
        Inl e \<Rightarrow> Inl e
      | Inr cp \<Rightarrow> (case load_checkpoints ds of Inl e \<Rightarrow> Inl e | Inr cps \<Rightarrow> Inr (cp # cps)))"

text \<open>An exception ends the load with a warning; what was assigned before it stays.\<close>

definition load_state :: "state_tracker \<Rightarrow> state_tracker" where
  "load_state t = (case st_file t of
      Document d \<Rightarrow>
        (case json_item d ''current_state'' of
           Inl _ \<Rightarrow> t
         | Inr v \<Rightarrow>
             (case MigrationState v of
                Inl _ \<Rightarrow> t
              | Inr s \<Rightarrow>
                  (let t1 = t\<lparr>st_current := s\<rparr> in
                   case json_get d ''metadata'' (JObj []) of
                     JObj m \<Rightarrow>
                       (let t2 = t1\<lparr>st_metadata := m\<rparr> in
                        case json_get d ''checkpoints'' (JList []) of
                          JList ds \<Rightarrow>
                            (case load_checkpoints ds of
                               Inl _ \<Rightarrow> t2
                             | Inr cps \<Rightarrow> t2\<lparr>checkpoints := cps\<rparr>)
                        | _ \<Rightarrow> t2)
                   | _ \<Rightarrow> t1)))
    | _ \<Rightarrow> t)"

definition StateTracker :: "tracker_file \<Rightarrow> state_tracker" where
  "StateTracker f = load_state \<lparr>st_file = f, st_current = NOT_STARTED, checkpoints = [], st_metadata = []\<rparr>"

definition save_state :: "state_tracker \<Rightarrow> state_tracker" where
  "save_state t = (if st_file t = NoPath then t
     else t\<lparr>st_file := Document (JObj [
            (''current_state'', JStr (migration_state_value (st_current t))),
            (''metadata'', JObj (st_metadata t)),
            (''checkpoints'', JList (map cp_to_dict (checkpoints t)))])\<rparr>)"

definition checkpoint :: "time \<Rightarrow> migration_state \<Rightarrow> string \<Rightarrow> bool \<Rightarrow> (string \<times> json) list \<Rightarrow>
    state_tracker \<Rightarrow> state_tracker" where
  "checkpoint now s descr rv dat t = save_state (t\<lparr>
     checkpoints := checkpoints t @ [\<lparr>cp_state = s, cp_timestamp = now, cp_description = descr,
                                      cp_reversible = rv, cp_data = dat\<rparr>],
     st_current := s\<rparr>)"

definition get_current_state :: "state_tracker \<Rightarrow> migration_state" where
  "get_current_state t = st_current t"

definition get_checkpoints :: "state_tracker \<Rightarrow> state_checkpoint list" where
  "get_checkpoints t = checkpoints t"

definition get_last_reversible_checkpoint :: "state_tracker \<Rightarrow> state_checkpoint option" where
  "get_last_reversible_checkpoint t = find cp_reversible (rev (checkpoints t))"

fun last_irreversible :: "nat \<Rightarrow> state_checkpoint list \<Rightarrow> int \<Rightarrow> int" where
  "last_irreversible i [] idx = idx"
| "last_irreversible i (cp # cps) idx =
     last_irreversible (i + 1) cps (if \<not> cp_reversible cp then int i else idx)"

definition get_rollback_plan :: "state_tracker \<Rightarrow> state_checkpoint list" where
  "get_rollback_plan t =
     rev (drop (nat (last_irreversible 0 (checkpoints t) (- 1) + 1)) (checkpoints t))"

definition set_metadata :: "string \<Rightarrow> json \<Rightarrow> state_tracker \<Rightarrow> state_tracker" where
  "set_metadata k v t = save_state (t\<lparr>st_metadata := dict_set k v (st_metadata t)\<rparr>)"

definition get_metadata :: "string \<Rightarrow> json \<Rightarrow> state_tracker \<Rightarrow> json" where
  "get_metadata k d t = (case dict_get (st_metadata t) k of None \<Rightarrow> d | Some v \<Rightarrow> v)"

definition clear_state :: "state_tracker \<Rightarrow> state_tracker" where
  "clear_state t = save_state (t\<lparr>st_current := NOT_STARTED, checkpoints := [], st_metadata := []\<rparr>)"

section \<open>The rollback plan\<close>

lemma last_irreversible_snoc:
  "last_irreversible i (cps @ [cp]) idx =
     (if \<not> cp_reversible cp then int (i + length cps) else last_irreversible i cps idx)"
  by (induction i cps idx rule: last_irreversible.induct) auto

lemma last_irreversible_bound: "idx < int i \<Longrightarrow> last_irreversible i cps idx < int (i + length cps)"
proof (induction i cps idx rule: last_irreversible.induct)
  case (2 i cp cps idx)
  then have "last_irreversible (i + 1) cps (if \<not> cp_reversible cp then int i else idx) < int (i + 1 + length cps)"
    by auto
  then show ?case by simp
qed simp

lemma rollback_plan_takeWhile:
  "rev (drop (nat (last_irreversible 0 cps (- 1) + 1)) cps) = takeWhile cp_reversible (rev cps)"
proof (induction cps rule: rev_induct)
  case (snoc cp cps)
  have "nat (last_irreversible 0 cps (- 1) + 1) \<le> length cps"
    using last_irreversible_bound [of "- 1" 0 cps] by simp
  with snoc show ?case by (auto simp: last_irreversible_snoc)
qed simp

lemma takeWhile_all_iff: "takeWhile P xs = xs \<longleftrightarrow> list_all P xs"
  by (induction xs) auto

text \<open>
  The rollback plan is the longest reversible tail of the checkpoints, newest
  first: every checkpoint in it is reversible, and the checkpoint just before it, if there is one,
  is not. So nothing before the last irreversible step is ever undone, and everything after it is.
\<close>
theorem rollback_plan_is_reversible_tail:
  "\<exists>kept. checkpoints t = kept @ rev (get_rollback_plan t) \<and>
     list_all cp_reversible (get_rollback_plan t) \<and>
     (case rev kept of [] \<Rightarrow> True | c # _ \<Rightarrow> \<not> cp_reversible c)"
proof -
  let ?r = "rev (checkpoints t)"
  have plan: "get_rollback_plan t = takeWhile cp_reversible ?r"
    by (simp add: get_rollback_plan_def rollback_plan_takeWhile)
  let ?k = "rev (dropWhile cp_reversible ?r)"
  have "checkpoints t = ?k @ rev (takeWhile cp_reversible ?r)"
    by (metis rev_append rev_rev_ident takeWhile_dropWhile_id)
  moreover have "list_all cp_reversible (takeWhile cp_reversible ?r)"
    by (auto simp: list_all_iff dest: set_takeWhileD)
  moreover have "case rev ?k of [] \<Rightarrow> True | c # _ \<Rightarrow> \<not> cp_reversible c"
    using hd_dropWhile [of cp_reversible ?r]
    by (cases "dropWhile cp_reversible ?r") (simp_all del: dropWhile_eq_Nil_conv)
  ultimately show ?thesis unfolding plan by blast
qed

section \<open>The state file\<close>

lemma cp_from_to_dict [simp]: "cp_from_dict (cp_to_dict cp) = Inr cp"
  by (simp add: cp_from_dict_def cp_to_dict_def)

lemma load_checkpoints_map [simp]: "load_checkpoints (map cp_to_dict cps) = Inr cps"
  by (induction cps) simp_all

datatype tracker_op =
    OpCheckpoint time migration_state string bool "(string \<times> json) list"
  | OpSetMetadata string json
  | OpClear

fun tracker_step :: "tracker_op \<Rightarrow> state_tracker \<Rightarrow> state_tracker" where
  "tracker_step (OpCheckpoint now s d rv dat) t = checkpoint now s d rv dat t"
| "tracker_step (OpSetMetadata k v) t = set_metadata k v t"
| "tracker_step OpClear t = clear_state t"

lemma StateTracker_save:
  "st_file t \<noteq> NoPath \<Longrightarrow> StateTracker (st_file (save_state t)) = save_state t"
  by (simp add: StateTracker_def load_state_def save_state_def Let_def)

lemma tracker_step_saved:
  "st_file t \<noteq> NoPath \<Longrightarrow> st_file (tracker_step op t) \<noteq> NoPath \<and>
     StateTracker (st_file (tracker_step op t)) = tracker_step op t"
  by (cases op) (simp_all add: checkpoint_def set_metadata_def clear_state_def StateTracker_save,
      simp_all add: save_state_def)

text \<open>
  A tracker with a state file loses nothing when the process dies: after any
  non-empty sequence of operations, whatever the file held at the start, a tracker opened on the
  file has the same current state, checkpoints and metadata, hence the same rollback plan.
\<close>
theorem tracker_survives_crash:
  assumes "f \<noteq> NoPath" and "t = fold tracker_step (ops @ [op]) (StateTracker f)"
  shows "StateTracker (st_file t) = t"
proof -
  have start: "st_file (StateTracker f) \<noteq> NoPath"
    using assms(1) by (auto simp: StateTracker_def load_state_def Let_def split: tracker_file.splits sum.splits json.splits)
  have "st_file (fold tracker_step os t0) \<noteq> NoPath" if "st_file t0 \<noteq> NoPath" for os t0
    using that by (induction os arbitrary: t0) (simp_all add: tracker_step_saved)
  from tracker_step_saved [OF this [OF start, of ops]] show ?thesis by (simp add: assms(2))
qed

theorem tracker_survives_crash_witness:
  "StateTracker (st_file (checkpoint 5 BOOTLOADER_FIXED ''grub'' False [] (StateTracker NoFile)))
     = checkpoint 5 BOOTLOADER_FIXED ''grub'' False [] (StateTracker NoFile)"
  using tracker_survives_crash [of NoFile _ "[]" "OpCheckpoint 5 BOOTLOADER_FIXED ''grub'' False []"] by simp

text \<open>The current state is the state of the newest checkpoint, and Not started without one.\<close>

definition tracker_current_ok :: "state_tracker \<Rightarrow> bool" where
  "tracker_current_ok t = (st_current t =
     (if checkpoints t = [] then NOT_STARTED else cp_state (List.last (checkpoints t))))"

lemma tracker_step_current [inv_intros]:
  "tracker_current_ok t \<Longrightarrow> tracker_current_ok (tracker_step op t)"
  by (cases op) (auto simp: tracker_current_ok_def checkpoint_def set_metadata_def clear_state_def save_state_def)

end
