(* ===== verification/Rollback_Executor.thy ===== *)
theory Rollback_Executor
  imports Rollback_Snapshots Rollback_State
begin

text \<open>
  \<^verbatim>\<open>rollback_executor.py\<close> and \<^verbatim>\<open>rollback_validator.py\<close> of
  \<^verbatim>\<open>h2kvm/infrastructure/rollback\<close>: the single actions of a rollback, the checks after it, and
  the logs of their results.

  An action runs from the instant \<open>t0\<close> to the instant \<open>t1\<close>. The text of an exception is given by
  \<open>show_exc\<close>. A custom action is a function of the file system that may raise.
\<close>

section \<open>Results\<close>

datatype rollback_action =
    RESTORE_SNAPSHOT | REVERT_FILE | REVERT_CONFIG | REMOVE_FILE | RESTORE_BACKUP | CUSTOM

fun rollback_action_value :: "rollback_action \<Rightarrow> string" where
  "rollback_action_value RESTORE_SNAPSHOT = ''restore_snapshot''"
| "rollback_action_value REVERT_FILE = ''revert_file''"
| "rollback_action_value REVERT_CONFIG = ''revert_config''"
| "rollback_action_value REMOVE_FILE = ''remove_file''"
| "rollback_action_value RESTORE_BACKUP = ''restore_backup''"
| "rollback_action_value CUSTOM = ''custom''"

record rollback_result =
  rr_action :: rollback_action
  rr_success :: bool
  rr_message :: string
  rr_details :: "(string \<times> json) list"
  rr_duration_ms :: real
  rr_timestamp :: time

definition rr_to_dict :: "rollback_result \<Rightarrow> json" where
  "rr_to_dict r = JObj [(''action'', JStr (rollback_action_value (rr_action r))),
     (''success'', JBool (rr_success r)), (''message'', JStr (rr_message r)),
     (''details'', JObj (rr_details r)), (''duration_ms'', JNum (rr_duration_ms r)),
     (''timestamp'', JTime (rr_timestamp r))]"

definition mk_result :: "time \<Rightarrow> time \<Rightarrow> rollback_action \<Rightarrow> bool \<Rightarrow> string \<Rightarrow> (string \<times> json) list \<Rightarrow> rollback_result" where
  "mk_result t0 t1 a ok msg det = \<lparr>rr_action = a, rr_success = ok, rr_message = msg, rr_details = det,
     rr_duration_ms = (t1 - t0) * 1000, rr_timestamp = t1\<rparr>"

section \<open>The executor\<close>

record rollback_executor =
  ex_results :: "rollback_result list"

definition RollbackExecutor :: rollback_executor where
  "RollbackExecutor = \<lparr>ex_results = []\<rparr>"

definition ex_append :: "rollback_result \<Rightarrow> rollback_executor \<Rightarrow> rollback_executor" where
  "ex_append r ex = ex\<lparr>ex_results := ex_results ex @ [r]\<rparr>"

definition execute_rollback_snapshot :: "'c snap_env \<Rightarrow> (snap_exc \<Rightarrow> string) \<Rightarrow> time \<Rightarrow> time \<Rightarrow> string \<Rightarrow> bool \<Rightarrow>
    rollback_executor \<times> 'c snapshot_manager \<Rightarrow> rollback_result \<times> rollback_executor \<times> 'c snapshot_manager" where
  "execute_rollback_snapshot env show_exc t0 t1 sid verify s =
     (case s of (ex, m) \<Rightarrow>
        (case restore_snapshot env sid verify m of
           (Inr _, m1) \<Rightarrow>
             (let r = mk_result t0 t1 RESTORE_SNAPSHOT True (''Snapshot '' @ sid @ '' restored successfully'')
                        [(''snapshot_id'', JStr sid)]
              in (r, ex_append r ex, m1))
         | (Inl e, m1) \<Rightarrow>
             (let r = mk_result t0 t1 RESTORE_SNAPSHOT False (''Failed to restore snapshot: '' @ show_exc e)
                        [(''snapshot_id'', JStr sid), (''error'', JStr (show_exc e))]
              in (r, ex_append r ex, m1))))"

definition revert_files_on_disk :: "string \<Rightarrow> string \<Rightarrow> (string, 'c) dict \<Rightarrow> (snap_exc, unit, (string, 'c) dict) outcome" where
  "revert_files_on_disk f b fs =
     (if \<not> dict_has fs b then (Inl (MissingFile b), fs)
      else (let fs1 = (if dict_has fs f then dict_pop f fs else fs)
            in case copy2 b f fs1 of Inl e \<Rightarrow> (Inl e, fs1) | Inr fs2 \<Rightarrow> (Inr (), fs2)))"

definition execute_revert_file :: "(snap_exc \<Rightarrow> string) \<Rightarrow> time \<Rightarrow> time \<Rightarrow> string \<Rightarrow> string \<Rightarrow>
    rollback_executor \<times> 'c snapshot_manager \<Rightarrow> rollback_result \<times> rollback_executor \<times> 'c snapshot_manager" where
  "execute_revert_file show_exc t0 t1 f b s =
     (case s of (ex, m) \<Rightarrow>
        (case revert_files_on_disk f b (files m) of
           (Inr _, fs) \<Rightarrow>
             (let r = mk_result t0 t1 REVERT_FILE True (''File reverted: '' @ f)
                        [(''file_path'', JStr f), (''backup_path'', JStr b)]
              in (r, ex_append r ex, m\<lparr>files := fs\<rparr>))
         | (Inl e, fs) \<Rightarrow>
             (let r = mk_result t0 t1 REVERT_FILE False (''Failed to revert file: '' @ show_exc e)
                        [(''file_path'', JStr f), (''backup_path'', JStr b), (''error'', JStr (show_exc e))]
              in (r, ex_append r ex, m\<lparr>files := fs\<rparr>))))"

definition execute_remove_file :: "time \<Rightarrow> time \<Rightarrow> string \<Rightarrow>
    rollback_executor \<times> 'c snapshot_manager \<Rightarrow> rollback_result \<times> rollback_executor \<times> 'c snapshot_manager" where
  "execute_remove_file t0 t1 f s =
     (case s of (ex, m) \<Rightarrow>
        if dict_has (files m) f
        then (let r = mk_result t0 t1 REMOVE_FILE True (''File removed: '' @ f) [(''file_path'', JStr f)]
              in (r, ex_append r ex, m\<lparr>files := dict_pop f (files m)\<rparr>))
        else (let r = mk_result t0 t1 REMOVE_FILE True (''File already removed: '' @ f) [(''file_path'', JStr f)]
              in (r, ex_append r ex, m)))"

definition execute_custom_action :: "time \<Rightarrow> time \<Rightarrow> ((string, 'c) dict \<Rightarrow> (string, unit, (string, 'c) dict) outcome) \<Rightarrow> string \<Rightarrow>
    rollback_executor \<times> 'c snapshot_manager \<Rightarrow> rollback_result \<times> rollback_executor \<times> 'c snapshot_manager" where
  "execute_custom_action t0 t1 action name s =
     (case s of (ex, m) \<Rightarrow>
        (case action (files m) of
           (Inr _, fs) \<Rightarrow>
             (let r = mk_result t0 t1 CUSTOM True (''Custom action completed: '' @ name) [(''action_name'', JStr name)]
              in (r, ex_append r ex, m\<lparr>files := fs\<rparr>))
         | (Inl e, fs) \<Rightarrow>
             (let r = mk_result t0 t1 CUSTOM False (''Custom action failed: '' @ e)
                        [(''action_name'', JStr name), (''error'', JStr e)]
              in (r, ex_append r ex, m\<lparr>files := fs\<rparr>))))"

record exec_summary =
  total_actions :: nat
  es_successful :: nat
  es_failed :: nat
  success_rate :: real

definition ex_get_summary :: "rollback_executor \<Rightarrow> exec_summary" where
  "ex_get_summary ex =
     (let total = length (ex_results ex); ok = length (filter rr_success (ex_results ex))
      in \<lparr>total_actions = total, es_successful = ok, es_failed = total - ok,
          success_rate = (if total > 0 then real ok / real total * 100 else 0)\<rparr>)"

section \<open>The validator\<close>

datatype validation_status = VPASS | VFAIL | VWARN

fun validation_status_value :: "validation_status \<Rightarrow> string" where
  "validation_status_value VPASS = ''pass''"
| "validation_status_value VFAIL = ''fail''"
| "validation_status_value VWARN = ''warn''"

record validation_result =
  check_name :: string
  vr_status :: validation_status
  vr_message :: string
  vr_details :: "(string \<times> json) list"
  vr_timestamp :: time

definition vr_to_dict :: "validation_result \<Rightarrow> json" where
  "vr_to_dict v = JObj [(''check_name'', JStr (check_name v)),
     (''status'', JStr (validation_status_value (vr_status v))), (''message'', JStr (vr_message v)),
     (''details'', JObj (vr_details v)), (''timestamp'', JTime (vr_timestamp v))]"

record rollback_validator =
  va_results :: "validation_result list"

definition RollbackValidator :: rollback_validator where
  "RollbackValidator = \<lparr>va_results = []\<rparr>"

definition va_append :: "validation_result \<Rightarrow> rollback_validator \<Rightarrow> validation_result \<times> rollback_validator" where
  "va_append r va = (r, va\<lparr>va_results := va_results va @ [r]\<rparr>)"

definition mk_check :: "time \<Rightarrow> string \<Rightarrow> validation_status \<Rightarrow> string \<Rightarrow> (string \<times> json) list \<Rightarrow> validation_result" where
  "mk_check now n st msg det =
     \<lparr>check_name = n, vr_status = st, vr_message = msg, vr_details = det, vr_timestamp = now\<rparr>"

text \<open>The size mismatch message prints two integers with \<open>show_int\<close>.\<close>

definition validate_snapshot_restored :: "'c snap_env \<Rightarrow> (int \<Rightarrow> string) \<Rightarrow> time \<Rightarrow> 'c snapshot_manager \<Rightarrow> string \<Rightarrow>
    rollback_validator \<Rightarrow> validation_result \<times> rollback_validator" where
  "validate_snapshot_restored env show_int now m sid va =
     (case get_snapshot m sid of
        None \<Rightarrow> va_append (mk_check now ''snapshot_restored'' VFAIL (''Snapshot not found: '' @ sid)
                  [(''snapshot_id'', JStr sid)]) va
      | Some s \<Rightarrow>
          (case dict_get (files m) (source_path s) of
             None \<Rightarrow> va_append (mk_check now ''snapshot_restored'' VFAIL (''Source file not found: '' @ source_path s)
                       [(''source_path'', JStr (source_path s))]) va
           | Some c \<Rightarrow>
               if snapshot_type_value (snapshot_type s) = ''full'' \<and> e_size env c \<noteq> size_bytes s
               then va_append (mk_check now ''snapshot_restored'' VWARN
                      (''File size mismatch: expected '' @ show_int (size_bytes s) @ '', got '' @ show_int (e_size env c))
                      [(''expected_size'', JInt (size_bytes s)), (''actual_size'', JInt (e_size env c))]) va
               else va_append (mk_check now ''snapshot_restored'' VPASS
                      (''Snapshot '' @ sid @ '' restored successfully'') [(''snapshot_id'', JStr sid)]) va))"

definition show_bool :: "bool \<Rightarrow> string" where
  "show_bool b = (if b then ''True'' else ''False'')"

definition validate_file_restored :: "time \<Rightarrow> (string, 'c) dict \<Rightarrow> string \<Rightarrow> bool \<Rightarrow>
    rollback_validator \<Rightarrow> validation_result \<times> rollback_validator" where
  "validate_file_restored now fs f expected va =
     (let ex = dict_has fs f;
          det = [(''file_path'', JStr f), (''expected_exists'', JBool expected), (''exists'', JBool ex)]
      in if ex = expected
         then va_append (mk_check now ''file_restored'' VPASS (''File state correct: '' @ f) det) va
         else va_append (mk_check now ''file_restored'' VFAIL
                (''File state incorrect: expected exists='' @ show_bool expected @ '', got exists='' @ show_bool ex) det) va)"

definition validate_state :: "time \<Rightarrow> state_tracker \<Rightarrow> migration_state \<Rightarrow>
    rollback_validator \<Rightarrow> validation_result \<times> rollback_validator" where
  "validate_state now t expected va =
     (let cur = get_current_state t;
          det = [(''expected'', JStr (migration_state_value expected)), (''actual'', JStr (migration_state_value cur))]
      in if cur = expected
         then va_append (mk_check now ''state_validated'' VPASS (''State correct: '' @ migration_state_value cur) det) va
         else va_append (mk_check now ''state_validated'' VFAIL
                (''State incorrect: expected '' @ migration_state_value expected @ '', got '' @ migration_state_value cur) det) va)"

record val_summary =
  total_checks :: nat
  vs_passed :: nat
  vs_failed :: nat
  vs_warnings :: nat
  vs_success :: bool

definition va_get_summary :: "rollback_validator \<Rightarrow> val_summary" where
  "va_get_summary va =
     (let rs = va_results va; count = (\<lambda>st. length (filter (\<lambda>r. vr_status r = st) rs))
      in \<lparr>total_checks = length rs, vs_passed = count VPASS, vs_failed = count VFAIL,
          vs_warnings = count VWARN, vs_success = (count VFAIL = 0)\<rparr>)"

section \<open>Logs\<close>

text \<open>Executor and validator share a contract: every operation appends exactly the result it
  returns. So a log holds the results of all operations so far, in order, and never shrinks.\<close>

fun run_ops :: "('op \<Rightarrow> 's \<Rightarrow> 'r \<times> 's) \<Rightarrow> 'op list \<Rightarrow> 's \<Rightarrow> 'r list \<times> 's" where
  "run_ops step [] s = ([], s)"
| "run_ops step (p # ps) s =
     (let (r, s1) = step p s; (rs, s2) = run_ops step ps s1 in (r # rs, s2))"

locale result_log =
  fixes log :: "'s \<Rightarrow> 'r list" and step :: "'op \<Rightarrow> 's \<Rightarrow> 'r \<times> 's"
  assumes step_log: "log (snd (step p s)) = log s @ [fst (step p s)]"
begin

lemma run_log: "log (snd (run_ops step ps s)) = log s @ fst (run_ops step ps s)"
proof (induction ps arbitrary: s)
  case (Cons p ps)
  obtain r s1 where st: "step p s = (r, s1)" by (cases "step p s")
  obtain rs s2 where rn: "run_ops step ps s1 = (rs, s2)" by (cases "run_ops step ps s1")
  from Cons.IH [of s1] step_log [of p s] st rn show ?case by simp
qed simp

lemma run_length: "length (fst (run_ops step ps s)) = length ps"
proof (induction ps arbitrary: s)
  case (Cons p ps)
  then show ?case by (simp add: split_def Let_def)
qed simp

lemma run_prefix: "prefix (log s) (log (snd (run_ops step ps s)))"
  by (simp add: run_log prefix_def)

end

datatype 'c exec_op =
    ExRestore string bool
  | ExRevert string string
  | ExRemove string
  | ExCustom "(string, 'c) dict \<Rightarrow> (string, unit, (string, 'c) dict) outcome" string

fun exec_step :: "'c snap_env \<Rightarrow> (snap_exc \<Rightarrow> string) \<Rightarrow> time \<times> time \<times> 'c exec_op \<Rightarrow>
    rollback_executor \<times> 'c snapshot_manager \<Rightarrow> rollback_result \<times> rollback_executor \<times> 'c snapshot_manager" where
  "exec_step env sh (t0, t1, ExRestore sid v) s = execute_rollback_snapshot env sh t0 t1 sid v s"
| "exec_step env sh (t0, t1, ExRevert f b) s = execute_revert_file sh t0 t1 f b s"
| "exec_step env sh (t0, t1, ExRemove f) s = execute_remove_file t0 t1 f s"
| "exec_step env sh (t0, t1, ExCustom a n) s = execute_custom_action t0 t1 a n s"

datatype val_op = VaSnapshot string | VaFile string bool | VaState migration_state

fun val_step :: "'c snap_env \<Rightarrow> (int \<Rightarrow> string) \<Rightarrow> time \<times> 'c snapshot_manager \<times> state_tracker \<times> val_op \<Rightarrow>
    rollback_validator \<Rightarrow> validation_result \<times> rollback_validator" where
  "val_step env shi (now, m, t, VaSnapshot sid) va = validate_snapshot_restored env shi now m sid va"
| "val_step env shi (now, m, t, VaFile f b) va = validate_file_restored now (files m) f b va"
| "val_step env shi (now, m, t, VaState st) va = validate_state now t st va"

lemmas exec_defs = execute_rollback_snapshot_def execute_revert_file_def execute_remove_file_def
  execute_custom_action_def ex_append_def

lemmas val_defs = validate_snapshot_restored_def validate_file_restored_def validate_state_def va_append_def

interpretation ex_log: result_log "\<lambda>(ex, m). ex_results ex" "exec_step env sh"
  for env :: "'c snap_env" and sh
proof
  fix p :: "time \<times> time \<times> 'c exec_op" and s :: "rollback_executor \<times> 'c snapshot_manager"
  obtain t0 t1 op where p: "p = (t0, t1, op)" by (cases p)
  obtain ex m where s: "s = (ex, m)" by (cases s)
  show "(case snd (exec_step env sh p s) of (ex, m) \<Rightarrow> ex_results ex) =
      (case s of (ex, m) \<Rightarrow> ex_results ex) @ [fst (exec_step env sh p s)]"
    unfolding p s by (cases op) (auto simp: exec_defs Let_def split: prod.splits sum.splits)
qed

interpretation va_log: result_log va_results "val_step env shi" for env :: "'c snap_env" and shi
proof
  fix p :: "time \<times> 'c snapshot_manager \<times> state_tracker \<times> val_op" and va
  obtain now m t op where p: "p = (now, m, t, op)" by (cases p)
  show "va_results (snd (val_step env shi p va)) = va_results va @ [fst (val_step env shi p va)]"
    unfolding p by (cases op) (auto simp: val_defs Let_def split: option.splits)
qed

lemma revert_file_log:
  "execute_revert_file sh t0 t1 f b (ex, m) = (r, ex1, m1) \<Longrightarrow> ex_results ex1 = ex_results ex @ [r]"
  using ex_log.step_log [of undefined sh "(t0, t1, ExRevert f b)" "(ex, m)"] by simp

lemma remove_file_log:
  "execute_remove_file t0 t1 f (ex, m) = (r, ex1, m1) \<Longrightarrow> ex_results ex1 = ex_results ex @ [r]"
  using ex_log.step_log [of undefined undefined "(t0, t1, ExRemove f)" "(ex, m)"] by simp

lemma restore_snapshot_log:
  "execute_rollback_snapshot env sh t0 t1 sid v (ex, m) = (r, ex1, m1) \<Longrightarrow> ex_results ex1 = ex_results ex @ [r]"
  using ex_log.step_log [of env sh "(t0, t1, ExRestore sid v)" "(ex, m)"] by simp

lemma file_check_log:
  "va_results (snd (validate_file_restored now fs f e va)) =
     va_results va @ [fst (validate_file_restored now fs f e va)]"
  using va_log.step_log [of undefined undefined "(now, undefined\<lparr>files := fs\<rparr>, undefined, VaFile f e)" va] by simp

end
