(* ===== verification/Rollback_Orchestrator.thy ===== *)
theory Rollback_Orchestrator
  imports Rollback_Executor
begin

text \<open>
  \<^verbatim>\<open>h2kvm/infrastructure/rollback/orchestrator.py\<close>: full and partial rollbacks, composed from
  the snapshot manager, the state tracker, the executor and the validator.

  The clock readings are arguments: the start and end of the rollback, and for the \<open>i\<close>-th action of
  a partial rollback its start, its end and the instant of its check. \<open>stamp\<close> is the formatted
  start time. The Markdown rendering and the writing of report files are not modelled.
\<close>

section \<open>The orchestrator\<close>

datatype rollback_strategy = STRATEGY_FULL | STRATEGY_PARTIAL | STRATEGY_INCREMENTAL

fun rollback_strategy_value :: "rollback_strategy \<Rightarrow> string" where
  "rollback_strategy_value STRATEGY_FULL = ''full''"
| "rollback_strategy_value STRATEGY_PARTIAL = ''partial''"
| "rollback_strategy_value STRATEGY_INCREMENTAL = ''incremental''"

record rollback_report =
  rollback_id :: string
  rp_strategy :: rollback_strategy
  started_at :: time
  completed_at :: time
  rp_success :: bool
  snapshot_restored :: "string option"
  actions_executed :: nat
  actions_successful :: nat
  validations_passed :: nat
  validations_failed :: nat
  execution_results :: "json list"
  validation_results :: "json list"
  rp_duration_ms :: real

definition rp_to_dict :: "rollback_report \<Rightarrow> json" where
  "rp_to_dict r = JObj [(''rollback_id'', JStr (rollback_id r)),
     (''strategy'', JStr (rollback_strategy_value (rp_strategy r))),
     (''started_at'', JTime (started_at r)), (''completed_at'', JTime (completed_at r)),
     (''success'', JBool (rp_success r)),
     (''snapshot_restored'', opt_str (snapshot_restored r)),
     (''actions_executed'', JInt (int (actions_executed r))),
     (''actions_successful'', JInt (int (actions_successful r))),
     (''validations_passed'', JInt (int (validations_passed r))),
     (''validations_failed'', JInt (int (validations_failed r))),
     (''execution_results'', JList (execution_results r)),
     (''validation_results'', JList (validation_results r)),
     (''duration_ms'', JNum (rp_duration_ms r))]"

record 'c orchestrator =
  or_manager :: "'c snapshot_manager"
  or_tracker :: state_tracker
  or_executor :: rollback_executor
  or_validator :: rollback_validator

definition RollbackOrchestrator ::
  "string \<Rightarrow> (string, disk_file) dict \<Rightarrow> (string, 'c) dict \<Rightarrow> tracker_file \<Rightarrow> 'c orchestrator" where
  "RollbackOrchestrator dir meta fs f = \<lparr>or_manager = SnapshotManager dir meta fs,
     or_tracker = StateTracker f, or_executor = RollbackExecutor, or_validator = RollbackValidator\<rparr>"

definition mk_report :: "string \<Rightarrow> rollback_strategy \<Rightarrow> time \<Rightarrow> time \<Rightarrow> bool \<Rightarrow> string option \<Rightarrow>
    'c orchestrator \<Rightarrow> rollback_report" where
  "mk_report stamp strat t0 t1 ok snap o1 =
     (let es = ex_get_summary (or_executor o1); vs = va_get_summary (or_validator o1)
      in \<lparr>rollback_id = ''rollback_'' @ stamp, rp_strategy = strat, started_at = t0, completed_at = t1,
          rp_success = ok, snapshot_restored = snap,
          actions_executed = total_actions es, actions_successful = es_successful es,
          validations_passed = vs_passed vs, validations_failed = vs_failed vs,
          execution_results = map rr_to_dict (ex_results (or_executor o1)),
          validation_results = map vr_to_dict (va_results (or_validator o1)),
          rp_duration_ms = (t1 - t0) * 1000\<rparr>)"

definition execute_full_rollback :: "'c snap_env \<Rightarrow> (snap_exc \<Rightarrow> string) \<Rightarrow> (int \<Rightarrow> string) \<Rightarrow> string \<Rightarrow> time \<Rightarrow> time \<Rightarrow>
    string \<Rightarrow> bool \<Rightarrow> bool \<Rightarrow> 'c orchestrator \<Rightarrow> rollback_report \<times> 'c orchestrator" where
  "execute_full_rollback env sh shi stamp t0 t1 sid verify validate o0 =
     (let (res, ex1, m1) = execute_rollback_snapshot env sh t0 t1 sid verify (or_executor o0, or_manager o0);
          tr1 = (if rr_success res
                 then checkpoint t1 ROLLED_BACK (''Rolled back to snapshot '' @ sid) True
                        [(''snapshot_id'', JStr sid)] (or_tracker o0)
                 else or_tracker o0);
          va1 = (if validate \<and> rr_success res
                 then snd (validate_snapshot_restored env shi t1 m1 sid (or_validator o0))
                 else or_validator o0);
          o1 = \<lparr>or_manager = m1, or_tracker = tr1, or_executor = ex1, or_validator = va1\<rparr>
      in (mk_report stamp STRATEGY_FULL t0 t1
            (rr_success res \<and> (\<not> validate \<or> vs_success (va_get_summary va1)))
            (if rr_success res then Some sid else None) o1, o1))"

type_synonym action_clock = "nat \<Rightarrow> time \<times> time \<times> time"

fun revert_loop :: "(snap_exc \<Rightarrow> string) \<Rightarrow> action_clock \<Rightarrow> bool \<Rightarrow> nat \<Rightarrow> (string \<times> string) list \<Rightarrow>
    'c orchestrator \<Rightarrow> 'c orchestrator" where
  "revert_loop sh clk validate i [] orc = orc"
| "revert_loop sh clk validate i ((f, b) # fbs) orc =
     (let (a, e, c) = clk i;
          (res, ex1, m1) = execute_revert_file sh a e f b (or_executor orc, or_manager orc);
          va1 = (if validate \<and> rr_success res
                 then snd (validate_file_restored c (files m1) f True (or_validator orc))
                 else or_validator orc)
      in revert_loop sh clk validate (i + 1) fbs
           (orc\<lparr>or_manager := m1, or_executor := ex1, or_validator := va1\<rparr>))"

fun remove_loop :: "action_clock \<Rightarrow> bool \<Rightarrow> nat \<Rightarrow> string list \<Rightarrow> 'c orchestrator \<Rightarrow> 'c orchestrator" where
  "remove_loop clk validate i [] orc = orc"
| "remove_loop clk validate i (f # fs) orc =
     (let (a, e, c) = clk i;
          (res, ex1, m1) = execute_remove_file a e f (or_executor orc, or_manager orc);
          va1 = (if validate \<and> rr_success res
                 then snd (validate_file_restored c (files m1) f False (or_validator orc))
                 else or_validator orc)
      in remove_loop clk validate (i + 1) fs
           (orc\<lparr>or_manager := m1, or_executor := ex1, or_validator := va1\<rparr>))"

definition execute_partial_rollback :: "(snap_exc \<Rightarrow> string) \<Rightarrow> action_clock \<Rightarrow> string \<Rightarrow> time \<Rightarrow> time \<Rightarrow>
    (string \<times> string) list \<Rightarrow> string list \<Rightarrow> bool \<Rightarrow> 'c orchestrator \<Rightarrow> rollback_report \<times> 'c orchestrator" where
  "execute_partial_rollback sh clk stamp t0 t1 reverts removes validate o0 =
     (let o1 = revert_loop sh clk validate 0 reverts o0;
          o2 = remove_loop clk validate (length reverts) removes o1;
          o3 = o2\<lparr>or_tracker := checkpoint t1 ROLLED_BACK ''Partial rollback completed'' True
                 [(''revert_count'', JInt (int (length reverts))),
                  (''remove_count'', JInt (int (length removes)))] (or_tracker o2)\<rparr>
      in (mk_report stamp STRATEGY_PARTIAL t0 t1
            (es_failed (ex_get_summary (or_executor o3)) = 0 \<and>
             (\<not> validate \<or> vs_success (va_get_summary (or_validator o3)))) None o3, o3))"

section \<open>Full rollback\<close>

lemma vs_success_iff:
  "vs_success (va_get_summary va) \<longleftrightarrow> list_all (\<lambda>r. vr_status r \<noteq> VFAIL) (va_results va)"
  by (simp add: va_get_summary_def Let_def list_all_iff filter_empty_conv)

lemma es_failed_iff:
  "es_failed (ex_get_summary ex) = 0 \<longleftrightarrow> list_all rr_success (ex_results ex)"
proof -
  have "length xs - length (filter rr_success xs) = 0 \<longleftrightarrow> list_all rr_success xs" for xs
  proof (induction xs)
    case (Cons x xs)
    have "\<not> Suc (length xs) \<le> length (filter rr_success xs)"
      using length_filter_le [of rr_success xs] by linarith
    with Cons show ?case by auto
  qed simp
  then show ?thesis by (simp add: ex_get_summary_def Let_def)
qed

lemma restore_full_snapshots: "snapshots (snd (restore_full_snapshot s m)) = snapshots m"
  by (simp add: restore_full_snapshot_def Let_def split: sum.splits)

lemma execute_rollback_snapshot_result:
  "execute_rollback_snapshot env sh t0 t1 sid v (ex, m) =
     (let (r, m1) = restore_snapshot env sid v m;
          res = (case r of Inr _ \<Rightarrow> mk_result t0 t1 RESTORE_SNAPSHOT True (''Snapshot '' @ sid @ '' restored successfully'')
                        [(''snapshot_id'', JStr sid)]
                  | Inl e \<Rightarrow> mk_result t0 t1 RESTORE_SNAPSHOT False (''Failed to restore snapshot: '' @ sh e)
                        [(''snapshot_id'', JStr sid), (''error'', JStr (sh e))])
      in (res, ex_append res ex, m1))"
  by (simp add: execute_rollback_snapshot_def Let_def split: prod.splits sum.splits)

lemma full_rollback_unfold:
  assumes "restore_snapshot env sid v (or_manager o0) = (r, m1)"
    and "execute_full_rollback env sh shi stamp t0 t1 sid v val o0 = (rep, o1)"
  shows "or_manager o1 = m1 \<and>
    (\<exists>res. ex_results (or_executor o1) = ex_results (or_executor o0) @ [res] \<and> rr_success res = is_ok r) \<and>
    snapshot_restored rep = (if is_ok r then Some sid else None) \<and>
    rp_success rep = (is_ok r \<and> (\<not> val \<or> vs_success (va_get_summary (or_validator o1)))) \<and>
    or_validator o1 = (if val \<and> is_ok r then snd (validate_snapshot_restored env shi t1 m1 sid (or_validator o0))
                       else or_validator o0) \<and>
    or_tracker o1 = (if is_ok r then checkpoint t1 ROLLED_BACK (''Rolled back to snapshot '' @ sid) True
                        [(''snapshot_id'', JStr sid)] (or_tracker o0) else or_tracker o0)"
  using assms
  by (cases r) (auto simp: execute_full_rollback_def execute_rollback_snapshot_result Let_def mk_report_def
      mk_result_def ex_append_def)

text \<open>
  C9 (functional). A full rollback with an intact full snapshot works end to end: started by an
  orchestrator that has recorded no failed check, it restores the image to its content at snapshot
  time, reports success and the snapshot, records the state Rolled back with a new checkpoint, and
  its check of the restored image passes.
\<close>
theorem full_rollback_restores_and_reports:
  assumes created: "create_snapshot env now stamp src FULL ck m0 = (Inr s, m)"
    and intact: "dict_get (files (or_manager o0)) (snapshot_path s) = dict_get (files m) (snapshot_path s)"
    and known: "dict_get (snapshots (or_manager o0)) (snapshot_id s) = Some s"
    and paths: "snapshot_path s \<noteq> src" "snapshot_path s \<noteq> src @ ''.pre-restore''"
    and clean: "list_all (\<lambda>r. vr_status r \<noteq> VFAIL) (va_results (or_validator o0))"
    and run: "execute_full_rollback env sh shi st t0 t1 (snapshot_id s) verify validate o0 = (rep, o1)"
  shows "rp_success rep \<and> snapshot_restored rep = Some (snapshot_id s) \<and>
    dict_get (files (or_manager o1)) src = dict_get (files m0) src \<and>
    get_current_state (or_tracker o1) = ROLLED_BACK \<and>
    length (get_checkpoints (or_tracker o1)) = Suc (length (get_checkpoints (or_tracker o0))) \<and>
    (\<not> validate \<or> vr_status (List.last (va_results (or_validator o1))) = VPASS)"
proof -
  let ?m = "or_manager o0"
  note cr = create_full_result [OF created]
  from created have "dict_has (files m0) src" by (simp add: create_snapshot_def split: if_splits)
  then obtain c where c: "dict_get (files m0) src = Some c" by (auto simp: dict_has_def)
  have size: "size_bytes s = e_size env c"
    using created c by (auto simp: create_snapshot_def create_full_snapshot_def copy2_def compute_checksum_def Let_def
      save_snapshot_metadata_def split: if_splits option.splits prod.splits sum.splits)
  from cr intact c have snap: "dict_get (files ?m) (snapshot_path s) = Some c" by simp
  obtain m1 where m1: "restore_full_snapshot s ?m = (Inr (), m1)"
    and look: "dict_get (files m1) src = Some c"
    using restore_copies [of ?m s c] snap cr paths by (auto simp: backup_path_append)
  have sn: "snapshots m1 = snapshots ?m" using restore_full_snapshots [of s ?m] m1 by simp
  have rs: "restore_snapshot env (snapshot_id s) verify ?m = (Inr (), m1)"
    using known cr snap c m1 by (cases verify) (auto simp: restore_snapshot_def compute_checksum_def Let_def split: option.splits)
  note u = full_rollback_unfold [OF rs run]
  have "validate_snapshot_restored env shi t1 m1 (snapshot_id s) (or_validator o0) =
      va_append (mk_check t1 ''snapshot_restored'' VPASS (''Snapshot '' @ snapshot_id s @ '' restored successfully'')
         [(''snapshot_id'', JStr (snapshot_id s))]) (or_validator o0)"
    using known sn look size cr by (simp add: validate_snapshot_restored_def get_snapshot_def)
  then have va: "va_results (or_validator o1) = va_results (or_validator o0) @
      (if validate then [mk_check t1 ''snapshot_restored'' VPASS (''Snapshot '' @ snapshot_id s @ '' restored successfully'')
         [(''snapshot_id'', JStr (snapshot_id s))]] else [])"
    using u by (simp add: va_append_def)
  show ?thesis
    using u va clean look c
    by (auto simp: vs_success_iff mk_check_def get_current_state_def get_checkpoints_def checkpoint_def save_state_def)
qed

definition demo_orch :: "string orchestrator" where
  "demo_orch = \<lparr>or_manager = snd (create_snapshot demo_env 0 ''t'' ''/vm/a.qcow2'' FULL True demo_mgr),
     or_tracker = StateTracker NoFile, or_executor = RollbackExecutor, or_validator = RollbackValidator\<rparr>"

theorem full_rollback_restores_and_reports_witness:
  "\<exists>(s :: snapshot) rep o1. execute_full_rollback demo_env (\<lambda>_. []) (\<lambda>_. []) ''t'' 1 2 (snapshot_id s) True True demo_orch = (rep, o1) \<and>
     rp_success rep \<and> dict_get (files (or_manager o1)) ''/vm/a.qcow2'' = Some ''disk''"
proof -
  let ?c = "create_snapshot demo_env 0 ''t'' ''/vm/a.qcow2'' FULL True demo_mgr"
  have "is_ok (fst ?c)" by code_simp
  then obtain s m where c: "?c = (Inr s, m)" by (cases ?c) (auto elim: is_okE)
  have m: "or_manager demo_orch = m" using c by (simp add: demo_orch_def)
  have "(case fst ?c of Inl _ \<Rightarrow> [] | Inr s \<Rightarrow> snapshot_path s) = ''/snap/snapshot_a_t/a.qcow2''" by code_simp
  with c have path: "snapshot_path s = ''/snap/snapshot_a_t/a.qcow2''" by simp
  obtain rep o1 where r: "execute_full_rollback demo_env (\<lambda>_. []) (\<lambda>_. []) ''t'' 1 2 (snapshot_id s) True True demo_orch
      = (rep, o1)" by (cases "execute_full_rollback demo_env (\<lambda>_. []) (\<lambda>_. []) ''t'' 1 2 (snapshot_id s) True True demo_orch")
  have "dict_get (snapshots (or_manager demo_orch)) (snapshot_id s) = Some s"
    using create_full_result [OF c] by (simp add: m)
  moreover have "list_all (\<lambda>r. vr_status r \<noteq> VFAIL) (va_results (or_validator demo_orch))"
    by (simp add: demo_orch_def RollbackValidator_def)
  ultimately have "rp_success rep \<and> dict_get (files (or_manager o1)) ''/vm/a.qcow2'' = dict_get (files demo_mgr) ''/vm/a.qcow2''"
    using full_rollback_restores_and_reports [OF c _ _ _ _ _ r] by (simp add: m path)
  with r show ?thesis by (auto simp: demo_mgr_def SnapshotManager_def)
qed

text \<open>
  The outcome of a rollback is judged on the whole history of the orchestrator, not on
  the rollback: once any action has failed, every later partial rollback is reported as failed, even
  one that has nothing to do; and once any check has failed, so is every later rollback with
  validation.
\<close>
theorem earlier_failure_fails_later_rollbacks:
  assumes "\<not> list_all rr_success (ex_results (or_executor o0)) \<or>
           (validate \<and> \<not> list_all (\<lambda>v. vr_status v \<noteq> VFAIL) (va_results (or_validator o0)))"
  shows "\<not> rp_success (fst (execute_partial_rollback sh clk stamp t0 t1 [] [] validate o0))"
  using assms by (auto simp: execute_partial_rollback_def Let_def mk_report_def es_failed_iff vs_success_iff)

theorem earlier_failure_fails_later_rollbacks_witness:
  "\<not> rp_success (fst (execute_partial_rollback (\<lambda>_. []) (\<lambda>_. (0, 0, 0)) ''t'' 0 1 [] [] True
     (snd (execute_full_rollback demo_env (\<lambda>_. []) (\<lambda>_. []) ''t'' 0 1 ''nope'' False True
        (RollbackOrchestrator ''/snap'' [] [] NoFile)))))"
proof -
  let ?o = "snd (execute_full_rollback demo_env (\<lambda>_. []) (\<lambda>_. []) ''t'' 0 1 ''nope'' False True
        (RollbackOrchestrator ''/snap'' [] [] NoFile))"
  have "\<not> list_all rr_success (ex_results (or_executor ?o))" by code_simp
  then show ?thesis by (intro earlier_failure_fails_later_rollbacks) simp
qed

section \<open>Partial rollback\<close>

lemma revert_on_disk:
  assumes "f \<noteq> b"
  shows "revert_files_on_disk f b fs =
    (if dict_has fs b then (Inr (), snd (revert_files_on_disk f b fs)) else (Inl (MissingFile b), fs))"
    and "dict_get (snd (revert_files_on_disk f b fs)) p =
      (if p = f \<and> dict_has fs b then dict_get fs b else dict_get fs p)"
  using assms by (auto simp: revert_files_on_disk_def copy2_def Let_def dict_has_def split: option.splits)

lemma execute_revert_file_spec:
  assumes "f \<noteq> b" and "execute_revert_file sh t0 t1 f b (ex, m) = (r, ex1, m1)"
  shows "ex_results ex1 = ex_results ex @ [r] \<and> (rr_success r \<longleftrightarrow> dict_has (files m) b) \<and>
    (\<forall>p. dict_get (files m1) p = (if p = f \<and> dict_has (files m) b then dict_get (files m) b else dict_get (files m) p))"
proof -
  let ?d = "revert_files_on_disk f b (files m)"
  have e: "?d = (if dict_has (files m) b then (Inr (), snd ?d) else (Inl (MissingFile b), files m))"
    using revert_on_disk(1) [OF assms(1)] .
  show ?thesis
  proof (cases "dict_has (files m) b")
    case True
    obtain x fs' where xfs: "?d = (x, fs')" by (cases ?d)
    with e True have d: "?d = (Inr (), fs')" by simp
    have "files m1 = fs'" "rr_success r"
      using assms(2) by (auto simp: execute_revert_file_def d mk_result_def Let_def)
    with revert_on_disk(2) [OF assms(1), of "files m"] revert_file_log [OF assms(2)] True d show ?thesis by simp
  next
    case False
    with e have d: "?d = (Inl (MissingFile b), files m)" by simp
    with assms(2) False revert_file_log [OF assms(2)] show ?thesis
      by (auto simp: execute_revert_file_def mk_result_def Let_def)
  qed
qed

lemma validate_file_spec:
  "va_results (snd (validate_file_restored now fs f e va)) =
     va_results va @ [fst (validate_file_restored now fs f e va)] \<and>
   (vr_status (fst (validate_file_restored now fs f e va)) = VPASS \<longleftrightarrow> dict_has fs f = e)"
  by (simp add: file_check_log) (simp add: validate_file_restored_def va_append_def mk_check_def Let_def)

text \<open>What a loop of actions adds: one result per action, and only passed checks.\<close>

definition extends_logs :: "'c orchestrator \<Rightarrow> 'c orchestrator \<Rightarrow> bool list \<Rightarrow> bool" where
  "extends_logs o0 o1 oks = (or_tracker o1 = or_tracker o0 \<and>
     (\<exists>rs vs. ex_results (or_executor o1) = ex_results (or_executor o0) @ rs \<and> map rr_success rs = oks \<and>
        va_results (or_validator o1) = va_results (or_validator o0) @ vs \<and>
        list_all (\<lambda>v. vr_status v = VPASS) vs))"

lemma extends_logs_refl [simp]: "extends_logs orc orc []"
  by (simp add: extends_logs_def)

lemma extends_logs_trans:
  "extends_logs a b xs \<Longrightarrow> extends_logs b c ys \<Longrightarrow> extends_logs a c (xs @ ys)"
proof -
  assume 1: "extends_logs a b xs" and 2: "extends_logs b c ys"
  from 1 obtain rs vs where b: "ex_results (or_executor b) = ex_results (or_executor a) @ rs" "map rr_success rs = xs"
    "va_results (or_validator b) = va_results (or_validator a) @ vs" "list_all (\<lambda>v. vr_status v = VPASS) vs"
    by (auto simp: extends_logs_def)
  from 2 obtain rs' vs' where c: "ex_results (or_executor c) = ex_results (or_executor b) @ rs'" "map rr_success rs' = ys"
    "va_results (or_validator c) = va_results (or_validator b) @ vs'" "list_all (\<lambda>v. vr_status v = VPASS) vs'"
    by (auto simp: extends_logs_def)
  from 1 2 have "or_tracker c = or_tracker a" by (simp add: extends_logs_def)
  with b c show ?thesis unfolding extends_logs_def
    by (intro conjI exI [of _ "rs @ rs'"] exI [of _ "vs @ vs'"]) simp_all
qed

lemma revert_loop_spec:
  assumes "distinct (map fst fbs)" and "\<forall>(f, b)\<in>set fbs. b \<notin> fst ` set fbs"
  shows "extends_logs orc (revert_loop sh clk v i fbs orc) (map (\<lambda>(f, b). dict_has (files (or_manager orc)) b) fbs) \<and>
    (\<forall>p. dict_get (files (or_manager (revert_loop sh clk v i fbs orc))) p =
       (case map_of fbs p of
          None \<Rightarrow> dict_get (files (or_manager orc)) p
        | Some b \<Rightarrow> if dict_has (files (or_manager orc)) b then dict_get (files (or_manager orc)) b
                    else dict_get (files (or_manager orc)) p))"
  using assms
proof (induction fbs arbitrary: i orc)
  case (Cons x fbs)
  obtain f b where x: "x = (f, b)" by (cases x)
  obtain a e c where clk: "clk i = (a, e, c)" by (cases "clk i")
  let ?fs = "files (or_manager orc)"
  obtain r ex1 m1 where r: "execute_revert_file sh a e f b (or_executor orc, or_manager orc) = (r, ex1, m1)"
    by (cases "execute_revert_file sh a e f b (or_executor orc, or_manager orc)")
  have fb: "f \<noteq> b" "f \<notin> fst ` set fbs" "b \<notin> fst ` set fbs" using Cons.prems x by auto
  note spec = execute_revert_file_spec [OF fb(1) r]
  define va1 where "va1 = (if v \<and> rr_success r then snd (validate_file_restored c (files m1) f True (or_validator orc))
      else or_validator orc)"
  let ?o1 = "orc\<lparr>or_manager := m1, or_executor := ex1, or_validator := va1\<rparr>"
  have loop: "revert_loop sh clk v i (x # fbs) orc = revert_loop sh clk v (i + 1) fbs ?o1"
    by (simp add: x clk r va1_def)
  have "rr_success r \<Longrightarrow> dict_has (files m1) f" using spec by (auto simp: dict_has_def)
  then have "\<exists>vs. va_results va1 = va_results (or_validator orc) @ vs \<and> list_all (\<lambda>v. vr_status v = VPASS) vs"
    using validate_file_spec [of c "files m1" f True "or_validator orc"] by (simp add: va1_def)
  then have step: "extends_logs orc ?o1 [dict_has ?fs b]" using spec by (simp add: extends_logs_def)
  have same: "dict_get (files m1) p = dict_get ?fs p" if "p \<noteq> f" for p using spec that by simp
  have bf: "\<forall>(f', b')\<in>set fbs. b' \<noteq> f" using Cons.prems x by auto
  then have bs: "map (\<lambda>(f, b). dict_has (files m1) b) fbs = map (\<lambda>(f, b). dict_has ?fs b) fbs"
    using same by (auto simp: dict_has_def)
  have IH: "extends_logs ?o1 (revert_loop sh clk v (i + 1) fbs ?o1) (map (\<lambda>(f, b). dict_has ?fs b) fbs) \<and>
    (\<forall>p. dict_get (files (or_manager (revert_loop sh clk v (i + 1) fbs ?o1))) p =
       (case map_of fbs p of None \<Rightarrow> dict_get (files m1) p
        | Some b \<Rightarrow> if dict_has (files m1) b then dict_get (files m1) b else dict_get (files m1) p))"
  proof -
    have d: "distinct (map fst fbs)" "\<forall>(f, b)\<in>set fbs. b \<notin> fst ` set fbs" using Cons.prems x by auto
    have m1eq: "or_manager ?o1 = m1" by simp
    show ?thesis by (rule Cons.IH [OF d, where orc = ?o1 and i = "i + 1", unfolded m1eq bs])
  qed
  have map_of_ne: "map_of fbs p = Some b' \<Longrightarrow> b' \<noteq> f \<and> p \<noteq> f" for p b'
    using map_of_SomeD [of fbs p b'] bf fb(2) by (auto simp: rev_image_eqI)
  have "dict_get (files (or_manager (revert_loop sh clk v (i + 1) fbs ?o1))) p =
       (case map_of (x # fbs) p of None \<Rightarrow> dict_get ?fs p
        | Some b \<Rightarrow> if dict_has ?fs b then dict_get ?fs b else dict_get ?fs p)" for p
  proof (cases "p = f")
    case True
    then have "map_of fbs p = None" using fb by (simp add: map_of_eq_None_iff)
    with IH spec True x show ?thesis by simp
  next
    case False
    with IH same map_of_ne x show ?thesis by (auto simp: dict_has_def split: option.splits)
  qed
  with extends_logs_trans [OF step conjunct1 [OF IH]] show ?case unfolding loop by (simp add: x)
qed simp

lemma execute_remove_file_spec:
  assumes "execute_remove_file t0 t1 f (ex, m) = (r, ex1, m1)"
  shows "ex_results ex1 = ex_results ex @ [r] \<and> rr_success r \<and>
    (\<forall>p. dict_get (files m1) p = (if p = f then None else dict_get (files m) p))"
  using assms remove_file_log [OF assms]
  by (auto simp: execute_remove_file_def mk_result_def dict_has_def Let_def split: if_splits)

lemma remove_loop_spec:
  "extends_logs orc (remove_loop clk v i ds orc) (replicate (length ds) True) \<and>
   (\<forall>p. dict_get (files (or_manager (remove_loop clk v i ds orc))) p =
       (if p \<in> set ds then None else dict_get (files (or_manager orc)) p))"
proof (induction ds arbitrary: i orc)
  case (Cons f ds)
  obtain a e c where clk: "clk i = (a, e, c)" by (cases "clk i")
  obtain r ex1 m1 where r: "execute_remove_file a e f (or_executor orc, or_manager orc) = (r, ex1, m1)"
    by (cases "execute_remove_file a e f (or_executor orc, or_manager orc)")
  note spec = execute_remove_file_spec [OF r]
  define va1 where "va1 = (if v \<and> rr_success r then snd (validate_file_restored c (files m1) f False (or_validator orc))
      else or_validator orc)"
  let ?o1 = "orc\<lparr>or_manager := m1, or_executor := ex1, or_validator := va1\<rparr>"
  have loop: "remove_loop clk v i (f # ds) orc = remove_loop clk v (i + 1) ds ?o1"
    by (simp add: clk r va1_def)
  have "\<not> dict_has (files m1) f" using spec by (simp add: dict_has_def)
  then have "\<exists>vs. va_results va1 = va_results (or_validator orc) @ vs \<and> list_all (\<lambda>v. vr_status v = VPASS) vs"
    using validate_file_spec [of c "files m1" f False "or_validator orc"] by (simp add: va1_def)
  then have step: "extends_logs orc ?o1 [True]" using spec by (simp add: extends_logs_def)
  note IH = Cons.IH [where orc = ?o1 and i = "i + 1"]
  from extends_logs_trans [OF step conjunct1 [OF IH]] conjunct2 [OF IH] spec show ?case
    unfolding loop by simp
qed simp

text \<open>
  A partial rollback does what it was asked, whatever the order of its lists: each
  listed file gets the content of its backup when the backup exists and is left alone otherwise, the
  files to remove are gone, and no other file changes. Started with clean logs, it is reported as
  successful exactly when all backups existed. The tracker records Rolled back in either case. The
  files to revert are distinct and none of them serves as a backup.
\<close>
theorem partial_rollback_effect:
  assumes "distinct (map fst reverts)" and "\<forall>(f, b)\<in>set reverts. b \<notin> fst ` set reverts"
    and "list_all rr_success (ex_results (or_executor o0))"
    and "list_all (\<lambda>v. vr_status v \<noteq> VFAIL) (va_results (or_validator o0))"
    and "execute_partial_rollback sh clk stamp t0 t1 reverts removes validate o0 = (rep, o1)"
    and "fs = files (or_manager o0)"
  shows "(\<forall>p. dict_get (files (or_manager o1)) p =
       (if p \<in> set removes then None
        else case map_of reverts p of
               Some b \<Rightarrow> if dict_has fs b then dict_get fs b else dict_get fs p
             | None \<Rightarrow> dict_get fs p)) \<and>
    (rp_success rep \<longleftrightarrow> list_all (\<lambda>(f, b). dict_has fs b) reverts) \<and>
    actions_executed rep = length (ex_results (or_executor o0)) + length reverts + length removes \<and>
    get_current_state (or_tracker o1) = ROLLED_BACK"
proof -
  let ?o1 = "revert_loop sh clk validate 0 reverts o0"
  let ?o2 = "remove_loop clk validate (length reverts) removes ?o1"
  note rv = revert_loop_spec [OF assms(1,2), of o0 sh clk validate 0]
  note rm = remove_loop_spec [of ?o1 clk validate "length reverts" removes]
  obtain rs vs where logs: "ex_results (or_executor ?o2) = ex_results (or_executor o0) @ rs"
      "map rr_success rs = map (\<lambda>(f, b). dict_has fs b) reverts @ replicate (length removes) True"
      "va_results (or_validator ?o2) = va_results (or_validator o0) @ vs" "list_all (\<lambda>v. vr_status v = VPASS) vs"
    using extends_logs_trans [OF conjunct1 [OF rv] conjunct1 [OF rm]] by (auto simp: extends_logs_def assms(6))
  have o1: "or_manager o1 = or_manager ?o2" "or_executor o1 = or_executor ?o2" "or_validator o1 = or_validator ?o2"
    "get_current_state (or_tracker o1) = ROLLED_BACK"
    and rep: "rp_success rep = (es_failed (ex_get_summary (or_executor ?o2)) = 0 \<and>
        (\<not> validate \<or> vs_success (va_get_summary (or_validator ?o2))))"
      "actions_executed rep = length (ex_results (or_executor ?o2))"
    using assms(5) by (auto simp: execute_partial_rollback_def Let_def mk_report_def ex_get_summary_def
        get_current_state_def checkpoint_def save_state_def)
  have "list_all rr_success rs \<longleftrightarrow> list_all (\<lambda>b. b) (map rr_success rs)" by (simp add: list_all_iff)
  also have "\<dots> \<longleftrightarrow> list_all (\<lambda>(f, b). dict_has fs b) reverts"
    unfolding logs(2) by (auto simp: list_all_iff)
  finally have ok: "list_all rr_success rs \<longleftrightarrow> list_all (\<lambda>(f, b). dict_has fs b) reverts" .
  have "list_all (\<lambda>v. vr_status v \<noteq> VFAIL) vs" using logs(4) by (auto simp: list_all_iff)
  then have "rp_success rep \<longleftrightarrow> list_all (\<lambda>(f, b). dict_has fs b) reverts"
    using assms(3,4) ok by (simp add: rep(1) es_failed_iff vs_success_iff logs)
  moreover have "actions_executed rep = length (ex_results (or_executor o0)) + length reverts + length removes"
    using arg_cong [OF logs(2), of length] by (simp add: rep(2) logs(1))
  ultimately show ?thesis using rv rm o1 unfolding assms(6) by simp
qed

theorem partial_rollback_effect_witness:
  "\<exists>rep o1. execute_partial_rollback (\<lambda>_. []) (\<lambda>_. (0, 0, 0)) ''t'' 0 1 [(''/etc/fstab'', ''/etc/fstab.bak'')] [''/new''] True
     (RollbackOrchestrator ''/snap'' [] [(''/etc/fstab.bak'', ''old''), (''/etc/fstab'', ''bad''), (''/new'', ''x'')] NoFile)
       = (rep, o1) \<and> dict_get (files (or_manager o1)) ''/etc/fstab'' = Some ''old''"
proof -
  let ?o = "RollbackOrchestrator ''/snap'' [] [(''/etc/fstab.bak'', ''old''), (''/etc/fstab'', ''bad''), (''/new'', ''x'')] NoFile"
  let ?r = "execute_partial_rollback (\<lambda>_. []) (\<lambda>_. (0, 0, 0)) ''t'' 0 1 [(''/etc/fstab'', ''/etc/fstab.bak'')] [''/new''] True ?o"
  obtain rep o1 where r: "?r = (rep, o1)" by (cases ?r)
  have "list_all rr_success (ex_results (or_executor ?o))" "list_all (\<lambda>v. vr_status v \<noteq> VFAIL) (va_results (or_validator ?o))"
    by (simp_all add: RollbackOrchestrator_def RollbackExecutor_def RollbackValidator_def)
  from partial_rollback_effect [OF _ _ this r refl] r show ?thesis
    by (simp add: RollbackOrchestrator_def SnapshotManager_def dict_has_def)
qed

end
