(* ===== verification/Batch_Loader.thy ===== *)
theory Batch_Loader
  imports Py_Text "HOL-Library.Product_Lexorder"
begin

text \<open>
  \<^verbatim>\<open>h2kvm/orchestration/manifest/batch_loader.py\<close>: loading and validation of a batch manifest, the
  list of virtual machines to convert.

  The file is given by what \<^verbatim>\<open>json.loads\<close> and \<^verbatim>\<open>yaml.safe_load\<close> make of its
  contents (\<open>None\<close> when they raise). \<^verbatim>\<open>Path(p).expanduser().resolve()\<close>, which depends on the
  user's home and on symbolic links, is the parameter \<open>resolve\<close>. The reason of a ManifestError stands for
  the text of its message. No text of a manifest is a timestamp.
\<close>

section \<open>Virtual machines of a batch\<close>

record vm_batch_item =
  vm_index :: nat
  vm_manifest_path :: string
  vm_priority :: int
  vm_overrides :: "(string \<times> json) list"
  vm_id :: string
  vm_enabled :: bool

datatype manifest_reason =
    InvalidFormat | PyYamlMissing | NotAnObject
  | MissingVersion | UnsupportedVersion json | MissingVms | VmsNotArray
  | MetadataNotObject | BadParallelLimit json | BadContinueOnError
  | VmNotObject nat | ManifestRequired nat | ManifestNotString nat | BadPriority nat json
  | BadId nat string | DuplicateId string | BadOverrides nat | BadEnabled nat | BadVmData nat py_exc

datatype loader_exc = ManifestError manifest_reason | LoaderPy py_exc

text \<open>\<^verbatim>\<open>re.match(r"^[a-zA-Z0-9_-]+$", s)\<close>: the \<^verbatim>\<open>$\<close> also matches before a
  final newline.\<close>

definition id_char :: "char \<Rightarrow> bool" where
  "id_char c = (c \<in> set lower_chars \<or> c \<in> set upper_chars \<or> c \<in> set digit_chars \<or> c = CHR ''_'' \<or> c = CHR ''-'')"

definition id_matches :: "string \<Rightarrow> bool" where
  "id_matches s = (let body = (if s \<noteq> [] \<and> last s = CHR 0x0A then butlast s else s)
                   in body \<noteq> [] \<and> list_all id_char body)"

text \<open>The constructor, on an entry whose fields have the types the validation requires.\<close>

definition VMBatchItem :: "(string \<Rightarrow> py_exc + string) \<Rightarrow> (string \<times> json) list \<Rightarrow> nat \<Rightarrow> py_exc + vm_batch_item" where
  "VMBatchItem resolve data i =
     (case map_of data ''manifest'' of
        None \<Rightarrow> Inl (KeyError ''manifest'')
      | Some (JStr p) \<Rightarrow>
          (case resolve p of
             Inl e \<Rightarrow> Inl e
           | Inr path \<Rightarrow>
               (case (as_int (json_get (JObj data) ''priority'' (JInt 0)),
                      as_dict (json_get (JObj data) ''overrides'' (JObj [])),
                      json_get (JObj data) ''id'' (JStr (''vm_'' @ nat_str i)),
                      as_bool (json_get (JObj data) ''enabled'' (JBool True))) of
                  (Some prio, Some ov, JStr ident, Some en) \<Rightarrow>
                    Inr \<lparr>vm_index = i, vm_manifest_path = path, vm_priority = prio, vm_overrides = ov,
                         vm_id = ident, vm_enabled = en\<rparr>
                | _ \<Rightarrow> Inl (TypeError ''entry'')))
      | Some _ \<Rightarrow> Inl (TypeError ''manifest''))"

section \<open>The loader\<close>

record batch_loader =
  bl_manifest :: json
  bl_vms :: "vm_batch_item list"

definition BatchLoader :: batch_loader where
  "BatchLoader = \<lparr>bl_manifest = JObj [], bl_vms = []\<rparr>"

text \<open>The checks on one entry, in the order of the code: its identifier, or the exception.\<close>

definition check_vm :: "nat \<Rightarrow> string list \<Rightarrow> json \<Rightarrow> loader_exc + string" where
  "check_vm i ids v =
     (case v of
        JObj data \<Rightarrow>
          (case map_of data ''manifest'' of
             None \<Rightarrow> Inl (ManifestError (ManifestRequired i))
           | Some (JStr _) \<Rightarrow>
               (case as_int (json_get v ''priority'' (JInt 0)) of
                  None \<Rightarrow> Inl (ManifestError (BadPriority i (json_get v ''priority'' JNull)))
                | Some _ \<Rightarrow>
                    (case json_get v ''id'' (JStr (''vm_'' @ nat_str i)) of
                       JStr ident \<Rightarrow>
                         if \<not> id_matches ident then Inl (ManifestError (BadId i ident))
                         else if ident \<in> set ids then Inl (ManifestError (DuplicateId ident))
                         else if as_dict (json_get v ''overrides'' (JObj [])) = None
                              then Inl (ManifestError (BadOverrides i))
                         else if as_bool (json_get v ''enabled'' (JBool True)) = None
                              then Inl (ManifestError (BadEnabled i))
                         else Inr ident
                     | _ \<Rightarrow> Inl (LoaderPy (TypeError ''expected string''))))
           | Some _ \<Rightarrow> Inl (ManifestError (ManifestNotString i)))
      | _ \<Rightarrow> Inl (ManifestError (VmNotObject i)))"

fun validate_vms_loop :: "(string \<Rightarrow> py_exc + string) \<Rightarrow> nat \<Rightarrow> string list \<Rightarrow> json list \<Rightarrow> vm_batch_item list \<Rightarrow>
    (loader_exc, unit, vm_batch_item list) outcome" where
  "validate_vms_loop resolve i ids [] vms = (Inr (), vms)"
| "validate_vms_loop resolve i ids (v # vs) vms =
     (case check_vm i ids v of
        Inl e \<Rightarrow> (Inl e, vms)
      | Inr ident \<Rightarrow>
          (case as_dict v of
             None \<Rightarrow> (Inl (ManifestError (VmNotObject i)), vms)
           | Some data \<Rightarrow>
               (case VMBatchItem resolve data i of
                  Inl e \<Rightarrow> (Inl (ManifestError (BadVmData i e)), vms)
                | Inr item \<Rightarrow> validate_vms_loop resolve (Suc i) (ids @ [ident]) vs (vms @ [item]))))"

text \<open>The entries of the manifest, sorted by priority and then by \<^verbatim>\<open>list.index\<close>, the
  position of the first equal entry.\<close>

definition sort_entries :: "json list \<Rightarrow> json list" where
  "sort_entries vs = sort_key (\<lambda>v. (case as_int (json_get v ''priority'' (JInt 0)) of Some p \<Rightarrow> p | None \<Rightarrow> 0,
     length (takeWhile (\<lambda>w. w \<noteq> v) vs))) vs"

definition validate_vms :: "(string \<Rightarrow> py_exc + string) \<Rightarrow> json list \<Rightarrow> batch_loader \<Rightarrow> (loader_exc, unit, batch_loader) outcome" where
  "validate_vms resolve vs l =
     (case validate_vms_loop resolve 0 [] vs (bl_vms l) of
        (Inl e, vms) \<Rightarrow> (Inl e, l\<lparr>bl_vms := vms\<rparr>)
      | (Inr _, vms) \<Rightarrow>
          (Inr (), l\<lparr>bl_vms := vms,
             bl_manifest := (case bl_manifest l of
                JObj fs \<Rightarrow> JObj (dict_set ''vms'' (JList (sort_entries vs)) fs) | m \<Rightarrow> m)\<rparr>))"

definition validate_batch_metadata :: "json \<Rightarrow> loader_exc + unit" where
  "validate_batch_metadata md =
     (case md of
        JObj fs \<Rightarrow>
          (let pl = map_of fs ''parallel_limit''; ce = map_of fs ''continue_on_error''
           in if pl \<noteq> None \<and> (case as_int (the pl) of None \<Rightarrow> True | Some n \<Rightarrow> n < 1)
              then Inl (ManifestError (BadParallelLimit (the pl)))
              else if ce \<noteq> None \<and> as_bool (the ce) = None then Inl (ManifestError BadContinueOnError)
              else Inr ())
      | _ \<Rightarrow> Inl (ManifestError MetadataNotObject))"

definition validate_manifest :: "(string \<Rightarrow> py_exc + string) \<Rightarrow> batch_loader \<Rightarrow> (loader_exc, unit, batch_loader) outcome" where
  "validate_manifest resolve l =
     (case bl_manifest l of
        JObj fs \<Rightarrow>
          (let version = json_get (JObj fs) ''batch_version'' JNull
           in if \<not> truthy version then (Inl (ManifestError MissingVersion), l)
              else if version \<noteq> JStr ''1.0'' then (Inl (ManifestError (UnsupportedVersion version)), l)
              else (case map_of fs ''vms'' of
                      None \<Rightarrow> (Inl (ManifestError MissingVms), l)
                    | Some (JList vs) \<Rightarrow>
                        (case (case map_of fs ''batch_metadata'' of None \<Rightarrow> Inr () | Some md \<Rightarrow> validate_batch_metadata md) of
                           Inl e \<Rightarrow> (Inl e, l)
                         | Inr _ \<Rightarrow> validate_vms resolve vs l)
                    | Some _ \<Rightarrow> (Inl (ManifestError VmsNotArray), l)))
      | _ \<Rightarrow> (Inl (ManifestError NotAnObject), l))"

text \<open>The file: what the two parsers make of its contents.\<close>

record batch_file =
  bf_json :: "json option"
  bf_yaml :: "json option"

definition yaml_or_empty :: "json \<Rightarrow> json" where
  "yaml_or_empty v = (if truthy v then v else JObj [])"

definition parse_yaml :: "bool \<Rightarrow> batch_file \<Rightarrow> loader_exc + json" where
  "parse_yaml yaml_available f =
     (if \<not> yaml_available then Inl (ManifestError PyYamlMissing)
      else case bf_yaml f of None \<Rightarrow> Inl (ManifestError InvalidFormat) | Some v \<Rightarrow> Inr (yaml_or_empty v))"

definition parse_manifest :: "bool \<Rightarrow> string \<Rightarrow> batch_file \<Rightarrow> loader_exc + json" where
  "parse_manifest yaml_available path f =
     (let suf = py_lower (path_suffix path)
      in if suf = ''.json''
         then (case bf_json f of None \<Rightarrow> Inl (ManifestError InvalidFormat) | Some v \<Rightarrow> Inr v)
         else if suf = ''.yaml'' \<or> suf = ''.yml'' then parse_yaml yaml_available f
         else (case bf_json f of Some v \<Rightarrow> Inr v | None \<Rightarrow> parse_yaml yaml_available f))"

definition load_batch :: "(string \<Rightarrow> py_exc + string) \<Rightarrow> bool \<Rightarrow> (string, batch_file) dict \<Rightarrow> string \<Rightarrow> batch_loader \<Rightarrow>
    (loader_exc, json, batch_loader) outcome" where
  "load_batch resolve yaml_available fs manifest_path l =
     (case resolve manifest_path of
        Inl e \<Rightarrow> (Inl (LoaderPy e), l)
      | Inr path \<Rightarrow>
          (case dict_get fs path of
             None \<Rightarrow> (Inl (LoaderPy (FileNotFoundError path)), l)
           | Some f \<Rightarrow>
               (case parse_manifest yaml_available path f of
                  Inl e \<Rightarrow> (Inl e, l)
                | Inr m \<Rightarrow>
                    (case validate_manifest resolve (l\<lparr>bl_manifest := m\<rparr>) of
                       (Inl e, l') \<Rightarrow> (Inl e, l')
                     | (Inr _, l') \<Rightarrow> (Inr (bl_manifest l'), l')))))"

section \<open>Getters\<close>

definition batch_metadata :: "batch_loader \<Rightarrow> json" where
  "batch_metadata l = json_get (bl_manifest l) ''batch_metadata'' (JObj [])"

definition get_batch_id :: "batch_loader \<Rightarrow> json" where
  "get_batch_id l = json_get (batch_metadata l) ''batch_id'' (JStr ''unnamed_batch'')"

definition get_parallel_limit :: "batch_loader \<Rightarrow> json" where
  "get_parallel_limit l = json_get (batch_metadata l) ''parallel_limit'' (JInt 4)"

definition get_continue_on_error :: "batch_loader \<Rightarrow> json" where
  "get_continue_on_error l = json_get (batch_metadata l) ''continue_on_error'' (JBool True)"

definition get_shared_config :: "batch_loader \<Rightarrow> json" where
  "get_shared_config l = json_get (bl_manifest l) ''shared_config'' (JObj [])"

definition get_vms :: "batch_loader \<Rightarrow> vm_batch_item list" where
  "get_vms l = sort_key (\<lambda>x. (vm_priority x, vm_index x)) (filter vm_enabled (bl_vms l))"

definition get_output_directory :: "(string \<Rightarrow> py_exc + string) \<Rightarrow> batch_loader \<Rightarrow> py_exc + string option" where
  "get_output_directory resolve l =
     (case get_shared_config l of
        JObj fs \<Rightarrow>
          (case map_of fs ''output_directory'' of
             None \<Rightarrow> Inr None
           | Some v \<Rightarrow>
               if \<not> truthy v then Inr None
               else (case v of
                       JStr p \<Rightarrow> (case resolve p of Inl e \<Rightarrow> Inl e | Inr d \<Rightarrow> Inr (Some d))
                     | _ \<Rightarrow> Inl (TypeError ''output_directory'')))
      | _ \<Rightarrow> Inl (AttributeError ''get''))"

section \<open>What a loaded batch guarantees\<close>

text \<open>The machines of a loaded batch: positions, identifiers and priorities are those of the entries.\<close>

lemma VMBatchItem_Inr:
  assumes "VMBatchItem resolve data i = Inr item"
  shows "vm_index item = i" "json_get (JObj data) ''id'' (JStr (''vm_'' @ nat_str i)) = JStr (vm_id item)"
    "as_int (json_get (JObj data) ''priority'' (JInt 0)) = Some (vm_priority item)"
  using assms by (auto simp: VMBatchItem_def split: option.splits json.splits sum.splits prod.splits)

lemma check_vm_Inr:
  assumes "check_vm i ids v = Inr ident"
  shows "ident \<notin> set ids" "id_matches ident" "json_get v ''id'' (JStr (''vm_'' @ nat_str i)) = JStr ident"
  using assms by (auto simp: check_vm_def split: json.splits option.splits if_splits)


lemma validate_vms_loop_ok:
  assumes "validate_vms_loop resolve i ids vs vms = (Inr (), vms')"
  shows "\<exists>items. vms' = vms @ items \<and> map vm_index items = [i..<i + length vs] \<and>
    distinct (map vm_id items) \<and> set ids \<inter> set (map vm_id items) = {} \<and> list_all (id_matches \<circ> vm_id) items"
  using assms
proof (induction resolve i ids vs vms rule: validate_vms_loop.induct)
  case (2 resolve i ids v vs vms)
  obtain ident data item where ch: "check_vm i ids v = Inr ident" and d: "as_dict v = Some data"
    and it: "VMBatchItem resolve data i = Inr item"
    and rest: "validate_vms_loop resolve (Suc i) (ids @ [ident]) vs (vms @ [item]) = (Inr (), vms')"
    using "2.prems" by (auto split: sum.splits option.splits)
  from "2.IH" [OF ch d it rest] obtain items where items: "vms' = (vms @ [item]) @ items"
      "map vm_index items = [Suc i..<Suc i + length vs]" "distinct (map vm_id items)"
      "set (ids @ [ident]) \<inter> set (map vm_id items) = {}" "list_all (id_matches \<circ> vm_id) items"
    by blast
  have "v = JObj data" using d by (cases v) auto
  with check_vm_Inr [OF ch] VMBatchItem_Inr [OF it]
  have "vm_id item = ident" "vm_index item = i" "ident \<notin> set ids" "id_matches ident" by auto
  moreover have "[i..<i + length (v # vs)] = i # [Suc i..<Suc i + length vs]" by (simp add: upt_conv_Cons del: upt_Suc)
  ultimately show ?case using items by (intro exI [of _ "item # items"]) (auto simp: o_def simp del: upt_Suc)
qed simp

lemma load_batch_ok:
  assumes "load_batch resolve yaml fs path l0 = (Inr m, l)"
  obtains p f ms vs where "resolve path = Inr p" "dict_get fs p = Some f" "parse_manifest yaml p f = Inr (JObj ms)"
    "map_of ms ''vms'' = Some (JList vs)" "validate_vms_loop resolve 0 [] vs (bl_vms l0) = (Inr (), bl_vms l)"
proof -
  obtain p f d where pf: "resolve path = Inr p" "dict_get fs p = Some f" "parse_manifest yaml p f = Inr d"
    and v: "validate_manifest resolve (l0\<lparr>bl_manifest := d\<rparr>) = (Inr (), l)"
    using assms by (auto simp: load_batch_def split: sum.splits option.splits prod.splits)
  then obtain ms where d: "d = JObj ms" by (cases d) (auto simp: validate_manifest_def)
  from v obtain vs where vs: "map_of ms ''vms'' = Some (JList vs)"
    "validate_vms resolve vs (l0\<lparr>bl_manifest := d\<rparr>) = (Inr (), l)"
    by (auto simp: validate_manifest_def d Let_def split: if_splits option.splits json.splits sum.splits)
  from vs(2) have "validate_vms_loop resolve 0 [] vs (bl_vms l0) = (Inr (), bl_vms l)"
    by (auto simp: validate_vms_def split: prod.splits sum.splits)
  with pf vs(1) d show thesis by (intro that) simp_all
qed

lemma get_vms_set [simp]: "set (get_vms l) = {v \<in> set (bl_vms l). vm_enabled v}"
  by (auto simp: get_vms_def)

lemma sorted_wrt_strict_of_distinct:
  assumes "sorted (map f xs)" "distinct (map f xs)"
  shows "sorted_wrt (\<lambda>x y. f x < f y) xs"
proof -
  have "sorted_wrt (<) (map f xs)" using assms by (simp only: strict_sorted_iff)
  then show ?thesis by (simp only: sorted_wrt_map)
qed

text \<open>
  A batch manifest that loads gives one machine per entry, with well-formed and
  distinct identifiers, and the machines to convert are exactly the enabled ones, those of a smaller
  priority first and those of the same priority in the order of the manifest.
\<close>
theorem loaded_batch_is_ordered:
  assumes "load_batch resolve yaml fs path BatchLoader = (Inr m, l)"
  shows "distinct (map vm_id (bl_vms l)) \<and> list_all (id_matches \<circ> vm_id) (bl_vms l) \<and>
    (\<exists>p f ms vs. resolve path = Inr p \<and> dict_get fs p = Some f \<and> parse_manifest yaml p f = Inr (JObj ms) \<and>
       map_of ms ''vms'' = Some (JList vs) \<and> map vm_index (bl_vms l) = [0..<length vs]) \<and>
    set (get_vms l) = {v \<in> set (bl_vms l). vm_enabled v} \<and>
    sorted_wrt (\<lambda>x y. vm_priority x < vm_priority y \<or>
      vm_priority x = vm_priority y \<and> vm_index x < vm_index y) (get_vms l)"
proof -
  obtain p f ms vs where pf: "resolve path = Inr p" "dict_get fs p = Some f" "parse_manifest yaml p f = Inr (JObj ms)"
      "map_of ms ''vms'' = Some (JList vs)" "validate_vms_loop resolve 0 [] vs (bl_vms BatchLoader) = (Inr (), bl_vms l)"
    using load_batch_ok [OF assms] by blast
  from validate_vms_loop_ok [OF pf(5)]
  have items: "map vm_index (bl_vms l) = [0..<length vs]" "distinct (map vm_id (bl_vms l))"
      "list_all (id_matches \<circ> vm_id) (bl_vms l)"
    by (auto simp: BatchLoader_def)
  let ?key = "\<lambda>x. (vm_priority x, vm_index x)"
  have "distinct (map vm_index (bl_vms l))" by (simp add: items(1))
  then have "inj_on vm_index (set (bl_vms l))" "distinct (bl_vms l)" by (auto simp: distinct_map)
  then have "distinct (map ?key (get_vms l))"
    by (auto simp: distinct_map get_vms_def inj_on_def)
  moreover have "sorted (map ?key (get_vms l))" by (simp add: get_vms_def)
  ultimately have "sorted_wrt (\<lambda>x y. ?key x < ?key y) (get_vms l)"
    by (rule sorted_wrt_strict_of_distinct [rotated])
  then have "sorted_wrt (\<lambda>x y. vm_priority x < vm_priority y \<or>
      vm_priority x = vm_priority y \<and> vm_index x < vm_index y) (get_vms l)"
    by (rule sorted_wrt_mono_rel [rotated]) (auto simp: less_prod_def')
  with items pf show ?thesis by auto
qed


theorem loaded_batch_is_ordered_witness:
  "map vm_id (get_vms (snd (load_batch Inr False [(''/b.json'', \<lparr>bf_json = Some (JObj [(''batch_version'', JStr ''1.0''),
      (''vms'', JList [JObj [(''manifest'', JStr ''/a''), (''priority'', JInt 5)], JObj [(''manifest'', JStr ''/c'')]])]),
      bf_yaml = None\<rparr>)] ''/b.json'' BatchLoader))) = [''vm_1'', ''vm_0''] \<and>
   distinct (map vm_id (bl_vms (snd (load_batch Inr False [(''/b.json'', \<lparr>bf_json = Some (JObj [(''batch_version'', JStr ''1.0''),
      (''vms'', JList [JObj [(''manifest'', JStr ''/a''), (''priority'', JInt 5)], JObj [(''manifest'', JStr ''/c'')]])]),
      bf_yaml = None\<rparr>)] ''/b.json'' BatchLoader))))"
proof -
  let ?r = "load_batch Inr False [(''/b.json'', \<lparr>bf_json = Some (JObj [(''batch_version'', JStr ''1.0''),
      (''vms'', JList [JObj [(''manifest'', JStr ''/a''), (''priority'', JInt 5)], JObj [(''manifest'', JStr ''/c'')]])]),
      bf_yaml = None\<rparr>)] ''/b.json'' BatchLoader"
  have "is_ok (fst ?r)" by code_simp
  then obtain m where "?r = (Inr m, snd ?r)" by (metis is_okE prod.collapse)
  from loaded_batch_is_ordered [OF this] have "distinct (map vm_id (bl_vms (snd ?r)))" by (rule conjunct1)
  moreover have "map vm_id (get_vms (snd ?r)) = [''vm_1'', ''vm_0'']" by code_simp
  ultimately show ?thesis by (rule conjI [rotated])
qed

text \<open>A loader keeps the machines of the manifest it loaded before, so loading a manifest a second
  time with the same loader doubles every machine.\<close>

lemma validate_vms_loop_acc:
  "validate_vms_loop resolve i ids vs (acc @ vms) =
     (fst (validate_vms_loop resolve i ids vs vms), acc @ snd (validate_vms_loop resolve i ids vs vms))"
  by (induction resolve i ids vs vms rule: validate_vms_loop.induct) (auto split: sum.splits option.splits)

lemma reload_doubles_machines:
  assumes "load_batch resolve yaml fs path BatchLoader = (Inr m, l)"
    and "load_batch resolve yaml fs path l = (Inr m', l')"
  shows "bl_vms l' = bl_vms l @ bl_vms l"
proof -
  obtain p f ms vs where pf: "resolve path = Inr p" "dict_get fs p = Some f" "parse_manifest yaml p f = Inr (JObj ms)"
      "map_of ms ''vms'' = Some (JList vs)" "validate_vms_loop resolve 0 [] vs [] = (Inr (), bl_vms l)"
    using load_batch_ok [OF assms(1)] unfolding BatchLoader_def batch_loader.select_convs by blast
  obtain vs' where "map_of ms ''vms'' = Some (JList vs')" "validate_vms_loop resolve 0 [] vs' (bl_vms l) = (Inr (), bl_vms l')"
    using load_batch_ok [OF assms(2)] pf(1-3) by (metis Inr_inject json.inject(7) option.inject)
  with pf validate_vms_loop_acc [of resolve 0 "[]" vs "bl_vms l" "[]"] show ?thesis by simp
qed

end
