(* ===== verification/Batch_Reporter.thy ===== *)
theory Batch_Reporter
  imports H2K_Prelude
begin

text \<open>
  \<^verbatim>\<open>h2kvm/orchestration/manifest/batch_reporter.py\<close>: the aggregate report of a batch. The texts that
  \<^verbatim>\<open>write_json\<close> and \<^verbatim>\<open>write_summary\<close> print are renderings of the report that
  \<open>generate\<close> returns and are not modelled. Durations and rates are exact reals.
\<close>

text \<open>\<^verbatim>\<open>round(x, n)\<close>: to the nearest multiple of \<open>10\<^sup>-\<^sup>n\<close>, ties to even.\<close>

definition round_half_even :: "real \<Rightarrow> int" where
  "round_half_even x = (let f = \<lfloor>x\<rfloor>; d = x - of_int f
     in if d < 1 / 2 then f else if d > 1 / 2 then f + 1 else if even f then f else f + 1)"

definition py_round :: "real \<Rightarrow> nat \<Rightarrow> real" where
  "py_round x n = of_int (round_half_even (x * 10 ^ n)) / 10 ^ n"

record vm_entry =
  e_vm_id :: string
  e_manifest :: string
  e_success :: bool
  e_duration :: real
  e_error :: "string option"
  e_report :: "(string \<times> json) list option"

record batch_report =
  rep_batch_id :: string
  rep_manifest_path :: string
  rep_success :: bool
  rep_duration :: real
  rep_total :: int
  rep_processed :: int
  rep_successful :: int
  rep_failed :: int
  rep_success_rate :: real
  rep_vm_results :: "vm_entry list"
  rep_total_duration :: real
  rep_average_duration :: real
  rep_fastest :: "(string \<times> real) option"
  rep_slowest :: "(string \<times> real) option"
  rep_warnings :: "(string \<times> string) list"
  rep_errors :: "(string \<times> string) list"

definition BatchReporter :: batch_report where
  "BatchReporter = \<lparr>rep_batch_id = [], rep_manifest_path = [], rep_success = False, rep_duration = 0, rep_total = 0,
     rep_processed = 0, rep_successful = 0, rep_failed = 0, rep_success_rate = 0, rep_vm_results = [],
     rep_total_duration = 0, rep_average_duration = 0, rep_fastest = None, rep_slowest = None,
     rep_warnings = [], rep_errors = []\<rparr>"

definition set_batch_info :: "string \<Rightarrow> string \<Rightarrow> int \<Rightarrow> int \<Rightarrow> int \<Rightarrow> int \<Rightarrow> batch_report \<Rightarrow> batch_report" where
  "set_batch_info batch_id path total_n processed successful failed r =
     (let r1 = r\<lparr>rep_batch_id := batch_id, rep_manifest_path := path, rep_total := total_n,
                 rep_processed := processed, rep_successful := successful, rep_failed := failed\<rparr>
      in if processed > 0
         then r1\<lparr>rep_success_rate := py_round (of_int successful / of_int processed) 4\<rparr> else r1)"

definition set_success :: "bool \<Rightarrow> batch_report \<Rightarrow> batch_report" where
  "set_success ok r = r\<lparr>rep_success := ok\<rparr>"

definition set_duration :: "real \<Rightarrow> batch_report \<Rightarrow> batch_report" where
  "set_duration d r = r\<lparr>rep_duration := py_round d 2\<rparr>"

text \<open>An empty error text or an empty report is left out, as Python's truth test does.\<close>

definition add_vm_result :: "string \<Rightarrow> string \<Rightarrow> bool \<Rightarrow> real \<Rightarrow> string option \<Rightarrow> (string \<times> json) list option \<Rightarrow>
    batch_report \<Rightarrow> batch_report" where
  "add_vm_result i m ok d err rep r = r\<lparr>rep_vm_results := rep_vm_results r @
     [\<lparr>e_vm_id = i, e_manifest = m, e_success = ok, e_duration = py_round d 2,
       e_error = (if err = Some [] then None else err), e_report = (if rep = Some [] then None else rep)\<rparr>]\<rparr>"

definition add_warning :: "string option \<Rightarrow> string \<Rightarrow> batch_report \<Rightarrow> batch_report" where
  "add_warning i msg r = r\<lparr>rep_warnings := rep_warnings r @
     [(case i of None \<Rightarrow> ''batch'' | Some [] \<Rightarrow> ''batch'' | Some v \<Rightarrow> v, msg)]\<rparr>"

definition add_error :: "string option \<Rightarrow> string \<Rightarrow> batch_report \<Rightarrow> batch_report" where
  "add_error i msg r = r\<lparr>rep_errors := rep_errors r @
     [(case i of None \<Rightarrow> ''batch'' | Some [] \<Rightarrow> ''batch'' | Some v \<Rightarrow> v, msg)]\<rparr>"

text \<open>The first element of least (greatest) duration: \<^verbatim>\<open>durations.index(min(durations))\<close>.\<close>

fun first_best :: "(real \<Rightarrow> real \<Rightarrow> bool) \<Rightarrow> vm_entry list \<Rightarrow> vm_entry option" where
  "first_best better [] = None"
| "first_best better (e # es) = (case first_best better es of
      None \<Rightarrow> Some e
    | Some b \<Rightarrow> if better (e_duration b) (e_duration e) then Some b else Some e)"

definition compute_aggregate_stats :: "batch_report \<Rightarrow> batch_report" where
  "compute_aggregate_stats r =
     (let good = filter e_success (rep_vm_results r);
          durations = map e_duration good
      in if durations = [] then r
         else r\<lparr>rep_total_duration := py_round (sum_list durations) 2,
                rep_average_duration := py_round (sum_list durations / of_nat (length durations)) 2,
                rep_fastest := map_option (\<lambda>e. (e_vm_id e, e_duration e)) (first_best (<) good),
                rep_slowest := map_option (\<lambda>e. (e_vm_id e, e_duration e)) (first_best (>) good)\<rparr>)"

definition generate :: "batch_report \<Rightarrow> batch_report" where
  "generate r = (let r1 = compute_aggregate_stats r in set_success (list_all e_success (rep_vm_results r1)) r1)"

section \<open>Properties\<close>

text \<open>Reading a report again does not change it: the writers call \<open>generate\<close> once more each.\<close>

lemma generate_results [simp]: "rep_vm_results (generate r) = rep_vm_results r"
  by (simp add: generate_def compute_aggregate_stats_def set_success_def Let_def)

lemma generate_idem [simp]: "generate (generate r) = generate r"
  by (simp add: generate_def compute_aggregate_stats_def set_success_def Let_def)

lemma generate_success: "rep_success (generate r) \<longleftrightarrow> (\<forall>e \<in> set (rep_vm_results r). e_success e)"
  by (simp add: generate_def compute_aggregate_stats_def set_success_def Let_def list_all_iff)

lemma first_best_None [simp]: "first_best f es = None \<longleftrightarrow> es = []"
  by (cases es) (auto split: option.splits)

text \<open>The fastest conversion is the first of those with the least duration.\<close>

lemma first_best_min:
  "first_best (<) es = Some b \<Longrightarrow> b \<in> set es \<and> (\<forall>e \<in> set es. e_duration b \<le> e_duration e)"
  by (induction es arbitrary: b) (force split: option.splits if_splits)+

lemma first_best_max:
  "first_best (>) es = Some b \<Longrightarrow> b \<in> set es \<and> (\<forall>e \<in> set es. e_duration e \<le> e_duration b)"
  by (induction es arbitrary: b) (force split: option.splits if_splits)+

lemma round_half_even_bounds: "\<bar>of_int (round_half_even x) - x\<bar> \<le> 1 / 2"
  unfolding round_half_even_def Let_def by (auto simp: abs_le_iff)

lemma py_round_error: "\<bar>py_round x n - x\<bar> \<le> 1 / (2 * 10 ^ n)"
proof -
  let ?p = "(10::real) ^ n"
  have "py_round x n - x = (of_int (round_half_even (x * ?p)) - x * ?p) / ?p"
    by (simp add: py_round_def diff_divide_distrib)
  then have "\<bar>py_round x n - x\<bar> = \<bar>of_int (round_half_even (x * ?p)) - x * ?p\<bar> / ?p" by (simp add: abs_divide)
  also have "\<dots> \<le> (1 / 2) / ?p" by (rule divide_right_mono [OF round_half_even_bounds]) simp
  finally show ?thesis by simp
qed

end
