(* ===== verification/Atomic_File.thy ===== *)
theory Atomic_File
  imports H2K_Prelude
begin

text \<open>
  Writing a JSON file by way of a temporary file, as the checkpoint manager and the progress tracker
  of \<^verbatim>\<open>h2kvm/orchestration/manifest\<close> both do: write \<^verbatim>\<open>X.json.tmp\<close>, then replace
  \<^verbatim>\<open>X.json\<close> by it. The states a crash can leave behind are the states of the trace below:
  nothing written yet, a temporary file that is cut short, a complete temporary file, and the
  finished replacement.
\<close>

type_synonym json_dir = "(string, disk_file) dict"

definition tmp_file :: "string \<Rightarrow> string" where
  "tmp_file p = with_suffix p ''.json.tmp''"

definition atomic_write :: "string \<Rightarrow> json \<Rightarrow> json_dir \<Rightarrow> json_dir" where
  "atomic_write p doc d =
     (let d1 = dict_set (tmp_file p) (JsonDoc doc) d
      in dict_set p (JsonDoc doc) (dict_pop (tmp_file p) d1))"

definition atomic_trace :: "string \<Rightarrow> json \<Rightarrow> json_dir \<Rightarrow> json_dir list" where
  "atomic_trace p doc d =
     [d, dict_set (tmp_file p) NotJson d, dict_set (tmp_file p) (JsonDoc doc) d, atomic_write p doc d]"

section \<open>The temporary file is another file\<close>

lemma path_suffix_one_dot: "CHR ''.'' \<notin> set (tl (path_suffix p))"
proof -
  let ?n = "path_name p" and ?ext = "takeWhile (\<lambda>c. c \<noteq> CHR ''.'') (rev (path_name p))"
  let ?i = "length (path_name p) - length (takeWhile (\<lambda>c. c \<noteq> CHR ''.'') (rev (path_name p))) - 1"
  have "tl (drop ?i ?n) = rev ?ext" if "length ?ext < length ?n"
  proof -
    have "rev ?ext = drop (length ?n - length ?ext) ?n"
      by (rule takeWhile_rev_dropWhile)
    also have "\<dots> = tl (drop ?i ?n)" using that by (simp add: drop_Suc [symmetric] tl_drop Suc_diff_Suc)
    finally show ?thesis by simp
  qed
  moreover have "CHR ''.'' \<notin> set (rev ?ext)" by (auto dest: set_takeWhileD)
  ultimately show ?thesis by (auto simp: path_suffix_def Let_def)
qed

lemma tmp_file_neq: "tmp_file p \<noteq> p"
proof
  assume eq: "tmp_file p = p"
  obtain zs where p: "p = zs @ path_suffix p" using path_suffix_suffix [of p] by (auto elim: suffixE)
  then have "length p = length zs + length (path_suffix p)" by (metis length_append)
  moreover have "take (length zs) p = zs" using p by (metis append_eq_conv_conj)
  ultimately have "tmp_file p = zs @ ''.json.tmp''" by (simp add: tmp_file_def with_suffix_def)
  with eq p have "path_suffix p = ''.json.tmp''" by (metis same_append_eq)
  with path_suffix_one_dot [of p] show False by simp
qed

section \<open>Crash safety\<close>

text \<open>What a reader of one file may rely on, for any writer that goes through a trace of directory
  states: at every instant the file is the old one or the new one, and other files are untouched.\<close>

locale crash_safe_writer =
  fixes target :: string and tmp :: string
    and trace :: "json \<Rightarrow> json_dir \<Rightarrow> json_dir list"
    and final :: "json \<Rightarrow> json_dir \<Rightarrow> json_dir"
  assumes tmp_neq: "tmp \<noteq> target"
    and trace_target: "s \<in> set (trace doc d) \<Longrightarrow>
          dict_get s target = dict_get d target \<or> dict_get s target = Some (JsonDoc doc)"
    and trace_frame: "s \<in> set (trace doc d) \<Longrightarrow> p \<noteq> target \<Longrightarrow> p \<noteq> tmp \<Longrightarrow> dict_get s p = dict_get d p"
    and final_target: "dict_get (final doc d) target = Some (JsonDoc doc)"
    and final_in_trace: "final doc d \<in> set (trace doc d)"
begin

text \<open>A reader that only looks at the target sees one of two values.\<close>

lemma reader_sees_old_or_new:
  assumes "\<And>a b. dict_get a target = dict_get b target \<Longrightarrow> reader a = reader b"
    and "s \<in> set (trace doc d)"
  shows "reader s = reader d \<or> reader s = reader (final doc d)"
  using assms(1) trace_target [OF assms(2)] final_target by metis

end

interpretation aw: crash_safe_writer p "tmp_file p" "atomic_trace p" "atomic_write p" for p
  using tmp_file_neq [of p]
  by unfold_locales (auto simp: atomic_trace_def atomic_write_def Let_def)

lemma atomic_write_get:
  "dict_get (atomic_write p doc d) q =
     (if q = p then Some (JsonDoc doc) else if q = tmp_file p then None else dict_get d q)"
  using tmp_file_neq [of p] by (simp add: atomic_write_def Let_def)

end
