(* ===== verification/Batch_Checkpoint.thy ===== *)
theory Batch_Checkpoint
  imports Atomic_File
begin

text \<open>
  \<^verbatim>\<open>h2kvm/orchestration/manifest/checkpoint_manager.py\<close>: the checkpoint that lets an interrupted
  batch migration resume without repeating finished virtual machines.

  A manager holds its batch identifier, its checkpoint file's name and the directory. The directory
  exists; writing and unlinking succeed. \<open>stamp\<close> is the formatted time. No VM list in a checkpoint
  file is a timestamp.
\<close>

datatype ck_exc = CheckpointError | CkTypeError

record checkpoint_manager =
  cm_batch_id :: string
  checkpoint_file :: string
  checkpoint_dir :: json_dir

definition safe_char :: "char \<Rightarrow> bool" where
  "safe_char c = (c \<in> set lower_chars \<or> c \<in> set upper_chars \<or> c \<in> set digit_chars \<or>
     c \<in> {CHR ''.'', CHR ''_'', CHR ''-''})"

definition sanitize_filename :: "string \<Rightarrow> string" where
  "sanitize_filename name = take 100 (map (\<lambda>c. if safe_char c then c else CHR ''-'') name)"

definition CheckpointManager :: "json_dir \<Rightarrow> string \<Rightarrow> checkpoint_manager" where
  "CheckpointManager d batch_id = \<lparr>cm_batch_id = batch_id,
     checkpoint_file = ''checkpoint-'' @ sanitize_filename batch_id @ ''.json'', checkpoint_dir = d\<rparr>"

definition has_checkpoint :: "checkpoint_manager \<Rightarrow> bool" where
  "has_checkpoint cm = dict_has (checkpoint_dir cm) (checkpoint_file cm)"

fun has_len :: "json \<Rightarrow> bool" where
  "has_len (JList _) = True" | "has_len (JObj _) = True" | "has_len (JStr _) = True"
| "has_len (JTime _) = True" | "has_len _ = False"

text \<open>Every failure inside \<^verbatim>\<open>load_checkpoint\<close>, whatever its class, leaves as a
  CheckpointError; a batch identifier that does not match is only logged.\<close>

definition load_checkpoint :: "checkpoint_manager \<Rightarrow> ck_exc + (string \<times> json) list" where
  "load_checkpoint cm = (case dict_get (checkpoint_dir cm) (checkpoint_file cm) of
      Some (JsonDoc (JObj fs)) \<Rightarrow>
        if list_all (\<lambda>f. map_of fs f \<noteq> None) [''batch_id'', ''timestamp'', ''completed_vms''] \<and>
           has_len (json_get (JObj fs) ''completed_vms'' (JList []))
        then Inr fs else Inl CheckpointError
    | _ \<Rightarrow> Inl CheckpointError)"

definition checkpoint_doc :: "time \<Rightarrow> string \<Rightarrow> string \<Rightarrow> string list \<Rightarrow> (string \<times> json) list list \<Rightarrow> int \<Rightarrow>
    (string \<times> json) list \<Rightarrow> json" where
  "checkpoint_doc now stamp batch_id completed failed total_n meta = JObj
     [(''batch_id'', JStr batch_id), (''timestamp'', JNum now), (''timestamp_iso'', JStr stamp),
      (''completed_vms'', JList (map JStr completed)), (''failed_vms'', JList (map JObj failed)),
      (''total_vms'', JInt total_n), (''resume_from'', JInt (int (length completed + length failed))),
      (''metadata'', JObj meta)]"

definition save_checkpoint :: "time \<Rightarrow> string \<Rightarrow> string list \<Rightarrow> (string \<times> json) list list \<Rightarrow> int \<Rightarrow>
    (string \<times> json) list \<Rightarrow> checkpoint_manager \<Rightarrow> checkpoint_manager" where
  "save_checkpoint now stamp completed failed total_n meta cm =
     cm\<lparr>checkpoint_dir := atomic_write (checkpoint_file cm)
         (checkpoint_doc now stamp (cm_batch_id cm) completed failed total_n meta) (checkpoint_dir cm)\<rparr>"

fun hashable :: "json \<Rightarrow> bool" where
  "hashable (JList _) = False" | "hashable (JObj _) = False" | "hashable _ = True"

text \<open>Iterating over a parsed value: lists, the keys of objects, the characters of strings.\<close>

fun json_iter :: "json \<Rightarrow> ck_exc + json list" where
  "json_iter (JList xs) = Inr xs"
| "json_iter (JObj fs) = Inr (map (JStr \<circ> fst) fs)"
| "json_iter (JStr s) = Inr (map (\<lambda>c. JStr [c]) s)"
| "json_iter _ = Inl CkTypeError"

definition get_completed_vm_ids :: "checkpoint_manager \<Rightarrow> ck_exc + json list" where
  "get_completed_vm_ids cm =
     (if \<not> has_checkpoint cm then Inr []
      else case load_checkpoint cm of
             Inl _ \<Rightarrow> Inr []
           | Inr fs \<Rightarrow>
               (case json_iter (json_get (JObj fs) ''completed_vms'' (JList [])) of
                  Inl e \<Rightarrow> Inl e
                | Inr xs \<Rightarrow> if list_all hashable xs then Inr xs else Inl CkTypeError))"

text \<open>\<^verbatim>\<open>{vm.get("vm_id") for vm in failed if "vm_id" in vm}\<close>\<close>

fun failed_ids :: "json list \<Rightarrow> ck_exc + json list" where
  "failed_ids [] = Inr []"
| "failed_ids (JObj fs # vs) =
     (case failed_ids vs of
        Inl e \<Rightarrow> Inl e
      | Inr ids \<Rightarrow>
          (case map_of fs ''vm_id'' of
             None \<Rightarrow> Inr ids
           | Some v \<Rightarrow> if hashable v then Inr (v # ids) else Inl CkTypeError))"
| "failed_ids (JList xs # vs) =
     (if JStr ''vm_id'' \<in> set xs then Inl CkTypeError else failed_ids vs)"
| "failed_ids (JStr s # vs) = (if contains ''vm_id'' s then Inl CkTypeError else failed_ids vs)"
| "failed_ids (_ # vs) = Inl CkTypeError"

definition get_failed_vm_ids :: "checkpoint_manager \<Rightarrow> ck_exc + json list" where
  "get_failed_vm_ids cm =
     (if \<not> has_checkpoint cm then Inr []
      else case load_checkpoint cm of
             Inl _ \<Rightarrow> Inr []
           | Inr fs \<Rightarrow>
               (case json_iter (json_get (JObj fs) ''failed_vms'' (JList [])) of
                  Inl e \<Rightarrow> Inl e
                | Inr xs \<Rightarrow> failed_ids xs))"

definition should_skip_vm :: "checkpoint_manager \<Rightarrow> string \<Rightarrow> ck_exc + bool" where
  "should_skip_vm cm vm =
     (case get_completed_vm_ids cm of
        Inl e \<Rightarrow> Inl e
      | Inr completed \<Rightarrow>
          (case get_failed_vm_ids cm of
             Inl e \<Rightarrow> Inl e
           | Inr failed \<Rightarrow> Inr (JStr vm \<in> set completed \<or> JStr vm \<in> set failed)))"

definition cm_cleanup :: "checkpoint_manager \<Rightarrow> checkpoint_manager" where
  "cm_cleanup cm = (if has_checkpoint cm
     then cm\<lparr>checkpoint_dir := dict_pop (checkpoint_file cm) (checkpoint_dir cm)\<rparr> else cm)"

definition cm_reset :: "checkpoint_manager \<Rightarrow> checkpoint_manager" where
  "cm_reset cm = cm_cleanup cm"

fun json_len :: "json \<Rightarrow> ck_exc + nat" where
  "json_len (JList xs) = Inr (length xs)"
| "json_len (JObj fs) = Inr (length fs)"
| "json_len (JStr s) = Inr (length s)"
| "json_len _ = Inl CkTypeError"

definition get_progress_percentage :: "checkpoint_manager \<Rightarrow> ck_exc + real" where
  "get_progress_percentage cm =
     (if \<not> has_checkpoint cm then Inr 0
      else case load_checkpoint cm of
             Inl _ \<Rightarrow> Inr 0
           | Inr fs \<Rightarrow>
               (case json_get (JObj fs) ''total_vms'' (JInt 0) of
                  JInt total_n \<Rightarrow>
                    if total_n = 0 then Inr 0
                    else (case (json_len (json_get (JObj fs) ''completed_vms'' (JList [])),
                                json_len (json_get (JObj fs) ''failed_vms'' (JList []))) of
                            (Inr c, Inr f) \<Rightarrow> Inr (real (c + f) / of_int total_n * 100)
                          | _ \<Rightarrow> Inl CkTypeError)
                | JNum x \<Rightarrow>
                    if x = 0 then Inr 0
                    else (case (json_len (json_get (JObj fs) ''completed_vms'' (JList [])),
                                json_len (json_get (JObj fs) ''failed_vms'' (JList []))) of
                            (Inr c, Inr f) \<Rightarrow> Inr (real (c + f) / x * 100)
                          | _ \<Rightarrow> Inl CkTypeError)
                | _ \<Rightarrow> Inl CkTypeError))"

section \<open>Resuming\<close>

text \<open>The identifiers that a list of failure reports names.\<close>

definition reported_ids :: "(string \<times> json) list list \<Rightarrow> json list" where
  "reported_ids failed = concat (map (\<lambda>f. case map_of f ''vm_id'' of None \<Rightarrow> [] | Some v \<Rightarrow> [v]) failed)"

definition reports_ok :: "(string \<times> json) list list \<Rightarrow> bool" where
  "reports_ok failed = list_all hashable (reported_ids failed)"

lemma failed_ids_reported: "reports_ok failed \<Longrightarrow> failed_ids (map JObj failed) = Inr (reported_ids failed)"
  by (induction failed) (auto simp: reports_ok_def reported_ids_def split: option.splits)

lemma load_saved:
  assumes "dict_get (checkpoint_dir cm) (checkpoint_file cm) =
      Some (JsonDoc (checkpoint_doc now st b completed failed n meta))"
  shows "get_completed_vm_ids cm = Inr (map JStr completed)"
    and "reports_ok failed \<Longrightarrow> get_failed_vm_ids cm = Inr (reported_ids failed)"
    and "0 < n \<Longrightarrow> get_progress_percentage cm = Inr (real (length completed + length failed) / of_int n * 100)"
  using assms
  by (auto simp: get_completed_vm_ids_def get_failed_vm_ids_def get_progress_percentage_def has_checkpoint_def
      dict_has_def load_checkpoint_def checkpoint_doc_def failed_ids_reported list_all_iff)

text \<open>
  A batch resumes where it stopped: after a checkpoint was saved, a manager that a
  later process opens for the same batch skips exactly the machines that were reported as completed
  or failed, and computes the share of the batch that they are.
\<close>
theorem resume_skips_exactly_finished_vms:
  assumes "reports_ok failed" and "0 < n"
    and "cm = save_checkpoint now stamp completed failed n meta (CheckpointManager d b)"
    and "cm' = CheckpointManager (checkpoint_dir cm) b"
  shows "should_skip_vm cm' vm = Inr (vm \<in> set completed \<or> JStr vm \<in> set (reported_ids failed)) \<and>
    get_progress_percentage cm' = Inr (real (length completed + length failed) / of_int n * 100)"
proof -
  have "dict_get (checkpoint_dir cm') (checkpoint_file cm') =
      Some (JsonDoc (checkpoint_doc now stamp b completed failed n meta))"
    by (simp add: assms(3,4) save_checkpoint_def CheckpointManager_def atomic_write_get)
  note l = load_saved [OF this]
  from l(1) l(2) [OF assms(1)] l(3) [OF assms(2)] show ?thesis
    by (auto simp: should_skip_vm_def)
qed

theorem resume_skips_exactly_finished_vms_witness:
  "should_skip_vm (CheckpointManager (checkpoint_dir
      (save_checkpoint 7 ''t'' [''vm1''] [[(''vm_id'', JStr ''vm2'')]] 3 [] (CheckpointManager [] ''b/1''))) ''b/1'') ''vm3''
     = Inr False"
  using resume_skips_exactly_finished_vms [of "[[(''vm_id'', JStr ''vm2'')]]" 3 _ 7 "''t''" "[''vm1'']" "[]" "[]" "''b/1''" _ "''vm3''"]
  by (simp add: reports_ok_def reported_ids_def)

lemma skip_depends_on_file:
  assumes "dict_get a (checkpoint_file (CheckpointManager d b)) = dict_get a' (checkpoint_file (CheckpointManager d b))"
  shows "should_skip_vm (CheckpointManager a b) vm = should_skip_vm (CheckpointManager a' b) vm"
proof -
  let ?m = "CheckpointManager a b" and ?m' = "CheckpointManager a' b"
  have g: "dict_get (checkpoint_dir ?m) (checkpoint_file ?m) = dict_get (checkpoint_dir ?m') (checkpoint_file ?m')"
    using assms by (simp add: CheckpointManager_def)
  have "has_checkpoint ?m = has_checkpoint ?m'" "load_checkpoint ?m = load_checkpoint ?m'"
    unfolding has_checkpoint_def load_checkpoint_def dict_has_def g by (rule refl)+
  then have ids: "get_completed_vm_ids ?m = get_completed_vm_ids ?m'" "get_failed_vm_ids ?m = get_failed_vm_ids ?m'"
    unfolding get_completed_vm_ids_def get_failed_vm_ids_def by simp_all
  show ?thesis unfolding should_skip_vm_def ids by (rule refl)
qed



text \<open>After a cleanup or a reset nothing is skipped.\<close>

lemma reset_skips_nothing: "should_skip_vm (cm_reset cm) vm = Inr False"
  by (auto simp: cm_reset_def cm_cleanup_def should_skip_vm_def get_completed_vm_ids_def get_failed_vm_ids_def
      has_checkpoint_def)

text \<open>
  Batches whose identifiers differ only in characters that are not allowed in file names share one
  checkpoint file: a batch skips the machines that another one finished, since the identifier in the
  file is compared for a log message only.
\<close>

lemma colliding_batches_share_checkpoint:
  assumes "sanitize_filename a = sanitize_filename b" "reports_ok failed"
    and "cm = save_checkpoint now stamp completed failed n meta (CheckpointManager d a)"
    and "vm \<in> set completed"
  shows "should_skip_vm (CheckpointManager (checkpoint_dir cm) b) vm = Inr True"
proof -
  let ?c = "CheckpointManager (checkpoint_dir cm) b"
  have "dict_get (checkpoint_dir ?c) (checkpoint_file ?c) =
      Some (JsonDoc (checkpoint_doc now stamp a completed failed n meta))"
    using assms(1) by (simp add: assms(3) save_checkpoint_def CheckpointManager_def atomic_write_get)
  from load_saved(1,2) [OF this] assms(2,4) show ?thesis by (simp add: should_skip_vm_def)
qed

end
