(* ===== verification/Batch_Progress.thy ===== *)
theory Batch_Progress
  imports Atomic_File
begin

text \<open>
  \<^verbatim>\<open>h2kvm/orchestration/manifest/batch_progress.py\<close>: the progress of a batch per virtual
  machine, its statistics, and the progress file that monitoring tools read.

  Every method holds the tracker's lock and reads the clock once, at \<open>now\<close>. In a file that is read,
  the fields have the types the writer gives them; other documents count as unreadable. Writing
  succeeds.
\<close>

section \<open>Progress of one machine\<close>

datatype vm_status = VM_PENDING | VM_IN_PROGRESS | VM_COMPLETED | VM_FAILED | VM_SKIPPED

fun vm_status_value :: "vm_status \<Rightarrow> string" where
  "vm_status_value VM_PENDING = ''pending''"
| "vm_status_value VM_IN_PROGRESS = ''in_progress''"
| "vm_status_value VM_COMPLETED = ''completed''"
| "vm_status_value VM_FAILED = ''failed''"
| "vm_status_value VM_SKIPPED = ''skipped''"

definition all_vm_status :: "vm_status list" where
  "all_vm_status = [VM_PENDING, VM_IN_PROGRESS, VM_COMPLETED, VM_FAILED, VM_SKIPPED]"

definition VMStatus :: "json \<Rightarrow> py_exc + vm_status" where
  "VMStatus v = (case find (\<lambda>s. v = JStr (vm_status_value s)) all_vm_status of
      None \<Rightarrow> Inl (ValueError ''not a valid VMStatus'') | Some s \<Rightarrow> Inr s)"

lemma VMStatus_value [simp]: "VMStatus (JStr (vm_status_value s)) = Inr s"
  by (cases s) (simp_all add: VMStatus_def all_vm_status_def)

record vm_progress =
  vp_vm_id :: string
  vp_status :: vm_status
  vp_started_at :: "time option"
  vp_completed_at :: "time option"
  vp_duration :: real
  vp_error :: "string option"
  vp_current_stage :: "string option"
  stages_completed :: "string list"

definition opt_num :: "real option \<Rightarrow> json" where
  "opt_num v = (case v of None \<Rightarrow> JNull | Some x \<Rightarrow> JNum x)"

definition opt_text :: "string option \<Rightarrow> json" where
  "opt_text v = (case v of None \<Rightarrow> JNull | Some x \<Rightarrow> JStr x)"

fun as_opt_num :: "json \<Rightarrow> py_exc + real option" where
  "as_opt_num JNull = Inr None" | "as_opt_num (JNum x) = Inr (Some x)"
| "as_opt_num _ = Inl (TypeError ''float'')"

fun as_opt_text :: "json \<Rightarrow> py_exc + string option" where
  "as_opt_text JNull = Inr None" | "as_opt_text (JStr x) = Inr (Some x)"
| "as_opt_text _ = Inl (TypeError ''str'')"

fun as_texts :: "json list \<Rightarrow> py_exc + string list" where
  "as_texts [] = Inr []"
| "as_texts (JStr s # xs) = (case as_texts xs of Inl e \<Rightarrow> Inl e | Inr ss \<Rightarrow> Inr (s # ss))"
| "as_texts (_ # xs) = Inl (TypeError ''str'')"

definition vp_to_dict :: "vm_progress \<Rightarrow> json" where
  "vp_to_dict v = JObj [(''vm_id'', JStr (vp_vm_id v)), (''status'', JStr (vm_status_value (vp_status v))),
     (''started_at'', opt_num (vp_started_at v)), (''completed_at'', opt_num (vp_completed_at v)),
     (''duration'', JNum (vp_duration v)), (''error'', opt_text (vp_error v)),
     (''current_stage'', opt_text (vp_current_stage v)),
     (''stages_completed'', JList (map JStr (stages_completed v)))]"

definition vp_from_dict :: "json \<Rightarrow> py_exc + vm_progress" where
  "vp_from_dict d =
     (case (json_item d ''vm_id'', json_item d ''status'') of
        (Inr (JStr i), Inr st) \<Rightarrow>
          (case (VMStatus st, as_opt_num (json_get d ''started_at'' JNull),
                 as_opt_num (json_get d ''completed_at'' JNull), json_get d ''duration'' (JNum 0),
                 as_opt_text (json_get d ''error'' JNull), as_opt_text (json_get d ''current_stage'' JNull),
                 json_get d ''stages_completed'' (JList [])) of
             (Inr s, Inr sa, Inr ca, JNum du, Inr er, Inr cs, JList ss) \<Rightarrow>
               (case as_texts ss of
                  Inl e \<Rightarrow> Inl e
                | Inr sc \<Rightarrow>
                    Inr \<lparr>vp_vm_id = i, vp_status = s, vp_started_at = sa, vp_completed_at = ca,
                         vp_duration = du, vp_error = er, vp_current_stage = cs, stages_completed = sc\<rparr>)
           | _ \<Rightarrow> Inl (ValueError ''vm''))
      | _ \<Rightarrow> Inl (KeyError ''vm''))"

section \<open>Progress of the batch\<close>

record batch_progress =
  bp_batch_id :: string
  bp_total_vms :: int
  bp_started_at :: time
  bp_updated_at :: time
  bp_completed_at :: "time option"
  bp_vms :: "(string, vm_progress) dict"

definition count_status :: "vm_status \<Rightarrow> batch_progress \<Rightarrow> int" where
  "count_status s bp = int (length (filter (\<lambda>v. vp_status v = s) (dict_values (bp_vms bp))))"

definition get_counts :: "batch_progress \<Rightarrow> (string, int) dict" where
  "get_counts bp = map (\<lambda>s. (vm_status_value s, count_status s bp)) all_vm_status"

definition get_completion_percentage :: "batch_progress \<Rightarrow> real" where
  "get_completion_percentage bp =
     (if bp_total_vms bp = 0 then 0
      else of_int (count_status VM_COMPLETED bp + count_status VM_FAILED bp) / of_int (bp_total_vms bp) * 100)"

definition get_estimated_time_remaining :: "batch_progress \<Rightarrow> real option" where
  "get_estimated_time_remaining bp =
     (let done = count_status VM_COMPLETED bp
      in if done = 0 then None
         else (let total_duration = sum_list (map vp_duration
                     (filter (\<lambda>v. vp_status v = VM_COMPLETED) (dict_values (bp_vms bp))));
                   avg = total_duration / of_int done;
                   remaining = bp_total_vms bp - done - count_status VM_FAILED bp
               in Some (avg * of_int remaining)))"

definition bp_to_dict :: "batch_progress \<Rightarrow> json" where
  "bp_to_dict bp = JObj [(''batch_id'', JStr (bp_batch_id bp)), (''total_vms'', JInt (bp_total_vms bp)),
     (''started_at'', JNum (bp_started_at bp)), (''updated_at'', JNum (bp_updated_at bp)),
     (''completed_at'', opt_num (bp_completed_at bp)),
     (''counts'', JObj (map (\<lambda>(k, n). (k, JInt n)) (get_counts bp))),
     (''completion_percentage'', JNum (get_completion_percentage bp)),
     (''estimated_time_remaining'', opt_num (get_estimated_time_remaining bp)),
     (''vms'', JObj (map (\<lambda>(k, v). (k, vp_to_dict v)) (bp_vms bp)))]"

fun vms_from_dict :: "(string \<times> json) list \<Rightarrow> py_exc + (string, vm_progress) dict" where
  "vms_from_dict [] = Inr []"
| "vms_from_dict ((k, d) # xs) =
     (case vp_from_dict d of
        Inl e \<Rightarrow> Inl e
      | Inr v \<Rightarrow> (case vms_from_dict xs of Inl e \<Rightarrow> Inl e | Inr vs \<Rightarrow> Inr ((k, v) # vs)))"

definition bp_from_dict :: "json \<Rightarrow> py_exc + batch_progress" where
  "bp_from_dict d =
     (case json_get d ''vms'' (JObj []) of
        JObj vs \<Rightarrow>
          (case vms_from_dict vs of
             Inl e \<Rightarrow> Inl e
           | Inr vms \<Rightarrow>
               (case (json_item d ''batch_id'', json_item d ''total_vms'', json_item d ''started_at'',
                      json_item d ''updated_at'', as_opt_num (json_get d ''completed_at'' JNull)) of
                  (Inr (JStr b), Inr (JInt n), Inr (JNum s), Inr (JNum u), Inr c) \<Rightarrow>
                    Inr \<lparr>bp_batch_id = b, bp_total_vms = n, bp_started_at = s, bp_updated_at = u,
                         bp_completed_at = c, bp_vms = vms\<rparr>
                | _ \<Rightarrow> Inl (KeyError ''batch'')))
      | _ \<Rightarrow> Inl (AttributeError ''items''))"

section \<open>The tracker\<close>

record progress_tracker =
  progress_file :: string
  progress :: batch_progress
  pt_dir :: json_dir

definition write_progress :: "progress_tracker \<Rightarrow> progress_tracker" where
  "write_progress t = t\<lparr>pt_dir := atomic_write (progress_file t) (bp_to_dict (progress t)) (pt_dir t)\<rparr>"

definition ProgressTracker :: "time \<Rightarrow> string \<Rightarrow> string \<Rightarrow> int \<Rightarrow> json_dir \<Rightarrow> progress_tracker" where
  "ProgressTracker now f b n d = write_progress \<lparr>progress_file = f,
     progress = \<lparr>bp_batch_id = b, bp_total_vms = n, bp_started_at = now, bp_updated_at = now,
                 bp_completed_at = None, bp_vms = []\<rparr>,
     pt_dir = d\<rparr>"

definition new_vm :: "string \<Rightarrow> vm_status \<Rightarrow> time option \<Rightarrow> string option \<Rightarrow> vm_progress" where
  "new_vm i s t e = \<lparr>vp_vm_id = i, vp_status = s, vp_started_at = t, vp_completed_at = None,
     vp_duration = 0, vp_error = e, vp_current_stage = None, stages_completed = []\<rparr>"

definition put_vm :: "time \<Rightarrow> string \<Rightarrow> vm_progress \<Rightarrow> progress_tracker \<Rightarrow> progress_tracker" where
  "put_vm now i v t = write_progress (t\<lparr>progress := (progress t)\<lparr>
     bp_vms := dict_set i v (bp_vms (progress t)), bp_updated_at := now\<rparr>\<rparr>)"

definition start_vm :: "time \<Rightarrow> string \<Rightarrow> progress_tracker \<Rightarrow> progress_tracker" where
  "start_vm now i t = put_vm now i (new_vm i VM_IN_PROGRESS (Some now) None) t"

definition update_vm_stage :: "time \<Rightarrow> string \<Rightarrow> string \<Rightarrow> progress_tracker \<Rightarrow> progress_tracker" where
  "update_vm_stage now i stage t = (case dict_get (bp_vms (progress t)) i of
      None \<Rightarrow> t
    | Some v \<Rightarrow> put_vm now i (v\<lparr>vp_current_stage := Some stage,
        stages_completed := (if stage \<in> set (stages_completed v) then stages_completed v
                             else stages_completed v @ [stage])\<rparr>) t)"

definition complete_vm :: "time \<Rightarrow> string \<Rightarrow> bool \<Rightarrow> string option \<Rightarrow> progress_tracker \<Rightarrow> progress_tracker" where
  "complete_vm now i success err t = (case dict_get (bp_vms (progress t)) i of
      None \<Rightarrow> t
    | Some v \<Rightarrow> put_vm now i (v\<lparr>vp_status := (if success then VM_COMPLETED else VM_FAILED),
        vp_completed_at := Some now, vp_error := err,
        vp_duration := (case vp_started_at v of
            Some s \<Rightarrow> if s \<noteq> 0 then now - s else vp_duration v
          | None \<Rightarrow> vp_duration v)\<rparr>) t)"

definition skip_vm :: "time \<Rightarrow> string \<Rightarrow> string \<Rightarrow> progress_tracker \<Rightarrow> progress_tracker" where
  "skip_vm now i reason t = put_vm now i (new_vm i VM_SKIPPED None (Some reason)) t"

definition complete_batch :: "time \<Rightarrow> progress_tracker \<Rightarrow> progress_tracker" where
  "complete_batch now t = write_progress (t\<lparr>progress := (progress t)\<lparr>
     bp_completed_at := Some now, bp_updated_at := now\<rparr>\<rparr>)"

definition load_progress :: "string \<Rightarrow> json_dir \<Rightarrow> batch_progress option" where
  "load_progress f d = (case dict_get d f of
      Some (JsonDoc doc) \<Rightarrow> (case bp_from_dict doc of Inl _ \<Rightarrow> None | Inr bp \<Rightarrow> Some bp)
    | _ \<Rightarrow> None)"

definition pt_cleanup :: "progress_tracker \<Rightarrow> progress_tracker" where
  "pt_cleanup t = (if dict_has (pt_dir t) (progress_file t)
     then t\<lparr>pt_dir := dict_pop (progress_file t) (pt_dir t)\<rparr> else t)"

section \<open>The progress file\<close>

lemma as_texts_map [simp]: "as_texts (map JStr ss) = Inr ss"
  by (induction ss) simp_all

lemma vp_from_to_dict [simp]: "vp_from_dict (vp_to_dict v) = Inr v"
  by (simp add: vp_from_dict_def vp_to_dict_def opt_num_def opt_text_def split: option.splits)

lemma vms_from_to [simp]: "vms_from_dict (map (\<lambda>(k, v). (k, vp_to_dict v)) vs) = Inr vs"
  by (induction vs) auto

lemma bp_from_to_dict [simp]: "bp_from_dict (bp_to_dict bp) = Inr bp"
  by (simp add: bp_from_dict_def bp_to_dict_def opt_num_def split: option.splits)

datatype progress_op =
    StartVm string | UpdateStage string string | CompleteVm string bool "string option"
  | SkipVm string string | CompleteBatch

fun progress_step :: "time \<times> progress_op \<Rightarrow> progress_tracker \<Rightarrow> progress_tracker" where
  "progress_step (now, StartVm i) t = start_vm now i t"
| "progress_step (now, UpdateStage i s) t = update_vm_stage now i s t"
| "progress_step (now, CompleteVm i ok e) t = complete_vm now i ok e t"
| "progress_step (now, SkipVm i r) t = skip_vm now i r t"
| "progress_step (now, CompleteBatch) t = complete_batch now t"

lemmas step_defs = start_vm_def update_vm_stage_def complete_vm_def skip_vm_def complete_batch_def put_vm_def

lemma progress_step_write:
  "progress_step x t = t \<or>
   progress_step x t = t\<lparr>progress := progress (progress_step x t),
     pt_dir := atomic_write (progress_file t) (bp_to_dict (progress (progress_step x t))) (pt_dir t)\<rparr>"
proof -
  obtain now op where x: "x = (now, op)" by (cases x)
  show ?thesis unfolding x by (cases op) (auto simp: step_defs write_progress_def split: option.splits)
qed

definition file_current :: "progress_tracker \<Rightarrow> bool" where
  "file_current t = (dict_get (pt_dir t) (progress_file t) = Some (JsonDoc (bp_to_dict (progress t))))"

lemma file_current_step: "file_current t \<Longrightarrow> file_current (progress_step x t) \<and> progress_file (progress_step x t) = progress_file t"
proof -
  assume cur: "file_current t"
  show ?thesis
  proof (cases "progress_step x t = t")
    case True
    with cur show ?thesis by simp
  next
    case False
    obtain p where p: "progress_step x t = t\<lparr>progress := p, pt_dir := atomic_write (progress_file t) (bp_to_dict p) (pt_dir t)\<rparr>"
      using progress_step_write [of x t] False by metis
    then show ?thesis by (simp add: file_current_def atomic_write_get)
  qed
qed

lemma file_current_init: "file_current (ProgressTracker now f b n d)"
  by (simp add: file_current_def ProgressTracker_def write_progress_def atomic_write_get)

lemma file_current_run:
  "file_current (fold progress_step ops (ProgressTracker now f b n d)) \<and>
   progress_file (fold progress_step ops (ProgressTracker now f b n d)) = f"
proof (induction ops rule: rev_induct)
  case Nil
  show ?case by (simp add: file_current_init) (simp add: ProgressTracker_def write_progress_def)
next
  case (snoc x ops)
  then show ?case using file_current_step by simp
qed

lemma load_depends_on_file: "dict_get a f = dict_get b f \<Longrightarrow> load_progress f a = load_progress f b"
  by (simp add: load_progress_def)

text \<open>
  A monitor that reads the progress file sees true progress at every instant: after any
  sequence of updates, and in whatever state the directory is in the middle of the next one, the file
  parses to exactly the progress before that update or the progress after it.
\<close>
theorem monitor_reads_true_progress:
  assumes "t = fold progress_step ops (ProgressTracker now f b n d)"
    and "t' = progress_step x t"
    and "seen \<in> set (atomic_trace f (bp_to_dict (progress t')) (pt_dir t))"
  shows "load_progress f seen = Some (progress t) \<or> load_progress f seen = Some (progress t')"
proof -
  have cur: "file_current t" "progress_file t = f" using file_current_run assms(1) by auto
  have old: "load_progress f (pt_dir t) = Some (progress t)"
    using cur by (simp add: load_progress_def file_current_def)
  have new: "load_progress f (atomic_write f (bp_to_dict (progress t')) (pt_dir t)) = Some (progress t')"
    by (simp add: load_progress_def atomic_write_get)
  from aw.reader_sees_old_or_new [where reader = "load_progress f", OF load_depends_on_file assms(3)] old new show ?thesis by auto
qed

theorem monitor_reads_true_progress_witness:
  "load_progress ''p.json'' (pt_dir (ProgressTracker 1 ''p.json'' ''b'' 2 [])) =
     Some (progress (ProgressTracker 1 ''p.json'' ''b'' 2 []))"
proof -
  let ?t = "ProgressTracker 1 ''p.json'' ''b'' 2 []"
  have "pt_dir ?t \<in> set (atomic_trace ''p.json'' (bp_to_dict (progress (progress_step (2, UpdateStage ''z'' ''s'') ?t))) (pt_dir ?t))"
    by (simp add: atomic_trace_def)
  from monitor_reads_true_progress [OF _ refl this, of "[]" 1 "''b''" 2 "[]"]
  have "load_progress ''p.json'' (pt_dir ?t) = Some (progress ?t) \<or>
    load_progress ''p.json'' (pt_dir ?t) = Some (progress (progress_step (2, UpdateStage ''z'' ''s'') ?t))" by simp
  moreover have "progress_step (2, UpdateStage ''z'' ''s'') ?t = ?t"
    by (simp add: update_vm_stage_def ProgressTracker_def write_progress_def)
  ultimately show ?thesis by simp
qed

section \<open>Statistics\<close>

lemma count_status_sum:
  "sum_list (map (\<lambda>s. count_status s bp) all_vm_status) = int (length (bp_vms bp))"
proof -
  have "(\<Sum>s\<leftarrow>all_vm_status. int (length (filter (\<lambda>v. vp_status v = s) vs))) = int (length vs)" for vs :: "vm_progress list"
  proof (induction vs)
    case (Cons v vs)
    then show ?case by (cases "vp_status v") (simp_all add: all_vm_status_def)
  qed (simp add: all_vm_status_def)
  from this [of "dict_values (bp_vms bp)"] show ?thesis by (simp add: count_status_def dict_values_def)
qed

lemma count_status_nonneg: "0 \<le> count_status s bp"
  by (simp add: count_status_def)

text \<open>
  The counts by status add up to the number of machines that were started or skipped.
  As long as these are no more than the batch has, the completion percentage lies between 0 and 100,
  and it is 100 exactly when every machine of the batch has been completed or has failed; a skipped
  machine does not count as done.
\<close>
theorem completion_percentage_bounds:
  assumes "0 < bp_total_vms bp" and "int (length (bp_vms bp)) \<le> bp_total_vms bp"
  shows "sum_list (map snd (get_counts bp)) = int (length (bp_vms bp)) \<and>
    0 \<le> get_completion_percentage bp \<and> get_completion_percentage bp \<le> 100 \<and>
    (get_completion_percentage bp = 100 \<longleftrightarrow>
       count_status VM_COMPLETED bp + count_status VM_FAILED bp = bp_total_vms bp)"
proof -
  let ?d = "count_status VM_COMPLETED bp + count_status VM_FAILED bp"
  have sum: "sum_list (map snd (get_counts bp)) = int (length (bp_vms bp))"
    using count_status_sum [of bp] by (simp add: get_counts_def o_def)
  have "?d \<le> int (length (bp_vms bp))"
    using count_status_sum [of bp] count_status_nonneg [of VM_PENDING bp] count_status_nonneg [of VM_IN_PROGRESS bp]
      count_status_nonneg [of VM_SKIPPED bp] by (simp add: all_vm_status_def)
  then have d: "0 \<le> ?d" "?d \<le> bp_total_vms bp"
    using assms(2) count_status_nonneg [of VM_COMPLETED bp] count_status_nonneg [of VM_FAILED bp] by linarith+
  have pos: "(0::real) < of_int (bp_total_vms bp)" using assms(1) by simp
  define q :: real where "q = of_int ?d / of_int (bp_total_vms bp)"
  have pct: "get_completion_percentage bp = q * 100"
    using assms(1) by (simp add: get_completion_percentage_def q_def)
  have "of_int ?d \<le> (of_int (bp_total_vms bp) :: real)" using d(2) by (simp only: of_int_le_iff)
  then have "q \<le> 1" using pos by (simp add: q_def divide_le_eq_1_pos)
  moreover have "0 \<le> q" unfolding q_def using d(1) pos by (intro divide_nonneg_pos) simp_all
  moreover have "q = 1 \<longleftrightarrow> of_int ?d = (of_int (bp_total_vms bp) :: real)"
    using pos by (simp add: q_def divide_eq_eq del: of_int_add)
  moreover have "of_int ?d = (of_int (bp_total_vms bp) :: real) \<longleftrightarrow> ?d = bp_total_vms bp"
    by (simp only: of_int_eq_iff)
  ultimately show ?thesis unfolding pct using sum by auto
qed

theorem completion_percentage_bounds_witness:
  "get_completion_percentage (progress (complete_vm 3 ''a'' True None (start_vm 2 ''a''
     (ProgressTracker 1 ''p.json'' ''b'' 1 [])))) \<le> 100"
proof -
  let ?bp = "progress (complete_vm 3 ''a'' True None (start_vm 2 ''a'' (ProgressTracker 1 ''p.json'' ''b'' 1 [])))"
  have "0 < bp_total_vms ?bp" "int (length (bp_vms ?bp)) \<le> bp_total_vms ?bp"
    by (simp_all add: complete_vm_def start_vm_def put_vm_def write_progress_def ProgressTracker_def)
  from completion_percentage_bounds [OF this] show ?thesis by blast
qed

end
