(* ===== verification/Config_Merge.thy ===== *)
theory Config_Merge
  imports H2K_Prelude
begin

text \<open>
  The contract of deep merging, which the configuration loader, the profiles and the batch overrides
  rely on: a merge is determined by what it finds under each key. A client reads a configuration along
  paths of keys, and the locale shows what it finds there.
\<close>

type_synonym items = "(string \<times> json) list"

section \<open>Reading along a path\<close>

text \<open>The value at the end of a path of keys. \<open>leaf\<close>: the overlay decides the value there;
  \<open>untouched\<close>: it says nothing about the path.\<close>

fun json_path :: "json \<Rightarrow> string list \<Rightarrow> json option" where
  "json_path v [] = Some v"
| "json_path (JObj fs) (k # ks) = (case map_of fs k of None \<Rightarrow> None | Some v \<Rightarrow> json_path v ks)"
| "json_path _ (k # ks) = None"

fun json_wf :: "json \<Rightarrow> bool" where
  "json_wf (JObj fs) = (dict_ok fs \<and> list_all (\<lambda>(k, v). json_wf v) fs)"
| "json_wf (JList xs) = list_all json_wf xs"
| "json_wf _ = True"

definition leaf :: "items \<Rightarrow> string list \<Rightarrow> json \<Rightarrow> bool" where
  "leaf overlay ks v = (json_path (JObj overlay) ks = Some v \<and> as_dict v = None)"

fun untouched :: "items \<Rightarrow> string list \<Rightarrow> bool" where
  "untouched overlay [] = False"
| "untouched overlay (k # ks) = (case map_of overlay k of
      None \<Rightarrow> True | Some (JObj fs) \<Rightarrow> untouched fs ks | Some _ \<Rightarrow> False)"

lemma untouched_Nil [simp]: "untouched [] ks \<longleftrightarrow> ks \<noteq> []"
  by (cases ks) auto

lemma leaf_Nil [simp]: "\<not> leaf [] ks v"
  by (cases ks) (auto simp: leaf_def)

lemma json_wf_get: "json_wf (JObj fs) \<Longrightarrow> map_of fs k = Some v \<Longrightarrow> json_wf v"
  by (auto simp: list_all_iff dest: map_of_SomeD)

lemma untouched_path: "untouched fs ks \<Longrightarrow> json_path (JObj fs) ks = None"
proof (induction fs ks rule: untouched.induct)
  case (2 fs k ks)
  then show ?case by (auto split: option.splits json.splits)
qed simp

lemma json_path_no_dict: "as_dict b = None \<Longrightarrow> ks \<noteq> [] \<Longrightarrow> json_path b ks = None"
  by (cases b; cases ks) auto

lemma json_wf_set: "json_wf (JObj fs) \<Longrightarrow> json_wf v \<Longrightarrow> json_wf (JObj (dict_set k v fs))"
proof (induction fs)
  case (Cons kv fs)
  then show ?case by (cases kv) (auto simp: dict_ok_def update_keys)
qed (simp add: dict_ok_def)

lemma json_wf_pop: "json_wf (JObj fs) \<Longrightarrow> json_wf (JObj (dict_pop k fs))"
  by (auto simp: list_all_iff dict_ok_def AList.delete_eq intro: distinct_map_filter)

section \<open>The contract of a deep merge\<close>

text \<open>The value under a key that the overlay has. What happens to two lists depends on the merge.\<close>

definition merged_value :: "(json list \<Rightarrow> json list \<Rightarrow> json list) \<Rightarrow> (items \<Rightarrow> items \<Rightarrow> items) \<Rightarrow> json option \<Rightarrow> json \<Rightarrow> json" where
  "merged_value join merge b v = (case (b, v) of
      (Some (JObj x), JObj y) \<Rightarrow> JObj (merge x y)
    | (Some (JList x), JList y) \<Rightarrow> JList (join x y)
    | _ \<Rightarrow> v)"

definition joined :: "(json list \<Rightarrow> json list \<Rightarrow> json list) \<Rightarrow> json option \<Rightarrow> json \<Rightarrow> json" where
  "joined join b v = (case (b, v) of (Some (JList x), JList y) \<Rightarrow> JList (join x y) | _ \<Rightarrow> v)"

locale merging =
  fixes merge :: "items \<Rightarrow> items \<Rightarrow> items"
    and join :: "json list \<Rightarrow> json list \<Rightarrow> json list"
  assumes merge_lookup: "dict_ok overlay \<Longrightarrow>
      map_of (merge base overlay) k = (case map_of overlay k of None \<Rightarrow> map_of base k
        | Some v \<Rightarrow> Some (merged_value join merge (map_of base k) v))"
begin

lemma merge_leaf_joined:
  assumes "json_wf (JObj overlay)" "leaf overlay ks v"
  shows "json_path (JObj (merge base overlay)) ks = Some (joined join (json_path (JObj base) ks) v)"
  using assms
proof (induction ks arbitrary: base overlay)
  case (Cons k ks)
  from Cons.prems obtain w where w: "map_of overlay k = Some w" "json_path w ks = Some v" "as_dict v = None"
    by (auto simp: leaf_def split: option.splits)
  have ok: "dict_ok overlay" "json_wf w" using Cons.prems json_wf_get w(1) by auto
  show ?case
  proof (cases w)
    case (JObj ov)
    have leaf: "leaf ov ks v" and ne: "ks \<noteq> []" using w JObj by (auto simp: leaf_def)
    from Cons.IH [OF _ leaf] ok(2) JObj w ne show ?thesis
      by (cases "map_of base k")
        (auto simp: merge_lookup [OF ok(1)] merged_value_def joined_def json_path_no_dict split: json.splits)
  next
    case (JList xs)
    with w have "ks = []" by (cases ks) auto
    with w JList show ?thesis
      by (auto simp: merge_lookup [OF ok(1)] merged_value_def joined_def split: option.splits json.splits)
  qed (use w in \<open>cases ks; auto simp: merge_lookup [OF ok(1)] merged_value_def joined_def split: option.splits json.splits\<close>)+
qed (auto simp: leaf_def)

lemma merge_untouched:
  assumes "json_wf (JObj overlay)" "untouched overlay ks"
  shows "json_path (JObj (merge base overlay)) ks = json_path (JObj base) ks"
  using assms
proof (induction ks arbitrary: base overlay)
  case (Cons k ks)
  have ok: "dict_ok overlay" using Cons.prems by simp
  show ?case
  proof (cases "map_of overlay k")
    case None
    then show ?thesis by (simp add: merge_lookup [OF ok])
  next
    case (Some w)
    with Cons.prems obtain ov where ov: "w = JObj ov" "untouched ov ks" by (cases w) auto
    have wf: "json_wf (JObj ov)" using Cons.prems Some ov json_wf_get by blast
    have nonobj: "json_path b ks = None" if "as_dict b = None" for b
      using that ov(2) by (cases b; cases ks) auto
    show ?thesis
    proof (cases "map_of base k")
      case None
      with untouched_path [OF ov(2)] show ?thesis by (simp add: merge_lookup [OF ok] merged_value_def Some ov(1))
    next
      case base: (Some b)
      with Cons.IH [OF wf ov(2)] untouched_path [OF ov(2)] nonobj [of b] show ?thesis
        by (cases b) (simp_all add: merge_lookup [OF ok] merged_value_def Some ov(1))
    qed
  qed
qed simp

end

text \<open>When lists are replaced, the overlay decides every value it gives.\<close>

locale replacing = merging +
  assumes join_replaces: "join x y = y"
begin

lemma merge_leaf:
  assumes "json_wf (JObj overlay)" "leaf overlay ks v"
  shows "json_path (JObj (merge base overlay)) ks = Some v"
  using merge_leaf_joined [OF assms] by (auto simp: joined_def join_replaces split: option.splits json.splits)

text \<open>Of several layers the last one that decides a path wins.\<close>

lemma layers_untouched:
  assumes "\<forall>ov\<in>set ovs. json_wf (JObj ov) \<and> untouched ov ks"
  shows "json_path (JObj (fold (\<lambda>ov b. merge b ov) ovs base)) ks = json_path (JObj base) ks"
  using assms by (induction ovs arbitrary: base) (simp_all add: merge_untouched)

lemma last_layer_wins:
  assumes "json_wf (JObj ov)" "leaf ov ks v" "\<forall>y\<in>set ys. json_wf (JObj y) \<and> untouched y ks"
  shows "json_path (JObj (fold (\<lambda>o' b. merge b o') (xs @ ov # ys) base)) ks = Some v"
  using assms by (simp add: layers_untouched merge_leaf)

end

end
