(* ===== verification/Batch_Orchestrator.thy ===== *)
theory Batch_Orchestrator
  imports Batch_Loader Batch_Reporter Batch_Checkpoint Batch_Progress Config_Merge
begin

text \<open>
  \<^verbatim>\<open>h2kvm/orchestration/manifest/batch_orchestrator.py\<close>: the conversion of a batch, in sequence or
  in a pool of threads, with its checkpoint, its progress file and its report.

  The conversion of one machine by \<^verbatim>\<open>ManifestOrchestrator\<close> and the machine's manifest file are
  given by the environment. A checkpoint that is read has the types that the writer gives its fields;
  other documents raise. The temporary manifests that overrides create stay behind and are not
  modelled as files.

  A thread pool is modelled by the sequence of what its threads and the collecting thread do: a
  machine's start, its stage, its end and the moment its result is collected, in any interleaving.
\<close>

section \<open>Results and environment\<close>

record vm_result =
  r_vm_id :: string
  r_manifest_path :: string
  r_success :: bool
  r_duration :: real
  r_error :: "string option"
  r_report :: "(string \<times> json) list"

definition VMConversionResult :: "vm_batch_item \<Rightarrow> bool \<Rightarrow> real \<Rightarrow> string option \<Rightarrow> (string \<times> json) list option \<Rightarrow> vm_result" where
  "VMConversionResult vm ok d err rep = \<lparr>r_vm_id = vm_id vm, r_manifest_path = vm_manifest_path vm, r_success = ok,
     r_duration = d, r_error = err, r_report = (case rep of None \<Rightarrow> [] | Some fs \<Rightarrow> fs)\<rparr>"

text \<open>The manifest that is converted: the original file, or a merged copy.\<close>

datatype manifest_ref = OriginalFile string | MergedFile string "(string \<times> json) list"

record batch_env =
  env_resolve :: "string \<Rightarrow> py_exc + string"
  env_exists :: "string \<Rightarrow> bool"
  env_read :: "string \<Rightarrow> json option" \<comment> \<open>\<^verbatim>\<open>json.load\<close> of a file, \<open>None\<close> when it raises\<close>
  env_tmp :: "string \<Rightarrow> string option" \<comment> \<open>the temporary file next to a manifest, \<open>None\<close> when it raises\<close>
  env_convert :: "manifest_ref \<Rightarrow> string + (string \<times> json) list" \<comment> \<open>the report, or \<^verbatim>\<open>f"{type(e).__name__}: {e}"\<close>\<close>
  env_show :: "py_exc \<Rightarrow> string"

record batch_orch =
  bo_path :: string
  bo_loader :: batch_loader
  bo_reporter :: batch_report
  bo_results :: "vm_result list"
  enable_checkpoint :: bool
  enable_progress :: bool
  bo_checkpoint :: "checkpoint_manager option"
  bo_progress :: "progress_tracker option"

definition BatchOrchestrator :: "string \<Rightarrow> bool \<Rightarrow> bool \<Rightarrow> batch_orch" where
  "BatchOrchestrator path ck pr = \<lparr>bo_path = path, bo_loader = BatchLoader, bo_reporter = BatchReporter,
     bo_results = [], enable_checkpoint = ck, enable_progress = pr, bo_checkpoint = None, bo_progress = None\<rparr>"

section \<open>Configuration overrides\<close>

function deep_merge :: "(string \<times> json) list \<Rightarrow> (string \<times> json) list \<Rightarrow> (string \<times> json) list" where
  "deep_merge base [] = base"
| "deep_merge base ((k, v) # overlay) =
     deep_merge
       (dict_set k (case (map_of base k, v) of
            (Some (JObj b), JObj ov) \<Rightarrow> JObj (deep_merge b ov)
          | _ \<Rightarrow> v) base)
       overlay"
  by pat_completeness auto
termination
  by (relation "measure (\<lambda>(base, overlay). size_list (size_prod (\<lambda>_. 0) size) overlay)") auto

definition apply_config_overrides :: "batch_env \<Rightarrow> string \<Rightarrow> json \<Rightarrow> (string \<times> json) list \<Rightarrow> py_exc + manifest_ref" where
  "apply_config_overrides env path shared ov =
     (if \<not> truthy shared \<and> ov = [] then Inr (OriginalFile path)
      else if truthy shared \<and> as_dict shared = None then Inl (AttributeError ''keys'')
      else (case env_read env path of
              Some (JObj m) \<Rightarrow>
                (let m1 = (case as_dict shared of Some fs \<Rightarrow> if fs \<noteq> [] then deep_merge m fs else m | None \<Rightarrow> m);
                     m2 = (if ov \<noteq> [] then deep_merge m1 ov else m1)
                 in case env_tmp env path of None \<Rightarrow> Inr (OriginalFile path) | Some t \<Rightarrow> Inr (MergedFile t m2))
            | _ \<Rightarrow> Inr (OriginalFile path)))"

section \<open>One machine\<close>

text \<open>The tracker's updates happen when progress is enabled and the tracker exists.\<close>

definition track :: "(progress_tracker \<Rightarrow> progress_tracker) \<Rightarrow> batch_orch \<Rightarrow> batch_orch" where
  "track f st = (if enable_progress st then st\<lparr>bo_progress := map_option f (bo_progress st)\<rparr> else st)"

text \<open>The effective manifest, or the text of the exception.\<close>

definition prepare_vm :: "batch_env \<Rightarrow> json \<Rightarrow> vm_batch_item \<Rightarrow> string + manifest_ref" where
  "prepare_vm env shared vm =
     (if \<not> env_exists env (vm_manifest_path vm)
      then Inl (env_show env (FileNotFoundError (''VM manifest not found at '' @ vm_manifest_path vm @
             ''. Ensure each VM in the batch manifest references a valid manifest file.'')))
      else (case apply_config_overrides env (vm_manifest_path vm) shared (vm_overrides vm) of
              Inl e \<Rightarrow> Inl (env_show env e) | Inr m \<Rightarrow> Inr m))"

definition convert_vm :: "batch_env \<Rightarrow> json \<Rightarrow> vm_batch_item \<Rightarrow> string + (string \<times> json) list" where
  "convert_vm env shared vm = (case prepare_vm env shared vm of Inl e \<Rightarrow> Inl e | Inr m \<Rightarrow> env_convert env m)"

definition begin_vm :: "time \<Rightarrow> vm_batch_item \<Rightarrow> batch_orch \<Rightarrow> batch_orch" where
  "begin_vm now vm st = track (start_vm now (vm_id vm)) st"

definition stage_vm :: "batch_env \<Rightarrow> json \<Rightarrow> time \<Rightarrow> vm_batch_item \<Rightarrow> batch_orch \<Rightarrow> batch_orch" where
  "stage_vm env shared now vm st = (case prepare_vm env shared vm of
      Inl _ \<Rightarrow> st | Inr _ \<Rightarrow> track (update_vm_stage now (vm_id vm) ''extraction'') st)"

definition finish_vm :: "batch_env \<Rightarrow> json \<Rightarrow> time \<Rightarrow> vm_batch_item \<Rightarrow> batch_orch \<Rightarrow> batch_orch" where
  "finish_vm env shared now vm st = (case convert_vm env shared vm of
      Inl e \<Rightarrow> track (complete_vm now (vm_id vm) False (Some e)) st
    | Inr _ \<Rightarrow> track (complete_vm now (vm_id vm) True None) st)"

definition result_of :: "batch_env \<Rightarrow> json \<Rightarrow> real \<Rightarrow> vm_batch_item \<Rightarrow> vm_result" where
  "result_of env shared d vm = (case convert_vm env shared vm of
      Inl e \<Rightarrow> VMConversionResult vm False d (Some e) None
    | Inr rep \<Rightarrow> VMConversionResult vm True d None (Some rep))"

text \<open>The instants of one machine: start, stage, end, and those of the checkpoint that follows (the
  time and its formatted text).\<close>

record vm_clock =
  t_start :: time
  t_stage :: time
  t_end :: time
  t_save :: time
  t_stamp :: string

definition process_single_vm :: "batch_env \<Rightarrow> json \<Rightarrow> vm_clock \<Rightarrow> vm_batch_item \<Rightarrow> batch_orch \<Rightarrow> vm_result \<times> batch_orch" where
  "process_single_vm env shared c vm st =
     (result_of env shared (t_end c - t_start c) vm,
      finish_vm env shared (t_end c) vm (stage_vm env shared (t_stage c) vm (begin_vm (t_start c) vm st)))"

section \<open>Checkpoints\<close>

definition failed_report :: "vm_result \<Rightarrow> (string \<times> json) list" where
  "failed_report r = [(''vm_id'', JStr (r_vm_id r)),
     (''error'', case r_error r of None \<Rightarrow> JNull | Some e \<Rightarrow> JStr e)]"

definition save_results :: "time \<Rightarrow> string \<Rightarrow> int \<Rightarrow> vm_result list \<Rightarrow> checkpoint_manager \<Rightarrow> checkpoint_manager" where
  "save_results now stamp n rs cm = save_checkpoint now stamp (map r_vm_id (filter r_success rs))
     (map failed_report (filter (\<lambda>r. \<not> r_success r) rs)) n [] cm"

definition save_checkpoint_state :: "time \<Rightarrow> string \<Rightarrow> batch_orch \<Rightarrow> batch_orch" where
  "save_checkpoint_state now stamp st = st\<lparr>bo_checkpoint :=
     map_option (save_results now stamp (int (length (get_vms (bo_loader st)))) (bo_results st)) (bo_checkpoint st)\<rparr>"

definition placeholder :: "batch_env \<Rightarrow> json \<Rightarrow> py_exc + vm_batch_item" where
  "placeholder env i = VMBatchItem (env_resolve env) [(''id'', i), (''manifest'', JStr ''unknown''),
     (''priority'', JInt 0), (''enabled'', JBool True), (''overrides'', JObj [])] 0"

fun restore_completed :: "batch_env \<Rightarrow> json list \<Rightarrow> py_exc + vm_result list" where
  "restore_completed env [] = Inr []"
| "restore_completed env (i # is) =
     (case placeholder env i of
        Inl e \<Rightarrow> Inl e
      | Inr vm \<Rightarrow> (case restore_completed env is of
                      Inl e \<Rightarrow> Inl e
                    | Inr rs \<Rightarrow> Inr (VMConversionResult vm True 0 None (Some []) # rs)))"

fun restore_failed :: "batch_env \<Rightarrow> json list \<Rightarrow> py_exc + vm_result list" where
  "restore_failed env [] = Inr []"
| "restore_failed env (f # fs) =
     (case as_dict f of
        None \<Rightarrow> Inl (AttributeError ''get'')
      | Some d \<Rightarrow>
          (case placeholder env (json_get f ''vm_id'' (JStr ''unknown'')) of
             Inl e \<Rightarrow> Inl e
           | Inr vm \<Rightarrow>
               (case restore_failed env fs of
                  Inl e \<Rightarrow> Inl e
                | Inr rs \<Rightarrow>
                    (case json_get f ''error'' (JStr ''Unknown error'') of
                       JStr e \<Rightarrow> Inr (VMConversionResult vm False 0 (Some e) None # rs)
                     | JNull \<Rightarrow> Inr (VMConversionResult vm False 0 None None # rs)
                     | _ \<Rightarrow> Inl (TypeError ''error'')))))"

definition restore_previous_results :: "batch_env \<Rightarrow> (string \<times> json) list \<Rightarrow> py_exc + vm_result list" where
  "restore_previous_results env doc =
     (case (json_get (JObj doc) ''completed_vms'' (JList []), json_get (JObj doc) ''failed_vms'' (JList [])) of
        (JList cs, JList fs) \<Rightarrow>
          (case restore_completed env cs of
             Inl e \<Rightarrow> Inl e
           | Inr rs \<Rightarrow> (case restore_failed env fs of Inl e \<Rightarrow> Inl e | Inr rs' \<Rightarrow> Inr (rs @ rs')))
      | _ \<Rightarrow> Inl (TypeError ''results''))"


datatype batch_exc = BoLoader loader_exc | BoPy py_exc | BoCheckpoint ck_exc

text \<open>Opening the checkpoint: the machines that are left, with the results of earlier runs restored.\<close>

definition open_checkpoint :: "batch_env \<Rightarrow> json_dir \<Rightarrow> string \<Rightarrow> vm_batch_item list \<Rightarrow> batch_orch \<Rightarrow>
    (batch_exc, vm_batch_item list, batch_orch) outcome" where
  "open_checkpoint env d batch_id vms st =
     (let cm = CheckpointManager d batch_id; st1 = st\<lparr>bo_checkpoint := Some cm\<rparr>
      in if \<not> has_checkpoint cm then (Inr vms, st1)
         else (case load_checkpoint cm of
                 Inl e \<Rightarrow> (Inl (BoCheckpoint e), st1)
               | Inr doc \<Rightarrow>
                   (case get_completed_vm_ids cm of
                      Inl e \<Rightarrow> (Inl (BoCheckpoint e), st1)
                    | Inr completed_ids \<Rightarrow>
                        (case get_failed_vm_ids cm of
                           Inl e \<Rightarrow> (Inl (BoCheckpoint e), st1)
                         | Inr failed_vm_ids \<Rightarrow>
                             (let vms' = filter (\<lambda>vm. JStr (vm_id vm) \<notin> set completed_ids \<and> JStr (vm_id vm) \<notin> set failed_vm_ids) vms
                              in case restore_previous_results env doc of
                                   Inl e \<Rightarrow> (Inl (BoPy e), st1)
                                 | Inr rs \<Rightarrow> (Inr vms', st1\<lparr>bo_results := bo_results st1 @ rs\<rparr>))))))"

section \<open>Processing in sequence\<close>

definition checkpointing :: "batch_orch \<Rightarrow> bool" where
  "checkpointing st = (enable_checkpoint st \<and> bo_checkpoint st \<noteq> None)"

fun process_vms_sequential :: "batch_env \<Rightarrow> (vm_batch_item \<Rightarrow> vm_clock) \<Rightarrow> bool \<Rightarrow> json \<Rightarrow> vm_batch_item list \<Rightarrow>
    batch_orch \<Rightarrow> batch_orch" where
  "process_vms_sequential env clk continue_on_error shared [] st = st"
| "process_vms_sequential env clk continue_on_error shared (vm # vms) st =
     (let (res, st1) = process_single_vm env shared (clk vm) vm st;
          st2 = st1\<lparr>bo_results := bo_results st1 @ [res]\<rparr>;
          st3 = (if checkpointing st2 then save_checkpoint_state (t_save (clk vm)) (t_stamp (clk vm)) st2 else st2)
      in if \<not> r_success res \<and> \<not> continue_on_error then st3
         else process_vms_sequential env clk continue_on_error shared vms st3)"

section \<open>Processing in a pool\<close>

text \<open>What happens in the pool: the phases of machine \<open>i\<close> in its thread, and its result being collected,
  either the value of the future or the text of an exception that the future raises.\<close>

datatype pool_event = Begun nat | Staged nat | Finished nat | Collected nat "string option"

record pool_state =
  results_dict :: "(nat, vm_result) dict"
  pool_orch :: batch_orch
  stopped :: bool

definition in_order :: "(nat, vm_result) dict \<Rightarrow> vm_result list" where
  "in_order rd = map snd (sort_key fst rd)"

definition collect :: "batch_env \<Rightarrow> (vm_batch_item \<Rightarrow> vm_clock) \<Rightarrow> bool \<Rightarrow> json \<Rightarrow> nat \<Rightarrow> vm_batch_item \<Rightarrow> string option \<Rightarrow>
    pool_state \<Rightarrow> pool_state" where
  "collect env clk continue_on_error shared i vm exc s =
     (let res = (case exc of
            None \<Rightarrow> result_of env shared (t_end (clk vm) - t_start (clk vm)) vm
          | Some msg \<Rightarrow> VMConversionResult vm False 0 (Some msg) None);
          rd = dict_set i res (results_dict s);
          orc = pool_orch s
      in \<lparr>results_dict = rd,
          pool_orch = (if checkpointing orc
             then save_checkpoint_state (t_save (clk vm)) (t_stamp (clk vm)) (orc\<lparr>bo_results := in_order rd\<rparr>)
             else orc),
          stopped = (\<not> r_success res \<and> \<not> continue_on_error)\<rparr>)"

text \<open>After the collecting thread has stopped, machines that were already running still finish, but
  nobody collects their results.\<close>

definition pool_step :: "batch_env \<Rightarrow> (vm_batch_item \<Rightarrow> vm_clock) \<Rightarrow> bool \<Rightarrow> json \<Rightarrow> vm_batch_item list \<Rightarrow> pool_event \<Rightarrow>
    pool_state \<Rightarrow> pool_state" where
  "pool_step env clk continue_on_error shared vms ev s =
     (case ev of
        Begun i \<Rightarrow> s\<lparr>pool_orch := begin_vm (t_start (clk (vms ! i))) (vms ! i) (pool_orch s)\<rparr>
      | Staged i \<Rightarrow> s\<lparr>pool_orch := stage_vm env shared (t_stage (clk (vms ! i))) (vms ! i) (pool_orch s)\<rparr>
      | Finished i \<Rightarrow> s\<lparr>pool_orch := finish_vm env shared (t_end (clk (vms ! i))) (vms ! i) (pool_orch s)\<rparr>
      | Collected i exc \<Rightarrow>
          if stopped s then s else collect env clk continue_on_error shared i (vms ! i) exc s)"

definition process_vms_parallel :: "batch_env \<Rightarrow> (vm_batch_item \<Rightarrow> vm_clock) \<Rightarrow> bool \<Rightarrow> json \<Rightarrow> pool_event list \<Rightarrow>
    vm_batch_item list \<Rightarrow> batch_orch \<Rightarrow> batch_orch" where
  "process_vms_parallel env clk continue_on_error shared evs vms st =
     (let s = fold (pool_step env clk continue_on_error shared vms) evs
                \<lparr>results_dict = [], pool_orch = st, stopped = False\<rparr>
      in (pool_orch s)\<lparr>bo_results := in_order (results_dict s)\<rparr>)"

section \<open>The whole batch\<close>

definition generate_report :: "time \<Rightarrow> time \<Rightarrow> string \<Rightarrow> batch_orch \<Rightarrow> batch_report \<times> batch_orch" where
  "generate_report t0 t1 batch_id st =
     (let rs = bo_results st; n = int (length (filter r_success rs));
          r1 = set_duration (t1 - t0)
                 (set_batch_info batch_id (bo_path st) (int (length (get_vms (bo_loader st)))) (int (length rs)) n
                    (int (length rs) - n) (bo_reporter st));
          r2 = fold (\<lambda>r. add_vm_result (r_vm_id r) (r_manifest_path r) (r_success r) (r_duration r) (r_error r)
                           (if r_success r then Some (r_report r) else None)) rs r1;
          r3 = generate r2
      in (r3, st\<lparr>bo_reporter := r3\<rparr>))"

definition get_checkpoint_directory :: "batch_env \<Rightarrow> batch_orch \<Rightarrow> py_exc + string" where
  "get_checkpoint_directory env st = (case get_output_directory (env_resolve env) (bo_loader st) of
      Inl e \<Rightarrow> Inl e
    | Inr (Some d) \<Rightarrow> Inr (path_join d ''.checkpoints'')
    | Inr None \<Rightarrow> Inr (path_join (path_parent (bo_path st)) ''.checkpoints''))"

definition get_progress_file :: "batch_env \<Rightarrow> batch_orch \<Rightarrow> py_exc + string \<times> string" where
  "get_progress_file env st = (case get_output_directory (env_resolve env) (bo_loader st) of
      Inl e \<Rightarrow> Inl e
    | Inr (Some d) \<Rightarrow> Inr (path_join d ''.progress'', ''batch_progress.json'')
    | Inr None \<Rightarrow> Inr (path_join (path_parent (bo_path st)) ''.progress'', ''batch_progress.json''))"

text \<open>Writing the JSON report and the summary generates the report once more each.\<close>

definition write_batch_report :: "batch_env \<Rightarrow> batch_orch \<Rightarrow> py_exc + batch_orch" where
  "write_batch_report env st = (case get_output_directory (env_resolve env) (bo_loader st) of
      Inl e \<Rightarrow> Inl e
    | Inr _ \<Rightarrow> Inr (st\<lparr>bo_reporter := generate (generate (bo_reporter st))\<rparr>))"


text \<open>The three parts of \<^verbatim>\<open>run\<close> around the processing: resuming, starting the progress file, and
  finishing. \<open>dirs\<close> gives the contents of the directories at the start.\<close>

definition resume_batch :: "batch_env \<Rightarrow> (string \<Rightarrow> json_dir) \<Rightarrow> string \<Rightarrow> vm_batch_item list \<Rightarrow> batch_orch \<Rightarrow>
    (batch_exc, vm_batch_item list, batch_orch) outcome" where
  "resume_batch env dirs batch_id vms st =
     (if enable_checkpoint st
      then (case get_checkpoint_directory env st of
              Inl e \<Rightarrow> (Inl (BoPy e), st)
            | Inr d \<Rightarrow> open_checkpoint env (dirs d) batch_id vms st)
      else (Inr vms, st))"

definition start_progress :: "batch_env \<Rightarrow> (string \<Rightarrow> json_dir) \<Rightarrow> time \<Rightarrow> string \<Rightarrow> batch_orch \<Rightarrow>
    (batch_exc, unit, batch_orch) outcome" where
  "start_progress env dirs now batch_id st =
     (if enable_progress st
      then (case get_progress_file env st of
              Inl e \<Rightarrow> (Inl (BoPy e), st)
            | Inr (d, f) \<Rightarrow>
                (Inr (), st\<lparr>bo_progress := Some (ProgressTracker now f batch_id
                              (int (length (get_vms (bo_loader st)))) (dirs d))\<rparr>))
      else (Inr (), st))"

definition finish_batch :: "batch_env \<Rightarrow> time \<Rightarrow> time \<Rightarrow> string \<Rightarrow> batch_orch \<Rightarrow> (batch_exc, batch_report, batch_orch) outcome" where
  "finish_batch env t0 t1 batch_id st =
     (let (rep, st1) = generate_report t0 t1 batch_id st
      in case write_batch_report env st1 of
           Inl e \<Rightarrow> (Inl (BoPy e), st1)
         | Inr st2 \<Rightarrow>
             (let failed_count = length (bo_results st2) - length (filter r_success (bo_results st2));
                  st3 = track (complete_batch t1) st2;
                  st4 = (if enable_checkpoint st3 \<and> failed_count = 0
                         then st3\<lparr>bo_checkpoint := map_option cm_cleanup (bo_checkpoint st3)\<rparr> else st3);
                  st5 = (if failed_count = 0 then track pt_cleanup st4 else st4)
              in (Inr rep, st5)))"

text \<open>\<open>pool\<close> is the schedule that the pool happens to follow on the machines that are left. The batch
  identifier is a text.\<close>

definition run_batch :: "batch_env \<Rightarrow> bool \<Rightarrow> (string, batch_file) dict \<Rightarrow> (string \<Rightarrow> json_dir) \<Rightarrow>
    (vm_batch_item list \<Rightarrow> pool_event list) \<Rightarrow> (vm_batch_item \<Rightarrow> vm_clock) \<Rightarrow> time \<Rightarrow> time \<Rightarrow> batch_orch \<Rightarrow>
    (batch_exc, batch_report, batch_orch) outcome" where
  "run_batch env yaml fs dirs pool clk t0 t1 st =
     (case load_batch (env_resolve env) yaml fs (bo_path st) (bo_loader st) of
        (Inl e, l) \<Rightarrow> (Inl (BoLoader e), st\<lparr>bo_loader := l\<rparr>)
      | (Inr _, l) \<Rightarrow>
          (case (get_batch_id l, as_int (get_parallel_limit l), as_bool (get_continue_on_error l)) of
             (JStr b, Some limit, Some cont) \<Rightarrow>
               (let st1 = st\<lparr>bo_loader := l\<rparr>; vms = get_vms l; shared = get_shared_config l;
                    early = (\<lambda>s. let (rep, s') = generate_report t0 t1 b s in (Inr rep, s'))
                in if vms = [] then early st1
                   else case resume_batch env dirs b vms st1 of
                          (Inl e, st2) \<Rightarrow> (Inl e, st2)
                        | (Inr todo, st2) \<Rightarrow>
                            if todo = [] then early st2
                            else (case start_progress env dirs t0 b st2 of
                                    (Inl e, st3) \<Rightarrow> (Inl e, st3)
                                  | (Inr _, st3) \<Rightarrow>
                                      finish_batch env t0 t1 b
                                        (if limit > 1 \<and> length todo > 1
                                         then process_vms_parallel env clk cont shared (pool todo) todo st3
                                         else process_vms_sequential env clk cont shared todo st3)))
           | _ \<Rightarrow> (Inl (BoPy (TypeError ''batch_metadata'')), st\<lparr>bo_loader := l\<rparr>)))"

section \<open>Merging configurations\<close>

lemma deep_merge_absent: "map_of overlay k = None \<Longrightarrow> map_of (deep_merge base overlay) k = map_of base k"
proof (induction overlay arbitrary: base)
  case (Cons kv overlay)
  then show ?case by (cases kv) (auto split: if_splits)
qed simp

lemma deep_merge_lookup:
  "dict_ok overlay \<Longrightarrow> map_of (deep_merge base overlay) k = (case map_of overlay k of None \<Rightarrow> map_of base k
     | Some v \<Rightarrow> Some (merged_value (\<lambda>x y. y) deep_merge (map_of base k) v))"
proof (induction overlay arbitrary: base)
  case (Cons kv overlay)
  obtain k' v where kv: "kv = (k', v)" by (cases kv)
  from Cons.prems have ok: "dict_ok overlay" and fresh: "map_of overlay k' = None"
    by (auto simp: kv dict_ok_def map_of_eq_None_iff)
  show ?case
  proof (cases "k = k'")
    case True
    then show ?thesis using fresh
      by (simp add: kv deep_merge_absent merged_value_def split: option.splits json.splits)
  next
    case False
    then show ?thesis by (cases "map_of overlay k") (simp_all add: kv Cons.IH [OF ok])
  qed
qed simp

interpretation deep: replacing deep_merge "\<lambda>x y. y"
  by unfold_locales (simp_all add: deep_merge_lookup)

text \<open>
  The manifest a machine is converted from is the machine's own manifest with the
  shared configuration of the batch laid over it and the machine's overrides over both: at every path
  of keys the overrides decide when they give a value, else the shared configuration when it does,
  else the manifest.
\<close>
theorem override_precedence:
  assumes "env_read env path = Some (JObj m)" and "env_tmp env path = Some t"
    and "json_wf (JObj sh)" and "json_wf (JObj ov)" and "sh \<noteq> [] \<or> ov \<noteq> []"
  shows "\<exists>r. apply_config_overrides env path (JObj sh) ov = Inr (MergedFile t r) \<and>
    (\<forall>ks v. leaf ov ks v \<longrightarrow> json_path (JObj r) ks = Some v) \<and>
    (\<forall>ks v. untouched ov ks \<longrightarrow> leaf sh ks v \<longrightarrow> json_path (JObj r) ks = Some v) \<and>
    (\<forall>ks. untouched ov ks \<longrightarrow> untouched sh ks \<longrightarrow> json_path (JObj r) ks = json_path (JObj m) ks)"
proof -
  have "deep_merge m sh = m" if "sh = []" using that by simp
  moreover have "deep_merge (deep_merge m sh) ov = deep_merge m sh" if "ov = []" using that by simp
  ultimately have "apply_config_overrides env path (JObj sh) ov = Inr (MergedFile t (deep_merge (deep_merge m sh) ov))"
    using assms(1,2,5) by (auto simp: apply_config_overrides_def Let_def)
  then show ?thesis
    using deep.merge_leaf [OF assms(4)] deep.merge_untouched [OF assms(4)] deep.merge_leaf [OF assms(3)]
      deep.merge_untouched [OF assms(3)] by auto
qed


theorem override_precedence_witness:
  "\<exists>r. apply_config_overrides \<lparr>env_resolve = Inr, env_exists = (\<lambda>_. True),
        env_read = (\<lambda>_. Some (JObj [(''cpu'', JObj [(''n'', JInt 1), (''model'', JStr ''host'')])])),
        env_tmp = (\<lambda>_. Some ''/tmp/m.json''), env_convert = (\<lambda>_. Inr []), env_show = (\<lambda>_. [])\<rparr>
      ''/vm.json'' (JObj [(''cpu'', JObj [(''n'', JInt 2)])]) [(''mem'', JInt 3)] = Inr (MergedFile ''/tmp/m.json'' r) \<and>
    json_path (JObj r) [''mem''] = Some (JInt 3) \<and> json_path (JObj r) [''cpu'', ''n''] = Some (JInt 2) \<and>
    json_path (JObj r) [''cpu'', ''model''] = Some (JStr ''host'')"
proof -
  let ?m = "[(''cpu'', JObj [(''n'', JInt 1), (''model'', JStr ''host'')])]"
  let ?sh = "[(''cpu'', JObj [(''n'', JInt 2)])]" and ?ov = "[(''mem'', JInt 3)]"
  let ?env = "\<lparr>env_resolve = Inr, env_exists = (\<lambda>_. True), env_read = (\<lambda>_. Some (JObj ?m)),
        env_tmp = (\<lambda>_. Some ''/tmp/m.json''), env_convert = (\<lambda>_. Inr []), env_show = (\<lambda>_. [])\<rparr>"
  have "\<exists>r. apply_config_overrides ?env ''/vm.json'' (JObj ?sh) ?ov = Inr (MergedFile ''/tmp/m.json'' r) \<and>
    (\<forall>ks v. leaf ?ov ks v \<longrightarrow> json_path (JObj r) ks = Some v) \<and>
    (\<forall>ks v. untouched ?ov ks \<longrightarrow> leaf ?sh ks v \<longrightarrow> json_path (JObj r) ks = Some v) \<and>
    (\<forall>ks. untouched ?ov ks \<longrightarrow> untouched ?sh ks \<longrightarrow> json_path (JObj r) ks = json_path (JObj ?m) ks)"
    by (rule override_precedence) (simp_all add: dict_ok_def)
  then obtain r where r: "apply_config_overrides ?env ''/vm.json'' (JObj ?sh) ?ov = Inr (MergedFile ''/tmp/m.json'' r)"
    and 1: "leaf ?ov [''mem''] (JInt 3) \<Longrightarrow> json_path (JObj r) [''mem''] = Some (JInt 3)"
    and 2: "untouched ?ov [''cpu'', ''n''] \<Longrightarrow> leaf ?sh [''cpu'', ''n''] (JInt 2) \<Longrightarrow> json_path (JObj r) [''cpu'', ''n''] = Some (JInt 2)"
    and 3: "untouched ?ov [''cpu'', ''model''] \<Longrightarrow> untouched ?sh [''cpu'', ''model''] \<Longrightarrow>
       json_path (JObj r) [''cpu'', ''model''] = json_path (JObj ?m) [''cpu'', ''model'']"
    by blast
  have "json_path (JObj r) [''mem''] = Some (JInt 3)" by (rule 1) (simp add: leaf_def)
  moreover have "json_path (JObj r) [''cpu'', ''n''] = Some (JInt 2)" by (rule 2) (simp_all add: leaf_def)
  moreover have "json_path (JObj r) [''cpu'', ''model''] = Some (JStr ''host'')" using 3 by simp
  ultimately show ?thesis using r by blast
qed

end
