(* ===== verification/Batch_Resume.thy ===== *)
theory Batch_Resume
  imports Batch_Orchestrator
begin

text \<open>
  Batches that are processed in sequence, interrupted and resumed
  (\<^verbatim>\<open>h2kvm/orchestration/manifest/batch_orchestrator.py\<close> on top of the checkpoint manager): what a
  directory records about the results, what a later run reads back, and that no machine is converted
  twice.
\<close>

section \<open>Processing in sequence, with interruptions\<close>

text \<open>Progress tracking does not touch the results or the checkpoint.\<close>

lemma track_frame [simp]:
  "bo_results (track f st) = bo_results st" "bo_checkpoint (track f st) = bo_checkpoint st"
  "enable_checkpoint (track f st) = enable_checkpoint st" "bo_loader (track f st) = bo_loader st"
  by (simp_all add: track_def)

lemma phases_frame [simp]:
  "bo_results (begin_vm t vm st) = bo_results st" "bo_checkpoint (begin_vm t vm st) = bo_checkpoint st"
  "enable_checkpoint (begin_vm t vm st) = enable_checkpoint st" "bo_loader (begin_vm t vm st) = bo_loader st"
  "bo_results (stage_vm env sh t vm st) = bo_results st" "bo_checkpoint (stage_vm env sh t vm st) = bo_checkpoint st"
  "enable_checkpoint (stage_vm env sh t vm st) = enable_checkpoint st" "bo_loader (stage_vm env sh t vm st) = bo_loader st"
  "bo_results (finish_vm env sh t vm st) = bo_results st" "bo_checkpoint (finish_vm env sh t vm st) = bo_checkpoint st"
  "enable_checkpoint (finish_vm env sh t vm st) = enable_checkpoint st" "bo_loader (finish_vm env sh t vm st) = bo_loader st"
  by (simp_all add: begin_vm_def stage_vm_def finish_vm_def split: sum.splits)

lemma result_of_simps [simp]:
  "r_vm_id (result_of env sh d vm) = vm_id vm" "r_success (result_of env sh d vm) = is_ok (convert_vm env sh vm)"
  by (auto simp: result_of_def VMConversionResult_def split: sum.splits)

definition timed_result :: "batch_env \<Rightarrow> (vm_batch_item \<Rightarrow> vm_clock) \<Rightarrow> json \<Rightarrow> vm_batch_item \<Rightarrow> vm_result" where
  "timed_result env clk sh vm = result_of env sh (t_end (clk vm) - t_start (clk vm)) vm"

lemma timed_result_id [simp]: "r_vm_id (timed_result env clk sh vm) = vm_id vm"
  by (simp add: timed_result_def)

text \<open>The machines that are tried: all, or those up to the first failure.\<close>

fun attempted :: "batch_env \<Rightarrow> bool \<Rightarrow> json \<Rightarrow> vm_batch_item list \<Rightarrow> vm_batch_item list" where
  "attempted env cont sh [] = []"
| "attempted env cont sh (vm # vms) =
     vm # (if is_ok (convert_vm env sh vm) \<or> cont then attempted env cont sh vms else [])"

lemma attempted_prefix: "prefix (attempted env cont sh vms) vms"
  by (induction vms) auto

lemma attempted_all [simp]: "attempted env True sh vms = vms"
  by (induction vms) auto

lemma attempted_take: "\<exists>j. attempted env cont sh (take k xs) = take j xs \<and> (cont \<longrightarrow> j = k)"
proof (cases cont)
  case False
  have "prefix (attempted env cont sh (take k xs)) xs"
    using attempted_prefix take_is_prefix prefix_order.trans by blast
  then have "attempted env cont sh (take k xs) = take (length (attempted env cont sh (take k xs))) xs"
    by (metis append_eq_conv_conj prefixE)
  with False show ?thesis by blast
qed auto

lemma attempted_Nil [simp]: "attempted env cont sh vms = [] \<longleftrightarrow> vms = []"
  by (cases vms) auto

lemma save_state_frame [simp]:
  "bo_results (save_checkpoint_state t s st) = bo_results st"
  "enable_checkpoint (save_checkpoint_state t s st) = enable_checkpoint st"
  "bo_loader (save_checkpoint_state t s st) = bo_loader st"
  by (simp_all add: save_checkpoint_state_def)

lemma sequential_results:
  "bo_results (process_vms_sequential env clk cont sh vms st) =
     bo_results st @ map (timed_result env clk sh) (attempted env cont sh vms)"
  by (induction vms arbitrary: st) (auto simp: process_single_vm_def Let_def timed_result_def)


text \<open>A directory records a list of results for a batch when its checkpoint file was written from them.\<close>

definition batch_file_name :: "string \<Rightarrow> string" where
  "batch_file_name b = checkpoint_file (CheckpointManager [] b)"

definition cm_for :: "string \<Rightarrow> checkpoint_manager \<Rightarrow> bool" where
  "cm_for b cm = (checkpoint_file cm = batch_file_name b \<and> cm_batch_id cm = b)"

definition recorded :: "json_dir \<Rightarrow> string \<Rightarrow> vm_result list \<Rightarrow> bool" where
  "recorded d b rs = (\<exists>now stamp n. dict_get d (batch_file_name b) = Some (JsonDoc
     (checkpoint_doc now stamp b (map r_vm_id (filter r_success rs))
        (map failed_report (filter (\<lambda>r. \<not> r_success r) rs)) n [])))"

lemma cm_for_new [simp]: "cm_for b (CheckpointManager d b)"
  by (simp add: cm_for_def batch_file_name_def CheckpointManager_def)

lemma checkpoint_file_name: "checkpoint_file (CheckpointManager d b) = batch_file_name b"
  by (simp add: batch_file_name_def CheckpointManager_def)

lemma CheckpointManager_dir [simp]: "checkpoint_dir (CheckpointManager d b) = d"
  by (simp add: CheckpointManager_def)

lemma save_results_records:
  assumes "cm_for b cm"
  shows "recorded (checkpoint_dir (save_results now stamp n rs cm)) b rs" "cm_for b (save_results now stamp n rs cm)"
  using assms
  by (auto simp: recorded_def save_results_def save_checkpoint_def cm_for_def atomic_write_get)

lemma failed_report_ids: "reported_ids (map failed_report rs) = map (JStr \<circ> r_vm_id) rs"
  by (induction rs) (simp_all add: reported_ids_def failed_report_def)

lemma failed_reports_ok: "reports_ok (map failed_report rs)"
  by (simp add: reports_ok_def failed_report_ids list_all_iff)

text \<open>What is read back from a recorded directory.\<close>

definition reopened :: "string \<Rightarrow> vm_result \<Rightarrow> vm_result" where
  "reopened p r = \<lparr>r_vm_id = r_vm_id r, r_manifest_path = p, r_success = r_success r, r_duration = 0,
     r_error = (if r_success r then None else r_error r), r_report = []\<rparr>"

definition reopened_all :: "string \<Rightarrow> vm_result list \<Rightarrow> vm_result list" where
  "reopened_all p rs = map (reopened p) (filter r_success rs @ filter (\<lambda>r. \<not> r_success r) rs)"

lemma reopened_simps [simp]: "r_vm_id (reopened p r) = r_vm_id r" "r_success (reopened p r) = r_success r"
  by (simp_all add: reopened_def)

lemma reopened_ids: "set (map r_vm_id (reopened_all p rs)) = set (map r_vm_id rs)"
  by (auto simp: reopened_all_def)

lemma placeholder_Inr:
  "env_resolve env ''unknown'' = Inr p \<Longrightarrow> placeholder env (JStr i) = Inr \<lparr>vm_index = 0, vm_manifest_path = p,
     vm_priority = 0, vm_overrides = [], vm_id = i, vm_enabled = True\<rparr>"
  by (simp add: placeholder_def VMBatchItem_def)

lemma restore_completed_Inr:
  assumes "env_resolve env ''unknown'' = Inr p" "list_all r_success rs"
  shows "restore_completed env (map (JStr \<circ> r_vm_id) rs) = Inr (map (reopened p) rs)"
  using assms(2) by (induction rs) (auto simp: placeholder_Inr [OF assms(1)] VMConversionResult_def reopened_def)

lemma restore_failed_Inr:
  assumes "env_resolve env ''unknown'' = Inr p" "list_all (\<lambda>r. \<not> r_success r) rs"
  shows "restore_failed env (map (JObj \<circ> failed_report) rs) = Inr (map (reopened p) rs)"
  using assms(2)
  by (induction rs)
    (auto simp: placeholder_Inr [OF assms(1)] VMConversionResult_def reopened_def failed_report_def split: option.splits)

lemma restore_recorded:
  assumes "env_resolve env ''unknown'' = Inr p"
    and "checkpoint_doc now stamp b (map r_vm_id (filter r_success rs)) (map failed_report (filter (\<lambda>r. \<not> r_success r) rs)) n [] = JObj doc"
  shows "restore_previous_results env doc = Inr (reopened_all p rs)"
proof -
  have "json_get (JObj doc) ''completed_vms'' (JList []) = JList (map (JStr \<circ> r_vm_id) (filter r_success rs))"
    "json_get (JObj doc) ''failed_vms'' (JList []) = JList (map (JObj \<circ> failed_report) (filter (\<lambda>r. \<not> r_success r) rs))"
    unfolding assms(2) [symmetric] by (simp_all add: checkpoint_doc_def)
  then show ?thesis
    by (simp add: restore_previous_results_def restore_completed_Inr [OF assms(1)] restore_failed_Inr [OF assms(1)]
        list_all_iff reopened_all_def)
qed

lemma reopened_report: "\<not> r_success r \<Longrightarrow> failed_report (reopened p r) = failed_report r"
  by (simp add: failed_report_def reopened_def)

lemma recorded_reopened:
  assumes "recorded d b rs" shows "recorded d b (reopened_all p rs)"
proof -
  have "filter r_success (reopened_all p rs) = map (reopened p) (filter r_success rs)"
    "filter (\<lambda>r. \<not> r_success r) (reopened_all p rs) = map (reopened p) (filter (\<lambda>r. \<not> r_success r) rs)"
    by (simp_all add: reopened_all_def filter_map o_def)
  then have "map r_vm_id (filter r_success (reopened_all p rs)) = map r_vm_id (filter r_success rs)"
    "map failed_report (filter (\<lambda>r. \<not> r_success r) (reopened_all p rs)) = map failed_report (filter (\<lambda>r. \<not> r_success r) rs)"
    by (simp_all add: reopened_report)
  with assms show ?thesis unfolding recorded_def by simp
qed

lemma recorded_skip:
  assumes "recorded d b rs"
  shows "should_skip_vm (CheckpointManager d b) vm = Inr (vm \<in> set (map r_vm_id rs))"
proof -
  obtain now stamp n where "dict_get (checkpoint_dir (CheckpointManager d b)) (checkpoint_file (CheckpointManager d b)) =
      Some (JsonDoc (checkpoint_doc now stamp b (map r_vm_id (filter r_success rs))
        (map failed_report (filter (\<lambda>r. \<not> r_success r) rs)) n []))"
    using assms by (auto simp: recorded_def checkpoint_file_name)
  from load_saved(1) [OF this] load_saved(2) [OF this failed_reports_ok] show ?thesis
    by (auto simp: should_skip_vm_def failed_report_ids)
qed

lemma open_recorded:
  assumes "recorded d b rs" "env_resolve env ''unknown'' = Inr p" "bo_results st = []"
  shows "open_checkpoint env d b vms st = (Inr (filter (\<lambda>vm. vm_id vm \<notin> set (map r_vm_id rs)) vms),
      st\<lparr>bo_checkpoint := Some (CheckpointManager d b), bo_results := reopened_all p rs\<rparr>)"
proof -
  let ?cm = "CheckpointManager d b"
  obtain now stamp n where saved: "dict_get (checkpoint_dir ?cm) (checkpoint_file ?cm) =
      Some (JsonDoc (checkpoint_doc now stamp b (map r_vm_id (filter r_success rs))
        (map failed_report (filter (\<lambda>r. \<not> r_success r) rs)) n []))" (is "_ = Some (JsonDoc ?doc)")
    using assms(1) by (auto simp: recorded_def checkpoint_file_name)
  obtain doc where doc: "?doc = JObj doc" by (simp add: checkpoint_doc_def)
  have "has_checkpoint ?cm" using saved by (simp add: has_checkpoint_def dict_has_def)
  moreover have "load_checkpoint ?cm = Inr doc"
    using saved doc by (auto simp: load_checkpoint_def checkpoint_doc_def)
  moreover note load_saved(1) [OF saved] load_saved(2) [OF saved failed_reports_ok] restore_recorded [OF assms(2) doc]
  ultimately show ?thesis
    using assms(3) by (auto simp: open_checkpoint_def Let_def failed_report_ids intro!: filter_cong)
qed


lemma sequential_records:
  assumes "enable_checkpoint st" "bo_checkpoint st = Some cm" "cm_for b cm" "vms \<noteq> []"
    and "st' = process_vms_sequential env clk cont sh vms st"
  shows "\<exists>cm'. bo_checkpoint st' = Some cm' \<and> cm_for b cm' \<and> recorded (checkpoint_dir cm') b (bo_results st')"
  using assms
proof (induction vms arbitrary: st cm)
  case (Cons vm vms)
  obtain res st1 where ps: "process_single_vm env sh (clk vm) vm st = (res, st1)" by (cases "process_single_vm env sh (clk vm) vm st")
  define st3 where "st3 = save_checkpoint_state (t_save (clk vm)) (t_stamp (clk vm)) (st1\<lparr>bo_results := bo_results st1 @ [res]\<rparr>)"
  have st1: "enable_checkpoint st1" "bo_checkpoint st1 = Some cm" using ps Cons.prems by (auto simp: process_single_vm_def)
  then obtain cm3 where cm3: "bo_checkpoint st3 = Some cm3" "cm_for b cm3" "recorded (checkpoint_dir cm3) b (bo_results st3)"
    using save_results_records [OF Cons.prems(3)] by (simp add: st3_def save_checkpoint_state_def)
  have st': "st' = (if \<not> r_success res \<and> \<not> cont then st3 else process_vms_sequential env clk cont sh vms st3)"
    using Cons.prems(5) st1 by (simp add: ps Let_def st3_def checkpointing_def)
  show ?case
  proof (cases "vms = [] \<or> \<not> r_success res \<and> \<not> cont")
    case True
    with st' have "st' = st3" by auto
    with cm3 show ?thesis by blast
  next
    case False
    with st' have "st' = process_vms_sequential env clk cont sh vms st3" by auto
    moreover have "enable_checkpoint st3" using st1(1) by (simp add: st3_def)
    ultimately show ?thesis using Cons.IH cm3(1,2) False by blast
  qed
qed simp

text \<open>Runs of the batch that are interrupted: the \<open>i\<close>-th run is stopped after it has handled
  \<open>ks ! i\<close> machines (or ends before). The log lists the machines in the order they are converted.\<close>

fun interrupted_runs :: "batch_env \<Rightarrow> (vm_batch_item \<Rightarrow> vm_clock) \<Rightarrow> bool \<Rightarrow> json \<Rightarrow> string \<Rightarrow> batch_orch \<Rightarrow> json_dir \<Rightarrow>
    nat list \<Rightarrow> (batch_exc, string list, json_dir) outcome" where
  "interrupted_runs env clk cont sh b st0 d [] = (Inr [], d)"
| "interrupted_runs env clk cont sh b st0 d (k # ks) =
     (case open_checkpoint env d b (get_vms (bo_loader st0)) st0 of
        (Inl e, _) \<Rightarrow> (Inl e, d)
      | (Inr todo, st) \<Rightarrow>
          (let st' = process_vms_sequential env clk cont sh (take k todo) st;
               d' = (case bo_checkpoint st' of None \<Rightarrow> d | Some cm \<Rightarrow> checkpoint_dir cm);
               converted = map r_vm_id (drop (length (bo_results st)) (bo_results st'))
           in case interrupted_runs env clk cont sh b st0 d' ks of
                (Inl e, d'') \<Rightarrow> (Inl e, d'')
              | (Inr converted', d'') \<Rightarrow> (Inr (converted @ converted'), d'')))"

text \<open>The directory agrees with the log so far.\<close>

definition covers :: "json_dir \<Rightarrow> string \<Rightarrow> string list \<Rightarrow> bool" where
  "covers d b ids = (dict_get d (batch_file_name b) = None \<and> ids = [] \<or>
     (\<exists>rs. recorded d b rs \<and> set (map r_vm_id rs) = set ids))"

lemma covers_skip: "covers d b ids \<Longrightarrow> should_skip_vm (CheckpointManager d b) vm = Inr (vm \<in> set ids)"
proof (unfold covers_def, elim disjE conjE exE)
  assume "dict_get d (batch_file_name b) = None" "ids = []"
  then show ?thesis
    by (simp add: should_skip_vm_def get_completed_vm_ids_def get_failed_vm_ids_def has_checkpoint_def dict_has_def
        checkpoint_file_name)
next
  fix rs assume "recorded d b rs" "set (map r_vm_id rs) = set ids"
  with recorded_skip [of d b rs vm] show ?thesis by simp
qed

lemma open_covers:
  assumes "covers d b ids" "env_resolve env ''unknown'' = Inr p" "bo_results st0 = []"
  obtains rs where "open_checkpoint env d b vms st0 = (Inr (filter (\<lambda>vm. vm_id vm \<notin> set ids) vms),
      st0\<lparr>bo_checkpoint := Some (CheckpointManager d b), bo_results := rs\<rparr>)"
    "set (map r_vm_id rs) = set ids"
  using assms(1) unfolding covers_def
proof (elim disjE conjE exE)
  assume "dict_get d (batch_file_name b) = None" "ids = []"
  then have "open_checkpoint env d b vms st0 = (Inr (filter (\<lambda>vm. vm_id vm \<notin> set ids) vms),
      st0\<lparr>bo_checkpoint := Some (CheckpointManager d b), bo_results := []\<rparr>)"
    using assms(3) by (simp add: open_checkpoint_def Let_def has_checkpoint_def dict_has_def checkpoint_file_name)
  then show thesis using that [of "[]"] \<open>ids = []\<close> by simp
next
  fix rs assume rs: "recorded d b rs" "set (map r_vm_id rs) = set ids"
  then show thesis using that [OF open_recorded [OF rs(1) assms(2,3), of vms, unfolded rs(2)]] reopened_ids [of p rs] by simp
qed

lemma filter_not_taken:
  "distinct (map f xs) \<Longrightarrow> filter (\<lambda>x. f x \<notin> set (take m (map f xs))) xs = drop m xs"
proof (induction xs arbitrary: m)
  case (Cons x xs)
  show ?case
  proof (cases m)
    case (Suc m')
    have "f y \<noteq> f x" if "y \<in> set xs" for y using Cons.prems imageI [OF that, of f] by auto
    then have "filter (\<lambda>y. f y \<notin> set (take m (map f (x # xs)))) xs = filter (\<lambda>y. f y \<notin> set (take m' (map f xs))) xs"
      by (intro filter_cong) (auto simp: Suc)
    with Cons show ?thesis by (simp add: Suc)
  qed simp
qed simp


lemma interrupted_runs_log:
  assumes "distinct (map vm_id (get_vms (bo_loader st0)))" "enable_checkpoint st0" "bo_results st0 = []"
    and "env_resolve env ''unknown'' = Inr p" and "covers d b (take m (map vm_id (get_vms (bo_loader st0))))"
  shows "\<exists>ids d' j. interrupted_runs env clk cont sh b st0 d ks = (Inr ids, d') \<and>
    take m (map vm_id (get_vms (bo_loader st0))) @ ids = take (m + j) (map vm_id (get_vms (bo_loader st0))) \<and>
    (cont \<longrightarrow> j = sum_list ks) \<and> covers d' b (take (m + j) (map vm_id (get_vms (bo_loader st0))))"
  using assms(5)
proof (induction ks arbitrary: d m)
  case Nil
  then show ?case by (intro exI [of _ "[]"] exI [of _ d] exI [of _ 0]) simp
next
  case (Cons k ks)
  let ?vms = "get_vms (bo_loader st0)"
  let ?ids = "map vm_id ?vms"
  obtain rs where op': "open_checkpoint env d b ?vms st0 = (Inr (filter (\<lambda>vm. vm_id vm \<notin> set (take m ?ids)) ?vms),
      st0\<lparr>bo_checkpoint := Some (CheckpointManager d b), bo_results := rs\<rparr>)"
    and rs: "set (map r_vm_id rs) = set (take m ?ids)"
    by (rule open_covers [OF Cons.prems assms(4,3), where vms = ?vms])
  let ?st = "st0\<lparr>bo_checkpoint := Some (CheckpointManager d b), bo_results := rs\<rparr>"
  have op: "open_checkpoint env d b ?vms st0 = (Inr (drop m ?vms), ?st)"
    using op' by (simp only: filter_not_taken [OF assms(1)])
  let ?st' = "process_vms_sequential env clk cont sh (take k (drop m ?vms)) ?st"
  let ?tried = "attempted env cont sh (take k (drop m ?vms))"
  define d1 where "d1 = (case bo_checkpoint ?st' of None \<Rightarrow> d | Some cm \<Rightarrow> checkpoint_dir cm)"
  have res: "bo_results ?st' = rs @ map (timed_result env clk sh) ?tried" by (simp add: sequential_results)
  obtain j1 where j1: "?tried = take j1 (drop m ?vms)" "cont \<longrightarrow> j1 = k"
    using attempted_take by blast
  have ids1: "take m ?ids @ map vm_id ?tried = take (m + j1) ?ids"
    by (simp add: j1(1) take_add take_map drop_map)
  have "covers d1 b (take (m + j1) ?ids)"
  proof (cases "take k (drop m ?vms) = []")
    case True
    have "d1 = d" "?tried = []" unfolding d1_def True by simp_all
    with Cons.prems ids1 show ?thesis by simp
  next
    case False
    have "enable_checkpoint ?st" "bo_checkpoint ?st = Some (CheckpointManager d b)" using assms(2) by simp_all
    from sequential_records [OF this cm_for_new False refl, of env clk cont sh]
    obtain cm' where "bo_checkpoint ?st' = Some cm'" "recorded (checkpoint_dir cm') b (bo_results ?st')" by blast
    moreover have "set (map r_vm_id (bo_results ?st')) = set (take (m + j1) ?ids)"
      unfolding res ids1 [symmetric] using rs by (simp add: o_def)
    ultimately show ?thesis by (auto simp: covers_def d1_def)
  qed
  from Cons.IH [OF this] obtain ids2 d2 j2 where ih: "interrupted_runs env clk cont sh b st0 d1 ks = (Inr ids2, d2)"
      "take (m + j1) ?ids @ ids2 = take (m + j1 + j2) ?ids" "cont \<longrightarrow> j2 = sum_list ks" "covers d2 b (take (m + j1 + j2) ?ids)"
    by blast
  have "interrupted_runs env clk cont sh b st0 d (k # ks) = (Inr (map vm_id ?tried @ ids2), d2)"
    using ih(1) by (simp add: op Let_def d1_def [symmetric] res o_def)
  moreover have "take m ?ids @ map vm_id ?tried @ ids2 = take (m + (j1 + j2)) ?ids"
    using ids1 ih(2) by (simp add: append_assoc [symmetric] add.assoc del: append_assoc)
  ultimately show ?case using ih(3,4) j1(2)
    by (intro exI [of _ "map vm_id ?tried @ ids2"] exI [of _ d2] exI [of _ "j1 + j2"]) (auto simp: add.assoc)
qed




end
