(* ===== verification/Batch_Pool.thy ===== *)
theory Batch_Pool
  imports Batch_Resume
begin

text \<open>
  Batches that are processed in a pool of threads
  (\<^verbatim>\<open>h2kvm/orchestration/manifest/batch_orchestrator.py\<close>): independence of the interleaving, and what
  the pool does to the results of earlier runs.
\<close>

section \<open>Processing in a pool\<close>

text \<open>The results that are collected, in the order of their collection.\<close>

fun collected :: "pool_event list \<Rightarrow> (nat \<times> string option) list" where
  "collected [] = []"
| "collected (Collected i e # evs) = (i, e) # collected evs"
| "collected (_ # evs) = collected evs"

lemma collected_append: "collected (xs @ ys) = collected xs @ collected ys"
  by (induction xs rule: collected.induct) auto

lemma in_order_set: "set (in_order rd) = set (dict_values rd)"
  by (simp add: in_order_def dict_values_def)

lemma dict_values_set: "set (dict_values (dict_set k v d)) \<subseteq> insert v (set (dict_values d))"
  by (induction d) (auto simp: dict_values_def)

text \<open>Every result in the dictionary is of a machine of the list, and the checkpoint on disk always
  records exactly the dictionary.\<close>

definition pool_inv :: "string \<Rightarrow> vm_batch_item list \<Rightarrow> pool_state \<Rightarrow> bool" where
  "pool_inv b vms s = (enable_checkpoint (pool_orch s) \<and> dict_ok (results_dict s) \<and>
     r_vm_id ` set (dict_values (results_dict s)) \<subseteq> vm_id ` set vms \<and>
     (\<exists>cm. bo_checkpoint (pool_orch s) = Some cm \<and> cm_for b cm \<and>
        (results_dict s = [] \<or> recorded (checkpoint_dir cm) b (in_order (results_dict s)))))"

lemma collect_inv:
  assumes "pool_inv b vms s" "vm \<in> set vms"
  shows "pool_inv b vms (collect env clk cont sh i vm e s)"
proof -
  obtain cm where cm: "bo_checkpoint (pool_orch s) = Some cm" "cm_for b cm" and en: "enable_checkpoint (pool_orch s)"
    and ok: "dict_ok (results_dict s)" and ids: "r_vm_id ` set (dict_values (results_dict s)) \<subseteq> vm_id ` set vms"
    using assms(1) by (auto simp: pool_inv_def)
  define res where "res = (case e of None \<Rightarrow> result_of env sh (t_end (clk vm) - t_start (clk vm)) vm
    | Some msg \<Rightarrow> VMConversionResult vm False 0 (Some msg) None)"
  have id: "r_vm_id res = vm_id vm" by (simp add: res_def VMConversionResult_def split: option.splits)
  have "r_vm_id ` set (dict_values (dict_set i res (results_dict s))) \<subseteq>
      insert (vm_id vm) (r_vm_id ` set (dict_values (results_dict s)))"
    using image_mono [OF dict_values_set, of r_vm_id i res "results_dict s"] id by simp
  also have "\<dots> \<subseteq> vm_id ` set vms" using ids assms(2) by simp
  finally have "r_vm_id ` set (dict_values (dict_set i res (results_dict s))) \<subseteq> vm_id ` set vms" .
  with cm en ok save_results_records [OF cm(2)] show ?thesis
    by (simp add: pool_inv_def collect_def res_def [symmetric] Let_def checkpointing_def save_checkpoint_state_def)
qed

lemma pool_step_simps [simp]:
  "pool_step env clk cont sh vms (Begun i) s = s\<lparr>pool_orch := begin_vm (t_start (clk (vms ! i))) (vms ! i) (pool_orch s)\<rparr>"
  "pool_step env clk cont sh vms (Staged i) s = s\<lparr>pool_orch := stage_vm env sh (t_stage (clk (vms ! i))) (vms ! i) (pool_orch s)\<rparr>"
  "pool_step env clk cont sh vms (Finished i) s = s\<lparr>pool_orch := finish_vm env sh (t_end (clk (vms ! i))) (vms ! i) (pool_orch s)\<rparr>"
  "pool_step env clk cont sh vms (Collected i e) s = (if stopped s then s else collect env clk cont sh i (vms ! i) e s)"
  by (simp_all add: pool_step_def)

definition event_ok :: "vm_batch_item list \<Rightarrow> pool_event \<Rightarrow> bool" where
  "event_ok vms ev = (case ev of Collected i _ \<Rightarrow> i < length vms | _ \<Rightarrow> True)"

lemma pool_step_inv:
  assumes "pool_inv b vms s" "event_ok vms ev"
  shows "pool_inv b vms (pool_step env clk cont sh vms ev s)"
proof (cases ev)
  case (Collected i e)
  with assms show ?thesis by (auto simp: event_ok_def intro: collect_inv)
qed (use assms in \<open>simp_all add: pool_inv_def\<close>)

lemma pool_run_inv:
  assumes "pool_inv b vms s" "list_all (event_ok vms) evs"
  shows "pool_inv b vms (fold (pool_step env clk cont sh vms) evs s)"
  using assms by (induction evs arbitrary: s) (auto intro: pool_step_inv)

lemma pool_step_keeps: "results_dict s \<noteq> [] \<Longrightarrow> results_dict (pool_step env clk cont sh vms ev s) \<noteq> []"
  by (cases ev) (auto simp: collect_def Let_def update_nonempty)

lemma pool_run_keeps: "results_dict s \<noteq> [] \<Longrightarrow> results_dict (fold (pool_step env clk cont sh vms) evs s) \<noteq> []"
  by (induction evs arbitrary: s) (auto simp: pool_step_keeps)

lemma pool_run_nonempty:
  "collected evs \<noteq> [] \<Longrightarrow> \<not> stopped s \<Longrightarrow> results_dict (fold (pool_step env clk cont sh vms) evs s) \<noteq> []"
proof (induction evs arbitrary: s)
  case (Cons ev evs)
  show ?case
  proof (cases ev)
    case (Collected i e)
    with Cons.prems have "results_dict (pool_step env clk cont sh vms ev s) \<noteq> []"
      by (simp add: collect_def Let_def update_nonempty)
    then show ?thesis by (simp add: pool_run_keeps)
  qed (use Cons in \<open>auto\<close>)
qed simp

text \<open>As long as nothing stops the batch, the dictionary maps each collected index to its result.\<close>

definition collected_result :: "batch_env \<Rightarrow> (vm_batch_item \<Rightarrow> vm_clock) \<Rightarrow> json \<Rightarrow> vm_batch_item list \<Rightarrow> nat \<times> string option \<Rightarrow> vm_result" where
  "collected_result env clk sh vms x = (case snd x of
      None \<Rightarrow> timed_result env clk sh (vms ! fst x)
    | Some msg \<Rightarrow> VMConversionResult (vms ! fst x) False 0 (Some msg) None)"

lemma pool_results:
  assumes "\<not> stopped s" "\<And>x. x \<in> set (collected evs) \<Longrightarrow> cont \<or> r_success (collected_result env clk sh vms x)"
  shows "results_dict (fold (pool_step env clk cont sh vms) evs s) =
    fold (\<lambda>x. dict_set (fst x) (collected_result env clk sh vms x)) (collected evs) (results_dict s)"
  using assms
proof (induction evs arbitrary: s)
  case (Cons ev evs)
  show ?case
  proof (cases ev)
    case (Collected i e)
    let ?s = "collect env clk cont sh i (vms ! i) e s"
    have "results_dict ?s = dict_set i (collected_result env clk sh vms (i, e)) (results_dict s)"
      "stopped ?s = (\<not> r_success (collected_result env clk sh vms (i, e)) \<and> \<not> cont)"
      by (simp_all add: collect_def Let_def collected_result_def timed_result_def split: option.splits)
    moreover have "cont \<or> r_success (collected_result env clk sh vms (i, e))" using Cons.prems(2) Collected by simp
    ultimately show ?thesis using Cons.IH [of ?s] Cons.prems Collected by auto
  qed (use Cons in \<open>simp_all\<close>)
qed simp


lemma fold_dict_set_get:
  "distinct (map fst xs) \<Longrightarrow> map_of (fold (\<lambda>x. dict_set (fst x) (g x)) xs d) k =
     (case map_of (map (\<lambda>x. (fst x, g x)) xs) k of None \<Rightarrow> map_of d k | Some v \<Rightarrow> Some v)"
proof (induction xs arbitrary: d)
  case (Cons x xs)
  then have "fst x \<notin> fst ` set xs" "distinct (map fst xs)" by auto
  then have "map_of (map (\<lambda>x. (fst x, g x)) xs) (fst x) = None" by (simp add: map_of_eq_None_iff image_image)
  with Cons.IH [OF \<open>distinct (map fst xs)\<close>] show ?case by (auto split: option.splits)
qed simp

lemma fold_dict_set_ok: "dict_ok d \<Longrightarrow> dict_ok (fold (\<lambda>x. dict_set (fst x) (g x)) xs d)"
  by (induction xs arbitrary: d) auto

lemma in_order_complete:
  assumes "dict_ok rd" "\<And>i. map_of rd i = (if i < n then Some (g i) else None)"
  shows "in_order rd = map g [0..<n]"
proof -
  let ?xs = "sort_key fst rd"
  have mem: "(i, v) \<in> set rd \<longleftrightarrow> i < n \<and> v = g i" for i v
  proof -
    have "(i, v) \<in> set rd \<longleftrightarrow> map_of rd i = Some v" using assms(1) by (simp add: dict_ok_def)
    also have "\<dots> \<longleftrightarrow> i < n \<and> v = g i" by (simp add: assms(2)) blast
    finally show ?thesis .
  qed
  then have "set (map fst ?xs) = {..<n}" by force
  moreover have "sorted (map fst ?xs)" "distinct (map fst ?xs)"
    using assms(1) by (simp_all add: dict_ok_def distinct_map)
  ultimately have keys: "map fst ?xs = [0..<n]"
    using sorted_distinct_set_unique [of "map fst ?xs" "[0..<n]"] by (simp add: atLeast0LessThan)
  have "map snd ?xs = map (g \<circ> fst) ?xs" by (rule map_cong) (use mem in auto)
  with keys show ?thesis by (simp add: in_order_def map_map [symmetric] del: map_map)
qed

lemma pool_all_results:
  assumes "distinct (map fst (collected evs))" "set (collected evs) = (\<lambda>i. (i, None)) ` {..<length vms}"
    and "cont \<or> (\<forall>vm \<in> set vms. is_ok (convert_vm env sh vm))" "\<not> stopped s" "results_dict s = []"
  shows "in_order (results_dict (fold (pool_step env clk cont sh vms) evs s)) = map (timed_result env clk sh) vms"
proof -
  let ?g = "collected_result env clk sh vms"
  let ?rd = "fold (\<lambda>x. dict_set (fst x) (?g x)) (collected evs) []"
  have "cont \<or> r_success (?g x)" if "x \<in> set (collected evs)" for x
    using that assms(2,3) by (auto simp: collected_result_def timed_result_def)
  then have rd: "results_dict (fold (pool_step env clk cont sh vms) evs s) = ?rd"
    using pool_results [OF assms(4)] assms(5) by auto
  have "map_of (map (\<lambda>x. (fst x, ?g x)) (collected evs)) i = (if i < length vms then Some (timed_result env clk sh (vms ! i)) else None)" for i
  proof (cases "i < length vms")
    case True
    then have "(i, None) \<in> set (collected evs)" by (simp add: assms(2))
    then have "(i, ?g (i, None)) \<in> set (map (\<lambda>x. (fst x, ?g x)) (collected evs))" by force
    moreover have "distinct (map fst (map (\<lambda>x. (fst x, ?g x)) (collected evs)))" using assms(1) by (simp add: o_def)
    ultimately show ?thesis using True by (simp add: collected_result_def)
  qed (use assms(2) in \<open>auto simp: map_of_eq_None_iff\<close>)
  then have "in_order ?rd = map (\<lambda>i. timed_result env clk sh (vms ! i)) [0..<length vms]"
    by (intro in_order_complete fold_dict_set_ok) (simp_all add: fold_dict_set_get [OF assms(1)])
  also have "\<dots> = map (timed_result env clk sh) vms"
    by (rule nth_equalityI) simp_all
  finally show ?thesis by (simp add: rd)
qed


lemma collected_event_ok:
  assumes "set (collected evs) \<subseteq> {x. fst x < length vms}" shows "list_all (event_ok vms) evs"
  using assms by (induction evs rule: collected.induct) (auto simp: event_ok_def)

lemma pool_inv_start:
  assumes "enable_checkpoint st" "bo_checkpoint st = Some cm" "cm_for b cm"
  shows "pool_inv b vms \<lparr>results_dict = [], pool_orch = st, stopped = False\<rparr>"
  using assms by (simp add: pool_inv_def dict_values_def)

lemma parallel_records:
  assumes "enable_checkpoint st" "bo_checkpoint st = Some cm" "cm_for b cm"
    and "set (collected evs) \<subseteq> {x. fst x < length vms}" "collected evs \<noteq> []"
    and "st' = process_vms_parallel env clk cont sh evs vms st"
  obtains cm' where "bo_checkpoint st' = Some cm'" "recorded (checkpoint_dir cm') b (bo_results st')"
    "set (map r_vm_id (bo_results st')) \<subseteq> vm_id ` set vms"
proof -
  let ?s = "fold (pool_step env clk cont sh vms) evs \<lparr>results_dict = [], pool_orch = st, stopped = False\<rparr>"
  have "pool_inv b vms ?s"
    by (rule pool_run_inv [OF pool_inv_start [OF assms(1-3)] collected_event_ok [OF assms(4)]])
  moreover have "results_dict ?s \<noteq> []" by (rule pool_run_nonempty [OF assms(5)]) simp
  ultimately obtain cm' where "bo_checkpoint (pool_orch ?s) = Some cm'"
      "recorded (checkpoint_dir cm') b (in_order (results_dict ?s))"
      "r_vm_id ` set (dict_values (results_dict ?s)) \<subseteq> vm_id ` set vms"
    by (auto simp: pool_inv_def)
  then show thesis by (intro that [of cm']) (simp_all add: assms(6) process_vms_parallel_def Let_def in_order_set)
qed



text \<open>
  A resumed batch that runs in the pool forgets the earlier runs: the first result that is
  collected replaces the restored results and the checkpoint, so a machine that the checkpoint had as
  finished is missing from the results and is converted again by the next run.
\<close>
theorem parallel_resume_forgets_earlier_runs:
  assumes "should_skip_vm (CheckpointManager d b) vm = Inr True"
    and "open_checkpoint env d b vms st0 = (Inr todo, st)" and "enable_checkpoint st0"
    and "collected evs \<noteq> []" and "set (collected evs) \<subseteq> {x. fst x < length todo}"
    and "st' = process_vms_parallel env clk cont sh evs todo st"
  shows "vm \<notin> set (map r_vm_id (bo_results st')) \<and>
    (\<exists>cm. bo_checkpoint st' = Some cm \<and> should_skip_vm (CheckpointManager (checkpoint_dir cm) b) vm = Inr False)"
proof -
  let ?cm = "CheckpointManager d b"
  obtain completed failed where ids: "get_completed_vm_ids ?cm = Inr completed" "get_failed_vm_ids ?cm = Inr failed"
      "JStr vm \<in> set completed \<or> JStr vm \<in> set failed"
    using assms(1) by (auto simp: should_skip_vm_def split: sum.splits)
  have "has_checkpoint ?cm" using ids by (auto simp: get_completed_vm_ids_def get_failed_vm_ids_def split: if_splits)
  with assms(2) ids obtain rs where todo: "todo = filter (\<lambda>v. JStr (vm_id v) \<notin> set completed \<and> JStr (vm_id v) \<notin> set failed) vms"
    and st: "st = st0\<lparr>bo_checkpoint := Some ?cm, bo_results := bo_results st0 @ rs\<rparr>"
    by (auto simp: open_checkpoint_def Let_def split: sum.splits)
  have "enable_checkpoint st" "bo_checkpoint st = Some ?cm" using assms(3) by (simp_all add: st)
  from parallel_records [OF this cm_for_new assms(5,4,6)]
  obtain cm' where cm': "bo_checkpoint st' = Some cm'" "recorded (checkpoint_dir cm') b (bo_results st')"
      "set (map r_vm_id (bo_results st')) \<subseteq> vm_id ` set todo" .
  have "vm \<notin> vm_id ` set todo" using ids(3) by (auto simp: todo)
  with cm'(3) have "vm \<notin> set (map r_vm_id (bo_results st'))" by blast
  with cm'(1) recorded_skip [OF cm'(2), of vm] show ?thesis by simp
qed

theorem parallel_resume_forgets_earlier_runs_witness:
  "\<exists>cm. bo_checkpoint (process_vms_parallel
      \<lparr>env_resolve = Inr, env_exists = (\<lambda>_. True), env_read = (\<lambda>_. None), env_tmp = (\<lambda>_. None),
        env_convert = (\<lambda>_. Inr []), env_show = (\<lambda>_. ''error'')\<rparr>
      (\<lambda>_. \<lparr>t_start = 1, t_stage = 2, t_end = 3, t_save = 4, t_stamp = ''t''\<rparr>) True (JObj [])
      [Begun 0, Finished 0, Collected 0 None]
      [\<lparr>vm_index = 1, vm_manifest_path = ''/b'', vm_priority = 0, vm_overrides = [], vm_id = ''b'', vm_enabled = True\<rparr>]
      (snd (open_checkpoint
        \<lparr>env_resolve = Inr, env_exists = (\<lambda>_. True), env_read = (\<lambda>_. None), env_tmp = (\<lambda>_. None),
          env_convert = (\<lambda>_. Inr []), env_show = (\<lambda>_. ''error'')\<rparr>
        (checkpoint_dir (save_checkpoint 0 ''s'' [''a''] [] 2 [] (CheckpointManager [] ''batch''))) ''batch''
        [\<lparr>vm_index = 0, vm_manifest_path = ''/a'', vm_priority = 0, vm_overrides = [], vm_id = ''a'', vm_enabled = True\<rparr>,
         \<lparr>vm_index = 1, vm_manifest_path = ''/b'', vm_priority = 0, vm_overrides = [], vm_id = ''b'', vm_enabled = True\<rparr>]
        (BatchOrchestrator ''/m.json'' True False)))) = Some cm \<and>
     should_skip_vm (CheckpointManager (checkpoint_dir cm) ''batch'') ''a'' = Inr False"
proof -
  let ?env = "\<lparr>env_resolve = Inr, env_exists = (\<lambda>_. True), env_read = (\<lambda>_. None), env_tmp = (\<lambda>_. None),
        env_convert = (\<lambda>_. Inr []), env_show = (\<lambda>_. ''error'')\<rparr> :: batch_env"
  let ?clk = "\<lambda>_. \<lparr>t_start = 1, t_stage = 2, t_end = 3, t_save = 4, t_stamp = ''t''\<rparr>"
  let ?b = "\<lparr>vm_index = 1, vm_manifest_path = ''/b'', vm_priority = 0, vm_overrides = [], vm_id = ''b'', vm_enabled = True\<rparr>"
  let ?vms = "[\<lparr>vm_index = 0, vm_manifest_path = ''/a'', vm_priority = 0, vm_overrides = [], vm_id = ''a'', vm_enabled = True\<rparr>, ?b]"
  let ?cm0 = "save_checkpoint 0 ''s'' [''a''] [] 2 [] (CheckpointManager [] ''batch'')"
  let ?st0 = "BatchOrchestrator ''/m.json'' True False" and ?d = "checkpoint_dir ?cm0"
  let ?r = "open_checkpoint ?env ?d ''batch'' ?vms ?st0"
  have saved: "dict_get ?d (checkpoint_file (CheckpointManager ?d ''batch'')) =
      Some (JsonDoc (checkpoint_doc 0 ''s'' ''batch'' [''a''] [] 2 []))"
    by (simp add: save_checkpoint_def CheckpointManager_def atomic_write_get)
  have "recorded ?d ''batch'' [\<lparr>r_vm_id = ''a'', r_manifest_path = [], r_success = True, r_duration = 0, r_error = None, r_report = []\<rparr>]"
    unfolding recorded_def using saved by (auto simp: checkpoint_file_name)
  note rec = this
  have skip: "should_skip_vm (CheckpointManager ?d ''batch'') ''a'' = Inr True" using recorded_skip [OF rec] by simp
  have "env_resolve ?env ''unknown'' = Inr ''unknown''" "bo_results ?st0 = []" by (simp_all add: BatchOrchestrator_def)
  from open_recorded [OF rec this, of ?vms] have "fst ?r = Inr [?b]" by simp
  then have op: "?r = (Inr [?b], snd ?r)" by (metis prod.collapse)
  have "enable_checkpoint ?st0" by (simp add: BatchOrchestrator_def)
  moreover have "collected [Begun 0, Finished 0, Collected 0 None] \<noteq> []"
    "set (collected [Begun 0, Finished 0, Collected 0 None]) \<subseteq> {x. fst x < length [?b]}" by simp_all
  ultimately show ?thesis
    using parallel_resume_forgets_earlier_runs [OF skip op, of "[Begun 0, Finished 0, Collected 0 None]" _ ?clk True "JObj []", OF _ _ _ refl]
    by blast
qed

end
