(* ===== verification/Daemon_Dedup.thy ===== *)
theory Daemon_Dedup
  imports H2K_Prelude
begin

text \<open>
  \<^verbatim>\<open>h2kvm/runtime/daemon/deduplicator.py\<close>: the record of processed files that keeps the daemon
  from converting a file twice.

  The SQLite table is the list of its rows with the next automatic key. The two statements used are
  modelled as SQL defines them: INSERT OR REPLACE deletes the rows that conflict with the new one on
  UNIQUE(filename, file_size) and adds it; SELECT ... ORDER BY processed_at DESC LIMIT 1 returns a
  matching row with the latest time (the first in table order among several). The ISO times that the
  table stores compare like the instants. Files on disk are given by their size and MD5 digest.
\<close>

type_synonym file_info = "string \<Rightarrow> (int \<times> string) option"

record dedup_row =
  row_id :: nat
  row_filename :: string
  row_filepath :: string
  row_file_size :: int
  row_md5_hash :: "string option"
  row_processed_at :: time
  row_output_path :: "string option"
  row_status :: string

record deduplicator =
  rows :: "dedup_row list"
  next_id :: nat
  use_md5 :: bool

definition FileDeduplicator :: "bool \<Rightarrow> deduplicator" where
  "FileDeduplicator md5 = \<lparr>rows = [], next_id = 1, use_md5 = md5\<rparr>"

definition calculate_md5 :: "file_info \<Rightarrow> string \<Rightarrow> string" where
  "calculate_md5 disk p = (case disk p of None \<Rightarrow> [] | Some (_, h) \<Rightarrow> h)"

text \<open>ORDER BY processed_at DESC LIMIT 1\<close>

fun latest :: "dedup_row list \<Rightarrow> dedup_row option" where
  "latest [] = None"
| "latest (r # rs) = (case latest rs of
      None \<Rightarrow> Some r
    | Some q \<Rightarrow> if row_processed_at q > row_processed_at r then Some q else Some r)"

definition select_latest :: "(dedup_row \<Rightarrow> bool) \<Rightarrow> dedup_row list \<Rightarrow> dedup_row option" where
  "select_latest P rs = latest (filter P rs)"

definition is_duplicate :: "file_info \<Rightarrow> string \<Rightarrow> deduplicator \<Rightarrow> py_exc + dedup_row option" where
  "is_duplicate disk p dd = (case disk p of
      None \<Rightarrow> Inl (FileNotFoundError p)
    | Some (n, _) \<Rightarrow>
        (case select_latest (\<lambda>r. row_filename r = path_name p \<and> row_file_size r = n) (rows dd) of
           Some r \<Rightarrow> Inr (Some r)
         | None \<Rightarrow>
             if use_md5 dd
             then Inr (select_latest (\<lambda>r. row_md5_hash r = Some (calculate_md5 disk p)) (rows dd))
             else Inr None))"

definition insert_or_replace :: "dedup_row \<Rightarrow> dedup_row list \<Rightarrow> dedup_row list" where
  "insert_or_replace r rs =
     filter (\<lambda>q. \<not> (row_filename q = row_filename r \<and> row_file_size q = row_file_size r)) rs @ [r]"

definition mark_processed :: "time \<Rightarrow> file_info \<Rightarrow> (string \<Rightarrow> string) \<Rightarrow> string \<Rightarrow> string option \<Rightarrow> string \<Rightarrow>
    deduplicator \<Rightarrow> deduplicator" where
  "mark_processed now disk absolute p out status dd =
     (let r = \<lparr>row_id = next_id dd, row_filename = path_name p, row_filepath = absolute p,
               row_file_size = (case disk p of None \<Rightarrow> 0 | Some (n, _) \<Rightarrow> n),
               row_md5_hash = (if use_md5 dd \<and> disk p \<noteq> None then Some (calculate_md5 disk p) else None),
               row_processed_at = now,
               row_output_path = (case out of None \<Rightarrow> None | Some q \<Rightarrow> Some q),
               row_status = status\<rparr>
      in dd\<lparr>rows := insert_or_replace r (rows dd), next_id := next_id dd + 1\<rparr>)"

record dedup_stats =
  total_tracked :: nat
  stat_successful :: "nat option"
  stat_failed :: "nat option"

text \<open>SUM over no rows is NULL.\<close>

definition sql_sum_when :: "(dedup_row \<Rightarrow> bool) \<Rightarrow> dedup_row list \<Rightarrow> nat option" where
  "sql_sum_when P rs = (if rs = [] then None else Some (length (filter P rs)))"

definition get_stats :: "deduplicator \<Rightarrow> dedup_stats" where
  "get_stats dd = \<lparr>total_tracked = length (rows dd),
     stat_successful = sql_sum_when (\<lambda>r. row_status r = ''success'') (rows dd),
     stat_failed = sql_sum_when (\<lambda>r. row_status r = ''failed'') (rows dd)\<rparr>"

definition cleanup_old_records :: "time \<Rightarrow> int \<Rightarrow> deduplicator \<Rightarrow> nat \<times> deduplicator" where
  "cleanup_old_records now days dd =
     (let cutoff = now - of_int (days * 24 * 3600);
          old = filter (\<lambda>r. row_processed_at r < cutoff) (rows dd)
      in (length old, dd\<lparr>rows := filter (\<lambda>r. \<not> row_processed_at r < cutoff) (rows dd)\<rparr>))"

section \<open>The table as a map\<close>

text \<open>The abstract state: at most one record per file name and size.\<close>

definition row_key :: "dedup_row \<Rightarrow> string \<times> int" where
  "row_key r = (row_filename r, row_file_size r)"

definition unique_rows :: "deduplicator \<Rightarrow> bool" where
  "unique_rows dd = distinct (map row_key (rows dd))"

definition abs_table :: "deduplicator \<Rightarrow> string \<times> int \<Rightarrow> dedup_row option" where
  "abs_table dd = map_of (map (\<lambda>r. (row_key r, r)) (rows dd))"

lemma abs_table_Some: "unique_rows dd \<Longrightarrow> abs_table dd k = Some r \<longleftrightarrow> r \<in> set (rows dd) \<and> row_key r = k"
  unfolding abs_table_def unique_rows_def
  by (subst map_of_eq_Some_iff) (auto simp: o_def)

lemma latest_None [simp]: "latest rs = None \<longleftrightarrow> rs = []"
  by (cases rs) (auto split: option.splits)

lemma latest_in: "latest rs = Some r \<Longrightarrow> r \<in> set rs"
  by (induction rs arbitrary: r) (auto split: option.splits if_splits)

lemma latest_max: "latest rs = Some r \<Longrightarrow> q \<in> set rs \<Longrightarrow> row_processed_at q \<le> row_processed_at r"
  by (induction rs arbitrary: r q) (force split: option.splits if_splits)+

lemma select_key:
  assumes "unique_rows dd"
  shows "select_latest (\<lambda>r. row_filename r = f \<and> row_file_size r = n) (rows dd) = abs_table dd (f, n)"
proof -
  let ?rs = "filter (\<lambda>r. row_filename r = f \<and> row_file_size r = n) (rows dd)"
  show ?thesis
  proof (cases "latest ?rs")
    case None
    then have "abs_table dd (f, n) \<noteq> Some r" for r
      by (auto simp: abs_table_Some [OF assms] filter_empty_conv row_key_def)
    with None show ?thesis by (cases "abs_table dd (f, n)") (auto simp: select_latest_def)
  next
    case (Some r)
    from latest_in [OF this] have "abs_table dd (f, n) = Some r"
      by (auto simp: abs_table_Some [OF assms] row_key_def)
    with Some show ?thesis by (simp add: select_latest_def)
  qed
qed

lemma unique_rows_mark [inv_intros]: "unique_rows dd \<Longrightarrow> unique_rows (mark_processed now disk ab p out st dd)"
  by (auto simp: unique_rows_def mark_processed_def insert_or_replace_def Let_def row_key_def distinct_map inj_on_def)

lemma unique_rows_cleanup [inv_intros]: "unique_rows dd \<Longrightarrow> unique_rows (snd (cleanup_old_records now days dd))"
  by (auto simp: unique_rows_def cleanup_old_records_def Let_def distinct_map inj_on_def)

text \<open>
  C22 (refinement). The SQL table implements a map from file name and size to the last record made
  for them. Marking a file updates the map at its key only; without MD5 the duplicate check is a
  lookup of the file's key; the cleanup removes exactly the records older than the cutoff and reports
  how many. Uniqueness, which all of this rests on, is kept by both operations.
\<close>
theorem dedup_refines_map:
  assumes "unique_rows dd" and "disk p = Some (n, h)"
    and "dd1 = mark_processed now disk ab p out st dd"
    and "cleanup_old_records now' days dd = (removed, dd2)"
  shows "unique_rows dd1 \<and> unique_rows dd2 \<and>
    (\<exists>r. abs_table dd1 = (abs_table dd)((path_name p, n) \<mapsto> r) \<and> row_status r = st \<and>
         row_processed_at r = now \<and> is_duplicate disk p dd1 = Inr (Some r)) \<and>
    (use_md5 dd \<or> is_duplicate disk p dd = Inr (abs_table dd (path_name p, n))) \<and>
    (\<forall>k. abs_table dd2 k = (case abs_table dd k of None \<Rightarrow> None
       | Some r \<Rightarrow> if row_processed_at r < now' - of_int (days * 24 * 3600) then None else Some r)) \<and>
    removed + length (rows dd2) = length (rows dd)"
proof -
  have u1: "unique_rows dd1" and u2: "unique_rows dd2"
    using assms unique_rows_mark unique_rows_cleanup [of dd now' days] by auto
  define r where "r = \<lparr>row_id = next_id dd, row_filename = path_name p, row_filepath = ab p,
     row_file_size = n, row_md5_hash = (if use_md5 dd then Some h else None), row_processed_at = now,
     row_output_path = out, row_status = st\<rparr>"
  have r: "row_key r = (path_name p, n)" "row_status r = st" "row_processed_at r = now"
    by (simp_all add: r_def row_key_def)
  have rows1: "rows dd1 = filter (\<lambda>q. row_key q \<noteq> row_key r) (rows dd) @ [r]"
    using assms(2,3) by (auto simp: mark_processed_def insert_or_replace_def r_def row_key_def
        calculate_md5_def Let_def split: option.splits)
  have "abs_table dd1 k = ((abs_table dd)((path_name p, n) \<mapsto> r)) k" for k
  proof -
    have "abs_table dd1 k = Some q \<longleftrightarrow> ((abs_table dd)((path_name p, n) \<mapsto> r)) k = Some q" for q
      using r by (auto simp: abs_table_Some [OF u1] abs_table_Some [OF assms(1)] rows1)
    then show ?thesis by (metis not_Some_eq)
  qed
  then have abs1: "abs_table dd1 = (abs_table dd)((path_name p, n) \<mapsto> r)" by blast
  have dup1: "is_duplicate disk p dd1 = Inr (Some r)"
    using assms(2) by (simp add: is_duplicate_def select_key [OF u1] abs1)
  have dup: "use_md5 dd \<or> is_duplicate disk p dd = Inr (abs_table dd (path_name p, n))"
    using assms(2) by (simp add: is_duplicate_def select_key [OF assms(1)] split: option.splits)
  let ?old = "\<lambda>r. row_processed_at r < now' - of_int (days * 24 * 3600)"
  have d2: "rows dd2 = filter (\<lambda>r. \<not> ?old r) (rows dd)" "removed = length (filter ?old (rows dd))"
    using assms(4) by (auto simp: cleanup_old_records_def Let_def)
  have abs2: "abs_table dd2 k = (case abs_table dd k of None \<Rightarrow> None | Some r \<Rightarrow> if ?old r then None else Some r)" for k
  proof (cases "abs_table dd k")
    case None
    then have "abs_table dd2 k \<noteq> Some q" for q
      using abs_table_Some [OF assms(1), of k] by (auto simp: abs_table_Some [OF u2] d2)
    with None show ?thesis by auto
  next
    case (Some q)
    then have q: "q \<in> set (rows dd)" "row_key q = k" by (auto simp: abs_table_Some [OF assms(1)])
    show ?thesis
    proof (cases "?old q")
      case True
      have "abs_table dd2 k \<noteq> Some x" for x
      proof
        assume "abs_table dd2 k = Some x"
        then have "\<not> ?old x" "abs_table dd k = Some x"
          by (auto simp: abs_table_Some [OF u2] abs_table_Some [OF assms(1)] d2)
        with Some True show False by simp
      qed
      with Some True show ?thesis by (cases "abs_table dd2 k") auto
    next
      case False
      then have "abs_table dd2 k = Some q" using q by (simp add: abs_table_Some [OF u2] d2)
      with Some False show ?thesis by simp
    qed
  qed
  have "removed + length (rows dd2) = length (rows dd)"
    unfolding d2 by (rule sum_length_filter_compl)
  with u1 u2 abs1 r dup1 dup abs2 show ?thesis by blast
qed

theorem dedup_refines_map_witness:
  "\<exists>r. is_duplicate (\<lambda>_. Some (10, ''h'')) ''/in/a.vmdk''
     (mark_processed 5 (\<lambda>_. Some (10, ''h'')) (\<lambda>p. p) ''/in/a.vmdk'' None ''failed'' (FileDeduplicator False)) = Inr (Some r) \<and>
   row_status r = ''failed''"
proof -
  have u: "unique_rows (FileDeduplicator False)" by (simp add: unique_rows_def FileDeduplicator_def)
  have c: "cleanup_old_records 0 1 (FileDeduplicator False) = (0, FileDeduplicator False)"
    by (simp add: cleanup_old_records_def FileDeduplicator_def)
  from dedup_refines_map [OF u _ refl c, of "\<lambda>_. Some (10, ''h'')" "''/in/a.vmdk''" 10 "''h''" 5 "\<lambda>p. p" None "''failed''"]
  show ?thesis by auto
qed

text \<open>A record of a failed conversion counts as a duplicate like any other, so the daemon does not try
  the file again; and the statistics of an empty table have no counts, not zero.\<close>

lemma empty_stats: "get_stats (FileDeduplicator md5) =
    \<lparr>total_tracked = 0, stat_successful = None, stat_failed = None\<rparr>"
  by (simp add: get_stats_def FileDeduplicator_def sql_sum_when_def)

end
