(* ===== verification/Hook_Template.thy ===== *)
theory Hook_Template
  imports H2K_Prelude "HOL-Library.List_Lexorder" "HOL-Library.Char_ord"
begin

text \<open>
  \<^verbatim>\<open>h2kvm/infrastructure/hooks/template_engine.py\<close>: substitution of \<^verbatim>\<open>{{ name }}\<close>
  placeholders in hook definitions; and \<^verbatim>\<open>h2kvm/core/list_utils.py\<close>.

  The pattern is matched as Python's \<^verbatim>\<open>re\<close> does: its parts \<^verbatim>\<open>\s*\<close>,
  \<^verbatim>\<open>\w+\<close>, \<^verbatim>\<open>\s*\<close> consume disjoint classes of characters, so the greedy match is
  the only one. A variable's value is the text \<^verbatim>\<open>str(value)\<close>, or \<open>None\<close> for Python's None.
\<close>

section \<open>Substitution\<close>

type_synonym variables = "(string, string option) dict"

text \<open>The match at the start of a string: the name, the text matched and the rest.\<close>

definition match_at :: "string \<Rightarrow> (string \<times> string \<times> string) option" where
  "match_at s =
     (if \<not> prefix ''{{'' s then None
      else (let r1 = dropWhile py_isspace (drop 2 s);
                name = takeWhile py_isword r1;
                r2 = dropWhile py_isspace (dropWhile py_isword r1)
            in if name \<noteq> [] \<and> prefix ''}}'' r2
               then (let rest = drop 2 r2 in Some (name, take (length s - length rest) s, rest))
               else None))"

lemma match_at_length:
  assumes "match_at s = Some (name, lit, rest)"
  shows "length rest < length s"
proof -
  let ?r2 = "dropWhile py_isspace (dropWhile py_isword (dropWhile py_isspace (drop 2 s)))"
  have "length ?r2 \<le> length (drop 2 s)" by (meson length_dropWhile_le le_trans)
  moreover have "rest = drop 2 ?r2" "prefix ''{{'' s"
    using assms by (auto simp: match_at_def Let_def split: if_splits)
  ultimately show ?thesis by (cases s) auto
qed

text \<open>The text that replaces a match, or the exception.\<close>

definition missing_variable :: "string \<Rightarrow> py_exc" where
  "missing_variable n = ValueError (''Variable '' @ [CHR 0x27] @ n @ [CHR 0x27] @ '' not found in context'')"

definition replacer :: "variables \<Rightarrow> bool \<Rightarrow> string \<Rightarrow> string \<Rightarrow> py_exc + string" where
  "replacer vars strict name lit = (case dict_get vars name of
      Some v \<Rightarrow> Inr (case v of Some t \<Rightarrow> t | None \<Rightarrow> [])
    | None \<Rightarrow> if strict then Inl (missing_variable name) else Inr lit)"

function substitute :: "variables \<Rightarrow> bool \<Rightarrow> string \<Rightarrow> py_exc + string" where
  "substitute vars strict [] = Inr []"
| "substitute vars strict (c # cs) =
     (case match_at (c # cs) of
        None \<Rightarrow> (case substitute vars strict cs of Inl e \<Rightarrow> Inl e | Inr t \<Rightarrow> Inr (c # t))
      | Some (name, lit, rest) \<Rightarrow>
          (case replacer vars strict name lit of
             Inl e \<Rightarrow> Inl e
           | Inr r \<Rightarrow> (case substitute vars strict rest of Inl e \<Rightarrow> Inl e | Inr t \<Rightarrow> Inr (r @ t))))"
  by pat_completeness auto
termination
  by (relation "measure (\<lambda>(_, _, s). length s)") (use match_at_length in force)+

function find_names :: "string \<Rightarrow> string list" where
  "find_names [] = []"
| "find_names (c # cs) =
     (case match_at (c # cs) of
        None \<Rightarrow> find_names cs
      | Some (name, _, rest) \<Rightarrow> name # find_names rest)"
  by pat_completeness auto
termination
  by (relation "measure length") (use match_at_length in force)+

section \<open>Lists\<close>

text \<open>\<^verbatim>\<open>dedup_preserve_order\<close>: the loop with its set of seen items.\<close>

fun dedup_loop :: "'a list \<Rightarrow> 'a set \<Rightarrow> 'a list \<Rightarrow> 'a list" where
  "dedup_loop [] seen result = result"
| "dedup_loop (x # xs) seen result =
     (if x \<notin> seen then dedup_loop xs (insert x seen) (result @ [x]) else dedup_loop xs seen result)"

definition dedup_preserve_order :: "'a list \<Rightarrow> 'a list" where
  "dedup_preserve_order xs = dedup_loop xs {} []"

definition dedup_preserve_order_str :: "string list \<Rightarrow> string list" where
  "dedup_preserve_order_str xs = dedup_loop xs {} []"

text \<open>\<^verbatim>\<open>list(set(...))\<close>: each name once, in an order that Python leaves open.\<close>

definition extract_variables :: "string \<Rightarrow> string list" where
  "extract_variables t = remdups (find_names t)"

definition validate_template :: "string \<Rightarrow> string list \<Rightarrow> bool \<times> string list" where
  "validate_template t required =
     (let missing = filter (\<lambda>n. n \<notin> set (extract_variables t)) (remdups required)
      in (missing = [], sort missing))"

section \<open>Nested structures\<close>

text \<open>In \<^verbatim>\<open>substitute_dict\<close> the items of a list are substituted when they are strings and kept
  otherwise.\<close>

fun subst_items :: "variables \<Rightarrow> bool \<Rightarrow> json list \<Rightarrow> py_exc + json list" where
  "subst_items vars strict [] = Inr []"
| "subst_items vars strict (JStr s # xs) =
     (case substitute vars strict s of
        Inl e \<Rightarrow> Inl e
      | Inr t \<Rightarrow> (case subst_items vars strict xs of Inl e \<Rightarrow> Inl e | Inr ys \<Rightarrow> Inr (JStr t # ys)))"
| "subst_items vars strict (x # xs) =
     (case subst_items vars strict xs of Inl e \<Rightarrow> Inl e | Inr ys \<Rightarrow> Inr (x # ys))"

fun substitute_dict :: "variables \<Rightarrow> bool \<Rightarrow> (string \<times> json) list \<Rightarrow> py_exc + (string \<times> json) list" where
  "substitute_dict vars strict [] = Inr []"
| "substitute_dict vars strict ((k, v) # es) =
     (case (case v of
              JStr s \<Rightarrow> map_sum id JStr (substitute vars strict s)
            | JObj fs \<Rightarrow> map_sum id JObj (substitute_dict vars strict fs)
            | JList xs \<Rightarrow> map_sum id JList (subst_items vars strict xs)
            | _ \<Rightarrow> Inr v) of
        Inl e \<Rightarrow> Inl e
      | Inr w \<Rightarrow>
          (case substitute_dict vars strict es of Inl e \<Rightarrow> Inl e | Inr ws \<Rightarrow> Inr ((k, w) # ws)))"

fun substitute_list :: "variables \<Rightarrow> bool \<Rightarrow> json list \<Rightarrow> py_exc + json list" where
  "substitute_list vars strict [] = Inr []"
| "substitute_list vars strict (x # xs) =
     (case (case x of
              JStr s \<Rightarrow> map_sum id JStr (substitute vars strict s)
            | JObj fs \<Rightarrow> map_sum id JObj (substitute_dict vars strict fs)
            | JList ys \<Rightarrow> map_sum id JList (substitute_list vars strict ys)
            | _ \<Rightarrow> Inr x) of
        Inl e \<Rightarrow> Inl e
      | Inr y \<Rightarrow>
          (case substitute_list vars strict xs of Inl e \<Rightarrow> Inl e | Inr ys \<Rightarrow> Inr (y # ys)))"

section \<open>Properties\<close>

lemma dedup_loop_filter:
  "dedup_loop xs seen acc = acc @ filter (\<lambda>x. x \<notin> seen) (rev (remdups (rev xs)))"
proof (induction xs arbitrary: seen acc)
  case (Cons x xs)
  have "rev (remdups (rev (x # xs))) = x # filter (\<lambda>y. y \<noteq> x) (rev (remdups (rev xs)))"
  proof -
    have "remdups (ys @ [x]) = filter (\<lambda>y. y \<noteq> x) (remdups ys) @ [x]" for ys
      by (induction ys) auto
    then show ?thesis by (simp add: rev_filter)
  qed
  with Cons show ?case by (auto intro!: filter_cong)
qed simp

lemma match_at_text: "match_at s = Some (name, lit, rest) \<Longrightarrow> s = lit @ rest"
proof -
  assume m: "match_at s = Some (name, lit, rest)"
  let ?r2 = "dropWhile py_isspace (dropWhile py_isword (dropWhile py_isspace (drop 2 s)))"
  from m have rest: "rest = drop 2 ?r2" and lit: "lit = take (length s - length rest) s"
    by (auto simp: match_at_def Let_def split: if_splits)
  have "suffix rest s"
    unfolding rest by (intro suffix_order.trans [OF suffix_drop] suffix_order.trans [OF suffix_dropWhile] suffix_drop)
  then obtain zs where "s = zs @ rest" by (auto elim: suffixE)
  with lit show "s = lit @ rest" by simp
qed

lemma substitute_identity:
  "set (find_names t) \<inter> dom (map_of vars) = {} \<Longrightarrow> substitute vars False t = Inr t"
proof (induction vars False t rule: substitute.induct)
  case (2 vars c cs)
  show ?case
  proof (cases "match_at (c # cs)")
    case None
    with 2 show ?thesis by simp
  next
    case (Some m)
    obtain name lit rest where m: "m = (name, lit, rest)" by (cases m)
    with Some 2 have "dict_get vars name = None" by auto
    then have r: "replacer vars False name lit = Inr lit" by (simp add: replacer_def)
    have "substitute vars False rest = Inr rest" using 2 Some m r by simp
    with Some m r match_at_text show ?thesis by simp
  qed
qed simp

lemma substitute_nonstrict_ok: "\<exists>s. substitute vars False t = Inr s"
proof (induction vars False t rule: substitute.induct)
  case (2 vars c cs)
  have r: "\<exists>x. replacer vars False n y = Inr x" for n y by (simp add: replacer_def split: option.splits)
  show ?case
  proof (cases "match_at (c # cs)")
    case None
    with 2 show ?thesis by auto
  next
    case (Some m)
    obtain name lit rest where m: "m = (name, lit, rest)" by (cases m)
    obtain x where x: "replacer vars False name lit = Inr x" using r by blast
    then have "\<exists>s. substitute vars False rest = Inr s" using 2 Some m by simp
    with Some m x show ?thesis by auto
  qed
qed simp

lemma substitute_strict_iff:
  "if set (find_names t) \<subseteq> dom (map_of vars) then substitute vars True t = substitute vars False t
   else \<exists>n. n \<in> set (find_names t) \<and> n \<notin> dom (map_of vars) \<and>
        substitute vars True t = Inl (missing_variable n)"
proof (induction t rule: find_names.induct)
  case (2 c cs)
  show ?case
  proof (cases "match_at (c # cs)")
    case None
    with 2 show ?thesis by (auto split: if_splits)
  next
    case (Some m)
    obtain name lit rest where m: "m = (name, lit, rest)" by (cases m)
    show ?thesis
    proof (cases "dict_get vars name")
      case None
      with Some m show ?thesis by (auto simp: replacer_def)
    next
      case v: (Some v)
      then obtain x where x: "replacer vars True name lit = Inr x" "replacer vars False name lit = Inr x"
        by (auto simp: replacer_def)
      have IH: "if set (find_names rest) \<subseteq> dom (map_of vars) then substitute vars True rest = substitute vars False rest
        else \<exists>n. n \<in> set (find_names rest) \<and> n \<notin> dom (map_of vars) \<and>
          substitute vars True rest = Inl (missing_variable n)" using 2 Some m by simp
      show ?thesis
      proof (cases "set (find_names rest) \<subseteq> dom (map_of vars)")
        case True
        with IH x Some m v show ?thesis by auto
      next
        case False
        with IH obtain n where n: "n \<in> set (find_names rest)" "n \<notin> dom (map_of vars)"
          "substitute vars True rest = Inl (missing_variable n)" by auto
        with False x Some m show ?thesis by (auto intro!: exI [of _ n])
      qed
    qed
  qed
qed simp

text \<open>
  Strict substitution fails exactly when the template mentions an undefined
  variable, and then names one; otherwise it gives the same text as lenient substitution. Lenient
  substitution never fails, and a template none of whose variables is defined comes back unchanged.
\<close>
theorem template_substitution:
  "(if set (extract_variables t) \<subseteq> dom (map_of vars) then substitute vars True t = substitute vars False t
    else \<exists>n. n \<in> set (extract_variables t) \<and> n \<notin> dom (map_of vars) \<and>
         substitute vars True t = Inl (missing_variable n)) \<and>
   is_ok (substitute vars False t) \<and>
   (if set (extract_variables t) \<inter> dom (map_of vars) = {} then substitute vars False t = Inr t else True)"
proof -
  have "set (extract_variables t) = set (find_names t)" by (simp add: extract_variables_def)
  moreover have "is_ok (substitute vars False t)" using substitute_nonstrict_ok [of vars t] by auto
  ultimately show ?thesis using substitute_strict_iff [of t vars] substitute_identity [of t vars] by simp
qed

lemma subseq_rev: "subseq xs ys \<Longrightarrow> subseq (rev xs) (rev ys)"
  by (induction rule: list_emb.induct) (auto intro: subseq_rev_drop_many)

text \<open>
  Removing duplicates with a set of seen items keeps exactly the first occurrence
  of every item, in order.
\<close>
theorem dedup_keeps_first_occurrences:
  "dedup_preserve_order xs = rev (remdups (rev xs)) \<and> distinct (dedup_preserve_order xs) \<and>
   set (dedup_preserve_order xs) = set xs \<and> subseq (dedup_preserve_order xs) xs \<and>
   dedup_preserve_order_str ys = dedup_preserve_order ys"
proof -
  have e: "dedup_preserve_order xs = rev (remdups (rev xs))"
    by (simp add: dedup_preserve_order_def dedup_loop_filter)
  have "subseq (remdups zs) zs" for zs :: "'a list"
    by (induction zs) (auto intro: list_emb_Cons)
  then have "subseq (rev (remdups (rev xs))) xs" by (metis rev_rev_ident subseq_rev)
  with e show ?thesis by (simp add: dedup_preserve_order_str_def dedup_preserve_order_def)
qed

text \<open>Validation reports the required names that do not occur, without repetition.\<close>

lemma validate_template_spec:
  "fst (validate_template t req) \<longleftrightarrow> set req \<subseteq> set (extract_variables t)"
  "set (snd (validate_template t req)) = set req - set (extract_variables t)"
  "distinct (snd (validate_template t req))"
  by (auto simp: validate_template_def Let_def filter_empty_conv)

text \<open>Strings inside a dictionary inside a list are not substituted, although the documentation
  promises all string values.\<close>

lemma nested_dict_in_list_not_substituted:
  "substitute_dict vars strict [(k, JList [JObj fs])] = Inr [(k, JList [JObj fs])]"
  by simp

end
