(* ===== verification/Hook_Runner.thy ===== *)
theory Hook_Runner
  imports Hook_Template Py_Text
begin

text \<open>
  The hooks of a pipeline (\<^verbatim>\<open>h2kvm/infrastructure/hooks/hook_types.py\<close> and
  \<^verbatim>\<open>hook_runner.py\<close>): creation and execution of script, Python and HTTP hooks, their retries, and
  the execution of all hooks of a stage. Processes, modules and requests are the environment; the n-th
  execution of a run has its own environment, so that a retried hook may fare differently. The runner
  counts the executions and keeps the pauses it made.

  \<^verbatim>\<open>HookExecutionError\<close> is a dataclass whose first field is the exit code: where the code passes a text
  as its only argument, the text becomes the code and the message stays \<^verbatim>\<open>error\<close>.
\<close>

section \<open>Results and errors\<close>

record hook_result =
  hr_success :: bool
  hr_duration :: real
  hr_output :: "string option"
  hr_error :: "string option"
  hr_return_code :: "int option"

datatype hook_exc = HookExecutionError string | Unexpected py_exc

definition positional_error :: "string \<Rightarrow> hook_exc" where
  "positional_error text = HookExecutionError ''error''"

definition failed_result :: "string \<Rightarrow> hook_result" where
  "failed_result e = \<lparr>hr_success = False, hr_duration = 0, hr_output = None, hr_error = Some e, hr_return_code = None\<rparr>"

section \<open>Environment\<close>

datatype run_outcome = Exited int string string | RunTimeout | RunFailed string
datatype call_outcome = Returned json | CallTimeout | CallRaised string
datatype python_target = NoModule | NoFunction | NotCallable | Target "(string \<times> json) list \<Rightarrow> call_outcome"
datatype http_outcome = Response int string | HttpTimeout | HttpFailed string

record hook_env =
  he_resolve :: "string \<Rightarrow> string"
  he_exists :: "string \<Rightarrow> bool"
  he_is_file :: "string \<Rightarrow> bool"
  he_environ :: "(string, string) dict"
  he_str :: "json \<Rightarrow> string"
  he_run :: "string list \<Rightarrow> (string, string) dict \<Rightarrow> string option \<Rightarrow> json \<Rightarrow> run_outcome"
  he_python :: "string \<Rightarrow> string \<Rightarrow> python_target"
  he_requests :: bool
  he_http :: "string \<Rightarrow> string \<Rightarrow> (string, string) dict \<Rightarrow> (string \<times> json) list \<Rightarrow> json \<Rightarrow> http_outcome"
  he_elapsed :: real

section \<open>Hooks\<close>

datatype hook_kind = ScriptHook | PythonHook | HttpHook

record hook =
  hk_kind :: hook_kind
  hk_config :: "(string \<times> json) list"
  hk_context :: variables
  hk_timeout :: json
  hk_continue :: bool

definition BaseHook :: "hook_kind \<Rightarrow> (string \<times> json) list \<Rightarrow> variables \<Rightarrow> hook" where
  "BaseHook kind config ctx = \<lparr>hk_kind = kind, hk_config = config, hk_context = ctx,
     hk_timeout = json_get (JObj config) ''timeout'' (JInt 300), hk_continue = truthy (json_get (JObj config) ''continue_on_error'' (JBool False))\<rparr>"

definition create_hook :: "json \<Rightarrow> variables \<Rightarrow> py_exc + hook" where
  "create_hook hook_config ctx = (case hook_config of
      JObj c \<Rightarrow>
        (let t = json_get hook_config ''type'' JNull
         in if \<not> truthy t then Inl (ValueError ''Hook configuration must have a type field'')
            else (case t of
              JStr s \<Rightarrow>
                (let kind = py_lower s
                 in if kind = ''script''
                    then if dict_has c ''path'' then Inr (BaseHook ScriptHook c ctx) else Inl (ValueError ''Script hook requires path field'')
                    else if kind = ''python''
                    then if dict_has c ''module'' \<and> dict_has c ''function'' then Inr (BaseHook PythonHook c ctx)
                         else Inl (ValueError ''Python hook requires module and function fields'')
                    else if kind = ''http''
                    then if dict_has c ''url'' then Inr (BaseHook HttpHook c ctx) else Inl (ValueError ''HTTP hook requires url field'')
                    else Inl (ValueError (''Unknown hook type: '' @ kind)))
            | _ \<Rightarrow> Inl (AttributeError ''lower'')))
    | _ \<Rightarrow> Inl (AttributeError ''get''))"

definition substitute_variables :: "hook \<Rightarrow> string \<Rightarrow> py_exc + string" where
  "substitute_variables h template = substitute (hk_context h) False template"

definition need_text :: "json \<Rightarrow> py_exc + string" where
  "need_text v = (case v of JStr s \<Rightarrow> Inr s | _ \<Rightarrow> Inl (TypeError ''expected str''))"

definition need_dict :: "json \<Rightarrow> py_exc + (string \<times> json) list" where
  "need_dict v = (case v of JObj fs \<Rightarrow> Inr fs | _ \<Rightarrow> Inl (AttributeError ''items''))"

definition need_list :: "json \<Rightarrow> py_exc + json list" where
  "need_list v = (case v of JList xs \<Rightarrow> Inr xs | _ \<Rightarrow> Inl (TypeError ''not iterable''))"

text \<open>\<^verbatim>\<open>{key: substitute(str(value)) for ...}\<close>\<close>

definition subst_strings :: "hook_env \<Rightarrow> hook \<Rightarrow> (string \<times> json) list \<Rightarrow> py_exc + (string, string) dict" where
  "subst_strings env h fs = sum_map (\<lambda>(k, v). sum_bind (substitute_variables h (he_str env v)) (\<lambda>t. Inr (k, t))) fs"

definition dict_merge :: "(string, string) dict \<Rightarrow> (string, string) dict \<Rightarrow> (string, string) dict" where
  "dict_merge d e = fold (\<lambda>(k, v). dict_set k v) e d"

definition as_hook :: "py_exc + 'a \<Rightarrow> hook_exc + 'a" where
  "as_hook r = map_sum Unexpected id r"

definition script_command :: "hook_env \<Rightarrow> hook \<Rightarrow> string \<Rightarrow> py_exc + string list" where
  "script_command env h script =
     (let args = json_get (JObj (hk_config h)) ''args'' (JList [])
      in if truthy args
         then sum_bind (need_list args) (\<lambda>xs. sum_bind (sum_map (\<lambda>a. substitute_variables h (he_str env a)) xs) (\<lambda>ts. Inr (script # ts)))
         else Inr [script])"

definition script_cwd :: "hook_env \<Rightarrow> hook \<Rightarrow> hook_exc + string option" where
  "script_cwd env h =
     (let wd = json_get (JObj (hk_config h)) ''working_directory'' JNull
      in if truthy wd
         then sum_bind (as_hook (substitute_variables h (he_str env wd)))
                (\<lambda>d. if he_exists env d then Inr (Some d) else Inl (positional_error (''Working directory not found: '' @ d)))
         else Inr None)"

definition script_run :: "hook_env \<Rightarrow> hook \<Rightarrow> string list \<Rightarrow> (string, string) dict \<Rightarrow> string option \<Rightarrow> hook_exc + hook_result" where
  "script_run env h cmd full_env cwd = (case he_run env cmd full_env cwd (hk_timeout h) of
      Exited rc out err \<Rightarrow> Inr \<lparr>hr_success = (rc = 0), hr_duration = he_elapsed env, hr_output = Some out,
                                hr_error = (if rc = 0 then None else Some err), hr_return_code = Some rc\<rparr>
    | RunTimeout \<Rightarrow> Inl (positional_error ''Script hook timed out'')
    | RunFailed e \<Rightarrow> Inl (positional_error (''Script hook execution failed: '' @ e)))"

definition execute_script :: "hook_env \<Rightarrow> hook \<Rightarrow> hook_exc + hook_result" where
  "execute_script env h =
     sum_bind (as_hook (sum_bind (json_item (JObj (hk_config h)) ''path'') need_text)) (\<lambda>p.
       let script = he_resolve env p
       in if \<not> he_exists env script then Inl (positional_error (''Script not found: '' @ script))
          else if \<not> he_is_file env script then Inl (positional_error (''Script path is not a file: '' @ script))
          else sum_bind (as_hook (script_command env h script)) (\<lambda>cmd.
               sum_bind (as_hook (sum_bind (need_dict (json_get (JObj (hk_config h)) ''env'' (JObj []))) (subst_strings env h))) (\<lambda>subst_env.
               sum_bind (script_cwd env h) (\<lambda>cwd. script_run env h cmd (dict_merge (he_environ env) subst_env) cwd))))"

definition python_result :: "hook_env \<Rightarrow> json \<Rightarrow> hook_result" where
  "python_result env r =
     (let (ok, out) = (case r of
            JBool b \<Rightarrow> (b, he_str env r)
          | JObj fs \<Rightarrow> (truthy (json_get r ''success'' (JBool True)), he_str env (json_get r ''output'' (JStr [])))
          | JNull \<Rightarrow> (True, [])
          | _ \<Rightarrow> (True, he_str env r))
      in \<lparr>hr_success = ok, hr_duration = he_elapsed env, hr_output = Some out, hr_error = (if ok then None else Some out), hr_return_code = None\<rparr>)"

text \<open>Every exception after the start of the clock, also one that is a hook error already, is wrapped.\<close>

definition execute_python :: "hook_env \<Rightarrow> hook \<Rightarrow> hook_exc + hook_result" where
  "execute_python env h =
     sum_bind (as_hook (sum_bind (json_item (JObj (hk_config h)) ''module'') need_text)) (\<lambda>m.
     sum_bind (as_hook (sum_bind (json_item (JObj (hk_config h)) ''function'') need_text)) (\<lambda>f.
       case he_python env m f of
         Target call \<Rightarrow>
           (case sum_bind (need_dict (json_get (JObj (hk_config h)) ''args'' (JObj []))) (substitute_dict (hk_context h) False) of
              Inl e \<Rightarrow> Inl (positional_error (''Python hook execution failed: '' @ exc_text e))
            | Inr args \<Rightarrow> (case call args of
                Returned r \<Rightarrow> Inr (python_result env r)
              | CallTimeout \<Rightarrow> Inl (positional_error ''Python hook timed out'')
              | CallRaised e \<Rightarrow> Inl (positional_error (''Python hook execution failed: '' @ e))))
       | _ \<Rightarrow> Inl (positional_error ''Python hook execution failed'')))"

definition http_result :: "hook_env \<Rightarrow> int \<Rightarrow> string \<Rightarrow> hook_result" where
  "http_result env status text =
     (let ok = (200 \<le> status \<and> status < 300)
      in \<lparr>hr_success = ok, hr_duration = he_elapsed env, hr_output = (if ok then Some text else None), hr_error = (if ok then None else Some text),
          hr_return_code = Some status\<rparr>)"

definition execute_http :: "hook_env \<Rightarrow> hook \<Rightarrow> hook_exc + hook_result" where
  "execute_http env h =
     (if \<not> he_requests env then Inl (positional_error ''requests library not installed'')
      else sum_bind (as_hook (sum_bind (sum_bind (json_item (JObj (hk_config h)) ''url'') need_text) (substitute_variables h))) (\<lambda>url.
           sum_bind (as_hook (need_text (json_get (JObj (hk_config h)) ''method'' (JStr ''POST'')))) (\<lambda>m.
           sum_bind (as_hook (sum_bind (need_dict (json_get (JObj (hk_config h)) ''headers'' (JObj []))) (subst_strings env h))) (\<lambda>headers.
           sum_bind (as_hook (sum_bind (need_dict (json_get (JObj (hk_config h)) ''body'' (JObj []))) (substitute_dict (hk_context h) False))) (\<lambda>body.
             case he_http env (py_upper m) url headers body (hk_timeout h) of
               Response status text \<Rightarrow> Inr (http_result env status text)
             | HttpTimeout \<Rightarrow> Inl (positional_error ''HTTP hook timed out'')
             | HttpFailed e \<Rightarrow> Inl (positional_error (''HTTP hook execution failed: '' @ e)))))))"

definition execute_hook :: "hook_env \<Rightarrow> hook \<Rightarrow> hook_exc + hook_result" where
  "execute_hook env h = (case hk_kind h of ScriptHook \<Rightarrow> execute_script env h | PythonHook \<Rightarrow> execute_python env h | HttpHook \<Rightarrow> execute_http env h)"


section \<open>Retries\<close>

text \<open>The executions and the pauses so far.\<close>

record hook_log =
  hl_runs :: nat
  hl_sleeps :: "real list"

record retry_settings =
  rt_max_retries :: int
  rt_initial_delay :: json
  rt_strategy :: json
  rt_max_delay :: json
  rt_on_timeout :: bool

fun as_num :: "json \<Rightarrow> real option" where
  "as_num (JInt i) = Some (real_of_int i)"
| "as_num (JNum x) = Some x"
| "as_num (JBool b) = Some (if b then 1 else 0)"
| "as_num _ = None"

definition retry_settings_of :: "json \<Rightarrow> py_exc + retry_settings" where
  "retry_settings_of hook_config = (case json_get hook_config ''retry'' (JObj []) of
      JObj rc \<Rightarrow>
        (case as_int (json_get (JObj rc) ''max_retries'' (JInt 0)) of
           Some n \<Rightarrow> Inr \<lparr>rt_max_retries = n, rt_initial_delay = json_get (JObj rc) ''initial_delay'' (JNum 1),
                         rt_strategy = json_get (JObj rc) ''strategy'' (JStr ''exponential''),
                         rt_max_delay = json_get (JObj rc) ''max_delay'' (JNum 60), rt_on_timeout = truthy (json_get (JObj rc) ''retry_on_timeout'' (JBool True))\<rparr>
         | None \<Rightarrow> Inl (TypeError ''max_retries''))
    | _ \<Rightarrow> Inl (AttributeError ''get''))"

definition retry_delay :: "retry_settings \<Rightarrow> nat \<Rightarrow> py_exc + real" where
  "retry_delay rt attempt =
     (let d = (case (as_num (rt_initial_delay rt), as_num (rt_max_delay rt)) of
          (Some i, Some m) \<Rightarrow> if rt_strategy rt = JStr ''exponential'' then Inr (min (i * 2 ^ (attempt - 1)) m)
                              else if rt_strategy rt = JStr ''linear'' then Inr (min (i * real attempt) m)
                              else Inr i
        | (Some i, None) \<Rightarrow> if rt_strategy rt = JStr ''exponential'' \<or> rt_strategy rt = JStr ''linear'' then Inl (TypeError ''max_delay'') else Inr i
        | _ \<Rightarrow> Inl (TypeError ''initial_delay''))
      in sum_bind d (\<lambda>x. if x < 0 then Inl (ValueError ''sleep length must be non-negative'') else Inr x))"

definition pause :: "retry_settings \<Rightarrow> nat \<Rightarrow> hook_log \<Rightarrow> py_exc + hook_log" where
  "pause rt attempt lg = (if attempt = 0 then Inr lg else map_sum id (\<lambda>d. lg\<lparr>hl_sleeps := hl_sleeps lg @ [d]\<rparr>) (retry_delay rt attempt))"

text \<open>The loop over the attempts; \<open>n\<close> attempts are left.\<close>

fun attempt_loop :: "(nat \<Rightarrow> hook_env) \<Rightarrow> hook \<Rightarrow> retry_settings \<Rightarrow> nat \<Rightarrow> nat \<Rightarrow> hook_result option \<Rightarrow> string option \<Rightarrow> hook_log \<Rightarrow>
    (hook_exc, hook_result, hook_log) outcome" where
  "attempt_loop w h rt 0 attempt last_result last_error lg = (Inr (case last_result of
      Some r \<Rightarrow> r
    | None \<Rightarrow> failed_result (case last_error of Some e \<Rightarrow> e | None \<Rightarrow> ''All retries failed'')), lg)"
| "attempt_loop w h rt (Suc n) attempt last_result last_error lg = (case pause rt attempt lg of
      Inl e \<Rightarrow> (Inl (Unexpected e), lg)
    | Inr lg1 \<Rightarrow>
        (let lg2 = lg1\<lparr>hl_runs := Suc (hl_runs lg1)\<rparr>
         in case execute_hook (w (hl_runs lg1)) h of
              Inr r \<Rightarrow> if hr_success r then (Inr r, lg2) else attempt_loop w h rt n (Suc attempt) (Some r) last_error lg2
            | Inl (HookExecutionError e) \<Rightarrow>
                if \<not> rt_on_timeout rt \<or> n = 0 then (Inl (HookExecutionError e), lg2)
                else attempt_loop w h rt n (Suc attempt) last_result (Some e) lg2
            | Inl (Unexpected e) \<Rightarrow> (Inl (Unexpected e), lg2)))"

definition execute_single_hook :: "(nat \<Rightarrow> hook_env) \<Rightarrow> hook \<Rightarrow> json \<Rightarrow> hook_log \<Rightarrow> (hook_exc, hook_result, hook_log) outcome" where
  "execute_single_hook w h hook_config lg = (case retry_settings_of hook_config of
      Inl e \<Rightarrow> (Inl (Unexpected e), lg)
    | Inr rt \<Rightarrow> attempt_loop w h rt (nat (rt_max_retries rt + 1)) 0 None None lg)"

section \<open>The runner\<close>

definition SUPPORTED_STAGES :: "string list" where
  "SUPPORTED_STAGES = [''pre_extraction'', ''post_extraction'', ''pre_fix'', ''post_fix'', ''pre_convert'', ''post_convert'', ''post_validate'']"

record hook_runner =
  hooks_config :: "(string \<times> json) list"
  hook_results :: "(string, hook_result list) dict"
  run_log :: hook_log

definition HookRunner :: "(string \<times> json) list \<Rightarrow> hook_log \<Rightarrow> hook_runner" where
  "HookRunner config lg = \<lparr>hooks_config = config, hook_results = [], run_log = lg\<rparr>"

definition stage_results :: "hook_runner \<Rightarrow> string \<Rightarrow> hook_result list" where
  "stage_results hr stage = (case dict_get (hook_results hr) stage of None \<Rightarrow> [] | Some rs \<Rightarrow> rs)"

definition append_result :: "string \<Rightarrow> hook_result \<Rightarrow> hook_runner \<Rightarrow> hook_runner" where
  "append_result stage r hr = hr\<lparr>hook_results := dict_set stage (stage_results hr stage @ [r]) (hook_results hr)\<rparr>"

definition hook_id :: "string \<Rightarrow> nat \<Rightarrow> string" where
  "hook_id stage idx = stage @ ''['' @ nat_str idx @ '']''"

definition not_continued :: "string \<Rightarrow> nat \<Rightarrow> string" where
  "not_continued stage idx = ''Hook '' @ hook_id stage idx @ '' failed and continue_on_error=False''"

definition unexpected_text :: "string \<Rightarrow> nat \<Rightarrow> py_exc \<Rightarrow> string" where
  "unexpected_text stage idx e = ''Hook '' @ [CHR 0x27] @ hook_id stage idx @ [CHR 0x27] @ '' at stage '' @ [CHR 0x27] @ stage @ [CHR 0x27] @
     '' failed with an unexpected error: '' @ exc_text e @ ''. Check the hook configuration in your manifest YAML. '' @
     ''If this is a shell hook, verify the script exists and is executable.''"

definition run_one_hook :: "(nat \<Rightarrow> hook_env) \<Rightarrow> json \<Rightarrow> variables \<Rightarrow> hook_runner \<Rightarrow> (hook_exc, hook \<times> hook_result, hook_runner) outcome" where
  "run_one_hook w hook_config ctx hr = (case create_hook hook_config ctx of
      Inl e \<Rightarrow> (Inl (Unexpected e), hr)
    | Inr h \<Rightarrow> (case execute_single_hook w h hook_config (run_log hr) of
        (Inl e, lg) \<Rightarrow> (Inl e, hr\<lparr>run_log := lg\<rparr>)
      | (Inr r, lg) \<Rightarrow> (Inr (h, r), hr\<lparr>run_log := lg\<rparr>)))"

definition hook_failed :: "string \<Rightarrow> json \<Rightarrow> string \<Rightarrow> hook_runner \<Rightarrow> (string, unit, hook_runner) outcome" where
  "hook_failed stage hook_config text hr =
     (if truthy (json_get hook_config ''continue_on_error'' (JBool False)) then (Inr (), append_result stage (failed_result text) hr)
      else (Inl text, append_result stage (failed_result text) hr))"

text \<open>One hook of the stage: whether it succeeded, or the text of the exception that ends the stage.\<close>

definition stage_hook :: "(nat \<Rightarrow> hook_env) \<Rightarrow> string \<Rightarrow> variables \<Rightarrow> nat \<Rightarrow> json \<Rightarrow> hook_runner \<Rightarrow> (string, bool, hook_runner) outcome" where
  "stage_hook w stage ctx idx hook_config hr = (case run_one_hook w hook_config ctx hr of
      (Inr (h, r), hr1) \<Rightarrow>
        (let hr2 = append_result stage r hr1
         in if hr_success r then (Inr True, hr2)
            else if hk_continue h then (Inr False, hr2)
            else map_prod (map_sum id (\<lambda>_. False)) id (hook_failed stage hook_config (not_continued stage idx) hr2))
    | (Inl (HookExecutionError e), hr1) \<Rightarrow> map_prod (map_sum id (\<lambda>_. False)) id (hook_failed stage hook_config e hr1)
    | (Inl (Unexpected e), hr1) \<Rightarrow> (Inl (unexpected_text stage idx e), append_result stage (failed_result (exc_text e)) hr1))"

fun hooks_loop :: "(nat \<Rightarrow> hook_env) \<Rightarrow> string \<Rightarrow> variables \<Rightarrow> nat \<Rightarrow> json list \<Rightarrow> bool \<Rightarrow> hook_runner \<Rightarrow> (string, bool, hook_runner) outcome" where
  "hooks_loop w stage ctx idx [] all_succeeded hr = (Inr all_succeeded, hr)"
| "hooks_loop w stage ctx idx (c # cs) all_succeeded hr = (case stage_hook w stage ctx idx c hr of
      (Inl e, hr1) \<Rightarrow> (Inl e, hr1)
    | (Inr ok, hr1) \<Rightarrow> hooks_loop w stage ctx (Suc idx) cs (all_succeeded \<and> ok) hr1)"

definition execute_stage_hooks :: "(nat \<Rightarrow> hook_env) \<Rightarrow> string \<Rightarrow> variables \<Rightarrow> hook_runner \<Rightarrow> (string, bool, hook_runner) outcome" where
  "execute_stage_hooks w stage ctx hr =
     (let stage_hooks = json_get (JObj (hooks_config hr)) stage (JList [])
      in if stage \<notin> set SUPPORTED_STAGES then (Inr True, hr)
         else if \<not> truthy stage_hooks then (Inr True, hr)
         else (case stage_hooks of
                 JList cs \<Rightarrow> hooks_loop w stage (if dict_has ctx ''stage'' then ctx else dict_set ''stage'' (Some stage) ctx) 0 cs True
                               (hr\<lparr>hook_results := dict_set stage [] (hook_results hr)\<rparr>)
               | _ \<Rightarrow> (Inr True, hr)))"

definition has_hooks_for_stage :: "hook_runner \<Rightarrow> string \<Rightarrow> bool" where
  "has_hooks_for_stage hr stage = truthy (json_get (JObj (hooks_config hr)) stage JNull)"

definition hook_runner_from_manifest :: "(string \<times> json) list \<Rightarrow> hook_log \<Rightarrow> py_exc + hook_runner option" where
  "hook_runner_from_manifest manifest lg =
     (let config = json_get (JObj manifest) ''hooks'' (JObj [])
      in if \<not> truthy config then Inr None
         else (case config of
                 JObj fs \<Rightarrow> if list_ex (\<lambda>stage. truthy (json_get config stage JNull)) SUPPORTED_STAGES then Inr (Some (HookRunner fs lg)) else Inr None
               | _ \<Rightarrow> Inl (AttributeError ''get'')))"


section \<open>What a stage of hooks promises\<close>

lemma stage_results_append [simp]: "stage_results (append_result stage r hr) stage = stage_results hr stage @ [r]"
  by (simp add: stage_results_def append_result_def)

lemma stage_results_log [simp]: "stage_results (hr\<lparr>run_log := lg\<rparr>) stage = stage_results hr stage"
  by (simp add: stage_results_def)

lemma create_hook_continue: "create_hook c ctx = Inr h \<Longrightarrow> hk_continue h = truthy (json_get c ''continue_on_error'' (JBool False))"
  by (auto simp: create_hook_def BaseHook_def Let_def split: json.splits if_splits)

lemma run_one_hook_cases:
  assumes "run_one_hook w c ctx hr = (r, hr')"
  obtains "stage_results hr' stage = stage_results hr stage" "\<And>h x. r = Inr (h, x) \<Longrightarrow> create_hook c ctx = Inr h"
  using assms by (auto simp: run_one_hook_def split: sum.splits prod.splits)

lemma stage_hook_ok:
  assumes "stage_hook w stage ctx idx c hr = (Inr ok, hr')"
  shows "\<exists>r. stage_results hr' stage = stage_results hr stage @ [r] \<and> (ok \<longleftrightarrow> hr_success r) \<and>
    (\<not> ok \<longrightarrow> truthy (json_get c ''continue_on_error'' (JBool False)))"
proof -
  obtain r1 hr1 where o: "run_one_hook w c ctx hr = (r1, hr1)" by fastforce
  have s: "stage_results hr1 stage = stage_results hr stage" and h: "\<And>h x. r1 = Inr (h, x) \<Longrightarrow> create_hook c ctx = Inr h"
    using run_one_hook_cases [OF o] by metis+
  show ?thesis
  proof (cases r1)
    case (Inl e)
    then show ?thesis using assms o s by (cases e) (auto simp: stage_hook_def hook_failed_def failed_result_def split: if_splits)
  next
    case (Inr y)
    then obtain k x where y: "r1 = Inr (k, x)" by (cases y) auto
    with h have "create_hook c ctx = Inr k" by blast
    from create_hook_continue [OF this] assms o s y show ?thesis
      by (auto simp: stage_hook_def hook_failed_def Let_def split: if_splits)
  qed
qed

lemma hooks_loop_ok:
  assumes "hooks_loop w stage ctx idx cs ok hr = (Inr b, hr')"
  shows "\<exists>rs. stage_results hr' stage = stage_results hr stage @ rs \<and> length rs = length cs \<and> (b \<longleftrightarrow> ok \<and> (\<forall>r\<in>set rs. hr_success r)) \<and>
    (\<forall>i<length cs. \<not> hr_success (rs ! i) \<longrightarrow> truthy (json_get (cs ! i) ''continue_on_error'' (JBool False)))"
  using assms
proof (induction cs arbitrary: idx ok hr)
  case (Cons c cs)
  obtain r1 hr1 where s: "stage_hook w stage ctx idx c hr = (r1, hr1)" by fastforce
  with Cons.prems obtain k where k: "r1 = Inr k" by (cases r1) auto
  with s Cons.prems have "hooks_loop w stage ctx (Suc idx) cs (ok \<and> k) hr1 = (Inr b, hr')" by simp
  from Cons.IH [OF this] obtain rs where rs: "stage_results hr' stage = stage_results hr1 stage @ rs" "length rs = length cs"
    "b \<longleftrightarrow> (ok \<and> k) \<and> (\<forall>r\<in>set rs. hr_success r)"
    "\<forall>i<length cs. \<not> hr_success (rs ! i) \<longrightarrow> truthy (json_get (cs ! i) ''continue_on_error'' (JBool False))" by blast
  from stage_hook_ok [OF s [unfolded k]] obtain r where r: "stage_results hr1 stage = stage_results hr stage @ [r]" "k \<longleftrightarrow> hr_success r"
    "\<not> k \<longrightarrow> truthy (json_get c ''continue_on_error'' (JBool False))" by blast
  show ?case by (rule exI [of _ "r # rs"]) (use rs r in \<open>auto simp: nth_Cons split: nat.splits\<close>)
qed simp

text \<open>
  When the hooks of a stage end without an exception, each of them has exactly one result, in their order;
  the stage reports success exactly when all of them succeeded, and a hook that failed had asked to
  continue on errors.
\<close>
theorem stage_reports_every_hook:
  assumes "execute_stage_hooks w stage ctx hr = (Inr b, hr')" and "stage \<in> set SUPPORTED_STAGES"
    and "json_get (JObj (hooks_config hr)) stage (JList []) = JList cs" and "cs \<noteq> []"
  shows "length (stage_results hr' stage) = length cs \<and> (b \<longleftrightarrow> (\<forall>r\<in>set (stage_results hr' stage). hr_success r)) \<and>
    (\<forall>i<length cs. \<not> hr_success (stage_results hr' stage ! i) \<longrightarrow> truthy (json_get (cs ! i) ''continue_on_error'' (JBool False)))"
proof -
  let ?hr0 = "hr\<lparr>hook_results := dict_set stage [] (hook_results hr)\<rparr>"
  let ?ctx = "if dict_has ctx ''stage'' then ctx else dict_set ''stage'' (Some stage) ctx"
  have "hooks_loop w stage ?ctx 0 cs True ?hr0 = (Inr b, hr')"
    using assms by (simp add: execute_stage_hooks_def Let_def)
  from hooks_loop_ok [OF this] show ?thesis by (auto simp: stage_results_def)
qed

definition example_hook_env :: hook_env where
  "example_hook_env = \<lparr>he_resolve = id, he_exists = \<lambda>_. True, he_is_file = \<lambda>_. True, he_environ = [], he_str = \<lambda>v. case v of JStr s \<Rightarrow> s | _ \<Rightarrow> [],
     he_run = \<lambda>cmd _ _ _. if cmd = [''/bad.sh''] then Exited 3 [] ''no space'' else Exited 0 ''done'' [], he_python = \<lambda>_ _. NoModule,
     he_requests = False, he_http = \<lambda>_ _ _ _ _. HttpTimeout, he_elapsed = 1\<rparr>"

definition example_hooks :: "bool \<Rightarrow> hook_runner" where
  "example_hooks continue = HookRunner [(''pre_fix'', JList [
     JObj [(''type'', JStr ''script''), (''path'', JStr ''/bad.sh''), (''continue_on_error'', JBool continue)],
     JObj [(''type'', JStr ''script''), (''path'', JStr ''/good.sh'')]])] \<lparr>hl_runs = 0, hl_sleeps = []\<rparr>"

theorem stage_reports_every_hook_witness:
  "length (stage_results (snd (execute_stage_hooks (\<lambda>_. example_hook_env) ''pre_fix'' [] (example_hooks True))) ''pre_fix'') = 2"
proof -
  let ?x = "execute_stage_hooks (\<lambda>_. example_hook_env) ''pre_fix'' [] (example_hooks True)"
  have "fst ?x = Inr False" by code_simp
  then have "?x = (Inr False, snd ?x)" by (simp add: prod_eq_iff)
  from stage_reports_every_hook [OF this] show ?thesis by (simp add: SUPPORTED_STAGES_def example_hooks_def HookRunner_def)
qed

text \<open>
  A hook that fails and does not ask to continue is recorded twice: its own result and a second one for
  the exception raised about it.
\<close>
lemma failed_hook_recorded_twice:
  assumes "run_one_hook w c ctx hr = (Inr (h, r), hr1)" "\<not> hr_success r" "\<not> hk_continue h"
  shows "\<exists>hr'. stage_hook w stage ctx idx c hr = (Inl (not_continued stage idx), hr') \<and>
    stage_results hr' stage = stage_results hr stage @ [r, failed_result (not_continued stage idx)]"
proof -
  have s: "stage_results hr1 stage = stage_results hr stage" and "create_hook c ctx = Inr h"
    using run_one_hook_cases [OF assms(1)] by metis+
  with create_hook_continue [OF this(2)] assms show ?thesis by (simp add: stage_hook_def hook_failed_def Let_def)
qed

section \<open>Retries are bounded\<close>

lemma pause_effect:
  assumes "pause rt attempt lg = Inr lg'"
  shows "\<exists>ds. hl_sleeps lg' = hl_sleeps lg @ ds \<and> hl_runs lg' = hl_runs lg \<and> length ds = (if attempt = 0 then 0 else 1) \<and>
    (\<forall>d\<in>set ds. \<exists>k>0. retry_delay rt k = Inr d)"
proof (cases "attempt = 0")
  case True
  then show ?thesis using assms by (simp add: pause_def)
next
  case False
  with assms obtain d where "retry_delay rt attempt = Inr d" "lg' = lg\<lparr>hl_sleeps := hl_sleeps lg @ [d]\<rparr>"
    by (auto simp: pause_def elim!: map_sum_Inr)
  with False show ?thesis by (intro exI [of _ "[d]"]) auto
qed

lemma attempt_loop_bounds:
  assumes "attempt_loop w h rt n attempt lr le lg = (r, lg')"
  shows "\<exists>ds. hl_runs lg \<le> hl_runs lg' \<and> hl_runs lg' \<le> hl_runs lg + n \<and> hl_sleeps lg' = hl_sleeps lg @ ds \<and>
    length ds \<le> (if attempt = 0 then n - 1 else n) \<and> (\<forall>d\<in>set ds. \<exists>k>0. retry_delay rt k = Inr d)"
  using assms
proof (induction n arbitrary: attempt lr le lg)
  case (Suc n)
  show ?case
  proof (cases "pause rt attempt lg")
    case (Inl e)
    then show ?thesis using Suc.prems by simp
  next
    case p: (Inr lg1)
    obtain ds0 where ds0: "hl_sleeps lg1 = hl_sleeps lg @ ds0" "hl_runs lg1 = hl_runs lg" "length ds0 = (if attempt = 0 then 0 else 1)"
      "\<forall>d\<in>set ds0. \<exists>k>0. retry_delay rt k = Inr d"
      using pause_effect [OF p] by blast
    let ?lg2 = "lg1\<lparr>hl_runs := Suc (hl_runs lg1)\<rparr>"
    from Suc.prems p consider "lg' = ?lg2" | lr' le' where "attempt_loop w h rt n (Suc attempt) lr' le' ?lg2 = (r, lg')"
      by (auto simp: Let_def split: sum.splits hook_exc.splits if_splits)
    then show ?thesis
    proof cases
      case 1
      then show ?thesis by (intro exI [of _ ds0]) (use ds0 in auto)
    next
      case 2
      from Suc.IH [OF this] obtain ds where "hl_runs ?lg2 \<le> hl_runs lg'" "hl_runs lg' \<le> hl_runs ?lg2 + n" "hl_sleeps lg' = hl_sleeps ?lg2 @ ds"
        "length ds \<le> n" "\<forall>d\<in>set ds. \<exists>k>0. retry_delay rt k = Inr d" by auto
      then show ?thesis by (intro exI [of _ "ds0 @ ds"]) (use ds0 in auto)
    qed
  qed
qed simp

lemma delay_capped:
  assumes "retry_delay rt k = Inr d" "rt_strategy rt \<in> {JStr ''exponential'', JStr ''linear''}"
  shows "0 \<le> d \<and> (\<exists>m. as_num (rt_max_delay rt) = Some m \<and> d \<le> m)"
  using assms by (auto simp: retry_delay_def sum_bind_Inr_iff split: option.splits if_splits)



text \<open>A constant delay is not capped.\<close>

lemma constant_delay_uncapped:
  "retry_delay \<lparr>rt_max_retries = 3, rt_initial_delay = JInt 600, rt_strategy = JStr ''constant'', rt_max_delay = JInt 60, rt_on_timeout = True\<rparr> k = Inr 600"
  by (simp add: retry_delay_def)

text \<open>The reason of a script that is missing is lost.\<close>

lemma missing_script_error:
  assumes "hk_kind h = ScriptHook" "json_item (JObj (hk_config h)) ''path'' = Inr (JStr p)" "\<not> he_exists env (he_resolve env p)"
  shows "execute_hook env h = Inl (HookExecutionError ''error'')"
  using assms by (simp add: execute_hook_def execute_script_def as_hook_def need_text_def positional_error_def)

end
