(* ===== verification/Recovery_Manager.thy ===== *)
theory Recovery_Manager
  imports H2K_Prelude "HOL-Library.List_Lexorder" "HOL-Library.Char_ord"
begin

text \<open>
  \<^verbatim>\<open>h2kvm/core/recovery_manager.py\<close>: the checkpoints of one migration run, kept as files of a
  working directory, and the choice of the checkpoint to resume from.

  The directory maps file names to documents. The SHA-256 and the length of a checkpoint's canonical
  text, which sorts its keys, are functions of the document and parameters of the model. Which files
  can be written is a parameter too. Time stamps are the texts \<^verbatim>\<open>YYYYMMDD-HHMMSS\<close> that
  \<^verbatim>\<open>U.now_ts\<close> returns. In a file that is read, the fields present have the types that the
  writer gives them; other documents count as unreadable. Writing a file replaces it as a whole.
\<close>

section \<open>Names\<close>

definition stage_char :: "char \<Rightarrow> bool" where
  "stage_char c = (c \<in> set upper_chars \<or> c \<in> set lower_chars \<or> c \<in> set digit_chars \<or>
     c \<in> {CHR ''_'', CHR ''.'', CHR ''-''})"

text \<open>\<^verbatim>\<open>_STAGE_SAFE_RE.sub("-", stage)\<close>: a run of other characters becomes one hyphen.\<close>

fun sub_unsafe :: "bool \<Rightarrow> string \<Rightarrow> string" where
  "sub_unsafe in_run [] = []"
| "sub_unsafe in_run (c # cs) =
     (if stage_char c then c # sub_unsafe False cs
      else if in_run then sub_unsafe True cs else CHR ''-'' # sub_unsafe True cs)"

definition MAX_SAFE_STAGE_NAME_LENGTH :: nat where
  "MAX_SAFE_STAGE_NAME_LENGTH = 120"

definition MAX_ERROR_MESSAGE_LENGTH :: nat where
  "MAX_ERROR_MESSAGE_LENGTH = 2000"

definition safe_stage :: "string \<Rightarrow> string" where
  "safe_stage s = (let t = (if strip s = [] then ''unknown'' else strip s)
     in take MAX_SAFE_STAGE_NAME_LENGTH (sub_unsafe False t))"

text \<open>\<^verbatim>\<open>(s or "").strip() or None\<close>\<close>

definition strip_opt :: "string option \<Rightarrow> string option" where
  "strip_opt s = (case s of None \<Rightarrow> None | Some t \<Rightarrow> if strip t = [] then None else Some (strip t))"

text \<open>\<^verbatim>\<open>"_".join(parts)\<close>\<close>

fun join_names :: "string list \<Rightarrow> string" where
  "join_names [] = []"
| "join_names [p] = p"
| "join_names (p # ps) = p @ ''_'' @ join_names ps"

section \<open>Data\<close>

datatype rec_exc = RecoveryError int | RecOsError

definition CHECKPOINT_WRITE_FAILED :: int where "CHECKPOINT_WRITE_FAILED = 20"
definition CHECKPOINT_READ_FAILED :: int where "CHECKPOINT_READ_FAILED = 21"
definition CHECKPOINT_CORRUPT :: int where "CHECKPOINT_CORRUPT = 22"
definition LOCK_FAILED :: int where "LOCK_FAILED = 40"
definition STAGE_ORDER_VIOLATION :: int where "STAGE_ORDER_VIOLATION = 50"

record stage_decl =
  sd_name :: string
  sd_resumable :: bool
  sd_safe :: bool

record run_manifest =
  mf_run_id :: string
  mf_created_ts :: string
  mf_host :: string
  mf_pid :: int
  mf_tool_version :: "string option"
  mf_args_hash :: "string option"
  mf_input_id :: "string option"
  mf_status :: string
  mf_ended_ts :: "string option"
  mf_error :: "string option"

definition opt_json :: "string option \<Rightarrow> json" where
  "opt_json s = (case s of None \<Rightarrow> JNull | Some t \<Rightarrow> JStr t)"

definition mf_to_dict :: "run_manifest \<Rightarrow> json" where
  "mf_to_dict m = JObj [(''run_id'', JStr (mf_run_id m)), (''created_ts'', JStr (mf_created_ts m)), (''host'', JStr (mf_host m)),
     (''pid'', JInt (mf_pid m)), (''tool_version'', opt_json (mf_tool_version m)), (''args_hash'', opt_json (mf_args_hash m)),
     (''input_id'', opt_json (mf_input_id m)), (''status'', JStr (mf_status m)), (''ended_ts'', opt_json (mf_ended_ts m)),
     (''error'', opt_json (mf_error m))]"

text \<open>Fields that are read: a text with a default, and a text where null and the empty text mean none.
  The outer option is \<open>None\<close> when the field has another type.\<close>

definition get_text :: "json \<Rightarrow> string \<Rightarrow> string \<Rightarrow> string option" where
  "get_text d k dflt = (case json_get d k (JStr dflt) of JStr s \<Rightarrow> Some s | _ \<Rightarrow> None)"

definition get_opt_text :: "json \<Rightarrow> string \<Rightarrow> string option option" where
  "get_opt_text d k = (case json_get d k JNull of
      JNull \<Rightarrow> Some None | JStr s \<Rightarrow> Some (if s = [] then None else Some s) | _ \<Rightarrow> None)"

definition get_int_field :: "json \<Rightarrow> string \<Rightarrow> int \<Rightarrow> int option" where
  "get_int_field d k dflt = (case json_get d k (JInt dflt) of JInt i \<Rightarrow> Some i | _ \<Rightarrow> None)"

definition get_opt_int :: "json \<Rightarrow> string \<Rightarrow> int option option" where
  "get_opt_int d k = (case json_get d k JNull of
      JNull \<Rightarrow> Some None | JStr s \<Rightarrow> (if s = [] then Some None else None) | JInt n \<Rightarrow> Some (Some n) | _ \<Rightarrow> None)"

definition mf_from_dict :: "json \<Rightarrow> run_manifest option" where
  "mf_from_dict d = (case (as_dict d, get_text d ''run_id'' [], get_text d ''created_ts'' [], get_text d ''host'' [],
        get_int_field d ''pid'' 0, get_text d ''status'' ''running'') of
      (Some _, Some r, Some c, Some h, Some p, Some s) \<Rightarrow>
        (case (get_opt_text d ''tool_version'', get_opt_text d ''args_hash'', get_opt_text d ''input_id'',
               get_opt_text d ''ended_ts'', get_opt_text d ''error'') of
           (Some tv, Some ah, Some ii, Some en, Some er) \<Rightarrow>
             Some \<lparr>mf_run_id = r, mf_created_ts = c, mf_host = h, mf_pid = p, mf_tool_version = tv, mf_args_hash = ah,
                   mf_input_id = ii, mf_status = s, mf_ended_ts = en, mf_error = er\<rparr>
         | _ \<Rightarrow> None)
    | _ \<Rightarrow> None)"

record recovery_point =
  kp_id :: string
  kp_stage :: string
  kp_timestamp :: string
  kp_data :: "(string \<times> json) list"
  kp_step :: "string option"
  kp_scope :: "string option"
  kp_parent_id :: "string option"
  kp_completed :: bool
  kp_version :: int
  kp_run_id :: "string option"
  kp_resumable :: bool
  kp_safe :: bool
  kp_sha256 :: "string option"
  kp_bytes_len :: "int option"

text \<open>The canonical document leaves out the two integrity fields.\<close>

definition canonical_fields :: "recovery_point \<Rightarrow> (string \<times> json) list" where
  "canonical_fields k = [(''id'', JStr (kp_id k)), (''stage'', JStr (kp_stage k)), (''timestamp'', JStr (kp_timestamp k)),
     (''data'', JObj (kp_data k)), (''step'', opt_json (kp_step k)), (''scope'', opt_json (kp_scope k)),
     (''parent_id'', opt_json (kp_parent_id k)), (''completed'', JBool (kp_completed k)), (''version'', JInt (kp_version k)),
     (''run_id'', opt_json (kp_run_id k)), (''resumable'', JBool (kp_resumable k)), (''safe_to_resume'', JBool (kp_safe k))]"

definition kp_to_dict :: "recovery_point \<Rightarrow> json" where
  "kp_to_dict k = JObj (canonical_fields k @ [(''sha256'', opt_json (kp_sha256 k)),
     (''bytes_len'', case kp_bytes_len k of None \<Rightarrow> JNull | Some n \<Rightarrow> JInt n)])"

text \<open>The digest and the length of a canonical text, and which files can be written.\<close>

record rec_env =
  rv_sha256 :: "(string \<times> json) list \<Rightarrow> string"
  rv_bytes_len :: "(string \<times> json) list \<Rightarrow> int"
  rv_writable :: "string \<Rightarrow> bool"

definition finalize_integrity :: "rec_env \<Rightarrow> recovery_point \<Rightarrow> recovery_point" where
  "finalize_integrity env k = k\<lparr>kp_bytes_len := Some (rv_bytes_len env (canonical_fields k)),
     kp_sha256 := Some (rv_sha256 env (canonical_fields k))\<rparr>"

definition validate_integrity :: "rec_env \<Rightarrow> recovery_point \<Rightarrow> bool" where
  "validate_integrity env k = (case (kp_sha256 k, kp_bytes_len k) of
      (Some sha, Some n) \<Rightarrow>
        if sha = [] \<or> n = 0 then True
        else rv_bytes_len env (canonical_fields k) = n \<and> rv_sha256 env (canonical_fields k) = sha
    | _ \<Rightarrow> True)"

definition kp_from_dict :: "json \<Rightarrow> recovery_point option" where
  "kp_from_dict d = (case (as_dict d, get_text d ''stage'' [], get_text d ''timestamp'' [], get_opt_text d ''id'',
        (let v = json_get d ''data'' (JObj []) in if truthy v then as_dict v else Some []),
        get_int_field d ''version'' 1) of
      (Some _, Some stage, Some ts, Some cid, Some dat, Some ver) \<Rightarrow>
        (case (get_opt_text d ''step'', get_opt_text d ''scope'', get_opt_text d ''parent_id'', get_opt_text d ''run_id'',
               get_opt_text d ''sha256'', get_opt_int d ''bytes_len'') of
           (Some st, Some sc, Some pa, Some ri, Some sh, Some bl) \<Rightarrow>
             Some \<lparr>kp_id = (case cid of None \<Rightarrow> safe_stage stage @ ''_'' @ ts | Some i \<Rightarrow> i), kp_stage = stage,
                kp_timestamp = ts, kp_data = dat, kp_step = st, kp_scope = sc, kp_parent_id = pa,
                kp_completed = truthy (json_get d ''completed'' (JBool False)), kp_version = ver, kp_run_id = ri,
                kp_resumable = truthy (json_get d ''resumable'' (JBool True)),
                kp_safe = truthy (json_get d ''safe_to_resume'' (JBool True)), kp_sha256 = sh, kp_bytes_len = bl\<rparr>
         | _ \<Rightarrow> None)
    | _ \<Rightarrow> None)"


section \<open>The manager\<close>

record recovery_manager =
  workdir :: "(string, disk_file) dict"
  enable_index :: bool
  index_lines :: "json list"
  rm_run_id :: string
  known :: "recovery_point list"
  stage_order :: "string list option"
  stage_defs :: "(string, stage_decl) dict"
  run_info :: run_manifest
  lock_held :: bool

definition write_file :: "rec_env \<Rightarrow> string \<Rightarrow> json \<Rightarrow> recovery_manager \<Rightarrow> recovery_manager option" where
  "write_file env name doc m = (if rv_writable env name then Some (m\<lparr>workdir := dict_set name (JsonDoc doc) (workdir m)\<rparr>) else None)"

definition write_manifest :: "rec_env \<Rightarrow> recovery_manager \<Rightarrow> (rec_exc, unit, recovery_manager) outcome" where
  "write_manifest env m = (case write_file env ''run.json'' (mf_to_dict (run_info m)) m of
      None \<Rightarrow> (Inl RecOsError, m) | Some m' \<Rightarrow> (Inr (), m'))"

text \<open>The lock file is emptied and rewritten before the lock is tried; \<open>busy\<close> says that another process
  holds it.\<close>

definition acquire_lock :: "rec_env \<Rightarrow> bool \<Rightarrow> string \<Rightarrow> recovery_manager \<Rightarrow> (rec_exc, unit, recovery_manager) outcome" where
  "acquire_lock env busy ts m =
     (case write_file env ''.lock'' (JObj [(''pid'', JInt (mf_pid (run_info m))), (''run_id'', JStr (rm_run_id m)), (''ts'', JStr ts)]) m of
        None \<Rightarrow> (Inl (RecoveryError LOCK_FAILED), m)
      | Some m1 \<Rightarrow> if busy then (Inl (RecoveryError LOCK_FAILED), m1) else (Inr (), m1\<lparr>lock_held := True\<rparr>))"

definition release_lock :: "recovery_manager \<Rightarrow> recovery_manager" where
  "release_lock m = m\<lparr>lock_held := False\<rparr>"

text \<open>The options of the constructor.\<close>

record rec_config =
  cfg_enable_index :: bool
  cfg_enable_lock :: bool
  cfg_run_id :: "string option"
  cfg_tool_version :: "string option"
  cfg_args_hash :: "string option"
  cfg_input_id :: "string option"
  cfg_stage_order :: "string list"
  cfg_stage_defs :: "stage_decl list"

definition RecoveryManager :: "rec_env \<Rightarrow> bool \<Rightarrow> string \<Rightarrow> string \<Rightarrow> int \<Rightarrow> rec_config \<Rightarrow> (string, disk_file) dict \<Rightarrow> json list \<Rightarrow>
    (rec_exc, unit, recovery_manager) outcome" where
  "RecoveryManager env busy ts host pid cfg files lines =
     (let rid = (case strip_opt (cfg_run_id cfg) of None \<Rightarrow> ts | Some r \<Rightarrow> r);
          m = \<lparr>workdir = files, enable_index = cfg_enable_index cfg, index_lines = lines, rm_run_id = rid, known = [],
               stage_order = (if cfg_stage_order cfg = [] then None else Some (cfg_stage_order cfg)),
               stage_defs = fold (\<lambda>sd. dict_set (safe_stage (sd_name sd)) sd) (cfg_stage_defs cfg) [],
               run_info = \<lparr>mf_run_id = rid, mf_created_ts = ts, mf_host = host, mf_pid = pid,
                 mf_tool_version = cfg_tool_version cfg, mf_args_hash = cfg_args_hash cfg, mf_input_id = cfg_input_id cfg,
                 mf_status = ''running'', mf_ended_ts = None, mf_error = None\<rparr>,
               lock_held = False\<rparr>
      in case write_manifest env m of
           (Inl e, m1) \<Rightarrow> (Inl e, m1)
         | (Inr _, m1) \<Rightarrow> if cfg_enable_lock cfg then acquire_lock env busy ts m1 else (Inr (), m1))"

definition mark_run_success :: "rec_env \<Rightarrow> string \<Rightarrow> recovery_manager \<Rightarrow> (rec_exc, unit, recovery_manager) outcome" where
  "mark_run_success env ts m = write_manifest env (m\<lparr>run_info := (run_info m)\<lparr>mf_status := ''success'',
     mf_ended_ts := Some ts, mf_error := None\<rparr>\<rparr>)"

definition mark_run_failed :: "rec_env \<Rightarrow> string \<Rightarrow> string \<Rightarrow> recovery_manager \<Rightarrow> (rec_exc, unit, recovery_manager) outcome" where
  "mark_run_failed env ts err m = write_manifest env (m\<lparr>run_info := (run_info m)\<lparr>mf_status := ''failed'',
     mf_ended_ts := Some ts, mf_error := Some (take MAX_ERROR_MESSAGE_LENGTH err)\<rparr>\<rparr>)"

definition append_index_event :: "rec_env \<Rightarrow> json \<Rightarrow> recovery_manager \<Rightarrow> recovery_manager" where
  "append_index_event env ev m =
     (if enable_index m \<and> rv_writable env ''checkpoints.jsonl'' then m\<lparr>index_lines := index_lines m @ [ev]\<rparr> else m)"

definition checkpoint_id :: "string \<Rightarrow> string \<Rightarrow> string option \<Rightarrow> string option \<Rightarrow> string" where
  "checkpoint_id stage ts scope step = join_names
     ((case scope of None \<Rightarrow> [] | Some s \<Rightarrow> if s = [] then [] else [safe_stage s]) @ [safe_stage stage, ts] @
      (case step of None \<Rightarrow> [] | Some s \<Rightarrow> if s = [] then [] else [safe_stage s]))"

definition checkpoint_path :: "string \<Rightarrow> recovery_point \<Rightarrow> string" where
  "checkpoint_path run k = join_names
     ([''checkpoint'', safe_stage (case kp_run_id k of None \<Rightarrow> run | Some r \<Rightarrow> if r = [] then run else r)] @
      (case kp_scope k of None \<Rightarrow> [] | Some s \<Rightarrow> if s = [] then [] else [safe_stage s]) @
      [safe_stage (kp_stage k), kp_timestamp k] @
      (case kp_step k of None \<Rightarrow> [] | Some s \<Rightarrow> if s = [] then [] else [safe_stage s])) @ ''.json''"

definition get_stage_def :: "recovery_manager \<Rightarrow> string \<Rightarrow> stage_decl option" where
  "get_stage_def m stage = dict_get (stage_defs m) (safe_stage stage)"

text \<open>A stage that is listed twice has its last position.\<close>

definition stage_rank :: "recovery_manager \<Rightarrow> string \<Rightarrow> nat option" where
  "stage_rank m stage = (case stage_order m of
      None \<Rightarrow> None
    | Some order \<Rightarrow> map_of (rev (zip (map safe_stage order) [0..<length order])) (safe_stage stage))"

definition assert_stage_order :: "recovery_manager \<Rightarrow> string option \<Rightarrow> string \<Rightarrow> rec_exc + unit" where
  "assert_stage_order m prev_stage next_stage =
     (case prev_stage of
        None \<Rightarrow> Inr ()
      | Some prev \<Rightarrow>
          if prev = [] then Inr ()
          else (case (stage_rank m prev, stage_rank m next_stage) of
                  (Some pr, Some nr) \<Rightarrow> if nr < pr then Inl (RecoveryError STAGE_ORDER_VIOLATION) else Inr ()
                | _ \<Rightarrow> Inr ()))"

definition none_if_empty :: "string option \<Rightarrow> string option" where
  "none_if_empty s = (if s = Some [] then None else s)"

definition new_point :: "recovery_manager \<Rightarrow> string \<Rightarrow> string \<Rightarrow> (string \<times> json) list \<Rightarrow> string option \<Rightarrow> string option \<Rightarrow>
    string option \<Rightarrow> bool option \<Rightarrow> bool option \<Rightarrow> recovery_point" where
  "new_point m ts stage dat scope step parent_id resumable safe_to_resume =
     (let sd = get_stage_def m stage;
          r = (case resumable of Some b \<Rightarrow> b | None \<Rightarrow> (case sd of Some d \<Rightarrow> sd_resumable d | None \<Rightarrow> True));
          s = (case safe_to_resume of Some b \<Rightarrow> b | None \<Rightarrow> (case sd of Some d \<Rightarrow> sd_safe d | None \<Rightarrow> True))
      in \<lparr>kp_id = checkpoint_id stage ts scope step, kp_stage = stage, kp_timestamp = ts, kp_data = dat,
          kp_step = none_if_empty step, kp_scope = none_if_empty scope, kp_parent_id = none_if_empty parent_id,
          kp_completed = False, kp_version = 3, kp_run_id = Some (rm_run_id m), kp_resumable = r, kp_safe = s,
          kp_sha256 = None, kp_bytes_len = None\<rparr>)"

text \<open>The checkpoint is added to the list before it is written; writing finalises its integrity fields.\<close>

definition save_recovery_point :: "rec_env \<Rightarrow> string \<Rightarrow> string \<Rightarrow> (string \<times> json) list \<Rightarrow> string option \<Rightarrow> string option \<Rightarrow>
    string option \<Rightarrow> bool option \<Rightarrow> bool option \<Rightarrow> recovery_manager \<Rightarrow> (rec_exc, recovery_point, recovery_manager) outcome" where
  "save_recovery_point env ts stage0 dat scope step parent_id resumable safe_to_resume m =
     (let stage = (if strip stage0 = [] then ''unknown'' else strip stage0);
          k = finalize_integrity env (new_point m ts stage dat scope step parent_id resumable safe_to_resume);
          m1 = m\<lparr>known := known m @ [k]\<rparr>
      in case write_file env (checkpoint_path (rm_run_id m) k) (kp_to_dict k) m1 of
           None \<Rightarrow> (Inl (RecoveryError CHECKPOINT_WRITE_FAILED), m1)
         | Some m2 \<Rightarrow> (Inr k, append_index_event env (JObj [(''type'', JStr ''checkpoint''),
             (''run_id'', JStr (rm_run_id m)), (''checkpoint'', kp_to_dict k)]) m2))"

definition write_latest_completed :: "rec_env \<Rightarrow> recovery_point \<Rightarrow> string \<Rightarrow> recovery_manager \<Rightarrow> recovery_manager" where
  "write_latest_completed env k path m =
     (case write_file env ''latest_completed.json'' (JObj [(''run_id'', JStr (rm_run_id m)), (''id'', JStr (kp_id k)),
          (''stage'', JStr (kp_stage k)), (''scope'', opt_json (kp_scope k)), (''step'', opt_json (kp_step k)),
          (''timestamp'', JStr (kp_timestamp k)), (''path'', JStr path)]) m of
        None \<Rightarrow> m | Some m' \<Rightarrow> m')"

definition complete_event :: "recovery_manager \<Rightarrow> recovery_point \<Rightarrow> string \<Rightarrow> json" where
  "complete_event m k ts = JObj [(''type'', JStr ''complete''), (''run_id'', JStr (rm_run_id m)), (''id'', JStr (kp_id k)), (''ts'', JStr ts)]"


section \<open>Scanning\<close>

definition glob_checkpoint :: "string \<Rightarrow> string \<Rightarrow> bool" where
  "glob_checkpoint rid name = (let p = ''checkpoint_'' @ rid @ ''_''
     in prefix p name \<and> suffix ''.json'' (drop (length p) name))"

text \<open>An empty filter is no filter.\<close>

definition name_has :: "string option \<Rightarrow> (string \<Rightarrow> bool) \<Rightarrow> bool" where
  "name_has s test = (case s of None \<Rightarrow> True | Some t \<Rightarrow> t = [] \<or> test (safe_stage t))"

definition ok_name :: "string option \<Rightarrow> string option \<Rightarrow> string option \<Rightarrow> string \<Rightarrow> bool" where
  "ok_name stage scope step name =
     (name_has stage (\<lambda>t. contains (''_'' @ t @ ''_'') name) \<and> name_has scope (\<lambda>t. contains (''_'' @ t @ ''_'') name) \<and>
      name_has step (\<lambda>t. contains (''_'' @ t @ ''.json'') name \<or> contains (''_'' @ t @ ''_'') name))"

definition find_checkpoint_files :: "recovery_manager \<Rightarrow> string option \<Rightarrow> string option \<Rightarrow> string option \<Rightarrow> string list" where
  "find_checkpoint_files m stage scope step =
     filter (ok_name stage scope step)
       (sort (filter (glob_checkpoint (safe_stage (rm_run_id m))) (dict_keys (workdir m))))"

definition read_point :: "recovery_manager \<Rightarrow> string \<Rightarrow> recovery_point option" where
  "read_point m name = (case dict_get (workdir m) name of Some (JsonDoc d) \<Rightarrow> kp_from_dict d | _ \<Rightarrow> None)"

fun load_points :: "rec_env \<Rightarrow> recovery_manager \<Rightarrow> string list \<Rightarrow> (string \<times> recovery_point) list" where
  "load_points env m [] = []"
| "load_points env m (p # ps) =
     (case read_point m p of
        None \<Rightarrow> load_points env m ps
      | Some k \<Rightarrow>
          if kp_run_id k \<noteq> Some (rm_run_id m) then load_points env m ps
          else if \<not> validate_integrity env k then load_points env m ps
          else (p, k) # load_points env m ps)"

definition load_all_checkpoint_files :: "rec_env \<Rightarrow> recovery_manager \<Rightarrow> (string \<times> recovery_point) list" where
  "load_all_checkpoint_files env m = sort_key fst (load_points env m (find_checkpoint_files m None None None))"

definition list_checkpoints :: "rec_env \<Rightarrow> bool \<Rightarrow> recovery_manager \<Rightarrow> recovery_point list" where
  "list_checkpoints env completed_only m =
     (let cps = map snd (load_all_checkpoint_files env m) in if completed_only then filter kp_completed cps else cps)"

text \<open>\<^verbatim>\<open>if x is not None and (cp.x or None) != x: continue\<close>\<close>

definition field_matches :: "string option \<Rightarrow> string option \<Rightarrow> bool" where
  "field_matches want have = (case want of None \<Rightarrow> True | Some w \<Rightarrow> none_if_empty have = Some w)"

definition latest_checkpoint :: "rec_env \<Rightarrow> string option \<Rightarrow> string option \<Rightarrow> string option \<Rightarrow> bool \<Rightarrow> recovery_manager \<Rightarrow>
    recovery_point option" where
  "latest_checkpoint env stage scope step completed_only m =
     find (\<lambda>k. (completed_only \<longrightarrow> kp_completed k) \<and> (stage = None \<or> stage = Some (kp_stage k)) \<and>
               field_matches scope (kp_scope k) \<and> field_matches step (kp_step k))
       (rev (map snd (load_all_checkpoint_files env m)))"

section \<open>Completing a checkpoint\<close>

text \<open>The position of the newest open checkpoint in memory that matches.\<close>

definition open_position :: "string \<Rightarrow> string option \<Rightarrow> string option \<Rightarrow> recovery_manager \<Rightarrow> nat option" where
  "open_position stage scope step m =
     find (\<lambda>i. let k = known m ! i in kp_run_id k = Some (rm_run_id m) \<and> kp_stage k = stage \<and>
                 field_matches scope (kp_scope k) \<and> field_matches step (kp_step k) \<and> \<not> kp_completed k)
       (rev [0..<length (known m)])"

definition complete_known :: "rec_env \<Rightarrow> string \<Rightarrow> nat \<Rightarrow> recovery_manager \<Rightarrow> (rec_exc, recovery_point option, recovery_manager) outcome" where
  "complete_known env ts i m =
     (let k = (known m ! i)\<lparr>kp_completed := True\<rparr>; path = checkpoint_path (rm_run_id m) k
      in if \<not> dict_has (workdir m) path
         then (let m1 = m\<lparr>known := (known m)[i := k]\<rparr>
               in (Inr (Some k), write_latest_completed env k path (append_index_event env (complete_event m k ts) m1)))
         else (let k1 = finalize_integrity env k; m1 = m\<lparr>known := (known m)[i := k1]\<rparr>
               in case write_file env path (kp_to_dict k1) m1 of
                    None \<Rightarrow> (Inl (RecoveryError CHECKPOINT_WRITE_FAILED), m1)
                  | Some m2 \<Rightarrow> (Inr (Some k1),
                      write_latest_completed env k1 path (append_index_event env (complete_event m k1 ts) m2))))"

text \<open>Without one in memory, the last matching file; failures leave everything as it is.\<close>

definition complete_file :: "rec_env \<Rightarrow> string \<Rightarrow> string \<Rightarrow> recovery_manager \<Rightarrow> recovery_point option \<times> recovery_manager" where
  "complete_file env ts path m =
     (case read_point m path of
        None \<Rightarrow> (None, m)
      | Some k \<Rightarrow>
          if kp_run_id k \<noteq> Some (rm_run_id m) then (None, m)
          else if kp_completed k
               then (Some k, write_latest_completed env k path (append_index_event env (complete_event m k ts) m))
          else (let k1 = finalize_integrity env (k\<lparr>kp_completed := True\<rparr>)
                in case write_file env path (kp_to_dict k1) m of
                     None \<Rightarrow> (None, m)
                   | Some m1 \<Rightarrow> (Some k1, write_latest_completed env k1 path (append_index_event env (complete_event m k1 ts) m1))))"

definition mark_checkpoint_complete :: "rec_env \<Rightarrow> string \<Rightarrow> string \<Rightarrow> string option \<Rightarrow> string option \<Rightarrow> recovery_manager \<Rightarrow>
    (rec_exc, recovery_point option, recovery_manager) outcome" where
  "mark_checkpoint_complete env ts stage0 scope0 step0 m =
     (let stage = strip stage0; scope = strip_opt scope0; step = strip_opt step0
      in case open_position stage scope step m of
           Some i \<Rightarrow> complete_known env ts i m
         | None \<Rightarrow>
             (case rev (find_checkpoint_files m (Some stage) scope step) of
                [] \<Rightarrow> (Inr None, m)
              | path # _ \<Rightarrow> (let (r, m') = complete_file env ts path m in (Inr r, m'))))"

section \<open>Recovery\<close>

definition read_latest_completed_pointer :: "rec_env \<Rightarrow> recovery_manager \<Rightarrow> (string \<times> recovery_point) option" where
  "read_latest_completed_pointer env m =
     (case dict_get (workdir m) ''latest_completed.json'' of
        Some (JsonDoc (JObj fs)) \<Rightarrow>
          (case (get_text (JObj fs) ''run_id'' [], get_text (JObj fs) ''path'' []) of
             (Some rid, Some fname) \<Rightarrow>
               if rid \<noteq> rm_run_id m \<or> strip fname = [] then None
               else (case read_point m (strip fname) of
                       None \<Rightarrow> None
                     | Some k \<Rightarrow> if kp_run_id k = Some (rm_run_id m) \<and> kp_completed k \<and> validate_integrity env k
                                  then Some (strip fname, k) else None)
           | _ \<Rightarrow> None)
      | _ \<Rightarrow> None)"

definition eligible_for_recovery :: "recovery_manager \<Rightarrow> recovery_point \<Rightarrow> string \<Rightarrow> bool \<Rightarrow> bool" where
  "eligible_for_recovery m k requested_stage allow_later_stage =
     (kp_resumable k \<and> kp_safe k \<and>
      (case get_stage_def m (kp_stage k) of None \<Rightarrow> True | Some sd \<Rightarrow> sd_resumable sd \<and> sd_safe sd) \<and>
      (allow_later_stage \<or> (case (stage_rank m requested_stage, stage_rank m (kp_stage k)) of
         (Some rr, Some cr) \<Rightarrow> cr \<le> rr | _ \<Rightarrow> True)))"

record recovery_decision =
  dec_id :: string
  dec_path :: string
  dec_stage :: string
  dec_step :: "string option"
  dec_scope :: "string option"
  dec_reason :: string

definition mk_decision :: "string \<Rightarrow> recovery_point \<Rightarrow> string \<Rightarrow> recovery_decision" where
  "mk_decision p k reason = \<lparr>dec_id = kp_id k, dec_path = p, dec_stage = kp_stage k, dec_step = kp_step k,
     dec_scope = kp_scope k, dec_reason = reason\<rparr>"

record rec_policy =
  pol_scope :: "string option"
  pol_step :: "string option"
  allow_same_stage :: bool
  allow_later_stage :: bool
  prefer_pointer :: bool

definition scan_accepts :: "recovery_manager \<Rightarrow> string \<Rightarrow> rec_policy \<Rightarrow> recovery_point \<Rightarrow> bool" where
  "scan_accepts m stage pol k =
     (kp_completed k \<and> field_matches (strip_opt (pol_scope pol)) (kp_scope k) \<and> field_matches (strip_opt (pol_step pol)) (kp_step k) \<and>
      (allow_same_stage pol \<or> safe_stage (kp_stage k) \<noteq> safe_stage stage) \<and>
      (case stage_rank m stage of
         None \<Rightarrow> True
       | Some rr \<Rightarrow> (case stage_rank m (kp_stage k) of
                        None \<Rightarrow> allow_later_stage pol
                      | Some cr \<Rightarrow> cr \<le> rr \<or> allow_later_stage pol)) \<and>
      eligible_for_recovery m k stage (allow_later_stage pol))"

definition describe_recovery :: "rec_env \<Rightarrow> string \<Rightarrow> rec_policy \<Rightarrow> recovery_manager \<Rightarrow> recovery_decision option" where
  "describe_recovery env stage0 pol m =
     (let stage = strip stage0;
          fast = (if prefer_pointer pol \<and> strip_opt (pol_scope pol) = None \<and> strip_opt (pol_step pol) = None
                  then read_latest_completed_pointer env m else None);
          scan = map_option (\<lambda>(p, k). mk_decision p k ''newest eligible completed checkpoint'')
                   (find (\<lambda>(p, k). scan_accepts m stage pol k) (rev (load_all_checkpoint_files env m)))
      in case fast of
           Some (p, k) \<Rightarrow>
             if (allow_same_stage pol \<or> safe_stage (kp_stage k) \<noteq> safe_stage stage) \<and>
                eligible_for_recovery m k stage (allow_later_stage pol)
             then Some (mk_decision p k ''latest_completed pointer'') else scan
         | None \<Rightarrow> scan)"

definition recover_from_checkpoint :: "rec_env \<Rightarrow> string \<Rightarrow> rec_policy \<Rightarrow> recovery_manager \<Rightarrow>
    rec_exc + (string \<times> json) list option" where
  "recover_from_checkpoint env stage pol m =
     (case describe_recovery env stage pol m of
        None \<Rightarrow> Inr None
      | Some dec \<Rightarrow>
          if \<not> dict_has (workdir m) (dec_path dec) then Inl (RecoveryError CHECKPOINT_READ_FAILED)
          else (case read_point m (dec_path dec) of
                  None \<Rightarrow> Inl (RecoveryError CHECKPOINT_CORRUPT)
                | Some k \<Rightarrow> if validate_integrity env k then Inr (Some (kp_data k))
                            else Inl (RecoveryError CHECKPOINT_CORRUPT)))"


section \<open>Retention\<close>

definition read_manifest :: "recovery_manager \<Rightarrow> run_manifest option" where
  "read_manifest m = (case dict_get (workdir m) ''run.json'' of Some (JsonDoc d) \<Rightarrow> mf_from_dict d | _ \<Rightarrow> None)"

text \<open>Rule 2: the first \<open>n\<close> completed checkpoints of each stage.\<close>

fun keep_per_stage :: "int \<Rightarrow> (string, int) dict \<Rightarrow> (string \<times> recovery_point) list \<Rightarrow> string list" where
  "keep_per_stage n counts [] = []"
| "keep_per_stage n counts ((p, k) # cps) =
     (if \<not> kp_completed k then keep_per_stage n counts cps
      else (let s = safe_stage (kp_stage k); c = (case dict_get counts s of None \<Rightarrow> 0 | Some c \<Rightarrow> c)
            in if c \<ge> n then keep_per_stage n (dict_set s c counts) cps
               else p # keep_per_stage n (dict_set s (c + 1) counts) cps))"

definition compact_index_best_effort :: "rec_env \<Rightarrow> int \<Rightarrow> recovery_manager \<Rightarrow> recovery_manager" where
  "compact_index_best_effort env keep_lines m =
     (if int (length (index_lines m)) \<le> keep_lines \<or> \<not> rv_writable env ''checkpoints.jsonl'' then m
      else m\<lparr>index_lines := drop (length (index_lines m) - nat keep_lines) (index_lines m)\<rparr>)"

record retention =
  keep_newest_total :: int
  keep_last_completed_per_stage :: int
  keep_last_failed_run :: bool
  ttl_cutoff :: "string option" \<comment> \<open>the formatted cutoff when a positive TTL is given\<close>
  also_prune_index :: bool

definition kept_files :: "retention \<Rightarrow> (string \<times> recovery_point) list \<Rightarrow> string list" where
  "kept_files pol newest_first =
     map fst (take (nat (max 0 (keep_newest_total pol))) newest_first) @
     (if keep_last_completed_per_stage pol > 0 then keep_per_stage (keep_last_completed_per_stage pol) [] newest_first else []) @
     (case ttl_cutoff pol of
        None \<Rightarrow> []
      | Some cutoff \<Rightarrow> map fst (filter (\<lambda>(p, k). kp_timestamp k \<noteq> [] \<and> kp_timestamp k \<ge> cutoff) newest_first))"

definition cleanup_old_checkpoints :: "rec_env \<Rightarrow> retention \<Rightarrow> recovery_manager \<Rightarrow> recovery_manager" where
  "cleanup_old_checkpoints env pol m =
     (if keep_last_failed_run pol \<and> map_option mf_status (read_manifest m) = Some ''failed'' then m
      else (let newest_first = rev (load_all_checkpoint_files env m);
                keep = kept_files pol newest_first;
                gone = filter (\<lambda>p. p \<notin> set keep) (map fst newest_first);
                m1 = m\<lparr>workdir := fold dict_pop gone (workdir m)\<rparr>
            in if gone = [] then m
               else if also_prune_index pol \<and> enable_index m
                    then compact_index_best_effort env (max 500 (50 * keep_newest_total pol)) m1
               else m1))"

section \<open>Reading back what was written\<close>

lemma get_opt_text_opt: "json_get d k JNull = opt_json s \<Longrightarrow> s \<noteq> Some [] \<Longrightarrow> get_opt_text d k = Some s"
  by (cases s) (auto simp: get_opt_text_def opt_json_def)

lemma get_opt_text_text: "get_opt_text d k = Some (Some r) \<Longrightarrow> get_text d k x = Some r"
  by (cases d) (auto simp: get_opt_text_def get_text_def split: option.splits json.splits if_splits)

lemma get_opt_int_opt: "json_get d k JNull = (case n of None \<Rightarrow> JNull | Some i \<Rightarrow> JInt i) \<Longrightarrow> get_opt_int d k = Some n"
  by (cases n) (simp_all add: get_opt_int_def)

text \<open>The checkpoints that the manager writes have an identifier, and no field that is an empty text.\<close>

definition point_ok :: "recovery_point \<Rightarrow> bool" where
  "point_ok k = (kp_id k \<noteq> [] \<and> list_all (\<lambda>s. s \<noteq> Some []) [kp_step k, kp_scope k, kp_parent_id k, kp_run_id k, kp_sha256 k])"

lemma kp_to_dict_get:
  "kp_to_dict k \<noteq> JNull" "get_text (kp_to_dict k) ''stage'' x = Some (kp_stage k)"
  "get_text (kp_to_dict k) ''timestamp'' x = Some (kp_timestamp k)" "get_int_field (kp_to_dict k) ''version'' n = Some (kp_version k)"
  "json_get (kp_to_dict k) ''id'' JNull = JStr (kp_id k)" "json_get (kp_to_dict k) ''data'' y = JObj (kp_data k)"
  "json_get (kp_to_dict k) ''completed'' y = JBool (kp_completed k)" "json_get (kp_to_dict k) ''resumable'' y = JBool (kp_resumable k)"
  "json_get (kp_to_dict k) ''safe_to_resume'' y = JBool (kp_safe k)"
  by (simp_all add: kp_to_dict_def canonical_fields_def get_text_def get_int_field_def)

lemma kp_to_dict_opt:
  "json_get (kp_to_dict k) ''step'' JNull = opt_json (kp_step k)" "json_get (kp_to_dict k) ''scope'' JNull = opt_json (kp_scope k)"
  "json_get (kp_to_dict k) ''parent_id'' JNull = opt_json (kp_parent_id k)" "json_get (kp_to_dict k) ''run_id'' JNull = opt_json (kp_run_id k)"
  "json_get (kp_to_dict k) ''sha256'' JNull = opt_json (kp_sha256 k)"
  "json_get (kp_to_dict k) ''bytes_len'' JNull = (case kp_bytes_len k of None \<Rightarrow> JNull | Some i \<Rightarrow> JInt i)"
  by (simp_all add: kp_to_dict_def canonical_fields_def)

lemma kp_from_to_dict: "point_ok k \<Longrightarrow> kp_from_dict (kp_to_dict k) = Some k"
proof -
  assume ok: "point_ok k"
  have "get_opt_text (kp_to_dict k) ''id'' = Some (Some (kp_id k))"
    using ok kp_to_dict_get(5) [of k] by (simp add: get_opt_text_def point_ok_def)
  moreover from ok have
    "get_opt_text (kp_to_dict k) ''step'' = Some (kp_step k)" "get_opt_text (kp_to_dict k) ''scope'' = Some (kp_scope k)"
    "get_opt_text (kp_to_dict k) ''parent_id'' = Some (kp_parent_id k)" "get_opt_text (kp_to_dict k) ''run_id'' = Some (kp_run_id k)"
    "get_opt_text (kp_to_dict k) ''sha256'' = Some (kp_sha256 k)" "get_opt_int (kp_to_dict k) ''bytes_len'' = Some (kp_bytes_len k)"
    by (simp_all add: point_ok_def get_opt_text_opt [OF kp_to_dict_opt(1)] get_opt_text_opt [OF kp_to_dict_opt(2)]
        get_opt_text_opt [OF kp_to_dict_opt(3)] get_opt_text_opt [OF kp_to_dict_opt(4)] get_opt_text_opt [OF kp_to_dict_opt(5)]
        get_opt_int_opt [OF kp_to_dict_opt(6)])
  moreover obtain fs where "as_dict (kp_to_dict k) = Some fs" by (simp add: kp_to_dict_def)
  moreover have "(let v = json_get (kp_to_dict k) ''data'' (JObj []) in if truthy v then as_dict v else Some []) = Some (kp_data k)"
    by (simp add: kp_to_dict_get(6))
  ultimately show ?thesis by (simp add: kp_from_dict_def kp_to_dict_get)
qed

lemma canonical_finalize [simp]: "canonical_fields (finalize_integrity env k) = canonical_fields k"
  by (simp add: finalize_integrity_def canonical_fields_def)

lemma validate_finalized [simp]: "validate_integrity env (finalize_integrity env k)"
  by (simp add: validate_integrity_def) (simp add: finalize_integrity_def canonical_fields_def)

lemma mf_from_to_dict:
  assumes "list_all (\<lambda>s. s \<noteq> Some []) [mf_tool_version r, mf_args_hash r, mf_input_id r, mf_ended_ts r, mf_error r]"
  shows "mf_from_dict (mf_to_dict r) = Some r"
proof -
  have "get_opt_text (mf_to_dict r) ''tool_version'' = Some (mf_tool_version r)" "get_opt_text (mf_to_dict r) ''args_hash'' = Some (mf_args_hash r)"
    "get_opt_text (mf_to_dict r) ''input_id'' = Some (mf_input_id r)" "get_opt_text (mf_to_dict r) ''ended_ts'' = Some (mf_ended_ts r)"
    "get_opt_text (mf_to_dict r) ''error'' = Some (mf_error r)"
    using assms by (auto intro!: get_opt_text_opt simp: mf_to_dict_def)
  moreover obtain fs where "as_dict (mf_to_dict r) = Some fs" by (simp add: mf_to_dict_def)
  moreover have "get_text (mf_to_dict r) ''run_id'' [] = Some (mf_run_id r)" "get_text (mf_to_dict r) ''created_ts'' [] = Some (mf_created_ts r)"
    "get_text (mf_to_dict r) ''host'' [] = Some (mf_host r)" "get_int_field (mf_to_dict r) ''pid'' 0 = Some (mf_pid r)"
    "get_text (mf_to_dict r) ''status'' ''running'' = Some (mf_status r)"
    by (simp_all add: mf_to_dict_def get_text_def get_int_field_def)
  ultimately show ?thesis by (simp add: mf_from_dict_def)
qed


section \<open>An example run\<close>

definition example_env :: rec_env where
  "example_env = \<lparr>rv_sha256 = (\<lambda>fs. ''digest''), rv_bytes_len = (\<lambda>fs. int (length fs)), rv_writable = (\<lambda>_. True)\<rparr>"

definition example_manager :: recovery_manager where
  "example_manager = snd (RecoveryManager example_env False ''20260101-000000'' ''host'' 7
     \<lparr>cfg_enable_index = True, cfg_enable_lock = True, cfg_run_id = Some ''r'', cfg_tool_version = None, cfg_args_hash = None,
      cfg_input_id = None, cfg_stage_order = [], cfg_stage_defs = []\<rparr> [] [])"

text \<open>A run that completes the stage \<open>extract\<close>, and a year later the stage \<open>convert\<close>.\<close>

definition example_run :: recovery_manager where
  "example_run =
     (let m1 = snd (save_recovery_point example_env ''20260101-000001'' ''extract'' [(''disk'', JStr ''a'')] None None None None None example_manager);
          m2 = snd (mark_checkpoint_complete example_env ''20260101-000002'' ''extract'' None None m1);
          m3 = snd (save_recovery_point example_env ''20270101-000001'' ''convert'' [(''disk'', JStr ''b'')] None None None None None m2)
      in snd (mark_checkpoint_complete example_env ''20270101-000002'' ''convert'' None None m3))"

definition example_policy :: "bool \<Rightarrow> rec_policy" where
  "example_policy pointer = \<lparr>pol_scope = None, pol_step = None, allow_same_stage = False, allow_later_stage = False, prefer_pointer = pointer\<rparr>"

section \<open>Which checkpoint is resumed\<close>

lemma load_points_mem:
  "(p, k) \<in> set (load_points env m ps) \<longleftrightarrow>
     p \<in> set ps \<and> read_point m p = Some k \<and> kp_run_id k = Some (rm_run_id m) \<and> validate_integrity env k"
  by (induction ps) (auto split: option.splits)

lemma load_all_mem:
  "(p, k) \<in> set (load_all_checkpoint_files env m) \<longleftrightarrow> glob_checkpoint (safe_stage (rm_run_id m)) p \<and>
     read_point m p = Some k \<and> kp_run_id k = Some (rm_run_id m) \<and> validate_integrity env k"
proof -
  have "dict_has (workdir m) p" if "read_point m p = Some k"
    using that by (auto simp: read_point_def dict_has_def split: option.splits disk_file.splits)
  then show ?thesis
    by (auto simp: load_all_checkpoint_files_def load_points_mem find_checkpoint_files_def ok_name_def name_has_def
        dict_keys_def dict_has_iff)
qed

lemma pointer_mem:
  assumes "read_latest_completed_pointer env m = Some (p, k)"
  shows "read_point m p = Some k" "kp_run_id k = Some (rm_run_id m)" "kp_completed k" "validate_integrity env k"
  using assms
  by (auto simp: read_latest_completed_pointer_def split: option.splits disk_file.splits json.splits if_splits)

text \<open>What makes a checkpoint fit for a request.\<close>

definition fit_for :: "rec_env \<Rightarrow> string \<Rightarrow> rec_policy \<Rightarrow> recovery_manager \<Rightarrow> recovery_point \<Rightarrow> bool" where
  "fit_for env stage pol m k = (kp_run_id k = Some (rm_run_id m) \<and> kp_completed k \<and> validate_integrity env k \<and>
     kp_resumable k \<and> kp_safe k \<and>
     (\<forall>sd. get_stage_def m (kp_stage k) = Some sd \<longrightarrow> sd_resumable sd \<and> sd_safe sd) \<and>
     (allow_same_stage pol \<or> safe_stage (kp_stage k) \<noteq> safe_stage (strip stage)) \<and>
     (\<forall>rr cr. stage_rank m (strip stage) = Some rr \<longrightarrow> stage_rank m (kp_stage k) = Some cr \<longrightarrow> allow_later_stage pol \<or> cr \<le> rr))"

lemma eligible_imp:
  "eligible_for_recovery m k stage later \<Longrightarrow> kp_resumable k \<and> kp_safe k \<and>
     (\<forall>sd. get_stage_def m (kp_stage k) = Some sd \<longrightarrow> sd_resumable sd \<and> sd_safe sd) \<and>
     (\<forall>rr cr. stage_rank m stage = Some rr \<longrightarrow> stage_rank m (kp_stage k) = Some cr \<longrightarrow> later \<or> cr \<le> rr)"
  by (auto simp: eligible_for_recovery_def split: option.splits)

lemma describe_sound:
  assumes "describe_recovery env stage pol m = Some dec"
  obtains p k reason where "dec = mk_decision p k reason" "read_point m p = Some k" "fit_for env stage pol m k"
proof -
  consider (fast) p k where "read_latest_completed_pointer env m = Some (p, k)"
      "allow_same_stage pol \<or> safe_stage (kp_stage k) \<noteq> safe_stage (strip stage)"
      "eligible_for_recovery m k (strip stage) (allow_later_stage pol)" "dec = mk_decision p k ''latest_completed pointer''"
    | (scan) p k where "(p, k) \<in> set (load_all_checkpoint_files env m)" "scan_accepts m (strip stage) pol k"
      "dec = mk_decision p k ''newest eligible completed checkpoint''"
    using assms
    by (auto simp: describe_recovery_def Let_def split: option.splits if_splits dest!: find_Some_set)
  then show thesis
  proof cases
    case fast
    with pointer_mem [OF fast(1)] eligible_imp [OF fast(3)] show ?thesis by (intro that) (auto simp: fit_for_def)
  next
    case scan
    then have acc: "eligible_for_recovery m k (strip stage) (allow_later_stage pol)" "kp_completed k"
      "allow_same_stage pol \<or> safe_stage (kp_stage k) \<noteq> safe_stage (strip stage)" by (simp_all add: scan_accepts_def)
    with scan eligible_imp [OF acc(1)] show ?thesis by (intro that) (auto simp: fit_for_def load_all_mem)
  qed
qed

lemma mk_decision_path [simp]: "dec_path (mk_decision p k r) = p"
  by (simp add: mk_decision_def)



text \<open>The scan goes through the files by name, greatest first.\<close>

lemma scan_takes_greatest_name:
  assumes "find P (rev (load_all_checkpoint_files env m)) = Some (p, k)"
    and "(p', k') \<in> set (load_all_checkpoint_files env m)" "P (p', k')"
  shows "p' \<le> p"
proof -
  let ?xs = "load_all_checkpoint_files env m"
  have "sorted (map fst ?xs)" by (simp add: load_all_checkpoint_files_def)
  then have "sorted_wrt (\<lambda>x y. fst x \<ge> fst y) (rev ?xs)" by (simp add: sorted_wrt_rev sorted_map)
  moreover obtain i where i: "i < length (rev ?xs)" "P (rev ?xs ! i)" "(p, k) = rev ?xs ! i" "\<forall>j<i. \<not> P (rev ?xs ! j)"
    using assms(1) unfolding find_Some_iff by blast
  moreover from assms(2) obtain j where j: "j < length (rev ?xs)" "rev ?xs ! j = (p', k')"
    by (metis in_set_conv_nth set_rev)
  ultimately have "i \<le> j" using assms(3) by (metis not_le_imp_less)
  show ?thesis
  proof (cases "i = j")
    case False
    with \<open>i \<le> j\<close> have "fst (rev ?xs ! j) \<le> fst (rev ?xs ! i)"
      using sorted_wrt_nth_less [OF \<open>sorted_wrt (\<lambda>x y. fst x \<ge> fst y) (rev ?xs)\<close>] j(1) by simp
    with i(3) j(2) show ?thesis by (metis fst_conv)
  qed (use i(3) j(2) in simp)
qed

text \<open>
  The newest checkpoint is taken by file name, and the name has the stage before the time:
  after a run that completed \<open>extract\<close> and, a year later, \<open>convert\<close>, the latest completed checkpoint is
  that of \<open>extract\<close>, and a recovery that scans the files resumes from it.
\<close>
theorem newest_checkpoint_is_by_name:
  "map_option (\<lambda>k. (kp_stage k, kp_timestamp k)) (latest_checkpoint example_env None None None True example_run) =
     Some (''extract'', ''20260101-000001'') \<and>
   recover_from_checkpoint example_env ''boot'' (example_policy False) example_run = Inr (Some [(''disk'', JStr ''a'')]) \<and>
   recover_from_checkpoint example_env ''boot'' (example_policy True) example_run = Inr (Some [(''disk'', JStr ''b'')])"
  by code_simp

lemma no_points_no_recovery:
  assumes "\<And>p k. glob_checkpoint (safe_stage (rm_run_id m)) p \<Longrightarrow> read_point m p = Some k \<Longrightarrow> kp_run_id k \<noteq> Some (rm_run_id m)"
    and "read_latest_completed_pointer env m = None"
  shows "recover_from_checkpoint env stage pol m = Inr None"
proof -
  have "(p, k) \<notin> set (load_all_checkpoint_files env m)" for p k using assms(1) by (auto simp: load_all_mem)
  then have "load_all_checkpoint_files env m = []" by (metis list.set_intros(1) neq_Nil_conv surj_pair)
  with assms(2) show ?thesis by (simp add: recover_from_checkpoint_def describe_recovery_def Let_def)
qed

section \<open>Saving, completing and resuming\<close>

text \<open>Names of checkpoint files have no white space at their ends, and are not the names of the other
  files of the directory.\<close>

lemma join_names_Cons: "ps \<noteq> [] \<Longrightarrow> join_names (p # ps) = p @ ''_'' @ join_names ps"
  by (cases ps) auto

lemma checkpoint_path_split:
  obtains rest where "checkpoint_path run k = ''checkpoint_'' @ rest @ ''.json''"
proof -
  obtain p ps where "checkpoint_path run k = join_names (''checkpoint'' # p # ps) @ ''.json''"
    unfolding checkpoint_path_def by simp
  then show thesis by (intro that [of "join_names (p # ps)"]) (simp add: join_names_Cons)
qed

lemma strip_checkpoint_path [simp]: "strip (checkpoint_path run k) = checkpoint_path run k"
proof -
  obtain rest where p: "checkpoint_path run k = ''checkpoint_'' @ rest @ ''.json''" by (rule checkpoint_path_split)
  have "lstrip (checkpoint_path run k) = checkpoint_path run k"
    unfolding p by (simp add: lstrip_Cons py_isspace_def ws_chars_def)
  moreover have "rstrip (checkpoint_path run k) = checkpoint_path run k"
    unfolding p using rstrip_snoc [of "''checkpoint_'' @ rest @ ''.jso''" "CHR ''n''"]
    by (simp add: py_isspace_def ws_chars_def)
  ultimately show ?thesis by (simp add: strip_def)
qed

lemma checkpoint_path_not_special [simp]:
  "checkpoint_path run k \<noteq> ''run.json''" "checkpoint_path run k \<noteq> ''.lock''" "checkpoint_path run k \<noteq> ''latest_completed.json''"
  "checkpoint_path run k \<noteq> []"
proof -
  obtain rest where p: "checkpoint_path run k = ''checkpoint_'' @ rest @ ''.json''" by (rule checkpoint_path_split)
  show "checkpoint_path run k \<noteq> ''run.json''" "checkpoint_path run k \<noteq> ''.lock''"
    "checkpoint_path run k \<noteq> ''latest_completed.json''" "checkpoint_path run k \<noteq> []" unfolding p by simp_all
qed

lemma point_frame [simp]:
  "checkpoint_path run (k\<lparr>kp_completed := b\<rparr>) = checkpoint_path run k"
  "checkpoint_path run (finalize_integrity env k) = checkpoint_path run k"
  "kp_data (finalize_integrity env k) = kp_data k" "kp_run_id (finalize_integrity env k) = kp_run_id k"
  "kp_stage (finalize_integrity env k) = kp_stage k" "kp_completed (finalize_integrity env k) = kp_completed k"
  "kp_resumable (finalize_integrity env k) = kp_resumable k" "kp_safe (finalize_integrity env k) = kp_safe k"
  "kp_scope (finalize_integrity env k) = kp_scope k" "kp_step (finalize_integrity env k) = kp_step k"
  by (simp_all add: checkpoint_path_def finalize_integrity_def)

lemma append_index_frame [simp]:
  "workdir (append_index_event env ev m) = workdir m" "rm_run_id (append_index_event env ev m) = rm_run_id m"
  "known (append_index_event env ev m) = known m" "stage_defs (append_index_event env ev m) = stage_defs m"
  "stage_order (append_index_event env ev m) = stage_order m"
  by (simp_all add: append_index_event_def)

lemma write_pointer_frame [simp]:
  "rm_run_id (write_latest_completed env k p m) = rm_run_id m" "known (write_latest_completed env k p m) = known m"
  by (simp_all add: write_latest_completed_def write_file_def)

lemma join_names_nonempty: "length ps > 1 \<Longrightarrow> join_names ps \<noteq> []"
  by (cases ps rule: join_names.cases) auto

lemma new_point_ok:
  assumes "rm_run_id m \<noteq> []" "rv_sha256 env (canonical_fields (new_point m ts stage dat scope step par res saf)) \<noteq> []"
  shows "point_ok (finalize_integrity env (new_point m ts stage dat scope step par res saf))"
proof -
  have "kp_id (new_point m ts stage dat scope step par res saf) \<noteq> []"
    by (auto simp: new_point_def Let_def checkpoint_id_def intro!: join_names_nonempty split: option.splits)
  with assms show ?thesis
    by (auto simp: point_ok_def finalize_integrity_def canonical_fields_def)
       (auto simp: new_point_def Let_def none_if_empty_def split: if_splits)
qed


lemma finalize_again:
  "finalize_integrity env ((finalize_integrity env k)\<lparr>kp_completed := True\<rparr>) = finalize_integrity env (k\<lparr>kp_completed := True\<rparr>)"
  by (simp add: finalize_integrity_def canonical_fields_def)

definition stage_allowed :: "recovery_manager \<Rightarrow> string \<Rightarrow> bool" where
  "stage_allowed m stage = (\<forall>sd. get_stage_def m stage = Some sd \<longrightarrow> sd_resumable sd \<and> sd_safe sd)"

definition env_ok :: "rec_env \<Rightarrow> bool" where
  "env_ok env = ((\<forall>f. rv_writable env f) \<and> (\<forall>fs. rv_sha256 env fs \<noteq> []))"

definition pointer_doc :: "string \<Rightarrow> recovery_point \<Rightarrow> string \<Rightarrow> json" where
  "pointer_doc run k path = JObj [(''run_id'', JStr run), (''id'', JStr (kp_id k)), (''stage'', JStr (kp_stage k)),
     (''scope'', opt_json (kp_scope k)), (''step'', opt_json (kp_step k)), (''timestamp'', JStr (kp_timestamp k)), (''path'', JStr path)]"

lemma save_complete_files:
  assumes "env_ok env" "strip stage = stage" "stage \<noteq> []"
    and "save_recovery_point env ts stage dat None None None None None m = (r1, m1)"
    and "mark_checkpoint_complete env ts' stage None None m1 = (r2, m2)"
    and "k = finalize_integrity env ((new_point m ts stage dat None None None None None)\<lparr>kp_completed := True\<rparr>)"
  shows "r2 = Inr (Some k) \<and> dict_get (workdir m2) (checkpoint_path (rm_run_id m) k) = Some (JsonDoc (kp_to_dict k)) \<and>
    dict_get (workdir m2) ''latest_completed.json'' = Some (JsonDoc (pointer_doc (rm_run_id m) k (checkpoint_path (rm_run_id m) k)))"
proof -
  let ?n = "new_point m ts stage dat None None None None None"
  let ?k0 = "finalize_integrity env ?n" and ?p = "checkpoint_path (rm_run_id m) ?n"
  have w: "rv_writable env f" for f using assms(1) by (simp add: env_ok_def)
  have m1: "known m1 = known m @ [?k0]" "rm_run_id m1 = rm_run_id m" "dict_has (workdir m1) ?p"
    using assms(2,3,4) w by (auto simp: save_recovery_point_def Let_def write_file_def)
  have n: "kp_run_id ?n = Some (rm_run_id m)" "kp_stage ?n = stage" "\<not> kp_completed ?n"
    by (simp_all add: new_point_def Let_def)
  have "open_position stage None None m1 = Some (length (known m))"
    by (simp add: open_position_def m1 Let_def nth_append n field_matches_def)
  then have "complete_known env ts' (length (known m)) m1 = (r2, m2)"
    using assms(5) assms(2) by (simp add: mark_checkpoint_complete_def strip_opt_def)
  moreover have k: "finalize_integrity env (?k0\<lparr>kp_completed := True\<rparr>) = k"
    by (simp only: finalize_again assms(6))
  moreover have "checkpoint_path (rm_run_id m) k = ?p" by (simp add: assms(6))
  ultimately show ?thesis
    using m1 w by (auto simp: complete_known_def Let_def nth_append write_file_def write_latest_completed_def pointer_doc_def)
qed

lemma save_complete_pointer:
  assumes "env_ok env" "rm_run_id m \<noteq> []" "strip stage = stage" "stage \<noteq> []" "stage_allowed m stage"
    and "save_recovery_point env ts stage dat None None None None None m = (r1, m1)"
    and "mark_checkpoint_complete env ts' stage None None m1 = (r2, m2)"
    and "\<And>f. f \<noteq> ''run.json'' \<Longrightarrow> f \<noteq> ''.lock'' \<Longrightarrow> dict_get (workdir m3) f = dict_get (workdir m2) f"
    and "rm_run_id m3 = rm_run_id m"
  obtains p k where "read_latest_completed_pointer env m3 = Some (p, k)" "kp_stage k = stage" "kp_data k = dat"
    "kp_resumable k" "kp_safe k"
proof -
  let ?n = "new_point m ts stage dat None None None None None"
  define k where "k = finalize_integrity env (?n\<lparr>kp_completed := True\<rparr>)"
  let ?p = "checkpoint_path (rm_run_id m) k"
  note files = save_complete_files [OF assms(1,3,4,6,7) k_def]
  have "point_ok (finalize_integrity env ?n)"
    by (rule new_point_ok) (use assms(1,2) in \<open>simp_all add: env_ok_def\<close>)
  then have "point_ok k" using assms(1) by (simp add: k_def point_ok_def finalize_integrity_def env_ok_def)
  then have read: "read_point m3 ?p = Some k" using files assms(8) [of ?p] by (simp add: read_point_def kp_from_to_dict)
  have k: "kp_run_id k = Some (rm_run_id m)" "kp_stage k = stage" "kp_completed k" "kp_data k = dat"
      "kp_resumable k" "kp_safe k" "validate_integrity env k"
    using assms(5) by (auto simp: k_def new_point_def Let_def stage_allowed_def split: option.splits)
  have "read_latest_completed_pointer env m3 = Some (?p, k)"
    using files assms(8) [of "''latest_completed.json''"] read k(1,3,7) assms(9)
    by (simp add: read_latest_completed_pointer_def pointer_doc_def get_text_def)
  with k show thesis by (intro that)
qed

text \<open>Recovery by way of the pointer.\<close>

lemma pointer_recovery:
  assumes "read_latest_completed_pointer env m = Some (p, k)"
    and "eligible_for_recovery m k (strip stage) (allow_later_stage pol)"
    and "allow_same_stage pol \<or> safe_stage (kp_stage k) \<noteq> safe_stage (strip stage)"
    and "prefer_pointer pol" "pol_scope pol = None" "pol_step pol = None"
  shows "recover_from_checkpoint env stage pol m = Inr (Some (kp_data k))"
proof -
  note p = pointer_mem [OF assms(1)]
  then have "dict_has (workdir m) p" by (auto simp: read_point_def dict_has_def split: option.splits)
  moreover have "describe_recovery env stage pol m = Some (mk_decision p k ''latest_completed pointer'')"
    using assms by (simp add: describe_recovery_def strip_opt_def Let_def)
  ultimately show ?thesis using p by (simp add: recover_from_checkpoint_def)
qed



section \<open>A run and its directory\<close>

text \<open>What happens to a manager during a run; a failed operation may also have changed it.\<close>

inductive rec_step :: "rec_env \<Rightarrow> recovery_manager \<Rightarrow> recovery_manager \<Rightarrow> bool" for env where
  rs_save: "rec_step env m (snd (save_recovery_point env ts stage dat scope step par res saf m))"
| rs_complete: "rec_step env m (snd (mark_checkpoint_complete env ts stage scope step m))"
| rs_success: "rec_step env m (snd (mark_run_success env ts m))"
| rs_failed: "rec_step env m (snd (mark_run_failed env ts err m))"
| rs_cleanup: "rec_step env m (cleanup_old_checkpoints env pol m)"
| rs_release: "rec_step env m (release_lock m)"

text \<open>Every document of the directory names the run.\<close>

definition all_own :: "string \<Rightarrow> (string, disk_file) dict \<Rightarrow> bool" where
  "all_own run d = (\<forall>f doc. dict_get d f = Some (JsonDoc doc) \<longrightarrow> get_opt_text doc ''run_id'' = Some (Some run))"

definition run_inv :: "string \<Rightarrow> recovery_manager \<Rightarrow> bool" where
  "run_inv run m = (rm_run_id m = run \<and> mf_run_id (run_info m) = run \<and> run \<noteq> [] \<and> all_own run (workdir m) \<and>
     list_all (\<lambda>k. kp_run_id k = Some run) (known m))"

lemma kp_from_dict_run: "kp_from_dict d = Some k \<Longrightarrow> get_opt_text d ''run_id'' = Some (kp_run_id k)"
  by (auto simp: kp_from_dict_def split: option.splits prod.splits)

lemma kp_to_dict_run: "kp_run_id k = Some run \<Longrightarrow> run \<noteq> [] \<Longrightarrow> get_opt_text (kp_to_dict k) ''run_id'' = Some (Some run)"
  by (rule get_opt_text_opt) (simp_all add: kp_to_dict_opt)

lemma all_own_set: "all_own run d \<Longrightarrow> get_opt_text doc ''run_id'' = Some (Some run) \<Longrightarrow> all_own run (dict_set f (JsonDoc doc) d)"
  by (simp add: all_own_def)

lemma all_own_pop: "all_own run d \<Longrightarrow> all_own run (dict_pop f d)"
  by (simp add: all_own_def)

lemma all_own_pops: "all_own run d \<Longrightarrow> all_own run (fold dict_pop fs d)"
  by (induction fs arbitrary: d) (simp_all add: all_own_pop)

lemma append_index_inv [simp]: "run_inv run (append_index_event env ev m) = run_inv run m"
  by (simp add: run_inv_def append_index_event_def)

lemma write_file_inv:
  "run_inv run m \<Longrightarrow> write_file env f doc m = Some m' \<Longrightarrow> get_opt_text doc ''run_id'' = Some (Some run) \<Longrightarrow> run_inv run m'"
  by (auto simp: run_inv_def write_file_def all_own_set split: if_splits)

lemma pointer_inv: "run_inv run m \<Longrightarrow> run_inv run (write_latest_completed env k p m)"
proof -
  assume inv: "run_inv run m"
  then have "rm_run_id m = run" "run \<noteq> []" by (simp_all add: run_inv_def)
  then show ?thesis
    using write_file_inv [OF inv] inv
    by (auto simp: write_latest_completed_def get_opt_text_def split: option.splits)
qed

lemma known_inv:
  assumes "run_inv run m" "kp_run_id k = Some run"
  shows "run_inv run (m\<lparr>known := known m @ [k]\<rparr>)" "run_inv run (m\<lparr>known := (known m)[i := k]\<rparr>)"
proof -
  show "run_inv run (m\<lparr>known := known m @ [k]\<rparr>)" using assms by (simp add: run_inv_def)
  have "list_all (\<lambda>k. kp_run_id k = Some run) ((known m)[i := k])"
    using assms by (auto simp: run_inv_def list_all_iff dest!: set_update_subset_insert [THEN subsetD])
  with assms(1) show "run_inv run (m\<lparr>known := (known m)[i := k]\<rparr>)" by (simp add: run_inv_def)
qed

lemma manifest_inv:
  assumes "run_inv run m" shows "run_inv run (snd (write_manifest env m))"
proof -
  have "get_opt_text (mf_to_dict (run_info m)) ''run_id'' = Some (Some run)"
    using assms by (simp add: run_inv_def mf_to_dict_def get_opt_text_def)
  with assms write_file_inv [OF assms] show ?thesis by (auto simp: write_manifest_def split: option.splits)
qed

lemma save_inv:
  assumes "run_inv run m"
  shows "run_inv run (snd (save_recovery_point env ts stage dat scope step par res saf m))"
proof -
  define s where "s = (if strip stage = [] then ''unknown'' else strip stage)"
  define k where "k = finalize_integrity env (new_point m ts s dat scope step par res saf)"
  have k: "kp_run_id k = Some run" using assms by (simp add: k_def new_point_def Let_def run_inv_def)
  have inv: "run_inv run (m\<lparr>known := known m @ [k]\<rparr>)" by (rule known_inv [OF assms k])
  have "get_opt_text (kp_to_dict k) ''run_id'' = Some (Some run)" using k assms by (simp add: kp_to_dict_run run_inv_def)
  with inv write_file_inv [OF inv] show ?thesis
    by (auto simp: save_recovery_point_def Let_def s_def [symmetric] k_def [symmetric] split: option.splits)
qed

lemma complete_known_inv:
  assumes "run_inv run m" "i < length (known m)"
  shows "run_inv run (snd (complete_known env ts i m))"
proof -
  define k where "k = (known m ! i)\<lparr>kp_completed := True\<rparr>"
  define k1 where "k1 = finalize_integrity env k"
  have k: "kp_run_id k = Some run" "kp_run_id k1 = Some run"
    using assms by (simp_all add: run_inv_def list_all_iff k_def k1_def)
  note inv = known_inv(2) [OF assms(1) k(1)] known_inv(2) [OF assms(1) k(2)]
  have "get_opt_text (kp_to_dict k1) ''run_id'' = Some (Some run)" using k assms by (simp add: kp_to_dict_run run_inv_def)
  with inv write_file_inv [OF inv(2)] show ?thesis
    by (auto simp: complete_known_def Let_def k_def [symmetric] k1_def [symmetric] pointer_inv split: option.splits)
qed

lemma complete_file_inv:
  assumes "run_inv run m" shows "run_inv run (snd (complete_file env ts path m))"
proof (cases "read_point m path")
  case (Some k)
  define k1 where "k1 = finalize_integrity env (k\<lparr>kp_completed := True\<rparr>)"
  show ?thesis
  proof (cases "kp_run_id k = Some (rm_run_id m)")
    case True
    then have "get_opt_text (kp_to_dict k1) ''run_id'' = Some (Some run)"
      using assms by (simp add: kp_to_dict_run run_inv_def k1_def)
    with assms write_file_inv [OF assms] Some True show ?thesis
      by (auto simp: complete_file_def Let_def k1_def [symmetric] pointer_inv split: option.splits)
  qed (use assms Some in \<open>simp add: complete_file_def\<close>)
qed (use assms in \<open>simp add: complete_file_def\<close>)

lemma complete_inv:
  assumes "run_inv run m" shows "run_inv run (snd (mark_checkpoint_complete env ts stage scope step m))"
proof -
  have "i < length (known m)" if "open_position a b c m = Some i" for a b c i
    using that by (auto simp: open_position_def dest!: find_Some_set)
  then show ?thesis
    using assms complete_known_inv [OF assms] complete_file_inv [OF assms]
    by (auto simp: mark_checkpoint_complete_def Let_def split: option.splits list.splits prod.splits) (metis snd_conv)+
qed

lemma cleanup_inv: "run_inv run m \<Longrightarrow> run_inv run (cleanup_old_checkpoints env pol m)"
  by (simp add: cleanup_old_checkpoints_def Let_def run_inv_def all_own_pops compact_index_best_effort_def)

lemma rec_step_inv: "rec_step env m m' \<Longrightarrow> run_inv run m \<Longrightarrow> run_inv run m'"
proof (induction rule: rec_step.induct)
  case (rs_success m ts)
  then show ?case unfolding mark_run_success_def by (intro manifest_inv) (simp add: run_inv_def)
next
  case (rs_failed m ts err)
  then show ?case unfolding mark_run_failed_def by (intro manifest_inv) (simp add: run_inv_def)
next
  case (rs_release m)
  then show ?case by (simp add: release_lock_def run_inv_def)
qed (simp_all add: save_inv complete_inv cleanup_inv)

lemma rec_run_inv: "(rec_step env)\<^sup>*\<^sup>* m m' \<Longrightarrow> run_inv run m \<Longrightarrow> run_inv run m'"
  by (induction rule: rtranclp_induct) (auto intro: rec_step_inv)

end
