(* ===== verification/Disk_Recovery.thy ===== *)
theory Disk_Recovery
  imports Recovery_Manager
begin

text \<open>
  The use of the recovery manager by \<^verbatim>\<open>h2kvm/orchestration/orchestrator.py\<close>
  (\<^verbatim>\<open>_setup_recovery\<close>, \<^verbatim>\<open>load_checkpoint\<close>, \<^verbatim>\<open>_save_disk_progress\<close>): the
  orchestrator opens the directory without a run identifier, so the manager takes the time of its
  creation for one.
\<close>

definition default_config :: rec_config where
  "default_config = \<lparr>cfg_enable_index = True, cfg_enable_lock = True, cfg_run_id = None, cfg_tool_version = None,
     cfg_args_hash = None, cfg_input_id = None, cfg_stage_order = [], cfg_stage_defs = []\<rparr>"

definition setup_recovery :: "rec_env \<Rightarrow> bool \<Rightarrow> string \<Rightarrow> string \<Rightarrow> int \<Rightarrow> (string, disk_file) dict \<Rightarrow> json list \<Rightarrow>
    (rec_exc, unit, recovery_manager) outcome" where
  "setup_recovery env busy ts host pid files lines = RecoveryManager env busy ts host pid default_config files lines"

definition load_progress_point :: "rec_env \<Rightarrow> recovery_manager \<Rightarrow> rec_exc + (string \<times> json) list option" where
  "load_progress_point env m =
     (case recover_from_checkpoint env ''disk_processing''
             \<lparr>pol_scope = None, pol_step = None, allow_same_stage = True, allow_later_stage = True, prefer_pointer = True\<rparr> m of
        Inl e \<Rightarrow> Inl e
      | Inr (Some d) \<Rightarrow> Inr (Some d)
      | Inr None \<Rightarrow> recover_from_checkpoint env ''disks_discovered''
             \<lparr>pol_scope = None, pol_step = None, allow_same_stage = True, allow_later_stage = False, prefer_pointer = True\<rparr> m)"

definition progress_data :: "string list \<Rightarrow> string list \<Rightarrow> string list \<Rightarrow> string list \<Rightarrow> (string \<times> json) list" where
  "progress_data all_disks completed pending images =
     [(''all_disks'', JList (map JStr all_disks)), (''completed_disks'', JList (map JStr completed)),
      (''pending_disks'', JList (map JStr pending)), (''fixed_images'', JList (map JStr images)),
      (''total'', JInt (int (length all_disks))), (''done'', JInt (int (length completed))),
      (''remaining'', JInt (int (length pending)))]"

definition save_disk_progress :: "rec_env \<Rightarrow> string \<Rightarrow> string \<Rightarrow> string list \<Rightarrow> string list \<Rightarrow> string list \<Rightarrow> string list \<Rightarrow>
    recovery_manager \<Rightarrow> (rec_exc, unit, recovery_manager) outcome" where
  "save_disk_progress env ts ts' all_disks completed pending images m =
     (case save_recovery_point env ts ''disk_processing'' (progress_data all_disks completed pending images)
             None None None None None m of
        (Inl e, m1) \<Rightarrow> (Inl e, m1)
      | (Inr _, m1) \<Rightarrow>
          (case mark_checkpoint_complete env ts' ''disk_processing'' None None m1 of
             (Inl e, m2) \<Rightarrow> (Inl e, m2) | (Inr _, m2) \<Rightarrow> (Inr (), m2)))"

section \<open>Within one process\<close>

text \<open>The progress that was saved last is loaded.\<close>

lemma progress_loads_back:
  assumes "env_ok env" "rm_run_id m \<noteq> []" "stage_defs m = []"
    and "save_disk_progress env ts ts' all_disks completed pending images m = (Inr (), m2)"
    and "stage_defs m2 = []" "rm_run_id m2 = rm_run_id m"
  shows "load_progress_point env m2 = Inr (Some (progress_data all_disks completed pending images))"
proof -
  let ?dat = "progress_data all_disks completed pending images"
  obtain r1 m1 where s1: "save_recovery_point env ts ''disk_processing'' ?dat None None None None None m = (r1, m1)" by fastforce
  then obtain r2 where s2: "mark_checkpoint_complete env ts' ''disk_processing'' None None m1 = (r2, m2)"
    using assms(4) by (auto simp: save_disk_progress_def split: sum.splits prod.splits)
  have st: "strip ''disk_processing'' = ''disk_processing''" by code_simp
  obtain p k where "read_latest_completed_pointer env m2 = Some (p, k)" and k: "kp_stage k = ''disk_processing''" "kp_data k = ?dat"
      "kp_resumable k" "kp_safe k"
    by (rule save_complete_pointer [OF assms(1,2) st _ _ s1 s2 _ assms(6)])
      (use assms(3) in \<open>simp_all add: stage_allowed_def get_stage_def_def\<close>)
  note ptr = this(1)
  have "eligible_for_recovery m2 k (strip ''disk_processing'') True"
    using k assms(5) by (simp add: eligible_for_recovery_def get_stage_def_def)
  then show ?thesis
    using pointer_recovery [OF ptr, of "''disk_processing''" "\<lparr>pol_scope = None, pol_step = None, allow_same_stage = True,
      allow_later_stage = True, prefer_pointer = True\<rparr>"] k
    by (simp add: load_progress_point_def)
qed

section \<open>After a restart\<close>

lemma setup_shape:
  assumes "setup_recovery env busy ts host pid files lines = (r, m)"
  shows "rm_run_id m = ts" "f \<noteq> ''run.json'' \<Longrightarrow> f \<noteq> ''.lock'' \<Longrightarrow> dict_get (workdir m) f = dict_get files f"
  using assms
  by (auto simp: setup_recovery_def RecoveryManager_def default_config_def Let_def strip_opt_def write_manifest_def acquire_lock_def
      write_file_def split: if_splits option.splits)

lemma setup_inv:
  assumes "setup_recovery env busy ts host pid [] lines = (Inr (), m)" "ts \<noteq> []"
  shows "run_inv ts m"
  using assms
  by (auto simp: setup_recovery_def RecoveryManager_def default_config_def Let_def strip_opt_def write_manifest_def acquire_lock_def
      write_file_def run_inv_def all_own_def mf_to_dict_def get_opt_text_def split: if_splits option.splits)

text \<open>
  The progress of a migration does not survive the process: when the orchestrator is started
  again on the directory of an earlier run, at another time, it finds nothing to resume, whatever the
  earlier run saved and completed, because it takes a fresh run identifier and skips the checkpoints of
  other runs.
\<close>
theorem restart_finds_no_progress:
  assumes "setup_recovery env busy ts host pid [] lines = (Inr (), m0)" and "ts \<noteq> []"
    and "(rec_step env)\<^sup>*\<^sup>* m0 m"
    and "setup_recovery env busy' ts' host' pid' (workdir m) lines' = (r, m')" and "ts' \<noteq> ts"
  shows "load_progress_point env m' = Inr None"
proof -
  have own: "all_own ts (workdir m)" using rec_run_inv [OF assms(3) setup_inv [OF assms(1,2)]] by (simp add: run_inv_def)
  note m' = setup_shape [OF assms(4)]
  have "kp_run_id k \<noteq> Some ts'" if "glob_checkpoint x p" "read_point m' p = Some k" for x p k
  proof -
    have "p \<noteq> ''run.json''" "p \<noteq> ''.lock''" using that(1) by (auto simp: glob_checkpoint_def)
    with that(2) m' obtain d where "dict_get (workdir m) p = Some (JsonDoc d)" "kp_from_dict d = Some k"
      by (auto simp: read_point_def split: option.splits disk_file.splits)
    with own kp_from_dict_run assms(5) show ?thesis by (fastforce simp: all_own_def)
  qed
  moreover have "read_latest_completed_pointer env m' = None"
  proof (cases "read_latest_completed_pointer env m'")
    case (Some x)
    then obtain fs where fs: "dict_get (workdir m') ''latest_completed.json'' = Some (JsonDoc (JObj fs))"
        "get_text (JObj fs) ''run_id'' [] = Some ts'"
      by (auto simp: read_latest_completed_pointer_def m'(1) split: option.splits disk_file.splits json.splits if_splits)
    then have "get_opt_text (JObj fs) ''run_id'' = Some (Some ts)"
      using own m'(2) [of "''latest_completed.json''"] by (simp add: all_own_def)
    with fs(2) assms(5) show ?thesis by (simp add: get_opt_text_text)
  qed
  ultimately have "recover_from_checkpoint env stage pol m' = Inr None" for stage pol
    by (intro no_points_no_recovery) (auto simp: m'(1))
  then show ?thesis by (simp add: load_progress_point_def)
qed

theorem restart_finds_no_progress_witness:
  "load_progress_point example_env (snd (setup_recovery example_env False ''20260102-000000'' ''host'' 8
     (workdir (snd (save_recovery_point example_env ''20260101-000001'' ''disk_processing'' [] None None None None None
        (snd (setup_recovery example_env False ''20260101-000000'' ''host'' 7 [] []))))) [])) = Inr None"
proof -
  let ?start = "snd (setup_recovery example_env False ''20260101-000000'' ''host'' 7 [] [])"
  let ?m = "snd (save_recovery_point example_env ''20260101-000001'' ''disk_processing'' [] None None None None None ?start)"
  let ?r = "setup_recovery example_env False ''20260102-000000'' ''host'' 8 (workdir ?m) []"
  have "fst (setup_recovery example_env False ''20260101-000000'' ''host'' 7 [] []) = Inr ()" by code_simp
  then have s: "setup_recovery example_env False ''20260101-000000'' ''host'' 7 [] [] = (Inr (), ?start)"
    by (simp add: prod_eq_iff)
  have "(rec_step example_env)\<^sup>*\<^sup>* ?start ?m" by (rule r_into_rtranclp) (rule rs_save)
  from restart_finds_no_progress [OF s _ this, of False "''20260102-000000''" "''host''" 8 "[]" "fst ?r" "snd ?r"]
  show ?thesis by simp
qed

section \<open>Processing the disks\<close>

text \<open>The processor of disks and the files it finds; the images it made before may have disappeared.\<close>

record disk_env =
  de_exists :: "string \<Rightarrow> bool"
  de_image_exists :: "string \<Rightarrow> bool"
  de_process :: "string \<Rightarrow> nat \<Rightarrow> nat \<Rightarrow> string + string"
  de_parallel :: "string list \<Rightarrow> string + string list"

datatype disk_exc = NoProcessor | DiskNotFound string | DiskFailed string | DiskRecovery rec_exc

definition disk_index :: "string list \<Rightarrow> string \<Rightarrow> nat" where
  "disk_index all_disks d = length (takeWhile (\<lambda>x. x \<noteq> d) all_disks)"

text \<open>The strings of a saved list. Recovery may be off, then nothing is saved or loaded.\<close>

definition text_items :: "json \<Rightarrow> string list" where
  "text_items v = (case v of JList xs \<Rightarrow> List.map_filter (\<lambda>x. case x of JStr s \<Rightarrow> Some s | _ \<Rightarrow> None) xs | _ \<Rightarrow> [])"

definition save_progress :: "rec_env \<Rightarrow> string \<Rightarrow> string list \<Rightarrow> string list \<Rightarrow> string list \<Rightarrow> string list \<Rightarrow>
    recovery_manager option \<Rightarrow> (disk_exc, unit, recovery_manager option) outcome" where
  "save_progress env ts all_disks completed pending images mo = (case mo of
      None \<Rightarrow> (Inr (), None)
    | Some m \<Rightarrow> map_prod (map_sum DiskRecovery id) Some (save_disk_progress env ts ts all_disks completed pending images m))"

fun disk_loop :: "rec_env \<Rightarrow> disk_env \<Rightarrow> (nat \<Rightarrow> string) \<Rightarrow> nat \<Rightarrow> string list \<Rightarrow> string list \<Rightarrow> string list \<Rightarrow> string list \<Rightarrow> string list \<Rightarrow>
    recovery_manager option \<Rightarrow> (disk_exc, string list, recovery_manager option) outcome" where
  "disk_loop env de clk i all_disks pending [] completed images mo = (Inr images, mo)"
| "disk_loop env de clk i all_disks pending (d # ds) completed images mo =
     (if \<not> de_exists de d then (Inl (DiskNotFound d), mo)
      else (case de_process de d (disk_index all_disks d) (length all_disks) of
              Inl e \<Rightarrow> (Inl (DiskFailed e), mo)
            | Inr img \<Rightarrow>
                (case save_progress env (clk i) all_disks (completed @ [d]) (filter (\<lambda>x. x \<notin> set (completed @ [d])) pending) (images @ [img]) mo of
                   (Inl e, mo1) \<Rightarrow> (Inl e, mo1)
                 | (Inr _, mo1) \<Rightarrow> disk_loop env de clk (Suc i) all_disks pending ds (completed @ [d]) (images @ [img]) mo1)))"

definition load_saved :: "rec_env \<Rightarrow> recovery_manager option \<Rightarrow> rec_exc + (string \<times> json) list option" where
  "load_saved env mo = (case mo of None \<Rightarrow> Inr None | Some m \<Rightarrow> load_progress_point env m)"

definition saved_lists :: "disk_env \<Rightarrow> (string \<times> json) list option \<Rightarrow> string list \<times> string list" where
  "saved_lists de cp = (case cp of
      None \<Rightarrow> ([], [])
    | Some d \<Rightarrow> if truthy (json_get (JObj d) ''completed_disks'' JNull)
                then (text_items (json_get (JObj d) ''completed_disks'' JNull),
                      filter (de_image_exists de) (text_items (json_get (JObj d) ''fixed_images'' (JList []))))
                else ([], []))"

definition process_disks :: "rec_env \<Rightarrow> disk_env option \<Rightarrow> (nat \<Rightarrow> string) \<Rightarrow> bool \<Rightarrow> string list \<Rightarrow> recovery_manager option \<Rightarrow>
    (disk_exc, string list, recovery_manager option) outcome" where
  "process_disks env processor clk parallel_processing all_disks mo = (case processor of
      None \<Rightarrow> (Inl NoProcessor, mo)
    | Some de \<Rightarrow>
        (case load_saved env mo of
           Inl e \<Rightarrow> (Inl (DiskRecovery e), mo)
         | Inr cp \<Rightarrow>
             (let (finished, resumed) = saved_lists de cp;
                  pending = filter (\<lambda>d. d \<notin> set finished) all_disks;
                  completed = filter (\<lambda>d. d \<in> set finished) all_disks
              in if pending = [] then (Inr resumed, mo)
                 else if length pending > 1 \<and> parallel_processing
                 then (case de_parallel de pending of
                         Inl e \<Rightarrow> (Inl (DiskFailed e), mo)
                       | Inr images \<Rightarrow>
                           (case save_progress env (clk 0) all_disks all_disks [] (resumed @ images) mo of
                              (Inl e, mo1) \<Rightarrow> (Inl e, mo1)
                            | (Inr _, mo1) \<Rightarrow> (Inr (resumed @ images), mo1)))
                 else disk_loop env de clk 0 all_disks pending pending completed resumed mo)))"

lemma text_items_strs [simp]: "text_items (JList (map JStr xs)) = xs"
  by (induction xs) (simp_all add: text_items_def map_filter_simps)

lemma saved_lists_progress:
  "saved_lists de (Some (progress_data all_disks completed pending images)) =
   (if completed = [] then ([], []) else (completed, filter (de_image_exists de) images))"
  by (simp add: saved_lists_def progress_data_def)

text \<open>A manager that the orchestrator can use, and what saving leaves.\<close>

definition usable :: "recovery_manager \<Rightarrow> bool" where
  "usable m = (rm_run_id m \<noteq> [] \<and> stage_defs m = [])"

lemma save_point_frame:
  "save_recovery_point env ts stage dat scope step par res saf m = (r, m') \<Longrightarrow> rm_run_id m' = rm_run_id m \<and> stage_defs m' = stage_defs m"
  by (auto simp: save_recovery_point_def Let_def write_file_def split: if_splits option.splits)

lemma pointer_defs: "stage_defs (write_latest_completed env k p m) = stage_defs m"
  by (simp add: write_latest_completed_def write_file_def)

lemma complete_frame:
  "mark_checkpoint_complete env ts stage scope step m = (r, m') \<Longrightarrow> rm_run_id m' = rm_run_id m \<and> stage_defs m' = stage_defs m"
  by (auto simp: mark_checkpoint_complete_def complete_known_def complete_file_def Let_def write_file_def pointer_defs
      split: if_splits option.splits list.splits prod.splits)

lemma save_progress_ok:
  assumes "env_ok env" "usable m"
  obtains m' where "save_progress env ts all_disks completed pending images (Some m) = (Inr (), Some m')" "usable m'"
    "load_progress_point env m' = Inr (Some (progress_data all_disks completed pending images))"
proof -
  let ?dat = "progress_data all_disks completed pending images"
  obtain r1 m1 where s1: "save_recovery_point env ts ''disk_processing'' ?dat None None None None None m = (r1, m1)" by fastforce
  obtain r2 m2 where s2: "mark_checkpoint_complete env ts ''disk_processing'' None None m1 = (r2, m2)" by fastforce
  have st: "strip ''disk_processing'' = ''disk_processing''" by code_simp
  have "\<exists>k. r1 = Inr k" using s1 assms(1) by (auto simp: save_recovery_point_def Let_def write_file_def env_ok_def)
  moreover have "\<exists>k. r2 = Inr k" using save_complete_files [OF assms(1) st _ s1 s2 refl] by simp
  ultimately have s: "save_disk_progress env ts ts all_disks completed pending images m = (Inr (), m2)"
    using s1 s2 by (auto simp: save_disk_progress_def)
  have u: "rm_run_id m2 = rm_run_id m" "stage_defs m2 = stage_defs m" using save_point_frame [OF s1] complete_frame [OF s2] by auto
  have "load_progress_point env m2 = Inr (Some ?dat)"
    using progress_loads_back [OF assms(1) _ _ s] u assms(2) by (simp add: usable_def)
  with s u assms(2) show thesis by (intro that) (auto simp: save_progress_def usable_def)
qed


lemma disk_loop_prefix:
  assumes "env_ok env" "usable m"
    and "\<And>x. x \<in> set xs \<Longrightarrow> de_exists de x \<and> de_process de x (disk_index all_disks x) (length all_disks) = Inr (img x)"
  obtains m' where "usable m'"
    "disk_loop env de clk i all_disks pending (xs @ zs) completed images (Some m) =
     disk_loop env de clk (i + length xs) all_disks pending zs (completed @ xs) (images @ map img xs) (Some m')"
    "xs \<noteq> [] \<Longrightarrow> load_progress_point env m' =
       Inr (Some (progress_data all_disks (completed @ xs) (filter (\<lambda>x. x \<notin> set (completed @ xs)) pending) (images @ map img xs)))"
    "xs = [] \<Longrightarrow> m' = m"
  using assms(2,3)
proof (induction xs arbitrary: i completed images m thesis)
  case Nil
  then show ?case by simp
next
  case (Cons x xs)
  obtain m1 where s: "save_progress env (clk i) all_disks (completed @ [x]) (filter (\<lambda>y. y \<notin> set (completed @ [x])) pending)
        (images @ [img x]) (Some m) = (Inr (), Some m1)" and u: "usable m1"
    and l: "load_progress_point env m1 =
       Inr (Some (progress_data all_disks (completed @ [x]) (filter (\<lambda>y. y \<notin> set (completed @ [x])) pending) (images @ [img x])))"
    by (rule save_progress_ok [OF assms(1) Cons.prems(2)])
  obtain m' where m': "usable m'"
    "disk_loop env de clk (Suc i) all_disks pending (xs @ zs) (completed @ [x]) (images @ [img x]) (Some m1) =
     disk_loop env de clk (Suc i + length xs) all_disks pending zs ((completed @ [x]) @ xs) ((images @ [img x]) @ map img xs) (Some m')"
    "xs \<noteq> [] \<Longrightarrow> load_progress_point env m' =
       Inr (Some (progress_data all_disks ((completed @ [x]) @ xs) (filter (\<lambda>y. y \<notin> set ((completed @ [x]) @ xs)) pending)
         ((images @ [img x]) @ map img xs)))"
    "xs = [] \<Longrightarrow> m' = m1"
    by (rule Cons.IH [where m = m1 and completed = "completed @ [x]" and images = "images @ [img x]" and i = "Suc i"])
      (use u Cons.prems(3) in auto)
  show ?case
  proof (rule Cons.prems(1) [OF m'(1)])
    show "disk_loop env de clk i all_disks pending ((x # xs) @ zs) completed images (Some m) =
      disk_loop env de clk (i + length (x # xs)) all_disks pending zs (completed @ x # xs) (images @ map img (x # xs)) (Some m')"
      using m'(2) s Cons.prems(3) [of x] by simp
    show "load_progress_point env m' = Inr (Some (progress_data all_disks (completed @ x # xs)
        (filter (\<lambda>y. y \<notin> set (completed @ x # xs)) pending) (images @ map img (x # xs))))"
      using m'(3,4) l by (cases "xs = []") simp_all
  qed simp
qed

lemma disk_index_append: "d \<notin> set xs \<Longrightarrow> disk_index (xs @ d # ys) d = length xs"
  by (induction xs) (auto simp: disk_index_def)

lemma filter_prefix:
  assumes "distinct (xs @ zs)"
  shows "filter (\<lambda>x. x \<notin> set xs) (xs @ zs) = zs" "filter (\<lambda>x. x \<in> set xs) (xs @ zs) = xs"
proof -
  have "filter (\<lambda>x. x \<notin> set xs) zs = zs" "filter (\<lambda>x. x \<in> set xs) zs = []"
    using assms by (auto simp: filter_id_conv filter_empty_conv)
  then show "filter (\<lambda>x. x \<notin> set xs) (xs @ zs) = zs" "filter (\<lambda>x. x \<in> set xs) (xs @ zs) = xs" by simp_all
qed




definition example_disks :: "bool \<Rightarrow> disk_env" where
  "example_disks repaired = \<lparr>de_exists = \<lambda>_. True, de_image_exists = \<lambda>_. True,
     de_process = \<lambda>d i n. if d = ''b.vmdk'' \<and> \<not> repaired then Inl ''inspection failed'' else Inr (d @ ''.qcow2''),
     de_parallel = \<lambda>_. Inl ''unused''\<rparr>"


end
