(* ===== verification/Config_Loader.thy ===== *)
theory Config_Loader
  imports Config_Merge "HOL-Library.List_Lexorder" "HOL-Library.Char_ord"
begin

text \<open>
  \<^verbatim>\<open>h2kvm/config/config_loader.py\<close>: loading of configuration files, their deep merge, the
  normalisation of keys and aliases, the fan-out into one configuration per machine, and the use of a
  configuration as defaults of the command line.

  The file system, the JSON and YAML parsers and the digest are given by the environment.
  \<^verbatim>\<open>U.die\<close> raises \<^verbatim>\<open>Fatal\<close>, which is an \<^verbatim>\<open>Exception\<close>: where it is called inside a
  \<^verbatim>\<open>try\<close> the surrounding handler dies with its own reason, and that one is recorded. The hints in
  the text of the error are not modelled.
\<close>

section \<open>Environment and errors\<close>

record config_env =
  ce_resolve :: "string \<Rightarrow> string"
  ce_exists :: "string \<Rightarrow> bool"
  ce_is_dir :: "string \<Rightarrow> bool"
  ce_is_file :: "string \<Rightarrow> bool"
  ce_rglob :: "string \<Rightarrow> string list"
  ce_glob :: "string \<Rightarrow> string list"
  ce_read :: "string \<Rightarrow> string option"
  ce_json :: "string \<Rightarrow> json option"
  ce_yaml :: "string \<Rightarrow> json option"
  ce_yaml_available :: bool
  ce_secret :: string
  ce_hmac :: "string \<Rightarrow> string \<Rightarrow> string"

datatype cfg_reason =
    MissingConfig string
  | MissingSignature string
  | SignatureFailed string
  | UnreadableConfig string
  | ConfigNotMapping string
  | MissingConfigs "string list"
  | VmNotMapping string nat
  | UnknownKeys "string list"

datatype cfg_exc = ConfigFatal cfg_reason | ConfigPy py_exc

section \<open>Merging\<close>

text \<open>Membership in a set goes by hash and equality: booleans and integral floats equal integers, and
  lists and dictionaries cannot be hashed.\<close>

fun hash_key :: "json \<Rightarrow> json option" where
  "hash_key (JBool b) = Some (JInt (if b then 1 else 0))"
| "hash_key (JNum x) = Some (if x = of_int \<lfloor>x\<rfloor> then JInt \<lfloor>x\<rfloor> else JNum x)"
| "hash_key (JList xs) = None"
| "hash_key (JObj fs) = None"
| "hash_key v = Some v"

fun extend_unique :: "json list \<Rightarrow> json list \<Rightarrow> json list" where
  "extend_unique seen [] = []"
| "extend_unique seen (x # xs) = (case hash_key x of
      None \<Rightarrow> x # extend_unique seen xs
    | Some h \<Rightarrow> if h \<in> set seen then extend_unique seen xs else x # extend_unique (h # seen) xs)"

definition merge_lists :: "string \<Rightarrow> json list \<Rightarrow> json list \<Rightarrow> json list" where
  "merge_lists list_mode x y =
     (if list_mode = ''append'' then x @ y
      else if list_mode = ''extend_unique'' then extend_unique [] (x @ y)
      else y)"

function merge_dicts :: "string \<Rightarrow> items \<Rightarrow> items \<Rightarrow> items" where
  "merge_dicts list_mode out [] = out"
| "merge_dicts list_mode out ((k, v) # override) =
     merge_dicts list_mode
       (dict_set k (case (map_of out k, v) of
            (Some (JObj b), JObj ov) \<Rightarrow> JObj (merge_dicts list_mode b ov)
          | (Some (JList x), JList y) \<Rightarrow> JList (merge_lists list_mode x y)
          | _ \<Rightarrow> v) out)
       override"
  by pat_completeness auto
termination
  by (relation "measure (\<lambda>(mode, out, override). size_list (size_prod (\<lambda>_. 0) size) override)") auto

section \<open>Normalisation\<close>

definition normal_key :: "string \<Rightarrow> string" where
  "normal_key k = map (\<lambda>c. if c = CHR ''-'' then CHR ''_'' else c) k"

fun normalize_keys :: "json \<Rightarrow> json" and normalize_items :: "items \<Rightarrow> items \<Rightarrow> items" where
  "normalize_keys (JObj fs) = JObj (normalize_items [] fs)"
| "normalize_keys (JList xs) = JList (map normalize_keys xs)"
| "normalize_keys v = v"
| "normalize_items out [] = out"
| "normalize_items out ((k, v) # fs) = normalize_items (dict_set (normal_key k) (normalize_keys v) out) fs"

text \<open>One name is filled in from another when only the other is present.\<close>

definition fill_alias :: "string \<Rightarrow> string \<Rightarrow> items \<Rightarrow> items" where
  "fill_alias src dst d = (case map_of d src of
      Some v \<Rightarrow> if dict_has d dst then d else dict_set dst v d
    | None \<Rightarrow> d)"

definition both_aliases :: "string \<Rightarrow> string \<Rightarrow> items \<Rightarrow> items" where
  "both_aliases a b d =
     (if dict_has d a \<and> \<not> dict_has d b then fill_alias a b d
      else if dict_has d b \<and> \<not> dict_has d a then fill_alias b a d
      else d)"

definition govc_map :: "(string \<times> string) list" where
  "govc_map = [(''GOVC_URL'', ''govc_url''), (''GOVC_USERNAME'', ''govc_user''), (''GOVC_USER'', ''govc_user''),
     (''GOVC_PASSWORD'', ''govc_password''), (''GOVC_PASSWORD_ENV'', ''govc_password_env''),
     (''GOVC_INSECURE'', ''govc_insecure''), (''GOVC_DATACENTER'', ''govc_datacenter''),
     (''GOVC_DATASTORE'', ''govc_ds''), (''GOVC_DS'', ''govc_ds''), (''GOVC_FOLDER'', ''govc_folder''),
     (''GOVC_CLUSTER'', ''govc_cluster''), (''GOVC_RESOURCE_POOL'', ''govc_resource_pool'')]"

definition lower_plane :: "items \<Rightarrow> items" where
  "lower_plane d = (case map_of d ''vs_control_plane'' of
      Some (JStr s) \<Rightarrow> dict_set ''vs_control_plane'' (JStr (py_lower (strip s))) d
    | _ \<Rightarrow> d)"

definition canonicalize_aliases :: "items \<Rightarrow> items" where
  "canonicalize_aliases d =
     (let d1 = both_aliases ''command'' ''cmd'' d;
          d2 = both_aliases ''vs_action'' ''action'' d1;
          d3 = both_aliases ''vs_control_plane'' ''control_plane'' d2;
          d4 = fold (\<lambda>(src, dst). fill_alias src dst) govc_map d3
      in lower_plane d4)"

section \<open>Loading\<close>

definition verify_signature :: "config_env \<Rightarrow> string \<Rightarrow> cfg_exc + unit" where
  "verify_signature env p =
     (if ce_secret env = [] then Inr ()
      else (let sig = with_suffix p (path_suffix p @ ''.sig'')
            in if \<not> ce_exists env sig then Inl (ConfigFatal (MissingSignature sig))
               else (case (ce_read env p, ce_read env sig) of
                       (Some text, Some s) \<Rightarrow>
                         if ce_hmac env (ce_secret env) text = strip s then Inr ()
                         else Inl (ConfigFatal (SignatureFailed p))
                     | _ \<Rightarrow> Inl (ConfigFatal (SignatureFailed p)))))"

definition parse_config :: "config_env \<Rightarrow> string \<Rightarrow> string \<Rightarrow> json option" where
  "parse_config env p text =
     (if py_lower (path_suffix p) = ''.json'' then ce_json env text
      else if \<not> ce_yaml_available env then None
      else map_option (\<lambda>v. if truthy v then v else JObj []) (ce_yaml env text))"

definition load_one :: "config_env \<Rightarrow> string \<Rightarrow> cfg_exc + items" where
  "load_one env path =
     (let p = ce_resolve env path
      in if \<not> ce_exists env p then Inl (ConfigFatal (MissingConfig p))
         else (case verify_signature env p of
                 Inl e \<Rightarrow> Inl e
               | Inr _ \<Rightarrow>
                   (case Option.bind (ce_read env p) (parse_config env p) of
                      None \<Rightarrow> Inl (ConfigFatal (UnreadableConfig p))
                    | Some (JObj fs) \<Rightarrow> Inr (canonicalize_aliases (normalize_items [] fs))
                    | Some _ \<Rightarrow> Inl (ConfigFatal (ConfigNotMapping p)))))"

definition is_pattern :: "string \<Rightarrow> bool" where
  "is_pattern c = (CHR ''*'' \<in> set c \<or> CHR ''?'' \<in> set c \<or> (CHR ''['' \<in> set c \<and> CHR '']'' \<in> set c))"

definition expand_one :: "config_env \<Rightarrow> string \<Rightarrow> string list" where
  "expand_one env c =
     (if ce_exists env c \<and> ce_is_dir env c
      then map (ce_resolve env)
             (filter (\<lambda>f. ce_is_file env f \<and> py_lower (path_suffix f) \<in> {''.yaml'', ''.yml'', ''.json''}) (ce_rglob env c))
      else if is_pattern c then map (ce_resolve env) (ce_glob env c)
      else [ce_resolve env c])"

fun uniq_paths :: "string list \<Rightarrow> string list \<Rightarrow> string list" where
  "uniq_paths seen [] = []"
| "uniq_paths seen (x # xs) = (if x \<in> set seen then uniq_paths seen xs else x # uniq_paths (x # seen) xs)"

definition expand_configs :: "config_env \<Rightarrow> string list \<Rightarrow> string list" where
  "expand_configs env configs = uniq_paths [] (concat (map (expand_one env) configs))"

definition precheck_missing_paths :: "config_env \<Rightarrow> string list \<Rightarrow> cfg_exc + unit" where
  "precheck_missing_paths env paths =
     (let missing = filter (\<lambda>p. \<not> ce_exists env p) paths
      in if missing = [] then Inr () else Inl (ConfigFatal (MissingConfigs missing)))"

fun load_merge :: "config_env \<Rightarrow> string \<Rightarrow> items \<Rightarrow> string list \<Rightarrow> cfg_exc + items" where
  "load_merge env list_mode conf [] = Inr conf"
| "load_merge env list_mode conf (p # ps) = (case load_one env p of
      Inl e \<Rightarrow> Inl e
    | Inr c \<Rightarrow> load_merge env list_mode (merge_dicts list_mode conf c) ps)"

definition load_many :: "config_env \<Rightarrow> string \<Rightarrow> string list \<Rightarrow> cfg_exc + items" where
  "load_many env list_mode specs =
     (let paths = expand_configs env specs
      in case precheck_missing_paths env paths of
           Inl e \<Rightarrow> Inl e
         | Inr _ \<Rightarrow> if paths = [] then Inr []
                    else map_sum id canonicalize_aliases (load_merge env list_mode [] paths))"

fun fan_out :: "string \<Rightarrow> string \<Rightarrow> items \<Rightarrow> nat \<Rightarrow> json list \<Rightarrow> cfg_exc + items list" where
  "fan_out list_mode path base idx [] = Inr []"
| "fan_out list_mode path base idx (vm # vms) = (case vm of
      JObj fs \<Rightarrow> map_sum id (\<lambda>cs. merge_dicts list_mode base fs # cs) (fan_out list_mode path base (Suc idx) vms)
    | _ \<Rightarrow> Inl (ConfigFatal (VmNotMapping path idx)))"

fun load_vms :: "config_env \<Rightarrow> string \<Rightarrow> string list \<Rightarrow> cfg_exc + items list" where
  "load_vms env list_mode [] = Inr []"
| "load_vms env list_mode (p # ps) = (case load_one env p of
      Inl e \<Rightarrow> Inl e
    | Inr conf \<Rightarrow> (case (case map_of conf ''vms'' of
                          Some (JList vms) \<Rightarrow> fan_out list_mode p (dict_pop ''vms'' conf) 0 vms
                        | _ \<Rightarrow> Inr [conf]) of
                    Inl e \<Rightarrow> Inl e
                  | Inr cs \<Rightarrow> map_sum id (\<lambda>r. cs @ r) (load_vms env list_mode ps)))"

definition load_vm_configs :: "config_env \<Rightarrow> string \<Rightarrow> string list \<Rightarrow> cfg_exc + items list" where
  "load_vm_configs env list_mode specs =
     (let paths = expand_configs env specs
      in case precheck_missing_paths env paths of
           Inl e \<Rightarrow> Inl e
         | Inr _ \<Rightarrow> map_sum id (map canonicalize_aliases) (load_vms env list_mode paths))"

section \<open>Defaults of the command line\<close>

text \<open>An action of \<^verbatim>\<open>argparse\<close>: whether it stores a boolean, its type, a function that may raise,
  and what the configuration changes. A parser has its own actions and, when it has subcommands, those
  of its subparsers.\<close>

record arg_action =
  act_dest :: string
  act_store_bool :: bool
  act_nargs :: "string option"
  act_type :: "(json \<Rightarrow> py_exc + json) option"
  act_default :: json
  act_required :: bool

record arg_parser =
  ap_actions :: "arg_action list"
  ap_subs :: "(string \<times> arg_action list) list option"

definition coerce_one :: "(json \<Rightarrow> py_exc + json) \<Rightarrow> json \<Rightarrow> py_exc + json" where
  "coerce_one ty x = (case ty x of
      Inr y \<Rightarrow> Inr y
    | Inl (ValueError m) \<Rightarrow> Inr x
    | Inl (TypeError m) \<Rightarrow> Inr x
    | Inl e \<Rightarrow> Inl e)"

fun coerce_list :: "(json \<Rightarrow> py_exc + json) \<Rightarrow> json list \<Rightarrow> py_exc + json list" where
  "coerce_list ty [] = Inr []"
| "coerce_list ty (x # xs) = (case coerce_one ty x of
      Inl e \<Rightarrow> Inl e | Inr y \<Rightarrow> map_sum id (\<lambda>ys. y # ys) (coerce_list ty xs))"

definition coerce_argparse_value :: "arg_action \<Rightarrow> json \<Rightarrow> py_exc + json" where
  "coerce_argparse_value act raw =
     (if act_store_bool act
      then Inr (JBool (case raw of
             JBool b \<Rightarrow> b
           | JStr s \<Rightarrow> py_lower (strip s) \<in> {''1'', ''true'', ''yes'', ''y'', ''on''}
           | _ \<Rightarrow> truthy raw))
      else (case act_type act of
              None \<Rightarrow> Inr raw
            | Some ty \<Rightarrow>
                (case raw of
                   JList xs \<Rightarrow> map_sum id JList (coerce_list ty xs)
                 | _ \<Rightarrow> if act_nargs act \<in> {Some ''+'', Some ''*''}
                         then map_sum id JList (coerce_list ty [raw])
                         else coerce_one ty raw)))"

definition collect_argparse_dests :: "arg_parser \<Rightarrow> string list" where
  "collect_argparse_dests ap =
     filter (\<lambda>d. d \<noteq> []) (map act_dest (ap_actions ap @ concat (map snd (case ap_subs ap of None \<Rightarrow> [] | Some ss \<Rightarrow> ss))))"

fun apply_actions :: "items \<Rightarrow> arg_action list \<Rightarrow> (py_exc, unit, arg_action list) outcome" where
  "apply_actions conf [] = (Inr (), [])"
| "apply_actions conf (act # acts) =
     (case (if act_dest act = [] then None else map_of conf (act_dest act)) of
        None \<Rightarrow> map_prod id (\<lambda>as. act # as) (apply_actions conf acts)
      | Some raw \<Rightarrow>
          (case coerce_argparse_value act raw of
             Inl e \<Rightarrow> (Inl e, act # acts)
           | Inr val \<Rightarrow>
               map_prod id (\<lambda>as. act\<lparr>act_default := val, act_required := act_required act \<and> val = JNull\<rparr> # as)
                 (apply_actions conf acts)))"

fun apply_subs :: "items \<Rightarrow> (string \<times> arg_action list) list \<Rightarrow> (py_exc, unit, (string \<times> arg_action list) list) outcome" where
  "apply_subs conf [] = (Inr (), [])"
| "apply_subs conf ((name, acts) # subs) =
     (case apply_actions conf acts of
        (Inl e, acts1) \<Rightarrow> (Inl e, (name, acts1) # subs)
      | (Inr _, acts1) \<Rightarrow> map_prod id (\<lambda>ss. (name, acts1) # ss) (apply_subs conf subs))"

definition apply_as_defaults :: "bool \<Rightarrow> items \<Rightarrow> arg_parser \<Rightarrow> (cfg_exc, unit, arg_parser) outcome" where
  "apply_as_defaults strict conf ap =
     (if conf = [] then (Inr (), ap)
      else (let unknown = filter (\<lambda>k. k \<notin> set (collect_argparse_dests ap)) (dict_keys conf)
            in if strict \<and> unknown \<noteq> [] then (Inl (ConfigFatal (UnknownKeys (sort unknown))), ap)
               else (case apply_actions conf (ap_actions ap) of
                       (Inl e, as) \<Rightarrow> (Inl (ConfigPy e), ap\<lparr>ap_actions := as\<rparr>)
                     | (Inr _, as) \<Rightarrow>
                         (case ap_subs ap of
                            None \<Rightarrow> (Inr (), ap\<lparr>ap_actions := as\<rparr>)
                          | Some subs \<Rightarrow> map_prod (map_sum ConfigPy id)
                              (\<lambda>ss. ap\<lparr>ap_actions := as, ap_subs := Some ss\<rparr>) (apply_subs conf subs)))))"

text \<open>Of the global actions the last with a name counts, of those of subcommands the first one, and
  only for names that no global action has.\<close>

definition find_action :: "arg_parser \<Rightarrow> string \<Rightarrow> arg_action option" where
  "find_action ap key =
     (if key = [] then None
      else (case find (\<lambda>a. act_dest a = key) (rev (ap_actions ap)) of
              Some a \<Rightarrow> Some a
            | None \<Rightarrow> find (\<lambda>a. act_dest a = key) (concat (map snd (case ap_subs ap of None \<Rightarrow> [] | Some ss \<Rightarrow> ss)))))"

fun set_attributes :: "arg_parser \<Rightarrow> items \<Rightarrow> items \<Rightarrow> (py_exc, unit, items) outcome" where
  "set_attributes ap [] ns = (Inr (), ns)"
| "set_attributes ap ((key, raw) # fs) ns =
     (case (case find_action ap key of Some a \<Rightarrow> coerce_argparse_value a raw | None \<Rightarrow> Inr raw) of
        Inl e \<Rightarrow> (Inl e, ns)
      | Inr val \<Rightarrow> set_attributes ap fs (dict_set key val ns))"

definition apply_config_to_namespace :: "arg_parser \<Rightarrow> items \<Rightarrow> items \<Rightarrow> (py_exc, unit, items) outcome" where
  "apply_config_to_namespace ap conf ns =
     (if conf = [] then (Inr (), ns)
      else set_attributes ap (canonicalize_aliases (normalize_items [] conf)) ns)"

section \<open>Merging meets the contract\<close>

lemma merge_dicts_absent: "map_of override k = None \<Longrightarrow> map_of (merge_dicts m base override) k = map_of base k"
proof (induction override arbitrary: base)
  case (Cons kv override)
  then show ?case by (cases kv) (auto split: if_splits)
qed simp

lemma merge_dicts_lookup:
  "dict_ok override \<Longrightarrow> map_of (merge_dicts m base override) k = (case map_of override k of None \<Rightarrow> map_of base k
     | Some v \<Rightarrow> Some (merged_value (merge_lists m) (merge_dicts m) (map_of base k) v))"
proof (induction override arbitrary: base)
  case (Cons kv override)
  obtain k' v where kv: "kv = (k', v)" by (cases kv)
  from Cons.prems have ok: "dict_ok override" and fresh: "map_of override k' = None"
    by (auto simp: kv dict_ok_def map_of_eq_None_iff)
  show ?case
  proof (cases "k = k'")
    case True
    then show ?thesis using fresh
      by (simp add: kv merge_dicts_absent merged_value_def split: option.splits json.splits)
  next
    case False
    then show ?thesis by (cases "map_of override k") (simp_all add: kv Cons.IH [OF ok])
  qed
qed simp

interpretation cfg_any: merging "merge_dicts m" "merge_lists m" for m
  by unfold_locales (simp add: merge_dicts_lookup)

interpretation cfg: replacing "merge_dicts ''replace''" "merge_lists ''replace''"
  by unfold_locales (simp add: merge_lists_def)

lemma merge_dicts_has: "dict_ok b \<Longrightarrow> dict_has (merge_dicts m a b) k = (dict_has a k \<or> dict_has b k)"
  by (auto simp: dict_has_def merge_dicts_lookup split: option.splits)

section \<open>Normal configurations\<close>

fun no_dash :: "json \<Rightarrow> bool" where
  "no_dash (JObj fs) = list_all (\<lambda>(k, v). CHR ''-'' \<notin> set k \<and> no_dash v) fs"
| "no_dash (JList xs) = list_all no_dash xs"
| "no_dash _ = True"

definition normal :: "json \<Rightarrow> bool" where
  "normal v = (json_wf v \<and> no_dash v)"

lemma normal_set:
  "normal (JObj fs) \<Longrightarrow> normal v \<Longrightarrow> CHR ''-'' \<notin> set k \<Longrightarrow> normal (JObj (dict_set k v fs))"
proof (induction fs)
  case (Cons kv fs)
  then show ?case by (cases kv) (auto simp: normal_def dict_ok_def update_keys)
qed (simp add: normal_def dict_ok_def)

lemma normal_get: "normal (JObj fs) \<Longrightarrow> map_of fs k = Some v \<Longrightarrow> normal v"
  by (auto simp: normal_def list_all_iff dest: map_of_SomeD)

lemma normal_key_no_dash [simp]: "CHR ''-'' \<notin> set (normal_key k)"
  by (auto simp: normal_key_def)

lemma normal_key_id [simp]: "CHR ''-'' \<notin> set k \<Longrightarrow> normal_key k = k"
  by (auto simp: normal_key_def intro!: map_idI)

lemma normalize_normal:
  "normal (normalize_keys v)"
  "normal (JObj out) \<Longrightarrow> normal (JObj (normalize_items out fs))"
proof (induction v and out fs rule: normalize_keys_normalize_items.induct)
  case (1 fs)
  then show ?case by (simp add: normal_def)
next
  case (2 xs)
  then show ?case by (auto simp: normal_def list_all_iff)
next
  case (5 out k v fs)
  then show ?case by (simp add: normal_set)
qed (auto simp: normal_def)

lemma normalize_id:
  "normal v \<Longrightarrow> normalize_keys v = v"
  "normal (JObj (out @ fs)) \<Longrightarrow> normalize_items out fs = out @ fs"
proof (induction v and out fs rule: normalize_keys_normalize_items.induct)
  case (1 fs)
  then show ?case by simp
next
  case (2 xs)
  then show ?case by (auto simp: normal_def list_all_iff intro!: map_idI)
next
  case (5 out k v fs)
  then have "\<not> dict_has out k" by (auto simp: dict_has_iff normal_def dict_ok_def)
  with 5 show ?case by (simp add: dict_set_fresh normal_def)
qed auto

section \<open>Aliases\<close>

text \<open>Every alias present has its partner, and the control plane is stripped and in lower case.\<close>

definition alias_pairs :: "(string \<times> string) list" where
  "alias_pairs = [(''command'', ''cmd''), (''cmd'', ''command''), (''vs_action'', ''action''), (''action'', ''vs_action''),
     (''vs_control_plane'', ''control_plane''), (''control_plane'', ''vs_control_plane'')] @ govc_map"

definition aliases_closed :: "items \<Rightarrow> bool" where
  "aliases_closed d = list_all (\<lambda>(src, dst). dict_has d src \<longrightarrow> dict_has d dst) alias_pairs"

definition plane_ok :: "items \<Rightarrow> bool" where
  "plane_ok d = (case map_of d ''vs_control_plane'' of Some (JStr s) \<Rightarrow> py_lower (strip s) = s | _ \<Rightarrow> True)"

lemma fill_alias_has: "dict_has (fill_alias src dst d) k = (dict_has d k \<or> (k = dst \<and> dict_has d src))"
  by (auto simp: fill_alias_def dict_has_def split: option.splits)

lemma both_aliases_has:
  "dict_has (both_aliases a b d) k = (dict_has d k \<or> (k = b \<and> dict_has d a) \<or> (k = a \<and> dict_has d b))"
  by (auto simp: both_aliases_def fill_alias_has)

lemma lower_plane_has [simp]: "dict_has (lower_plane d) k = dict_has d k"
  by (auto simp: lower_plane_def dict_has_def split: option.splits json.splits)

lemma fill_aliases_has:
  assumes "\<And>s t u. (s, t) \<in> set ps \<Longrightarrow> (t, u) \<notin> set ps"
  shows "dict_has (fold (\<lambda>(src, dst). fill_alias src dst) ps d) k =
     (dict_has d k \<or> (\<exists>src. (src, k) \<in> set ps \<and> dict_has d src))"
  using assms
proof (induction ps arbitrary: d)
  case (Cons p ps)
  obtain a b where p: "p = (a, b)" by (cases p)
  have sep: "(t, u) \<notin> set ps" if "(s, t) \<in> set ps" for s t u
    using Cons.prems [of s t u] that by simp
  have b: "(b, k) \<notin> set ps" using Cons.prems [of a b k] by (simp add: p)
  show ?case using b by (simp add: p Cons.IH [OF sep] fill_alias_has) blast
qed simp

definition name_pairs :: "(string \<times> string) list" where
  "name_pairs = [(''command'', ''cmd''), (''cmd'', ''command''), (''vs_action'', ''action''), (''action'', ''vs_action''),
     (''vs_control_plane'', ''control_plane''), (''control_plane'', ''vs_control_plane'')]"

lemma alias_pairs_split: "alias_pairs = name_pairs @ govc_map"
  by (simp add: alias_pairs_def name_pairs_def)

lemma names_has:
  "dict_has (both_aliases ''vs_control_plane'' ''control_plane'' (both_aliases ''vs_action'' ''action''
     (both_aliases ''command'' ''cmd'' d))) k = (dict_has d k \<or> (\<exists>src. (src, k) \<in> set name_pairs \<and> dict_has d src))"
proof -
  consider "k = ''command''" | "k = ''cmd''" | "k = ''vs_action''" | "k = ''action''" | "k = ''vs_control_plane''"
    | "k = ''control_plane''" | "k \<notin> snd ` set name_pairs" by (auto simp: name_pairs_def)
  then show ?thesis by cases (simp_all add: both_aliases_has name_pairs_def)
qed

lemma govc_separate:
  "(s, t) \<in> set govc_map \<Longrightarrow> (t, u) \<notin> set govc_map" "(s, t) \<in> set name_pairs \<Longrightarrow> (t, u) \<notin> set govc_map"
  by (auto simp: govc_map_def name_pairs_def)

lemma canonicalize_has:
  "dict_has (canonicalize_aliases d) k = (dict_has d k \<or> (\<exists>src. (src, k) \<in> set alias_pairs \<and> dict_has d src))"
proof -
  have "(t, src) \<notin> set name_pairs" if "(src, k) \<in> set govc_map" for src t
    using govc_separate(2) that by blast
  then show ?thesis
    by (simp add: canonicalize_aliases_def Let_def fill_aliases_has [OF govc_separate(1)] names_has alias_pairs_split) blast
qed

lemma canonicalize_closed: "aliases_closed (canonicalize_aliases d)"
proof -
  have "dict_has (canonicalize_aliases d) dst"
    if "(src, dst) \<in> set alias_pairs" "dict_has (canonicalize_aliases d) src" for src dst
  proof (cases "dict_has d src")
    case True
    with that show ?thesis by (auto simp: canonicalize_has)
  next
    case False
    with that obtain s where s: "(s, src) \<in> set alias_pairs" "dict_has d s" by (auto simp: canonicalize_has)
    have "s = dst" using s(1) that(1) by (auto simp: alias_pairs_def govc_map_def)
    with s show ?thesis by (simp add: canonicalize_has)
  qed
  then show ?thesis by (auto simp: aliases_closed_def list_all_iff)
qed

lemma canonicalize_plane: "plane_ok (canonicalize_aliases d)"
  by (auto simp: canonicalize_aliases_def plane_ok_def lower_plane_def lower_strip Let_def split: option.splits json.splits)

lemma fill_alias_id: "(dict_has d src \<Longrightarrow> dict_has d dst) \<Longrightarrow> fill_alias src dst d = d"
  by (auto simp: fill_alias_def dict_has_def split: option.splits)

lemma fill_aliases_id:
  "list_all (\<lambda>(src, dst). dict_has d src \<longrightarrow> dict_has d dst) ps \<Longrightarrow> fold (\<lambda>(src, dst). fill_alias src dst) ps d = d"
  by (induction ps) (auto simp: fill_alias_id split: prod.splits)

lemma both_aliases_id: "dict_has d a = dict_has d b \<Longrightarrow> both_aliases a b d = d"
  by (simp add: both_aliases_def)

lemma canonicalize_id:
  assumes "aliases_closed d" "plane_ok d"
  shows "canonicalize_aliases d = d"
proof -
  have c: "dict_has d ''command'' = dict_has d ''cmd''" "dict_has d ''vs_action'' = dict_has d ''action''"
    "dict_has d ''vs_control_plane'' = dict_has d ''control_plane''"
    and g: "list_all (\<lambda>(src, dst). dict_has d src \<longrightarrow> dict_has d dst) govc_map"
    using assms(1) by (auto simp: aliases_closed_def alias_pairs_def)
  have "lower_plane d = d"
    using assms(2) by (auto simp: lower_plane_def plane_ok_def dict_set_same split: option.splits json.splits)
  then show ?thesis by (simp add: canonicalize_aliases_def both_aliases_id c fill_aliases_id [OF g])
qed

section \<open>Loaded configurations\<close>

lemma fill_alias_normal:
  "normal (JObj d) \<Longrightarrow> CHR ''-'' \<notin> set dst \<Longrightarrow> normal (JObj (fill_alias src dst d))"
  by (auto simp: fill_alias_def intro: normal_set normal_get split: option.splits)

lemma both_aliases_normal:
  "normal (JObj d) \<Longrightarrow> CHR ''-'' \<notin> set a \<Longrightarrow> CHR ''-'' \<notin> set b \<Longrightarrow> normal (JObj (both_aliases a b d))"
  by (simp add: both_aliases_def fill_alias_normal)

lemma fill_aliases_normal:
  "normal (JObj d) \<Longrightarrow> list_all (\<lambda>(src, dst). CHR ''-'' \<notin> set dst) ps \<Longrightarrow>
   normal (JObj (fold (\<lambda>(src, dst). fill_alias src dst) ps d))"
  by (induction ps arbitrary: d) (auto simp: fill_alias_normal)

lemma lower_plane_normal: "normal (JObj d) \<Longrightarrow> normal (JObj (lower_plane d))"
  by (auto simp: lower_plane_def intro!: normal_set split: option.splits json.splits) (simp add: normal_def)

lemma canonicalize_normal: "normal (JObj d) \<Longrightarrow> normal (JObj (canonicalize_aliases d))"
  by (simp add: canonicalize_aliases_def Let_def lower_plane_normal fill_aliases_normal both_aliases_normal govc_map_def
      fill_alias_normal)

lemma load_one_Inr:
  assumes "load_one env path = Inr c"
  shows "normal (JObj c)" "aliases_closed c" "plane_ok c"
proof -
  obtain fs where c: "c = canonicalize_aliases (normalize_items [] fs)"
    using assms by (auto simp: load_one_def Let_def split: if_splits sum.splits option.splits json.splits)
  have "normal (JObj (normalize_items [] fs))" by (rule normalize_normal) (simp add: normal_def)
  then show "normal (JObj c)" by (simp add: c canonicalize_normal)
  show "aliases_closed c" by (simp add: c canonicalize_closed)
  show "plane_ok c" by (simp add: c canonicalize_plane)
qed

text \<open>
  A configuration that loads is normal: at every depth its keys are unique and have no
  dash, every alias in it has its partner, and normalising and canonicalising it again changes nothing.
\<close>
theorem loaded_config_is_normal:
  assumes "load_one env path = Inr c"
  shows "json_wf (JObj c) \<and> no_dash (JObj c) \<and> aliases_closed c \<and>
    canonicalize_aliases (normalize_items [] c) = c"
proof -
  have "normalize_items [] c = c" using normalize_id(2) [of "[]" c] load_one_Inr(1) [OF assms] by simp
  then show ?thesis
    using load_one_Inr [OF assms] canonicalize_id by (simp add: normal_def)
qed

definition example_config_env :: "(string \<times> json) list \<Rightarrow> config_env" where
  "example_config_env docs = \<lparr>ce_resolve = id, ce_exists = (\<lambda>p. p \<in> fst ` set docs), ce_is_dir = (\<lambda>_. False),
     ce_is_file = (\<lambda>_. True), ce_rglob = (\<lambda>_. []), ce_glob = (\<lambda>_. []), ce_read = Some,
     ce_json = map_of docs, ce_yaml = (\<lambda>_. None), ce_yaml_available = False, ce_secret = [], ce_hmac = (\<lambda>_ _. [])\<rparr>"

theorem loaded_config_is_normal_witness:
  "\<exists>c. load_one (example_config_env [(''a.json'', JObj [(''dry-run'', JBool True), (''cmd'', JStr ''local'')])]) ''a.json'' = Inr c \<and>
     c = [(''dry_run'', JBool True), (''cmd'', JStr ''local''), (''command'', JStr ''local'')] \<and>
     canonicalize_aliases (normalize_items [] c) = c"
proof -
  let ?env = "example_config_env [(''a.json'', JObj [(''dry-run'', JBool True), (''cmd'', JStr ''local'')])]"
  let ?c = "[(''dry_run'', JBool True), (''cmd'', JStr ''local''), (''command'', JStr ''local'')]"
  have l: "load_one ?env ''a.json'' = Inr ?c" by code_simp
  from loaded_config_is_normal [OF l] l show ?thesis by blast
qed

section \<open>Several files\<close>

lemma merge_closed:
  assumes "aliases_closed a" "aliases_closed b" "dict_ok b"
  shows "aliases_closed (merge_dicts m a b)"
  using assms by (auto simp: aliases_closed_def list_all_iff merge_dicts_has)

lemma merge_plane:
  assumes "plane_ok a" "plane_ok b" "dict_ok b"
  shows "plane_ok (merge_dicts m a b)"
  using assms(1,2) by (auto simp: plane_ok_def merge_dicts_lookup [OF assms(3)] merged_value_def split: option.splits json.splits)

definition contents :: "config_env \<Rightarrow> string list \<Rightarrow> items list" where
  "contents env ps = map (\<lambda>p. case load_one env p of Inl _ \<Rightarrow> [] | Inr c \<Rightarrow> c) ps"

lemma load_merge_Inr:
  assumes "load_merge env m conf ps = Inr r" "aliases_closed conf" "plane_ok conf"
  shows "r = fold (\<lambda>ov b. merge_dicts m b ov) (contents env ps) conf \<and> aliases_closed r \<and> plane_ok r"
  using assms
proof (induction ps arbitrary: conf)
  case (Cons p ps)
  then obtain c where c: "load_one env p = Inr c" and r: "load_merge env m (merge_dicts m conf c) ps = Inr r"
    by (auto split: sum.splits)
  have ok: "dict_ok c" using load_one_Inr(1) [OF c] by (simp add: normal_def)
  from Cons.IH [OF r merge_closed [OF Cons.prems(2) load_one_Inr(2) [OF c] ok]
      merge_plane [OF Cons.prems(3) load_one_Inr(3) [OF c] ok]]
  show ?case by (auto simp: contents_def c)
qed (simp add: contents_def)

lemma load_many_Inr:
  assumes "load_many env m specs = Inr conf"
  shows "conf = fold (\<lambda>ov b. merge_dicts m b ov) (contents env (expand_configs env specs)) []"
proof (cases "expand_configs env specs")
  case Nil
  then show ?thesis using assms by (simp add: load_many_def precheck_missing_paths_def contents_def)
next
  case (Cons p ps)
  then obtain r where r: "load_merge env m [] (expand_configs env specs) = Inr r" and conf: "conf = canonicalize_aliases r"
    using assms by (cases "load_merge env m [] (expand_configs env specs)") (auto simp: load_many_def Let_def split: sum.splits)
  have "aliases_closed []" "plane_ok []" by (simp_all add: aliases_closed_def plane_ok_def dict_has_def list_all_iff)
  from load_merge_Inr [OF r this] show ?thesis by (auto simp: conf canonicalize_id)
qed

lemma contents_wf: "c \<in> set (contents env ps) \<Longrightarrow> json_wf (JObj c)"
  using load_one_Inr(1) by (fastforce simp: contents_def normal_def split: sum.splits)

text \<open>
  Of several configuration files the last one that gives a value at a path of keys
  decides it, aliases included: the merged configuration is that of the files in their order, and a
  path that no file mentions is absent.
\<close>
theorem last_config_wins:
  assumes "load_many env ''replace'' specs = Inr conf" and "expand_configs env specs = xs @ p # ys"
    and "\<forall>q\<in>set ys. \<forall>c. load_one env q = Inr c \<longrightarrow> untouched c ks" and "load_one env p = Inr c"
  shows "(\<forall>v. leaf c ks v \<longrightarrow> json_path (JObj conf) ks = Some v) \<and>
    ((\<forall>q\<in>set (xs @ [p]). \<forall>c. load_one env q = Inr c \<longrightarrow> untouched c ks) \<longrightarrow> json_path (JObj conf) ks = None)"
proof (cases "ks = []")
  case True
  then show ?thesis using assms(4) by (auto simp: leaf_def)
next
  case False
  have quiet: "\<forall>d\<in>set (contents env zs). json_wf (JObj d) \<and> untouched d ks"
    if "\<forall>q\<in>set zs. \<forall>c. load_one env q = Inr c \<longrightarrow> untouched c ks" for zs
    using that contents_wf False by (auto simp: contents_def split: sum.splits)
  have conf: "conf = fold (\<lambda>ov b. merge_dicts ''replace'' b ov) (contents env xs @ c # contents env ys) []"
    using load_many_Inr [OF assms(1)] assms(2,4) by (simp add: contents_def)
  have wf: "json_wf (JObj c)" using load_one_Inr(1) [OF assms(4)] by (simp add: normal_def)
  have "json_path (JObj conf) ks = Some v" if "leaf c ks v" for v
    unfolding conf by (rule cfg.last_layer_wins [OF wf that quiet [OF assms(3)]])
  moreover have "json_path (JObj conf) ks = None"
    if "\<forall>q\<in>set (xs @ [p]). \<forall>c. load_one env q = Inr c \<longrightarrow> untouched c ks"
  proof -
    have "\<forall>d\<in>set (contents env (xs @ p # ys)). json_wf (JObj d) \<and> untouched d ks"
      by (rule quiet) (use that assms(3) in auto)
    then have "json_path (JObj conf) ks = json_path (JObj []) ks"
      using assms(4) unfolding conf by (intro cfg.layers_untouched) (simp add: contents_def)
    with False show ?thesis by (cases ks) simp_all
  qed
  ultimately show ?thesis by blast
qed

theorem last_config_wins_witness:
  "\<exists>conf. load_many (example_config_env [(''a.json'', JObj [(''cmd'', JStr ''local''), (''vm'', JObj [(''cpus'', JInt 2)])]),
         (''b.json'', JObj [(''command'', JStr ''vsphere'')])]) ''replace'' [''a.json'', ''b.json''] = Inr conf \<and>
     json_path (JObj conf) [''cmd''] = Some (JStr ''vsphere'') \<and> json_path (JObj conf) [''vm'', ''cpus''] = Some (JInt 2)"
proof -
  let ?env = "example_config_env [(''a.json'', JObj [(''cmd'', JStr ''local''), (''vm'', JObj [(''cpus'', JInt 2)])]),
         (''b.json'', JObj [(''command'', JStr ''vsphere'')])]"
  let ?a = "[(''cmd'', JStr ''local''), (''vm'', JObj [(''cpus'', JInt 2)]), (''command'', JStr ''local'')]"
  let ?b = "[(''command'', JStr ''vsphere''), (''cmd'', JStr ''vsphere'')]"
  let ?c = "[(''cmd'', JStr ''vsphere''), (''vm'', JObj [(''cpus'', JInt 2)]), (''command'', JStr ''vsphere'')]"
  have m: "load_many ?env ''replace'' [''a.json'', ''b.json''] = Inr ?c" by code_simp
  have e: "expand_configs ?env [''a.json'', ''b.json''] = [] @ ''a.json'' # [''b.json'']"
    "expand_configs ?env [''a.json'', ''b.json''] = [''a.json''] @ ''b.json'' # []" by code_simp+
  have a: "load_one ?env ''a.json'' = Inr ?a" and b: "load_one ?env ''b.json'' = Inr ?b" by code_simp+
  have "json_path (JObj ?c) [''vm'', ''cpus''] = Some (JInt 2)"
    using last_config_wins [OF m e(1) _ a, of "[''vm'', ''cpus'']"] by (simp add: b leaf_def)
  moreover have "json_path (JObj ?c) [''cmd''] = Some (JStr ''vsphere'')"
    using last_config_wins [OF m e(2) _ b, of "[''cmd'']"] by (simp add: leaf_def)
  ultimately show ?thesis using m by blast
qed

text \<open>Steps that fill in other names leave a key as it is.\<close>

lemma fill_aliases_other:
  "k \<notin> snd ` set ps \<Longrightarrow> map_of (fold (\<lambda>(src, dst). fill_alias src dst) ps d) k = map_of d k"
  by (induction ps arbitrary: d) (auto simp: fill_alias_def split: option.splits)

lemma govc_names: "''command'' \<notin> snd ` set govc_map" "''cmd'' \<notin> snd ` set govc_map"
  by (simp_all add: govc_map_def)

lemma both_aliases_other: "k \<noteq> a \<Longrightarrow> k \<noteq> b \<Longrightarrow> map_of (both_aliases a b d) k = map_of d k"
  by (auto simp: both_aliases_def fill_alias_def split: option.splits)

lemma lower_plane_other: "k \<noteq> ''vs_control_plane'' \<Longrightarrow> map_of (lower_plane d) k = map_of d k"
  by (auto simp: lower_plane_def split: option.splits json.splits)

text \<open>
  In a configuration with one entry per machine the entries are merged over a base whose
  aliases are already filled in, and their own aliases are not: a machine that gives its command by the
  name the base does not use keeps the base's command under the other name.
\<close>
theorem vm_alias_override_is_lost:
  assumes "load_vm_configs env m specs = Inr confs" and "expand_configs env specs = [p]"
    and "load_one env p = Inr conf" and "map_of conf ''vms'' = Some (JList [JObj vm])" and "dict_ok vm"
    and "map_of conf ''cmd'' = Some (JStr a)" and "map_of vm ''command'' = Some (JStr b)" and "map_of vm ''cmd'' = None"
  shows "\<exists>c. confs = [c] \<and> map_of c ''command'' = Some (JStr b) \<and> map_of c ''cmd'' = Some (JStr a)"
proof -
  let ?c = "merge_dicts m (dict_pop ''vms'' conf) vm"
  have confs: "confs = [canonicalize_aliases ?c]"
    using assms(1-4) by (auto simp: load_vm_configs_def Let_def split: sum.splits)
  have l: "map_of ?c ''command'' = Some (JStr b)" "map_of ?c ''cmd'' = Some (JStr a)"
    using assms(6-8) by (simp_all add: merge_dicts_lookup [OF assms(5)] merged_value_def split: option.splits json.splits)
  have "canonicalize_aliases ?c = lower_plane (fold (\<lambda>(src, dst). fill_alias src dst) govc_map
      (both_aliases ''vs_control_plane'' ''control_plane'' (both_aliases ''vs_action'' ''action'' ?c)))"
    using l by (simp add: canonicalize_aliases_def Let_def both_aliases_id dict_has_def)
  then have "map_of (canonicalize_aliases ?c) k = map_of ?c k" if "k = ''command'' \<or> k = ''cmd''" for k
    using that govc_names by (auto simp: lower_plane_other fill_aliases_other both_aliases_other)
  with l confs show ?thesis by simp
qed

theorem vm_alias_override_is_lost_witness:
  "\<exists>c. load_vm_configs (example_config_env [(''a.json'', JObj [(''cmd'', JStr ''local''),
          (''vms'', JList [JObj [(''command'', JStr ''vsphere'')]])])]) ''replace'' [''a.json''] = Inr [c] \<and>
     map_of c ''command'' = Some (JStr ''vsphere'') \<and> map_of c ''cmd'' = Some (JStr ''local'')"
proof -
  let ?env = "example_config_env [(''a.json'', JObj [(''cmd'', JStr ''local''),
          (''vms'', JList [JObj [(''command'', JStr ''vsphere'')]])])]"
  have "load_vm_configs ?env ''replace'' [''a.json''] = Inr [[(''cmd'', JStr ''local''), (''command'', JStr ''vsphere'')]]"
    "expand_configs ?env [''a.json''] = [''a.json'']"
    "load_one ?env ''a.json'' = Inr [(''cmd'', JStr ''local''),
       (''vms'', JList [JObj [(''command'', JStr ''vsphere'')]]), (''command'', JStr ''local'')]"
    by code_simp+
  from vm_alias_override_is_lost [OF this] this(1) show ?thesis by (simp add: dict_ok_def)
qed

section \<open>Lists and defaults\<close>

text \<open>The strategy \<^verbatim>\<open>extend_unique\<close> keeps one of each item that can be hashed, all others, and
  the order.\<close>

lemma extend_unique_distinct:
  "distinct (List.map_filter hash_key (extend_unique seen xs)) \<and>
   set (List.map_filter hash_key (extend_unique seen xs)) = set (List.map_filter hash_key xs) - set seen"
proof (induction seen xs rule: extend_unique.induct)
  case (2 seen x xs)
  then show ?case by (cases "hash_key x") (auto simp: map_filter_simps)
qed (simp add: map_filter_simps)

lemma extend_unique_subseq: "subseq (extend_unique seen xs) xs"
  by (induction seen xs rule: extend_unique.induct) (auto split: option.splits)

definition default_taken :: "items \<Rightarrow> arg_action \<Rightarrow> arg_action \<Rightarrow> bool" where
  "default_taken conf a a' = (act_dest a' = act_dest a \<and>
     (case (if act_dest a = [] then None else map_of conf (act_dest a)) of
        None \<Rightarrow> a' = a
      | Some raw \<Rightarrow> coerce_argparse_value a raw = Inr (act_default a') \<and> (act_required a' \<longrightarrow> act_default a' = JNull)))"

lemma defaults_applied: "apply_actions conf acts = (Inr (), acts') \<Longrightarrow> list_all2 (default_taken conf) acts acts'"
proof (induction acts arbitrary: acts')
  case (Cons a acts)
  obtain r as where r: "apply_actions conf acts = (r, as)" by (cases "apply_actions conf acts")
  from Cons.prems r have "r = Inr ()"
    by (cases r) (auto split: option.splits sum.splits if_splits)
  moreover have "\<exists>a'. acts' = a' # as \<and> default_taken conf a a'"
    using Cons.prems r by (auto simp: default_taken_def split: option.splits sum.splits if_splits)
  ultimately show ?case using Cons.IH r by auto
qed simp

lemma strict_unknown_changes_nothing:
  "conf \<noteq> [] \<Longrightarrow> k \<in> set (dict_keys conf) \<Longrightarrow> k \<notin> set (collect_argparse_dests ap) \<Longrightarrow>
   \<exists>ks. apply_as_defaults True conf ap = (Inl (ConfigFatal (UnknownKeys ks)), ap) \<and> k \<in> set ks"
  by (auto simp: apply_as_defaults_def Let_def filter_empty_conv)

end
