(* ===== verification/Profile_Loader.thy ===== *)
theory Profile_Loader
  imports Config_Loader
begin

text \<open>
  \<^verbatim>\<open>h2kvm/orchestration/profiles\<close>: migration profiles that extend each other
  (\<^verbatim>\<open>profile_loader.py\<close>), and the cache of resolved profiles (\<^verbatim>\<open>profile_cache.py\<close>).

  The directory of profile files is a dictionary from paths to their modification time and parsed
  content; the built-in profiles file is a parsed document. A profile names its parent by a string; a
  number under \<^verbatim>\<open>extends\<close> names no profile. Profiles are values: no caller changes a profile it got
  from the loader.
\<close>

section \<open>Cache\<close>

record profile_file =
  pf_mtime :: time
  pf_doc :: "json option"

type_synonym profile_dir = "(string, profile_file) dict"

record cache_entry =
  pe_data :: items
  pe_mtime :: "time option"
  pe_source :: "string option"
  pe_created_at :: time
  pe_access_count :: nat
  pe_last_accessed :: time

record profile_cache =
  pc_enabled :: bool
  pc_entries :: "(string, cache_entry) dict"
  pc_hits :: nat
  pc_misses :: nat
  pc_invalidations :: nat

definition ProfileCacheEntry :: "time \<Rightarrow> items \<Rightarrow> time option \<Rightarrow> string option \<Rightarrow> cache_entry" where
  "ProfileCacheEntry now dat mtime source = \<lparr>pe_data = dat, pe_mtime = mtime, pe_source = source,
     pe_created_at = now, pe_access_count = 0, pe_last_accessed = now\<rparr>"

definition entry_is_valid :: "profile_dir \<Rightarrow> cache_entry \<Rightarrow> bool" where
  "entry_is_valid dir e = (case pe_source e of
      None \<Rightarrow> True
    | Some p \<Rightarrow> (case dict_get dir p of None \<Rightarrow> False | Some f \<Rightarrow> pe_mtime e = Some (pf_mtime f)))"

definition entry_access :: "time \<Rightarrow> cache_entry \<Rightarrow> cache_entry" where
  "entry_access now e = e\<lparr>pe_access_count := pe_access_count e + 1, pe_last_accessed := now\<rparr>"

definition ProfileCache :: "bool \<Rightarrow> profile_cache" where
  "ProfileCache enabled = \<lparr>pc_enabled = enabled, pc_entries = [], pc_hits = 0, pc_misses = 0, pc_invalidations = 0\<rparr>"

definition cache_get :: "profile_dir \<Rightarrow> time \<Rightarrow> string \<Rightarrow> profile_cache \<Rightarrow> items option \<times> profile_cache" where
  "cache_get dir now name c =
     (if \<not> pc_enabled c then (None, c)
      else (case dict_get (pc_entries c) name of
              None \<Rightarrow> (None, c\<lparr>pc_misses := pc_misses c + 1\<rparr>)
            | Some e \<Rightarrow>
                if \<not> entry_is_valid dir e
                then (None, c\<lparr>pc_entries := dict_pop name (pc_entries c), pc_invalidations := pc_invalidations c + 1,
                              pc_misses := pc_misses c + 1\<rparr>)
                else (Some (pe_data e), c\<lparr>pc_hits := pc_hits c + 1,
                        pc_entries := dict_set name (entry_access now e) (pc_entries c)\<rparr>)))"

definition cache_put :: "profile_dir \<Rightarrow> time \<Rightarrow> string \<Rightarrow> items \<Rightarrow> string option \<Rightarrow> profile_cache \<Rightarrow> profile_cache" where
  "cache_put dir now name dat source c =
     (if \<not> pc_enabled c then c
      else (let mtime = Option.bind source (\<lambda>p. map_option pf_mtime (dict_get dir p))
            in c\<lparr>pc_entries := dict_set name (ProfileCacheEntry now dat mtime source) (pc_entries c)\<rparr>))"

definition cache_invalidate :: "string \<Rightarrow> profile_cache \<Rightarrow> bool \<times> profile_cache" where
  "cache_invalidate name c =
     (if dict_has (pc_entries c) name
      then (True, c\<lparr>pc_entries := dict_pop name (pc_entries c), pc_invalidations := pc_invalidations c + 1\<rparr>)
      else (False, c))"

definition cache_clear :: "profile_cache \<Rightarrow> profile_cache" where
  "cache_clear c = c\<lparr>pc_entries := [], pc_invalidations := pc_invalidations c + length (pc_entries c)\<rparr>"

record cache_stats =
  cs_enabled :: bool
  cs_size :: nat
  cs_hits :: nat
  cs_misses :: nat
  cs_invalidations :: nat
  cs_total_requests :: nat
  cs_hit_rate :: rat
  cs_entries :: "(string \<times> nat \<times> time \<times> string) list"

definition get_statistics :: "time \<Rightarrow> profile_cache \<Rightarrow> cache_stats" where
  "get_statistics now c =
     (let n = pc_hits c + pc_misses c
      in \<lparr>cs_enabled = pc_enabled c, cs_size = length (pc_entries c), cs_hits = pc_hits c, cs_misses = pc_misses c,
          cs_invalidations = pc_invalidations c, cs_total_requests = n,
          cs_hit_rate = (if n > 0 then of_nat (pc_hits c) / of_nat n * 100 else 0),
          cs_entries = map (\<lambda>(name, e). (name, pe_access_count e, now - pe_created_at e,
            case pe_source e of Some p \<Rightarrow> path_name p | None \<Rightarrow> ''builtin'')) (pc_entries c)\<rparr>)"

text \<open>The cache shared by all loaders is created on first use with the setting of that call.\<close>

definition get_global_cache :: "bool \<Rightarrow> profile_cache option \<Rightarrow> profile_cache" where
  "get_global_cache enabled g = (case g of None \<Rightarrow> ProfileCache enabled | Some c \<Rightarrow> c)"

section \<open>Loader\<close>

record profile_env =
  pv_dir :: profile_dir
  pv_yaml :: bool
  pv_builtin :: "json option option" \<comment> \<open>\<open>None\<close>: no such file; \<open>Some None\<close>: it does not parse\<close>

datatype prof_exc =
    ProfileNotFound string
  | ParentNotFound json
  | ParentUnreadable string
  | CircularInheritance string
  | ProfileLoadFailed string
  | BuiltinLoadFailed
  | ProfilePy py_exc

record profile_loader =
  pl_cache :: profile_cache
  pl_builtin :: "items option"

definition ProfileLoader :: "bool \<Rightarrow> profile_cache option \<Rightarrow> profile_cache option \<Rightarrow> profile_loader" where
  "ProfileLoader enable_cache cache global = \<lparr>pl_cache = (case cache of
       Some c \<Rightarrow> c
     | None \<Rightarrow> if \<not> enable_cache then ProfileCache False else get_global_cache True global), pl_builtin = None\<rparr>"

definition or_empty :: "json \<Rightarrow> json" where
  "or_empty v = (if truthy v then v else JObj [])"

definition load_builtin_profiles :: "profile_env \<Rightarrow> profile_loader \<Rightarrow> (prof_exc, items, profile_loader) outcome" where
  "load_builtin_profiles env l = (case pl_builtin l of
      Some b \<Rightarrow> (Inr b, l)
    | None \<Rightarrow>
        (case pv_builtin env of
           None \<Rightarrow> (Inr [], l\<lparr>pl_builtin := Some []\<rparr>)
         | Some doc \<Rightarrow>
             if \<not> pv_yaml env then (Inl BuiltinLoadFailed, l)
             else (case map_option or_empty doc of
                     Some (JObj b) \<Rightarrow> (Inr b, l\<lparr>pl_builtin := Some b\<rparr>)
                   | _ \<Rightarrow> (Inl BuiltinLoadFailed, l))))"

definition custom_path :: "string \<Rightarrow> string \<Rightarrow> string" where
  "custom_path d name = path_join d (name @ ''.yaml'')"

definition find_parent :: "profile_env \<Rightarrow> string option \<Rightarrow> items \<Rightarrow> string \<Rightarrow> prof_exc + json" where
  "find_parent env custom_dir available name =
     (case Option.bind custom_dir (\<lambda>d. dict_get (pv_dir env) (custom_path d name)) of
        Some f \<Rightarrow> (if \<not> pv_yaml env then Inl (ParentUnreadable name)
                   else (case pf_doc f of None \<Rightarrow> Inl (ParentUnreadable name) | Some v \<Rightarrow> Inr (or_empty v)))
      | None \<Rightarrow> (case map_of available name of
                   None \<Rightarrow> Inl (ParentNotFound (JStr name))
                 | Some p \<Rightarrow> Inr p))"

text \<open>The names that can be found: the files of the custom directory and the built-in profiles.\<close>

definition known_names :: "profile_env \<Rightarrow> string option \<Rightarrow> items \<Rightarrow> string set" where
  "known_names env custom_dir available =
     {n. \<exists>d. custom_dir = Some d \<and> dict_has (pv_dir env) (custom_path d n)} \<union> set (dict_keys available)"

lemma known_names_finite: "finite (known_names env custom_dir available)"
proof (cases custom_dir)
  case (Some d)
  have "{n. dict_has (pv_dir env) (custom_path d n)} = custom_path d -` (fst ` set (pv_dir env))"
    by (auto simp: dict_has_iff)
  moreover have "inj (custom_path d)" by (auto simp: inj_on_def custom_path_def path_join_def)
  ultimately show ?thesis using Some by (simp add: known_names_def finite_vimageI)
qed (simp add: known_names_def)

lemma find_parent_known: "find_parent env custom_dir available n = Inr p \<Longrightarrow> n \<in> known_names env custom_dir available"
  by (auto simp: find_parent_def known_names_def dict_has_def dict_keys_def bind_eq_Some_conv image_iff
      split: option.splits if_splits dest!: map_of_SomeD) force+

function resolve_inheritance :: "profile_env \<Rightarrow> string option \<Rightarrow> items \<Rightarrow> string list \<Rightarrow> json \<Rightarrow> prof_exc + items" where
  "resolve_inheritance env custom_dir available visited profile_data =
     (case profile_data of
        JObj fs \<Rightarrow>
          (case map_of fs ''extends'' of
             None \<Rightarrow> Inr fs
           | Some parent \<Rightarrow>
               if \<not> truthy parent then Inr fs
               else (case parent of
                       JStr n \<Rightarrow>
                         if n \<in> set visited then Inl (CircularInheritance n)
                         else (case find_parent env custom_dir available n of
                                 Inl e \<Rightarrow> Inl e
                               | Inr p \<Rightarrow>
                                   (case resolve_inheritance env custom_dir available (n # visited) p of
                                      Inl e \<Rightarrow> Inl e
                                    | Inr base \<Rightarrow> Inr (dict_pop ''extends'' (merge_dicts ''replace'' base fs))))
                     | JList xs \<Rightarrow> Inl (ProfilePy (TypeError ''unhashable''))
                     | JObj gs \<Rightarrow> Inl (ProfilePy (TypeError ''unhashable''))
                     | _ \<Rightarrow> Inl (ParentNotFound parent)))
      | _ \<Rightarrow> Inl (ProfilePy (AttributeError ''get'')))"
  by pat_completeness auto
termination
proof (relation "measure (\<lambda>(env, cd, av, visited, v). card (known_names env cd av - set visited))", goal_cases)
  case (2 env cd av visited v fs parent n p)
  then have "n \<in> known_names env cd av - set visited" by (simp add: find_parent_known)
  then have "card (known_names env cd av - set visited - {n}) < card (known_names env cd av - set visited)"
    by (intro card_Diff1_less) (simp_all add: known_names_finite)
  moreover have "known_names env cd av - set visited - {n} = known_names env cd av - set (n # visited)" by auto
  ultimately show ?case by simp
qed simp

declare resolve_inheritance.simps [simp del]

definition load_and_resolve :: "profile_env \<Rightarrow> string \<Rightarrow> string option \<Rightarrow> profile_loader \<Rightarrow> (prof_exc, items, profile_loader) outcome" where
  "load_and_resolve env path custom_dir l =
     (case Option.bind (dict_get (pv_dir env) path) (\<lambda>f. if pv_yaml env then pf_doc f else None) of
        None \<Rightarrow> (Inl (ProfileLoadFailed path), l)
      | Some doc \<Rightarrow>
          (case (if py_lower (path_suffix path) = ''.json'' then doc else or_empty doc) of
             JObj fs \<Rightarrow>
               (case load_builtin_profiles env l of
                  (Inl e, l1) \<Rightarrow> (Inl (ProfileLoadFailed path), l1)
                | (Inr b, l1) \<Rightarrow>
                    (case resolve_inheritance env custom_dir b [] (JObj fs) of
                       Inl e \<Rightarrow> (Inl (ProfileLoadFailed path), l1)
                     | Inr r \<Rightarrow> (Inr r, l1)))
           | _ \<Rightarrow> (Inl (ProfileLoadFailed path), l)))"

definition cache_key :: "string option \<Rightarrow> string \<Rightarrow> string" where
  "cache_key custom name = (case custom of None \<Rightarrow> name | Some d \<Rightarrow> d @ '':'' @ name)"

text \<open>Without the cache: a file of the custom directory first, then the built-in profiles. The path of
  the file that was used goes into the cache with the result.\<close>

definition load_uncached :: "profile_env \<Rightarrow> string \<Rightarrow> string option \<Rightarrow> profile_loader \<Rightarrow>
    (prof_exc, items \<times> string option, profile_loader) outcome" where
  "load_uncached env name custom l =
     (case Option.bind custom (\<lambda>d. if dict_has (pv_dir env) (custom_path d name) then Some d else None) of
        Some d \<Rightarrow> map_prod (map_sum id (\<lambda>r. (r, Some (custom_path d name)))) id
                    (load_and_resolve env (custom_path d name) (Some d) l)
      | None \<Rightarrow>
          (case load_builtin_profiles env l of
             (Inl e, l1) \<Rightarrow> (Inl e, l1)
           | (Inr b, l1) \<Rightarrow>
               (case map_of b name of
                  None \<Rightarrow> (Inl (ProfileNotFound name), l1)
                | Some v \<Rightarrow> (map_sum id (\<lambda>r. (r, None)) (resolve_inheritance env None b [] v), l1))))"

definition load_profile :: "profile_env \<Rightarrow> time \<Rightarrow> string \<Rightarrow> string option \<Rightarrow> profile_loader \<Rightarrow> (prof_exc, items, profile_loader) outcome" where
  "load_profile env now name custom l =
     (let key = cache_key custom name
      in case cache_get (pv_dir env) now key (pl_cache l) of
           (Some r, c) \<Rightarrow> (Inr r, l\<lparr>pl_cache := c\<rparr>)
         | (None, c) \<Rightarrow>
             (case load_uncached env name custom (l\<lparr>pl_cache := c\<rparr>) of
                (Inl e, l1) \<Rightarrow> (Inl e, l1)
              | (Inr (r, source), l1) \<Rightarrow>
                  (Inr r, l1\<lparr>pl_cache := cache_put (pv_dir env) now key r source (pl_cache l1)\<rparr>)))"

definition apply_overrides :: "items \<Rightarrow> items \<Rightarrow> items" where
  "apply_overrides profile overrides = (if overrides = [] then profile else merge_dicts ''replace'' profile overrides)"

definition list_builtin_profiles :: "profile_env \<Rightarrow> string option \<Rightarrow> profile_loader \<Rightarrow> (prof_exc, string list, profile_loader) outcome" where
  "list_builtin_profiles env custom l =
     (case load_builtin_profiles env l of
        (Inl e, l1) \<Rightarrow> (Inl e, l1)
      | (Inr b, l1) \<Rightarrow>
          (Inr (sort (remdups (dict_keys b @ (case custom of
              None \<Rightarrow> []
            | Some d \<Rightarrow> map path_stem (filter (\<lambda>p. path_parent p = d \<and> path_suffix p = ''.yaml'') (dict_keys (pv_dir env))))))), l1))"

definition get_profile_info :: "profile_env \<Rightarrow> time \<Rightarrow> string \<Rightarrow> profile_loader \<Rightarrow> (prof_exc, json, profile_loader) outcome" where
  "get_profile_info env now name l =
     map_prod (map_sum id (\<lambda>p. JObj [(''name'', JStr name),
         (''description'', json_get (JObj p) ''description'' (JStr ''No description'')),
         (''extends'', json_get (JObj p) ''extends'' JNull), (''configuration'', JObj p)])) id
       (load_profile env now name None l)"

section \<open>Inheritance\<close>

text \<open>The chain of ancestors of a profile, with their contents.\<close>

inductive ancestors :: "profile_env \<Rightarrow> string option \<Rightarrow> items \<Rightarrow> items \<Rightarrow> string list \<Rightarrow> items list \<Rightarrow> bool"
  for env cd av where
  no_parent: "(case map_of fs ''extends'' of None \<Rightarrow> True | Some e \<Rightarrow> \<not> truthy e) \<Longrightarrow> ancestors env cd av fs [] []"
| parent: "map_of fs ''extends'' = Some (JStr n) \<Longrightarrow> n \<noteq> [] \<Longrightarrow> find_parent env cd av n = Inr (JObj p) \<Longrightarrow>
    ancestors env cd av p ns ps \<Longrightarrow> ancestors env cd av fs (n # ns) (p # ps)"

inductive_cases ancestors_NilE: "ancestors env cd av fs [] ps"
inductive_cases ancestors_ConsE: "ancestors env cd av fs (n # ns) ps"

fun inherit :: "items \<Rightarrow> items list \<Rightarrow> items" where
  "inherit fs [] = fs"
| "inherit fs (p # ps) = dict_pop ''extends'' (merge_dicts ''replace'' (inherit p ps) fs)"

lemma resolve_no_parent:
  "(case map_of fs ''extends'' of None \<Rightarrow> True | Some e \<Rightarrow> \<not> truthy e) \<Longrightarrow>
   resolve_inheritance env cd av visited (JObj fs) = Inr fs"
  by (subst resolve_inheritance.simps) (auto split: option.splits)

lemma resolve_parent:
  "map_of fs ''extends'' = Some (JStr n) \<Longrightarrow> n \<noteq> [] \<Longrightarrow> find_parent env cd av n = Inr p \<Longrightarrow>
   resolve_inheritance env cd av visited (JObj fs) =
     (if n \<in> set visited then Inl (CircularInheritance n)
      else map_sum id (\<lambda>base. dict_pop ''extends'' (merge_dicts ''replace'' base fs))
        (resolve_inheritance env cd av (n # visited) p))"
  by (subst resolve_inheritance.simps) (auto split: sum.splits)

lemma resolve_object:
  assumes "resolve_inheritance env cd av visited v = Inr r"
  obtains fs where "v = JObj fs"
  using assms by (subst (asm) resolve_inheritance.simps) (cases v; auto)

lemma resolve_step:
  assumes "resolve_inheritance env cd av visited (JObj fs) = Inr r"
  shows "((case map_of fs ''extends'' of None \<Rightarrow> True | Some e \<Rightarrow> \<not> truthy e) \<and> r = fs) \<or>
    (\<exists>n p base. map_of fs ''extends'' = Some (JStr n) \<and> n \<noteq> [] \<and> n \<notin> set visited \<and> find_parent env cd av n = Inr (JObj p) \<and>
       resolve_inheritance env cd av (n # visited) (JObj p) = Inr base \<and>
       r = dict_pop ''extends'' (merge_dicts ''replace'' base fs))"
  using assms
  by (subst (asm) resolve_inheritance.simps)
    (auto split: option.splits if_splits json.splits sum.splits, metis resolve_object)

lemma resolve_sound:
  "resolve_inheritance env cd av visited v = Inr r \<Longrightarrow> v = JObj fs \<Longrightarrow>
   \<exists>ns ps. ancestors env cd av fs ns ps \<and> distinct ns \<and> set ns \<inter> set visited = {} \<and> r = inherit fs ps"
proof (induction env cd av visited v arbitrary: fs r rule: resolve_inheritance.induct)
  case (1 env cd av visited v)
  from resolve_step [of env cd av visited fs r] "1.prems" consider
    "(case map_of fs ''extends'' of None \<Rightarrow> True | Some e \<Rightarrow> \<not> truthy e)" "r = fs"
    | n p base where "map_of fs ''extends'' = Some (JStr n)" "n \<noteq> []" "n \<notin> set visited"
      "find_parent env cd av n = Inr (JObj p)" "resolve_inheritance env cd av (n # visited) (JObj p) = Inr base"
      "r = dict_pop ''extends'' (merge_dicts ''replace'' base fs)" by blast
  then show ?case
  proof cases
    case 1
    then show ?thesis by (intro exI [of _ "[]"]) (auto intro: no_parent)
  next
    case 2
    then obtain ns ps where "ancestors env cd av p ns ps" "distinct ns" "set ns \<inter> set (n # visited) = {}" "base = inherit p ps"
      using "1.IH" [of fs "JStr n" n "JObj p" base p] "1.prems" by auto
    then show ?thesis using 2 by (intro exI [of _ "n # ns"] exI [of _ "p # ps"]) (auto intro: parent)
  qed
qed

lemma resolve_complete:
  "ancestors env cd av fs ns ps \<Longrightarrow> distinct ns \<Longrightarrow> set ns \<inter> set visited = {} \<Longrightarrow>
   resolve_inheritance env cd av visited (JObj fs) = Inr (inherit fs ps)"
proof (induction arbitrary: visited rule: ancestors.induct)
  case (parent fs n p ns ps)
  then have "resolve_inheritance env cd av (n # visited) (JObj p) = Inr (inherit p ps)" by simp
  with parent show ?case by (simp add: resolve_parent)
qed (simp add: resolve_no_parent)

lemma ancestors_det: "ancestors env cd av fs ns ps \<Longrightarrow> ancestors env cd av fs ns' ps' \<Longrightarrow> ns = ns'"
proof (induction arbitrary: ns' ps' rule: ancestors.induct)
  case (no_parent fs)
  from no_parent(2,1) show ?case by (cases rule: ancestors.cases) auto
next
  case (parent fs n p ns ps)
  from parent.prems parent.hyps show ?case
    by (cases rule: ancestors.cases) (auto dest!: parent.IH)
qed

lemma ancestors_suffix:
  "ancestors env cd av fs (xs @ n # ys) ps \<Longrightarrow> \<exists>p qs. find_parent env cd av n = Inr (JObj p) \<and> ancestors env cd av p ys qs"
proof (induction xs arbitrary: fs ps)
  case Nil
  then show ?case by (auto elim!: ancestors_ConsE)
next
  case (Cons x xs)
  then show ?case by (auto elim!: ancestors_ConsE)
qed

text \<open>A chain that ends repeats no name.\<close>

lemma ancestors_distinct:
  assumes "ancestors env cd av fs ns ps"
  shows "distinct ns"
proof (rule ccontr)
  assume "\<not> distinct ns"
  then obtain xs ys zs n where ns: "ns = xs @ n # ys @ n # zs" using not_distinct_decomp by (metis append_Cons append_Nil append_assoc)
  obtain p qs where 1: "find_parent env cd av n = Inr (JObj p)" "ancestors env cd av p (ys @ n # zs) qs"
    using ancestors_suffix assms ns by blast
  obtain q rs where 2: "find_parent env cd av n = Inr (JObj q)" "ancestors env cd av q zs rs"
    using ancestors_suffix [OF 1(2)] by blast
  from 1 2 have "ancestors env cd av p zs rs" by simp
  with 1(2) have "ys @ n # zs = zs" by (rule ancestors_det)
  then have "length (ys @ n # zs) = length zs" by (rule arg_cong)
  then show False by simp
qed

lemma ancestors_known: "ancestors env cd av fs ns ps \<Longrightarrow> set ns \<subseteq> known_names env cd av"
  by (induction rule: ancestors.induct) (auto dest: find_parent_known)

definition extends_to :: "profile_env \<Rightarrow> string option \<Rightarrow> items \<Rightarrow> (string \<times> string) set" where
  "extends_to env cd av = {(n, m). \<exists>p. find_parent env cd av n = Inr (JObj p) \<and> map_of p ''extends'' = Some (JStr m)}"

lemma find_parent_not_circular: "find_parent env cd av n \<noteq> Inl (CircularInheritance m)"
  by (auto simp: find_parent_def split: option.splits)

lemma resolve_circular_step:
  assumes "resolve_inheritance env cd av visited v = Inl (CircularInheritance n)"
  shows "\<exists>fs m. v = JObj fs \<and> map_of fs ''extends'' = Some (JStr m) \<and> truthy (JStr m) \<and>
    (m \<in> set visited \<and> n = m \<or>
     m \<notin> set visited \<and> (\<exists>p. find_parent env cd av m = Inr p \<and> resolve_inheritance env cd av (m # visited) p = Inl (CircularInheritance n)))"
  using assms
  by (subst (asm) resolve_inheritance.simps)
    (auto simp: find_parent_not_circular split: option.splits if_splits json.splits sum.splits)

lemma resolve_circular:
  "resolve_inheritance env cd av visited v = Inl (CircularInheritance n) \<Longrightarrow>
   (visited \<noteq> [] \<Longrightarrow> find_parent env cd av (hd visited) = Inr v \<and> (\<forall>m\<in>set visited. (m, hd visited) \<in> (extends_to env cd av)\<^sup>*)) \<Longrightarrow>
   (n, n) \<in> (extends_to env cd av)\<^sup>+"
proof (induction env cd av visited v rule: resolve_inheritance.induct)
  case (1 env cd av visited v)
  let ?R = "extends_to env cd av"
  obtain fs m where v: "v = JObj fs" and m: "map_of fs ''extends'' = Some (JStr m)" "truthy (JStr m)"
    and or: "m \<in> set visited \<and> n = m \<or> m \<notin> set visited \<and> (\<exists>p. find_parent env cd av m = Inr p \<and>
        resolve_inheritance env cd av (m # visited) p = Inl (CircularInheritance n))"
    using resolve_circular_step [OF "1.prems"(1)] by blast
  have edge: "(hd visited, m) \<in> ?R" if "visited \<noteq> []"
    using "1.prems"(2) that m(1) by (auto simp: extends_to_def v)
  from or show ?case
  proof
    assume "m \<in> set visited \<and> n = m"
    then have ne: "visited \<noteq> []" and mem: "m \<in> set visited" and [simp]: "n = m" by auto
    have "(m, hd visited) \<in> ?R\<^sup>*" using "1.prems"(2) [OF ne] mem by blast
    from rtrancl_into_trancl1 [OF this edge [OF ne]] show ?thesis by simp
  next
    assume "m \<notin> set visited \<and> (\<exists>p. find_parent env cd av m = Inr p \<and>
        resolve_inheritance env cd av (m # visited) p = Inl (CircularInheritance n))"
    then obtain p where fresh: "m \<notin> set visited" and p: "find_parent env cd av m = Inr p"
      "resolve_inheritance env cd av (m # visited) p = Inl (CircularInheritance n)" by blast
    have "\<forall>k\<in>set (m # visited). (k, hd (m # visited)) \<in> ?R\<^sup>*"
    proof
      fix k assume k: "k \<in> set (m # visited)"
      show "(k, hd (m # visited)) \<in> ?R\<^sup>*"
      proof (cases "k = m")
        case False
        with k have "visited \<noteq> []" "k \<in> set visited" by auto
        with "1.prems"(2) have "(k, hd visited) \<in> ?R\<^sup>*" by blast
        with edge [OF \<open>visited \<noteq> []\<close>] show ?thesis by (simp add: rtrancl.rtrancl_into_rtrancl)
      qed simp
    qed
    with "1.IH" [OF v m(1) _ _ fresh p(1) p(2)] m(2) p(1) show ?thesis by auto
  qed
qed

text \<open>
  C16 (termination). Resolving a profile ends whatever the profiles extend: it gives a profile exactly
  when the chain of ancestors ends in one without a parent, and then the result is the ancestors merged
  in order with the profile last; the chain has no more names than there are profiles. The error of a
  circular inheritance is raised only for a profile that does extend itself through others.
\<close>
theorem inheritance_resolves:
  "(resolve_inheritance env cd av [] (JObj fs) = Inr r \<longleftrightarrow> (\<exists>ns ps. ancestors env cd av fs ns ps \<and> r = inherit fs ps)) \<and>
   (ancestors env cd av fs ns ps \<longrightarrow> length ns \<le> card (known_names env cd av)) \<and>
   (resolve_inheritance env cd av [] (JObj fs) = Inl (CircularInheritance n) \<longrightarrow> (n, n) \<in> (extends_to env cd av)\<^sup>+)"
proof (intro conjI impI iffI)
  show "\<exists>ns ps. ancestors env cd av fs ns ps \<and> r = inherit fs ps" if "resolve_inheritance env cd av [] (JObj fs) = Inr r"
    using resolve_sound [OF that refl] by blast
  show "resolve_inheritance env cd av [] (JObj fs) = Inr r" if "\<exists>ns ps. ancestors env cd av fs ns ps \<and> r = inherit fs ps"
    using that resolve_complete ancestors_distinct by fastforce
  show "length ns \<le> card (known_names env cd av)" if "ancestors env cd av fs ns ps"
    using ancestors_known [OF that] distinct_card [OF ancestors_distinct [OF that]] card_mono [OF known_names_finite] by metis
  show "(n, n) \<in> (extends_to env cd av)\<^sup>+" if "resolve_inheritance env cd av [] (JObj fs) = Inl (CircularInheritance n)"
    using resolve_circular [OF that] by simp
qed

definition example_profiles :: items where
  "example_profiles = [(''production'', JObj [(''compress'', JBool True), (''level'', JInt 6)]),
     (''testing'', JObj [(''extends'', JStr ''production''), (''compress'', JBool False)]),
     (''loop'', JObj [(''extends'', JStr ''loop'')])]"

definition example_profile_env :: "profile_dir \<Rightarrow> profile_env" where
  "example_profile_env dir = \<lparr>pv_dir = dir, pv_yaml = True, pv_builtin = Some (Some (JObj example_profiles))\<rparr>"

theorem inheritance_resolves_witness:
  "\<exists>ns ps. ancestors (example_profile_env []) None example_profiles [(''extends'', JStr ''testing''), (''level'', JInt 9)] ns ps \<and>
     [(''compress'', JBool False), (''level'', JInt 9)] = inherit [(''extends'', JStr ''testing''), (''level'', JInt 9)] ps \<and>
     (''loop'', ''loop'') \<in> (extends_to (example_profile_env []) None example_profiles)\<^sup>+"
proof -
  have r: "resolve_inheritance (example_profile_env []) None example_profiles []
      (JObj [(''extends'', JStr ''testing''), (''level'', JInt 9)]) = Inr [(''compress'', JBool False), (''level'', JInt 9)]"
    and l: "resolve_inheritance (example_profile_env []) None example_profiles [] (JObj [(''extends'', JStr ''loop'')]) =
      Inl (CircularInheritance ''loop'')" by code_simp+
  from inheritance_resolves [of "example_profile_env []" None example_profiles
      "[(''extends'', JStr ''testing''), (''level'', JInt 9)]" "[(''compress'', JBool False), (''level'', JInt 9)]"]
    inheritance_resolves [of "example_profile_env []" None example_profiles "[(''extends'', JStr ''loop'')]" _ _ _ "''loop''"] r l
  show ?thesis by blast
qed

section \<open>The cache\<close>

text \<open>What a request gives without any memory.\<close>

definition fresh_loader :: profile_loader where
  "fresh_loader = \<lparr>pl_cache = ProfileCache False, pl_builtin = None\<rparr>"

definition fresh_load :: "profile_env \<Rightarrow> string \<Rightarrow> string option \<Rightarrow> prof_exc + items" where
  "fresh_load env name custom = map_sum id fst (fst (load_uncached env name custom fresh_loader))"

definition builtin_ok :: "profile_env \<Rightarrow> profile_loader \<Rightarrow> bool" where
  "builtin_ok env l = (\<forall>b. pl_builtin l = Some b \<longrightarrow> fst (load_builtin_profiles env fresh_loader) = Inr b)"

lemma load_builtin_same:
  assumes "builtin_ok env l"
  shows "fst (load_builtin_profiles env l) = fst (load_builtin_profiles env fresh_loader)"
    "builtin_ok env (snd (load_builtin_profiles env l))" "pl_cache (snd (load_builtin_profiles env l)) = pl_cache l"
  using assms by (auto simp: load_builtin_profiles_def builtin_ok_def fresh_loader_def split: option.splits json.splits)

lemma load_and_resolve_same:
  assumes "builtin_ok env l"
  shows "fst (load_and_resolve env path d l) = fst (load_and_resolve env path d fresh_loader)"
    "builtin_ok env (snd (load_and_resolve env path d l))" "pl_cache (snd (load_and_resolve env path d l)) = pl_cache l"
  using load_builtin_same [OF assms] assms
  by (cases "load_builtin_profiles env l"; cases "load_builtin_profiles env fresh_loader";
      force simp: load_and_resolve_def split: option.splits json.splits sum.splits)+

lemma load_uncached_same:
  assumes "builtin_ok env l"
  shows "fst (load_uncached env name custom l) = fst (load_uncached env name custom fresh_loader)"
    "builtin_ok env (snd (load_uncached env name custom l))" "pl_cache (snd (load_uncached env name custom l)) = pl_cache l"
  using load_builtin_same [OF assms] load_and_resolve_same [OF assms]
  by (cases "load_builtin_profiles env l"; cases "load_builtin_profiles env fresh_loader";
      force simp: load_uncached_def split: option.splits sum.splits)+

type_synonym profile_request = "string option \<times> string"

abbreviation request_key :: "profile_request \<Rightarrow> string" where
  "request_key q \<equiv> cache_key (fst q) (snd q)"

definition entries_ok :: "profile_env \<Rightarrow> profile_request set \<Rightarrow> (string, cache_entry) dict \<Rightarrow> bool" where
  "entries_ok env reqs es = (\<forall>q\<in>reqs. \<forall>e. dict_get es (request_key q) = Some e \<longrightarrow>
     entry_is_valid (pv_dir env) e \<longrightarrow> fresh_load env (snd q) (fst q) = Inr (pe_data e))"

lemma entries_ok_pop: "entries_ok env reqs es \<Longrightarrow> entries_ok env reqs (dict_pop k es)"
  by (simp add: entries_ok_def)

lemma entries_ok_set:
  assumes "entries_ok env reqs es"
    and "\<And>q. q \<in> reqs \<Longrightarrow> request_key q = k \<Longrightarrow> entry_is_valid (pv_dir env) e \<Longrightarrow> fresh_load env (snd q) (fst q) = Inr (pe_data e)"
  shows "entries_ok env reqs (dict_set k e es)"
  using assms by (simp add: entries_ok_def)

lemma entry_access_same [simp]: "pe_data (entry_access now e) = pe_data e" "entry_is_valid dir (entry_access now e) = entry_is_valid dir e"
  by (auto simp: entry_access_def entry_is_valid_def split: option.splits)

lemma cache_get_ok:
  assumes ok: "entries_ok env reqs (pc_entries c)" and q: "q \<in> reqs" and g: "cache_get (pv_dir env) now (request_key q) c = (r, c')"
  shows "entries_ok env reqs (pc_entries c') \<and> (\<forall>x. r = Some x \<longrightarrow> fresh_load env (snd q) (fst q) = Inr x)"
proof (cases "dict_get (pc_entries c) (request_key q)")
  case None
  with ok g show ?thesis by (auto simp: cache_get_def split: if_splits)
next
  case (Some e)
  show ?thesis
  proof (cases "entry_is_valid (pv_dir env) e")
    case True
    have d: "fresh_load env (snd p) (fst p) = Inr (pe_data e)" if "p \<in> reqs" "request_key p = request_key q" for p
      using ok that Some True by (auto simp: entries_ok_def)
    have "entries_ok env reqs (dict_set (request_key q) (entry_access now e) (pc_entries c))"
      by (rule entries_ok_set [OF ok]) (simp add: d)
    with ok g Some True d [OF q refl] show ?thesis by (auto simp: cache_get_def split: if_splits)
  next
    case False
    with ok g Some entries_ok_pop [OF ok] show ?thesis by (auto simp: cache_get_def split: if_splits)
  qed
qed

lemma cache_put_ok:
  assumes "entries_ok env reqs (pc_entries c)" "inj_on request_key reqs" "q \<in> reqs" "fresh_load env (snd q) (fst q) = Inr r"
  shows "entries_ok env reqs (pc_entries (cache_put (pv_dir env) now (request_key q) r source c))"
proof -
  have "p = q" if "p \<in> reqs" "request_key p = request_key q" for p
    by (rule inj_onD [OF assms(2)]) (use that assms(3) in simp_all)
  then have "fresh_load env (snd p) (fst p) = Inr r" if "p \<in> reqs" "request_key p = request_key q" for p
    using that assms(4) by metis
  then show ?thesis
    using assms(1) by (simp add: cache_put_def Let_def ProfileCacheEntry_def entries_ok_set)
qed

lemma load_profile_step:
  assumes "builtin_ok env l" "entries_ok env reqs (pc_entries (pl_cache l))" "inj_on request_key reqs"
    "(custom, name) \<in> reqs" "load_profile env now name custom l = (r, l')"
  shows "r = fresh_load env name custom \<and> builtin_ok env l' \<and> entries_ok env reqs (pc_entries (pl_cache l'))"
proof -
  obtain h c where g: "cache_get (pv_dir env) now (cache_key custom name) (pl_cache l) = (h, c)"
    by (cases "cache_get (pv_dir env) now (cache_key custom name) (pl_cache l)")
  note c = cache_get_ok [OF assms(2,4), of now h c, simplified, OF g]
  let ?l = "l\<lparr>pl_cache := c\<rparr>"
  have ok: "builtin_ok env ?l" using assms(1) by (simp add: builtin_ok_def)
  note u = load_uncached_same [OF ok, of name custom]
  show ?thesis
  proof (cases h)
    case (Some x)
    with c assms(5) ok show ?thesis by (auto simp: load_profile_def g)
  next
    case None
    obtain v l1 where v: "load_uncached env name custom ?l = (v, l1)" by (cases "load_uncached env name custom ?l")
    from u v have f: "fresh_load env name custom = map_sum id fst v" and l1: "builtin_ok env l1" "pl_cache l1 = c"
      by (simp_all add: fresh_load_def)
    show ?thesis
    proof (cases v)
      case (Inl e)
      then show ?thesis using assms(5) None v f l1 c by (simp add: load_profile_def g)
    next
      case (Inr x)
      obtain p source where x: "x = (p, source)" by (cases x)
      have "entries_ok env reqs (pc_entries (cache_put (pv_dir env) now (cache_key custom name) p source c))"
        using cache_put_ok [OF conjunct1 [OF c] assms(3,4)] f by (simp add: Inr x)
      then show ?thesis using assms(5) None v f l1 Inr x by (auto simp: load_profile_def g builtin_ok_def)
    qed
  qed
qed

fun load_profiles :: "profile_env \<Rightarrow> (time \<times> profile_request) list \<Rightarrow> profile_loader \<Rightarrow> (prof_exc + items) list \<times> profile_loader" where
  "load_profiles env [] l = ([], l)"
| "load_profiles env ((now, custom, name) # rs) l =
     (let (r, l1) = load_profile env now name custom l; (out, l2) = load_profiles env rs l1 in (r # out, l2))"

lemma load_profiles_fresh:
  assumes "inj_on request_key reqs" "snd ` set rs \<subseteq> reqs" "builtin_ok env l" "entries_ok env reqs (pc_entries (pl_cache l))"
  shows "fst (load_profiles env rs l) = map (\<lambda>(now, custom, name). fresh_load env name custom) rs"
  using assms(2-4)
proof (induction rs arbitrary: l)
  case (Cons q rs)
  obtain now custom name where q: "q = (now, custom, name)" by (cases q)
  obtain r l1 where r: "load_profile env now name custom l = (r, l1)" by (cases "load_profile env now name custom l")
  have "(custom, name) \<in> reqs" using Cons.prems(1) by (simp add: q)
  from load_profile_step [OF Cons.prems(2,3) assms(1) this r] Cons.IH [of l1] Cons.prems(1)
  show ?case by (auto simp: q r Let_def split: prod.splits)
qed simp

text \<open>
  C17 (equivalence). While the profile files do not change, the cache cannot be seen: a sequence of
  requests gives the results, errors included, that each request gives alone without a cache, as long
  as different requests have different cache keys.
\<close>
theorem profile_cache_is_transparent:
  assumes "inj_on request_key (snd ` set rs)"
  shows "fst (load_profiles env rs (ProfileLoader True (Some (ProfileCache enabled)) g)) =
    map (\<lambda>(now, custom, name). fresh_load env name custom) rs"
  by (rule load_profiles_fresh [OF assms order.refl])
    (simp_all add: ProfileLoader_def ProfileCache_def builtin_ok_def entries_ok_def)

theorem profile_cache_is_transparent_witness:
  "fst (load_profiles (example_profile_env []) [(1, None, ''testing''), (2, None, ''loop''), (3, None, ''testing'')]
      (ProfileLoader True (Some (ProfileCache True)) None)) =
   [Inr [(''compress'', JBool False), (''level'', JInt 6)], Inl (CircularInheritance ''loop''),
    Inr [(''compress'', JBool False), (''level'', JInt 6)]]"
proof -
  have "inj_on request_key (snd ` set [(1::real, None, ''testing''), (2, None, ''loop''), (3, None, ''testing'')])"
    by (auto simp: cache_key_def inj_on_def)
  moreover have "fresh_load (example_profile_env []) ''testing'' None = Inr [(''compress'', JBool False), (''level'', JInt 6)]"
    "fresh_load (example_profile_env []) ''loop'' None = Inl (CircularInheritance ''loop'')" by code_simp+
  ultimately show ?thesis by (subst profile_cache_is_transparent) simp_all
qed

lemma load_builtin_cache: "pl_cache (snd (load_builtin_profiles env l)) = pl_cache l"
  by (auto simp: load_builtin_profiles_def split: option.splits json.splits)

lemma load_and_resolve_cache: "pl_cache (snd (load_and_resolve env path d l)) = pl_cache l"
  using load_builtin_cache [of env l] by (auto simp: load_and_resolve_def split: option.splits json.splits sum.splits prod.splits)

lemma load_uncached_cache: "load_uncached env name custom l = (r, l1) \<Longrightarrow> pl_cache l1 = pl_cache l"
  using load_builtin_cache [of env l] load_and_resolve_cache [of env _ _ l]
  by (auto simp: load_uncached_def map_prod_def split: option.splits sum.splits prod.splits)
    (metis snd_conv)+

lemma load_uncached_source:
  assumes "load_uncached env name (Some d) l = (Inr (r, source), l1)" "dict_has (pv_dir env) (custom_path d name)"
  shows "source = Some (custom_path d name)"
proof -
  obtain v l2 where v: "load_and_resolve env (custom_path d name) (Some d) l = (v, l2)"
    by (cases "load_and_resolve env (custom_path d name) (Some d) l")
  show ?thesis using assms v by (cases v) (auto simp: load_uncached_def)
qed

text \<open>
  A cached profile of the custom directory is served as long as its own file keeps its
  modification time, whatever happened to the profiles it extends: after any change of the other files
  the loader still returns the configuration of the first load.
\<close>
theorem cached_profile_ignores_parents:
  assumes "load_profile env now name (Some d) l = (Inr r, l')" and "pc_enabled (pl_cache l)"
    and "dict_get (pc_entries (pl_cache l)) (cache_key (Some d) name) = None"
    and "dict_get (pv_dir env) (custom_path d name) = Some f"
    and "dict_get (pv_dir env') (custom_path d name) = Some f'" and "pf_mtime f' = pf_mtime f"
  shows "fst (load_profile env' now' name (Some d) l') = Inr r"
proof -
  let ?key = "cache_key (Some d) name"
  let ?c = "(pl_cache l)\<lparr>pc_misses := pc_misses (pl_cache l) + 1\<rparr>"
  have miss: "cache_get (pv_dir env) now ?key (pl_cache l) = (None, ?c)"
    using assms(2,3) by (simp add: cache_get_def)
  obtain source l1 where u: "load_uncached env name (Some d) (l\<lparr>pl_cache := ?c\<rparr>) = (Inr (r, source), l1)"
    and l': "l' = l1\<lparr>pl_cache := cache_put (pv_dir env) now ?key r source (pl_cache l1)\<rparr>"
    using assms(1) by (auto simp: load_profile_def miss split: prod.splits sum.splits)
  have "source = Some (custom_path d name)" using load_uncached_source [OF u] assms(4) by (simp add: dict_has_def)
  moreover have "pl_cache l1 = ?c" using load_uncached_cache [OF u] by simp
  ultimately have "dict_get (pc_entries (pl_cache l')) ?key = Some (ProfileCacheEntry now r (Some (pf_mtime f)) (Some (custom_path d name)))"
    and "pc_enabled (pl_cache l')" using assms(2,4) by (simp_all add: l' cache_put_def)
  then show ?thesis
    using assms(5,6) by (simp add: load_profile_def cache_get_def entry_is_valid_def ProfileCacheEntry_def)
qed

definition example_dir :: "time \<Rightarrow> int \<Rightarrow> profile_dir" where
  "example_dir t n = [(''d/child.yaml'', \<lparr>pf_mtime = 1, pf_doc = Some (JObj [(''extends'', JStr ''base'')])\<rparr>),
     (''d/base.yaml'', \<lparr>pf_mtime = t, pf_doc = Some (JObj [(''level'', JInt n)])\<rparr>)]"

theorem cached_profile_ignores_parents_witness:
  "fst (load_profile (example_profile_env (example_dir 2 9)) 3 ''child'' (Some ''d'')
      (snd (load_profile (example_profile_env (example_dir 1 5)) 2 ''child'' (Some ''d'')
        (ProfileLoader True (Some (ProfileCache True)) None)))) = Inr [(''level'', JInt 5)] \<and>
   fresh_load (example_profile_env (example_dir 2 9)) ''child'' (Some ''d'') = Inr [(''level'', JInt 9)]"
proof -
  let ?l = "ProfileLoader True (Some (ProfileCache True)) None"
  have "fst (load_profile (example_profile_env (example_dir 1 5)) 2 ''child'' (Some ''d'') ?l) = Inr [(''level'', JInt 5)]"
    by code_simp
  then have "load_profile (example_profile_env (example_dir 1 5)) 2 ''child'' (Some ''d'') ?l =
      (Inr [(''level'', JInt 5)], snd (load_profile (example_profile_env (example_dir 1 5)) 2 ''child'' (Some ''d'') ?l))"
    by (metis prod.collapse)
  from cached_profile_ignores_parents [OF this, of "\<lparr>pf_mtime = 1, pf_doc = Some (JObj [(''extends'', JStr ''base'')])\<rparr>"
      "example_profile_env (example_dir 2 9)" "\<lparr>pf_mtime = 1, pf_doc = Some (JObj [(''extends'', JStr ''base'')])\<rparr>"]
  have "fst (load_profile (example_profile_env (example_dir 2 9)) 3 ''child'' (Some ''d'')
      (snd (load_profile (example_profile_env (example_dir 1 5)) 2 ''child'' (Some ''d'') ?l))) = Inr [(''level'', JInt 5)]"
    by (simp add: ProfileLoader_def ProfileCache_def example_profile_env_def example_dir_def custom_path_def path_join_def)
  moreover have "fresh_load (example_profile_env (example_dir 2 9)) ''child'' (Some ''d'') = Inr [(''level'', JInt 9)]" by code_simp
  ultimately show ?thesis by blast
qed

end
