(* ===== verification/Manifest_Loader.thy ===== *)
theory Manifest_Loader
  imports Profile_Loader
begin

text \<open>
  Loading of an artifact manifest (\<^verbatim>\<open>h2kvm/orchestration/manifest/loader.py\<close>): validation of the disks and
  of the optional sections, verification of checksums, the profile that provides defaults, and the getters.
  The parsed file, the resolution of paths and the digest of a file are parameters. The text of a
  \<^verbatim>\<open>ManifestError\<close> is the field it is about.
\<close>

section \<open>Data\<close>

record disk_artifact =
  da_id :: string
  da_source_format :: string
  da_bytes :: int
  da_local_path :: string
  da_checksum :: "string option"
  da_boot_order_hint :: int
  da_label :: json
  da_disk_type :: string

datatype manifest_exc = ManifestError string | ManifestMissing string | ManifestPy py_exc

datatype manifest_file = ManifestDoc json | ManifestBadJson | ManifestDenied

record manifest_env =
  me_file :: "string \<Rightarrow> manifest_file option"
  me_resolve :: "string \<Rightarrow> string"
  me_exists :: "string \<Rightarrow> bool"
  me_sha256 :: "string \<Rightarrow> string option"
  me_profiles :: profile_env
  me_now :: time

record manifest_loader =
  ml_manifest :: json
  ml_path :: "string option"
  ml_disks :: "disk_artifact list"
  ml_profiles :: profile_loader
  ml_loaded_profile :: "items option"

definition ManifestLoader :: "profile_loader \<Rightarrow> manifest_loader" where
  "ManifestLoader pl = \<lparr>ml_manifest = JObj [], ml_path = None, ml_disks = [], ml_profiles = pl, ml_loaded_profile = None\<rparr>"

definition SUPPORTED_SOURCE_FORMATS :: "string list" where
  "SUPPORTED_SOURCE_FORMATS = [''vmdk'', ''qcow2'', ''raw'', ''vhd'', ''vhdx'', ''vdi'']"

section \<open>Validation\<close>

text \<open>In a pattern that ends with \<^verbatim>\<open>$\<close> Python also matches before a newline at the end of the text.\<close>

definition matches_line :: "(string \<Rightarrow> bool) \<Rightarrow> string \<Rightarrow> bool" where
  "matches_line P s = (P s \<or> (s \<noteq> [] \<and> last s = CHR 0x0A \<and> P (butlast s)))"

definition id_text :: "string \<Rightarrow> bool" where
  "id_text s = (s \<noteq> [] \<and> list_all (\<lambda>c. py_isword c \<or> c = CHR ''-'') s)"

definition hex_chars :: string where
  "hex_chars = ''0123456789abcdef''"

definition checksum_text :: "string \<Rightarrow> bool" where
  "checksum_text s = (startswith s ''sha256:'' \<and> length s = 71 \<and> list_all (\<lambda>c. c \<in> set hex_chars) (drop 7 s))"

definition the_text :: "json \<Rightarrow> py_exc + string" where
  "the_text v = (case v of JStr s \<Rightarrow> Inr s | _ \<Rightarrow> Inl (TypeError ''expected string''))"

definition require :: "bool \<Rightarrow> string \<Rightarrow> manifest_exc + unit" where
  "require ok what = (if ok then Inr () else Inl (ManifestError what))"

definition as_manifest :: "py_exc + 'a \<Rightarrow> manifest_exc + 'a" where
  "as_manifest r = map_sum ManifestPy id r"

text \<open>A non-negative integer in an optional field.\<close>

definition natural_field :: "items \<Rightarrow> string \<Rightarrow> bool" where
  "natural_field d k = (case map_of d k of None \<Rightarrow> True | Some v \<Rightarrow> (case as_int v of Some i \<Rightarrow> i \<ge> 0 | None \<Rightarrow> False))"

definition checksum_field :: "items \<Rightarrow> manifest_exc + string option" where
  "checksum_field d = (case map_of d ''checksum'' of
      None \<Rightarrow> Inr None
    | Some v \<Rightarrow> sum_bind (as_manifest (the_text v)) (\<lambda>s. sum_bind (require (matches_line checksum_text s) ''checksum'') (\<lambda>_. Inr (Some s))))"

definition disk_type_field :: "items \<Rightarrow> string option" where
  "disk_type_field d = (case map_of d ''disk_type'' of
      None \<Rightarrow> Some ''unknown''
    | Some (JStr s) \<Rightarrow> if s \<in> {''boot'', ''data'', ''unknown''} then Some s else None
    | Some _ \<Rightarrow> None)"

definition source_format_field :: "items \<Rightarrow> manifest_exc + string" where
  "source_format_field d = (case map_of d ''source_format'' of
      Some (JStr s) \<Rightarrow> if s \<in> set SUPPORTED_SOURCE_FORMATS then Inr s else Inl (ManifestError ''source_format'')
    | _ \<Rightarrow> Inl (ManifestError ''source_format''))"

definition bytes_field :: "items \<Rightarrow> manifest_exc + int" where
  "bytes_field d = (case map_of d ''bytes'' of
      Some v \<Rightarrow> (case as_int v of Some i \<Rightarrow> if i \<ge> 0 then Inr i else Inl (ManifestError ''bytes'') | None \<Rightarrow> Inl (ManifestError ''bytes''))
    | None \<Rightarrow> Inl (ManifestError ''bytes''))"

definition hint_of :: "items \<Rightarrow> int" where
  "hint_of d = (case map_of d ''boot_order_hint'' of None \<Rightarrow> 999 | Some v \<Rightarrow> (case as_int v of Some i \<Rightarrow> i | None \<Rightarrow> 999))"

text \<open>One disk, in the order of the checks. The path that is checked is the resolved one, the path that is
  kept is the text of the manifest.\<close>

definition validate_disk :: "manifest_env \<Rightarrow> string set \<Rightarrow> json \<Rightarrow> manifest_exc + disk_artifact" where
  "validate_disk env disk_ids disk_data = (case disk_data of
      JObj d \<Rightarrow>
        sum_bind (require (list_all (dict_has d) [''id'', ''source_format'', ''bytes'', ''local_path'']) ''required'') (\<lambda>_.
        sum_bind (as_manifest (sum_bind (json_item disk_data ''id'') the_text)) (\<lambda>i.
        sum_bind (require (i \<notin> disk_ids) ''duplicate'') (\<lambda>_.
        sum_bind (require (matches_line id_text i) ''id'') (\<lambda>_.
        sum_bind (source_format_field d) (\<lambda>fmt.
        sum_bind (bytes_field d) (\<lambda>n.
        sum_bind (as_manifest (sum_bind (json_item disk_data ''local_path'') the_text)) (\<lambda>p.
        sum_bind (require (me_exists env (me_resolve env p)) ''local_path'') (\<lambda>_.
        sum_bind (checksum_field d) (\<lambda>c.
        sum_bind (require (natural_field d ''boot_order_hint'') ''boot_order_hint'') (\<lambda>_.
        (case disk_type_field d of
           None \<Rightarrow> Inl (ManifestError ''disk_type'')
         | Some t \<Rightarrow> Inr \<lparr>da_id = i, da_source_format = fmt, da_bytes = n, da_local_path = p, da_checksum = c, da_boot_order_hint = hint_of d,
                          da_label = json_get disk_data ''label'' (JStr i), da_disk_type = t\<rparr>)))))))))))
    | _ \<Rightarrow> Inl (ManifestError ''disks''))"

fun validate_disks_loop :: "manifest_env \<Rightarrow> string set \<Rightarrow> json list \<Rightarrow> disk_artifact list \<Rightarrow> (manifest_exc, unit, disk_artifact list) outcome" where
  "validate_disks_loop env disk_ids [] disks = (Inr (), disks)"
| "validate_disks_loop env disk_ids (x # xs) disks = (case validate_disk env disk_ids x of
      Inl e \<Rightarrow> (Inl e, disks)
    | Inr a \<Rightarrow> validate_disks_loop env (insert (da_id a) disk_ids) xs (disks @ [a]))"

definition validate_source :: "json \<Rightarrow> manifest_exc + unit" where
  "validate_source source = (case source of
      JObj fs \<Rightarrow>
        (let text_field = (\<lambda>k. case map_of fs k of None \<Rightarrow> True | Some (JStr _) \<Rightarrow> True | Some _ \<Rightarrow> False);
             filled = (\<lambda>k. case map_of fs k of None \<Rightarrow> True | Some (JStr s) \<Rightarrow> s \<noteq> [] | Some _ \<Rightarrow> False)
         in sum_bind (require (filled ''provider'') ''source.provider'') (\<lambda>_.
            sum_bind (require (filled ''export_timestamp'') ''source.export_timestamp'') (\<lambda>_.
            sum_bind (require (text_field ''vm_name'') ''source.vm_name'') (\<lambda>_. require (text_field ''vm_id'') ''source.vm_id''))))
    | _ \<Rightarrow> Inl (ManifestError ''source''))"

definition positive_field :: "items \<Rightarrow> string \<Rightarrow> bool" where
  "positive_field d k = (case map_of d k of None \<Rightarrow> True | Some v \<Rightarrow> (case as_int v of Some i \<Rightarrow> i \<ge> 1 | None \<Rightarrow> False))"

definition firmware_field :: "items \<Rightarrow> bool" where
  "firmware_field d = (case map_of d ''firmware'' of None \<Rightarrow> True | Some v \<Rightarrow> v \<in> {JStr ''bios'', JStr ''uefi'', JStr ''unknown''})"

definition validate_vm :: "json \<Rightarrow> manifest_exc + unit" where
  "validate_vm vm = (case vm of
      JObj fs \<Rightarrow>
        sum_bind (require (firmware_field fs) ''vm.firmware'') (\<lambda>_.
        sum_bind (require (case map_of fs ''secureboot'' of None \<Rightarrow> True | Some v \<Rightarrow> as_bool v \<noteq> None) ''vm.secureboot'') (\<lambda>_.
        sum_bind (require (positive_field fs ''cpu'') ''vm.cpu'') (\<lambda>_. require (positive_field fs ''mem_gb'') ''vm.mem_gb'')))
    | _ \<Rightarrow> Inl (ManifestError ''vm''))"

definition optional_section :: "items \<Rightarrow> string \<Rightarrow> (json \<Rightarrow> manifest_exc + unit) \<Rightarrow> manifest_exc + unit" where
  "optional_section m k check = (case map_of m k of None \<Rightarrow> Inr () | Some v \<Rightarrow> check v)"

definition version_field :: "items \<Rightarrow> manifest_exc + unit" where
  "version_field m = sum_bind (require (truthy (json_get (JObj m) ''manifest_version'' JNull)) ''manifest_version'')
     (\<lambda>_. require (json_get (JObj m) ''manifest_version'' JNull = JStr ''1.0'') ''unsupported version'')"

definition validate_manifest_doc :: "manifest_env \<Rightarrow> manifest_loader \<Rightarrow> (manifest_exc, unit, manifest_loader) outcome" where
  "validate_manifest_doc env l = (case ml_manifest l of
      JObj m \<Rightarrow>
        (case version_field m of
           Inl e \<Rightarrow> (Inl e, l)
         | Inr _ \<Rightarrow>
             (case map_of m ''disks'' of
                Some (JList xs) \<Rightarrow>
                  if xs = [] then (Inl (ManifestError ''disks''), l)
                  else (case validate_disks_loop env {} xs (ml_disks l) of
                          (Inl e, ds) \<Rightarrow> (Inl e, l\<lparr>ml_disks := ds\<rparr>)
                        | (Inr _, ds) \<Rightarrow>
                            (sum_bind (optional_section m ''source'' validate_source) (\<lambda>_. optional_section m ''vm'' validate_vm), l\<lparr>ml_disks := ds\<rparr>))
              | _ \<Rightarrow> (Inl (ManifestError ''disks''), l)))
    | _ \<Rightarrow> (Inl (ManifestError ''object''), l))"

section \<open>Profile\<close>

definition profile_request_of :: "items \<Rightarrow> py_exc + (string \<times> string option)" where
  "profile_request_of m =
     sum_bind (let c = json_get (JObj m) ''profiles_directory'' JNull in if truthy c then sum_bind (the_text c) (\<lambda>s. Inr (Some s)) else Inr None) (\<lambda>custom.
     sum_bind (the_text (json_get (JObj m) ''profile'' JNull)) (\<lambda>name. Inr (name, custom)))"

definition profile_overrides_of :: "items \<Rightarrow> py_exc + items" where
  "profile_overrides_of m =
     (let ov = json_get (JObj m) ''profile_overrides'' (JObj [])
      in if \<not> truthy ov then Inr [] else (case ov of JObj fs \<Rightarrow> Inr fs | _ \<Rightarrow> Inl (AttributeError ''keys'')))"

definition apply_profile :: "manifest_env \<Rightarrow> manifest_loader \<Rightarrow> (manifest_exc, unit, manifest_loader) outcome" where
  "apply_profile env l = (case ml_manifest l of
      JObj m \<Rightarrow>
        if \<not> truthy (json_get (JObj m) ''profile'' JNull) then (Inr (), l)
        else (case profile_request_of m of
                Inl _ \<Rightarrow> (Inl (ManifestError ''profile''), l)
              | Inr (name, custom) \<Rightarrow>
                  (case load_profile (me_profiles env) (me_now env) name custom (ml_profiles l) of
                     (Inl _, pl) \<Rightarrow> (Inl (ManifestError ''profile''), l\<lparr>ml_profiles := pl\<rparr>)
                   | (Inr profile, pl) \<Rightarrow>
                       (case profile_overrides_of m of
                          Inl _ \<Rightarrow> (Inl (ManifestError ''profile''), l\<lparr>ml_profiles := pl\<rparr>)
                        | Inr overrides \<Rightarrow>
                            (let config = apply_overrides profile overrides
                             in (Inr (), l\<lparr>ml_profiles := pl, ml_loaded_profile := Some config,
                                   ml_manifest := JObj (merge_dicts ''replace'' config m)\<rparr>)))))
    | _ \<Rightarrow> (Inl (ManifestError ''profile''), l))"

definition load_manifest :: "manifest_env \<Rightarrow> string \<Rightarrow> manifest_loader \<Rightarrow> (manifest_exc, json, manifest_loader) outcome" where
  "load_manifest env p l =
     (let path = me_resolve env p; l1 = l\<lparr>ml_path := Some path\<rparr>
      in case me_file env path of
           None \<Rightarrow> (Inl (ManifestMissing path), l1)
         | Some ManifestBadJson \<Rightarrow> (Inl (ManifestError ''json''), l1)
         | Some ManifestDenied \<Rightarrow> (Inl (ManifestError ''permission''), l1)
         | Some (ManifestDoc doc) \<Rightarrow>
             (case validate_manifest_doc env (l1\<lparr>ml_manifest := doc\<rparr>) of
                (Inl e, l2) \<Rightarrow> (Inl e, l2)
              | (Inr _, l2) \<Rightarrow>
                  (case apply_profile env l2 of
                     (Inl e, l3) \<Rightarrow> (Inl e, l3)
                   | (Inr _, l3) \<Rightarrow> (Inr (ml_manifest l3), l3))))"

section \<open>Checksums\<close>

fun verify_loop :: "manifest_env \<Rightarrow> disk_artifact list \<Rightarrow> (string, bool) dict \<Rightarrow> manifest_exc + (string, bool) dict" where
  "verify_loop env [] results = Inr results"
| "verify_loop env (d # ds) results = (case da_checksum d of
      None \<Rightarrow> verify_loop env ds results
    | Some c \<Rightarrow>
        if c = [] then verify_loop env ds results
        else (case me_sha256 env (da_local_path d) of
                None \<Rightarrow> Inl (ManifestPy (FileNotFoundError (da_local_path d)))
              | Some actual \<Rightarrow>
                  if actual = replace_all ''sha256:'' [] c then verify_loop env ds (dict_set (da_id d) True results)
                  else Inl (ManifestError ''checksum mismatch'')))"

definition verify_checksums :: "manifest_env \<Rightarrow> manifest_loader \<Rightarrow> manifest_exc + (string, bool) dict" where
  "verify_checksums env l = verify_loop env (ml_disks l) []"

section \<open>Getters\<close>

definition boot_disk_of :: "disk_artifact list \<Rightarrow> disk_artifact" where
  "boot_disk_of ds = hd (sort_key da_boot_order_hint ds)"

definition get_boot_disk :: "manifest_loader \<Rightarrow> manifest_exc + disk_artifact" where
  "get_boot_disk l = (if ml_disks l = [] then Inl (ManifestError ''No disks available'') else Inr (boot_disk_of (ml_disks l)))"

text \<open>\<^verbatim>\<open>manifest.get(section, {})\<close>, and \<^verbatim>\<open>manifest.get(section, {}).get(key, default)\<close>, which raises
  on a section that is not an object.\<close>

definition get_section :: "manifest_loader \<Rightarrow> string \<Rightarrow> json" where
  "get_section l sec = json_get (ml_manifest l) sec (JObj [])"

definition section_get :: "json \<Rightarrow> string \<Rightarrow> json \<Rightarrow> py_exc + json" where
  "section_get sec k d = (case sec of JObj fs \<Rightarrow> Inr (json_get sec k d) | _ \<Rightarrow> Inl (AttributeError ''get''))"

definition get_version :: "manifest_loader \<Rightarrow> json" where
  "get_version l = json_get (ml_manifest l) ''manifest_version'' (JStr ''unknown'')"

definition get_firmware :: "manifest_loader \<Rightarrow> py_exc + json" where
  "get_firmware l = section_get (get_section l ''vm'') ''firmware'' (JStr ''bios'')"

definition get_os_hint :: "manifest_loader \<Rightarrow> py_exc + json" where
  "get_os_hint l = section_get (get_section l ''vm'') ''os_hint'' (JStr ''unknown'')"

definition get_secureboot :: "manifest_loader \<Rightarrow> py_exc + json" where
  "get_secureboot l = section_get (get_section l ''vm'') ''secureboot'' (JBool False)"

definition manifest_output_directory :: "manifest_env \<Rightarrow> manifest_loader \<Rightarrow> py_exc + string" where
  "manifest_output_directory env l =
     (case json_get (ml_manifest l) ''output'' JNull of
        JObj out \<Rightarrow>
          (case map_of out ''directory'' of
             Some v \<Rightarrow> sum_bind (the_text v) (\<lambda>s. Inr (me_resolve env s))
           | None \<Rightarrow> Inr (case ml_path l of Some p \<Rightarrow> path_join (path_parent p) ''output'' | None \<Rightarrow> ''./output''))
      | _ \<Rightarrow> Inr (case ml_path l of Some p \<Rightarrow> path_join (path_parent p) ''output'' | None \<Rightarrow> ''./output''))"

definition get_output_format :: "manifest_loader \<Rightarrow> py_exc + json" where
  "get_output_format l = (case json_get (ml_manifest l) ''output'' (JObj []) of
      JObj out \<Rightarrow> Inr (json_get (JObj out) ''format'' (JStr ''qcow2''))
    | _ \<Rightarrow> Inl (AttributeError ''get''))"

definition get_stage_config :: "manifest_loader \<Rightarrow> string \<Rightarrow> py_exc + json" where
  "get_stage_config l stage = section_get (get_section l ''pipeline'') stage (JObj [])"

definition is_stage_enabled :: "manifest_loader \<Rightarrow> string \<Rightarrow> py_exc + bool" where
  "is_stage_enabled l stage = sum_bind (get_stage_config l stage) (\<lambda>c. sum_bind (section_get c ''enabled'' (JBool False)) (\<lambda>v. Inr (truthy v)))"

definition is_dry_run :: "manifest_loader \<Rightarrow> py_exc + bool" where
  "is_dry_run l = sum_bind (section_get (get_section l ''options'') ''dry_run'' (JBool False)) (\<lambda>v. Inr (truthy v))"

definition is_libvirt_integration_enabled :: "manifest_loader \<Rightarrow> py_exc + bool" where
  "is_libvirt_integration_enabled l =
     sum_bind (section_get (get_section l ''libvirt_integration'') ''enabled'' (JBool False)) (\<lambda>v. Inr (truthy v))"

section \<open>Validated disks\<close>

definition disk_valid :: "manifest_env \<Rightarrow> disk_artifact \<Rightarrow> bool" where
  "disk_valid env d = (matches_line id_text (da_id d) \<and> da_source_format d \<in> set SUPPORTED_SOURCE_FORMATS \<and> da_bytes d \<ge> 0 \<and>
     me_exists env (me_resolve env (da_local_path d)) \<and> (case da_checksum d of None \<Rightarrow> True | Some c \<Rightarrow> matches_line checksum_text c) \<and>
     da_boot_order_hint d \<ge> 0 \<and> da_disk_type d \<in> {''boot'', ''data'', ''unknown''})"

lemma require_Inr [simp]: "require ok what = Inr x \<longleftrightarrow> ok"
  by (simp add: require_def)

lemma as_manifest_Inr: "as_manifest r = Inr x \<longleftrightarrow> r = Inr x"
  by (cases r) (simp_all add: as_manifest_def)

lemma hint_of_natural: "natural_field d ''boot_order_hint'' \<Longrightarrow> hint_of d \<ge> 0"
  by (auto simp: natural_field_def hint_of_def split: option.splits)

lemma checksum_field_ok: "checksum_field d = Inr c \<Longrightarrow> (case c of None \<Rightarrow> True | Some s \<Rightarrow> matches_line checksum_text s)"
  by (auto simp: checksum_field_def sum_bind_Inr_iff split: option.splits)

lemma validate_disk_ok:
  assumes "validate_disk env ids x = Inr a"
  shows "disk_valid env a" "da_id a \<notin> ids"
proof -
  obtain d i fmt n p c t where x: "x = JObj d" and i: "i \<notin> ids" "matches_line id_text i" and "source_format_field d = Inr fmt"
    and "bytes_field d = Inr n" and p: "me_exists env (me_resolve env p)" and c: "checksum_field d = Inr c"
    and h: "natural_field d ''boot_order_hint''" and t: "disk_type_field d = Some t"
    and a: "a = \<lparr>da_id = i, da_source_format = fmt, da_bytes = n, da_local_path = p, da_checksum = c, da_boot_order_hint = hint_of d,
                da_label = json_get x ''label'' (JStr i), da_disk_type = t\<rparr>"
    using assms unfolding validate_disk_def by (cases x) (auto simp: sum_bind_Inr_iff split: option.splits)
  moreover from this(4) have "fmt \<in> set SUPPORTED_SOURCE_FORMATS"
    by (auto simp: source_format_field_def split: option.splits json.splits if_splits)
  moreover from \<open>bytes_field d = Inr n\<close> have "n \<ge> 0" by (auto simp: bytes_field_def split: option.splits if_splits)
  moreover from t have "t \<in> {''boot'', ''data'', ''unknown''}"
    by (auto simp: disk_type_field_def split: option.splits json.splits if_splits)
  ultimately show "disk_valid env a" "da_id a \<notin> ids"
    using checksum_field_ok [OF c] hint_of_natural [OF h] by (simp_all add: disk_valid_def)
qed

lemma validate_disks_loop_ok:
  assumes "validate_disks_loop env ids xs ds = (Inr (), ds')"
  shows "\<exists>as. ds' = ds @ as \<and> length as = length xs \<and> (\<forall>a\<in>set as. disk_valid env a) \<and> distinct (map da_id as) \<and> da_id ` set as \<inter> ids = {}"
  using assms
proof (induction xs arbitrary: ids ds)
  case (Cons x xs)
  then obtain a where a: "validate_disk env ids x = Inr a" by (auto split: sum.splits)
  with Cons.prems have "validate_disks_loop env (insert (da_id a) ids) xs (ds @ [a]) = (Inr (), ds')" by simp
  from Cons.IH [OF this] obtain as where "ds' = (ds @ [a]) @ as" "length as = length xs" "\<forall>a\<in>set as. disk_valid env a"
    "distinct (map da_id as)" "da_id ` set as \<inter> insert (da_id a) ids = {}" by blast
  with validate_disk_ok [OF a] show ?case by (intro exI [of _ "a # as"]) auto
qed simp

lemma apply_profile_disks: "apply_profile env l = (r, l') \<Longrightarrow> ml_disks l' = ml_disks l"
  by (auto simp: apply_profile_def Let_def split: json.splits sum.splits prod.splits if_splits)

lemma load_manifest_ok:
  assumes "load_manifest env p l = (Inr m, l')"
  obtains doc fs xs l2 where "me_file env (me_resolve env p) = Some (ManifestDoc doc)" "doc = JObj fs" "map_of fs ''disks'' = Some (JList xs)" "xs \<noteq> []"
    "validate_disks_loop env {} xs (ml_disks l) = (Inr (), ml_disks l')" "l2 = l\<lparr>ml_path := Some (me_resolve env p), ml_manifest := doc, ml_disks := ml_disks l'\<rparr>"
    "apply_profile env l2 = (Inr (), l')" "m = ml_manifest l'"
proof -
  obtain doc where doc: "me_file env (me_resolve env p) = Some (ManifestDoc doc)"
    using assms by (auto simp: load_manifest_def Let_def split: option.splits manifest_file.splits)
  let ?l1 = "l\<lparr>ml_path := Some (me_resolve env p), ml_manifest := doc\<rparr>"
  from assms doc obtain l2 where v: "validate_manifest_doc env ?l1 = (Inr (), l2)" and a: "apply_profile env l2 = (Inr (), l')" "m = ml_manifest l'"
    by (auto simp: load_manifest_def Let_def split: prod.splits sum.splits)
  from v obtain fs xs ds where "doc = JObj fs" "map_of fs ''disks'' = Some (JList xs)" "xs \<noteq> []"
    "validate_disks_loop env {} xs (ml_disks l) = (Inr (), ds)" "l2 = ?l1\<lparr>ml_disks := ds\<rparr>"
    unfolding validate_manifest_doc_def by (auto split: json.splits sum.splits option.splits prod.splits if_splits)
  with doc a apply_profile_disks [OF a(1)] show thesis by (intro that) auto
qed



definition example_doc :: "items \<Rightarrow> json" where
  "example_doc extra = JObj ([(''manifest_version'', JStr ''1.0''), (''disks'', JList [
     JObj [(''id'', JStr ''data''), (''source_format'', JStr ''vmdk''), (''bytes'', JInt 10), (''local_path'', JStr ''/d/data.vmdk'')],
     JObj [(''id'', JStr ''boot''), (''source_format'', JStr ''vmdk''), (''bytes'', JInt 20), (''local_path'', JStr ''/d/boot.vmdk''), (''boot_order_hint'', JInt 0)]])] @ extra)"

definition example_manifest_env :: "items \<Rightarrow> manifest_env" where
  "example_manifest_env extra = \<lparr>me_file = \<lambda>p. Some (ManifestDoc (example_doc extra)), me_resolve = id, me_exists = \<lambda>_. True, me_sha256 = \<lambda>_. None,
     me_profiles = example_profile_env [], me_now = 0\<rparr>"


section \<open>The boot disk\<close>

lemma boot_disk_of_Cons:
  "ds \<noteq> [] \<Longrightarrow> boot_disk_of (d # ds) = (if da_boot_order_hint d \<le> da_boot_order_hint (boot_disk_of ds) then d else boot_disk_of ds)"
proof -
  assume "ds \<noteq> []"
  then have "sort_key da_boot_order_hint ds \<noteq> []" by (metis length_0_conv length_sort)
  then show ?thesis by (cases "sort_key da_boot_order_hint ds") (auto simp: boot_disk_of_def)
qed

text \<open>
  The boot disk has the smallest boot order hint, and it is the first such disk of the manifest.
\<close>
theorem boot_disk_is_first_minimum:
  assumes "get_boot_disk l = Inr d"
  shows "\<exists>xs ys. ml_disks l = xs @ d # ys \<and> (\<forall>x\<in>set xs. da_boot_order_hint d < da_boot_order_hint x) \<and>
    (\<forall>y\<in>set ys. da_boot_order_hint d \<le> da_boot_order_hint y)"
proof -
  have "ds \<noteq> [] \<Longrightarrow> \<exists>xs ys. ds = xs @ boot_disk_of ds # ys \<and> (\<forall>x\<in>set xs. da_boot_order_hint (boot_disk_of ds) < da_boot_order_hint x) \<and>
    (\<forall>y\<in>set ys. da_boot_order_hint (boot_disk_of ds) \<le> da_boot_order_hint y)" for ds
  proof (induction ds)
    case (Cons x ds)
    show ?case
    proof (cases "ds = []")
      case True
      then show ?thesis by (intro exI [of _ "[]"]) (simp add: boot_disk_of_def)
    next
      case False
      with Cons.IH obtain xs ys where ds: "ds = xs @ boot_disk_of ds # ys" "\<forall>x\<in>set xs. da_boot_order_hint (boot_disk_of ds) < da_boot_order_hint x"
        "\<forall>y\<in>set ys. da_boot_order_hint (boot_disk_of ds) \<le> da_boot_order_hint y" by blast
      show ?thesis
      proof (cases "da_boot_order_hint x \<le> da_boot_order_hint (boot_disk_of ds)")
        case True
        have "da_boot_order_hint x \<le> da_boot_order_hint y" if "y \<in> set ds" for y
        proof -
          from that have "y \<in> set (xs @ boot_disk_of ds # ys)" by (metis ds(1))
          with ds(2,3) True show ?thesis by auto
        qed
        with True False show ?thesis by (intro exI [of _ "[]"] exI [of _ ds]) (simp add: boot_disk_of_Cons)
      next
        case nle: False
        show ?thesis by (intro exI [of _ "x # xs"] exI [of _ ys]) (use nle False ds in \<open>auto simp: boot_disk_of_Cons\<close>)
      qed
    qed
  qed simp
  with assms show ?thesis by (auto simp: get_boot_disk_def split: if_splits)
qed

theorem boot_disk_is_first_minimum_witness:
  "\<exists>d. get_boot_disk (snd (load_manifest (example_manifest_env []) ''/m.json'' (ManifestLoader fresh_loader))) = Inr d \<and> da_boot_order_hint d = 0"
proof -
  let ?l = "snd (load_manifest (example_manifest_env []) ''/m.json'' (ManifestLoader fresh_loader))"
  have hints: "map da_boot_order_hint (ml_disks ?l) = [999, 0]" by code_simp
  then obtain d where d: "get_boot_disk ?l = Inr d" by (cases "ml_disks ?l") (auto simp: get_boot_disk_def)
  from boot_disk_is_first_minimum [OF d] obtain xs ys where "ml_disks ?l = xs @ d # ys" "\<forall>x\<in>set xs. da_boot_order_hint d < da_boot_order_hint x"
    "\<forall>y\<in>set ys. da_boot_order_hint d \<le> da_boot_order_hint y" by blast
  with hints have "da_boot_order_hint d = 0" by (cases xs) (auto simp: append_eq_Cons_conv)
  with d show ?thesis by blast
qed

section \<open>Profiles provide defaults\<close>

lemma overrides_wf: "json_wf (JObj fs) \<Longrightarrow> profile_overrides_of fs = Inr ov \<Longrightarrow> json_wf (JObj ov)"
proof (cases "map_of fs ''profile_overrides''")
  case (Some v)
  assume fs: "json_wf (JObj fs)" and o: "profile_overrides_of fs = Inr ov"
  from json_wf_get [OF fs Some] o Some show ?thesis
    by (cases v) (auto simp: profile_overrides_of_def dict_ok_def split: if_splits)
qed (auto simp: profile_overrides_of_def dict_ok_def)

text \<open>
  The precedence of settings: what the manifest sets wins, then the profile overrides of the manifest, then
  the profile.
\<close>
theorem manifest_settings_win:
  assumes "load_manifest env p l = (Inr m, l')" and "me_file env (me_resolve env p) = Some (ManifestDoc (JObj fs))" and "json_wf (JObj fs)"
    and "truthy (json_get (JObj fs) ''profile'' JNull)"
    and "profile_request_of fs = Inr (name, custom)" and "profile_overrides_of fs = Inr ov"
    and "load_profile (me_profiles env) (me_now env) name custom (ml_profiles l) = (Inr prof, pl)"
  shows "(leaf fs ks v \<longrightarrow> json_path m ks = Some v) \<and> (untouched fs ks \<and> leaf ov ks v \<longrightarrow> json_path m ks = Some v) \<and>
    (untouched fs ks \<and> untouched ov ks \<longrightarrow> json_path m ks = json_path (JObj prof) ks)"
proof -
  obtain doc l2 where l2: "me_file env (me_resolve env p) = Some (ManifestDoc doc)"
    "l2 = l\<lparr>ml_path := Some (me_resolve env p), ml_manifest := doc, ml_disks := ml_disks l'\<rparr>" "apply_profile env l2 = (Inr (), l')" "m = ml_manifest l'"
    by (rule load_manifest_ok [OF assms(1)]) blast
  have "ml_manifest (snd (apply_profile env l2)) = JObj (merge_dicts ''replace'' (apply_overrides prof ov) fs)"
    using assms(2,4-7) l2(1,2) by (simp add: apply_profile_def Let_def)
  then have m: "m = JObj (merge_dicts ''replace'' (apply_overrides prof ov) fs)" using l2(3,4) by simp
  have ov: "json_wf (JObj ov)" by (rule overrides_wf [OF assms(3,6)])
  have "leaf fs ks v \<Longrightarrow> json_path m ks = Some v" using cfg.merge_leaf [OF assms(3)] m by simp
  moreover have base: "untouched fs ks \<Longrightarrow> json_path m ks = json_path (JObj (apply_overrides prof ov)) ks"
    using cfg_any.merge_untouched [OF assms(3)] m by simp
  moreover have "leaf ov ks v \<Longrightarrow> json_path (JObj (apply_overrides prof ov)) ks = Some v"
    using cfg.merge_leaf [OF ov] by (auto simp: apply_overrides_def)
  moreover have "untouched ov ks \<Longrightarrow> json_path (JObj (apply_overrides prof ov)) ks = json_path (JObj prof) ks"
    using cfg_any.merge_untouched [OF ov] by (auto simp: apply_overrides_def)
  ultimately show ?thesis by auto
qed

theorem manifest_settings_win_witness:
  "json_path (ml_manifest (snd (load_manifest (example_manifest_env [(''profile'', JStr ''production''), (''level'', JInt 9)]) ''/m.json''
     (ManifestLoader fresh_loader)))) [''level''] = Some (JInt 9)"
proof -
  let ?env = "example_manifest_env [(''profile'', JStr ''production''), (''level'', JInt 9)]"
  let ?x = "load_manifest ?env ''/m.json'' (ManifestLoader fresh_loader)"
  obtain fs where fs: "example_doc [(''profile'', JStr ''production''), (''level'', JInt 9)] = JObj fs" by (simp add: example_doc_def)
  have doc: "me_file ?env (me_resolve ?env ''/m.json'') = Some (ManifestDoc (JObj fs))" by (simp add: example_manifest_env_def fs)
  have facts: "json_wf (JObj fs)" "truthy (json_get (JObj fs) ''profile'' JNull)" "profile_request_of fs = Inr (''production'', None)"
    "profile_overrides_of fs = Inr []" "leaf fs [''level''] (JInt 9)"
    using fs by (auto simp: example_doc_def dict_ok_def profile_request_of_def profile_overrides_of_def the_text_def leaf_def)
  let ?load = "load_profile (me_profiles ?env) (me_now ?env) ''production'' None (ml_profiles (ManifestLoader fresh_loader))"
  have "is_ok (fst ?x)" "is_ok (fst ?load)" by code_simp+
  then obtain m prof where m: "?x = (Inr m, snd ?x)" and prof: "?load = (Inr prof, snd ?load)" by (metis is_okE prod.collapse)
  have "m = ml_manifest (snd ?x)" by (rule load_manifest_ok [OF m]) blast
  with manifest_settings_win [OF m doc facts(1-4) prof, of "[''level'']" "JInt 9"] facts(5) show ?thesis by simp
qed

section \<open>Checksums\<close>

text \<open>
  The verification never reports a failure in its result: when it returns, every entry is true and every
  disk with a checksum has a file with that digest.
\<close>
lemma verified_checksums_match:
  assumes "verify_loop env ds results = Inr results'" "\<forall>v\<in>snd ` set results. v"
  shows "(\<forall>v\<in>snd ` set results'. v) \<and>
    (\<forall>d\<in>set ds. \<forall>c. da_checksum d = Some c \<and> c \<noteq> [] \<longrightarrow> me_sha256 env (da_local_path d) = Some (replace_all ''sha256:'' [] c))"
  using assms
proof (induction ds arbitrary: results)
  case (Cons d ds)
  have set: "\<forall>v\<in>snd ` set (dict_set (da_id d) True results). v" if "\<forall>v\<in>snd ` set results. v"
    using that by (induction results) auto
  show ?case
  proof (cases "da_checksum d = None \<or> da_checksum d = Some []")
    case True
    with Cons.prems(1) have "verify_loop env ds results = Inr results'" by auto
    from Cons.IH [OF this Cons.prems(2)] True show ?thesis by auto
  next
    case False
    with Cons.prems(1) obtain c where c: "da_checksum d = Some c" "c \<noteq> []" "me_sha256 env (da_local_path d) = Some (replace_all ''sha256:'' [] c)"
      "verify_loop env ds (dict_set (da_id d) True results) = Inr results'"
      by (auto split: option.splits if_splits)
    from Cons.IH [OF c(4) set [OF Cons.prems(2)]] c show ?thesis by auto
  qed
qed simp

text \<open>
  A disk below the home directory passes the validation, which resolves its path, and then fails the
  verification of its checksum, which opens the text of the manifest as it stands.
\<close>
lemma home_path_fails_later:
  assumes "validate_disk env ids x = Inr d" "da_checksum d = Some c" "c \<noteq> []" "me_sha256 env (da_local_path d) = None"
  shows "me_exists env (me_resolve env (da_local_path d))"
    "verify_loop env (d # ds) results = Inl (ManifestPy (FileNotFoundError (da_local_path d)))"
  using validate_disk_ok(1) [OF assms(1)] assms(2-4) by (simp_all add: disk_valid_def)

text \<open>
  Loading a second manifest with the same loader keeps the disks of the first.
\<close>
lemma second_load_keeps_old_disks:
  assumes "load_manifest env p l = (Inr m, l')"
  shows "\<exists>new. ml_disks l' = ml_disks l @ new \<and> new \<noteq> []"
proof -
  obtain xs where "xs \<noteq> []" "validate_disks_loop env {} xs (ml_disks l) = (Inr (), ml_disks l')"
    by (rule load_manifest_ok [OF assms]) blast
  from validate_disks_loop_ok [OF this(2)] this(1) show ?thesis by auto
qed

end
