(* ===== verification/Manifest_Pipeline.thy ===== *)
theory Manifest_Pipeline
  imports Manifest_Loader Hook_Runner
begin

text \<open>
  The conversion pipeline of one manifest (\<^verbatim>\<open>h2kvm/orchestration/manifest/orchestrator.py\<close> and
  \<^verbatim>\<open>reporter.py\<close>): eight stages with hooks between them, each gated by the manifest, and a report that is
  written however the run ends. The state holds the loader, the report, the runner of hooks and the files
  with their sizes. The fixer, the converter, guest inspection, libvirt, kubectl and OpenStack are
  parameters; what the pipeline asks of them and makes of their answers is modelled. Durations are left out.
\<close>

section \<open>Report\<close>

record mf_report =
  mr_success :: bool
  mr_stages :: "(string, items) dict"
  mr_artifacts :: "items list"
  mr_warnings :: "(string \<times> string) list"
  mr_errors :: "(string \<times> string) list"
  mr_input_manifest :: "items option"
  mr_summary :: "items option"

definition ManifestReporter :: mf_report where
  "ManifestReporter = \<lparr>mr_success = False, mr_stages = [], mr_artifacts = [], mr_warnings = [], mr_errors = [], mr_input_manifest = None, mr_summary = None\<rparr>"

definition add_stage_result :: "string \<Rightarrow> items \<Rightarrow> mf_report \<Rightarrow> mf_report" where
  "add_stage_result stage result r = r\<lparr>mr_stages := dict_set stage result (mr_stages r)\<rparr>"

definition add_artifact :: "items \<Rightarrow> mf_report \<Rightarrow> mf_report" where
  "add_artifact artifact r = r\<lparr>mr_artifacts := mr_artifacts r @ [artifact]\<rparr>"

definition add_stage_warning :: "string \<Rightarrow> string \<Rightarrow> mf_report \<Rightarrow> mf_report" where
  "add_stage_warning stage message r = r\<lparr>mr_warnings := mr_warnings r @ [(stage, message)]\<rparr>"

definition add_stage_error :: "string \<Rightarrow> string \<Rightarrow> mf_report \<Rightarrow> mf_report" where
  "add_stage_error stage message r = r\<lparr>mr_errors := mr_errors r @ [(stage, message)]\<rparr>"

definition stage_success :: "items \<Rightarrow> bool" where
  "stage_success result = truthy (json_get (JObj result) ''success'' JNull)"

definition converted_artifact :: "json \<Rightarrow> json \<Rightarrow> items" where
  "converted_artifact compressed info =
     [(''type'', JStr ''converted_disk''), (''path'', json_get info ''output_path'' JNull), (''disk_id'', json_get info ''disk_id'' JNull),
      (''format'', json_get info ''output_format'' JNull), (''size_bytes'', json_get info ''output_size_bytes'' JNull),
      (''size_human'', json_get info ''output_size_human'' JNull), (''boot_order_hint'', json_get info ''boot_order_hint'' JNull), (''compressed'', compressed)]"

definition converted_infos :: "mf_report \<Rightarrow> json list" where
  "converted_infos r = (case dict_get (mr_stages r) ''convert'' of
      Some res \<Rightarrow> if stage_success res
        then (case json_get (json_get (JObj res) ''result'' (JObj [])) ''converted_disks'' (JList []) of JList xs \<Rightarrow> xs | _ \<Rightarrow> []) else []
    | None \<Rightarrow> [])"

definition convert_compressed :: "mf_report \<Rightarrow> json" where
  "convert_compressed r = (case dict_get (mr_stages r) ''convert'' of
      Some res \<Rightarrow> json_get (json_get (JObj res) ''result'' (JObj [])) ''compressed'' (JBool False) | None \<Rightarrow> JBool False)"

definition load_result :: "mf_report \<Rightarrow> json" where
  "load_result r = (case dict_get (mr_stages r) ''load_manifest'' of Some res \<Rightarrow> json_get (JObj res) ''result'' (JObj []) | None \<Rightarrow> JObj [])"

definition report_summary :: "mf_report \<Rightarrow> items" where
  "report_summary r =
     [(''total_stages'', JInt (int (length (mr_stages r)))),
      (''successful_stages'', JInt (int (length (filter (\<lambda>(k, v). stage_success v) (mr_stages r))))),
      (''failed_stages'', JInt (int (length (filter (\<lambda>(k, v). \<not> stage_success v) (mr_stages r))))),
      (''total_warnings'', JInt (int (length (mr_warnings r)))), (''total_errors'', JInt (int (length (mr_errors r)))),
      (''total_artifacts'', JInt (int (length (mr_artifacts r)))), (''input_disks'', json_get (load_result r) ''disks_count'' (JInt 0)),
      (''output_disks'', JInt (int (length (mr_artifacts r))))]"

definition input_manifest_of :: "mf_report \<Rightarrow> items" where
  "input_manifest_of r =
     [(''path'', json_get (load_result r) ''manifest_path'' JNull), (''manifest_version'', json_get (load_result r) ''manifest_version'' JNull),
      (''source_provider'', json_get (load_result r) ''source_provider'' JNull), (''source_vm_id'', json_get (load_result r) ''source_vm_id'' JNull),
      (''source_vm_name'', json_get (load_result r) ''source_vm_name'' JNull)]"

definition generate_manifest_report :: "mf_report \<Rightarrow> mf_report" where
  "generate_manifest_report r =
     (let r1 = fold add_artifact (map (converted_artifact (convert_compressed r)) (converted_infos r)) r;
          r2 = (if dict_has (mr_stages r1) ''load_manifest'' then r1\<lparr>mr_input_manifest := Some (input_manifest_of r1)\<rparr> else r1)
      in r2\<lparr>mr_summary := Some (report_summary r2)\<rparr>)"

section \<open>State and environment\<close>

datatype pipe_exc = PipeManifest manifest_exc | PipePy py_exc | PipeHook string | PipeTool string

fun pipe_text :: "pipe_exc \<Rightarrow> string" where
  "pipe_text (PipeManifest (ManifestError m)) = m"
| "pipe_text (PipeManifest (ManifestMissing p)) = p"
| "pipe_text (PipeManifest (ManifestPy e)) = exc_text e"
| "pipe_text (PipePy e) = exc_text e"
| "pipe_text (PipeHook m) = m"
| "pipe_text (PipeTool m) = m"

record context_env =
  cx_timestamp :: string
  cx_timestamp_iso :: string
  cx_user :: string
  cx_hostname :: string
  cx_pwd :: string

datatype guest_info = GuestFound items | NoGuest | GuestFailed string

text \<open>The calls of the libvirt managers, with what opening their connection may raise. An error says whether it
  is an \<^verbatim>\<open>InfrastructureError\<close>.\<close>

type_synonym lv_error = "bool \<times> string"

record libvirt_ops =
  lv_define :: "string \<Rightarrow> json \<Rightarrow> lv_error + string"
  lv_snapshot :: "string \<Rightarrow> json \<Rightarrow> lv_error + unit"
  lv_autostart :: "string \<Rightarrow> lv_error + unit"
  lv_start :: "string \<Rightarrow> lv_error + unit"
  lv_pool :: "json \<Rightarrow> json \<Rightarrow> lv_error + unit"
  lv_import :: "string \<Rightarrow> string \<Rightarrow> json \<Rightarrow> json \<Rightarrow> lv_error + unit"

record pipe_env =
  pe_loader :: manifest_env
  pe_hooks :: "nat \<Rightarrow> hook_env"
  pe_context :: context_env
  pe_human :: "int \<Rightarrow> string"
  pe_guestfs :: bool
  pe_inspect :: "string \<Rightarrow> guest_info"
  pe_fix :: "items \<Rightarrow> string option"
  pe_mkdir :: "string \<Rightarrow> string option"
  pe_convert :: "string \<Rightarrow> string \<Rightarrow> string \<Rightarrow> json \<Rightarrow> json \<Rightarrow> string + int option"
  pe_validate :: "string \<Rightarrow> string option"
  pe_libvirt :: libvirt_ops
  pe_libvirt_available :: bool
  pe_kubectl :: "json \<Rightarrow> bool"
  pe_virtctl :: "string list \<Rightarrow> bool"
  pe_openstack :: "string \<Rightarrow> items \<Rightarrow> string + items"
  pe_write :: "string \<Rightarrow> string option"

record pipeline =
  mp_path :: string
  mp_loader :: manifest_loader
  mp_reporter :: mf_report
  mp_manifest :: json
  mp_hook_runner :: "hook_runner option"
  mp_stage :: string
  mp_output_dir :: "string option"
  mp_converted :: "(string, string) dict"
  mp_files :: "(string, int) dict"
  mp_written :: "string option"

definition ManifestOrchestrator :: "string \<Rightarrow> profile_loader \<Rightarrow> (string, int) dict \<Rightarrow> pipeline" where
  "ManifestOrchestrator path pl store = \<lparr>mp_path = path, mp_loader = ManifestLoader pl, mp_reporter = ManifestReporter, mp_manifest = JObj [],
     mp_hook_runner = None, mp_stage = ''none'', mp_output_dir = None, mp_converted = [], mp_files = store, mp_written = None\<rparr>"

abbreviation on_report :: "(mf_report \<Rightarrow> mf_report) \<Rightarrow> pipeline \<Rightarrow> pipeline" where
  "on_report f s \<equiv> s\<lparr>mp_reporter := f (mp_reporter s)\<rparr>"

type_synonym 'a stage_call = "pipeline \<Rightarrow> (pipe_exc, 'a, pipeline) outcome"

definition from_py :: "py_exc + 'a \<Rightarrow> pipe_exc + 'a" where
  "from_py r = map_sum PipePy id r"

definition lift_read :: "pipe_exc + 'a \<Rightarrow> ('a \<Rightarrow> 'b stage_call) \<Rightarrow> 'b stage_call" where
  "lift_read r k s = (case r of Inl e \<Rightarrow> (Inl e, s) | Inr x \<Rightarrow> k x s)"

section \<open>Hooks\<close>

definition str_or_unknown :: "json \<Rightarrow> string option" where
  "str_or_unknown v = (case v of JStr s \<Rightarrow> Some (if s = [] then ''unknown'' else s) | _ \<Rightarrow> Some ''unknown'')"

text \<open>\<^verbatim>\<open>create_hook_context\<close> as the pipeline calls it, with keywords.\<close>

definition create_hook_context :: "context_env \<Rightarrow> string \<Rightarrow> json \<Rightarrow> string \<Rightarrow> string \<Rightarrow> variables" where
  "create_hook_context cx stage vm_name source_path output_path =
     [(''stage'', Some stage), (''timestamp'', Some (cx_timestamp cx)), (''timestamp_iso'', Some (cx_timestamp_iso cx)),
      (''vm_name'', str_or_unknown vm_name), (''source_path'', Some source_path), (''output_path'', Some output_path),
      (''source_dir'', Some (if source_path = [] then ''.'' else path_parent source_path)),
      (''source_filename'', Some (if source_path = [] then [] else path_name source_path)),
      (''output_dir'', Some (if output_path = [] then ''.'' else path_parent output_path)),
      (''output_filename'', Some (if output_path = [] then [] else path_name output_path)),
      (''user'', Some (cx_user cx)), (''hostname'', Some (cx_hostname cx)), (''pwd'', Some (cx_pwd cx))]"

definition output_name :: "disk_artifact \<Rightarrow> string \<Rightarrow> string" where
  "output_name d fmt = da_id d @ ''.'' @ fmt"

definition hook_context :: "pipe_env \<Rightarrow> pipeline \<Rightarrow> pipe_exc + variables" where
  "hook_context env s =
     sum_bind (map_sum PipeManifest id (get_boot_disk (mp_loader s))) (\<lambda>d.
     sum_bind (from_py (section_get (get_section (mp_loader s) ''source'') ''vm_name'' JNull)) (\<lambda>name.
     sum_bind (case mp_output_dir s of
         Some dir \<Rightarrow> from_py (sum_bind (get_output_format (mp_loader s)) (\<lambda>v. sum_bind (the_text v) (\<lambda>fmt. Inr (path_join dir (output_name d fmt)))))
       | None \<Rightarrow> Inr []) (\<lambda>out.
     Inr (create_hook_context (pe_context env) (mp_stage s) name (da_local_path d) out))))"

definition execute_hook_stage :: "pipe_env \<Rightarrow> string \<Rightarrow> variables \<Rightarrow> unit stage_call" where
  "execute_hook_stage env stage ctx s = (case mp_hook_runner s of
      None \<Rightarrow> (Inr (), s)
    | Some hr \<Rightarrow>
        if \<not> has_hooks_for_stage hr stage then (Inr (), s)
        else (case execute_stage_hooks (pe_hooks env) stage ctx hr of
                (Inl e, hr') \<Rightarrow> (Inl (PipeHook e), on_report (add_stage_error (mp_stage s) (''Hook '' @ stage @ '' failed: '' @ e)) (s\<lparr>mp_hook_runner := Some hr'\<rparr>))
              | (Inr True, hr') \<Rightarrow> (Inr (), s\<lparr>mp_hook_runner := Some hr'\<rparr>)
              | (Inr False, hr') \<Rightarrow> (Inr (), on_report (add_stage_warning (mp_stage s) (''One or more '' @ stage @ '' hooks failed (continue_on_error enabled)''))
                    (s\<lparr>mp_hook_runner := Some hr'\<rparr>))))"

definition hook_point :: "pipe_env \<Rightarrow> string \<Rightarrow> unit stage_call" where
  "hook_point env stage s = lift_read (hook_context env s) (execute_hook_stage env stage) s"

definition run_stage :: "string \<Rightarrow> items stage_call \<Rightarrow> unit stage_call" where
  "run_stage name f s = (case f (s\<lparr>mp_stage := name\<rparr>) of
      (Inr result, s1) \<Rightarrow> (Inr (), on_report (add_stage_result name [(''success'', JBool True), (''result'', JObj result)]) s1)
    | (Inl e, s1) \<Rightarrow> (Inl e, on_report (add_stage_result name [(''success'', JBool False), (''error'', JStr (pipe_text e))]) s1))"

section \<open>Loading, inspection and fixing\<close>

definition stage_load_manifest :: "pipe_env \<Rightarrow> items stage_call" where
  "stage_load_manifest env s = (case load_manifest (pe_loader env) (mp_path s) (mp_loader s) of
      (Inl e, l) \<Rightarrow> (Inl (PipeManifest e), s\<lparr>mp_loader := l\<rparr>)
    | (Inr m, l) \<Rightarrow>
        (let s1 = s\<lparr>mp_loader := l, mp_manifest := m\<rparr>; checked = list_ex (\<lambda>d. case da_checksum d of Some c \<Rightarrow> c \<noteq> [] | None \<Rightarrow> False) (ml_disks l)
         in (sum_bind (if checked then map_sum PipeManifest (\<lambda>_. ()) (verify_checksums (pe_loader env) l) else Inr ()) (\<lambda>_.
             sum_bind (from_py (get_firmware l)) (\<lambda>fw.
             sum_bind (from_py (get_os_hint l)) (\<lambda>hint.
             sum_bind (from_py (section_get (get_section l ''source'') ''provider'' JNull)) (\<lambda>prov.
             Inr [(''manifest_version'', get_version l), (''manifest_path'', JStr (mp_path s)), (''source_provider'', prov),
                  (''source_vm_id'', json_get (get_section l ''source'') ''vm_id'' JNull), (''source_vm_name'', json_get (get_section l ''source'') ''vm_name'' JNull),
                  (''disks_count'', JInt (int (length (ml_disks l)))), (''firmware'', fw), (''os_hint'', hint), (''checksums_verified'', JBool checked)])))), s1)))"

definition guest_entry :: "pipe_env \<Rightarrow> json \<Rightarrow> disk_artifact \<Rightarrow> disk_artifact \<Rightarrow> items" where
  "guest_entry env config boot d =
     (if truthy (json_get config ''collect_guest_info'' (JBool False)) \<and> da_id d = da_id boot \<and> pe_guestfs env
      then (case pe_inspect env (da_local_path d) of
              GuestFound g \<Rightarrow> [(''guest'', JObj g)] | NoGuest \<Rightarrow> [] | GuestFailed e \<Rightarrow> [(''guest_inspection_error'', JStr e)])
      else [])"

definition size_mismatch :: "disk_artifact \<Rightarrow> int \<Rightarrow> string" where
  "size_mismatch d actual = ''Disk '' @ da_id d @ '': Size mismatch (expected '' @ int_str (da_bytes d) @ '', got '' @ int_str actual @ '')''"

definition artifact_missing :: "string \<Rightarrow> string" where
  "artifact_missing p = ''Converted disk artifact not found at '' @ p @ ''. The conversion step may have failed or the output directory was cleaned up.''"

definition output_missing :: "string \<Rightarrow> string" where
  "output_missing p = ''Output disk image not found at '' @ p @ ''. The conversion may have failed silently '' @ [CHR 0xE2, CHR 0x80, CHR 0x94] @
     '' check earlier log messages for errors.''"

fun inspect_loop :: "pipe_env \<Rightarrow> json \<Rightarrow> disk_artifact list \<Rightarrow> json list \<Rightarrow> json list stage_call" where
  "inspect_loop env config [] acc s = (Inr acc, s)"
| "inspect_loop env config (d # ds) acc s = (case dict_get (mp_files s) (da_local_path d) of
      None \<Rightarrow> (Inl (PipePy (FileNotFoundError (artifact_missing (da_local_path d)))), s)
    | Some actual \<Rightarrow>
        (let same = (actual = da_bytes d); s1 = (if same then s else on_report (add_stage_warning ''inspect'' (size_mismatch d actual)) s);
             info = [(''id'', JStr (da_id d)), (''source_format'', JStr (da_source_format d)), (''expected_bytes'', JInt (da_bytes d)),
               (''actual_bytes'', JInt actual), (''size_match'', JBool same), (''size_human'', JStr (pe_human env actual)), (''path'', JStr (da_local_path d))]
         in case get_boot_disk (mp_loader s) of
              Inl e \<Rightarrow> (Inl (PipeManifest e), s1)
            | Inr boot \<Rightarrow> inspect_loop env config ds (acc @ [JObj (info @ guest_entry env config boot d)]) s1))"

definition stage_inspect :: "pipe_env \<Rightarrow> items stage_call" where
  "stage_inspect env s = lift_read (from_py (get_stage_config (mp_loader s) ''inspect'')) (\<lambda>config s.
     (case inspect_loop env config (ml_disks (mp_loader s)) [] s of
        (Inl e, s1) \<Rightarrow> (Inl e, s1) | (Inr xs, s1) \<Rightarrow> (Inr [(''disks'', JList xs)], s1))) s"

definition enable_rdp_of :: "json \<Rightarrow> manifest_loader \<Rightarrow> json" where
  "enable_rdp_of config l = (case json_get config ''enable_rdp'' JNull of
      JNull \<Rightarrow> JBool (case json_get (get_section l ''vm'') ''os_hint'' (JStr []) of JStr s \<Rightarrow> py_lower s = ''windows'' | _ \<Rightarrow> False)
    | v \<Rightarrow> v)"

definition fix_request :: "json \<Rightarrow> json \<Rightarrow> bool \<Rightarrow> json \<Rightarrow> disk_artifact \<Rightarrow> items" where
  "fix_request config configuration dry_run rdp boot =
     [(''image'', JStr (da_local_path boot)), (''dry_run'', JBool dry_run), (''no_backup'', JBool (\<not> truthy (json_get config ''backup'' (JBool True)))),
      (''print_fstab'', json_get config ''print_fstab'' (JBool False)), (''update_grub'', json_get config ''update_grub'' (JBool True)),
      (''regen_initramfs'', json_get config ''regen_initramfs'' (JBool True)), (''fstab_mode'', json_get config ''fstab_mode'' (JStr ''stabilize-all'')),
      (''remove_vmware_tools'', json_get config ''remove_vmware_tools'' (JBool False)), (''enable_rdp'', JBool (truthy rdp)),
      (''user_config_inject'', json_get configuration ''users'' JNull), (''service_config_inject'', json_get configuration ''services'' JNull),
      (''hostname_config_inject'', json_get configuration ''hostname'' JNull), (''network_config_inject'', json_get configuration ''network'' JNull)]"

definition skipped_warning :: "disk_artifact \<Rightarrow> string" where
  "skipped_warning d = ''Data disk '' @ da_id d @ '' skipped (fixes only apply to boot disk)''"

definition stage_fix :: "pipe_env \<Rightarrow> items stage_call" where
  "stage_fix env s =
     lift_read (from_py (get_stage_config (mp_loader s) ''fix'')) (\<lambda>config.
     lift_read (map_sum PipeManifest id (get_boot_disk (mp_loader s))) (\<lambda>boot.
     lift_read (from_py (is_dry_run (mp_loader s))) (\<lambda>dry_run.
     lift_read (from_py (section_get (get_section (mp_loader s) ''configuration'') ''users'' JNull)) (\<lambda>_ s.
       (let rdp = enable_rdp_of config (mp_loader s); data = filter (\<lambda>d. da_id d \<noteq> da_id boot) (ml_disks (mp_loader s))
        in case pe_fix env (fix_request config (get_section (mp_loader s) ''configuration'') dry_run rdp boot) of
             Some e \<Rightarrow> (Inl (PipeTool e), s)
           | None \<Rightarrow> (Inr [(''boot_disk_id'', JStr (da_id boot)), (''data_disks_skipped'', JInt (int (length data))),
               (''fstab_mode'', json_get config ''fstab_mode'' (JStr ''stabilize-all'')), (''grub_updated'', json_get config ''update_grub'' (JBool True)),
               (''initramfs_regenerated'', json_get config ''regen_initramfs'' (JBool True)),
               (''vmware_tools_removed'', json_get config ''remove_vmware_tools'' (JBool False)), (''enable_rdp'', JBool (truthy rdp))],
               fold (\<lambda>d. on_report (add_stage_warning ''fix'' (skipped_warning d))) data s)))))) s"

section \<open>Conversion and validation\<close>

definition converted_info :: "pipe_env \<Rightarrow> disk_artifact \<Rightarrow> string \<Rightarrow> string \<Rightarrow> int \<Rightarrow> json" where
  "converted_info env d fmt out n = JObj
     [(''disk_id'', JStr (da_id d)), (''input_format'', JStr (da_source_format d)), (''output_format'', JStr fmt), (''output_path'', JStr out),
      (''output_size_bytes'', JInt n), (''output_size_human'', JStr (pe_human env n)), (''boot_order_hint'', JInt (da_boot_order_hint d))]"

fun convert_loop :: "pipe_env \<Rightarrow> json \<Rightarrow> string \<Rightarrow> string \<Rightarrow> disk_artifact list \<Rightarrow> json list \<Rightarrow> json list stage_call" where
  "convert_loop env config dir fmt [] acc s = (Inr acc, s)"
| "convert_loop env config dir fmt (d # ds) acc s =
     (let out = path_join dir (output_name d fmt)
      in case pe_convert env (da_local_path d) out fmt (json_get config ''compress'' (JBool False)) (json_get config ''compress_level'' JNull) of
           Inl e \<Rightarrow> (Inl (PipeTool e), s)
         | Inr None \<Rightarrow> (Inl (PipePy (FileNotFoundError out)), s)
         | Inr (Some n) \<Rightarrow>
             convert_loop env config dir fmt ds (acc @ [converted_info env d fmt out n])
               (s\<lparr>mp_files := dict_set out n (mp_files s), mp_converted := dict_set (da_id d) out (mp_converted s)\<rparr>))"

definition stage_convert :: "pipe_env \<Rightarrow> items stage_call" where
  "stage_convert env s =
     lift_read (from_py (get_stage_config (mp_loader s) ''convert'')) (\<lambda>config.
     lift_read (from_py (sum_bind (get_output_format (mp_loader s)) the_text)) (\<lambda>fmt.
     lift_read (from_py (manifest_output_directory (pe_loader env) (mp_loader s))) (\<lambda>dir s.
       (let s1 = s\<lparr>mp_output_dir := Some dir\<rparr>
        in case pe_mkdir env dir of
             Some e \<Rightarrow> (Inl (PipeTool e), s1)
           | None \<Rightarrow>
               (case convert_loop env config dir fmt (ml_disks (mp_loader s)) [] s1 of
                  (Inl e, s2) \<Rightarrow> (Inl e, s2)
                | (Inr xs, s2) \<Rightarrow>
                    (Inr [(''disks_converted'', JInt (int (length xs))), (''output_format'', JStr fmt), (''output_directory'', JStr dir),
                       (''compressed'', json_get config ''compress'' (JBool False)), (''converted_disks'', JList xs)], s2)))))) s"

fun validate_loop :: "pipe_env \<Rightarrow> json \<Rightarrow> (string \<times> string) list \<Rightarrow> json list \<Rightarrow> json list stage_call" where
  "validate_loop env config [] acc s = (Inr acc, s)"
| "validate_loop env config ((i, out) # rest) acc s =
     (if \<not> dict_has (mp_files s) out
      then (Inl (PipePy (FileNotFoundError (output_missing out))), on_report (add_stage_error ''validate'' (''Disk '' @ i @ '': Output file missing'')) s)
      else if truthy (json_get config ''check_image_integrity'' (JBool True))
      then (case pe_validate env out of
              Some e \<Rightarrow> (Inl (PipeTool e), s)
            | None \<Rightarrow> validate_loop env config rest
                (acc @ [JObj [(''disk_id'', JStr i), (''output_path'', JStr out), (''exists'', JBool True), (''integrity_check'', JStr ''passed'')]]) s)
      else validate_loop env config rest (acc @ [JObj [(''disk_id'', JStr i), (''output_path'', JStr out), (''exists'', JBool True)]]) s)"

definition stage_validate :: "pipe_env \<Rightarrow> items stage_call" where
  "stage_validate env s = lift_read (from_py (get_stage_config (mp_loader s) ''validate'')) (\<lambda>config s.
     (case validate_loop env config (mp_converted s) [] s of
        (Inl e, s1) \<Rightarrow> (Inl e, s1)
      | (Inr xs, s1) \<Rightarrow> (Inr [(''disks_validated'', JInt (int (length xs))),
          (''all_passed'', JBool (list_all (\<lambda>r. json_get r ''integrity_check'' JNull = JStr ''passed'') xs)), (''validation_results'', JList xs)], s1))) s"


section \<open>Deployment\<close>

definition lv_option :: "bool \<Rightarrow> (lv_error + unit) \<Rightarrow> items \<Rightarrow> items \<Rightarrow> lv_error + items" where
  "lv_option wanted call entries res = (if wanted then sum_bind call (\<lambda>_. Inr (fold (\<lambda>(k, v). dict_set k v) entries res)) else Inr res)"

definition define_domain_part :: "libvirt_ops \<Rightarrow> json \<Rightarrow> string \<Rightarrow> items \<Rightarrow> lv_error + items" where
  "define_domain_part lv config xml res =
     (let flag = (\<lambda>k d. truthy (json_get config k (JBool d))); snap = json_get config ''snapshot_name'' (JStr ''pre-first-boot'')
      in if \<not> flag ''define_domain'' True then Inr res
         else sum_bind (lv_define lv xml (json_get config ''overwrite_domain'' (JBool False))) (\<lambda>name.
              sum_bind (Inr (dict_set ''domain_name'' (JStr name) (dict_set ''domain_defined'' (JBool True) res))) (\<lambda>res.
              sum_bind (lv_option (flag ''create_snapshot'' False) (lv_snapshot lv name snap) [(''snapshot_created'', JBool True), (''snapshot_name'', snap)] res) (\<lambda>res.
              sum_bind (lv_option (flag ''autostart'' False) (lv_autostart lv name) [(''autostart_enabled'', JBool True)] res) (\<lambda>res.
              lv_option (flag ''auto_start'' False) (lv_start lv name) [(''domain_started'', JBool True)] res)))))"

definition volume_name :: "json \<Rightarrow> string \<Rightarrow> string" where
  "volume_name config disk_id = (case json_get config ''vm_name'' (JStr ''vm'') of JStr s \<Rightarrow> s | _ \<Rightarrow> []) @ ''-'' @ disk_id"

definition import_disks_part :: "libvirt_ops \<Rightarrow> json \<Rightarrow> (string, string) dict \<Rightarrow> items \<Rightarrow> lv_error + items" where
  "import_disks_part lv config converted res =
     (let pool = json_get config ''import_to_pool'' JNull
      in if \<not> truthy pool then Inr res
         else sum_bind (lv_pool lv pool (json_get config ''pool_path'' (JStr ''/var/lib/libvirt/images''))) (\<lambda>_.
              sum_bind (sum_map (\<lambda>(i, out). lv_import lv out (volume_name config i) (json_get config ''copy_disks'' (JBool True))
                  (json_get config ''overwrite_volumes'' (JBool False))) converted) (\<lambda>xs.
              Inr (dict_set ''disks_imported'' (JInt (int (length xs))) res))))"

definition integrate_libvirt :: "libvirt_ops \<Rightarrow> json \<Rightarrow> string \<Rightarrow> (string, string) dict \<Rightarrow> lv_error + items" where
  "integrate_libvirt lv config xml converted =
     sum_bind (define_domain_part lv config xml [(''domain_defined'', JBool False), (''disks_imported'', JInt 0), (''snapshot_created'', JBool False),
        (''domain_started'', JBool False)])
       (import_disks_part lv config converted)"

definition stage_libvirt_integration :: "pipe_env \<Rightarrow> items stage_call" where
  "stage_libvirt_integration env s =
     (if \<not> pe_libvirt_available env then (Inr [(''enabled'', JBool False), (''reason'', JStr ''libvirt not available'')], s)
      else (case mp_output_dir s of
              None \<Rightarrow> (Inl (PipePy (TypeError ''unsupported operand'')), s)
            | Some dir \<Rightarrow>
                (let xml = path_join dir ''domain.xml''
                 in if \<not> dict_has (mp_files s) xml then (Inr [(''enabled'', JBool False), (''reason'', JStr ''domain XML not found'')], s)
                    else (case integrate_libvirt (pe_libvirt env) (get_section (mp_loader s) ''libvirt_integration'') xml (mp_converted s) of
                            Inl (infra, e) \<Rightarrow> (Inl (PipeTool e), if infra then on_report (add_stage_error ''libvirt_integration'' e) s else s)
                          | Inr res \<Rightarrow> (Inr res, s)))))"

definition deploy_section :: "pipeline \<Rightarrow> string \<Rightarrow> pipe_exc + json" where
  "deploy_section s k = from_py (section_get (json_get (mp_manifest s) ''pipeline'' (JObj [])) k (JObj []))"

definition deploy_enabled :: "pipeline \<Rightarrow> string \<Rightarrow> pipe_exc + bool" where
  "deploy_enabled s k = sum_bind (deploy_section s k) (\<lambda>c. sum_bind (from_py (section_get c ''enabled'' (JBool False))) (\<lambda>v. Inr (truthy v)))"

text \<open>The directory of the outputs and the image that is deployed: the boot disk as a qcow2 file there, if it
  exists, and otherwise the source disk.\<close>

definition deploy_dir :: "pipeline \<Rightarrow> string" where
  "deploy_dir s = (case mp_output_dir s of
      Some dir \<Rightarrow> dir
    | None \<Rightarrow> (case json_get (json_get (mp_manifest s) ''output'' (JObj [])) ''directory'' JNull of JStr d \<Rightarrow> if d = [] then ''.'' else d | _ \<Rightarrow> ''.''))"

definition deploy_disk_path :: "pipeline \<Rightarrow> disk_artifact \<Rightarrow> string" where
  "deploy_disk_path s boot =
     (let p = path_join (deploy_dir s) (output_name boot ''qcow2'')
      in if dict_has (mp_files s) p then p else da_local_path boot)"

definition json_text_or :: "json \<Rightarrow> string \<Rightarrow> string \<Rightarrow> string" where
  "json_text_or c k d = (case json_get c k (JStr d) of JStr s \<Rightarrow> s | _ \<Rightarrow> d)"

definition kubevirt_name :: "pipeline \<Rightarrow> json \<Rightarrow> string" where
  "kubevirt_name s kv =
     (let n = json_text_or kv ''vm_name'' []
      in if n \<noteq> [] then n
         else replace_all '' '' ''-'' (py_lower (json_text_or (json_get (mp_manifest s) ''source'' (JObj [])) ''vm_name'' ''migrated-vm'')))"

definition disk_size_gi :: "disk_artifact \<Rightarrow> int" where
  "disk_size_gi boot = max 1 (da_bytes boot div 1024 ^ 3 + 1)"

definition kubevirt_network :: "json \<Rightarrow> json \<times> json" where
  "kubevirt_network kv =
     (let network = json_text_or kv ''network'' ''pod''; named = (\<lambda>d. JObj [(''name'', JStr ''default''), (''multus'', JObj [(''networkName'', json_get kv ''network_name'' (JStr d))])])
      in if network = ''bridge'' then (JObj [(''name'', JStr ''default''), (''bridge'', JObj [])], named ''bridge-net'')
         else if network = ''multus'' then (JObj [(''name'', JStr ''default''), (''bridge'', JObj [])], named ''default'')
         else (JObj [(''name'', JStr ''default''), (''masquerade'', JObj [])], JObj [(''name'', JStr ''default''), (''pod'', JObj [])]))"

definition merge_labels :: "items \<Rightarrow> json \<Rightarrow> json" where
  "merge_labels base extra = JObj (fold (\<lambda>(k, v). dict_set k v) (case extra of JObj fs \<Rightarrow> fs | _ \<Rightarrow> []) base)"

definition json_num_text :: "json \<Rightarrow> string" where
  "json_num_text v = (case v of JInt i \<Rightarrow> int_str i | JStr s \<Rightarrow> s | _ \<Rightarrow> [])"

definition data_volume :: "json \<Rightarrow> string \<Rightarrow> disk_artifact \<Rightarrow> json" where
  "data_volume kv name boot = JObj [(''metadata'', JObj [(''name'', JStr (name @ ''-rootdisk''))]), (''spec'', JObj
     [(''pvc'', JObj ([(''accessModes'', JList [json_get kv ''access_mode'' (JStr ''ReadWriteOnce'')]), (''volumeMode'', json_get kv ''volume_mode'' (JStr ''Filesystem'')),
        (''resources'', JObj [(''requests'', JObj [(''storage'', JStr (int_str (disk_size_gi boot) @ ''Gi''))])])] @
        (if truthy (json_get kv ''storage_class'' (JStr [])) then [(''storageClassName'', json_get kv ''storage_class'' (JStr []))] else []))),
      (''source'', if truthy (json_get kv ''upload_disk'' (JBool False)) then JObj [(''upload'', JObj [])] else JObj [(''blank'', JObj [])])])]"

definition kubevirt_cr :: "pipeline \<Rightarrow> json \<Rightarrow> disk_artifact \<Rightarrow> json" where
  "kubevirt_cr s kv boot =
     (let name = kubevirt_name s kv; vm = json_get (mp_manifest s) ''vm'' (JObj []); (net, source) = kubevirt_network kv;
          labels = merge_labels [(''app'', JStr name), (''hypersdk.io/migrated'', JStr ''true'')] (json_get kv ''labels'' (JObj []));
          annotations = merge_labels [(''hypersdk.io/source-provider'', json_get (json_get (mp_manifest s) ''source'' (JObj [])) ''provider'' (JStr ''unknown''))]
            (json_get kv ''annotations'' (JObj []));
          boot_loader = (if json_get vm ''firmware'' (JStr ''bios'') = JStr ''uefi'' then JObj [(''efi'', JObj [])] else JObj [(''bios'', JObj [])]);
          domain = JObj [(''cpu'', JObj [(''cores'', json_get vm ''cpu'' (JInt 2))]), (''memory'', JObj [(''guest'', JStr (json_num_text (json_get vm ''mem_gb'' (JInt 4)) @ ''Gi''))]),
            (''devices'', JObj [(''disks'', JList [JObj [(''name'', JStr ''rootdisk''), (''disk'', JObj [(''bus'', JStr ''virtio'')])]]), (''interfaces'', JList [net])]),
            (''firmware'', JObj [(''bootloader'', boot_loader)])]
      in JObj [(''apiVersion'', JStr ''kubevirt.io/v1''), (''kind'', JStr ''VirtualMachine''),
           (''metadata'', JObj [(''name'', JStr name), (''namespace'', json_get kv ''namespace'' (JStr ''default'')), (''labels'', labels), (''annotations'', annotations)]),
           (''spec'', JObj [(''running'', json_get kv ''running'' (JBool False)), (''template'', JObj [(''metadata'', JObj [(''labels'', labels)]),
              (''spec'', JObj [(''domain'', domain), (''networks'', JList [source]),
                (''volumes'', JList [JObj [(''name'', JStr ''rootdisk''), (''dataVolume'', JObj [(''name'', JStr (name @ ''-rootdisk''))])]])])]),
              (''dataVolumeTemplates'', JList [data_volume kv name boot])])])"

definition upload_command :: "json \<Rightarrow> string \<Rightarrow> string \<Rightarrow> string list" where
  "upload_command kv name disk_path =
     [''virtctl'', ''image-upload'', ''dv'', name @ ''-rootdisk'', ''--image-path='' @ disk_path, ''--namespace='' @ json_text_or kv ''namespace'' ''default'',
      ''--insecure'', ''--no-create'', ''--access-mode=ReadWriteOnce'', ''--volume-mode=filesystem''] @
     (if json_text_or kv ''storage_class'' [] \<noteq> [] then [''--storage-class='' @ json_text_or kv ''storage_class'' []] else [])"

definition stage_kubevirt_deploy :: "pipe_env \<Rightarrow> items stage_call" where
  "stage_kubevirt_deploy env s =
     lift_read (deploy_section s ''kubevirt'') (\<lambda>kv.
     lift_read (map_sum PipeManifest id (get_boot_disk (mp_loader s))) (\<lambda>boot s.
       (let name = kubevirt_name s kv; cr = kubevirt_cr s kv boot; cr_path = path_join (deploy_dir s) (name @ ''-kubevirt-vm.yaml'');
            disk_path = deploy_disk_path s boot
        in case pe_write env cr_path of
             Some e \<Rightarrow> (Inl (PipeTool e), s)
           | None \<Rightarrow>
               (let applied = pe_kubectl env cr;
                    uploaded = (truthy (json_get kv ''upload_disk'' (JBool False)) \<and> applied \<and> pe_virtctl env (upload_command kv name disk_path));
                    res = [(''cr_path'', JStr cr_path), (''vm_name'', JStr name), (''namespace'', json_get kv ''namespace'' (JStr ''default'')),
                           (''applied'', JBool applied), (''disk_uploaded'', JBool uploaded)]
                in (Inr res, on_report (add_stage_result ''kubevirt_deploy'' res) s))))) s"

definition glance_name :: "pipeline \<Rightarrow> json \<Rightarrow> disk_artifact \<Rightarrow> json" where
  "glance_name s cfg boot =
     (let a = json_get cfg ''glance_name'' JNull; b = json_get (json_get (mp_manifest s) ''source'' (JObj [])) ''vm_name'' JNull
      in if truthy a then a else if truthy b then b else JStr (da_id boot))"

definition openstack_args :: "pipeline \<Rightarrow> json \<Rightarrow> disk_artifact \<Rightarrow> items" where
  "openstack_args s cfg boot =
     [(''glance_name'', glance_name s cfg boot), (''vm_name'', glance_name s cfg boot),
      (''dry_run'', json_get (json_get (mp_manifest s) ''options'' (JObj [])) ''dry_run'' (JBool False)), (''os_cloud'', json_get cfg ''os_cloud'' JNull),
      (''os_auth_url'', json_get cfg ''os_auth_url'' JNull), (''os_username'', json_get cfg ''os_username'' JNull), (''os_password'', json_get cfg ''os_password'' JNull),
      (''os_project_name'', json_get cfg ''os_project_name'' JNull), (''openstack_description'', json_get cfg ''description'' JNull),
      (''openstack_visibility'', json_get cfg ''visibility'' (JStr ''private'')), (''openstack_boot_instance'', json_get cfg ''boot_instance'' (JBool False)),
      (''openstack_server_name'', json_get cfg ''server_name'' JNull), (''openstack_flavor'', json_get cfg ''flavor'' JNull),
      (''openstack_network'', json_get cfg ''network'' JNull), (''openstack_key_name'', json_get cfg ''key_name'' JNull),
      (''openstack_security_group'', json_get cfg ''security_group'' JNull), (''openstack_availability_zone'', json_get cfg ''availability_zone'' JNull),
      (''openstack_wait'', json_get cfg ''wait'' (JBool False))]"

definition stage_openstack_deploy :: "pipe_env \<Rightarrow> items stage_call" where
  "stage_openstack_deploy env s =
     lift_read (deploy_section s ''openstack'') (\<lambda>cfg.
     lift_read (map_sum PipeManifest id (get_boot_disk (mp_loader s))) (\<lambda>boot s.
       (case pe_openstack env (deploy_disk_path s boot) (openstack_args s cfg boot) of
          Inl e \<Rightarrow> (Inl (PipeTool e), s)
        | Inr res \<Rightarrow> (Inr res, on_report (add_stage_result ''openstack_deploy'' res) s)))) s"

section \<open>The run\<close>

definition when_enabled :: "(pipeline \<Rightarrow> pipe_exc + bool) \<Rightarrow> (pipe_exc, pipeline) step list \<Rightarrow> (pipe_exc, pipeline) step" where
  "when_enabled enabled steps s = (case enabled s of
      Inl e \<Rightarrow> (Inl e, s) | Inr b \<Rightarrow> if b then run_steps steps s else (Inr (), s))"

definition stage_enabled :: "string \<Rightarrow> pipeline \<Rightarrow> pipe_exc + bool" where
  "stage_enabled stage s = from_py (is_stage_enabled (mp_loader s) stage)"

definition init_hooks :: "(pipe_exc, pipeline) step" where
  "init_hooks s = (case mp_manifest s of
      JObj m \<Rightarrow> (case hook_runner_from_manifest m \<lparr>hl_runs = 0, hl_sleeps = []\<rparr> of
          Inl e \<Rightarrow> (Inl (PipePy e), s) | Inr hr \<Rightarrow> (Inr (), s\<lparr>mp_hook_runner := hr\<rparr>))
    | _ \<Rightarrow> (Inl (PipePy (AttributeError ''get'')), s))"

definition pipeline_steps :: "pipe_env \<Rightarrow> (pipe_exc, pipeline) step list" where
  "pipeline_steps env =
     [\<lambda>s. execute_hook_stage env ''pre_extraction'' [(''manifest_path'', Some (mp_path s))] s,
      run_stage ''load_manifest'' (stage_load_manifest env), init_hooks, hook_point env ''post_extraction'',
      when_enabled (stage_enabled ''inspect'') [run_stage ''inspect'' (stage_inspect env)],
      when_enabled (stage_enabled ''fix'') [hook_point env ''pre_fix'', run_stage ''fix'' (stage_fix env), hook_point env ''post_fix''],
      when_enabled (stage_enabled ''convert'') [hook_point env ''pre_convert'', run_stage ''convert'' (stage_convert env), hook_point env ''post_convert''],
      when_enabled (stage_enabled ''validate'') [run_stage ''validate'' (stage_validate env), hook_point env ''post_validate''],
      when_enabled (\<lambda>s. from_py (is_libvirt_integration_enabled (mp_loader s))) [run_stage ''libvirt_integration'' (stage_libvirt_integration env)],
      when_enabled (\<lambda>s. deploy_enabled s ''kubevirt'') [run_stage ''kubevirt_deploy'' (stage_kubevirt_deploy env)],
      when_enabled (\<lambda>s. deploy_enabled s ''openstack'') [run_stage ''openstack_deploy'' (stage_openstack_deploy env)]]"

definition report_path :: "json \<Rightarrow> pipeline \<Rightarrow> string" where
  "report_path config s =
     (let base = (case mp_output_dir s of Some dir \<Rightarrow> dir | None \<Rightarrow> path_parent (mp_path s)); p = json_text_or config ''path'' []
      in if p = [] then path_join base ''report.json'' else if startswith p ''/'' then p else path_join base p)"

definition write_manifest_report :: "pipe_env \<Rightarrow> (pipe_exc, pipeline) step" where
  "write_manifest_report env s =
     lift_read (from_py (case ml_manifest (mp_loader s) of JObj fs \<Rightarrow> section_get (json_get (JObj fs) ''options'' (JObj [])) ''report'' (JObj [])
                         | _ \<Rightarrow> Inl (AttributeError ''get''))) (\<lambda>config.
     lift_read (from_py (section_get config ''enabled'' (JBool True))) (\<lambda>enabled s.
       if \<not> truthy enabled then (Inr (), s)
       else (case pe_write env (report_path config s) of
               Some e \<Rightarrow> (Inl (PipeTool e), s) | None \<Rightarrow> (Inr (), s\<lparr>mp_written := Some (report_path config s)\<rparr>)))) s"

text \<open>The \<^verbatim>\<open>finally\<close> clause: an exception raised there replaces the one on its way.\<close>

definition run_pipeline :: "pipe_env \<Rightarrow> pipeline \<Rightarrow> (pipe_exc, mf_report, pipeline) outcome" where
  "run_pipeline env s0 =
     (case run_steps (pipeline_steps env) s0 of
        (r, s1) \<Rightarrow>
          (let s2 = (case r of
                 Inr _ \<Rightarrow> on_report (\<lambda>p. p\<lparr>mr_success := True\<rparr>) s1
               | Inl e \<Rightarrow> on_report (\<lambda>p. add_stage_error (mp_stage s1) (pipe_text e) (p\<lparr>mr_success := False\<rparr>)) s1);
               s3 = on_report generate_manifest_report s2
           in case write_manifest_report env s3 of
                (Inl e, s4) \<Rightarrow> (Inl e, s4)
              | (Inr _, s4) \<Rightarrow> (case r of Inl e \<Rightarrow> (Inl e, s4) | Inr _ \<Rightarrow> (Inr (mp_reporter s4), s4))))"

section \<open>Order of the stages\<close>

text \<open>What a step may do to the record of the stages: a step outside the stages leaves it, a stage appends itself.\<close>

abbreviation stage_log :: "pipeline \<Rightarrow> (string, items) dict" where
  "stage_log s \<equiv> mr_stages (mp_reporter s)"

definition keeps_log :: "'a stage_call \<Rightarrow> bool" where
  "keeps_log f \<longleftrightarrow> (\<forall>s. stage_log (snd (f s)) = stage_log s)"

definition own_log :: "string \<Rightarrow> 'a stage_call \<Rightarrow> bool" where
  "own_log name f \<longleftrightarrow> (\<forall>s r s'. f s = (r, s') \<longrightarrow>
     (\<forall>v. dict_set name v (stage_log s') = dict_set name v (stage_log s)) \<and> mp_hook_runner s' = mp_hook_runner s \<and>
     (\<not> isl r \<longrightarrow> mr_errors (mp_reporter s') = mr_errors (mp_reporter s)))"

text \<open>What the loops of the stages leave alone.\<close>

definition same_frame :: "pipeline \<Rightarrow> pipeline \<Rightarrow> bool" where
  "same_frame s s' \<longleftrightarrow> stage_log s' = stage_log s \<and> mp_hook_runner s' = mp_hook_runner s"

lemma keeps_lift_read: "(\<And>x. keeps_log (k x)) \<Longrightarrow> keeps_log (lift_read r k)"
  by (simp add: keeps_log_def lift_read_def split: sum.splits)

lemma report_log [simp]:
  "mr_stages (add_stage_warning a b r) = mr_stages r" "mr_stages (add_stage_error a b r) = mr_stages r"
  "mr_stages (add_artifact c r) = mr_stages r" "mr_stages (add_stage_result n v r) = dict_set n v (mr_stages r)"
  "mr_errors (add_stage_warning a b r) = mr_errors r" "mr_errors (add_stage_error a b r) = mr_errors r @ [(a, b)]"
  "mr_errors (add_artifact c r) = mr_errors r" "mr_errors (add_stage_result n v r) = mr_errors r"
  "mr_success (add_stage_warning a b r) = mr_success r" "mr_success (add_stage_error a b r) = mr_success r"
  "mr_success (add_artifact c r) = mr_success r" "mr_success (add_stage_result n v r) = mr_success r"
  by (simp_all add: add_stage_warning_def add_stage_error_def add_artifact_def add_stage_result_def)

lemma keeps_execute_hook_stage: "keeps_log (execute_hook_stage env stage ctx)"
  by (auto simp: keeps_log_def execute_hook_stage_def split: option.splits prod.splits sum.splits bool.splits)

lemma keeps_hook_point: "keeps_log (hook_point env stage)"
proof -
  have "stage_log (snd (lift_read (hook_context env s) (execute_hook_stage env stage) s)) = stage_log s" for s
    using keeps_lift_read [of "execute_hook_stage env stage" "hook_context env s", OF keeps_execute_hook_stage] by (simp add: keeps_log_def)
  then show ?thesis by (simp add: keeps_log_def hook_point_def)
qed

lemma keeps_init_hooks: "keeps_log init_hooks"
  by (auto simp: keeps_log_def init_hooks_def split: json.splits sum.splits)

lemma own_load: "own_log ''load_manifest'' (stage_load_manifest env)"
  by (auto simp: own_log_def stage_load_manifest_def Let_def split: prod.splits sum.splits)

lemma inspect_loop_log:
  "inspect_loop env config ds acc s = (r, s') \<Longrightarrow> same_frame s s' \<and> mr_errors (mp_reporter s') = mr_errors (mp_reporter s)"
proof (induction env config ds acc s rule: inspect_loop.induct)
  case (2 env config d ds acc s)
  then show ?case by (simp add: Let_def same_frame_def split: option.splits sum.splits if_splits) (auto simp: same_frame_def)
qed (simp add: same_frame_def)

lemma own_inspect: "own_log ''inspect'' (stage_inspect env)"
  by (auto simp: own_log_def stage_inspect_def lift_read_def same_frame_def split: sum.splits prod.splits dest!: inspect_loop_log)

lemma fold_report_frame:
  "same_frame s (fold (\<lambda>d. on_report (add_stage_warning st (g d))) ds s) \<and>
   mr_errors (mp_reporter (fold (\<lambda>d. on_report (add_stage_warning st (g d))) ds s)) = mr_errors (mp_reporter s)"
  by (induction ds arbitrary: s) (auto simp: same_frame_def)

lemma own_fix: "own_log ''fix'' (stage_fix env)"
  using fold_report_frame
  by (auto simp: own_log_def stage_fix_def lift_read_def Let_def same_frame_def split: sum.splits option.splits)

lemma convert_loop_log:
  "convert_loop env config dir fmt ds acc s = (r, s') \<Longrightarrow> same_frame s s' \<and> mr_errors (mp_reporter s') = mr_errors (mp_reporter s)"
  by (induction env config dir fmt ds acc s rule: convert_loop.induct) (auto simp: Let_def same_frame_def split: option.splits sum.splits)

lemma own_convert: "own_log ''convert'' (stage_convert env)"
  by (auto simp: own_log_def stage_convert_def lift_read_def Let_def same_frame_def split: sum.splits option.splits prod.splits dest!: convert_loop_log)

lemma validate_loop_log:
  "validate_loop env config ds acc s = (r, s') \<Longrightarrow> same_frame s s' \<and> (\<not> isl r \<longrightarrow> mr_errors (mp_reporter s') = mr_errors (mp_reporter s))"
  by (induction env config ds acc s rule: validate_loop.induct) (auto simp: same_frame_def split: option.splits if_splits)

lemma own_validate: "own_log ''validate'' (stage_validate env)"
  by (auto simp: own_log_def stage_validate_def lift_read_def same_frame_def split: sum.splits prod.splits dest!: validate_loop_log)

lemma own_libvirt: "own_log ''libvirt_integration'' (stage_libvirt_integration env)"
  by (auto simp: own_log_def stage_libvirt_integration_def Let_def split: sum.splits option.splits if_splits)

lemma own_kubevirt: "own_log ''kubevirt_deploy'' (stage_kubevirt_deploy env)"
  by (auto simp: own_log_def stage_kubevirt_deploy_def lift_read_def Let_def split: sum.splits option.splits)

lemma own_openstack: "own_log ''openstack_deploy'' (stage_openstack_deploy env)"
  by (auto simp: own_log_def stage_openstack_deploy_def lift_read_def split: sum.splits)

lemmas own_stages = own_load own_inspect own_fix own_convert own_validate own_libvirt own_kubevirt own_openstack

text \<open>The log after a run: the recorded stages are some of those up to here, in their order. As long as nothing was
  raised all of them succeeded; after an exception only the last one may have failed.\<close>

definition log_ok :: "string list \<Rightarrow> pipeline \<Rightarrow> bool" where
  "log_ok plan s \<longleftrightarrow> subseq (map fst (stage_log s)) plan \<and> list_all (\<lambda>(k, v). stage_success v) (stage_log s)"

definition log_stopped :: "string list \<Rightarrow> pipeline \<Rightarrow> bool" where
  "log_stopped plan s \<longleftrightarrow> subseq (map fst (stage_log s)) plan \<and> list_all (\<lambda>(k, v). stage_success v) (butlast (stage_log s))"

definition log_step :: "string list \<Rightarrow> string list \<Rightarrow> (pipe_exc, pipeline) step \<Rightarrow> bool" where
  "log_step before after f \<longleftrightarrow> (\<forall>s r s'. log_ok before s \<longrightarrow> f s = (r, s') \<longrightarrow> (case r of Inr _ \<Rightarrow> log_ok after s' | Inl _ \<Rightarrow> log_stopped after s'))"

lemma log_okI: "log_ok plan s \<Longrightarrow> stage_log s' = stage_log s \<Longrightarrow> log_ok (plan @ later) s'"
  by (auto simp: log_ok_def intro: list_emb_append2)

lemma log_ok_stopped: "log_ok plan s \<Longrightarrow> log_stopped plan s"
  by (auto simp: log_ok_def log_stopped_def list_all_iff dest: in_set_butlastD)

lemma log_stopped_append: "log_stopped plan s \<Longrightarrow> log_stopped (plan @ later) s"
  by (auto simp: log_stopped_def intro: list_emb_append2)

lemma keeps_log_step: "keeps_log f \<Longrightarrow> log_step plan plan f"
  using log_okI [of plan _ _ "[]"] log_ok_stopped
  by (fastforce simp: log_step_def keeps_log_def split: sum.split)

lemma subseq_set: "subseq xs ys \<Longrightarrow> set xs \<subseteq> set ys"
  by (induction rule: list_emb.induct) auto

lemma run_stage_log:
  assumes "own_log name f" and "name \<notin> set plan" and "log_ok plan s" and "run_stage name f s = (r, s')"
  shows "\<exists>v. stage_log s' = stage_log s @ [(name, v)] \<and> (stage_success v \<longleftrightarrow> \<not> isl r)"
proof -
  obtain r1 s1 where f: "f (s\<lparr>mp_stage := name\<rparr>) = (r1, s1)" by fastforce
  have "subseq (map fst (stage_log s)) plan" using assms(3) by (simp add: log_ok_def)
  then have "set (map fst (stage_log s)) \<subseteq> set plan" by (simp only: subseq_set)
  with assms(2) have fresh: "\<not> dict_has (stage_log s) name" by (auto simp: dict_has_iff)
  have "dict_set name v (stage_log s1) = stage_log s @ [(name, v)]" for v
  proof -
    have "dict_set name v (stage_log s1) = dict_set name v (stage_log (s\<lparr>mp_stage := name\<rparr>))"
      using assms(1) f unfolding own_log_def by blast
    with dict_set_fresh [OF fresh] show ?thesis by simp
  qed
  with f assms(4) show ?thesis
    by (cases r1) (auto simp: run_stage_def stage_success_def)
qed


lemma run_stage_step:
  assumes "own_log name f" and "name \<notin> set plan"
  shows "log_step plan (plan @ [name]) (run_stage name f)"
  unfolding log_step_def
proof (intro allI impI)
  fix s r s'
  assume ok: "log_ok plan s" and run: "run_stage name f s = (r, s')"
  from run_stage_log [OF assms ok run] obtain v where v: "stage_log s' = stage_log s @ [(name, v)]" "stage_success v \<longleftrightarrow> \<not> isl r" by blast
  with ok show "case r of Inl _ \<Rightarrow> log_stopped (plan @ [name]) s' | Inr _ \<Rightarrow> log_ok (plan @ [name]) s'"
    by (cases r) (auto simp: log_ok_def log_stopped_def intro: list_emb_append_mono)
qed

lemma log_step_Nil: "log_step plan plan (run_steps [])"
  by (simp add: log_step_def)

lemma log_step_Cons:
  assumes f: "log_step p0 p1 f" and fs: "log_step p1 (p1 @ rest) (run_steps fs)"
  shows "log_step p0 (p1 @ rest) (run_steps (f # fs))"
  unfolding log_step_def
proof (intro allI impI)
  fix s r s'
  assume ok: "log_ok p0 s" and run: "run_steps (f # fs) s = (r, s')"
  obtain r1 s1 where 1: "f s = (r1, s1)" by fastforce
  from f ok 1 have c: "case r1 of Inr _ \<Rightarrow> log_ok p1 s1 | Inl _ \<Rightarrow> log_stopped p1 s1" unfolding log_step_def by blast
  show "case r of Inl _ \<Rightarrow> log_stopped (p1 @ rest) s' | Inr _ \<Rightarrow> log_ok (p1 @ rest) s'"
  proof (cases r1)
    case (Inl e)
    with 1 run c show ?thesis by (auto dest: log_stopped_append)
  next
    case (Inr u)
    with 1 run have "run_steps fs s1 = (r, s')" by simp
    with fs c Inr show ?thesis unfolding log_step_def by auto
  qed
qed

lemma when_enabled_step:
  assumes "log_step plan (plan @ rest) (run_steps fs)"
  shows "log_step plan (plan @ rest) (when_enabled en fs)"
  unfolding log_step_def
proof (intro allI impI)
  fix s r s'
  assume ok: "log_ok plan s" and run: "when_enabled en fs s = (r, s')"
  show "case r of Inl _ \<Rightarrow> log_stopped (plan @ rest) s' | Inr _ \<Rightarrow> log_ok (plan @ rest) s'"
  proof (cases "en s")
    case (Inl e)
    with run have "s' = s" "isl r" by (auto simp: when_enabled_def)
    with log_stopped_append [OF log_ok_stopped [OF ok]] show ?thesis by (cases r) auto
  next
    case (Inr b)
    show ?thesis
    proof (cases b)
      case True
      with Inr run have "run_steps fs s = (r, s')" by (simp add: when_enabled_def)
      with assms ok show ?thesis unfolding log_step_def by blast
    next
      case False
      with Inr run ok show ?thesis by (auto simp: when_enabled_def intro: log_okI)
    qed
  qed
qed

text \<open>A list of steps after the stages so far that adds some of the stages to come.\<close>

definition log_steps :: "string list \<Rightarrow> string list \<Rightarrow> (pipe_exc, pipeline) step list \<Rightarrow> bool" where
  "log_steps sofar todo fs \<longleftrightarrow> log_step sofar (sofar @ todo) (run_steps fs)"

lemma log_steps_Nil: "log_steps p [] []"
  by (simp add: log_steps_def log_step_Nil)

lemma log_steps_keep: "keeps_log f \<Longrightarrow> log_steps p todo fs \<Longrightarrow> log_steps p todo (f # fs)"
  unfolding log_steps_def by (rule log_step_Cons [OF keeps_log_step])

lemma log_steps_stage: "own_log n f \<Longrightarrow> n \<notin> set p \<Longrightarrow> log_steps (p @ [n]) todo fs \<Longrightarrow> log_steps p (n # todo) (run_stage n f # fs)"
  using log_step_Cons [OF run_stage_step, of n f p todo fs] by (simp add: log_steps_def)

lemma log_steps_gate: "log_steps p [n] gs \<Longrightarrow> log_steps (p @ [n]) todo fs \<Longrightarrow> log_steps p (n # todo) (when_enabled en gs # fs)"
  using log_step_Cons [OF when_enabled_step, of p "[n]" gs todo fs en] by (simp add: log_steps_def)

definition pipeline_stages :: "string list" where
  "pipeline_stages = [''load_manifest'', ''inspect'', ''fix'', ''convert'', ''validate'', ''libvirt_integration'', ''kubevirt_deploy'', ''openstack_deploy'']"

lemma keeps_first_hook: "keeps_log (\<lambda>s. execute_hook_stage env stage (ctx s) s)"
  using keeps_execute_hook_stage by (simp add: keeps_log_def)

lemma steps_log: "log_steps [] pipeline_stages (pipeline_steps env)"
  unfolding pipeline_steps_def pipeline_stages_def
  by (rule log_steps_keep [OF keeps_first_hook] log_steps_stage log_steps_gate log_steps_Nil log_steps_keep [OF keeps_hook_point]
        log_steps_keep [OF keeps_init_hooks] own_stages | simp; fail)+


section \<open>What a run reports\<close>

lemma generate_keeps:
  "mr_stages (generate_manifest_report r) = mr_stages r" "mr_errors (generate_manifest_report r) = mr_errors r"
  "mr_success (generate_manifest_report r) = mr_success r"
proof -
  have "mr_stages (fold add_artifact xs r) = mr_stages r \<and> mr_errors (fold add_artifact xs r) = mr_errors r \<and> mr_success (fold add_artifact xs r) = mr_success r" for xs
    by (induction xs arbitrary: r) auto
  then show "mr_stages (generate_manifest_report r) = mr_stages r" "mr_errors (generate_manifest_report r) = mr_errors r"
    "mr_success (generate_manifest_report r) = mr_success r"
    by (simp_all add: generate_manifest_report_def Let_def)
qed

lemma write_keeps: "write_manifest_report env s = (r, s') \<Longrightarrow> mp_reporter s' = mp_reporter s \<and> mp_hook_runner s' = mp_hook_runner s"
  by (auto simp: write_manifest_report_def lift_read_def split: sum.splits if_splits option.splits)

lemma run_pipeline_report:
  assumes "run_pipeline env s0 = (r, s)" and "run_steps (pipeline_steps env) s0 = (r1, s1)"
  shows "stage_log s = stage_log s1" and "mr_success (mp_reporter s) \<longleftrightarrow> \<not> isl r1" and "mp_hook_runner s = mp_hook_runner s1"
    and "mr_errors (mp_reporter s) = mr_errors (mp_reporter s1) @ (case r1 of Inl e \<Rightarrow> [(mp_stage s1, pipe_text e)] | Inr _ \<Rightarrow> [])"
    and "\<not> isl r \<Longrightarrow> r = Inr (mp_reporter s) \<and> \<not> isl r1"
  using assms
  by (auto simp: run_pipeline_def Let_def generate_keeps split: sum.splits prod.splits dest!: write_keeps)

definition quiet :: "(pipe_exc, pipeline) step \<Rightarrow> bool" where
  "quiet f \<longleftrightarrow> (\<forall>s s'. f s = (Inr (), s') \<longrightarrow> mr_errors (mp_reporter s') = mr_errors (mp_reporter s))"

lemma quiet_run: "(\<And>f. f \<in> set fs \<Longrightarrow> quiet f) \<Longrightarrow> quiet (run_steps fs)"
proof (induction fs)
  case (Cons f fs)
  then have "quiet f" "quiet (run_steps fs)" by simp_all
  then show ?case unfolding quiet_def run_steps_ok by metis
qed (simp add: quiet_def)

lemma quiet_stage: "own_log n f \<Longrightarrow> quiet (run_stage n f)"
proof -
  assume own: "own_log n f"
  have "mr_errors (mp_reporter s') = mr_errors (mp_reporter s)" if "run_stage n f s = (Inr (), s')" for s s'
  proof -
    from that obtain x s1 where f: "f (s\<lparr>mp_stage := n\<rparr>) = (Inr x, s1)" and s': "mr_errors (mp_reporter s') = mr_errors (mp_reporter s1)"
      by (auto simp: run_stage_def split: prod.splits sum.splits)
    have "mr_errors (mp_reporter s1) = mr_errors (mp_reporter (s\<lparr>mp_stage := n\<rparr>))"
      using own f unfolding own_log_def by (metis sum.disc(2))
    with s' show ?thesis by simp
  qed
  then show ?thesis by (simp add: quiet_def)
qed

lemma quiet_hooks: "quiet (hook_point env h)" "quiet (\<lambda>s. execute_hook_stage env h (ctx s) s)" "quiet init_hooks"
  by (auto simp: quiet_def hook_point_def lift_read_def execute_hook_stage_def init_hooks_def split: option.splits prod.splits sum.splits bool.splits json.splits if_splits)

lemma quiet_gate: "(\<And>f. f \<in> set fs \<Longrightarrow> quiet f) \<Longrightarrow> quiet (when_enabled en fs)"
  using quiet_run [of fs] by (auto simp: quiet_def when_enabled_def split: sum.splits if_splits)

lemma quiet_steps: "quiet (run_steps (pipeline_steps env))"
  by (rule quiet_run) (auto simp: pipeline_steps_def intro!: quiet_gate quiet_hooks quiet_stage own_stages)


text \<open>
  C24 (functional). The report tells the outcome of the run: it claims success exactly when it lists no error, and \<^verbatim>\<open>run\<close> returns
  a report only when it claims success. A failed run names the stage that was current and the exception's text in its
  last entry.
\<close>
theorem report_tells_outcome:
  assumes "run_pipeline env s0 = (r, s)" and "mr_errors (mp_reporter s0) = []"
  shows "(mr_success (mp_reporter s) \<longleftrightarrow> mr_errors (mp_reporter s) = []) \<and>
    (\<forall>rep. r = Inr rep \<longrightarrow> rep = mp_reporter s \<and> mr_success rep) \<and>
    (\<forall>e s1. run_steps (pipeline_steps env) s0 = (Inl e, s1) \<longrightarrow> last (mr_errors (mp_reporter s)) = (mp_stage s1, pipe_text e))"
proof -
  obtain r1 s1 where 1: "run_steps (pipeline_steps env) s0 = (r1, s1)" by fastforce
  note rp = run_pipeline_report [OF assms(1) 1]
  have "mr_errors (mp_reporter s1) = []" if "r1 = Inr ()"
    using quiet_steps [of env] 1 that assms(2) unfolding quiet_def by simp
  then have "mr_success (mp_reporter s) \<longleftrightarrow> mr_errors (mp_reporter s) = []" using rp(2,4) by (cases r1) auto
  moreover have "rep = mp_reporter s \<and> mr_success rep" if "r = Inr rep" for rep using rp(2,5) that by simp
  ultimately show ?thesis using rp(4) 1 by auto
qed


section \<open>Hooks before the extraction\<close>

definition no_results_for :: "string \<Rightarrow> hook_runner option \<Rightarrow> bool" where
  "no_results_for stage hr \<longleftrightarrow> (case hr of None \<Rightarrow> True | Some h \<Rightarrow> \<not> dict_has (hook_results h) stage)"

lemma append_result_other: "stage \<noteq> other \<Longrightarrow> dict_has (hook_results (append_result stage r hr)) other = dict_has (hook_results hr) other"
  by (simp add: append_result_def)

lemma stage_hook_other:
  "stage \<noteq> other \<Longrightarrow> stage_hook w stage ctx idx c hr = (r, hr') \<Longrightarrow> dict_has (hook_results hr') other = dict_has (hook_results hr) other"
  by (auto simp: stage_hook_def run_one_hook_def hook_failed_def append_result_other Let_def split: sum.splits prod.splits if_splits hook_exc.splits)

lemma hooks_loop_other:
  "stage \<noteq> other \<Longrightarrow> hooks_loop w stage ctx idx cs ok hr = (r, hr') \<Longrightarrow> dict_has (hook_results hr') other = dict_has (hook_results hr) other"
  by (induction w stage ctx idx cs ok hr rule: hooks_loop.induct) (auto split: prod.splits sum.splits dest: stage_hook_other)

lemma execute_stage_hooks_other:
  assumes "stage \<noteq> other" and "execute_stage_hooks w stage ctx hr = (r, hr')"
  shows "dict_has (hook_results hr') other = dict_has (hook_results hr) other"
  using assms by (auto simp: execute_stage_hooks_def Let_def split: if_splits json.splits dest!: hooks_loop_other [OF assms(1)])

text \<open>The hooks of another stage leave no result for this one; neither does a runner made from the manifest.\<close>

definition other_hooks :: "string \<Rightarrow> (pipe_exc, pipeline) step \<Rightarrow> bool" where
  "other_hooks st f \<longleftrightarrow> (\<forall>s r s'. f s = (r, s') \<longrightarrow> no_results_for st (mp_hook_runner s) \<longrightarrow> no_results_for st (mp_hook_runner s'))"

lemma other_hooks_run: "(\<And>f. f \<in> set fs \<Longrightarrow> other_hooks st f) \<Longrightarrow> other_hooks st (run_steps fs)"
  unfolding other_hooks_def using run_steps_inv [of fs "\<lambda>s. no_results_for st (mp_hook_runner s)"] by blast

lemma other_hooks_gate: "(\<And>f. f \<in> set fs \<Longrightarrow> other_hooks st f) \<Longrightarrow> other_hooks st (when_enabled en fs)"
  using other_hooks_run [of fs st] by (auto simp: other_hooks_def when_enabled_def split: sum.splits if_splits)

lemma other_hooks_stage: "own_log n f \<Longrightarrow> other_hooks st (run_stage n f)"
proof -
  assume own: "own_log n f"
  have "mp_hook_runner s' = mp_hook_runner s" if "run_stage n f s = (r, s')" for s r s'
  proof -
    obtain r1 s1 where f: "f (s\<lparr>mp_stage := n\<rparr>) = (r1, s1)" by fastforce
    with own have "mp_hook_runner s1 = mp_hook_runner (s\<lparr>mp_stage := n\<rparr>)" unfolding own_log_def by blast
    with f that show ?thesis by (auto simp: run_stage_def split: sum.splits)
  qed
  then show ?thesis unfolding other_hooks_def by metis
qed

lemma other_hooks_execute: "h \<noteq> st \<Longrightarrow> other_hooks st (\<lambda>s. execute_hook_stage env h (ctx s) s)"
  by (auto simp: other_hooks_def execute_hook_stage_def no_results_for_def execute_stage_hooks_other
      split: option.splits prod.splits sum.splits bool.splits if_splits)

lemma other_hooks_point: "h \<noteq> st \<Longrightarrow> other_hooks st (hook_point env h)"
  using other_hooks_execute [of h st env "\<lambda>_. ctx" for ctx]
  by (auto simp: other_hooks_def hook_point_def lift_read_def split: sum.splits)

lemma other_hooks_init: "other_hooks st init_hooks"
  by (auto simp: other_hooks_def init_hooks_def hook_runner_from_manifest_def HookRunner_def no_results_for_def dict_has_def Let_def
      split: json.splits sum.splits if_splits option.splits)

lemma steps_split: "pipeline_steps env = hd (pipeline_steps env) # tl (pipeline_steps env)"
  by (simp add: pipeline_steps_def)

text \<open>
  Hooks for the stage \<^verbatim>\<open>pre_extraction\<close> never run, whatever the manifest asks for: the pipeline calls them
  before it has read the manifest and made its hook runner.
\<close>
theorem pre_extraction_hooks_never_run:
  "no_results_for ''pre_extraction'' (mp_hook_runner (snd (run_pipeline env (ManifestOrchestrator path pl store))))"
proof -
  let ?s0 = "ManifestOrchestrator path pl store"
  obtain r s r1 s1 where run: "run_pipeline env ?s0 = (r, s)" and 1: "run_steps (pipeline_steps env) ?s0 = (r1, s1)" by fastforce
  have "hd (pipeline_steps env) ?s0 = (Inr (), ?s0)"
    by (simp add: pipeline_steps_def execute_hook_stage_def ManifestOrchestrator_def)
  with 1 have "run_steps (tl (pipeline_steps env)) ?s0 = (r1, s1)" by (subst (asm) steps_split) simp
  moreover have "other_hooks ''pre_extraction'' (run_steps (tl (pipeline_steps env)))"
    by (rule other_hooks_run) (auto simp: pipeline_steps_def intro!: other_hooks_gate other_hooks_point other_hooks_init other_hooks_stage own_stages)
  ultimately have "no_results_for ''pre_extraction'' (mp_hook_runner s1)"
    unfolding other_hooks_def by (simp add: no_results_for_def ManifestOrchestrator_def)
  with run_pipeline_report(3) [OF run 1] run show ?thesis by simp
qed


section \<open>Conversion, validation and deployment\<close>

definition output_of :: "string \<Rightarrow> string \<Rightarrow> disk_artifact \<Rightarrow> string" where
  "output_of dir fmt d = path_join dir (output_name d fmt)"

lemma convert_loop_ok:
  "convert_loop env config dir fmt ds acc s = (Inr xs, s') \<Longrightarrow>
   mp_converted s' = fold (\<lambda>d. dict_set (da_id d) (output_of dir fmt d)) ds (mp_converted s) \<and> length xs = length acc + length ds \<and>
   mp_loader s' = mp_loader s \<and> mp_output_dir s' = mp_output_dir s \<and>
   (\<forall>p. dict_has (mp_files s') p \<longleftrightarrow> dict_has (mp_files s) p \<or> p \<in> output_of dir fmt ` set ds)"
proof (induction env config dir fmt ds acc s rule: convert_loop.induct)
  case (2 env config dir fmt d ds acc s)
  let ?out = "output_of dir fmt d"
  from "2.prems" obtain n where n: "pe_convert env (da_local_path d) ?out fmt (json_get config ''compress'' (JBool False)) (json_get config ''compress_level'' JNull) = Inr (Some n)"
    by (auto simp: Let_def output_of_def split: sum.splits option.splits)
  with "2.prems" have rec: "convert_loop env config dir fmt ds (acc @ [converted_info env d fmt ?out n])
      (s\<lparr>mp_files := dict_set ?out n (mp_files s), mp_converted := dict_set (da_id d) ?out (mp_converted s)\<rparr>) = (Inr xs, s')"
    by (simp add: Let_def output_of_def)
  from "2.IH" [OF refl n [unfolded output_of_def] refl, folded output_of_def, OF rec] show ?case by auto
qed simp

lemma fold_dict_set_fresh:
  "distinct (map key xs) \<Longrightarrow> \<forall>x \<in> set xs. \<not> dict_has d (key x) \<Longrightarrow>
   fold (\<lambda>x. dict_set (key x) (g x)) xs d = d @ map (\<lambda>x. (key x, g x)) xs"
proof (induction xs arbitrary: d)
  case (Cons x xs)
  have "key y \<noteq> key x" if "y \<in> set xs" for y using Cons.prems(1) imageI [OF that, of key] by auto
  with Cons.prems(2) have "\<forall>y \<in> set xs. \<not> dict_has (d @ [(key x, g x)]) (key y)" by (auto simp: dict_has_iff)
  with Cons show ?case by (simp add: dict_set_fresh)
qed simp

lemma stage_convert_ok:
  assumes "stage_convert env s = (Inr res, s1)" and "get_output_format (mp_loader s) = Inr (JStr fmt)"
    and "distinct (map da_id (ml_disks (mp_loader s)))" and "mp_converted s = []"
  obtains dir where "mp_output_dir s1 = Some dir" and "mp_loader s1 = mp_loader s"
    and "mp_converted s1 = map (\<lambda>d. (da_id d, output_of dir fmt d)) (ml_disks (mp_loader s))"
    and "\<And>p. dict_has (mp_files s1) p \<longleftrightarrow> dict_has (mp_files s) p \<or> p \<in> output_of dir fmt ` set (ml_disks (mp_loader s))"
proof -
  from assms(1,2) obtain config dir xs where
    loop: "convert_loop env config dir fmt (ml_disks (mp_loader s)) [] (s\<lparr>mp_output_dir := Some dir\<rparr>) = (Inr xs, s1)"
    by (auto simp: stage_convert_def lift_read_def from_py_def the_text_def Let_def split: sum.splits option.splits prod.splits)
  have "fold (\<lambda>d. dict_set (da_id d) (output_of dir fmt d)) (ml_disks (mp_loader s)) [] = map (\<lambda>d. (da_id d, output_of dir fmt d)) (ml_disks (mp_loader s))"
    using fold_dict_set_fresh [OF assms(3), of "[]" "output_of dir fmt"] by (simp add: dict_has_def)
  with convert_loop_ok [OF loop] assms(4) show ?thesis by (intro that [of dir]) simp_all
qed

lemma validate_loop_ok:
  assumes "list_all (\<lambda>(i, out). dict_has (mp_files s) out \<and> pe_validate env out = None) ds"
  shows "\<exists>xs. validate_loop env config ds acc s = (Inr (acc @ xs), s) \<and> length xs = length ds \<and>
    list_all (\<lambda>r. json_get r ''integrity_check'' JNull = JStr ''passed'' \<longleftrightarrow> truthy (json_get config ''check_image_integrity'' (JBool True))) xs"
  using assms
proof (induction ds arbitrary: acc)
  case (Cons p ds)
  obtain i out where p: "p = (i, out)" by fastforce
  let ?check = "truthy (json_get config ''check_image_integrity'' (JBool True))"
  let ?x = "JObj ([(''disk_id'', JStr i), (''output_path'', JStr out), (''exists'', JBool True)] @ (if ?check then [(''integrity_check'', JStr ''passed'')] else []))"
  from Cons.IH [of "acc @ [?x]"] Cons.prems obtain xs where "validate_loop env config ds (acc @ [?x]) s = (Inr ((acc @ [?x]) @ xs), s)" "length xs = length ds"
    "list_all (\<lambda>r. json_get r ''integrity_check'' JNull = JStr ''passed'' \<longleftrightarrow> ?check) xs" by auto
  with Cons.prems p show ?case by (intro exI [of _ "?x # xs"]) auto
qed simp

text \<open>
  Validation sees what conversion made: after a conversion the disks recorded as converted are the disks of the manifest,
  in their order, each with the file \<^verbatim>\<open><id>.<format>\<close> in the output directory, and all those files exist, so that
  validation reports one result per disk when the image checks pass. The flag \<^verbatim>\<open>all_passed\<close> is set exactly when
  the integrity check was enabled: with the check off and at least one disk it is false although nothing failed.
\<close>
theorem validation_follows_conversion:
  assumes "stage_convert env s = (Inr res, s1)" and "get_output_format (mp_loader s) = Inr (JStr fmt)"
    and "distinct (map da_id (ml_disks (mp_loader s)))" and "ml_disks (mp_loader s) \<noteq> []" and "mp_converted s = []"
    and "get_stage_config (mp_loader s) ''validate'' = Inr config" and "\<And>p. pe_validate env p = None"
  shows "\<exists>dir xs. mp_output_dir s1 = Some dir \<and>
    mp_converted s1 = map (\<lambda>d. (da_id d, output_of dir fmt d)) (ml_disks (mp_loader s)) \<and>
    (\<forall>d\<in>set (ml_disks (mp_loader s)). dict_has (mp_files s1) (output_of dir fmt d)) \<and>
    stage_validate env s1 = (Inr [(''disks_validated'', JInt (int (length (ml_disks (mp_loader s))))),
      (''all_passed'', JBool (truthy (json_get config ''check_image_integrity'' (JBool True)))), (''validation_results'', JList xs)], s1)"
proof -
  obtain dir where dir: "mp_output_dir s1 = Some dir" "mp_loader s1 = mp_loader s"
    "mp_converted s1 = map (\<lambda>d. (da_id d, output_of dir fmt d)) (ml_disks (mp_loader s))"
    "\<And>p. dict_has (mp_files s1) p \<longleftrightarrow> dict_has (mp_files s) p \<or> p \<in> output_of dir fmt ` set (ml_disks (mp_loader s))"
    by (rule stage_convert_ok [OF assms(1,2,3,5)]) blast
  have "list_all (\<lambda>(i, out). dict_has (mp_files s1) out \<and> pe_validate env out = None) (mp_converted s1)"
    by (auto simp: dir(3,4) assms(7) list_all_iff)
  from validate_loop_ok [OF this, of config "[]"] obtain xs where xs: "validate_loop env config (mp_converted s1) [] s1 = (Inr xs, s1)"
    "length xs = length (ml_disks (mp_loader s))"
    "list_all (\<lambda>r. json_get r ''integrity_check'' JNull = JStr ''passed'' \<longleftrightarrow> truthy (json_get config ''check_image_integrity'' (JBool True))) xs"
    by (auto simp: dir(3))
  from xs(2) assms(4) have "xs \<noteq> []" by auto
  with xs(3) have "list_all (\<lambda>r. json_get r ''integrity_check'' JNull = JStr ''passed'') xs \<longleftrightarrow> truthy (json_get config ''check_image_integrity'' (JBool True))"
    by (cases xs) (auto simp: list_all_iff)
  with xs(1,2) have "stage_validate env s1 = (Inr [(''disks_validated'', JInt (int (length (ml_disks (mp_loader s))))),
      (''all_passed'', JBool (truthy (json_get config ''check_image_integrity'' (JBool True)))), (''validation_results'', JList xs)], s1)"
    by (simp add: stage_validate_def lift_read_def from_py_def dir(2) assms(6))
  with dir show ?thesis by auto
qed

text \<open>
  The image that the KubeVirt and OpenStack stages deploy is the converted boot disk when the output format is qcow2.
  For any other format they look for a qcow2 file all the same and, when there is none, deploy the source disk.
\<close>
theorem deployed_image:
  assumes "stage_convert env s = (Inr res, s1)" and "get_output_format (mp_loader s) = Inr (JStr fmt)"
    and "distinct (map da_id (ml_disks (mp_loader s)))" and "mp_converted s = []" and "boot \<in> set (ml_disks (mp_loader s))"
  shows "(fmt = ''qcow2'' \<longrightarrow> dict_get (mp_converted s1) (da_id boot) = Some (deploy_disk_path s1 boot)) \<and>
    (\<not> dict_has (mp_files s1) (path_join (deploy_dir s1) (output_name boot ''qcow2'')) \<longrightarrow> deploy_disk_path s1 boot = da_local_path boot)"
proof -
  obtain dir where dir: "mp_output_dir s1 = Some dir"
    "mp_converted s1 = map (\<lambda>d. (da_id d, output_of dir fmt d)) (ml_disks (mp_loader s))"
    "\<And>p. dict_has (mp_files s1) p \<longleftrightarrow> dict_has (mp_files s) p \<or> p \<in> output_of dir fmt ` set (ml_disks (mp_loader s))"
    by (rule stage_convert_ok [OF assms(1-4)]) blast
  have "dict_get (mp_converted s1) (da_id boot) = Some (output_of dir fmt boot)"
    unfolding dir(2) using assms(3,5) by (intro map_of_is_SomeI) (auto simp: comp_def)
  moreover have "deploy_disk_path s1 boot = output_of dir fmt boot" if "fmt = ''qcow2''"
    using dir(1,3) assms(5) that by (auto simp: deploy_disk_path_def deploy_dir_def output_of_def Let_def)
  ultimately show ?thesis by (auto simp: deploy_disk_path_def Let_def)
qed


section \<open>An example run\<close>

definition example_pipe_env :: "items \<Rightarrow> pipe_env" where
  "example_pipe_env extra = \<lparr>pe_loader = example_manifest_env extra, pe_hooks = \<lambda>_. example_hook_env,
     pe_context = \<lparr>cx_timestamp = ''20260101_000000'', cx_timestamp_iso = ''2026-01-01T00:00:00'', cx_user = ''root'', cx_hostname = ''host'', cx_pwd = ''/''\<rparr>,
     pe_human = int_str, pe_guestfs = False, pe_inspect = \<lambda>_. NoGuest, pe_fix = \<lambda>_. None, pe_mkdir = \<lambda>_. None,
     pe_convert = \<lambda>_ _ _ _ _. Inr (Some 7), pe_validate = \<lambda>_. None,
     pe_libvirt = \<lparr>lv_define = \<lambda>_ _. Inr ''vm'', lv_snapshot = \<lambda>_ _. Inr (), lv_autostart = \<lambda>_. Inr (), lv_start = \<lambda>_. Inr (), lv_pool = \<lambda>_ _. Inr (),
       lv_import = \<lambda>_ _ _ _. Inr ()\<rparr>,
     pe_libvirt_available = False, pe_kubectl = \<lambda>_. True, pe_virtctl = \<lambda>_. True, pe_openstack = \<lambda>_ _. Inr [], pe_write = \<lambda>_. None\<rparr>"

definition example_pipeline :: pipeline where
  "example_pipeline = ManifestOrchestrator ''/m.json'' fresh_loader [(''/d/data.vmdk'', 10), (''/d/boot.vmdk'', 20)]"

definition example_outputs :: items where
  "example_outputs = [(''output'', JObj [(''directory'', JStr ''/out'')])]"

definition example_loaded :: pipeline where
  "example_loaded = snd (run_steps (take 4 (pipeline_steps (example_pipe_env example_outputs))) example_pipeline)"

definition run_digest :: "pipeline \<Rightarrow> string list \<times> bool" where
  "run_digest s = (dict_keys (mr_stages (mp_reporter s)), mr_success (mp_reporter s))"

lemma example_run:
  "run_digest (snd (run_pipeline (example_pipe_env example_outputs) example_pipeline)) = ([''load_manifest''], True)"
  by code_simp


theorem report_tells_outcome_witness:
  "mr_errors (mp_reporter (snd (run_pipeline (example_pipe_env example_outputs) example_pipeline))) = []"
proof -
  let ?x = "run_pipeline (example_pipe_env example_outputs) example_pipeline"
  have "mr_success (mp_reporter (snd ?x))" using example_run by (simp add: run_digest_def)
  then show ?thesis
    using report_tells_outcome [of "example_pipe_env example_outputs" example_pipeline "fst ?x" "snd ?x"]
    by (simp add: example_pipeline_def ManifestOrchestrator_def ManifestReporter_def)
qed

lemma example_loaded_facts:
  "fst (run_steps (take 4 (pipeline_steps (example_pipe_env example_outputs))) example_pipeline) = Inr ()"
  "map da_id (ml_disks (mp_loader example_loaded)) = [''data'', ''boot'']" "mp_converted example_loaded = []"
  "get_output_format (mp_loader example_loaded) = Inr (JStr ''qcow2'')" "get_stage_config (mp_loader example_loaded) ''validate'' = Inr (JObj [])"
  "is_ok (fst (stage_convert (example_pipe_env example_outputs) example_loaded))"
  by code_simp+

theorem validation_follows_conversion_witness:
  "\<exists>xs. fst (stage_validate (example_pipe_env example_outputs) (snd (stage_convert (example_pipe_env example_outputs) example_loaded))) =
     Inr [(''disks_validated'', JInt 2), (''all_passed'', JBool True), (''validation_results'', JList xs)]"
proof -
  let ?x = "stage_convert (example_pipe_env example_outputs) example_loaded"
  obtain res where "?x = (Inr res, snd ?x)" using example_loaded_facts(6) by (metis is_okE prod.collapse)
  moreover have "length (ml_disks (mp_loader example_loaded)) = 2" by (metis example_loaded_facts(2) length_map list.size(3,4) One_nat_def Suc_1 add.right_neutral add_Suc_right)
  ultimately show ?thesis
    using validation_follows_conversion [of "example_pipe_env example_outputs" example_loaded res "snd ?x" "''qcow2''" "JObj []"] example_loaded_facts
    by (auto simp: example_pipe_env_def)
qed

theorem deployed_image_witness:
  "dict_get (mp_converted (snd (stage_convert (example_pipe_env example_outputs) example_loaded))) ''data'' =
     Some (deploy_disk_path (snd (stage_convert (example_pipe_env example_outputs) example_loaded)) (hd (ml_disks (mp_loader example_loaded))))"
proof -
  let ?x = "stage_convert (example_pipe_env example_outputs) example_loaded" and ?d = "hd (ml_disks (mp_loader example_loaded))"
  obtain res where "?x = (Inr res, snd ?x)" using example_loaded_facts(6) by (metis is_okE prod.collapse)
  moreover from example_loaded_facts(2) have "?d \<in> set (ml_disks (mp_loader example_loaded))" "da_id ?d = ''data''" by auto
  ultimately show ?thesis
    using deployed_image [of "example_pipe_env example_outputs" example_loaded res "snd ?x" "''qcow2''" ?d] example_loaded_facts by simp
qed

end
