(* ===== verification/Fstab_Spec.thy ===== *)
theory Fstab_Spec
  imports Py_Text
begin

text \<open>
  Stable device identifiers: \<^verbatim>\<open>h2kvm/fixers/filesystem/fstab.py\<close> (the choice of an identifier, the
  inference of a partition from a by-path name) and \<^verbatim>\<open>h2kvm/fixers/offline/spec_converter.py\<close> (the
  conversion of a device specification).

  The guest is seen through the environment: \<^verbatim>\<open>blkid\<close> and \<^verbatim>\<open>realpath\<close> of guestfs, each of which
  may fail, and the symbolic links of the host.
\<close>

section \<open>Specifications\<close>

definition BYPATH_PREFIX :: string where "BYPATH_PREFIX = ''/dev/disk/by-path/''"

definition IGNORE_MOUNTPOINTS :: "string list" where
  "IGNORE_MOUNTPOINTS = [''/proc'', ''/sys'', ''/dev'', ''/run'', ''/dev/pts'', ''/dev/shm'', ''/sys/fs/cgroup'']"

datatype fstab_mode = STABILIZE_ALL | BYPATH_ONLY | NOOP

fun fstab_mode_value :: "fstab_mode \<Rightarrow> string" where
  "fstab_mode_value STABILIZE_ALL = ''stabilize-all''"
| "fstab_mode_value BYPATH_ONLY = ''bypath-only''"
| "fstab_mode_value NOOP = ''noop''"

definition parse_btrfsvol_spec :: "string \<Rightarrow> string \<times> string option" where
  "parse_btrfsvol_spec spec =
     (if \<not> startswith spec ''btrfsvol:'' then (spec, None)
      else (let s = drop 9 spec
            in case split_once ''//'' s of
                 None \<Rightarrow> (strip s, None)
               | Some (dev, rest) \<Rightarrow>
                   (let r = dropWhile (\<lambda>c. c = CHR ''/'') (strip rest)
                    in if r = [] then (strip dev, None) else (strip dev, Some r))))"

definition stable_prefixes :: "string list" where
  "stable_prefixes = [''UUID='', ''PARTUUID='', ''LABEL='', ''PARTLABEL='']"

definition is_stable :: "string \<Rightarrow> bool" where
  "is_stable spec = list_ex (startswith (py_upper spec)) stable_prefixes"

record guest_env =
  ge_blkid :: "string \<Rightarrow> (string \<times> string option) list option"
  ge_realpath :: "string \<Rightarrow> string option"
  ge_host_link :: "string \<Rightarrow> string option"

text \<open>Tags without a value are dropped; of tags that differ only in case the last counts.\<close>

definition g_blkid_map :: "guest_env \<Rightarrow> string \<Rightarrow> (string, string) dict" where
  "g_blkid_map env dev = (case ge_blkid env dev of
      None \<Rightarrow> []
    | Some d \<Rightarrow> fold (\<lambda>(k, v) out. case v of None \<Rightarrow> out | Some x \<Rightarrow> dict_set (py_upper k) x out) d [])"

definition tag_of :: "(string, string) dict \<Rightarrow> string \<Rightarrow> string option" where
  "tag_of blk k = (case dict_get blk k of None \<Rightarrow> None | Some v \<Rightarrow> if v = [] then None else Some (k @ ''='' @ v))"

definition choose_stable :: "(string, string) dict \<Rightarrow> string option" where
  "choose_stable blk =
     (case tag_of blk ''UUID'' of Some s \<Rightarrow> Some s | None \<Rightarrow>
      (case tag_of blk ''PARTUUID'' of Some s \<Rightarrow> Some s | None \<Rightarrow>
       (case tag_of blk ''LABEL'' of Some s \<Rightarrow> Some s | None \<Rightarrow> tag_of blk ''PARTLABEL'')))"

section \<open>Partitions of the root disk\<close>

text \<open>In a regular expression \<^verbatim>\<open>$\<close> matches before a final newline too.\<close>

definition chomp :: "string \<Rightarrow> string" where
  "chomp s = (if s \<noteq> [] \<and> last s = CHR 0x0A then butlast s else s)"

definition trailing_digits :: "string \<Rightarrow> string" where
  "trailing_digits s = rev (takeWhile py_isdigit (rev s))"

definition before_digits :: "string \<Rightarrow> string" where
  "before_digits s = rev (dropWhile py_isdigit (rev s))"

definition after_prefix :: "string \<Rightarrow> string \<Rightarrow> string option" where
  "after_prefix p s = (if startswith s p then Some (drop (length p) s) else None)"

definition is_letters :: "string \<Rightarrow> bool" where
  "is_letters s = (s \<noteq> [] \<and> list_all (\<lambda>c. c \<in> set lower_chars \<or> c \<in> set upper_chars) s)"

text \<open>\<^verbatim>\<open>nvme\d+n\d+\<close>, \<^verbatim>\<open>mmcblk\d+\<close>, \<^verbatim>\<open>nbd\d+\<close>, \<^verbatim>\<open>loop\d+\<close> after \<^verbatim>\<open>/dev/\<close>: disks whose
  partitions have a p before the number.\<close>

definition is_nvme :: "string \<Rightarrow> bool" where
  "is_nvme s = (case after_prefix ''nvme'' s of
      None \<Rightarrow> False
    | Some r \<Rightarrow> takeWhile py_isdigit r \<noteq> [] \<and>
        (case after_prefix ''n'' (dropWhile py_isdigit r) of None \<Rightarrow> False | Some t \<Rightarrow> all_digits t))"

definition numbered :: "string \<Rightarrow> string \<Rightarrow> bool" where
  "numbered name s = (case after_prefix name s of None \<Rightarrow> False | Some t \<Rightarrow> all_digits t)"

definition p_disk :: "string \<Rightarrow> bool" where
  "p_disk s = (case after_prefix ''/dev/'' s of
      None \<Rightarrow> False
    | Some d \<Rightarrow> is_nvme d \<or> numbered ''mmcblk'' d \<or> numbered ''nbd'' d \<or> numbered ''loop'' d)"

definition letter_disk :: "string \<Rightarrow> bool" where
  "letter_disk s = (case after_prefix ''/dev/'' s of None \<Rightarrow> False | Some d \<Rightarrow> is_letters d)"

definition root_dev_base :: "string option \<Rightarrow> string option" where
  "root_dev_base root_dev = (case root_dev of
      None \<Rightarrow> None
    | Some s \<Rightarrow>
        (let b = before_digits (chomp s)
         in if trailing_digits (chomp s) = [] then None
            else if b \<noteq> [] \<and> last b = CHR ''p'' \<and> p_disk (butlast b) then Some (butlast b)
            else if letter_disk b then Some b
            else None))"

definition infer_partition_from_bypath :: "string \<Rightarrow> string option \<Rightarrow> string option" where
  "infer_partition_from_bypath spec root_dev =
     (if root_dev = None \<or> root_dev = Some [] \<or> \<not> startswith spec BYPATH_PREFIX then None
      else (let ds = trailing_digits (chomp spec)
            in if ds = [] \<or> \<not> endswith (before_digits (chomp spec)) ''-part'' then None
               else (case root_dev_base root_dev of
                       None \<Rightarrow> None
                     | Some base \<Rightarrow>
                         let n = nat_str (digits_value ds)
                         in Some (if p_disk base then base @ ''p'' @ n else base @ n))))"

section \<open>Conversion\<close>

text \<open>\<^verbatim>\<open>os.path.normpath\<close> of an absolute path.\<close>

fun norm_parts :: "string list \<Rightarrow> string list \<Rightarrow> string list" where
  "norm_parts acc [] = rev acc"
| "norm_parts acc (p # ps) =
     (if p = [] \<or> p = ''.'' then norm_parts acc ps
      else if p = ''..'' then norm_parts (tl acc) ps
      else norm_parts (p # acc) ps)"

definition normpath :: "string \<Rightarrow> string" where
  "normpath p = ''/'' @ py_join ''/'' (norm_parts [] (split_on CHR ''/'' p))"

definition host_device :: "guest_env \<Rightarrow> string \<Rightarrow> string option" where
  "host_device env spec = (case ge_host_link env spec of
      None \<Rightarrow> None
    | Some t \<Rightarrow> (let d = (if startswith t ''/'' then t else normpath (path_join (path_parent spec) t))
                 in if startswith d ''/dev/'' then Some d else None))"

definition guest_device :: "guest_env \<Rightarrow> string \<Rightarrow> string option" where
  "guest_device env spec = (case ge_realpath env spec of
      None \<Rightarrow> None
    | Some t \<Rightarrow> (let rp = strip t in if startswith rp ''/dev/'' \<and> rp \<noteq> spec then Some rp else None))"

definition map_bypath :: "guest_env \<Rightarrow> string option \<Rightarrow> string \<Rightarrow> string option" where
  "map_bypath env root_dev spec = (case host_device env spec of
      Some d \<Rightarrow> Some d
    | None \<Rightarrow> (case guest_device env spec of
                 Some d \<Rightarrow> Some d
               | None \<Rightarrow> infer_partition_from_bypath spec root_dev))"

record spec_converter =
  sc_mode :: fstab_mode
  sc_root_dev :: "string option"

definition stabilize_bypath :: "guest_env \<Rightarrow> spec_converter \<Rightarrow> string \<Rightarrow> string \<Rightarrow> string \<times> string" where
  "stabilize_bypath env sc spec original = (case map_bypath env (sc_root_dev sc) spec of
      None \<Rightarrow> (original, ''by-path-unresolved'')
    | Some mapped \<Rightarrow>
        (case choose_stable (g_blkid_map env mapped) of
           Some sid \<Rightarrow> (sid, ''mapped:'' @ mapped)
         | None \<Rightarrow> (original, ''mapped:'' @ mapped @ '' no-id'')))"

definition stabilize_dev :: "guest_env \<Rightarrow> string \<Rightarrow> string \<Rightarrow> string \<times> string" where
  "stabilize_dev env spec original = (case choose_stable (g_blkid_map env spec) of
      Some sid \<Rightarrow> (sid, ''blkid:'' @ spec)
    | None \<Rightarrow> (original, ''dev-no-id''))"

definition convert_spec :: "guest_env \<Rightarrow> spec_converter \<Rightarrow> string \<Rightarrow> string \<times> string" where
  "convert_spec env sc original =
     (let spec = (if startswith original ''btrfsvol:'' then strip (fst (parse_btrfsvol_spec original)) else original)
      in if is_stable spec then (original, ''already-stable'')
         else if startswith spec BYPATH_PREFIX then stabilize_bypath env sc spec original
         else if sc_mode sc = STABILIZE_ALL \<and> startswith spec ''/dev/'' then stabilize_dev env spec original
         else (original, ''unchanged''))"

section \<open>Lemmas\<close>

lemma choose_stable_prefix: "choose_stable blk = Some s \<Longrightarrow> \<exists>k\<in>{''UUID'', ''PARTUUID'', ''LABEL'', ''PARTLABEL''}. tag_of blk k = Some s"
  by (auto simp: choose_stable_def split: option.splits)

lemma tag_of_shape: "tag_of blk k = Some s \<Longrightarrow> \<exists>v. v \<noteq> [] \<and> dict_get blk k = Some v \<and> s = k @ ''='' @ v"
  by (auto simp: tag_of_def split: option.splits if_splits)

lemma upper_append: "py_upper (a @ b) = py_upper a @ py_upper b"
  by (simp add: py_upper_def)

lemma stable_prefix: "p \<in> set stable_prefixes \<Longrightarrow> is_stable (p @ v)"
proof -
  assume p: "p \<in> set stable_prefixes"
  have "list_all (\<lambda>q. py_upper q = q) stable_prefixes" by code_simp
  with p have "py_upper (p @ v) = p @ py_upper v" by (simp add: upper_append list_all_iff)
  with p show ?thesis by (auto simp: is_stable_def startswith_def list_ex_iff intro!: bexI [of _ p])
qed

lemma choose_stable_is_stable: "choose_stable blk = Some s \<Longrightarrow> is_stable s"
proof -
  assume "choose_stable blk = Some s"
  then obtain k where k: "k \<in> {''UUID'', ''PARTUUID'', ''LABEL'', ''PARTLABEL''}" "tag_of blk k = Some s"
    using choose_stable_prefix by blast
  then obtain v where "s = (k @ ''='') @ v" using tag_of_shape by fastforce
  with k(1) show ?thesis using stable_prefix [of "k @ ''=''" v] by (auto simp: stable_prefixes_def)
qed

lemma stable_not_btrfs: "is_stable s \<Longrightarrow> \<not> startswith s ''btrfsvol:''"
proof
  assume s: "is_stable s" "startswith s ''btrfsvol:''"
  then obtain v where "s = ''btrfsvol:'' @ v" by (auto simp: startswith_def prefix_def)
  moreover have "upper_char CHR ''b'' = CHR ''B''" by code_simp
  ultimately have "py_upper s = CHR ''B'' # py_upper (drop 1 s)" by (simp add: py_upper_def)
  with s(1) show False by (auto simp: is_stable_def stable_prefixes_def startswith_def prefix_def)
qed

lemma convert_stable: "is_stable spec \<Longrightarrow> convert_spec env sc spec = (spec, ''already-stable'')"
  by (simp add: convert_spec_def stable_not_btrfs)

lemma stabilize_result:
  "fst (stabilize_bypath env sc spec original) = original \<or> is_stable (fst (stabilize_bypath env sc spec original))"
  "fst (stabilize_dev env spec original) = original \<or> is_stable (fst (stabilize_dev env spec original))"
  by (simp_all add: stabilize_bypath_def stabilize_dev_def choose_stable_is_stable split: option.split)

lemma convert_result: "fst (convert_spec env sc spec) = spec \<or> is_stable (fst (convert_spec env sc spec))"
  using stabilize_result by (simp add: convert_spec_def Let_def)

text \<open>Converting twice is converting once.\<close>

lemma convert_idem: "fst (convert_spec env sc (fst (convert_spec env sc spec))) = fst (convert_spec env sc spec)"
  using convert_result [of env sc spec] convert_stable by auto

section \<open>The inferred partition\<close>

lemma chomp_id: "s = [] \<or> last s \<noteq> CHR 0x0A \<Longrightarrow> chomp s = s"
  by (auto simp: chomp_def)

lemma digits_split: "all_digits ds \<Longrightarrow> b = [] \<or> \<not> py_isdigit (last b) \<Longrightarrow> trailing_digits (b @ ds) = ds \<and> before_digits (b @ ds) = b"
proof -
  assume ds: "all_digits ds" and b: "b = [] \<or> \<not> py_isdigit (last b)"
  have r: "\<And>x. x \<in> set (rev ds) \<Longrightarrow> py_isdigit x" using ds by (auto simp: all_digits_def list_all_iff)
  have "takeWhile py_isdigit (rev b) = []" "dropWhile py_isdigit (rev b) = rev b"
    using b by (cases b rule: rev_cases; simp)+
  then have "takeWhile py_isdigit (rev ds @ rev b) = rev ds" "dropWhile py_isdigit (rev ds @ rev b) = rev b"
    using takeWhile_append2 [of "rev ds" py_isdigit "rev b"] dropWhile_append2 [of "rev ds" py_isdigit "rev b"] r by simp_all
  then show ?thesis by (simp add: trailing_digits_def before_digits_def)
qed

lemma digits_no_newline: "all_digits ds \<Longrightarrow> last (b @ ds) \<noteq> CHR 0x0A"
proof -
  assume "all_digits ds"
  then have "py_isdigit (last ds)" "ds \<noteq> []" by (auto simp: all_digits_def list_all_iff)
  moreover have "\<not> py_isdigit CHR 0x0A" by code_simp
  ultimately show ?thesis by auto
qed

lemma letters_last: "letter_disk b \<Longrightarrow> b \<noteq> [] \<and> \<not> py_isdigit (last b)"
proof -
  assume "letter_disk b"
  then obtain d where b: "b = ''/dev/'' @ d" and d: "is_letters d"
    by (auto simp: letter_disk_def after_prefix_def startswith_def prefix_def split: if_splits)
  then have "last b \<in> set lower_chars \<union> set upper_chars" by (auto simp: is_letters_def list_all_iff)
  moreover have "\<forall>c\<in>set lower_chars \<union> set upper_chars. \<not> py_isdigit c" by code_simp
  ultimately show ?thesis using b by auto
qed

lemma nvme_not_letters: "is_nvme d \<Longrightarrow> \<not> is_letters d" "numbered n d \<Longrightarrow> \<not> is_letters d"
proof -
  have nodigit: "\<not> is_letters d" if "c \<in> set d" "py_isdigit c" for c
  proof -
    have "\<forall>c\<in>set lower_chars \<union> set upper_chars. \<not> py_isdigit c" by code_simp
    with that show ?thesis by (auto simp: is_letters_def list_all_iff)
  qed
  show "\<not> is_letters d" if "is_nvme d"
  proof -
    from that obtain r t where r: "d = ''nvme'' @ r" and t: "dropWhile py_isdigit r = ''n'' @ t" "all_digits t"
      by (auto simp: is_nvme_def after_prefix_def startswith_def prefix_def split: option.splits if_splits)
    then have "hd t \<in> set t" "py_isdigit (hd t)" by (auto simp: all_digits_def list_all_iff)
    moreover have "set t \<subseteq> set d" using r t(1) set_dropWhileD by (metis (no_types, lifting) UnCI set_append subsetI)
    ultimately show ?thesis using nodigit by blast
  qed
  show "\<not> is_letters d" if "numbered n d"
  proof -
    from that obtain t where "d = n @ t" "all_digits t"
      by (auto simp: numbered_def after_prefix_def startswith_def prefix_def split: option.splits if_splits)
    then show ?thesis using nodigit [of "hd t"] by (auto simp: all_digits_def list_all_iff)
  qed
qed

lemma p_disk_not_letter: "p_disk b \<Longrightarrow> \<not> letter_disk b"
  using nvme_not_letters by (auto simp: p_disk_def letter_disk_def split: option.splits)

lemma root_dev_base_kind: "root_dev_base r = Some base \<Longrightarrow> p_disk base \<or> letter_disk base"
  by (auto simp: root_dev_base_def Let_def split: option.splits if_splits)

lemma root_dev_base_p: "p_disk b \<Longrightarrow> all_digits ds \<Longrightarrow> root_dev_base (Some (b @ ''p'' @ ds)) = Some b"
proof -
  assume b: "p_disk b" and ds: "all_digits ds"
  have "\<not> py_isdigit CHR ''p''" by code_simp
  then have "trailing_digits ((b @ ''p'') @ ds) = ds \<and> before_digits ((b @ ''p'') @ ds) = b @ ''p''"
    by (intro digits_split [OF ds]) simp
  moreover have "ds \<noteq> []" using ds by (simp add: all_digits_def)
  moreover have "chomp ((b @ ''p'') @ ds) = (b @ ''p'') @ ds" using digits_no_newline [OF ds] chomp_id by blast
  ultimately show ?thesis using b by (simp add: root_dev_base_def)
qed

lemma letter_disk_p: "letter_disk (c @ ''p'') \<Longrightarrow> \<not> p_disk c"
proof
  assume c: "letter_disk (c @ ''p'')" "p_disk c"
  from c(2) obtain d where d: "c = ''/dev/'' @ d" "is_nvme d \<or> numbered ''mmcblk'' d \<or> numbered ''nbd'' d \<or> numbered ''loop'' d"
    by (auto simp: p_disk_def after_prefix_def startswith_def prefix_def split: if_splits)
  have ne: "d \<noteq> []" using d(2) by (auto simp: is_nvme_def numbered_def after_prefix_def startswith_def)
  from c(1) have "is_letters (d @ ''p'')"
    by (auto simp: d(1) letter_disk_def after_prefix_def startswith_def prefix_def split: if_splits)
  then have "is_letters d" using ne by (auto simp: is_letters_def)
  with d(2) nvme_not_letters show False by blast
qed

lemma root_dev_base_letters: "letter_disk b \<Longrightarrow> all_digits ds \<Longrightarrow> root_dev_base (Some (b @ ds)) = Some b"
proof -
  assume b: "letter_disk b" and ds: "all_digits ds"
  have s: "trailing_digits (b @ ds) = ds" "before_digits (b @ ds) = b" using digits_split [OF ds] letters_last [OF b] by blast+
  have ne: "ds \<noteq> []" using ds by (simp add: all_digits_def)
  have c: "chomp (b @ ds) = b @ ds" using digits_no_newline [OF ds] chomp_id by blast
  have p: "\<not> (b \<noteq> [] \<and> last b = CHR ''p'' \<and> p_disk (butlast b))"
    using letter_disk_p [of "butlast b"] b by (metis append_butlast_last_id)
  show ?thesis unfolding root_dev_base_def using s ne c p b by auto
qed

text \<open>
  A partition that is inferred from a by-path name lies on the disk of the root
  device, with the number that the name ends in.
\<close>
theorem inferred_partition_is_on_root_disk:
  assumes "infer_partition_from_bypath spec root_dev = Some dev"
  shows "root_dev_base (Some dev) = root_dev_base root_dev \<and>
    digits_value (trailing_digits dev) = digits_value (trailing_digits (chomp spec))"
proof -
  obtain base where base: "root_dev_base root_dev = Some base"
    and dev: "dev = (if p_disk base then base @ ''p'' @ nat_str (digits_value (trailing_digits (chomp spec)))
        else base @ nat_str (digits_value (trailing_digits (chomp spec))))"
    using assms by (auto simp: infer_partition_from_bypath_def Let_def split: if_splits option.splits)
  let ?n = "digits_value (trailing_digits (chomp spec))"
  note ds = nat_str_digits [of ?n]
  show ?thesis
  proof (cases "p_disk base")
    case True
    have "\<not> py_isdigit CHR ''p''" by code_simp
    then have "trailing_digits ((base @ ''p'') @ nat_str ?n) = nat_str ?n" using digits_split [OF ds, of "base @ ''p''"] by simp
    with True show ?thesis using root_dev_base_p [OF True ds] by (simp add: dev base digits_nat_str)
  next
    case False
    with root_dev_base_kind [OF base] have l: "letter_disk base" by blast
    have "trailing_digits (base @ nat_str ?n) = nat_str ?n" using digits_split [OF ds] letters_last [OF l] by blast
    with False show ?thesis by (simp add: dev base root_dev_base_letters [OF l ds] digits_nat_str)
  qed
qed

theorem inferred_partition_is_on_root_disk_witness:
  "infer_partition_from_bypath ''/dev/disk/by-path/pci-0000:00:10.0-scsi-0:0:0:0-part03'' (Some ''/dev/nbd0p1'') = Some ''/dev/nbd0p3'' \<and>
   root_dev_base (Some ''/dev/nbd0p3'') = root_dev_base (Some ''/dev/nbd0p1'')"
proof -
  have i: "infer_partition_from_bypath ''/dev/disk/by-path/pci-0000:00:10.0-scsi-0:0:0:0-part03'' (Some ''/dev/nbd0p1'') = Some ''/dev/nbd0p3''"
    by code_simp
  from inferred_partition_is_on_root_disk [OF i] i show ?thesis by blast
qed

text \<open>A root file system on a whole disk is taken for a partition: the inferred device is on another disk.\<close>

lemma whole_disk_root_misleads:
  "infer_partition_from_bypath ''/dev/disk/by-path/pci-0-part2'' (Some ''/dev/nbd0'') = Some ''/dev/nbd2''"
  by code_simp

end
