(* ===== verification/Fstab_Rewriter.thy ===== *)
theory Fstab_Rewriter
  imports Fstab_Spec
begin

text \<open>
  \<^verbatim>\<open>h2kvm/fixers/offline/config_rewriter.py\<close>: the rewriting of \<^verbatim>\<open>/etc/fstab\<close> and
  \<^verbatim>\<open>/etc/crypttab\<close> in a guest. The guest is a dictionary of text files and its directories; which
  files guestfs answers for, reads and writes is a parameter. Printing is not modelled.
\<close>

section \<open>Guest and rewriter\<close>

record guest =
  gf_files :: "(string, string) dict"
  gf_dirs :: "string list"

record guest_io =
  gi_answers :: "string \<Rightarrow> bool"
  gi_readable :: "string \<Rightarrow> bool"
  gi_writable :: "string \<Rightarrow> bool"

datatype guest_exc = GuestfsError string

record rewriter =
  rw_converter :: spec_converter
  rw_dry_run :: bool
  rw_no_backup :: bool
  rw_mode :: fstab_mode

definition guest_is_file :: "guest_io \<Rightarrow> guest \<Rightarrow> string \<Rightarrow> bool" where
  "guest_is_file io g p = (gi_answers io p \<and> dict_has (gf_files g) p)"

definition guest_read :: "guest_io \<Rightarrow> guest \<Rightarrow> string \<Rightarrow> string option" where
  "guest_read io g p = (if gi_readable io p then dict_get (gf_files g) p else None)"

definition guest_write :: "guest_io \<Rightarrow> string \<Rightarrow> string \<Rightarrow> guest \<Rightarrow> guest option" where
  "guest_write io p text g = (if gi_writable io p then Some (g\<lparr>gf_files := dict_set p text (gf_files g)\<rparr>) else None)"

definition backup_path_of :: "string \<Rightarrow> string \<Rightarrow> string" where
  "backup_path_of path ts = path @ ''.backup.h2kvm.'' @ ts"

definition backup_file :: "guest_io \<Rightarrow> rewriter \<Rightarrow> string \<Rightarrow> string \<Rightarrow> guest \<Rightarrow> guest" where
  "backup_file io rw ts path g =
     (if rw_no_backup rw \<or> rw_dry_run rw \<or> \<not> guest_is_file io g path then g
      else (case guest_read io g path of
              None \<Rightarrow> g
            | Some text \<Rightarrow> (case guest_write io (backup_path_of path ts) text g of None \<Rightarrow> g | Some g1 \<Rightarrow> g1)))"

definition ensure_tmp_sanity :: "guest_io \<Rightarrow> rewriter \<Rightarrow> guest \<Rightarrow> guest" where
  "ensure_tmp_sanity io rw g =
     (if gi_answers io ''/tmp'' \<and> ''/tmp'' \<notin> set (gf_dirs g) \<and> \<not> rw_dry_run rw \<and> gi_writable io ''/tmp''
      then g\<lparr>gf_dirs := gf_dirs g @ [''/tmp'']\<rparr> else g)"

section \<open>fstab\<close>

record fstab_change =
  ch_line_no :: nat
  ch_mountpoint :: string
  ch_old :: string
  ch_new :: string
  ch_reason :: string

datatype fstab_audit = FstabReason string | FstabAudit nat nat nat nat

text \<open>One line: the line written, the change, whether it is an entry, whether by-path.\<close>

record line_result =
  lr_line :: string
  lr_change :: "fstab_change option"
  lr_entry :: bool
  lr_bypath :: bool

definition kept_line :: "string \<Rightarrow> line_result" where
  "kept_line line = \<lparr>lr_line = line, lr_change = None, lr_entry = False, lr_bypath = False\<rparr>"

definition convertible :: "fstab_mode \<Rightarrow> string \<Rightarrow> bool" where
  "convertible mode spec = (mode \<noteq> BYPATH_ONLY \<or> startswith spec BYPATH_PREFIX \<or> startswith spec ''btrfsvol:'')"

definition rewrite_fstab_line :: "guest_env \<Rightarrow> rewriter \<Rightarrow> nat \<Rightarrow> string \<Rightarrow> line_result" where
  "rewrite_fstab_line env rw idx line =
     (let s = strip line
      in if s = [] \<or> startswith s ''#'' then kept_line line
         else (case py_split s of
                 spec # mp # fs # opts # rest \<Rightarrow>
                   if mp \<in> set IGNORE_MOUNTPOINTS then kept_line line
                   else (let r = (kept_line line)\<lparr>lr_entry := True, lr_bypath := startswith spec BYPATH_PREFIX\<rparr>
                         in if \<not> convertible (rw_mode rw) spec then r
                            else (case convert_spec env (rw_converter rw) spec of
                                    (new, reason) \<Rightarrow>
                                      if new \<noteq> spec
                                      then r\<lparr>lr_line := py_join [CHR 0x09] (new # mp # fs # opts # rest),
                                             lr_change := Some \<lparr>ch_line_no = idx, ch_mountpoint = mp, ch_old = spec, ch_new = new, ch_reason = reason\<rparr>\<rparr>
                                      else r))
               | _ \<Rightarrow> kept_line line))"

fun rewrite_lines :: "guest_env \<Rightarrow> rewriter \<Rightarrow> nat \<Rightarrow> string list \<Rightarrow> line_result list" where
  "rewrite_lines env rw idx [] = []"
| "rewrite_lines env rw idx (l # ls) = rewrite_fstab_line env rw idx l # rewrite_lines env rw (Suc idx) ls"

definition line_changes :: "line_result list \<Rightarrow> fstab_change list" where
  "line_changes rs = List.map_filter lr_change rs"

definition rewrite_fstab :: "guest_env \<Rightarrow> guest_io \<Rightarrow> rewriter \<Rightarrow> string \<Rightarrow> guest \<Rightarrow>
    (guest_exc, nat \<times> fstab_change list \<times> fstab_audit, guest) outcome" where
  "rewrite_fstab env io rw ts g =
     (if rw_mode rw = NOOP then (Inr (0, [], FstabReason ''noop''), g)
      else if \<not> guest_is_file io g ''/etc/fstab'' then (Inr (0, [], FstabReason ''missing''), g)
      else (case guest_read io g ''/etc/fstab'' of
              None \<Rightarrow> (Inl (GuestfsError ''/etc/fstab''), g)
            | Some before \<Rightarrow>
                (let rs = rewrite_lines env rw 1 (splitlines before);
                     chs = line_changes rs;
                     audit = FstabAudit (length rs) (length (filter lr_entry rs)) (length (filter lr_bypath rs)) (length chs);
                     g1 = ensure_tmp_sanity io rw g
                 in if chs = [] then (Inr (0, [], audit), g1)
                    else if rw_dry_run rw then (Inr (length chs, chs, audit), g1)
                    else (let after = py_join [CHR 0x0A] (map lr_line rs) @ [CHR 0x0A];
                              g2 = backup_file io rw ts ''/etc/fstab'' g1
                          in case guest_write io ''/etc/fstab'' after g2 of
                               None \<Rightarrow> (Inl (GuestfsError ''/etc/fstab''), g2)
                             | Some g3 \<Rightarrow> (Inr (length chs, chs, audit), g3)))))"

section \<open>crypttab\<close>

definition rewrite_crypttab_line :: "guest_env \<Rightarrow> rewriter \<Rightarrow> string \<Rightarrow> string \<times> bool" where
  "rewrite_crypttab_line env rw line =
     (let s = strip line
      in if s = [] \<or> startswith s ''#'' then (line, False)
         else (case py_split s of
                 name # spec # rest \<Rightarrow>
                   if is_stable spec \<or> \<not> convertible (rw_mode rw) spec then (line, False)
                   else (let new = fst (convert_spec env (rw_converter rw) spec)
                         in if new \<noteq> spec then (py_join '' '' (name # new # rest), True) else (line, False))
               | _ \<Rightarrow> (line, False)))"

definition rewrite_crypttab :: "guest_env \<Rightarrow> guest_io \<Rightarrow> rewriter \<Rightarrow> string \<Rightarrow> guest \<Rightarrow> (guest_exc, nat, guest) outcome" where
  "rewrite_crypttab env io rw ts g =
     (if \<not> guest_is_file io g ''/etc/crypttab'' then (Inr 0, g)
      else (case guest_read io g ''/etc/crypttab'' of
              None \<Rightarrow> (Inl (GuestfsError ''/etc/crypttab''), g)
            | Some before \<Rightarrow>
                (let rs = map (rewrite_crypttab_line env rw) (splitlines before);
                     n = length (filter snd rs)
                 in if n = 0 then (Inr 0, g)
                    else if rw_dry_run rw then (Inr n, g)
                    else (let g1 = backup_file io rw ts ''/etc/crypttab'' g
                          in case guest_write io ''/etc/crypttab'' (py_join [CHR 0x0A] (map fst rs) @ [CHR 0x0A]) g1 of
                               None \<Rightarrow> (Inl (GuestfsError ''/etc/crypttab''), g1)
                             | Some g2 \<Rightarrow> (Inr n, g2)))))"

section \<open>One line\<close>

text \<open>The identifiers that blkid reports have no white space.\<close>

definition clean_tags :: "guest_env \<Rightarrow> bool" where
  "clean_tags env = (\<forall>dev s. choose_stable (g_blkid_map env dev) = Some s \<longrightarrow> word s)"

lemma stabilize_new_word:
  "clean_tags env \<Longrightarrow> fst (stabilize_bypath env sc spec original) = original \<or> word (fst (stabilize_bypath env sc spec original))"
  "clean_tags env \<Longrightarrow> fst (stabilize_dev env spec original) = original \<or> word (fst (stabilize_dev env spec original))"
  by (simp_all add: stabilize_bypath_def stabilize_dev_def clean_tags_def split: option.split)

lemma convert_new_word: "clean_tags env \<Longrightarrow> fst (convert_spec env sc spec) \<noteq> spec \<Longrightarrow> word (fst (convert_spec env sc spec))"
  using stabilize_new_word by (simp add: convert_spec_def Let_def split: if_split_asm) blast+

lemma line_unchanged: "lr_change (rewrite_fstab_line env rw idx line) = None \<Longrightarrow> lr_line (rewrite_fstab_line env rw idx line) = line"
  by (auto simp: rewrite_fstab_line_def kept_line_def Let_def split: if_splits list.splits prod.splits)

lemma line_changed:
  assumes "lr_change (rewrite_fstab_line env rw idx line) = Some ch"
  obtains spec mp fs opts rest where "py_split (strip line) = spec # mp # fs # opts # rest" "mp \<notin> set IGNORE_MOUNTPOINTS"
    "fst (convert_spec env (rw_converter rw) spec) \<noteq> spec"
    "lr_line (rewrite_fstab_line env rw idx line) = py_join [CHR 0x09] (fst (convert_spec env (rw_converter rw) spec) # mp # fs # opts # rest)"
    "ch_old ch = spec" "ch_new ch = fst (convert_spec env (rw_converter rw) spec)" "ch_mountpoint ch = mp" "ch_line_no ch = idx"
  using assms by (auto simp: rewrite_fstab_line_def kept_line_def Let_def split: if_splits list.splits prod.splits)

lemma line_index: "lr_change (rewrite_fstab_line env rw i line) = None \<longleftrightarrow> lr_change (rewrite_fstab_line env rw j line) = None"
  by (auto simp: rewrite_fstab_line_def kept_line_def Let_def split: if_splits list.splits prod.splits)

lemma stable_not_comment: "is_stable s \<Longrightarrow> \<not> startswith (s @ t) ''#''"
proof
  assume s: "is_stable s" "startswith (s @ t) ''#''"
  then have "s \<noteq> []" by (auto simp: is_stable_def stable_prefixes_def startswith_def py_upper_def)
  with s(2) obtain r where "s = CHR ''#'' # r" by (cases s) (auto simp: startswith_def)
  moreover have "upper_char CHR ''#'' = CHR ''#''" by code_simp
  ultimately show False using s(1) by (auto simp: is_stable_def stable_prefixes_def startswith_def py_upper_def)
qed

text \<open>The fields of a changed line: the new identifier, then the old fields.\<close>

lemma changed_fields:
  assumes "clean_tags env" "lr_change (rewrite_fstab_line env rw idx line) = Some ch"
  shows "strip (lr_line (rewrite_fstab_line env rw idx line)) = lr_line (rewrite_fstab_line env rw idx line)"
    "py_split (lr_line (rewrite_fstab_line env rw idx line)) = ch_new ch # tl (py_split (strip line))" "is_stable (ch_new ch)"
    "\<not> startswith (lr_line (rewrite_fstab_line env rw idx line)) ''#''"
    "list_all (\<lambda>c. \<not> line_break c) (lr_line (rewrite_fstab_line env rw idx line))"
proof -
  from assms(2) obtain spec mp fs opts rest where p: "py_split (strip line) = spec # mp # fs # opts # rest"
    and new: "fst (convert_spec env (rw_converter rw) spec) \<noteq> spec"
    and l: "lr_line (rewrite_fstab_line env rw idx line) = py_join [CHR 0x09] (fst (convert_spec env (rw_converter rw) spec) # mp # fs # opts # rest)"
    and ch: "ch_new ch = fst (convert_spec env (rw_converter rw) spec)" by (rule line_changed)
  let ?ws = "ch_new ch # mp # fs # opts # rest"
  have "word (ch_new ch)" using convert_new_word [OF assms(1) new] by (simp add: ch)
  moreover have "list_all word (mp # fs # opts # rest)" using split_words [of _ "strip line"] p by (auto simp: list_all_iff)
  ultimately have ws: "list_all word ?ws" by simp
  have tab: "py_isspace CHR 0x09" by code_simp
  have l': "lr_line (rewrite_fstab_line env rw idx line) = py_join [CHR 0x09] ?ws" by (simp only: l ch)
  show "strip (lr_line (rewrite_fstab_line env rw idx line)) = lr_line (rewrite_fstab_line env rw idx line)"
    by (simp only: l' strip_join [OF ws])
  show "py_split (lr_line (rewrite_fstab_line env rw idx line)) = ch_new ch # tl (py_split (strip line))"
    by (simp only: l' split_join [OF ws tab] p list.sel)
  show st: "is_stable (ch_new ch)" using convert_result [of env "rw_converter rw" spec] new ch by simp
  show "\<not> startswith (lr_line (rewrite_fstab_line env rw idx line)) ''#''" using stable_not_comment [OF st] l ch by simp
  show "list_all (\<lambda>c. \<not> line_break c) (lr_line (rewrite_fstab_line env rw idx line))"
    by (simp only: l' join_no_break [OF ws])
qed

lemma line_idem:
  assumes "clean_tags env"
  shows "lr_change (rewrite_fstab_line env rw j (lr_line (rewrite_fstab_line env rw i line))) = None"
proof (cases "lr_change (rewrite_fstab_line env rw i line)")
  case None
  then show ?thesis using line_unchanged line_index by metis
next
  case (Some ch)
  note f = changed_fields [OF assms Some]
  have "fst (convert_spec env (rw_converter rw) (ch_new ch)) = ch_new ch" using f(3) by (simp add: convert_stable)
  then show ?thesis
    by (auto simp: rewrite_fstab_line_def [of env rw j] f(1,2) kept_line_def Let_def split: if_splits list.splits prod.splits)
qed

section \<open>The whole file\<close>

lemma rewrite_lines_nth:
  "rewrite_lines env rw i ls = map (\<lambda>k. rewrite_fstab_line env rw (i + k) (ls ! k)) [0..<length ls]"
proof (induction ls arbitrary: i)
  case (Cons l ls)
  have "[0..<Suc (length ls)] = 0 # map Suc [0..<length ls]" by (simp add: upt_conv_Cons map_Suc_upt del: upt_Suc)
  with Cons show ?case by (simp del: upt_Suc)
qed simp

lemma rewrite_lines_length [simp]: "length (rewrite_lines env rw i ls) = length ls"
  by (simp add: rewrite_lines_nth)

lemma line_changes_Nil: "line_changes rs = [] \<longleftrightarrow> (\<forall>r\<in>set rs. lr_change r = None)"
  by (induction rs) (auto simp: line_changes_def map_filter_simps split: option.splits)

lemma rewrite_lines_idem:
  "clean_tags env \<Longrightarrow> line_changes (rewrite_lines env rw j (map lr_line (rewrite_lines env rw i ls))) = []"
  by (auto simp: line_changes_Nil rewrite_lines_nth line_idem)

lemma rewritten_no_break:
  assumes "clean_tags env" "list_all (list_all (\<lambda>c. \<not> line_break c)) ls"
  shows "list_all (list_all (\<lambda>c. \<not> line_break c)) (map lr_line (rewrite_lines env rw i ls))"
proof -
  have "list_all (\<lambda>c. \<not> line_break c) (lr_line (rewrite_fstab_line env rw k l))" if "l \<in> set ls" for k l
  proof (cases "lr_change (rewrite_fstab_line env rw k l)")
    case None
    then show ?thesis using line_unchanged [OF None] assms(2) that by (simp add: list_all_iff)
  next
    case (Some ch)
    then show ?thesis by (rule changed_fields(5) [OF assms(1)])
  qed
  then have "list_all (\<lambda>c. \<not> line_break c) (lr_line (rewrite_fstab_line env rw k (ls ! x)))" if "x < length ls" for x k
    using that by simp
  then show ?thesis by (simp add: rewrite_lines_nth list_all_length)
qed

text \<open>Reading back what was written.\<close>

lemma splitlines_written:
  assumes "clean_tags env" "line_changes (rewrite_lines env rw 1 (splitlines before)) \<noteq> []"
  shows "splitlines (py_join [CHR 0x0A] (map lr_line (rewrite_lines env rw 1 (splitlines before))) @ [CHR 0x0A]) =
    map lr_line (rewrite_lines env rw 1 (splitlines before))"
proof (rule splitlines_join)
  show "list_all (list_all (\<lambda>c. \<not> line_break c)) (map lr_line (rewrite_lines env rw 1 (splitlines before)))"
    by (rule rewritten_no_break [OF assms(1)]) (auto simp: list_all_iff dest: splitlines_no_break)
  show "map lr_line (rewrite_lines env rw 1 (splitlines before)) \<noteq> []"
    using assms(2) by (auto simp: line_changes_Nil)
qed

lemma ensure_tmp_frame [simp]:
  "gf_files (ensure_tmp_sanity io rw g) = gf_files g" "ensure_tmp_sanity io rw (ensure_tmp_sanity io rw g) = ensure_tmp_sanity io rw g"
  by (auto simp: ensure_tmp_sanity_def)

lemma backup_frame:
  "gf_dirs (backup_file io rw ts path g) = gf_dirs g"
  "p \<noteq> backup_path_of path ts \<Longrightarrow> dict_get (gf_files (backup_file io rw ts path g)) p = dict_get (gf_files g) p"
  by (auto simp: backup_file_def guest_write_def split: option.splits)

lemma backup_path_fresh [simp]: "backup_path_of p ts \<noteq> p" "p \<noteq> backup_path_of p ts"
  by (simp_all add: backup_path_of_def)

text \<open>What a successful run leaves in the guest.\<close>

lemma rewrite_fstab_cases:
  assumes "rewrite_fstab env io rw ts g = (Inr (n, chs, a), g')"
  obtains "g' = g" "chs = []" "n = 0" "rw_mode rw = NOOP \<or> \<not> guest_is_file io g ''/etc/fstab''"
  | before where "rw_mode rw \<noteq> NOOP" "guest_is_file io g ''/etc/fstab''" "guest_read io g ''/etc/fstab'' = Some before"
      "chs = line_changes (rewrite_lines env rw 1 (splitlines before))" "n = length chs" "chs = [] \<or> rw_dry_run rw"
      "g' = ensure_tmp_sanity io rw g"
  | before where "rw_mode rw \<noteq> NOOP" "guest_is_file io g ''/etc/fstab''" "guest_read io g ''/etc/fstab'' = Some before"
      "chs = line_changes (rewrite_lines env rw 1 (splitlines before))" "n = length chs" "chs \<noteq> []" "\<not> rw_dry_run rw"
      "guest_write io ''/etc/fstab'' (py_join [CHR 0x0A] (map lr_line (rewrite_lines env rw 1 (splitlines before))) @ [CHR 0x0A])
        (backup_file io rw ts ''/etc/fstab'' (ensure_tmp_sanity io rw g)) = Some g'"
  using assms by (auto simp: rewrite_fstab_def Let_def split: if_splits option.splits)

text \<open>
  Rewriting an fstab that was rewritten changes nothing, when identifiers have no
  white space: after a successful run, a second run in the same mode reports no change and leaves the
  guest as it is.
\<close>
theorem fstab_rewrite_is_idempotent:
  assumes "clean_tags env" and "\<not> rw_dry_run rw" and "rewrite_fstab env io rw ts g = (Inr (n, chs, a), g')"
  shows "\<exists>a'. rewrite_fstab env io rw ts' g' = (Inr (0, [], a'), g')"
  using assms(3)
proof (cases rule: rewrite_fstab_cases)
  case 1
  then show ?thesis by (auto simp: rewrite_fstab_def)
next
  case (2 before)
  then have "guest_read io g' ''/etc/fstab'' = Some before" "guest_is_file io g' ''/etc/fstab''" "ensure_tmp_sanity io rw g' = g'"
    by (auto simp: guest_read_def guest_is_file_def split: if_splits)
  with 2 assms(2) show ?thesis by (simp add: rewrite_fstab_def Let_def)
next
  case (3 before)
  let ?lines = "map lr_line (rewrite_lines env rw 1 (splitlines before))"
  have read: "guest_read io g' ''/etc/fstab'' = Some (py_join [CHR 0x0A] ?lines @ [CHR 0x0A])" "guest_is_file io g' ''/etc/fstab''"
    using 3 by (auto simp: guest_read_def guest_is_file_def guest_write_def split: if_splits)
  have dirs: "gf_dirs g' = gf_dirs (ensure_tmp_sanity io rw g)"
    using 3(8) by (auto simp: guest_write_def backup_frame split: if_splits)
  then have tmp: "ensure_tmp_sanity io rw g' = g'"
    by (auto simp: ensure_tmp_sanity_def split: if_splits)
  have "splitlines (py_join [CHR 0x0A] ?lines @ [CHR 0x0A]) = ?lines"
    by (rule splitlines_written [OF assms(1)]) (use 3 in simp)
  with read tmp 3(1) rewrite_lines_idem [OF assms(1), of rw 1 1 "splitlines before"]
  show ?thesis by (simp add: rewrite_fstab_def Let_def)
qed

text \<open>The same mount, by the old line or by a stable identifier with the other fields unchanged.\<close>

definition same_mount :: "string \<Rightarrow> string \<Rightarrow> bool" where
  "same_mount l l' = (l' = l \<or> (is_stable (hd (py_split l')) \<and> tl (py_split l') = tl (py_split (strip l))))"

text \<open>An entry of a device under \<^verbatim>\<open>/dev\<close> for which blkid knows an identifier.\<close>

definition left_unstable :: "guest_env \<Rightarrow> string \<Rightarrow> bool" where
  "left_unstable env l = (\<not> startswith (strip l) ''#'' \<and> (case py_split (strip l) of
      spec # mp # fs # opts # rest \<Rightarrow> mp \<notin> set IGNORE_MOUNTPOINTS \<and> startswith spec ''/dev/'' \<and> \<not> startswith spec BYPATH_PREFIX \<and>
        choose_stable (g_blkid_map env spec) \<noteq> None
    | _ \<Rightarrow> False))"

lemma dev_not_stable: "startswith spec ''/dev/'' \<Longrightarrow> \<not> is_stable spec" "startswith spec ''/dev/'' \<Longrightarrow> \<not> startswith spec ''btrfsvol:''"
proof -
  assume "startswith spec ''/dev/''"
  then obtain r where r: "spec = CHR ''/'' # r" by (auto simp: startswith_def prefix_def)
  moreover have "upper_char CHR ''/'' = CHR ''/''" by code_simp
  ultimately show "\<not> is_stable spec" by (simp add: is_stable_def stable_prefixes_def startswith_def py_upper_def)
  show "\<not> startswith spec ''btrfsvol:''" by (simp add: r startswith_def)
qed

lemma convert_dev:
  assumes "sc_mode sc = STABILIZE_ALL" "startswith spec ''/dev/''" "\<not> startswith spec BYPATH_PREFIX" "choose_stable (g_blkid_map env spec) = Some s"
  shows "convert_spec env sc spec = (s, ''blkid:'' @ spec)" "s \<noteq> spec"
  using assms dev_not_stable [OF assms(2)] choose_stable_is_stable [OF assms(4)]
  by (auto simp: convert_spec_def Let_def stabilize_dev_def)

lemma left_unstable_changes:
  assumes "left_unstable env l" "rw_mode rw = STABILIZE_ALL" "sc_mode (rw_converter rw) = STABILIZE_ALL"
  shows "lr_change (rewrite_fstab_line env rw i l) \<noteq> None"
proof -
  obtain spec mp fs opts rest where p: "py_split (strip l) = spec # mp # fs # opts # rest" and mp: "mp \<notin> set IGNORE_MOUNTPOINTS"
    and c: "\<not> startswith (strip l) ''#''" and d: "startswith spec ''/dev/''" "\<not> startswith spec BYPATH_PREFIX"
    and b: "choose_stable (g_blkid_map env spec) \<noteq> None"
    using assms(1) by (auto simp: left_unstable_def split: list.splits)
  from b obtain s where s: "choose_stable (g_blkid_map env spec) = Some s" by blast
  have "strip l \<noteq> []" using p by auto
  then show ?thesis using c
    by (simp add: rewrite_fstab_line_def p mp convertible_def assms(2) convert_dev [OF assms(3) d s] Let_def)
qed

lemma rewritten_lines:
  assumes "clean_tags env"
  shows "list_all2 same_mount ls (map lr_line (rewrite_lines env rw i ls))"
proof -
  have "same_mount l (lr_line (rewrite_fstab_line env rw k l))" for k l
  proof (cases "lr_change (rewrite_fstab_line env rw k l)")
    case None
    then show ?thesis by (simp add: same_mount_def line_unchanged)
  next
    case (Some ch)
    note f = changed_fields [OF assms Some]
    have "tl (py_split (lr_line (rewrite_fstab_line env rw k l))) = tl (py_split (strip l))" "is_stable (hd (py_split (lr_line (rewrite_fstab_line env rw k l))))"
      using f(2,3) by simp_all
    then show ?thesis by (simp add: same_mount_def)
  qed
  then show ?thesis by (simp add: list_all2_conv_all_nth rewrite_lines_nth)
qed

lemma rewritten_stable:
  assumes "clean_tags env" "rw_mode rw = STABILIZE_ALL" "sc_mode (rw_converter rw) = STABILIZE_ALL"
  shows "\<not> left_unstable env (lr_line (rewrite_fstab_line env rw i l))"
  using line_idem [OF assms(1)] left_unstable_changes [OF _ assms(2,3)] by blast


section \<open>Examples\<close>

definition example_guest_env :: "(string \<times> (string \<times> string option) list) list \<Rightarrow> guest_env" where
  "example_guest_env tags = \<lparr>ge_blkid = map_of tags, ge_realpath = (\<lambda>_. None), ge_host_link = (\<lambda>_. None)\<rparr>"

definition example_io :: guest_io where
  "example_io = \<lparr>gi_answers = (\<lambda>_. True), gi_readable = (\<lambda>_. True), gi_writable = (\<lambda>_. True)\<rparr>"

definition example_rewriter :: "fstab_mode \<Rightarrow> rewriter" where
  "example_rewriter mode = \<lparr>rw_converter = \<lparr>sc_mode = mode, sc_root_dev = Some ''/dev/sda1''\<rparr>, rw_dry_run = False,
     rw_no_backup = False, rw_mode = mode\<rparr>"

definition example_guest :: guest where
  "example_guest = \<lparr>gf_files = [(''/etc/fstab'', ''/dev/sda1 / ext4 defaults 0 1'')], gf_dirs = [''/tmp'']\<rparr>"

abbreviation "uuid_env \<equiv> example_guest_env [(''/dev/sda1'', [(''UUID'', Some ''ab-12'')])]"

lemma uuid_env_clean: "clean_tags uuid_env"
proof -
  have "word ''UUID=ab-12''" "\<not> py_isspace CHR ''x''" "choose_stable (fold (\<lambda>(k, v) out. case v of None \<Rightarrow> out | Some x \<Rightarrow> dict_set (py_upper k) x out)
      [(''UUID'', Some ''ab-12'')] []) = Some ''UUID=ab-12''" "choose_stable [] = None" by code_simp+
  then show ?thesis by (auto simp: clean_tags_def example_guest_env_def g_blkid_map_def split: option.splits if_splits)
qed

lemma example_fstab_run:
  "\<exists>a. rewrite_fstab uuid_env example_io (example_rewriter STABILIZE_ALL) ''t'' example_guest =
    (Inr (1, [\<lparr>ch_line_no = 1, ch_mountpoint = ''/'', ch_old = ''/dev/sda1'', ch_new = ''UUID=ab-12'', ch_reason = ''blkid:/dev/sda1''\<rparr>], a),
     \<lparr>gf_files = [(''/etc/fstab'', py_join [CHR 0x09] [''UUID=ab-12'', ''/'', ''ext4'', ''defaults'', ''0'', ''1''] @ [CHR 0x0A]),
        (''/etc/fstab.backup.h2kvm.t'', ''/dev/sda1 / ext4 defaults 0 1'')], gf_dirs = [''/tmp'']\<rparr>)"
  by (rule exI [of _ "FstabAudit 1 1 0 1"]) code_simp

theorem fstab_rewrite_is_idempotent_witness:
  "\<exists>g' a'. snd (rewrite_fstab uuid_env example_io (example_rewriter STABILIZE_ALL) ''t'' example_guest) = g' \<and> g' \<noteq> example_guest \<and>
     rewrite_fstab uuid_env example_io (example_rewriter STABILIZE_ALL) ''u'' g' = (Inr (0, [], a'), g')"
proof -
  from example_fstab_run obtain a where r: "rewrite_fstab uuid_env example_io (example_rewriter STABILIZE_ALL) ''t'' example_guest =
    (Inr (1, [\<lparr>ch_line_no = 1, ch_mountpoint = ''/'', ch_old = ''/dev/sda1'', ch_new = ''UUID=ab-12'', ch_reason = ''blkid:/dev/sda1''\<rparr>], a),
     \<lparr>gf_files = [(''/etc/fstab'', py_join [CHR 0x09] [''UUID=ab-12'', ''/'', ''ext4'', ''defaults'', ''0'', ''1''] @ [CHR 0x0A]),
        (''/etc/fstab.backup.h2kvm.t'', ''/dev/sda1 / ext4 defaults 0 1'')], gf_dirs = [''/tmp'']\<rparr>)" by blast
  have "\<not> rw_dry_run (example_rewriter STABILIZE_ALL)" by (simp add: example_rewriter_def)
  from fstab_rewrite_is_idempotent [OF uuid_env_clean this r, of "''u''"] r show ?thesis
    by (auto simp: example_guest_def)
qed


text \<open>
  A label with a space, which fstab needs escaped, is written as it is: the fields of the
  entry shift, and the file system would be mounted elsewhere.
\<close>
theorem label_with_space_breaks_entry:
  "let g' = snd (rewrite_fstab (example_guest_env [(''/dev/sdb1'', [(''LABEL'', Some ''My Data'')])]) example_io
        (example_rewriter STABILIZE_ALL) ''t'' \<lparr>gf_files = [(''/etc/fstab'', ''/dev/sdb1 /srv ext4 defaults'')], gf_dirs = []\<rparr>)
   in map_option py_split (dict_get (gf_files g') ''/etc/fstab'') = Some [''LABEL=My'', ''Data'', ''/srv'', ''ext4'', ''defaults'']"
  by code_simp

text \<open>The mode that rewrites nothing still rewrites by-path entries of crypttab.\<close>

lemma noop_rewrites_crypttab:
  "fst (rewrite_crypttab (example_guest_env [(''/dev/sda2'', [(''UUID'', Some ''ab-12'')])]) example_io (example_rewriter NOOP) ''t''
     \<lparr>gf_files = [(''/etc/crypttab'', ''luks /dev/disk/by-path/pci-0-part2 none'')], gf_dirs = []\<rparr>) = Inr 1"
  by code_simp

end
