(* ===== verification/Fstab_Stabilizer.thy ===== *)
theory Fstab_Stabilizer
  imports Fstab_Rewriter
begin

text \<open>
  \<^verbatim>\<open>h2kvm/fixers/filesystem/stable_mount.py\<close> and
  \<^verbatim>\<open>h2kvm/fixers/filesystem/fstab_stabilizer.py\<close>: the second rewriter of fstab, with mount options
  and fsck settings by type of file system. The guest's answers (blkid, findfs, its devices) are an
  environment; the file is the one of \<^verbatim>\<open>Fstab_Rewriter\<close>'s guest.
\<close>

section \<open>File systems and identifiers\<close>

definition FS_TYPE_ALIASES :: "(string \<times> string) list" where
  "FS_TYPE_ALIASES = [(''fat'', ''vfat''), (''msdos'', ''vfat''), (''fat12'', ''vfat''), (''ntfs-3g'', ''ntfs''),
     (''ntfs3'', ''ntfs''), (''fuse.ntfs'', ''ntfs''), (''exfatfs'', ''exfat''), (''fuse.exfat'', ''exfat''),
     (''ext2fs'', ''ext2''), (''ext3fs'', ''ext3''), (''ext4fs'', ''ext4''), (''xfsfs'', ''xfs''), (''btrfsfs'', ''btrfs''),
     (''crypto_luks'', ''crypto_LUKS''), (''luks'', ''crypto_LUKS'')]"

definition dash_to_underscore :: "string \<Rightarrow> string" where
  "dash_to_underscore s = map (\<lambda>c. if c = CHR ''-'' then CHR ''_'' else c) s"

definition normalize_fs_type :: "string \<Rightarrow> string" where
  "normalize_fs_type fs_type =
     (let c = dash_to_underscore (py_lower (strip fs_type))
      in case map_of FS_TYPE_ALIASES c of None \<Rightarrow> c | Some t \<Rightarrow> t)"

record device_identifiers =
  di_device_path :: string
  di_uuid :: "string option"
  di_partuuid :: "string option"
  di_label :: "string option"
  di_partlabel :: "string option"
  di_fs_type :: "string option"

definition spec_if :: "string \<Rightarrow> string option \<Rightarrow> string option" where
  "spec_if k v = (case v of None \<Rightarrow> None | Some x \<Rightarrow> if x = [] then None else Some (k @ ''='' @ x))"

definition get_stable_spec :: "bool \<Rightarrow> device_identifiers \<Rightarrow> string option" where
  "get_stable_spec prefer_partuuid d =
     (case (if prefer_partuuid then spec_if ''PARTUUID'' (di_partuuid d) else None) of Some s \<Rightarrow> Some s | None \<Rightarrow>
      (case spec_if ''UUID'' (di_uuid d) of Some s \<Rightarrow> Some s | None \<Rightarrow>
       (case spec_if ''PARTUUID'' (di_partuuid d) of Some s \<Rightarrow> Some s | None \<Rightarrow>
        (case spec_if ''LABEL'' (di_label d) of Some s \<Rightarrow> Some s | None \<Rightarrow> spec_if ''PARTLABEL'' (di_partlabel d)))))"

record mount_env =
  me_blkid :: "string \<Rightarrow> (string, string option) dict option"
  me_findfs_uuid :: "string \<Rightarrow> string option"
  me_findfs_label :: "string \<Rightarrow> string option"
  me_devices :: "string list option"

text \<open>A type without a value raises after the identifiers were set; a failing probe leaves only the
  path.\<close>

definition get_device_identifiers :: "mount_env \<Rightarrow> string \<Rightarrow> device_identifiers" where
  "get_device_identifiers env dev =
     (case me_blkid env dev of
        None \<Rightarrow> \<lparr>di_device_path = dev, di_uuid = None, di_partuuid = None, di_label = None, di_partlabel = None, di_fs_type = None\<rparr>
      | Some m \<Rightarrow> (let get = (\<lambda>k. Option.bind (dict_get m k) id)
                   in \<lparr>di_device_path = dev, di_uuid = get ''UUID'', di_partuuid = get ''PARTUUID'', di_label = get ''LABEL'',
                       di_partlabel = get ''PARTLABEL'',
                       di_fs_type = (case dict_get m ''TYPE'' of
                          None \<Rightarrow> Some (normalize_fs_type ''unknown'') | Some v \<Rightarrow> map_option normalize_fs_type v)\<rparr>))"

definition is_stable_device_spec :: "string \<Rightarrow> bool" where
  "is_stable_device_spec spec = list_ex (\<lambda>p. startswith (py_upper spec) p) [''UUID='', ''PARTUUID='', ''LABEL='', ''PARTLABEL='']"

definition convert_btrfs_subvol_spec :: "bool \<Rightarrow> string \<Rightarrow> device_identifiers \<Rightarrow> string" where
  "convert_btrfs_subvol_spec prefer_partuuid spec d =
     (let s = (if startswith spec ''btrfsvol:'' then drop 9 spec else spec)
      in case get_stable_spec prefer_partuuid d of Some x \<Rightarrow> x | None \<Rightarrow> s)"

definition should_use_partuuid :: "string \<Rightarrow> string \<Rightarrow> string \<Rightarrow> bool" where
  "should_use_partuuid mountpoint fs_type context =
     (if fs_type = ''btrfs'' then True else mountpoint = ''/'' \<and> context = ''hypervisor_migration'')"

definition get_recommended_fs_check_freq :: "string \<Rightarrow> string \<Rightarrow> nat \<times> nat" where
  "get_recommended_fs_check_freq fs mountpoint =
     (let t = normalize_fs_type fs
      in if mountpoint = ''/''
         then (if t \<in> {''xfs'', ''btrfs'', ''f2fs'', ''zfs''} then (0, 0)
               else if t \<in> {''ext2'', ''ext3'', ''ext4''} then (1, 1) else (0, 1))
         else if t \<in> {''xfs'', ''btrfs'', ''f2fs'', ''zfs'', ''reiserfs'', ''jfs''} then (0, 0)
         else if t \<in> {''ext2'', ''ext3'', ''ext4''} then (1, 2)
         else (0, 0))"

record mount_options =
  mo_fs_type :: string
  mo_default_opts :: "string list"
  mo_recommended_opts :: "string list"
  mo_ro_opts :: "string list"

definition mk_options :: "string \<Rightarrow> string list \<Rightarrow> string list \<Rightarrow> string list \<Rightarrow> mount_options" where
  "mk_options fs d r ro = \<lparr>mo_fs_type = fs, mo_default_opts = d, mo_recommended_opts = r, mo_ro_opts = ro\<rparr>"

definition for_filesystem :: "string \<Rightarrow> mount_options" where
  "for_filesystem fs_type =
     (let t = normalize_fs_type fs_type;
          known = [(''ext2'', mk_options ''ext2'' [''errors=remount-ro''] [''noatime''] [''noload'']),
            (''ext3'', mk_options ''ext3'' [''errors=remount-ro''] [''noatime'', ''data=ordered''] [''noload'', ''norecovery'']),
            (''ext4'', mk_options ''ext4'' [''errors=remount-ro''] [''noatime''] [''noload'', ''norecovery'']),
            (''xfs'', mk_options ''xfs'' [''defaults''] [''noatime'', ''inode64''] [''norecovery'']),
            (''btrfs'', mk_options ''btrfs'' [''defaults''] [''noatime'', ''compress=zstd'', ''space_cache=v2''] [''norecovery'']),
            (''f2fs'', mk_options ''f2fs'' [''defaults''] [''noatime'', ''nodiscard''] [''ro'']),
            (''jfs'', mk_options ''jfs'' [''defaults''] [''noatime''] [''ro'']),
            (''reiserfs'', mk_options ''reiserfs'' [''defaults''] [''noatime'', ''notail''] [''ro'']),
            (''nilfs2'', mk_options ''nilfs2'' [''defaults''] [''noatime''] [''ro'']),
            (''vfat'', mk_options ''vfat'' [''defaults''] [''iocharset=utf8'', ''shortname=mixed'', ''errors=remount-ro''] [''ro'']),
            (''exfat'', mk_options ''exfat'' [''defaults''] [''iocharset=utf8'', ''errors=remount-ro''] [''ro'']),
            (''ntfs'', mk_options ''ntfs'' [''defaults''] [''permissions'', ''streams_interface=windows''] [''ro''])]
      in case map_of known t of Some o' \<Rightarrow> o' | None \<Rightarrow> mk_options t [''defaults''] [] [''ro''])"

fun preserve_opts :: "string list \<Rightarrow> string list \<Rightarrow> string list" where
  "preserve_opts opts [] = opts"
| "preserve_opts opts (x # xs) =
     (let c = strip x
      in if c \<noteq> [] \<and> c \<notin> set opts \<and> \<not> (c = ''defaults'' \<and> length opts > 1) then preserve_opts (opts @ [c]) xs
         else preserve_opts opts xs)"

fun uniq_opts :: "string list \<Rightarrow> string list \<Rightarrow> string list" where
  "uniq_opts seen [] = []"
| "uniq_opts seen (x # xs) = (if x \<in> set seen then uniq_opts seen xs else x # uniq_opts (x # seen) xs)"

definition build_options_string :: "mount_options \<Rightarrow> bool \<Rightarrow> string list option \<Rightarrow> string" where
  "build_options_string o' readonly existing =
     (let opts1 = (case existing of None \<Rightarrow> mo_default_opts o' | Some xs \<Rightarrow> preserve_opts (mo_default_opts o') xs);
          opts2 = (if readonly then fold (\<lambda>r os. if r \<in> set os then os else os @ [r]) (mo_ro_opts o') opts1 else opts1)
      in py_join '','' (uniq_opts [] opts2))"

section \<open>Entries\<close>

record fstab_entry =
  fe_spec :: string
  fe_mountpoint :: string
  fe_fs_type :: string
  fe_options :: string
  fe_dump :: int
  fe_pass_num :: int
  fe_original_line :: string
  fe_line_number :: nat

record fstab_conversion =
  fc_new_spec :: "string option"
  fc_new_options :: "string option"
  fc_new_dump :: "nat option"
  fc_new_pass :: "nat option"
  fc_converted :: bool
  fc_reason :: string

record stab_stats =
  st_total_entries :: nat
  st_converted :: nat
  st_already_stable :: nat
  st_skipped :: nat
  st_errors :: nat

record stab_config =
  sb_prefer_partuuid :: bool
  sb_preserve_options :: bool
  sb_optimize_options :: bool
  sb_context :: string

definition opt_field :: "string list \<Rightarrow> nat \<Rightarrow> py_exc + int" where
  "opt_field cols i = (if i < length cols then (case py_int (cols ! i) of None \<Rightarrow> Inl (ValueError (cols ! i)) | Some n \<Rightarrow> Inr n) else Inr 0)"

definition parse_fstab_line :: "string \<Rightarrow> nat \<Rightarrow> py_exc + fstab_entry option" where
  "parse_fstab_line line line_number =
     (let s = strip line
      in if s = [] \<or> startswith s ''#'' then Inr None
         else (let cols = py_split s
               in if length cols < 4 then Inr None
                  else (case opt_field cols 4 of
                          Inl e \<Rightarrow> Inl e
                        | Inr dump \<Rightarrow>
                            (case opt_field cols 5 of
                               Inl e \<Rightarrow> Inl e
                             | Inr pass_num \<Rightarrow>
                                 Inr (Some \<lparr>fe_spec = cols ! 0, fe_mountpoint = cols ! 1, fe_fs_type = normalize_fs_type (cols ! 2),
                                   fe_options = cols ! 3, fe_dump = dump, fe_pass_num = pass_num, fe_original_line = line,
                                   fe_line_number = line_number\<rparr>)))))"

definition non_empty :: "string option \<Rightarrow> string option" where
  "non_empty s = (if s = Some [] then None else s)"

definition resolve_device_path :: "mount_env \<Rightarrow> string \<Rightarrow> string option" where
  "resolve_device_path env spec =
     (if startswith spec ''/dev/'' then Some spec
      else if startswith spec ''UUID='' then non_empty (me_findfs_uuid env (drop 5 spec))
      else if startswith spec ''PARTUUID=''
      then (case me_devices env of
              None \<Rightarrow> None
            | Some devs \<Rightarrow> find (\<lambda>d. case me_blkid env d of None \<Rightarrow> False | Some m \<Rightarrow> dict_get m ''PARTUUID'' = Some (Some (drop 9 spec))) devs)
      else if startswith spec ''LABEL='' then non_empty (me_findfs_label env (drop 6 spec))
      else None)"

definition not_converted :: "string \<Rightarrow> fstab_conversion" where
  "not_converted reason = \<lparr>fc_new_spec = None, fc_new_options = None, fc_new_dump = None, fc_new_pass = None,
     fc_converted = False, fc_reason = reason\<rparr>"

definition special_fs :: "string list" where
  "special_fs = [''tmpfs'', ''devtmpfs'', ''sysfs'', ''proc'', ''devpts'', ''cgroup'', ''cgroup2'', ''securityfs'']"

definition new_spec_of :: "stab_config \<Rightarrow> fstab_entry \<Rightarrow> device_identifiers \<Rightarrow> string option" where
  "new_spec_of cfg entry ids =
     (if startswith (fe_spec entry) ''btrfsvol:'' \<or> fe_fs_type entry = ''btrfs''
      then non_empty (Some (convert_btrfs_subvol_spec (sb_prefer_partuuid cfg) (fe_spec entry) ids))
      else get_stable_spec (should_use_partuuid (fe_mountpoint entry) (fe_fs_type entry) (sb_context cfg) \<or> sb_prefer_partuuid cfg) ids)"

definition new_options_of :: "stab_config \<Rightarrow> fstab_entry \<Rightarrow> string" where
  "new_options_of cfg entry =
     (if sb_optimize_options cfg
      then (let existing = (if sb_preserve_options cfg then split_on CHR '','' (fe_options entry) else [])
            in build_options_string (for_filesystem (fe_fs_type entry)) (''ro'' \<in> set existing)
                 (if sb_preserve_options cfg then Some existing else None))
      else fe_options entry)"

definition convert_entry :: "mount_env \<Rightarrow> stab_config \<Rightarrow> fstab_entry \<Rightarrow> stab_stats \<Rightarrow> fstab_conversion \<times> stab_stats" where
  "convert_entry env cfg entry st =
     (if fe_fs_type entry \<in> set special_fs
      then (not_converted (''special_filesystem:'' @ fe_fs_type entry), st\<lparr>st_skipped := st_skipped st + 1\<rparr>)
      else if ''bind'' \<in> set (split_on CHR '','' (fe_options entry))
      then (not_converted ''bind_mount'', st\<lparr>st_skipped := st_skipped st + 1\<rparr>)
      else if is_stable_device_spec (fe_spec entry)
      then (not_converted ''already_stable'', st\<lparr>st_already_stable := st_already_stable st + 1\<rparr>)
      else (case non_empty (resolve_device_path env (fe_spec entry)) of
              None \<Rightarrow> (not_converted ''device_not_found'', st\<lparr>st_errors := st_errors st + 1\<rparr>)
            | Some dev \<Rightarrow>
                (case new_spec_of cfg entry (get_device_identifiers env dev) of
                   None \<Rightarrow> (not_converted ''no_stable_identifier_available'', st\<lparr>st_errors := st_errors st + 1\<rparr>)
                 | Some spec \<Rightarrow>
                     (let (dump, pass_num) = get_recommended_fs_check_freq (fe_fs_type entry) (fe_mountpoint entry)
                      in (\<lparr>fc_new_spec = Some spec, fc_new_options = Some (new_options_of cfg entry), fc_new_dump = Some dump,
                           fc_new_pass = Some pass_num, fc_converted = True, fc_reason = ''success''\<rparr>,
                          st\<lparr>st_converted := st_converted st + 1\<rparr>)))))"

definition format_fstab_line :: "fstab_entry \<Rightarrow> fstab_conversion \<Rightarrow> string" where
  "format_fstab_line entry c =
     (if \<not> fc_converted c then fe_original_line entry
      else (let spec = (case non_empty (fc_new_spec c) of None \<Rightarrow> fe_spec entry | Some s \<Rightarrow> s);
                options = (case non_empty (fc_new_options c) of None \<Rightarrow> fe_options entry | Some s \<Rightarrow> s);
                dump = (case fc_new_dump c of None \<Rightarrow> fe_dump entry | Some n \<Rightarrow> int n);
                pass_num = (case fc_new_pass c of None \<Rightarrow> fe_pass_num entry | Some n \<Rightarrow> int n)
            in ljust 40 spec @ '' '' @ ljust 20 (fe_mountpoint entry) @ '' '' @ ljust 10 (fe_fs_type entry) @ '' '' @
               ljust 30 options @ '' '' @ int_str dump @ '' '' @ int_str pass_num))"

section \<open>The file\<close>

record conversion_row =
  cr_line :: nat
  cr_original :: string
  cr_new :: "string option"
  cr_mountpoint :: string
  cr_fs_type :: string
  cr_converted :: bool
  cr_reason :: string

definition conversion_row_of :: "nat \<Rightarrow> fstab_entry \<Rightarrow> fstab_conversion \<Rightarrow> conversion_row" where
  "conversion_row_of n entry c = \<lparr>cr_line = n, cr_original = fe_spec entry, cr_new = fc_new_spec c, cr_mountpoint = fe_mountpoint entry,
     cr_fs_type = fe_fs_type entry, cr_converted = fc_converted c, cr_reason = fc_reason c\<rparr>"

text \<open>A malformed number raises out of the loop; the counters keep what was counted.\<close>

fun stabilize_lines :: "mount_env \<Rightarrow> stab_config \<Rightarrow> nat \<Rightarrow> string list \<Rightarrow> stab_stats \<Rightarrow>
    (py_exc, string list \<times> conversion_row list, stab_stats) outcome" where
  "stabilize_lines env cfg n [] st = (Inr ([], []), st)"
| "stabilize_lines env cfg n (l # ls) st =
     (let st1 = st\<lparr>st_total_entries := st_total_entries st + 1\<rparr>
      in case parse_fstab_line l n of
           Inl e \<Rightarrow> (Inl e, st1)
         | Inr None \<Rightarrow> map_prod (map_sum id (\<lambda>(out, rows). (l # out, rows))) id (stabilize_lines env cfg (Suc n) ls st1)
         | Inr (Some entry) \<Rightarrow>
             (let (c, st2) = convert_entry env cfg entry st1
              in map_prod (map_sum id (\<lambda>(out, rows). (format_fstab_line entry c # out, conversion_row_of n entry c # rows))) id
                   (stabilize_lines env cfg (Suc n) ls st2)))"

record stab_result =
  sr_success :: bool
  sr_stats :: "stab_stats option"
  sr_conversions :: "conversion_row list"
  sr_errors :: nat

definition stabilize_fstab :: "mount_env \<Rightarrow> guest_io \<Rightarrow> stab_config \<Rightarrow> string \<Rightarrow> guest \<Rightarrow> stab_stats \<Rightarrow>
    (py_exc, stab_result, guest \<times> stab_stats) outcome" where
  "stabilize_fstab env io cfg path g st =
     (case guest_read io g path of
        None \<Rightarrow> (Inr \<lparr>sr_success = False, sr_stats = None, sr_conversions = [], sr_errors = 1\<rparr>, (g, st))
      | Some text \<Rightarrow>
          (case stabilize_lines env cfg 1 (splitlines text) st of
             (Inl e, st1) \<Rightarrow> (Inl e, (g, st1))
           | (Inr (out, rows), st1) \<Rightarrow>
               (case guest_write io path (py_join [CHR 0x0A] out @ [CHR 0x0A]) g of
                  None \<Rightarrow> (Inr \<lparr>sr_success = False, sr_stats = None, sr_conversions = rows, sr_errors = 1\<rparr>, (g, st1))
                | Some g1 \<Rightarrow> (Inr \<lparr>sr_success = True, sr_stats = Some st1, sr_conversions = rows, sr_errors = 0\<rparr>, (g1, st1)))))"

section \<open>Counters\<close>

definition st_classified :: "stab_stats \<Rightarrow> nat" where
  "st_classified st = st_converted st + st_already_stable st + st_skipped st + st_errors st"

lemma convert_entry_counts:
  assumes "convert_entry env cfg entry st = (c, st')"
  shows "st_total_entries st' = st_total_entries st" "st_classified st' = st_classified st + 1"
    "st_converted st' = st_converted st + (if fc_converted c then 1 else 0)"
  using assms by (auto simp: convert_entry_def st_classified_def not_converted_def split: if_splits option.splits prod.splits)

lemma stabilize_lines_Cons:
  assumes "stabilize_lines env cfg n (l # ls) st = (Inr (out, rows), st')"
  obtains (kept) o' where "parse_fstab_line l n = Inr None"
      "stabilize_lines env cfg (Suc n) ls (st\<lparr>st_total_entries := st_total_entries st + 1\<rparr>) = (Inr (o', rows), st')" "out = l # o'"
  | (entry) e c st2 o' rs where "parse_fstab_line l n = Inr (Some e)"
      "convert_entry env cfg e (st\<lparr>st_total_entries := st_total_entries st + 1\<rparr>) = (c, st2)"
      "stabilize_lines env cfg (Suc n) ls st2 = (Inr (o', rs), st')" "out = format_fstab_line e c # o'" "rows = conversion_row_of n e c # rs"
proof (cases "parse_fstab_line l n")
  case (Inl e)
  then show ?thesis using assms by simp
next
  case (Inr x)
  let ?st = "st\<lparr>st_total_entries := st_total_entries st + 1\<rparr>"
  show ?thesis
  proof (cases x)
    case None
    obtain r s where r: "stabilize_lines env cfg (Suc n) ls ?st = (r, s)" by (cases "stabilize_lines env cfg (Suc n) ls ?st")
    show ?thesis using assms Inr None r by (cases r) (auto intro: kept)
  next
    case (Some e)
    obtain c st2 where c: "convert_entry env cfg e ?st = (c, st2)" by (cases "convert_entry env cfg e ?st")
    obtain r s where r: "stabilize_lines env cfg (Suc n) ls st2 = (r, s)" by (cases "stabilize_lines env cfg (Suc n) ls st2")
    show ?thesis using assms Inr Some c r by (cases r) (auto intro: entry)
  qed
qed

text \<open>
  The counters of the stabiliser account for every line: a run counts each line once,
  reports each entry once, and puts each entry in one of the classes converted, already stable, skipped
  or failed; the class converted counts the reported conversions, and the file keeps its number of
  lines.
\<close>
theorem stabilizer_accounts_for_entries:
  assumes "stabilize_lines env cfg n ls st = (Inr (out, rows), st')"
  shows "length out = length ls \<and> st_total_entries st' = st_total_entries st + length ls \<and>
    st_classified st' = st_classified st + length rows \<and> st_converted st' = st_converted st + length (filter cr_converted rows)"
  using assms
proof (induction ls arbitrary: n st out rows)
  case (Cons l ls)
  have c0: "st_classified (st\<lparr>st_total_entries := k\<rparr>) = st_classified st" for k by (simp add: st_classified_def)
  from Cons.prems show ?case
  proof (cases rule: stabilize_lines_Cons)
    case (kept o')
    with Cons.IH [OF kept(2)] c0 show ?thesis by simp
  next
    case (entry e c st2 o' rs)
    with Cons.IH [OF entry(3)] convert_entry_counts [OF entry(2)] c0 show ?thesis by (simp add: conversion_row_of_def)
  qed
qed simp

section \<open>Fields\<close>

lemma split_pad: "word w \<Longrightarrow> py_split (ljust n w @ CHR '' '' # s) = w # py_split s"
proof -
  assume w: "word w"
  have sp: "py_isspace CHR '' ''" by code_simp
  have "py_split (replicate k CHR '' '' @ CHR '' '' # s) = py_split s" for k by (induction k) (simp_all add: split_space sp)
  moreover have "py_split (w @ replicate k CHR '' '' @ CHR '' '' # s) = w # py_split (replicate k CHR '' '' @ CHR '' '' # s)" for k
    by (rule split_word_append [OF w]) (cases k; simp add: sp)
  ultimately show ?thesis by (simp add: ljust_def)
qed

lemma digits_word: "all_digits s \<Longrightarrow> word s"
  using digit_not_space by (auto simp: all_digits_def word_def list_all_iff)

lemma int_str_word: "word (int_str i)"
proof -
  have "word (nat_str n)" for n using nat_str_digits digits_word by blast
  moreover have "\<not> py_isspace CHR ''-''" by code_simp
  ultimately show ?thesis by (auto simp: int_str_def word_def)
qed

lemma split_int_str: "py_split (int_str i @ CHR '' '' # s) = int_str i # py_split s" "py_split (int_str i) = [int_str i]"
proof -
  have "py_isspace CHR '' ''" by code_simp
  then show "py_split (int_str i @ CHR '' '' # s) = int_str i # py_split s"
    using split_word_append [OF int_str_word, of "CHR '' '' # s"] by (simp add: split_space)
  show "py_split (int_str i) = [int_str i]" using split_word_append [OF int_str_word, of "[]"] by simp
qed

text \<open>The identifiers of all devices are without white space.\<close>

definition clean_ids :: "mount_env \<Rightarrow> bool" where
  "clean_ids env = (\<forall>dev p s. get_stable_spec p (get_device_identifiers env dev) = Some s \<longrightarrow> word s)"

lemma new_spec_word:
  assumes "clean_ids env" "word (fe_spec entry)" "new_spec_of cfg entry (get_device_identifiers env dev) = Some s"
  shows "word s"
proof -
  have "word (drop 9 (fe_spec entry))" if "drop 9 (fe_spec entry) \<noteq> []"
    using assms(2) that by (auto simp: word_def list_all_iff dest: in_set_dropD)
  then show ?thesis
    using assms by (auto simp: new_spec_of_def convert_btrfs_subvol_spec_def clean_ids_def non_empty_def Let_def word_def
        split: if_splits option.splits)
qed

lemma parse_entry:
  assumes "parse_fstab_line l n = Inr (Some e)"
  shows "\<exists>spec mp fs opts rest. py_split (strip l) = spec # mp # fs # opts # rest \<and> fe_spec e = spec \<and> fe_mountpoint e = mp \<and>
    fe_fs_type e = normalize_fs_type fs \<and> fe_options e = opts \<and> fe_original_line e = l"
proof -
  let ?cols = "py_split (strip l)"
  from assms have len: "\<not> length ?cols < 4" and e: "fe_spec e = ?cols ! 0" "fe_mountpoint e = ?cols ! 1"
    "fe_fs_type e = normalize_fs_type (?cols ! 2)" "fe_options e = ?cols ! 3" "fe_original_line e = l"
    by (auto simp: parse_fstab_line_def Let_def split: if_splits sum.splits)
  from len obtain a b c d r where "?cols = a # b # c # d # r"
    by (cases ?cols; cases "tl ?cols"; cases "tl (tl ?cols)"; cases "tl (tl (tl ?cols))") auto
  with e show ?thesis by simp
qed

lemma normalized_word: "word fs \<Longrightarrow> word (normalize_fs_type fs)"
proof -
  assume fs: "word fs"
  have "strip fs = fs" using strip_id word_ends [OF fs] by blast
  moreover have "\<not> py_isspace CHR ''_''" by code_simp
  ultimately have "word (dash_to_underscore (py_lower (strip fs)))"
    using fs by (auto simp: word_def list_all_iff dash_to_underscore_def py_lower_def)
  moreover have "list_all (\<lambda>(k, v). word v) FS_TYPE_ALIASES" by code_simp
  then have "word t" if "map_of FS_TYPE_ALIASES c = Some t" for c t using that by (auto simp: list_all_iff dest: map_of_SomeD)
  ultimately show ?thesis by (auto simp: normalize_fs_type_def Let_def split: option.splits)
qed

text \<open>A line of the new file: the old one, or its mount under a new identifier.\<close>

definition stabilized :: "string \<Rightarrow> string \<Rightarrow> bool" where
  "stabilized l l' = (l' = l \<or> (\<exists>spec mp fs opts rest spec' dump pass_num. py_split (strip l) = spec # mp # fs # opts # rest \<and>
     py_split l' = [spec', mp, normalize_fs_type fs, opts, dump, pass_num] \<and> (is_stable spec' \<or> normalize_fs_type fs = ''btrfs'')))"

lemma stable_spec_stable: "get_stable_spec p d = Some s \<Longrightarrow> is_stable s"
  using stable_prefix [of "''UUID=''"] stable_prefix [of "''PARTUUID=''"] stable_prefix [of "''LABEL=''"] stable_prefix [of "''PARTLABEL=''"]
  by (auto simp: get_stable_spec_def spec_if_def stable_prefixes_def split: option.splits if_splits)

lemma dev_not_btrfsvol: "resolve_device_path env spec = Some d \<Longrightarrow> \<not> startswith spec ''btrfsvol:''"
  by (auto simp: resolve_device_path_def startswith_def split: if_splits elim!: prefixE)

lemma convert_entry_stabilized:
  assumes "clean_ids env" "\<not> sb_optimize_options cfg" "parse_fstab_line l n = Inr (Some e)" "convert_entry env cfg e st = (c, st')"
  shows "stabilized l (format_fstab_line e c)"
proof (cases "fc_converted c")
  case False
  then show ?thesis using parse_entry [OF assms(3)] by (auto simp: format_fstab_line_def stabilized_def)
next
  case True
  obtain spec mp fs opts rest where p: "py_split (strip l) = spec # mp # fs # opts # rest" and e: "fe_spec e = spec" "fe_mountpoint e = mp"
    "fe_fs_type e = normalize_fs_type fs" "fe_options e = opts" using parse_entry [OF assms(3)] by blast
  have w: "word spec" "word mp" "word (normalize_fs_type fs)" "word opts"
    using split_words [of _ "strip l"] normalized_word p by auto
  from True assms(4) obtain dev s where dev: "non_empty (resolve_device_path env (fe_spec e)) = Some dev"
    and s: "new_spec_of cfg e (get_device_identifiers env dev) = Some s"
    and c: "fc_new_spec c = Some s" "fc_new_options c = Some opts" "fc_new_dump c \<noteq> None" "fc_new_pass c \<noteq> None"
    by (auto simp: convert_entry_def not_converted_def new_options_of_def assms(2) e split: if_splits option.splits prod.splits)
  have ws: "word s" using new_spec_word [OF assms(1) _ s] w(1) e(1) by simp
  have "\<not> startswith (fe_spec e) ''btrfsvol:''" using dev dev_not_btrfsvol by (auto simp: non_empty_def split: if_splits)
  then have st: "is_stable s \<or> normalize_fs_type fs = ''btrfs''"
    using s e(3) by (auto simp: new_spec_of_def stable_spec_stable split: if_splits)
  obtain dump pass_num where "format_fstab_line e c = ljust 40 s @ CHR '' '' # ljust 20 mp @ CHR '' '' # ljust 10 (normalize_fs_type fs) @
      CHR '' '' # ljust 30 opts @ CHR '' '' # int_str dump @ CHR '' '' # int_str pass_num"
    using True c ws w(4) e by (auto simp: format_fstab_line_def non_empty_def word_def)
  then have "py_split (format_fstab_line e c) = [s, mp, normalize_fs_type fs, opts, int_str dump, int_str pass_num]"
    by (simp add: split_pad ws w split_int_str)
  with p st show ?thesis unfolding stabilized_def by blast
qed

text \<open>
  Stabilising keeps every mount: each line of the result is the old line, or names the
  same mount point with the same options and the normalised type, under a stable identifier unless the
  file system is Btrfs.
\<close>
theorem stabilizer_keeps_mounts:
  assumes "clean_ids env" and "\<not> sb_optimize_options cfg" and "stabilize_lines env cfg n ls st = (Inr (out, rows), st')"
  shows "list_all2 stabilized ls out"
  using assms(3)
proof (induction ls arbitrary: n st out rows)
  case (Cons l ls)
  from Cons.prems show ?case
  proof (cases rule: stabilize_lines_Cons)
    case (kept o')
    with Cons.IH [OF kept(2)] show ?thesis by (simp add: stabilized_def)
  next
    case (entry e c st2 o' rs)
    with Cons.IH [OF entry(3)] convert_entry_stabilized [OF assms(1,2) entry(1,2)] show ?thesis by simp
  qed
qed simp

section \<open>Examples\<close>

definition example_mount_env :: "(string \<times> (string, string option) dict) list \<Rightarrow> mount_env" where
  "example_mount_env tags = \<lparr>me_blkid = map_of tags, me_findfs_uuid = (\<lambda>_. None), me_findfs_label = (\<lambda>_. None), me_devices = None\<rparr>"

definition example_stab_config :: stab_config where
  "example_stab_config = \<lparr>sb_prefer_partuuid = False, sb_preserve_options = True, sb_optimize_options = False, sb_context = ''hypervisor_migration''\<rparr>"

definition no_stats :: stab_stats where
  "no_stats = \<lparr>st_total_entries = 0, st_converted = 0, st_already_stable = 0, st_skipped = 0, st_errors = 0\<rparr>"

abbreviation "stab_lines \<equiv> [''# root'', ''/dev/sda1 / ext4 defaults 0 1'', ''UUID=7 /home xfs defaults'']"

abbreviation "stab_env \<equiv> example_mount_env [(''/dev/sda1'', [(''UUID'', Some ''ab-12'')])]"

lemma stab_env_clean: "clean_ids stab_env"
proof -
  have "word ''UUID=ab-12''" by code_simp
  then show ?thesis
    by (auto simp: clean_ids_def get_device_identifiers_def example_mount_env_def get_stable_spec_def spec_if_def Let_def
        split: option.splits if_splits)
qed

lemma stab_example:
  "stabilize_lines stab_env example_stab_config 1 stab_lines no_stats =
    (Inr ([''# root'', ljust 40 ''UUID=ab-12'' @ '' '' @ ljust 20 ''/'' @ '' '' @ ljust 10 ''ext4'' @ '' '' @ ljust 30 ''defaults'' @ '' 1 1'',
        ''UUID=7 /home xfs defaults''],
      [\<lparr>cr_line = 2, cr_original = ''/dev/sda1'', cr_new = Some ''UUID=ab-12'', cr_mountpoint = ''/'', cr_fs_type = ''ext4'',
         cr_converted = True, cr_reason = ''success''\<rparr>,
       \<lparr>cr_line = 3, cr_original = ''UUID=7'', cr_new = None, cr_mountpoint = ''/home'', cr_fs_type = ''xfs'',
         cr_converted = False, cr_reason = ''already_stable''\<rparr>]),
     \<lparr>st_total_entries = 3, st_converted = 1, st_already_stable = 1, st_skipped = 0, st_errors = 0\<rparr>)"
  by code_simp

theorem stabilizer_accounts_for_entries_witness:
  "\<exists>out rows st'. stabilize_lines stab_env example_stab_config 1 stab_lines no_stats = (Inr (out, rows), st') \<and> length rows = 2 \<and>
     st_total_entries st' = 3 \<and> st_classified st' = 2 \<and> st_converted st' = length (filter cr_converted rows)"
  using stab_example stabilizer_accounts_for_entries [OF stab_example] by (auto simp: st_classified_def)

theorem stabilizer_keeps_mounts_witness:
  "\<exists>out rows st'. stabilize_lines stab_env example_stab_config 1 stab_lines no_stats = (Inr (out, rows), st') \<and>
     list_all2 stabilized stab_lines out \<and> out \<noteq> stab_lines"
proof -
  have n: "\<not> sb_optimize_options example_stab_config" by (simp add: example_stab_config_def)
  from stabilizer_keeps_mounts [OF stab_env_clean n stab_example] stab_example show ?thesis
    by (intro exI conjI) (assumption, assumption, simp add: ljust_def)
qed

text \<open>A comment after the options makes the run raise: the text after the hash is read as a number.\<close>

lemma trailing_comment_raises:
  "fst (stabilize_lines env cfg 1 [''/dev/sda1 / ext4 defaults # root''] st) = Inl (ValueError ''#'')"
proof -
  have "parse_fstab_line ''/dev/sda1 / ext4 defaults # root'' 1 = Inl (ValueError ''#'')" by code_simp
  then show ?thesis by simp
qed

text \<open>The alias of ntfs-3g is looked up after its dash was replaced: the type becomes one that does not
  exist.\<close>

lemma ntfs_3g_not_normalized: "normalize_fs_type ''ntfs-3g'' = ''ntfs_3g''"
  by code_simp

text \<open>A Btrfs entry without identifiers is reported as converted and keeps its device.\<close>

lemma btrfs_without_id_reported_converted:
  "map_prod (map_sum id (map cr_converted \<circ> snd)) st_converted
     (stabilize_lines (example_mount_env []) example_stab_config 1 [''/dev/sda2 /srv btrfs defaults''] no_stats) = (Inr [True], 1)"
  by code_simp

text \<open>Specifications of Btrfs volumes are never resolved.\<close>

lemma btrfsvol_not_resolved: "startswith spec ''btrfsvol:'' \<Longrightarrow> resolve_device_path env spec = None"
  using dev_not_btrfsvol by (cases "resolve_device_path env spec") auto

end
