(* ===== verification/Firmware_Resolver.thy ===== *)
theory Firmware_Resolver
  imports Py_Text
begin

text \<open>
  The choice between BIOS and UEFI for a migrated machine (\<^verbatim>\<open>h2kvm/core/firmware_resolver.py\<close>): an
  explicit choice of the operator wins, otherwise the signals of the disk, the source and the guest are
  scored. The lemmas say which signals decide, in particular for disks that UEFI cannot boot, and what the
  recogniser of failed boots takes for a failure.
\<close>

section \<open>Signals and resolutions\<close>

record firmware_signals =
  sig_boot_mode :: "string option"
  sig_partition_scheme :: "string option"
  has_efi_partition :: "bool option"
  windows_bcd_bios :: bool
  windows_bcd_uefi :: bool
  hyperv_generation :: "int option"
  ovf_firmware :: "string option"
  sig_is_windows :: bool

definition FirmwareSignals :: firmware_signals where
  "FirmwareSignals = \<lparr>sig_boot_mode = None, sig_partition_scheme = None, has_efi_partition = None, windows_bcd_bios = False,
     windows_bcd_uefi = False, hyperv_generation = None, ovf_firmware = None, sig_is_windows = False\<rparr>"

record firmware_resolution =
  res_firmware :: string
  res_user_mode :: string
  res_source :: string
  res_confidence :: string
  res_alternate :: "string option"
  res_signals :: "(string, json) dict"

definition reconcile_legacy_firmware_flags :: "string option \<Rightarrow> bool option \<Rightarrow> string" where
  "reconcile_legacy_firmware_flags firmware_mode uefi_flag =
     (let mode = py_lower (strip (case firmware_mode of None \<Rightarrow> ''auto'' | Some s \<Rightarrow> if s = [] then ''auto'' else s))
      in if mode \<in> {''bios'', ''uefi''} then mode
         else if uefi_flag = Some True then ''uefi''
         else ''auto'')"

definition normalize_user_firmware_mode :: "string option \<Rightarrow> bool option \<Rightarrow> string" where
  "normalize_user_firmware_mode firmware_mode uefi_flag = reconcile_legacy_firmware_flags firmware_mode uefi_flag"

section \<open>Scores\<close>

text \<open>A signal that holds adds its weight and its reason.\<close>

fun tally :: "(bool \<times> int \<times> string) list \<Rightarrow> int \<times> string list" where
  "tally [] = (0, [])"
| "tally ((holds, weight, reason) # rest) =
     (let (score, reasons) = tally rest in if holds then (weight + score, reason # reasons) else (score, reasons))"

definition bios_signals :: "firmware_signals \<Rightarrow> (bool \<times> int \<times> string) list" where
  "bios_signals s =
     [(sig_boot_mode s = Some ''bios'', 40, ''offline_boot_mode=bios''),
      (windows_bcd_bios s \<and> \<not> windows_bcd_uefi s, 35, ''windows_bcd=bios''),
      (sig_partition_scheme s = Some ''mbr'', 25, ''partition_table=mbr''),
      (has_efi_partition s = Some False, 20, ''no_efi_partition''),
      (hyperv_generation s = Some 1, 15, ''hyperv_gen1''),
      (ovf_firmware s = Some ''bios'', 15, ''ovf_firmware=bios'')]"

definition score_bios :: "firmware_signals \<Rightarrow> int \<times> string list" where
  "score_bios s = tally (bios_signals s)"

definition uefi_signals :: "firmware_signals \<Rightarrow> (bool \<times> int \<times> string) list" where
  "uefi_signals s =
     [(sig_boot_mode s = Some ''uefi'', 40, ''offline_boot_mode=uefi''),
      (windows_bcd_uefi s \<and> \<not> windows_bcd_bios s, 35, ''windows_bcd=uefi''),
      (has_efi_partition s = Some True, 30, ''efi_system_partition''),
      (sig_partition_scheme s = Some ''gpt'', 20, ''partition_table=gpt''),
      (hyperv_generation s = Some 2, 15, ''hyperv_gen2''),
      (ovf_firmware s = Some ''uefi'', 15, ''ovf_firmware=uefi'')]"

definition score_uefi :: "firmware_signals \<Rightarrow> int \<times> string list" where
  "score_uefi s = tally (uefi_signals s)"

definition opt_str :: "string option \<Rightarrow> json" where
  "opt_str x = (case x of None \<Rightarrow> JNull | Some s \<Rightarrow> JStr s)"

definition signal_map :: "firmware_signals \<Rightarrow> (string, json) dict" where
  "signal_map s =
     [(''boot_mode'', opt_str (sig_boot_mode s)), (''partition_scheme'', opt_str (sig_partition_scheme s)),
      (''has_efi_partition'', case has_efi_partition s of None \<Rightarrow> JNull | Some b \<Rightarrow> JBool b),
      (''windows_bcd_bios'', JBool (windows_bcd_bios s)), (''windows_bcd_uefi'', JBool (windows_bcd_uefi s)),
      (''hyperv_generation'', case hyperv_generation s of None \<Rightarrow> JNull | Some i \<Rightarrow> JInt i),
      (''ovf_firmware'', opt_str (ovf_firmware s)), (''is_windows'', JBool (sig_is_windows s))]"

text \<open>The two adjustments: two boot stores of Windows, and disks that OVMF cannot boot.\<close>

definition adjust_dual_bcd :: "firmware_signals \<Rightarrow> (int \<times> string list) \<times> (int \<times> string list) \<Rightarrow> (int \<times> string list) \<times> (int \<times> string list)" where
  "adjust_dual_bcd s sc = (case sc of ((b, br), (u, ur)) \<Rightarrow>
     if windows_bcd_bios s \<and> windows_bcd_uefi s then
       if sig_partition_scheme s = Some ''mbr'' \<or> has_efi_partition s = Some False
       then ((b + 25, br @ [''dual_bcd_prefer_mbr'']), (u, ur))
       else if sig_partition_scheme s = Some ''gpt'' \<or> has_efi_partition s = Some True
       then ((b, br), (u + 25, ur @ [''dual_bcd_prefer_gpt'']))
       else sc
     else sc)"

definition adjust_mbr :: "firmware_signals \<Rightarrow> (int \<times> string list) \<times> (int \<times> string list) \<Rightarrow> (int \<times> string list) \<times> (int \<times> string list)" where
  "adjust_mbr s sc = (case sc of ((b, br), (u, ur)) \<Rightarrow>
     if sig_partition_scheme s = Some ''mbr'' \<and> has_efi_partition s = Some False
     then ((b + 30, br @ [''mbr_no_efi_requires_bios'']), (u, ur))
     else sc)"

definition confidence_of :: "int \<Rightarrow> string" where
  "confidence_of score = (if score \<ge> 40 then ''high'' else if score \<ge> 20 then ''medium'' else ''low'')"

definition resolve_firmware :: "string \<Rightarrow> firmware_signals option \<Rightarrow> firmware_resolution" where
  "resolve_firmware user_mode signals =
     (let sig = (case signals of None \<Rightarrow> FirmwareSignals | Some s \<Rightarrow> s)
      in if user_mode \<in> {''bios'', ''uefi''}
         then \<lparr>res_firmware = user_mode, res_user_mode = user_mode, res_source = ''user_override'', res_confidence = ''high'',
               res_alternate = Some (if user_mode = ''bios'' then ''uefi'' else ''bios''), res_signals = signal_map sig\<rparr>
         else (case adjust_mbr sig (adjust_dual_bcd sig (score_bios sig, score_uefi sig)) of ((b, br), (u, ur)) \<Rightarrow>
           if b = 0 \<and> u = 0
           then \<lparr>res_firmware = ''bios'', res_user_mode = ''auto'', res_source = ''default_safe'', res_confidence = ''low'',
                 res_alternate = Some ''uefi'', res_signals = signal_map sig\<rparr>
           else if u > b
           then \<lparr>res_firmware = ''uefi'', res_user_mode = ''auto'', res_source = ''auto:'' @ py_join '','' (take 4 ur),
                 res_confidence = confidence_of u, res_alternate = Some ''bios'', res_signals = signal_map sig\<rparr>
           else \<lparr>res_firmware = ''bios'', res_user_mode = ''auto'', res_source = ''auto:'' @ py_join '','' (take 4 br),
                 res_confidence = confidence_of b, res_alternate = Some ''uefi'', res_signals = signal_map sig\<rparr>))"

section \<open>Failed boots\<close>

definition UEFI_BOOT_FAILURE_PATTERNS :: "string list" where
  "UEFI_BOOT_FAILURE_PATTERNS = [''no bootable option or device was found'', ''could not load boot'', ''bdsdxe: failed to load'', ''boot0001'']"

definition BIOS_BOOT_FAILURE_PATTERNS :: "string list" where
  "BIOS_BOOT_FAILURE_PATTERNS = [''no bootable device'', ''boot failed'', ''disk boot failure'', ''reboot and select proper boot device'',
     ''no operating system'']"

definition serial_indicates_boot_failure :: "string \<Rightarrow> bool \<Rightarrow> bool" where
  "serial_indicates_boot_failure text current_uefi =
     (let blob = py_lower text
      in if strip blob = [] then False
         else list_ex (\<lambda>p. contains p blob) (if current_uefi then UEFI_BOOT_FAILURE_PATTERNS else BIOS_BOOT_FAILURE_PATTERNS))"

section \<open>What the resolver decides\<close>

lemmas score_defs = resolve_firmware_def adjust_mbr_def adjust_dual_bcd_def score_bios_def score_uefi_def bios_signals_def uefi_signals_def

lemma resolve_user: "mode \<in> {''bios'', ''uefi''} \<Longrightarrow> res_firmware (resolve_firmware mode s) = mode"
  by (auto simp: resolve_firmware_def Let_def)

lemma resolve_is_mode: "res_firmware (resolve_firmware mode s) \<in> {''bios'', ''uefi''}"
  by (auto simp: resolve_firmware_def Let_def split: prod.splits)

lemma alternate_differs: "\<exists>a. res_alternate (resolve_firmware mode s) = Some a \<and> a \<in> {''bios'', ''uefi''} \<and> a \<noteq> res_firmware (resolve_firmware mode s)"
  by (auto simp: resolve_firmware_def Let_def split: prod.splits)

lemma auto_uefi_iff:
  assumes "mode \<notin> {''bios'', ''uefi''}"
  shows "res_firmware (resolve_firmware mode (Some s)) = ''uefi'' \<longleftrightarrow>
    fst (snd (adjust_mbr s (adjust_dual_bcd s (score_bios s, score_uefi s)))) >
    fst (fst (adjust_mbr s (adjust_dual_bcd s (score_bios s, score_uefi s))))"
  using assms by (auto simp: resolve_firmware_def Let_def split: prod.splits)


lemma fst_tally [simp]: "fst (tally xs) = (\<Sum>(holds, weight, reason)\<leftarrow>xs. if holds then weight else 0)"
  by (induction xs rule: tally.induct) (auto simp: Let_def split: prod.splits)

lemma adjusted_scores:
  "fst (fst (adjust_mbr s (adjust_dual_bcd s (x, y)))) = fst x +
     (if windows_bcd_bios s \<and> windows_bcd_uefi s \<and> (sig_partition_scheme s = Some ''mbr'' \<or> has_efi_partition s = Some False) then 25 else 0) +
     (if sig_partition_scheme s = Some ''mbr'' \<and> has_efi_partition s = Some False then 30 else 0)"
  "fst (snd (adjust_mbr s (adjust_dual_bcd s (x, y)))) = fst y +
     (if windows_bcd_bios s \<and> windows_bcd_uefi s \<and> \<not> (sig_partition_scheme s = Some ''mbr'' \<or> has_efi_partition s = Some False) \<and>
         (sig_partition_scheme s = Some ''gpt'' \<or> has_efi_partition s = Some True) then 25 else 0)"
  by (cases x; cases y; simp add: adjust_mbr_def adjust_dual_bcd_def)+

text \<open>
  An unbootable choice. On a disk with an MBR partition table and no EFI system partition, which UEFI
  firmware cannot boot, the automatic resolution still chooses UEFI in exactly one situation: the offline
  inspection and the Windows boot store both say UEFI, and the source (Hyper-V generation or OVF) says so
  too without being contradicted.
\<close>
theorem mbr_disk_resolves_to_uefi_iff:
  assumes "mode \<notin> {''bios'', ''uefi''}" and "sig_partition_scheme s = Some ''mbr''" and "has_efi_partition s = Some False"
  shows "res_firmware (resolve_firmware mode (Some s)) = ''uefi'' \<longleftrightarrow>
    sig_boot_mode s = Some ''uefi'' \<and> windows_bcd_uefi s \<and> \<not> windows_bcd_bios s \<and>
    ((hyperv_generation s = Some 2 \<and> ovf_firmware s \<noteq> Some ''bios'') \<or> (ovf_firmware s = Some ''uefi'' \<and> hyperv_generation s \<noteq> Some 1))"
  unfolding auto_uefi_iff [OF assms(1)] adjusted_scores score_bios_def score_uefi_def fst_tally bios_signals_def uefi_signals_def
  using assms(2,3) by auto

theorem mbr_disk_resolves_to_uefi_iff_witness:
  "res_firmware (resolve_firmware ''auto'' (Some (FirmwareSignals\<lparr>sig_boot_mode := Some ''uefi'', sig_partition_scheme := Some ''mbr'',
     has_efi_partition := Some False, windows_bcd_uefi := True, hyperv_generation := Some 2\<rparr>))) = ''uefi''"
  using mbr_disk_resolves_to_uefi_iff [of "''auto''" "FirmwareSignals\<lparr>sig_boot_mode := Some ''uefi'', sig_partition_scheme := Some ''mbr'',
     has_efi_partition := Some False, windows_bcd_uefi := True, hyperv_generation := Some 2\<rparr>"]
  by (simp add: FirmwareSignals_def)

text \<open>Unanimous evidence decides.\<close>

definition says :: "(bool \<times> int \<times> string) list \<Rightarrow> bool" where
  "says signals = list_ex fst signals"

lemma sum_signals:
  "(\<forall>x\<in>set xs. fst (snd x) > 0) \<Longrightarrow>
   (\<Sum>(holds, weight, reason)\<leftarrow>xs. if holds then weight else 0) \<ge> (0::int) \<and>
   ((\<Sum>(holds, weight, reason)\<leftarrow>xs. if holds then weight else 0) > (0::int) \<longleftrightarrow> says xs)"
  by (induction xs) (auto simp: says_def split: if_splits)

lemma unanimous_evidence:
  assumes "mode \<notin> {''bios'', ''uefi''}"
  shows "says (uefi_signals s) \<Longrightarrow> \<not> says (bios_signals s) \<Longrightarrow> res_firmware (resolve_firmware mode (Some s)) = ''uefi''"
    and "\<not> says (uefi_signals s) \<Longrightarrow> res_firmware (resolve_firmware mode (Some s)) = ''bios''"
proof -
  have w: "\<forall>x\<in>set (bios_signals s). fst (snd x) > 0" "\<forall>x\<in>set (uefi_signals s). fst (snd x) > 0"
    by (simp_all add: bios_signals_def uefi_signals_def)
  have "fst (score_bios s) \<ge> 0" "fst (score_bios s) > 0 \<longleftrightarrow> says (bios_signals s)"
    "fst (score_uefi s) \<ge> 0" "fst (score_uefi s) > 0 \<longleftrightarrow> says (uefi_signals s)"
    using sum_signals [OF w(1)] sum_signals [OF w(2)] by (simp_all add: score_bios_def score_uefi_def)
  note sc = this
  have nb: "\<not> (sig_partition_scheme s = Some ''mbr'' \<or> has_efi_partition s = Some False)" if "\<not> says (bios_signals s)"
    using that by (auto simp: says_def bios_signals_def)
  have nu: "\<not> (sig_partition_scheme s = Some ''gpt'' \<or> has_efi_partition s = Some True)" if "\<not> says (uefi_signals s)"
    using that by (auto simp: says_def uefi_signals_def)
  show "res_firmware (resolve_firmware mode (Some s)) = ''uefi''" if "says (uefi_signals s)" "\<not> says (bios_signals s)"
    unfolding auto_uefi_iff [OF assms] adjusted_scores using nb [OF that(2)] sc that by auto
  have "res_firmware (resolve_firmware mode (Some s)) \<noteq> ''uefi''" if "\<not> says (uefi_signals s)"
    unfolding auto_uefi_iff [OF assms] adjusted_scores using nu [OF that] sc that by auto
  then show "res_firmware (resolve_firmware mode (Some s)) = ''bios''" if "\<not> says (uefi_signals s)"
    using that resolve_is_mode [of mode "Some s"] by blast
qed

end
