(* ===== verification/Guest_Profile.thy ===== *)
theory Guest_Profile
  imports Py_Text
begin

text \<open>
  The guest profile of a deployed machine
  (\<^verbatim>\<open>h2kvm/infrastructure/deployers/kubevirt_guest_profile.py\<close>): reading \<^verbatim>\<open>/etc/os-release\<close>, the
  name of the operating system variant, and the VirtualMachine document built from it. The attributes of
  the parsed command line are a record that the orchestrator extends; a missing attribute is None.
\<close>

section \<open>Arguments and reports\<close>

record guest_args =
  arg_guest_os :: "string option"
  arg_windows :: bool
  k8s_os_variant :: "string option"
  os_variant_arg :: "string option"
  linux_os_variant :: "string option"
  linux_distro :: "string option"
  detected_distro :: "string option"
  linux_version :: "string option"
  detected_version :: "string option"
  linux_os_pretty_name :: "string option"
  detected_os_pretty_name :: "string option"
  linux_os_release :: "string option"
  arg_fixer_report :: "json option"
  arg_uefi :: "bool option"
  win_secure_boot :: "bool option"

text \<open>\<^verbatim>\<open>x or default\<close> on an optional string, and \<^verbatim>\<open>d.get(k) or {}\<close> on a report, whose sections are objects.\<close>

definition str_or :: "string option \<Rightarrow> string \<Rightarrow> string" where
  "str_or x d = (case x of None \<Rightarrow> d | Some s \<Rightarrow> if s = [] then d else s)"

definition report_section :: "json \<Rightarrow> string \<Rightarrow> json" where
  "report_section d k = (case json_get d k JNull of JObj fs \<Rightarrow> JObj fs | _ \<Rightarrow> JObj [])"

definition report_text :: "json \<Rightarrow> string \<Rightarrow> string" where
  "report_text d k = (case json_get d k JNull of JStr s \<Rightarrow> s | _ \<Rightarrow> [])"

definition guest_os_of :: "'a guest_args_scheme \<Rightarrow> string" where
  "guest_os_of a = py_lower (strip (str_or (arg_guest_os a) []))"

definition is_windows_guest :: "'a guest_args_scheme \<Rightarrow> bool" where
  "is_windows_guest a = (if guest_os_of a = ''windows'' then True else arg_windows a)"

definition non_blank :: "string option \<Rightarrow> string option" where
  "non_blank raw = (case raw of None \<Rightarrow> None | Some s \<Rightarrow> if strip s = [] then None else Some (strip s))"

fun first_some :: "'a option list \<Rightarrow> 'a option" where
  "first_some [] = None"
| "first_some (x # xs) = (case x of None \<Rightarrow> first_some xs | Some v \<Rightarrow> Some v)"

definition explicit_os_variant :: "'a guest_args_scheme \<Rightarrow> string option" where
  "explicit_os_variant a = first_some (map non_blank [k8s_os_variant a, os_variant_arg a, linux_os_variant a])"

definition looks_windows_variant :: "string \<Rightarrow> bool" where
  "looks_windows_variant variant = (let v = py_lower variant in startswith v ''win'' \<or> contains ''windows'' v)"

section \<open>The identity file of a Linux guest\<close>

definition strip_char :: "char \<Rightarrow> string \<Rightarrow> string" where
  "strip_char q s = rev (dropWhile (\<lambda>c. c = q) (rev (dropWhile (\<lambda>c. c = q) s)))"

fun os_release_loop :: "string list \<Rightarrow> (string, string) dict \<Rightarrow> (string, string) dict" where
  "os_release_loop [] out = out"
| "os_release_loop (raw # rest) out =
     (let line = strip raw
      in if line = [] \<or> startswith line ''#'' then os_release_loop rest out
         else (case split_once ''='' line of
                 None \<Rightarrow> os_release_loop rest out
               | Some (key, val) \<Rightarrow>
                   os_release_loop rest (dict_set (strip key) (strip_char (CHR 0x27) (strip_char (CHR 0x22) (strip val))) out)))"

definition parse_os_release :: "string \<Rightarrow> (string, string) dict" where
  "parse_os_release text = os_release_loop (splitlines text) []"

definition report_os_release :: "json \<Rightarrow> string" where
  "report_os_release report = report_text (report_section (report_section report ''analysis'') ''guest'') ''os_release''"

definition os_release_from_args :: "'a guest_args_scheme \<Rightarrow> (string, string) dict" where
  "os_release_from_args a =
     (if str_or (linux_os_release a) [] \<noteq> [] then parse_os_release (str_or (linux_os_release a) [])
      else (case arg_fixer_report a of
              Some report \<Rightarrow> if report_os_release report \<noteq> [] then parse_os_release (report_os_release report) else []
            | None \<Rightarrow> []))"

definition linux_hints_from_args :: "'a guest_args_scheme \<Rightarrow> bool" where
  "linux_hints_from_args a =
     (str_or (linux_distro a) [] \<noteq> [] \<or> str_or (detected_distro a) [] \<noteq> [] \<or> os_release_from_args a \<noteq> [] \<or>
      (case arg_fixer_report a of Some report \<Rightarrow> report_os_release report \<noteq> [] | None \<Rightarrow> False))"

definition is_linux_guest :: "'a guest_args_scheme \<Rightarrow> bool" where
  "is_linux_guest a =
     (if is_windows_guest a then False
      else if guest_os_of a \<in> {''linux'', ''lin''} then True
      else if guest_os_of a = ''windows'' then False
      else if (case explicit_os_variant a of Some v \<Rightarrow> \<not> looks_windows_variant v | None \<Rightarrow> False) then True
      else if linux_hints_from_args a then True
      else \<not> is_windows_guest a)"

section \<open>Names of variants\<close>

definition minor_suffix :: "string \<Rightarrow> string" where
  "minor_suffix ver = (case split_on (CHR ''.'') ver of _ # m # _ \<Rightarrow> m | _ \<Rightarrow> ''0'')"

definition major_of :: "string \<Rightarrow> string" where
  "major_of ver = (if ver = [] then [] else hd (split_on (CHR ''.'') ver))"

definition kubevirt_os_variant :: "string \<Rightarrow> string \<Rightarrow> string \<Rightarrow> string option" where
  "kubevirt_os_variant distro_id version_id id_like =
     (let did = strip (py_lower distro_id); ver = strip version_id; like = py_lower id_like; major = major_of ver
      in if did \<in> {''rhel'', ''redhat''} \<or> (did = ''centos'' \<and> contains ''rhel'' like)
         then Some (if major \<in> {''6'', ''7'', ''8'', ''9'', ''10''} then ''rhel'' @ major @ ''.'' @ minor_suffix ver
                    else if major = [] then ''rhel8.0'' else ''rhel'' @ major @ ''.0'')
         else if did = ''rocky'' then Some (if major \<noteq> [] then ''rocky'' @ major @ ''.'' @ minor_suffix ver else ''rocky9.0'')
         else if did \<in> {''almalinux'', ''alma''}
         then Some (if major \<noteq> [] then ''almalinux'' @ major @ ''.'' @ minor_suffix ver else ''almalinux9.0'')
         else if did = ''centos''
         then Some (if major = ''7'' then ''centos7.0'' else if major \<in> {''8'', ''9'', ''10''} then ''centos'' @ major @ ''.0'' else ''centos8.0'')
         else if did = ''fedora'' then Some (if major \<noteq> [] then ''fedora'' @ major else ''fedora43'')
         else if did = ''ubuntu'' then Some (if ver \<noteq> [] then ''ubuntu'' @ ver else ''ubuntu24.04'')
         else if did = ''debian'' then Some (if ver \<noteq> [] then ''debian'' @ major_of ver else ''debian12'')
         else if did \<in> {''opensuse-leap'', ''opensuse''} then Some (if ver \<noteq> [] then ''opensuse-leap'' @ ver else ''opensuse-leap15.6'')
         else if did = ''sles'' then Some (if major \<noteq> [] then ''sles'' @ major else ''sles15'')
         else if did \<in> {''photon'', ''vmware''} then Some ''linux''
         else if did \<noteq> [] then Some (if ver \<noteq> [] then did @ replace_all ''.'' [] ver else did)
         else None)"

text \<open>
  The searches in the name of a machine. A matcher reads a prefix of the text and returns what its groups
  matched; the search tries it at every position from the left. In these patterns an optional separator
  never is a digit, so the first way to match is the only one.
\<close>

fun re_search :: "(string \<Rightarrow> 'm option) \<Rightarrow> string \<Rightarrow> 'm option" where
  "re_search m [] = m []"
| "re_search m (c # cs) = (case m (c # cs) of Some r \<Rightarrow> Some r | None \<Rightarrow> re_search m cs)"

definition after_literal :: "string \<Rightarrow> string \<Rightarrow> string option" where
  "after_literal lit s = (if prefix lit s then Some (drop (length lit) s) else None)"

definition skip_optional :: "char set \<Rightarrow> string \<Rightarrow> string" where
  "skip_optional cs s = (case s of c # r \<Rightarrow> if c \<in> cs then r else s | [] \<Rightarrow> [])"

definition take_digits :: "nat \<Rightarrow> string \<Rightarrow> (string \<times> string) option" where
  "take_digits n s = (if length (takeWhile py_isdigit s) \<ge> n then Some (take n s, drop n s) else None)"

definition some_digits :: "string \<Rightarrow> (string \<times> string) option" where
  "some_digits s = (if takeWhile py_isdigit s = [] then None else Some (takeWhile py_isdigit s, dropWhile py_isdigit s))"

definition match_rhel :: "string \<Rightarrow> (string \<times> string) option" where
  "match_rhel s = (case after_literal ''rhel'' s of None \<Rightarrow> None | Some r \<Rightarrow>
     (case take_digits 1 (skip_optional (set ''-_'') r) of None \<Rightarrow> None | Some (a, r1) \<Rightarrow>
       (case some_digits (skip_optional (set ''._'') r1) of None \<Rightarrow> None | Some (b, _) \<Rightarrow> Some (a, b))))"

definition match_number :: "string \<Rightarrow> string \<Rightarrow> string option" where
  "match_number lit s = (case after_literal lit s of None \<Rightarrow> None | Some r \<Rightarrow>
     map_option fst (some_digits (skip_optional (set ''-_'') r)))"

definition match_ubuntu :: "string \<Rightarrow> (string \<times> string option) option" where
  "match_ubuntu s = (case after_literal ''ubuntu'' s of None \<Rightarrow> None | Some r \<Rightarrow>
     (case take_digits 2 (skip_optional (set ''-_'') r) of None \<Rightarrow> None | Some (a, r1) \<Rightarrow>
       Some (a, map_option fst (take_digits 2 (skip_optional (set ''.'') r1)))))"

definition match_u :: "string \<Rightarrow> (string \<times> string) option" where
  "match_u s = (case after_literal ''u'' s of None \<Rightarrow> None | Some r \<Rightarrow>
     (case take_digits 2 r of None \<Rightarrow> None | Some (a, r1) \<Rightarrow>
       (case take_digits 2 r1 of None \<Rightarrow> None | Some (b, _) \<Rightarrow> Some (a, b))))"

definition kubevirt_os_variant_from_name :: "string \<Rightarrow> string option" where
  "kubevirt_os_variant_from_name name =
     (let n = py_lower name
      in case re_search match_rhel n of
           Some (a, b) \<Rightarrow> Some (''rhel'' @ a @ ''.'' @ b)
         | None \<Rightarrow>
         (case re_search (match_number ''rocky'') n of
           Some v \<Rightarrow> Some (''rocky'' @ v @ ''.0'')
         | None \<Rightarrow>
         (case re_search match_ubuntu n of
           Some (a, b) \<Rightarrow> Some (''ubuntu'' @ a @ ''.'' @ (case b of Some m \<Rightarrow> m | None \<Rightarrow> ''04''))
         | None \<Rightarrow>
         (case re_search match_u n of
           Some (a, b) \<Rightarrow> Some (''ubuntu'' @ a @ ''.'' @ b)
         | None \<Rightarrow>
         (case re_search (match_number ''centos'') n of
           Some v \<Rightarrow> Some (''centos'' @ v @ ''.0'')
         | None \<Rightarrow>
           if contains ''fedora'' n then map_option (\<lambda>v. ''fedora'' @ v) (re_search (match_number ''fedora'') n) else None)))))"


section \<open>The profile\<close>

record guest_profile =
  gp_family :: string
  gp_os_variant :: "string option"
  gp_distro_id :: "string option"
  gp_version_id :: "string option"
  gp_pretty_name :: "string option"
  gp_extra_labels :: "(string, string) dict"
  gp_extra_annotations :: "(string, string) dict"

definition some_str :: "string \<Rightarrow> string option" where
  "some_str s = (if s = [] then None else Some s)"

definition parsed_get :: "(string, string) dict \<Rightarrow> string \<Rightarrow> string" where
  "parsed_get d k = (case dict_get d k of None \<Rightarrow> [] | Some v \<Rightarrow> v)"

definition distro_of :: "'a guest_args_scheme \<Rightarrow> string" where
  "distro_of a = str_or (some_str (py_lower (strip (str_or (linux_distro a) (str_or (detected_distro a) [])))))
     (py_lower (parsed_get (os_release_from_args a) ''ID''))"

definition version_of :: "'a guest_args_scheme \<Rightarrow> string" where
  "version_of a = str_or (some_str (strip (str_or (linux_version a) (str_or (detected_version a) []))))
     (parsed_get (os_release_from_args a) ''VERSION_ID'')"

definition pretty_of :: "'a guest_args_scheme \<Rightarrow> string" where
  "pretty_of a = str_or (linux_os_pretty_name a) (str_or (detected_os_pretty_name a) (parsed_get (os_release_from_args a) ''PRETTY_NAME''))"

definition linux_variant :: "'a guest_args_scheme \<Rightarrow> string \<Rightarrow> string option" where
  "linux_variant a vm_name =
     (let v = (case explicit_os_variant a of
                 Some v \<Rightarrow> if looks_windows_variant v
                           then kubevirt_os_variant (distro_of a) (version_of a) (parsed_get (os_release_from_args a) ''ID_LIKE'') else Some v
               | None \<Rightarrow> kubevirt_os_variant (distro_of a) (version_of a) (parsed_get (os_release_from_args a) ''ID_LIKE''))
      in if v = None \<and> vm_name \<noteq> [] then kubevirt_os_variant_from_name vm_name else v)"

definition linux_labels :: "string option \<Rightarrow> string \<Rightarrow> string \<Rightarrow> (string, string) dict" where
  "linux_labels variant distro version =
     (case variant of None \<Rightarrow> [] | Some v \<Rightarrow> [(''os.template.kubevirt.io/variant'', v)]) @
     (if distro = [] then [] else [(''h2kvm.io/os-distro'', distro)]) @
     (if version = [] then [] else [(''h2kvm.io/os-version'', version)])"

definition resolve_guest_profile :: "'a guest_args_scheme \<Rightarrow> string \<Rightarrow> guest_profile" where
  "resolve_guest_profile a vm_name =
     (if is_windows_guest a
      then (let variant = (case explicit_os_variant a of None \<Rightarrow> ''win2k22'' | Some v \<Rightarrow> v)
            in \<lparr>gp_family = ''windows'', gp_os_variant = Some (if looks_windows_variant variant then variant else ''win2k22''),
                gp_distro_id = None, gp_version_id = None, gp_pretty_name = None,
                gp_extra_labels = [(''v9s.io/rdp'', ''enabled'')], gp_extra_annotations = []\<rparr>)
      else (let variant = linux_variant a vm_name; distro = distro_of a; version = version_of a; pretty = pretty_of a
            in \<lparr>gp_family = ''linux'', gp_os_variant = variant, gp_distro_id = some_str distro, gp_version_id = some_str version,
                gp_pretty_name = some_str pretty, gp_extra_labels = linux_labels variant distro version,
                gp_extra_annotations = (if pretty = [] then [] else [(''h2kvm.io/os-pretty-name'', take 256 pretty)])\<rparr>))"

definition dict_update :: "(string, 'v) dict \<Rightarrow> (string, 'v) dict \<Rightarrow> (string, 'v) dict" where
  "dict_update d e = fold (\<lambda>(k, v). dict_set k v) e d"

definition apply_guest_metadata :: "guest_profile \<Rightarrow> (string, string) dict \<times> (string, string) dict \<Rightarrow> (string, string) dict \<times> (string, string) dict" where
  "apply_guest_metadata p la = (case la of (labels, annotations) \<Rightarrow>
     (dict_update (dict_set ''v9s.io/guest-os'' (gp_family p) (dict_set ''h2kvm.io/guest-os'' (gp_family p) labels)) (gp_extra_labels p),
      dict_update ((case gp_os_variant p of None \<Rightarrow> id | Some v \<Rightarrow> dict_set ''h2kvm.io/os-variant'' v)
        (dict_set ''h2kvm.io/guest-os'' (gp_family p) annotations)) (gp_extra_annotations p)))"

text \<open>The identity in the report of the fixer, copied to the arguments.\<close>

definition propagate_linux_metadata_from_report :: "json option \<Rightarrow> 'a guest_args_scheme \<Rightarrow> 'a guest_args_scheme" where
  "propagate_linux_metadata_from_report report a = (case report of
      None \<Rightarrow> a
    | Some r \<Rightarrow>
       (let text = report_os_release r; parsed = parse_os_release text; explicit = guest_os_of a;
            ident = parsed_get parsed ''ID''; ver = parsed_get parsed ''VERSION_ID''; pretty = parsed_get parsed ''PRETTY_NAME''
        in if \<not> truthy r \<or> is_windows_guest a \<or> truthy (json_get (report_section r ''analysis'') ''windows'' JNull) \<or> text = [] \<or>
              (ident = [] \<and> pretty = []) \<or> explicit = ''windows''
           then a
           else
            (let a1 = a\<lparr>arg_fixer_report := Some r, linux_os_release := Some text\<rparr>;
                 a2 = (if ident = [] then a1 else a1\<lparr>linux_distro := Some ident\<rparr>);
                 a3 = (if ver = [] then a2 else a2\<lparr>linux_version := Some ver\<rparr>);
                 a4 = (if pretty = [] then a3 else a3\<lparr>linux_os_pretty_name := Some pretty\<rparr>);
                 a5 = (case kubevirt_os_variant ident ver (parsed_get parsed ''ID_LIKE'') of
                         Some v \<Rightarrow> if str_or (k8s_os_variant a4) [] = [] then a4\<lparr>k8s_os_variant := Some v\<rparr> else a4
                       | None \<Rightarrow> a4)
             in if explicit \<in> {''linux'', ''lin''} then a5 else a5\<lparr>arg_guest_os := Some ''linux''\<rparr>)))"

section \<open>The document of the machine\<close>

definition str_obj :: "(string, string) dict \<Rightarrow> json" where
  "str_obj d = JObj (map (\<lambda>(k, v). (k, JStr v)) d)"

definition vm_iface :: "bool \<Rightarrow> json" where
  "vm_iface windows = JObj [(''name'', JStr ''default''), (''masquerade'', JObj []), (''ports'', JList [
     if windows then JObj [(''name'', JStr ''rdp''), (''port'', JInt 3389), (''protocol'', JStr ''TCP'')]
     else JObj [(''name'', JStr ''ssh''), (''port'', JInt 22), (''protocol'', JStr ''TCP'')]])]"

definition vm_devices :: "bool \<Rightarrow> string \<Rightarrow> json" where
  "vm_devices windows bus = JObj ([(''disks'', JList [JObj [(''name'', JStr ''rootdisk''), (''disk'', JObj [(''bus'', JStr bus)])]]),
     (''interfaces'', JList [vm_iface windows]), (''autoattachGraphicsDevice'', JBool True)] @
     (if windows then [] else [(''rng'', JObj [])]))"

definition vm_features :: "bool \<Rightarrow> bool \<Rightarrow> json" where
  "vm_features windows smm = JObj ([(''acpi'', JObj []), (''apic'', JObj [])] @
     (if windows then [(''hyperv'', JObj [(''relaxed'', JObj []), (''vapic'', JObj []), (''spinlocks'', JObj [(''spinlocks'', JInt 8191)])])] else []) @
     (if smm then [(''smm'', JObj [(''enabled'', JBool True)])] else []))"

definition vm_timers :: "bool \<Rightarrow> json" where
  "vm_timers windows = JObj [(''utc'', JObj []), (''timer'', JObj ([(''hpet'', JObj [(''present'', JBool False)]),
     (''pit'', JObj [(''tickPolicy'', JStr ''delay'')]), (''rtc'', JObj [(''tickPolicy'', JStr ''catchup'')])] @
     (if windows then [(''hyperv'', JObj [])] else [])))]"

definition cores_of :: "string \<Rightarrow> int" where
  "cores_of cpu_cores = (case py_int cpu_cores of Some n \<Rightarrow> max 1 n | None \<Rightarrow> 2)"

definition vm_domain :: "'a guest_args_scheme \<Rightarrow> bool \<Rightarrow> string \<Rightarrow> string \<Rightarrow> string \<Rightarrow> json" where
  "vm_domain a windows bus memory cpu_cores =
     (let uefi = (arg_uefi a = Some True); secure = (uefi \<and> win_secure_boot a = Some True)
      in JObj ([(''cpu'', JObj [(''cores'', JInt (cores_of cpu_cores))]), (''devices'', vm_devices windows bus),
        (''machine'', JObj [(''type'', JStr ''q35'')]), (''resources'', JObj [(''requests'', JObj [(''memory'', JStr memory)])]),
        (''features'', vm_features windows secure), (''clock'', vm_timers windows)] @
        (if uefi then [(''firmware'', JObj [(''bootloader'', JObj [(''efi'', JObj [(''secureBoot'', JBool secure)])])])] else [])))"

definition build_kubevirt_vm_manifest :: "string \<Rightarrow> string \<Rightarrow> string \<Rightarrow> json \<Rightarrow> string \<Rightarrow> string \<Rightarrow> string \<Rightarrow> 'a guest_args_scheme \<Rightarrow> json" where
  "build_kubevirt_vm_manifest vm_name namespace run_strategy volume root_disk_bus memory cpu_cores a =
     (let profile = resolve_guest_profile a vm_name;
          (labels, annotations) = apply_guest_metadata profile ([(''app'', vm_name), (''h2kvm.io/migrated'', ''true'')], []);
          domain = vm_domain a (gp_family profile = ''windows'') root_disk_bus memory cpu_cores;
          metadata = JObj ([(''name'', JStr vm_name), (''namespace'', JStr namespace), (''labels'', str_obj labels)] @
            (if annotations = [] then [] else [(''annotations'', str_obj annotations)]))
      in JObj [(''apiVersion'', JStr ''kubevirt.io/v1''), (''kind'', JStr ''VirtualMachine''), (''metadata'', metadata),
           (''spec'', JObj [(''runStrategy'', JStr run_strategy),
             (''template'', JObj [(''metadata'', JObj [(''labels'', JObj [(''kubevirt.io/vm'', JStr vm_name)])]),
               (''spec'', JObj [(''domain'', domain), (''networks'', JList [JObj [(''name'', JStr ''default''), (''pod'', JObj [])]]),
                 (''volumes'', JList [volume])])])])])"


section \<open>Reading back an identity file\<close>

definition os_entry :: "string \<times> string \<Rightarrow> string" where
  "os_entry e = fst e @ ''='' @ [CHR 0x22] @ snd e @ [CHR 0x22]"

definition render_os_release :: "(string, string) dict \<Rightarrow> string" where
  "render_os_release es = concat (map (\<lambda>e. os_entry e @ [CHR 0x0A]) es)"

text \<open>Keys are words without an equals sign that do not open a comment; values have no quotes and no line breaks.\<close>

definition entry_ok :: "string \<times> string \<Rightarrow> bool" where
  "entry_ok e = (word (fst e) \<and> CHR ''='' \<notin> set (fst e) \<and> hd (fst e) \<noteq> CHR ''#'' \<and>
     CHR 0x22 \<notin> set (snd e) \<and> CHR 0x27 \<notin> set (snd e) \<and> list_all (\<lambda>c. \<not> line_break c) (snd e))"

lemma split_once_char: "c \<notin> set a \<Longrightarrow> split_once [c] (a @ c # b) = Some (a, b)"
  by (induction a) auto

lemma dropWhile_absent: "q \<notin> set s \<Longrightarrow> dropWhile (\<lambda>c. c = q) s = s"
  by (cases s) auto

lemma strip_char_absent: "q \<notin> set s \<Longrightarrow> strip_char q s = s"
  by (simp add: strip_char_def dropWhile_absent)

lemma strip_char_quoted: "q \<notin> set s \<Longrightarrow> strip_char q (q # s @ [q]) = s"
  using dropWhile_absent [of q "rev s"] by (cases s) (auto simp: strip_char_def)

lemma entry_facts:
  assumes "entry_ok e"
  shows "strip (os_entry e) = os_entry e" "\<not> startswith (os_entry e) ''#''" "os_entry e \<noteq> []"
    "split_once ''='' (os_entry e) = Some (fst e, CHR 0x22 # snd e @ [CHR 0x22])" "strip (fst e) = fst e"
    "strip (CHR 0x22 # snd e @ [CHR 0x22]) = CHR 0x22 # snd e @ [CHR 0x22]" "list_all (\<lambda>c. \<not> line_break c) (os_entry e)"
proof -
  have q: "\<not> py_isspace CHR 0x22" "\<not> line_break CHR 0x22" "\<not> line_break CHR ''=''" by code_simp+
  have k: "fst e \<noteq> []" "\<not> py_isspace (hd (fst e))" "\<not> py_isspace (last (fst e))"
    using assms word_ends by (auto simp: entry_ok_def)
  show "os_entry e \<noteq> []" by (simp add: os_entry_def)
  show "strip (os_entry e) = os_entry e" by (rule strip_id) (use k q in \<open>simp_all add: os_entry_def\<close>)
  show "\<not> startswith (os_entry e) ''#''"
    using assms k(1) by (cases "fst e") (auto simp: os_entry_def startswith_def entry_ok_def)
  show "split_once ''='' (os_entry e) = Some (fst e, CHR 0x22 # snd e @ [CHR 0x22])"
    using assms split_once_char [of "CHR ''=''" "fst e"] by (simp add: os_entry_def entry_ok_def)
  show "strip (fst e) = fst e" by (rule strip_id) (use k in auto)
  show "strip (CHR 0x22 # snd e @ [CHR 0x22]) = CHR 0x22 # snd e @ [CHR 0x22]" by (rule strip_id) (use q in auto)
  show "list_all (\<lambda>c. \<not> line_break c) (os_entry e)"
    using assms q break_is_space by (auto simp: os_entry_def entry_ok_def word_def list_all_iff)
qed

lemma os_release_loop_entries:
  "list_all entry_ok es \<Longrightarrow> distinct (map fst (out @ es)) \<Longrightarrow> os_release_loop (map os_entry es) out = out @ es"
proof (induction es arbitrary: out)
  case (Cons e es)
  then have e: "entry_ok e" and "\<not> dict_has out (fst e)" by (auto simp: dict_has_iff)
  moreover have "strip_char CHR 0x27 (strip_char CHR 0x22 (CHR 0x22 # snd e @ [CHR 0x22])) = snd e"
    using e by (simp add: strip_char_quoted strip_char_absent entry_ok_def)
  ultimately have "os_release_loop (map os_entry (e # es)) out = os_release_loop (map os_entry es) (out @ [e])"
    by (simp add: entry_facts Let_def dict_set_fresh)
  with Cons show ?case by simp
qed simp

text \<open>
  An identity file with quoted values is read back entry by entry, in the order of the file.
\<close>
theorem os_release_roundtrip:
  assumes "list_all entry_ok es" and "distinct (map fst es)"
  shows "parse_os_release (render_os_release es) = es"
proof -
  have "splitlines (render_os_release es) = map os_entry es"
    using assms(1) by (induction es) (simp_all add: render_os_release_def splitlines_line entry_facts)
  with os_release_loop_entries [of es "[]"] assms show ?thesis by (simp add: parse_os_release_def)
qed

theorem os_release_roundtrip_witness:
  "parse_os_release (render_os_release [(''ID'', ''rhel''), (''VERSION_ID'', ''9.4''), (''PRETTY_NAME'', ''Red Hat Enterprise Linux 9.4 (Plow)'')]) =
   [(''ID'', ''rhel''), (''VERSION_ID'', ''9.4''), (''PRETTY_NAME'', ''Red Hat Enterprise Linux 9.4 (Plow)'')]"
proof (rule os_release_roundtrip)
  show "list_all entry_ok [(''ID'', ''rhel''), (''VERSION_ID'', ''9.4''), (''PRETTY_NAME'', ''Red Hat Enterprise Linux 9.4 (Plow)'')]"
    by code_simp
qed simp

section \<open>The document is consistent\<close>

fun json_at :: "string list \<Rightarrow> json \<Rightarrow> json" where
  "json_at [] j = j"
| "json_at (k # ks) j = json_at ks (json_get j k JNull)"

definition manifest_domain_of :: "json \<Rightarrow> json" where
  "manifest_domain_of m = json_at [''spec'', ''template'', ''spec'', ''domain''] m"

lemma manifest_domain:
  "manifest_domain_of (build_kubevirt_vm_manifest n ns rs vol bus mem cores a) = vm_domain a (is_windows_guest a) bus mem cores"
proof -
  have "gp_family (resolve_guest_profile a n) = ''windows'' \<longleftrightarrow> is_windows_guest a" by (simp add: resolve_guest_profile_def Let_def)
  then show ?thesis by (simp add: build_kubevirt_vm_manifest_def manifest_domain_of_def Let_def split: prod.splits)
qed

text \<open>
  KubeVirt accepts secure boot only with UEFI and system management mode: the document asks for secure
  boot exactly when it enables that mode, and it names EFI firmware exactly when the machine uses UEFI.
\<close>
lemma manifest_secure_boot:
  "json_at [''firmware'', ''bootloader'', ''efi'', ''secureBoot''] (manifest_domain_of (build_kubevirt_vm_manifest n ns rs vol bus mem cores a)) =
     JBool True \<longleftrightarrow> arg_uefi a = Some True \<and> win_secure_boot a = Some True"
  "json_at [''features'', ''smm'', ''enabled''] (manifest_domain_of (build_kubevirt_vm_manifest n ns rs vol bus mem cores a)) =
     JBool True \<longleftrightarrow> arg_uefi a = Some True \<and> win_secure_boot a = Some True"
  "json_get (manifest_domain_of (build_kubevirt_vm_manifest n ns rs vol bus mem cores a)) ''firmware'' JNull = JNull \<longleftrightarrow> arg_uefi a \<noteq> Some True"
  unfolding manifest_domain by (auto simp: vm_domain_def vm_features_def Let_def)

text \<open>
  A machine named after release 10 is given the variant of release 1.
\<close>
lemma rhel10_name_gives_rhel1: "kubevirt_os_variant_from_name ''rhel10.2-web'' = Some ''rhel1.0''"
  by code_simp

end
