(* ===== verification/Guest_Settings.thy ===== *)
theory Guest_Settings
  imports Firmware_Resolver Guest_Profile
begin

text \<open>
  The settings of the migrated machine, as \<^verbatim>\<open>Orchestrator._finalize\<close>
  (\<^verbatim>\<open>h2kvm/orchestration/orchestrator.py\<close>) derives them from the arguments, the report of the offline
  fixer, the OVF document and the inventory of vSphere, and the change of firmware that
  \<^verbatim>\<open>_maybe_firmware_fallback_after_deploy\<close> (\<^verbatim>\<open>infrastructure/deployers/kubernetes.py\<close>) makes after a
  failed boot. Every detection is a step on the orchestrator's state that may raise; \<^verbatim>\<open>_finalize\<close> runs
  them in a fixed order.
\<close>

section \<open>State\<close>

record migration_args = guest_args +
  firmware_mode :: "string option"
  arg_hyperv_generation :: "int option"
  arg_metadata :: "json option"
  disk_partition_scheme :: "string option"
  disk_has_efi_partition :: "bool option"
  firmware_alternate :: "string option"
  win_hyperv :: bool
  win_tpm :: bool
  arg_memory :: "int option"
  arg_vcpus :: "int option"
  nic_count :: "int option"
  cpu_topology :: "string option"
  disk_bus :: "string option"
  boot_disk_index :: "int option"
  emit_domain_xml :: bool
  virsh_define :: bool

record deploy_state =
  oc_args :: migration_args
  mc_uefi :: bool
  mc_guest_os :: "string option"
  mc_windows :: bool
  mc_memory :: int
  mc_vcpus :: int
  mc_deploy_k8s :: bool
  mc_deploy_openstack :: bool
  mc_libvirt_test :: bool
  oc_report :: "json option"

record ovf_hardware =
  hw_memory_mib :: "int option"
  hw_vcpus :: "int option"
  hw_nic_count :: "int option"
  hw_cpu_topology :: "string option"
  hw_secure_boot :: bool
  hw_os_type :: string
  hw_os_description :: string

text \<open>The class attributes of the OVF extractor, with the values they have before any OVF is read.\<close>

record ovf_class =
  last_firmware :: string
  last_hardware :: "ovf_hardware option"

definition OVF :: ovf_class where
  "OVF = \<lparr>last_firmware = ''bios'', last_hardware = None\<rparr>"

record vm_info =
  vi_memory_mib :: "int option"
  vi_memory :: "int option"
  vi_vcpus :: "int option"
  vi_cpus :: "int option"
  vi_cpu :: "int option"

abbreviation on_args :: "(migration_args \<Rightarrow> migration_args) \<Rightarrow> deploy_state \<Rightarrow> deploy_state" where
  "on_args f oc \<equiv> oc\<lparr>oc_args := f (oc_args oc)\<rparr>"

definition report_of :: "deploy_state \<Rightarrow> json" where
  "report_of oc = (case oc_report oc of None \<Rightarrow> JObj [] | Some r \<Rightarrow> r)"

definition analysis_of :: "deploy_state \<Rightarrow> json" where
  "analysis_of oc = report_section (report_of oc) ''analysis''"

text \<open>\<^verbatim>\<open>int(v)\<close> of a value in a report.\<close>

fun json_to_int :: "json \<Rightarrow> py_exc + int" where
  "json_to_int (JInt i) = Inr i"
| "json_to_int (JBool b) = Inr (if b then 1 else 0)"
| "json_to_int (JNum x) = Inr (if x \<ge> 0 then \<lfloor>x\<rfloor> else \<lceil>x\<rceil>)"
| "json_to_int (JStr s) = (case py_int s of Some i \<Rightarrow> Inr i | None \<Rightarrow> Inl (ValueError s))"
| "json_to_int _ = Inl (TypeError ''int'')"

section \<open>Firmware\<close>

definition generation_of :: "migration_args \<Rightarrow> int option" where
  "generation_of a = (case arg_hyperv_generation a of
      Some g \<Rightarrow> Some g
    | None \<Rightarrow> (case arg_metadata a of
        Some meta \<Rightarrow> (case json_get meta ''generation'' JNull of
            JInt i \<Rightarrow> Some i | JBool b \<Rightarrow> Some (if b then 1 else 0) | JNum x \<Rightarrow> Some (if x \<ge> 0 then \<lfloor>x\<rfloor> else \<lceil>x\<rceil>) | _ \<Rightarrow> None)
      | None \<Rightarrow> None))"

definition collect_firmware_signals :: "ovf_class \<Rightarrow> deploy_state \<Rightarrow> firmware_signals" where
  "collect_firmware_signals ovf oc =
     (let a = oc_args oc; an = analysis_of oc; guest_os = py_lower (str_or (arg_guest_os a) (str_or (mc_guest_os oc) []))
      in \<lparr>sig_boot_mode = (case json_get an ''boot_mode'' JNull of JStr s \<Rightarrow> Some s | _ \<Rightarrow> None),
          sig_partition_scheme = disk_partition_scheme a, has_efi_partition = disk_has_efi_partition a,
          windows_bcd_bios = truthy (json_get an ''windows_bcd_bios'' JNull), windows_bcd_uefi = truthy (json_get an ''windows_bcd_uefi'' JNull),
          hyperv_generation = generation_of a,
          ovf_firmware = (if last_firmware ovf \<in> {''bios'', ''uefi''} then Some (last_firmware ovf) else None),
          sig_is_windows = (guest_os = ''windows'' \<or> arg_windows a \<or> truthy (json_get an ''windows'' JNull))\<rparr>)"

definition record_firmware :: "firmware_resolution \<Rightarrow> json \<Rightarrow> json" where
  "record_firmware res report = (case report of
      JObj fs \<Rightarrow>
        (case report_section report ''analysis'' of
           JObj an \<Rightarrow> JObj (dict_set ''analysis'' (JObj
             (dict_set ''firmware_alternate'' (opt_str (res_alternate res)) (dict_set ''firmware_confidence'' (JStr (res_confidence res))
             (dict_set ''firmware_source'' (JStr (res_source res)) (dict_set ''firmware_user_mode'' (JStr (res_user_mode res))
             (dict_set ''firmware_mode'' (JStr (res_firmware res)) an)))))) fs)
         | _ \<Rightarrow> report)
    | _ \<Rightarrow> report)"

definition deploy_resolution :: "ovf_class \<Rightarrow> deploy_state \<Rightarrow> firmware_resolution" where
  "deploy_resolution ovf oc = resolve_firmware
     (normalize_user_firmware_mode (firmware_mode (oc_args oc)) (arg_uefi (oc_args oc))) (Some (collect_firmware_signals ovf oc))"

definition resolve_deploy_firmware :: "ovf_class \<Rightarrow> deploy_state \<Rightarrow> deploy_state" where
  "resolve_deploy_firmware ovf oc =
     (let res = deploy_resolution ovf oc; use_uefi = (res_firmware res = ''uefi'');
          oc1 = on_args (\<lambda>a. a\<lparr>arg_uefi := Some use_uefi, firmware_alternate := res_alternate res\<rparr>) (oc\<lparr>mc_uefi := use_uefi\<rparr>);
          oc2 = (if truthy (report_of oc) then oc1\<lparr>oc_report := Some (record_firmware res (report_of oc))\<rparr> else oc1)
      in if \<not> use_uefi \<and> win_secure_boot (oc_args oc) = Some True then on_args (\<lambda>a. a\<lparr>win_secure_boot := Some False\<rparr>) oc2 else oc2)"

section \<open>Detections\<close>

definition auto_detect_boot_disk_index :: "deploy_state \<Rightarrow> (py_exc, unit, deploy_state) outcome" where
  "auto_detect_boot_disk_index oc = (case json_get (report_section (analysis_of oc) ''guest'') ''boot_disk_index'' JNull of
      JNull \<Rightarrow> (Inr (), oc)
    | v \<Rightarrow> (case as_int v of
        Some i \<Rightarrow> (Inr (), if i > 0 then on_args (\<lambda>a. a\<lparr>boot_disk_index := Some i\<rparr>) oc else oc)
      | None \<Rightarrow> (Inl (TypeError ''boot_disk_index''), oc)))"

definition uses_uefi :: "deploy_state \<Rightarrow> bool" where
  "uses_uefi oc = (arg_uefi (oc_args oc) = Some True \<or> mc_uefi oc)"

definition enable_win11 :: "deploy_state \<Rightarrow> deploy_state" where
  "enable_win11 oc = on_args (\<lambda>a. if uses_uefi oc \<and> win_secure_boot a = None then a\<lparr>win_tpm := True, win_secure_boot := Some True\<rparr>
     else a\<lparr>win_tpm := True\<rparr>) oc"

definition auto_detect_guest_os :: "deploy_state \<Rightarrow> (py_exc, unit, deploy_state) outcome" where
  "auto_detect_guest_os oc =
     (let an = analysis_of oc; explicit_os = str_or (arg_guest_os (oc_args oc)) (str_or (mc_guest_os oc) [])
      in if \<not> truthy (json_get an ''windows'' JNull) then (Inr (), oc)
         else if explicit_os = ''linux'' then (Inr (), oc)
         else
          (let oc1 = (if explicit_os \<noteq> ''windows''
                      then on_args (\<lambda>a. a\<lparr>arg_guest_os := Some ''windows''\<rparr>) (oc\<lparr>mc_guest_os := Some ''windows'', mc_windows := True\<rparr>) else oc);
               oc2 = on_args (\<lambda>a. a\<lparr>win_hyperv := True\<rparr>) oc1;
               build = json_get an ''windows_build'' JNull
           in if \<not> truthy build then (Inr (), oc2)
              else (case json_to_int build of
                      Inl e \<Rightarrow> (Inl e, oc2)
                    | Inr n \<Rightarrow> (Inr (), if n \<ge> 22000 then enable_win11 oc2 else oc2))))"

definition propagate_linux_guest_metadata :: "deploy_state \<Rightarrow> deploy_state" where
  "propagate_linux_guest_metadata oc =
     (if truthy (report_of oc)
      then on_args (\<lambda>a. propagate_linux_metadata_from_report (Some (report_of oc)) (a\<lparr>arg_fixer_report := Some (report_of oc)\<rparr>)) oc
      else oc)"

text \<open>The values that count as defaults, and the overriding of a default by a positive number.\<close>

definition default_memory :: "int option \<Rightarrow> bool" where
  "default_memory m = (m \<in> {None, Some 2048, Some 4096, Some 8192})"

definition default_vcpus :: "int option \<Rightarrow> bool" where
  "default_vcpus n = (n \<in> {None, Some 1, Some 2, Some 4})"

definition set_memory :: "int option \<Rightarrow> deploy_state \<Rightarrow> deploy_state" where
  "set_memory mem oc = (case mem of
      Some m \<Rightarrow> if m > 0 \<and> default_memory (arg_memory (oc_args oc))
                then on_args (\<lambda>a. a\<lparr>arg_memory := Some m\<rparr>) (oc\<lparr>mc_memory := m\<rparr>) else oc
    | None \<Rightarrow> oc)"

definition set_vcpus :: "int option \<Rightarrow> deploy_state \<Rightarrow> deploy_state" where
  "set_vcpus cpus oc = (case cpus of
      Some n \<Rightarrow> if n > 0 \<and> default_vcpus (arg_vcpus (oc_args oc))
                then on_args (\<lambda>a. a\<lparr>arg_vcpus := Some n\<rparr>) (oc\<lparr>mc_vcpus := n\<rparr>) else oc
    | None \<Rightarrow> oc)"

definition set_ovf_devices :: "ovf_hardware \<Rightarrow> deploy_state \<Rightarrow> deploy_state" where
  "set_ovf_devices hw oc = on_args (\<lambda>a.
     (let a1 = (case hw_nic_count hw of Some n \<Rightarrow> if n > 1 then a\<lparr>nic_count := Some n\<rparr> else a | None \<Rightarrow> a);
          a2 = (if str_or (hw_cpu_topology hw) [] \<noteq> [] \<and> str_or (cpu_topology a1) [] = [] then a1\<lparr>cpu_topology := hw_cpu_topology hw\<rparr> else a1)
      in if hw_secure_boot hw \<and> uses_uefi oc \<and> win_secure_boot a2 \<noteq> Some False then a2\<lparr>win_secure_boot := Some True\<rparr> else a2)) oc"

definition set_ovf_guest_os :: "ovf_hardware \<Rightarrow> deploy_state \<Rightarrow> deploy_state" where
  "set_ovf_guest_os hw oc =
     (let combined = py_lower (hw_os_type hw @ '' '' @ hw_os_description hw)
      in if hw_os_type hw \<noteq> [] \<and> str_or (arg_guest_os (oc_args oc)) [] = [] \<and> (contains ''windows'' combined \<or> contains ''win'' combined)
         then on_args (\<lambda>a. a\<lparr>arg_guest_os := Some ''windows''\<rparr>) (oc\<lparr>mc_guest_os := Some ''windows'', mc_windows := True\<rparr>)
         else oc)"

definition auto_detect_hardware_from_ovf :: "ovf_class \<Rightarrow> deploy_state \<Rightarrow> deploy_state" where
  "auto_detect_hardware_from_ovf ovf oc = (case last_hardware ovf of
      None \<Rightarrow> oc
    | Some hw \<Rightarrow> set_ovf_guest_os hw (set_ovf_devices hw (set_vcpus (hw_vcpus hw) (set_memory (hw_memory_mib hw) oc))))"

definition int_or :: "int option \<Rightarrow> int option \<Rightarrow> int option" where
  "int_or x y = (if x = None \<or> x = Some 0 then y else x)"

definition auto_detect_hardware_from_govc :: "vm_info option \<Rightarrow> deploy_state \<Rightarrow> deploy_state" where
  "auto_detect_hardware_from_govc info oc = (case info of
      None \<Rightarrow> oc
    | Some vi \<Rightarrow> set_vcpus (int_or (vi_vcpus vi) (int_or (vi_cpus vi) (vi_cpu vi))) (set_memory (int_or (vi_memory_mib vi) (vi_memory vi)) oc))"

definition auto_detect_virtio_readiness :: "deploy_state \<Rightarrow> deploy_state" where
  "auto_detect_virtio_readiness oc =
     (let regen = report_section (analysis_of oc) ''regen''; a = oc_args oc
      in if arg_guest_os a = Some ''windows'' \<or> mc_windows oc then oc
         else if truthy (json_get regen ''enabled'' (JBool False)) \<and> truthy (json_get regen ''error'' JNull) \<and>
                 (disk_bus a = None \<or> disk_bus a = Some ''virtio'')
         then on_args (\<lambda>a. a\<lparr>disk_bus := Some ''sata''\<rparr>) oc
         else oc)"

definition auto_detect_swap_memory :: "deploy_state \<Rightarrow> (py_exc, unit, deploy_state) outcome" where
  "auto_detect_swap_memory oc =
     (let swap = json_get (report_section (analysis_of oc) ''guest'') ''swap_size_mib'' JNull
      in if \<not> default_memory (arg_memory (oc_args oc)) \<or> \<not> truthy swap then (Inr (), oc)
         else (case json_to_int swap of
                 Inl e \<Rightarrow> (Inl e, oc)
               | Inr n \<Rightarrow> (Inr (), if n > 512 then on_args (\<lambda>a. a\<lparr>arg_memory := Some (max n 2048)\<rparr>) (oc\<lparr>mc_memory := max n 2048\<rparr>) else oc)))"

definition auto_detect_secure_boot_from_guest :: "deploy_state \<Rightarrow> deploy_state" where
  "auto_detect_secure_boot_from_guest oc =
     (if win_secure_boot (oc_args oc) \<noteq> None then oc
      else if \<not> uses_uefi oc then oc
      else if truthy (json_get (analysis_of oc) ''secure_boot_detected'' JNull)
      then on_args (\<lambda>a. a\<lparr>win_secure_boot := Some True\<rparr>) oc else oc)"

definition settle_outputs :: "deploy_state \<Rightarrow> deploy_state" where
  "settle_outputs oc =
     (let oc1 = (if mc_deploy_k8s oc \<or> mc_deploy_openstack oc
                 then on_args (\<lambda>a. a\<lparr>emit_domain_xml := False, virsh_define := False\<rparr>) (oc\<lparr>mc_libvirt_test := False\<rparr>) else oc);
          oc2 = (if mc_libvirt_test oc1 \<and> \<not> emit_domain_xml (oc_args oc1) then on_args (\<lambda>a. a\<lparr>emit_domain_xml := True\<rparr>) oc1 else oc1)
      in if emit_domain_xml (oc_args oc2) \<and> \<not> virsh_define (oc_args oc2) then on_args (\<lambda>a. a\<lparr>virsh_define := True\<rparr>) oc2 else oc2)"

section \<open>The order of the detections\<close>

definition detections :: "ovf_class \<Rightarrow> vm_info option \<Rightarrow> (py_exc, deploy_state) step list" where
  "detections ovf info =
     [auto_detect_boot_disk_index, auto_detect_guest_os, pure_step propagate_linux_guest_metadata,
      pure_step (auto_detect_hardware_from_ovf ovf), pure_step (auto_detect_hardware_from_govc info),
      pure_step auto_detect_virtio_readiness, auto_detect_swap_memory, pure_step auto_detect_secure_boot_from_guest]"

definition finalize_settings :: "ovf_class \<Rightarrow> vm_info option \<Rightarrow> (py_exc, deploy_state) step" where
  "finalize_settings ovf info = run_steps (pure_step (resolve_deploy_firmware ovf) # detections ovf info @ [pure_step settle_outputs])"


section \<open>The change of firmware after a failed boot\<close>

datatype cluster_call = StopVm | WaitGone | PatchFirmware bool bool | StartVm | WaitReady

text \<open>The calls that were made, up to the first that raises.\<close>

fun run_calls :: "(cluster_call \<Rightarrow> string option) \<Rightarrow> cluster_call list \<Rightarrow> cluster_call list \<times> string option" where
  "run_calls fails [] = ([], None)"
| "run_calls fails (c # cs) = (case fails c of
      Some e \<Rightarrow> ([], Some e)
    | None \<Rightarrow> (case run_calls fails cs of (made, e) \<Rightarrow> (c # made, e)))"

definition firmware_fallback :: "(cluster_call \<Rightarrow> string option) \<Rightarrow> bool \<Rightarrow> string \<Rightarrow> migration_args \<Rightarrow>
    (string, unit, migration_args \<times> cluster_call list) outcome" where
  "firmware_fallback fails wait_ready serial a =
     (let user_mode = py_lower (strip (str_or (firmware_mode a) ''auto'')); current_uefi = (arg_uefi a = Some True)
      in if user_mode \<in> {''bios'', ''uefi''} then (Inr (), a, [])
         else if str_or (firmware_alternate a) [] = [] then (Inr (), a, [])
         else if \<not> serial_indicates_boot_failure serial current_uefi then (Inr (), a, [])
         else
          (let alt_uefi = (firmware_alternate a = Some ''uefi'');
               patch = PatchFirmware alt_uefi (alt_uefi \<and> win_secure_boot a = Some True);
               (made, e) = run_calls fails ([StopVm, WaitGone, patch, StartVm] @ (if wait_ready then [WaitReady] else []));
               a' = (if patch \<in> set made then a\<lparr>arg_uefi := Some alt_uefi\<rparr> else a)
           in (case e of Some m \<Rightarrow> Inl m | None \<Rightarrow> Inr (), a', made)))"

section \<open>Secure boot and firmware\<close>

text \<open>What the steps leave alone: firmware, and the operator's refusal of secure boot.\<close>

definition firmware_frame :: "deploy_state \<Rightarrow> deploy_state \<Rightarrow> bool" where
  "firmware_frame oc oc' = (arg_uefi (oc_args oc') = arg_uefi (oc_args oc) \<and> mc_uefi oc' = mc_uefi oc \<and>
     firmware_mode (oc_args oc') = firmware_mode (oc_args oc) \<and> firmware_alternate (oc_args oc') = firmware_alternate (oc_args oc) \<and>
     (win_secure_boot (oc_args oc') = win_secure_boot (oc_args oc) \<or>
      win_secure_boot (oc_args oc) = None \<and> win_secure_boot (oc_args oc') = Some True \<and> uses_uefi oc))"

lemma frame_refl [simp]: "firmware_frame oc oc"
  by (simp add: firmware_frame_def)

lemma frame_trans: "firmware_frame a b \<Longrightarrow> firmware_frame b c \<Longrightarrow> firmware_frame a c"
  by (auto simp: firmware_frame_def uses_uefi_def)

lemma frame_index: "auto_detect_boot_disk_index oc = (r, oc') \<Longrightarrow> firmware_frame oc oc'"
  by (auto simp: auto_detect_boot_disk_index_def firmware_frame_def split: json.splits option.splits if_splits)

lemma frame_win11: "firmware_frame oc (enable_win11 oc)"
  by (auto simp: enable_win11_def firmware_frame_def)

lemma frame_guest_os: "auto_detect_guest_os oc = (r, oc') \<Longrightarrow> firmware_frame oc oc'"
proof -
  assume d: "auto_detect_guest_os oc = (r, oc')"
  let ?oc1 = "if str_or (arg_guest_os (oc_args oc)) (str_or (mc_guest_os oc) []) \<noteq> ''windows''
    then on_args (\<lambda>a. a\<lparr>arg_guest_os := Some ''windows''\<rparr>) (oc\<lparr>mc_guest_os := Some ''windows'', mc_windows := True\<rparr>) else oc"
  let ?oc2 = "on_args (\<lambda>a. a\<lparr>win_hyperv := True\<rparr>) ?oc1"
  have f: "firmware_frame oc ?oc2" by (simp add: firmware_frame_def)
  from d have "oc' \<in> {oc, ?oc2, enable_win11 ?oc2}"
    unfolding auto_detect_guest_os_def Let_def by (auto split: if_split_asm sum.splits)
  then show ?thesis using f frame_trans [OF f frame_win11] by auto
qed

lemma propagate_keeps:
  "arg_memory (propagate_linux_metadata_from_report r a) = arg_memory a"
  "arg_uefi (propagate_linux_metadata_from_report r a) = arg_uefi a"
  "win_secure_boot (propagate_linux_metadata_from_report r a) = win_secure_boot a"
  "firmware_mode (propagate_linux_metadata_from_report r a) = firmware_mode a"
  "firmware_alternate (propagate_linux_metadata_from_report r a) = firmware_alternate a"
  by (simp_all add: propagate_linux_metadata_from_report_def Let_def split: option.split)

lemma frame_metadata: "firmware_frame oc (propagate_linux_guest_metadata oc)"
  by (simp add: propagate_linux_guest_metadata_def propagate_keeps firmware_frame_def)

lemma frame_set: "firmware_frame oc (set_memory m oc)" "firmware_frame oc (set_vcpus n oc)" "firmware_frame oc (set_ovf_guest_os hw oc)"
  by (auto simp: set_memory_def set_vcpus_def set_ovf_guest_os_def firmware_frame_def Let_def split: option.split)



lemma frame_devices: "firmware_frame oc (set_ovf_devices hw oc)"
  by (auto simp: set_ovf_devices_def firmware_frame_def Let_def split: option.split)

lemma frame_ovf: "firmware_frame oc (auto_detect_hardware_from_ovf ovf oc)"
  unfolding auto_detect_hardware_from_ovf_def
  by (cases "last_hardware ovf")
    (simp_all add: frame_trans [OF frame_trans [OF frame_trans [OF frame_set(1) frame_set(2)] frame_devices] frame_set(3)])

lemma frame_govc: "firmware_frame oc (auto_detect_hardware_from_govc info oc)"
  unfolding auto_detect_hardware_from_govc_def by (cases info) (simp_all add: frame_trans [OF frame_set(1) frame_set(2)])

lemma frame_virtio: "firmware_frame oc (auto_detect_virtio_readiness oc)"
  by (simp add: auto_detect_virtio_readiness_def firmware_frame_def Let_def)

lemma frame_swap: "auto_detect_swap_memory oc = (r, oc') \<Longrightarrow> firmware_frame oc oc'"
  by (auto simp: auto_detect_swap_memory_def firmware_frame_def Let_def split: if_split_asm sum.splits)

lemma frame_secure_boot: "firmware_frame oc (auto_detect_secure_boot_from_guest oc)"
  by (auto simp: auto_detect_secure_boot_from_guest_def firmware_frame_def)

lemma frame_outputs: "firmware_frame oc (settle_outputs oc)"
  by (simp add: settle_outputs_def firmware_frame_def Let_def)

lemma frame_detections:
  assumes "f \<in> set (detections ovf info @ [pure_step settle_outputs])" "f oc = (r, oc')"
  shows "firmware_frame oc oc'"
proof -
  from assms(1) consider "f = auto_detect_boot_disk_index" | "f = auto_detect_guest_os" | "f = auto_detect_swap_memory"
    | g where "f = pure_step g" "g \<in> {propagate_linux_guest_metadata, auto_detect_hardware_from_ovf ovf, auto_detect_hardware_from_govc info,
        auto_detect_virtio_readiness, auto_detect_secure_boot_from_guest, settle_outputs}"
    by (auto simp: detections_def)
  then show ?thesis
  proof cases
    case 4
    then have "oc' = g oc" using assms(2) by (simp add: pure_step_def)
    with 4(2) frame_metadata frame_ovf frame_govc frame_virtio frame_secure_boot frame_outputs show ?thesis by blast
  qed (use assms(2) frame_index frame_guest_os frame_swap in blast)+
qed

lemma finalize_frame:
  "finalize_settings ovf info oc = (r, oc') \<Longrightarrow> firmware_frame (resolve_deploy_firmware ovf oc) oc'"
proof -
  assume "finalize_settings ovf info oc = (r, oc')"
  then have "run_steps (detections ovf info @ [pure_step settle_outputs]) (resolve_deploy_firmware ovf oc) = (r, oc')"
    by (simp add: finalize_settings_def pure_step_def)
  then show ?thesis
    by (rule run_steps_inv [where I = "firmware_frame (resolve_deploy_firmware ovf oc)", rotated 2])
      (blast intro: frame_trans frame_detections, simp)
qed

lemma resolve_settings:
  "arg_uefi (oc_args (resolve_deploy_firmware ovf oc)) = Some (res_firmware (deploy_resolution ovf oc) = ''uefi'')"
  "mc_uefi (resolve_deploy_firmware ovf oc) = (res_firmware (deploy_resolution ovf oc) = ''uefi'')"
  "win_secure_boot (oc_args (resolve_deploy_firmware ovf oc)) =
     (if res_firmware (deploy_resolution ovf oc) \<noteq> ''uefi'' \<and> win_secure_boot (oc_args oc) = Some True then Some False
      else win_secure_boot (oc_args oc))"
  "firmware_alternate (oc_args (resolve_deploy_firmware ovf oc)) = res_alternate (deploy_resolution ovf oc)"
  "firmware_mode (oc_args (resolve_deploy_firmware ovf oc)) = firmware_mode (oc_args oc)"
  by (simp_all add: resolve_deploy_firmware_def Let_def)



definition example_args :: migration_args where
  "example_args = \<lparr>arg_guest_os = None, arg_windows = False, k8s_os_variant = None, os_variant_arg = None, linux_os_variant = None,
     linux_distro = None, detected_distro = None, linux_version = None, detected_version = None, linux_os_pretty_name = None,
     detected_os_pretty_name = None, linux_os_release = None, arg_fixer_report = None, arg_uefi = None, win_secure_boot = None,
     firmware_mode = None, arg_hyperv_generation = None, arg_metadata = None, disk_partition_scheme = None, disk_has_efi_partition = None,
     firmware_alternate = None, win_hyperv = False, win_tpm = False, arg_memory = None, arg_vcpus = None, nic_count = None,
     cpu_topology = None, disk_bus = None, boot_disk_index = None, emit_domain_xml = False, virsh_define = False\<rparr>"

definition example_orchestrator :: "json option \<Rightarrow> deploy_state" where
  "example_orchestrator report = \<lparr>oc_args = example_args, mc_uefi = False, mc_guest_os = None, mc_windows = False, mc_memory = 2048, mc_vcpus = 2,
     mc_deploy_k8s = True, mc_deploy_openstack = False, mc_libvirt_test = False, oc_report = report\<rparr>"


section \<open>Memory\<close>

text \<open>The steps around the detections of memory do not touch it.\<close>

definition memory_frame :: "deploy_state \<Rightarrow> deploy_state \<Rightarrow> bool" where
  "memory_frame oc oc' = (arg_memory (oc_args oc') = arg_memory (oc_args oc) \<and> mc_memory oc' = mc_memory oc \<and>
     json_get (report_section (analysis_of oc') ''guest'') ''swap_size_mib'' JNull = json_get (report_section (analysis_of oc) ''guest'') ''swap_size_mib'' JNull)"


lemma mframe_trans: "memory_frame a b \<Longrightarrow> memory_frame b c \<Longrightarrow> memory_frame a c"
  by (simp add: memory_frame_def)

lemma record_firmware_section:
  "k \<notin> {''firmware_mode'', ''firmware_user_mode'', ''firmware_source'', ''firmware_confidence'', ''firmware_alternate''} \<Longrightarrow>
   json_get (report_section (record_firmware res r) ''analysis'') k d = json_get (report_section r ''analysis'') k d"
  by (cases r) (auto simp: record_firmware_def report_section_def split: option.splits json.splits)

lemma resolve_analysis:
  "k \<notin> {''firmware_mode'', ''firmware_user_mode'', ''firmware_source'', ''firmware_confidence'', ''firmware_alternate''} \<Longrightarrow>
   json_get (analysis_of (resolve_deploy_firmware ovf oc)) k d = json_get (analysis_of oc) k d"
  by (simp add: resolve_deploy_firmware_def analysis_of_def report_of_def Let_def record_firmware_section)

lemma mframe_resolve: "memory_frame oc (resolve_deploy_firmware ovf oc)"
proof -
  have "json_get (analysis_of (resolve_deploy_firmware ovf oc)) ''guest'' JNull = json_get (analysis_of oc) ''guest'' JNull"
    by (rule resolve_analysis) simp
  then show ?thesis by (simp add: memory_frame_def resolve_deploy_firmware_def report_section_def Let_def)
qed

lemma mframe_index: "auto_detect_boot_disk_index oc = (r, oc') \<Longrightarrow> memory_frame oc oc'"
  by (auto simp: auto_detect_boot_disk_index_def memory_frame_def analysis_of_def report_of_def split: json.splits option.splits if_splits)

lemma mframe_guest_os: "auto_detect_guest_os oc = (r, oc') \<Longrightarrow> memory_frame oc oc'"
proof -
  assume d: "auto_detect_guest_os oc = (r, oc')"
  let ?oc1 = "if str_or (arg_guest_os (oc_args oc)) (str_or (mc_guest_os oc) []) \<noteq> ''windows''
    then on_args (\<lambda>a. a\<lparr>arg_guest_os := Some ''windows''\<rparr>) (oc\<lparr>mc_guest_os := Some ''windows'', mc_windows := True\<rparr>) else oc"
  let ?oc2 = "on_args (\<lambda>a. a\<lparr>win_hyperv := True\<rparr>) ?oc1"
  from d have "oc' \<in> {oc, ?oc2, enable_win11 ?oc2}"
    unfolding auto_detect_guest_os_def Let_def by (auto split: if_split_asm sum.splits)
  then show ?thesis by (auto simp: memory_frame_def enable_win11_def analysis_of_def report_of_def)
qed

lemma mframe_pure:
  "memory_frame oc (propagate_linux_guest_metadata oc)" "memory_frame oc (set_vcpus n oc)" "memory_frame oc (set_ovf_devices hw oc)"
  "memory_frame oc (set_ovf_guest_os hw oc)" "memory_frame oc (auto_detect_virtio_readiness oc)"
  "memory_frame oc (auto_detect_secure_boot_from_guest oc)" "memory_frame oc (settle_outputs oc)"
  by (simp_all add: memory_frame_def propagate_linux_guest_metadata_def propagate_keeps(1) set_vcpus_def set_ovf_devices_def set_ovf_guest_os_def
      auto_detect_virtio_readiness_def auto_detect_secure_boot_from_guest_def settle_outputs_def analysis_of_def report_of_def Let_def
      split: option.split)

text \<open>The three sources, in the order of their precedence.\<close>

definition pick_memory :: "int option \<Rightarrow> int option \<Rightarrow> int option" where
  "pick_memory source mem = (case source of Some m \<Rightarrow> if m > 0 \<and> default_memory mem then Some m else mem | None \<Rightarrow> mem)"

definition pick_swap :: "json \<Rightarrow> int option \<Rightarrow> int option" where
  "pick_swap swap mem = (if default_memory mem \<and> truthy swap
     then (case json_to_int swap of Inr n \<Rightarrow> if n > 512 then Some (max n 2048) else mem | Inl _ \<Rightarrow> mem) else mem)"

definition swap_of :: "deploy_state \<Rightarrow> json" where
  "swap_of oc = json_get (report_section (analysis_of oc) ''guest'') ''swap_size_mib'' JNull"

lemma mframe_swap: "memory_frame oc oc' \<Longrightarrow> swap_of oc' = swap_of oc \<and> arg_memory (oc_args oc') = arg_memory (oc_args oc)"
  by (simp add: memory_frame_def swap_of_def)

lemma set_memory_effect:
  "arg_memory (oc_args (set_memory m oc)) = pick_memory m (arg_memory (oc_args oc))" "swap_of (set_memory m oc) = swap_of oc"
  by (simp_all add: set_memory_def pick_memory_def swap_of_def analysis_of_def report_of_def split: option.split)

lemma ovf_memory:
  "arg_memory (oc_args (auto_detect_hardware_from_ovf ovf oc)) =
     pick_memory (case last_hardware ovf of None \<Rightarrow> None | Some hw \<Rightarrow> hw_memory_mib hw) (arg_memory (oc_args oc))"
  "swap_of (auto_detect_hardware_from_ovf ovf oc) = swap_of oc"
  using mframe_swap [OF mframe_pure(2)] mframe_swap [OF mframe_pure(3)] mframe_swap [OF mframe_pure(4)]
  by (simp_all add: auto_detect_hardware_from_ovf_def set_memory_effect pick_memory_def split: option.split)

lemma govc_memory:
  "arg_memory (oc_args (auto_detect_hardware_from_govc info oc)) =
     pick_memory (case info of None \<Rightarrow> None | Some vi \<Rightarrow> int_or (vi_memory_mib vi) (vi_memory vi)) (arg_memory (oc_args oc))"
  "swap_of (auto_detect_hardware_from_govc info oc) = swap_of oc"
  using mframe_swap [OF mframe_pure(2)]
  by (simp_all add: auto_detect_hardware_from_govc_def set_memory_effect pick_memory_def split: option.split)

lemma swap_memory:
  "auto_detect_swap_memory oc = (Inr (), oc') \<Longrightarrow> arg_memory (oc_args oc') = pick_swap (swap_of oc) (arg_memory (oc_args oc))"
  by (auto simp: auto_detect_swap_memory_def pick_swap_def swap_of_def Let_def split: if_split_asm sum.splits)

text \<open>
  The memory of the machine: a value of the operator that is not one of the defaults stays; otherwise the
  OVF document decides, then the inventory of vSphere and at last the size of the swap space, each only
  while the value so far is one of the defaults.
\<close>
theorem memory_precedence:
  assumes "finalize_settings ovf info oc = (Inr (), oc')"
  shows "arg_memory (oc_args oc') = pick_swap (swap_of oc)
    (pick_memory (case info of None \<Rightarrow> None | Some vi \<Rightarrow> int_or (vi_memory_mib vi) (vi_memory vi))
      (pick_memory (case last_hardware ovf of None \<Rightarrow> None | Some hw \<Rightarrow> hw_memory_mib hw) (arg_memory (oc_args oc))))"
proof -
  let ?oc0 = "resolve_deploy_firmware ovf oc"
  from assms obtain oc1 oc2 oc3 where s: "auto_detect_boot_disk_index ?oc0 = (Inr (), oc1)" "auto_detect_guest_os oc1 = (Inr (), oc2)"
    "auto_detect_swap_memory (auto_detect_virtio_readiness (auto_detect_hardware_from_govc info
       (auto_detect_hardware_from_ovf ovf (propagate_linux_guest_metadata oc2)))) = (Inr (), oc3)"
    "oc' = settle_outputs (auto_detect_secure_boot_from_guest oc3)"
    unfolding finalize_settings_def detections_def append_Cons append_Nil run_steps_ok pure_step_def by auto
  note f = mframe_trans [OF mframe_trans [OF mframe_trans [OF mframe_resolve mframe_index [OF s(1)]] mframe_guest_os [OF s(2)]] mframe_pure(1)]
  show ?thesis
    using mframe_swap [OF f] mframe_swap [OF mframe_pure(5)] mframe_swap [OF mframe_trans [OF mframe_pure(6) mframe_pure(7)], of oc3] swap_memory [OF s(3)]
    by (simp add: s(4) ovf_memory govc_memory)
qed

text \<open>On a Linux guest with a readable report nothing raises.\<close>

lemma linux_finalize_ok:
  assumes "json_get (analysis_of oc) ''windows'' JNull = JNull" and "swap_of oc = JInt n"
    and "json_get (report_section (analysis_of oc) ''guest'') ''boot_disk_index'' JNull = JNull"
  shows "\<exists>oc'. finalize_settings ovf info oc = (Inr (), oc')"
proof -
  let ?oc0 = "resolve_deploy_firmware ovf oc"
  have "json_get (analysis_of ?oc0) ''windows'' JNull = JNull" "json_get (analysis_of ?oc0) ''guest'' JNull = json_get (analysis_of oc) ''guest'' JNull"
    using assms(1) resolve_analysis by simp_all
  then have steps: "auto_detect_boot_disk_index ?oc0 = (Inr (), ?oc0)" "auto_detect_guest_os ?oc0 = (Inr (), ?oc0)" "swap_of ?oc0 = JInt n"
    using assms(2,3) by (simp_all add: auto_detect_boot_disk_index_def auto_detect_guest_os_def swap_of_def report_section_def)
  let ?oc1 = "auto_detect_virtio_readiness (auto_detect_hardware_from_govc info (auto_detect_hardware_from_ovf ovf (propagate_linux_guest_metadata ?oc0)))"
  have "swap_of ?oc1 = JInt n"
    using mframe_swap [OF mframe_pure(1)] mframe_swap [OF mframe_pure(5)] steps(3) by (simp add: ovf_memory(2) govc_memory(2))
  then have "\<exists>oc2. auto_detect_swap_memory ?oc1 = (Inr (), oc2)" by (simp add: auto_detect_swap_memory_def swap_of_def)
  then show ?thesis by (auto simp: finalize_settings_def detections_def pure_step_def steps)
qed

definition example_hardware :: "int \<Rightarrow> ovf_class" where
  "example_hardware m = \<lparr>last_firmware = ''bios'', last_hardware = Some \<lparr>hw_memory_mib = Some m, hw_vcpus = Some 8, hw_nic_count = None,
     hw_cpu_topology = None, hw_secure_boot = False, hw_os_type = [], hw_os_description = []\<rparr>\<rparr>"

text \<open>
  The witness is also the case where the order fails: the OVF document declares 8192 MiB, which counts as a
  default, so a swap space of 1024 MiB shrinks the machine to 2048 MiB.
\<close>
theorem memory_precedence_witness:
  "arg_memory (oc_args (snd (finalize_settings (example_hardware 8192) None
     (example_orchestrator (Some (JObj [(''analysis'', JObj [(''guest'', JObj [(''swap_size_mib'', JInt 1024)])])])))))) = Some 2048"
proof -
  let ?oc = "example_orchestrator (Some (JObj [(''analysis'', JObj [(''guest'', JObj [(''swap_size_mib'', JInt 1024)])])]))"
  have "swap_of ?oc = JInt 1024" "json_get (analysis_of ?oc) ''windows'' JNull = JNull"
    "json_get (report_section (analysis_of ?oc) ''guest'') ''boot_disk_index'' JNull = JNull"
    by (simp_all add: swap_of_def analysis_of_def report_of_def report_section_def example_orchestrator_def)
  then obtain oc' where f: "finalize_settings (example_hardware 8192) None ?oc = (Inr (), oc')" using linux_finalize_ok by blast
  from memory_precedence [OF f] \<open>swap_of ?oc = JInt 1024\<close> have "arg_memory (oc_args oc') = Some 2048"
    by (simp add: example_hardware_def pick_memory_def pick_swap_def default_memory_def example_orchestrator_def example_args_def)
  with f show ?thesis by simp
qed


section \<open>A good boot taken for a failure\<close>

lemma run_calls_all: "(\<And>c. c \<in> set cs \<Longrightarrow> fails c = None) \<Longrightarrow> run_calls fails cs = (cs, None)"
  by (induction cs) auto

lemma legacy_uefi_mode: "firmware_mode (oc_args oc) = None \<Longrightarrow> arg_uefi (oc_args oc) = Some True \<Longrightarrow>
  normalize_user_firmware_mode (firmware_mode (oc_args oc)) (arg_uefi (oc_args oc)) = ''uefi''"
proof -
  have "py_lower (strip ''auto'') = ''auto''" by code_simp
  then show "firmware_mode (oc_args oc) = None \<Longrightarrow> arg_uefi (oc_args oc) = Some True \<Longrightarrow> ?thesis"
    by (simp add: normalize_user_firmware_mode_def reconcile_legacy_firmware_flags_def)
qed

lemma serial_with:
  assumes "contains p (py_lower serial)" "p \<in> set UEFI_BOOT_FAILURE_PATTERNS" "strip p \<noteq> []"
  shows "serial_indicates_boot_failure serial True"
proof -
  obtain c where "c \<in> set p" "\<not> py_isspace c" using assms(3) by (auto simp: strip_Nil_iff list_all_iff)
  moreover have "set p \<subseteq> set (py_lower serial)" using assms(1) by (auto simp: contains_iff)
  ultimately have "strip (py_lower serial) \<noteq> []" by (auto simp: strip_Nil_iff list_all_iff)
  with assms show ?thesis by (auto simp: serial_indicates_boot_failure_def Let_def list_ex_iff)
qed

text \<open>
  An explicit choice that is undone. The operator asks for UEFI by the flag \<^verbatim>\<open>uefi: true\<close>, so the
  resolution is an explicit override; the machine boots, and OVMF announces the boot entry
  \<^verbatim>\<open>Boot0001\<close> on the serial console, as it does on every boot from a disk. The check after the deployment
  takes that for a failure, finds no \<^verbatim>\<open>firmware_mode\<close>, stops the machine and restarts it with BIOS.
\<close>
theorem good_boot_switches_to_bios:
  assumes "firmware_mode (oc_args oc) = None" and "arg_uefi (oc_args oc) = Some True"
    and "finalize_settings ovf info oc = (r, oc')"
    and "contains ''boot0001'' (py_lower serial)" and "\<And>c. fails c = None"
  shows "res_source (deploy_resolution ovf oc) = ''user_override'' \<and> arg_uefi (oc_args oc') = Some True \<and>
    firmware_fallback fails False serial (oc_args oc') =
      (Inr (), (oc_args oc')\<lparr>arg_uefi := Some False\<rparr>, [StopVm, WaitGone, PatchFirmware False False, StartVm])"
proof -
  have res: "res_firmware (deploy_resolution ovf oc) = ''uefi''" "res_alternate (deploy_resolution ovf oc) = Some ''bios''"
      "res_source (deploy_resolution ovf oc) = ''user_override''"
    unfolding deploy_resolution_def legacy_uefi_mode [OF assms(1,2)] by (simp_all add: resolve_firmware_def)
  have u: "arg_uefi (oc_args oc') = Some True" "firmware_mode (oc_args oc') = None" "firmware_alternate (oc_args oc') = Some ''bios''"
    using finalize_frame [OF assms(3)] assms(1) by (simp_all add: firmware_frame_def resolve_settings res)
  have "strip ''boot0001'' \<noteq> []" "py_lower (strip ''auto'') = ''auto''" by code_simp+
  moreover have "serial_indicates_boot_failure serial True"
    by (rule serial_with [OF assms(4)]) (use \<open>strip ''boot0001'' \<noteq> []\<close> in \<open>simp_all add: UEFI_BOOT_FAILURE_PATTERNS_def\<close>)
  ultimately show ?thesis
    using u assms(5) res(3) by (simp add: firmware_fallback_def str_or_def run_calls_all Let_def)
qed

theorem good_boot_switches_to_bios_witness:
  "\<exists>oc oc'. arg_uefi (oc_args oc) = Some True \<and> finalize_settings OVF None oc = (Inr (), oc') \<and>
     firmware_fallback (\<lambda>_. None) False ''BdsDxe: starting Boot0001 from PciRoot'' (oc_args oc') =
       (Inr (), (oc_args oc')\<lparr>arg_uefi := Some False\<rparr>, [StopVm, WaitGone, PatchFirmware False False, StartVm])"
proof -
  let ?r = "Some (JObj [(''analysis'', JObj [(''guest'', JObj [(''swap_size_mib'', JInt 1024)])])])"
  let ?oc = "on_args (\<lambda>a. a\<lparr>arg_uefi := Some True\<rparr>) (example_orchestrator ?r)"
  have "swap_of ?oc = JInt 1024" "json_get (analysis_of ?oc) ''windows'' JNull = JNull"
    "json_get (report_section (analysis_of ?oc) ''guest'') ''boot_disk_index'' JNull = JNull"
    by (simp_all add: swap_of_def analysis_of_def report_of_def report_section_def example_orchestrator_def)
  then obtain oc' where f: "finalize_settings OVF None ?oc = (Inr (), oc')" using linux_finalize_ok by blast
  have "contains ''boot0001'' (py_lower ''BdsDxe: starting Boot0001 from PciRoot'')" by code_simp
  with good_boot_switches_to_bios [OF _ _ f, of "''BdsDxe: starting Boot0001 from PciRoot''" "\<lambda>_. None"]
  have "firmware_fallback (\<lambda>_. None) False ''BdsDxe: starting Boot0001 from PciRoot'' (oc_args oc') =
       (Inr (), (oc_args oc')\<lparr>arg_uefi := Some False\<rparr>, [StopVm, WaitGone, PatchFirmware False False, StartVm])"
    by (simp add: example_orchestrator_def example_args_def)
  moreover have "arg_uefi (oc_args ?oc) = Some True" by simp
  ultimately show ?thesis using f by blast
qed

text \<open>
  Before any OVF document is read, the class attribute already says BIOS: a Hyper-V machine of
  generation 2, which always uses UEFI, resolves to BIOS when nothing else is known of it.
\<close>
lemma generation2_resolves_to_bios:
  "res_firmware (deploy_resolution OVF (on_args (\<lambda>a. a\<lparr>arg_hyperv_generation := Some 2\<rparr>) (example_orchestrator None))) = ''bios''"
  by code_simp

end
