(* ===== verification/Worker_Capabilities.thy ===== *)
theory Worker_Capabilities
  imports Py_Text
begin

text \<open>
  \<^verbatim>\<open>h2kvm/runtime/worker/capabilities.py\<close>: what a worker can do on its host. The host is a parameter: a record
  of the file tests, the commands and the temporary files the detector uses, over a state that the commands change.
  Every check catches what the host raises, so the checks are total and return a truth value.
\<close>

section \<open>The host\<close>

text \<open>A command ends with an exit code and an output, or raises: it is missing, not permitted, or runs out of time.\<close>

datatype run_out = RunExit int string | RunRaised

record 's host_ops =
  ho_exists :: "'s \<Rightarrow> string \<Rightarrow> bool"
  ho_read :: "'s \<Rightarrow> string \<Rightarrow> string option"
  ho_open :: "'s \<Rightarrow> string \<Rightarrow> bool"
  ho_which :: "'s \<Rightarrow> string \<Rightarrow> bool"
  ho_dev_nbd :: "'s \<Rightarrow> string list"
  ho_euid :: "'s \<Rightarrow> int"
  ho_run :: "string list \<Rightarrow> 's \<Rightarrow> run_out \<times> 's"
  ho_mkdtemp :: "'s \<Rightarrow> string option \<times> 's"
  ho_rmtree :: "string \<Rightarrow> 's \<Rightarrow> 's"
  ho_mkstemp :: "'s \<Rightarrow> string option \<times> 's"
  ho_unlink :: "string \<Rightarrow> 's \<Rightarrow> bool \<times> 's"

definition ok_run :: "'s host_ops \<Rightarrow> string list \<Rightarrow> 's \<Rightarrow> bool \<times> 's" where
  "ok_run ho cmd s = (case ho_run ho cmd s of (RunExit rc _, s1) \<Rightarrow> (rc = 0, s1) | (RunRaised, s1) \<Rightarrow> (False, s1))"

fun which_all :: "'s host_ops \<Rightarrow> string list \<Rightarrow> 's \<Rightarrow> bool \<times> 's" where
  "which_all ho [] s = (True, s)"
| "which_all ho (c # cs) s = (case ok_run ho [''which'', c] s of (False, s1) \<Rightarrow> (False, s1) | (True, s1) \<Rightarrow> which_all ho cs s1)"

section \<open>Levels\<close>

datatype capability_level = USERSPACE_ONLY | NBD_INSPECTION | FULL_OFFLINE_FIXES

fun level_value :: "capability_level \<Rightarrow> int" where
  "level_value USERSPACE_ONLY = 1"
| "level_value NBD_INSPECTION = 2"
| "level_value FULL_OFFLINE_FIXES = 3"

fun level_name :: "capability_level \<Rightarrow> string" where
  "level_name USERSPACE_ONLY = ''USERSPACE_ONLY''"
| "level_name NBD_INSPECTION = ''NBD_INSPECTION''"
| "level_name FULL_OFFLINE_FIXES = ''FULL_OFFLINE_FIXES''"

definition level_str :: "capability_level \<Rightarrow> string" where
  "level_str l = map (\<lambda>c. if c = CHR ''_'' then CHR ''-'' else c) (py_lower (level_name l))"

definition can_mount_partitions :: "capability_level \<Rightarrow> bool" where
  "can_mount_partitions l \<longleftrightarrow> l = FULL_OFFLINE_FIXES"

definition can_inspect_disk :: "capability_level \<Rightarrow> bool" where
  "can_inspect_disk l \<longleftrightarrow> l \<in> {NBD_INSPECTION, FULL_OFFLINE_FIXES}"

definition can_convert :: "capability_level \<Rightarrow> bool" where
  "can_convert l \<longleftrightarrow> True"

section \<open>Checks\<close>

definition is_in_container :: "'s host_ops \<Rightarrow> 's \<Rightarrow> bool \<times> 's" where
  "is_in_container ho s =
     (if ho_exists ho s ''/.dockerenv'' then (True, s)
      else if (case ho_read ho s ''/proc/1/cgroup'' of None \<Rightarrow> False
               | Some t \<Rightarrow> contains ''docker'' t \<or> contains ''lxc'' t \<or> contains ''kubepods'' t) then (True, s)
      else (case ho_run ho [''ps'', ''aux''] s of
              (RunExit rc out, s1) \<Rightarrow> (rc = 0 \<and> length (split_on (CHR 10) (strip out)) < 30, s1)
            | (RunRaised, s1) \<Rightarrow> (False, s1)))"

definition has_nbd_access :: "'s host_ops \<Rightarrow> 's \<Rightarrow> bool" where
  "has_nbd_access ho s \<longleftrightarrow> ho_which ho s ''qemu-nbd'' \<and> ho_dev_nbd ho s \<noteq> [] \<and> ho_exists ho s ''/sys/module/nbd'' \<and>
     ho_exists ho s ''/dev/nbd0'' \<and> ho_open ho s ''/dev/nbd0'' \<and> (ho_exists ho s ''/.dockerenv'' \<longrightarrow> ho_exists ho s ''/lib/modules'')"

definition check_lvm_available :: "'s host_ops \<Rightarrow> 's \<Rightarrow> bool \<times> 's" where
  "check_lvm_available ho s = (case which_all ho [''pvs'', ''vgs'', ''lvs'', ''vgchange''] s of
      (False, s1) \<Rightarrow> (False, s1)
    | (True, s1) \<Rightarrow> ok_run ho [''vgs'', ''--noheadings''] s1)"

definition mount_body :: "'s host_ops \<Rightarrow> string \<Rightarrow> 's \<Rightarrow> bool \<times> 's" where
  "mount_body ho d s = (case ok_run ho [''mount'', ''-t'', ''tmpfs'', ''-o'', ''size=1M'', ''tmpfs'', d] s of
      (False, s1) \<Rightarrow> (False, s1)
    | (True, s1) \<Rightarrow> (case ho_run ho [''mountpoint'', ''-q'', d] s1 of
        (RunRaised, s2) \<Rightarrow> (False, s2)
      | (RunExit rc _, s2) \<Rightarrow>
          if rc \<noteq> 0 then (False, snd (ho_run ho [''umount'', d] s2))
          else (case ho_run ho [''umount'', d] s2 of
                  (RunRaised, s3) \<Rightarrow> (False, s3)
                | (RunExit rc _, s3) \<Rightarrow> if rc \<noteq> 0 then (False, snd (ho_run ho [''umount'', ''-f'', d] s3)) else (True, s3))))"

definition mount_cleanup :: "'s host_ops \<Rightarrow> string \<Rightarrow> 's \<Rightarrow> 's" where
  "mount_cleanup ho d s = (if d \<noteq> [] \<and> ho_exists ho s d then ho_rmtree ho d (snd (ho_run ho [''umount'', ''-f'', d] s)) else s)"

definition test_mount_capability :: "'s host_ops \<Rightarrow> 's \<Rightarrow> bool \<times> 's" where
  "test_mount_capability ho s = (case ho_mkdtemp ho s of
      (None, s1) \<Rightarrow> (False, s1)
    | (Some d, s1) \<Rightarrow> (case mount_body ho d s1 of (b, s2) \<Rightarrow> (b, mount_cleanup ho d s2)))"

definition check_mount_available :: "'s host_ops \<Rightarrow> 's \<Rightarrow> bool \<times> 's" where
  "check_mount_available ho s =
     (if ho_euid ho s \<noteq> 0 then (False, s)
      else (case ok_run ho [''which'', ''mount''] s of (False, s1) \<Rightarrow> (False, s1) | (True, s1) \<Rightarrow> test_mount_capability ho s1))"

definition check_selinux_tools :: "'s host_ops \<Rightarrow> 's \<Rightarrow> bool \<times> 's" where
  "check_selinux_tools ho = which_all ho [''restorecon'', ''semanage'', ''chcon'']"

definition check_qemu_img :: "'s host_ops \<Rightarrow> 's \<Rightarrow> bool \<times> 's" where
  "check_qemu_img ho = ok_run ho [''qemu-img'', ''--version'']"

section \<open>The detector\<close>

record detector =
  cd_mode :: "string option"
  cd_capabilities :: "(string, bool) dict option"

definition CapabilityDetector :: detector where
  "CapabilityDetector = \<lparr>cd_mode = None, cd_capabilities = None\<rparr>"

definition HOST :: string where "HOST = ''host''"
definition SAFE_CONTAINER :: string where "SAFE_CONTAINER = ''safe_container''"
definition PRIVILEGED_CONTAINER :: string where "PRIVILEGED_CONTAINER = ''privileged_container''"

definition detect_execution_mode :: "'s host_ops \<Rightarrow> detector \<times> 's \<Rightarrow> string \<times> (detector \<times> 's)" where
  "detect_execution_mode ho ds = (case ds of (d, s) \<Rightarrow> (case cd_mode d of
      Some m \<Rightarrow> (m, (d, s))
    | None \<Rightarrow> (case is_in_container ho s of (c, s1) \<Rightarrow>
        (let m = (if \<not> c then HOST else if has_nbd_access ho s1 then PRIVILEGED_CONTAINER else SAFE_CONTAINER)
         in (m, (d\<lparr>cd_mode := Some m\<rparr>, s1))))))"

definition detect_capabilities :: "'s host_ops \<Rightarrow> detector \<times> 's \<Rightarrow> (string, bool) dict \<times> (detector \<times> 's)" where
  "detect_capabilities ho ds = (case ds of (d, s) \<Rightarrow> (case cd_capabilities d of
      Some (c # cs) \<Rightarrow> (c # cs, (d, s))
    | _ \<Rightarrow>
        (let nbd = has_nbd_access ho s;
             (lvm, s1) = check_lvm_available ho s;
             (mount, s2) = check_mount_available ho s1;
             (selinux, s3) = check_selinux_tools ho s2;
             (qemu, s4) = check_qemu_img ho s3;
             caps = [(''nbd'', nbd), (''lvm'', lvm), (''mount'', mount), (''selinux'', selinux), (''qemu_img'', qemu)]
         in (caps, (d\<lparr>cd_capabilities := Some caps\<rparr>, s4)))))"

fun missing_capability :: "(string, bool) dict \<Rightarrow> (string, bool) dict \<Rightarrow> string option" where
  "missing_capability caps [] = None"
| "missing_capability caps ((c, required) # rs) =
     (if required \<and> dict_get caps c \<noteq> Some True then Some (''Missing required capability: '' @ c) else missing_capability caps rs)"

definition can_execute_job :: "'s host_ops \<Rightarrow> (string, bool) dict \<Rightarrow> detector \<times> 's \<Rightarrow> string option \<times> (detector \<times> 's)" where
  "can_execute_job ho reqs ds = (case detect_capabilities ho ds of (caps, ds1) \<Rightarrow> (missing_capability caps reqs, ds1))"

definition suggest_execution_mode :: "'s host_ops \<Rightarrow> (string, bool) dict \<Rightarrow> detector \<times> 's \<Rightarrow> string \<times> (detector \<times> 's)" where
  "suggest_execution_mode ho reqs ds =
     (if list_ex (\<lambda>c. dict_get reqs c = Some True) [''nbd'', ''lvm'', ''mount'']
      then (case detect_execution_mode ho ds of (m, ds1) \<Rightarrow>
              (if m = SAFE_CONTAINER \<or> m = PRIVILEGED_CONTAINER then PRIVILEGED_CONTAINER else HOST, ds1))
      else (SAFE_CONTAINER, ds))"

section \<open>The level of a host\<close>

definition check_nbd_module :: "'s host_ops \<Rightarrow> 's \<Rightarrow> bool \<times> 's" where
  "check_nbd_module ho s = (case ho_run ho [''lsmod''] s of
      (RunRaised, s1) \<Rightarrow> (False, s1)
    | (RunExit _ out, s1) \<Rightarrow> if contains ''nbd'' out then (True, s1) else ok_run ho [''modprobe'', ''nbd'', ''max_part=16''] s1)"

definition nbd_device :: "nat \<Rightarrow> string" where
  "nbd_device i = ''/dev/nbd'' @ nat_str i"

definition nbd_free :: "'s host_ops \<Rightarrow> 's \<Rightarrow> nat \<Rightarrow> bool" where
  "nbd_free ho s i \<longleftrightarrow> ho_exists ho s (nbd_device i) \<and>
     (let size_file = ''/sys/block/nbd'' @ nat_str i @ ''/size''
      in ho_exists ho s size_file \<longrightarrow> (case ho_read ho s size_file of None \<Rightarrow> False | Some t \<Rightarrow> py_int (strip t) = Some 0))"

definition find_free_nbd_device :: "'s host_ops \<Rightarrow> 's \<Rightarrow> string option" where
  "find_free_nbd_device ho s = map_option nbd_device (find (nbd_free ho s) [0..<16])"

text \<open>A name is made first; the image is written at it and removed again when that fails. Removing it may raise, and is
  then tried once more by the handler, whose own exception ends the check.\<close>

definition create_test_image :: "'s host_ops \<Rightarrow> 's \<Rightarrow> string option \<times> 's" where
  "create_test_image ho s = (case ho_mkstemp ho s of
      (None, s1) \<Rightarrow> (None, s1)
    | (Some path, s1) \<Rightarrow>
        (let handler = (\<lambda>s. if ho_exists ho s path then (None, snd (ho_unlink ho path s)) else (None, s))
         in case ho_run ho [''qemu-img'', ''create'', ''-f'', ''qcow2'', path, ''10M''] s1 of
              (RunRaised, s2) \<Rightarrow> handler s2
            | (RunExit rc _, s2) \<Rightarrow>
                if rc \<noteq> 0 then (case ho_unlink ho path s2 of (True, s3) \<Rightarrow> (None, s3) | (False, s3) \<Rightarrow> handler s3)
                else (case ho_run ho [''parted'', ''-s'', path, ''mklabel'', ''gpt''] s2 of
                        (RunRaised, s3) \<Rightarrow> handler s3
                      | (RunExit _ _, s3) \<Rightarrow> (case ho_run ho [''parted'', ''-s'', path, ''mkpart'', ''primary'', ''1MiB'', ''9MiB''] s3 of
                          (RunRaised, s4) \<Rightarrow> handler s4
                        | (RunExit _ _, s4) \<Rightarrow> (Some path, s4)))))"

definition nbd_disconnect :: "string \<Rightarrow> string list" where
  "nbd_disconnect dev = [''qemu-nbd'', ''--disconnect'', dev]"

definition partition_test :: "'s host_ops \<Rightarrow> string \<Rightarrow> string \<Rightarrow> 's \<Rightarrow> bool \<times> 's" where
  "partition_test ho dev img s = (case ok_run ho [''qemu-nbd'', ''--connect'', dev, img] s of
      (False, s1) \<Rightarrow> (False, s1)
    | (True, s1) \<Rightarrow> (case ho_run ho (nbd_disconnect dev) s1 of
        (RunRaised, s2) \<Rightarrow> (False, s2)
      | (RunExit _ _, s2) \<Rightarrow> (ho_exists ho s1 (dev @ ''p1''), s2)))"

definition partition_cleanup :: "'s host_ops \<Rightarrow> string \<Rightarrow> string option \<Rightarrow> 's \<Rightarrow> 's" where
  "partition_cleanup ho dev img s = (let s1 = snd (ho_run ho (nbd_disconnect dev) s)
     in case img of Some path \<Rightarrow> if ho_exists ho s1 path then snd (ho_unlink ho path s1) else s1 | None \<Rightarrow> s1)"

definition check_nbd_partition_devices :: "'s host_ops \<Rightarrow> 's \<Rightarrow> bool \<times> 's" where
  "check_nbd_partition_devices ho s = (case find_free_nbd_device ho s of
      None \<Rightarrow> (False, s)
    | Some dev \<Rightarrow> (case create_test_image ho s of
        (None, s1) \<Rightarrow> (False, partition_cleanup ho dev None s1)
      | (Some img, s1) \<Rightarrow> (case partition_test ho dev img s1 of (b, s2) \<Rightarrow> (b, partition_cleanup ho dev (Some img) s2))))"

definition detect_capability_level :: "'s host_ops \<Rightarrow> 's \<Rightarrow> capability_level \<times> 's" where
  "detect_capability_level ho s = (case check_nbd_module ho s of
      (False, s1) \<Rightarrow> (USERSPACE_ONLY, s1)
    | (True, s1) \<Rightarrow>
        if \<not> has_nbd_access ho s1 then (USERSPACE_ONLY, s1)
        else (case check_nbd_partition_devices ho s1 of (False, s2) \<Rightarrow> (NBD_INSPECTION, s2) | (True, s2) \<Rightarrow> (FULL_OFFLINE_FIXES, s2)))"

section \<open>Reports\<close>

definition userspace_operations :: "string list" where
  "userspace_operations = [''vmdk_parsing'', ''qcow2_conversion'', ''compression'', ''format_detection'', ''descriptor_analysis'']"

definition inspection_operations :: "string list" where
  "inspection_operations = userspace_operations @ [''nbd_device_attach'', ''partition_table_reading'', ''filesystem_detection'', ''lvm_metadata_inspection'',
     ''disk_geometry_analysis'']"

fun available_operations :: "capability_level \<Rightarrow> string list" where
  "available_operations USERSPACE_ONLY = userspace_operations"
| "available_operations NBD_INSPECTION = inspection_operations"
| "available_operations FULL_OFFLINE_FIXES = inspection_operations @ [''partition_mounting'', ''fstab_stabilization'', ''initramfs_rebuild'',
     ''grub_regeneration'', ''network_configuration'', ''vmware_tools_removal'', ''virtio_driver_injection'']"

fun level_limitations :: "capability_level \<Rightarrow> string list" where
  "level_limitations USERSPACE_ONLY = [''Cannot inspect disk partition table'', ''Cannot detect guest filesystems'', ''Cannot mount guest filesystems'',
     ''Cannot apply offline fixes'', ''Guest may not boot without manual intervention'', ''Virtio drivers not injected'']"
| "level_limitations NBD_INSPECTION = [''Cannot mount partitions (partition devices unavailable)'', ''Cannot apply offline fixes to guest filesystems'',
     ''Guest may not boot without manual intervention'', ''Virtio drivers not injected'']"
| "level_limitations FULL_OFFLINE_FIXES = []"

fun level_recommendations :: "capability_level \<Rightarrow> string list" where
  "level_recommendations USERSPACE_ONLY = [''Deploy to production cluster with NBD support for full offline fixes'',
     ''Test VM boot in development environment before production use'', ''Consider manual virtio driver installation in guest'',
     ''Use VM+k3s lab environment for realistic testing'']"
| "level_recommendations NBD_INSPECTION = [''Deploy to production cluster for full offline fix capabilities'',
     ''Current environment supports inspection but not guest modifications'', ''Test VM boot before production deployment'']"
| "level_recommendations FULL_OFFLINE_FIXES = []"

definition capability_level_report :: "capability_level \<Rightarrow> (string, json) dict" where
  "capability_level_report l = [(''level'', JInt (level_value l)), (''level_name'', JStr (level_name l)), (''level_description'', JStr (level_str l)),
     (''operations'', JList (map JStr (available_operations l))), (''limitations'', JList (map JStr (level_limitations l))),
     (''recommendations'', JList (map JStr (level_recommendations l)))]"

text \<open>Members of a plain \<^verbatim>\<open>Enum\<close> have no order: comparing them raises. Everything the diagnostics return depends on
  the first comparison.\<close>

definition enum_less :: "capability_level \<Rightarrow> capability_level \<Rightarrow> string + bool" where
  "enum_less a b = Inl (CHR 0x27 # ''<'' @ CHR 0x27 # '' not supported between instances of '' @ CHR 0x27 # ''CapabilityLevel'' @ CHR 0x27 # '' and '' @
     CHR 0x27 # ''CapabilityLevel'' @ [CHR 0x27])"

definition get_detection_diagnostics :: "'s host_ops \<Rightarrow> (string, bool, 's) call" where
  "get_detection_diagnostics ho s = (case detect_capability_level ho s of (level, s1) \<Rightarrow> (case check_nbd_module ho s1 of (nbd_module, s2) \<Rightarrow>
     (case (if has_nbd_access ho s2 then check_nbd_partition_devices ho s2 else (False, s2)) of (nbd_partitions, s3) \<Rightarrow>
        (enum_less level NBD_INSPECTION, s3))))"

lemma diagnostics_always_raise: "\<exists>e s'. get_detection_diagnostics ho s = (Inl e, s')"
  by (simp add: get_detection_diagnostics_def enum_less_def split: prod.splits)

lemma operations_grow: "level_value a \<le> level_value b \<Longrightarrow> prefix (available_operations a) (available_operations b)"
  by (cases a; cases b) (simp_all add: inspection_operations_def)

section \<open>What the checks leave behind\<close>

text \<open>The host with a record of the commands that were run on it, so that statements about them hold on every host.\<close>

definition logged :: "'s host_ops \<Rightarrow> ('s \<times> string list list) host_ops" where
  "logged ho = \<lparr>ho_exists = ho_exists ho \<circ> fst, ho_read = ho_read ho \<circ> fst, ho_open = ho_open ho \<circ> fst, ho_which = ho_which ho \<circ> fst,
     ho_dev_nbd = ho_dev_nbd ho \<circ> fst, ho_euid = ho_euid ho \<circ> fst,
     ho_run = \<lambda>cmd (s, cs). (case ho_run ho cmd s of (r, s1) \<Rightarrow> (r, (s1, cs @ [cmd]))),
     ho_mkdtemp = \<lambda>(s, cs). (case ho_mkdtemp ho s of (r, s1) \<Rightarrow> (r, (s1, cs))), ho_rmtree = \<lambda>d (s, cs). (ho_rmtree ho d s, cs),
     ho_mkstemp = \<lambda>(s, cs). (case ho_mkstemp ho s of (r, s1) \<Rightarrow> (r, (s1, cs))),
     ho_unlink = \<lambda>p (s, cs). (case ho_unlink ho p s of (r, s1) \<Rightarrow> (r, (s1, cs)))\<rparr>"

lemma logged_sel [simp]:
  "ho_exists (logged ho) s = ho_exists ho (fst s)" "ho_read (logged ho) s = ho_read ho (fst s)" "ho_open (logged ho) s = ho_open ho (fst s)"
  "ho_which (logged ho) s = ho_which ho (fst s)" "ho_dev_nbd (logged ho) s = ho_dev_nbd ho (fst s)" "ho_euid (logged ho) s = ho_euid ho (fst s)"
  by (simp_all add: logged_def)

lemma logged_run: "ho_run (logged ho) cmd sl = (r, sl') \<longleftrightarrow> ho_run ho cmd (fst sl) = (r, fst sl') \<and> snd sl' = snd sl @ [cmd]"
  by (cases sl; cases sl') (auto simp: logged_def split: prod.splits)

lemma logged_unlink [simp]: "snd (snd (ho_unlink (logged ho) p sl)) = snd sl"
  by (cases sl) (simp add: logged_def split: prod.splits)

lemma logged_run_snd [simp]: "snd (snd (ho_run (logged ho) cmd sl)) = snd sl @ [cmd]"
  by (cases sl) (simp add: logged_def split: prod.splits)

lemma logged_mkstemp: "ho_mkstemp (logged ho) sl = (r, sl') \<Longrightarrow> snd sl' = snd sl"
  by (cases sl) (auto simp: logged_def split: prod.splits)

lemma cleanup_log: "snd (partition_cleanup (logged ho) dev img sl) = snd sl @ [nbd_disconnect dev]"
  by (simp add: partition_cleanup_def Let_def split: option.splits)

definition connects :: "string list list \<Rightarrow> string set" where
  "connects cs = {d. \<exists>img. [''qemu-nbd'', ''--connect'', d, img] \<in> set cs}"

lemma connects_simps [simp]: "connects [] = {}" "connects (xs @ ys) = connects xs \<union> connects ys"
  "connects [[''qemu-nbd'', ''--connect'', d, img]] = {d}" "connects [nbd_disconnect d] = {}"
  "c \<noteq> ''qemu-nbd'' \<Longrightarrow> connects [c # cmd] = {}"
  by (auto simp: connects_def nbd_disconnect_def)

lemma create_image_log:
  assumes "create_test_image (logged ho) sl = (r, sl')"
  shows "\<exists>cs. snd sl' = snd sl @ cs \<and> connects cs = {}"
proof -
  obtain m sl1 where m: "ho_mkstemp (logged ho) sl = (m, sl1)" by (cases "ho_mkstemp (logged ho) sl")
  show ?thesis
  proof (cases m)
    case None
    with assms m logged_mkstemp [OF m] show ?thesis by (auto simp: create_test_image_def)
  next
    case (Some path)
    let ?i = "[''qemu-img'', ''create'', ''-f'', ''qcow2'', path, ''10M'']" and ?l = "[''parted'', ''-s'', path, ''mklabel'', ''gpt'']"
      and ?k = "[''parted'', ''-s'', path, ''mkpart'', ''primary'', ''1MiB'', ''9MiB'']"
    have "snd sl' = snd sl1 @ [?i] \<or> snd sl' = snd sl1 @ [?i, ?l] \<or> snd sl' = snd sl1 @ [?i, ?l, ?k]"
      using assms m Some by (auto simp: create_test_image_def Let_def logged_run split: prod.splits run_out.splits if_splits bool.splits) (metis logged_unlink snd_conv)+
    moreover have "connects [?i] = {}" "connects ([?i] @ [?l]) = {}" "connects ([?i] @ [?l] @ [?k]) = {}"
      by (simp_all only: connects_simps) simp_all
    ultimately show ?thesis using logged_mkstemp [OF m] by auto
  qed
qed

lemma partition_test_log:
  assumes "partition_test (logged ho) dev img sl = (b, sl')"
  shows "\<exists>cs. snd sl' = snd sl @ cs \<and> connects cs = {dev}"
proof -
  let ?c = "[''qemu-nbd'', ''--connect'', dev, img]"
  have "snd sl' = snd sl @ [?c] \<or> snd sl' = snd sl @ [?c] @ [nbd_disconnect dev]"
    using assms by (auto simp: partition_test_def ok_run_def logged_run split: prod.splits run_out.splits bool.splits)
  moreover have "connects [?c] = {dev}" "connects ([?c] @ [nbd_disconnect dev]) = {dev}"
    by (simp_all only: connects_simps Un_empty_right)
  ultimately show ?thesis
    by blast
qed

text \<open>
  C30 (safety). The test for partition devices attaches the test image to the free device it chose and to no other, and
  whatever the host does in between, the last command it runs detaches that device; when no device is free it runs nothing.
\<close>
theorem partition_test_detaches:
  assumes "check_nbd_partition_devices (logged ho) (s, cmds) = (b, (s', done_cmds))"
  shows "case find_free_nbd_device ho s of
      None \<Rightarrow> \<not> b \<and> done_cmds = cmds
    | Some dev \<Rightarrow> (\<exists>cs. done_cmds = cmds @ cs @ [nbd_disconnect dev] \<and> connects cs \<subseteq> {dev} \<and> (b \<longrightarrow> connects cs = {dev}))"
proof -
  have free: "find_free_nbd_device (logged ho) (s, cmds) = find_free_nbd_device ho s"
    by (simp add: find_free_nbd_device_def nbd_free_def [abs_def])
  show ?thesis
  proof (cases "find_free_nbd_device ho s")
    case None
    with assms show ?thesis by (simp add: check_nbd_partition_devices_def free)
  next
    case (Some dev)
    obtain r sl1 where img: "create_test_image (logged ho) (s, cmds) = (r, sl1)" by (cases "create_test_image (logged ho) (s, cmds)")
    from create_image_log [OF img] obtain cs where cs: "snd sl1 = cmds @ cs" "connects cs = {}" by auto
    show ?thesis
    proof (cases r)
      case None
      with assms Some img cs cleanup_log [of ho dev None sl1] show ?thesis
        by (auto simp: check_nbd_partition_devices_def free)
    next
      case (Some path)
      obtain b2 sl2 where t: "partition_test (logged ho) dev path sl1 = (b2, sl2)" by (cases "partition_test (logged ho) dev path sl1")
      from partition_test_log [OF t] cs obtain cs2 where cs2: "snd sl2 = cmds @ cs @ cs2" "connects (cs @ cs2) = {dev}" by auto
      from assms \<open>find_free_nbd_device ho s = Some dev\<close> Some img t cleanup_log [of ho dev "Some path" sl2] cs2
      have "done_cmds = cmds @ (cs @ cs2) @ [nbd_disconnect dev]" by (auto simp: check_nbd_partition_devices_def free)
      with \<open>find_free_nbd_device ho s = Some dev\<close> cs2(2) show ?thesis by auto
    qed
  qed
qed

text \<open>A host on which every command succeeds and the first device is free.\<close>

definition example_host :: "unit host_ops" where
  "example_host = \<lparr>ho_exists = \<lambda>_ p. p \<in> {''/dev/nbd0'', ''/dev/nbd0p1''}, ho_read = \<lambda>_ _. None, ho_open = \<lambda>_ _. True, ho_which = \<lambda>_ _. True,
     ho_dev_nbd = \<lambda>_. [''nbd0''], ho_euid = \<lambda>_. 0, ho_run = \<lambda>_ s. (RunExit 0 [], s), ho_mkdtemp = \<lambda>s. (Some ''/tmp/d'', s), ho_rmtree = \<lambda>_ s. s,
     ho_mkstemp = \<lambda>s. (Some ''/tmp/i'', s), ho_unlink = \<lambda>_ s. (True, s)\<rparr>"

lemma example_host_free: "find_free_nbd_device example_host () = Some ''/dev/nbd0''"
proof -
  have free: "nbd_free example_host () 0" and dev: "nbd_device 0 = ''/dev/nbd0''"
    by (simp_all add: nbd_free_def nbd_device_def example_host_def Let_def nat_str.simps [of 0] digit_chars_def)
  have "find (nbd_free example_host ()) (0 # [1..<16]) = Some 0"
    by (simp only: find.simps free if_True)
  then show ?thesis
    by (simp only: find_free_nbd_device_def upt_conv_Cons [of 0 16] zero_less_numeral One_nat_def dev option.map)
qed

theorem partition_test_detaches_witness:
  "\<exists>b cs. fst (check_nbd_partition_devices (logged example_host) ((), [])) = b \<and>
     snd (snd (check_nbd_partition_devices (logged example_host) ((), []))) = cs @ [nbd_disconnect ''/dev/nbd0'']"
proof -
  obtain b sl where bsl: "check_nbd_partition_devices (logged example_host) ((), []) = (b, sl)"
    by (cases "check_nbd_partition_devices (logged example_host) ((), [])")
  obtain s' cs where "sl = (s', cs)"
    by (cases sl)
  with bsl have r: "check_nbd_partition_devices (logged example_host) ((), []) = (b, (s', cs))"
    by simp
  from partition_test_detaches [OF r] show ?thesis
    by (auto simp: r example_host_free)
qed

section \<open>Matching a job\<close>

text \<open>A job may run exactly when every capability it requires was detected; the answer does not depend on when it is
  asked, because the first detection is kept and the host is not touched again.\<close>

theorem capability_match:
  assumes "can_execute_job ho reqs ds = (r, ds1)"
  shows "r = None \<longleftrightarrow> (\<forall>(c, required)\<in>set reqs. required \<longrightarrow> dict_get (fst (detect_capabilities ho ds)) c = Some True)"
    and "can_execute_job ho reqs ds1 = (r, ds1)"
proof -
  have m: "missing_capability caps rs = None \<longleftrightarrow> (\<forall>(c, required)\<in>set rs. required \<longrightarrow> dict_get caps c = Some True)" for caps rs
    by (induction rs) (auto split: if_splits)
  obtain caps where caps: "detect_capabilities ho ds = (caps, ds1)" "r = missing_capability caps reqs"
    using assms by (auto simp: can_execute_job_def split: prod.splits)
  then show "r = None \<longleftrightarrow> (\<forall>(c, required)\<in>set reqs. required \<longrightarrow> dict_get (fst (detect_capabilities ho ds)) c = Some True)"
    by (simp add: m)
  have "detect_capabilities ho ds1 = (caps, ds1)"
    using caps(1) by (auto simp: detect_capabilities_def Let_def split: prod.splits option.splits list.splits)
  with caps(2) show "can_execute_job ho reqs ds1 = (r, ds1)"
    by (simp add: can_execute_job_def)
qed

lemma level_needs_access: "detect_capability_level ho s = (l, s') \<Longrightarrow> can_inspect_disk l \<Longrightarrow>
    \<exists>s1. check_nbd_module ho s = (True, s1) \<and> has_nbd_access ho s1"
  by (auto simp: detect_capability_level_def can_inspect_disk_def split: prod.splits bool.splits if_splits)

section \<open>System information\<close>

text \<open>The entries about the platform and the readings of memory and disk are parameters; a reading that raised is
  \<open>None\<close>. Byte counts are below \<open>2 ^ 53\<close>, so dividing them as floating-point numbers by a power of two is exact.\<close>

definition gigabytes :: "int \<Rightarrow> json" where
  "gigabytes n = JInt (n div 2 ^ 30)"

definition get_system_info :: "(string, json) dict \<Rightarrow> (int \<times> int) option \<Rightarrow> (int \<times> int) option \<Rightarrow> (string, json) dict" where
  "get_system_info platform memory disk = platform @
     (case memory of Some (whole, avail) \<Rightarrow> [(''memory_gb'', gigabytes whole), (''memory_available_gb'', gigabytes avail)] | None \<Rightarrow> [(''memory_gb'', JInt 0)]) @
     (case disk of Some (whole, free) \<Rightarrow> [(''disk_space_gb'', gigabytes whole), (''disk_available_gb'', gigabytes free)] | None \<Rightarrow> [(''disk_space_gb'', JInt 0)])"

definition get_detector :: "detector option \<Rightarrow> detector \<times> detector option" where
  "get_detector global = (case global of Some d \<Rightarrow> (d, global) | None \<Rightarrow> (CapabilityDetector, Some CapabilityDetector))"

end
