(* ===== verification/Worker_Engine.thy ===== *)
theory Worker_Engine
  imports Job_State_Machine Worker_Capabilities
begin

text \<open>
  \<^verbatim>\<open>h2kvm/runtime/worker/engine.py\<close>: the execution of one job on a worker. The engine validates a job against the
  detected capabilities, moves it through its states, runs the operation and returns a result; a small HTTP server
  tells whether the worker is alive. The host, the clock, the conversion of an image, guestfs and the offline fixer
  are parameters. Events given to the callback are a list in the state, and so are the calls of the metrics.
\<close>

section \<open>The health server\<close>

text \<open>Three attributes of the server (the HTTP server, its thread and the logger) are set by the method that
  decrements the number of active jobs and by nothing else; \<open>None\<close> is that they do not exist yet.\<close>

record health =
  hs_port :: int
  hs_active :: int
  hs_ready :: bool
  hs_private :: "(bool \<times> bool) option"

definition HealthServer :: "int \<Rightarrow> health" where
  "HealthServer port = \<lparr>hs_port = port, hs_active = 0, hs_ready = False, hs_private = None\<rparr>"

definition increment_active_jobs :: "health \<Rightarrow> health" where
  "increment_active_jobs hs = hs\<lparr>hs_active := hs_active hs + 1\<rparr>"

definition decrement_active_jobs :: "health \<Rightarrow> health" where
  "decrement_active_jobs hs = hs\<lparr>hs_active := max 0 (hs_active hs - 1), hs_private := Some (False, False)\<rparr>"

definition no_attribute :: "string \<Rightarrow> py_exc" where
  "no_attribute a = AttributeError (CHR 0x27 # ''HealthServer'' @ CHR 0x27 # '' object has no attribute '' @ CHR 0x27 # a @ [CHR 0x27])"

definition health_start :: "bool \<Rightarrow> health \<Rightarrow> py_exc + health" where
  "health_start bound hs = (case hs_private hs of
      None \<Rightarrow> Inl (no_attribute ''_thread'')
    | Some (httpd, alive) \<Rightarrow> Inr (if alive \<or> \<not> bound then hs else hs\<lparr>hs_private := Some (True, True)\<rparr>))"

definition health_stop :: "health \<Rightarrow> py_exc + health" where
  "health_stop hs = (case hs_private hs of None \<Rightarrow> Inl (no_attribute ''_httpd'') | Some _ \<Rightarrow> Inr (hs\<lparr>hs_private := Some (False, False)\<rparr>))"

definition health_get :: "string \<Rightarrow> health \<Rightarrow> int \<times> json" where
  "health_get path hs =
     (if path = ''/healthz'' then (200, JObj [(''status'', JStr ''healthy''), (''active_jobs'', JInt (hs_active hs))])
      else if path = ''/readyz'' then
        (if hs_ready hs then (200, JObj [(''status'', JStr ''ready''), (''active_jobs'', JInt (hs_active hs))])
         else (503, JObj [(''status'', JStr ''not_ready'')]))
      else (404, JStr ''Not Found''))"

section \<open>The engine\<close>

datatype metric_call = MigrationStart string | MigrationComplete string int bool "string option"

record 's engine =
  en_worker_id :: string
  en_registry :: job_registry
  en_detector :: detector
  en_current :: "string option"
  en_health :: "health option"
  en_metrics :: "metric_call list option"
  en_events :: "progress_event list"
  en_ticks :: nat
  en_host :: 's

text \<open>What a conversion, guestfs and the offline fixer do. A guest disk that cannot be opened raises; a probe of one
  partition that raises counts as no answer.\<close>

datatype conv_out = ConvDone | ConvTimeout | ConvFailed string | ConvRaised py_exc

record guest_disk =
  gd_partitions :: "string list"
  gd_vfs_type :: "string \<Rightarrow> string option"
  gd_vfs_uuid :: "string \<Rightarrow> string option"
  gd_vgscan :: bool
  gd_pvs :: "string list option"
  gd_vgs :: "string list option"
  gd_lvs :: "string list option"

record fixer_report =
  fx_report :: "json option"
  fx_report_path :: "string option"

record 's world =
  wo_host :: "'s host_ops"
  wo_clock :: "nat \<Rightarrow> time"
  wo_mkdir :: "string \<Rightarrow> 's \<Rightarrow> string option \<times> 's"
  wo_convert :: "string list \<Rightarrow> string \<Rightarrow> string \<Rightarrow> 's \<Rightarrow> conv_out \<times> 's"
  wo_inspector :: "string \<Rightarrow> 's \<Rightarrow> py_exc + json"
  wo_write :: "string \<Rightarrow> json \<Rightarrow> 's \<Rightarrow> py_exc option \<times> 's"
  wo_guestfs :: "string \<Rightarrow> 's \<Rightarrow> py_exc + guest_disk"
  wo_fixer :: "job_spec \<Rightarrow> string \<Rightarrow> 's \<Rightarrow> (py_exc + fixer_report) \<times> 's"
  wo_traceback :: "sm_exc \<Rightarrow> string"

type_synonym ('a, 's) ecall = "(sm_exc, 'a, 's engine) call"

definition WorkerEngine :: "bool \<Rightarrow> string \<Rightarrow> detector \<Rightarrow> job_registry \<Rightarrow> metric_call list option \<Rightarrow> int option \<Rightarrow> 's \<Rightarrow> py_exc + 's engine" where
  "WorkerEngine bound wid det reg metrics health_port s =
     (let e = \<lparr>en_worker_id = wid, en_registry = reg, en_detector = det, en_current = None, en_health = None, en_metrics = metrics, en_events = [],
               en_ticks = 0, en_host = s\<rparr>
      in case health_port of
           None \<Rightarrow> Inr e
         | Some p \<Rightarrow>
             if p = 0 then Inr e
             else sum_bind (health_start bound ((HealthServer p)\<lparr>hs_ready := True\<rparr>)) (\<lambda>hs. Inr (e\<lparr>en_health := Some hs\<rparr>)))"

subsection \<open>Clock, events and states\<close>

definition tick :: "'s world \<Rightarrow> (time, 's) ecall" where
  "tick w e = (Inr (wo_clock w (en_ticks e)), e\<lparr>en_ticks := Suc (en_ticks e)\<rparr>)"

definition emit_event :: "'s world \<Rightarrow> string \<Rightarrow> string \<Rightarrow> int \<Rightarrow> string \<Rightarrow> (unit, 's) ecall" where
  "emit_event w jid phase percent message = call_bind (tick w) (\<lambda>t e.
     (Inr (), e\<lparr>en_events := en_events e @ [\<lparr>ev_job_id = jid, ev_timestamp = t, ev_phase = phase, ev_percent = percent, ev_message = message, ev_details = None\<rparr>]\<rparr>))"

definition move_to :: "'s world \<Rightarrow> string \<Rightarrow> job_state \<Rightarrow> string \<Rightarrow> (unit, 's) ecall" where
  "move_to w jid to_state reason = call_bind (tick w) (\<lambda>t e.
     (case registry_transition t jid to_state reason (en_registry e) of (r, reg) \<Rightarrow> (r, e\<lparr>en_registry := reg\<rparr>)))"

definition on_host :: "('s \<Rightarrow> 'a \<times> 's) \<Rightarrow> ('a, 's) ecall" where
  "on_host f e = (case f (en_host e) of (x, s) \<Rightarrow> (Inr x, e\<lparr>en_host := s\<rparr>))"

definition raise_py :: "py_exc \<Rightarrow> ('a, 's) ecall" where
  "raise_py x = call_raise (PyExc x)"

definition seconds :: "time \<Rightarrow> time \<Rightarrow> int" where
  "seconds t0 t1 = (if t1 < t0 then \<lceil>t1 - t0\<rceil> else \<lfloor>t1 - t0\<rfloor>)"

fun engine_text :: "sm_exc \<Rightarrow> string" where
  "engine_text (InvalidStateTransition a b reason) =
     ''Invalid transition from '' @ job_state_value a @ '' to '' @ job_state_value b @ (if reason = [] then [] else '': '' @ reason)"
| "engine_text (PyExc x) = exc_text x"

fun engine_class :: "sm_exc \<Rightarrow> string" where
  "engine_class (InvalidStateTransition a b reason) = ''InvalidStateTransition''"
| "engine_class (PyExc x) = exc_class x"

section \<open>Validation\<close>

definition job_requirements :: "job_spec \<Rightarrow> (string, bool) dict" where
  "job_requirements spec = (let c = capability_requirements spec
     in [(''nbd'', needs_nbd c), (''lvm'', needs_lvm c), (''mount'', needs_mount c), (''selinux'', needs_selinux_tools c)])"

definition validate_job :: "'s world \<Rightarrow> job_spec \<Rightarrow> (string option, 's) ecall" where
  "validate_job w spec e =
     (case detect_capabilities (wo_host w) (en_detector e, en_host e) of (_, ds0) \<Rightarrow>
     (case can_execute_job (wo_host w) (job_requirements spec) ds0 of (r, (d, s)) \<Rightarrow>
       (let e1 = e\<lparr>en_detector := d, en_host := s\<rparr>; out = output_path (artifacts spec)
        in case r of
             Some reason \<Rightarrow> (Inr (Some (''Worker cannot execute job: '' @ reason)), e1)
           | None \<Rightarrow>
               if \<not> ho_exists (wo_host w) s (img_path (image spec)) then (Inr (Some (''Image not found: '' @ img_path (image spec))), e1)
               else if ho_exists (wo_host w) s out then (Inr None, e1)
               else (case wo_mkdir w out s of
                       (None, s1) \<Rightarrow> (Inr None, e1\<lparr>en_host := s1\<rparr>)
                     | (Some err, s1) \<Rightarrow> (Inr (Some (''Cannot create output directory: '' @ err)), e1\<lparr>en_host := s1\<rparr>)))))"

section \<open>Operations\<close>

text \<open>What an operation returns to the engine.\<close>

record op_result =
  or_outputs :: job_output
  or_metrics :: "(string, json) dict"
  or_warnings :: "string list"
  or_fixes :: "string list"
  or_inspection :: "json option"
  or_capability :: "(string, json) dict"
  or_error :: "string option"

definition plain_result :: "job_output \<Rightarrow> (string, json) dict \<Rightarrow> op_result" where
  "plain_result out ms = \<lparr>or_outputs = out, or_metrics = ms, or_warnings = [], or_fixes = [], or_inspection = None, or_capability = [], or_error = None\<rparr>"

text \<open>The module is in the package \<^verbatim>\<open>h2kvm.runtime.worker\<close>, so an import that starts with two dots looks in
  \<^verbatim>\<open>h2kvm.runtime\<close>, whose members are listed here.\<close>

definition runtime_modules :: "string list" where
  "runtime_modules = [''daemon'', ''worker'']"

definition import_runtime :: "string \<Rightarrow> py_exc + unit" where
  "import_runtime m = (if m \<in> set runtime_modules then Inr ()
     else Inl (ImportError (''No module named '' @ CHR 0x27 # ''h2kvm.runtime.'' @ m @ [CHR 0x27])))"

text \<open>Parameters of a job may be absent altogether. A format that is not a string is refused when it is read; the
  source refuses it when it starts the converter.\<close>

definition params_of :: "job_spec \<Rightarrow> py_exc + (string, json) dict" where
  "params_of spec = (case parameters spec of
      None \<Rightarrow> Inl (AttributeError (CHR 0x27 # ''NoneType'' @ CHR 0x27 # '' object has no attribute '' @ CHR 0x27 # ''get'' @ [CHR 0x27]))
    | Some ps \<Rightarrow> Inr ps)"

definition output_format_of :: "(string, json) dict \<Rightarrow> py_exc + string" where
  "output_format_of ps = (case dict_get ps ''output_format'' of None \<Rightarrow> Inr ''qcow2'' | Some (JStr f) \<Rightarrow> Inr f
     | Some _ \<Rightarrow> Inl (TypeError ''expected str, bytes or os.PathLike object''))"

definition compress_of :: "(string, json) dict \<Rightarrow> bool" where
  "compress_of ps = (case dict_get ps ''compress'' of None \<Rightarrow> True | Some v \<Rightarrow> truthy v)"

definition output_file_of :: "job_spec \<Rightarrow> string \<Rightarrow> string" where
  "output_file_of spec fmt = path_join (output_path (artifacts spec)) (path_stem (img_path (image spec)) @ ''.'' @ fmt)"

definition convert_command :: "string \<Rightarrow> bool \<Rightarrow> string \<Rightarrow> string \<Rightarrow> string list" where
  "convert_command fmt compress src out = [''qemu-img'', ''convert'', ''-p'', ''-O'', fmt] @ (if compress \<and> fmt = ''qcow2'' then [''-c''] else []) @ [src, out]"

definition timeout_text :: "job_spec \<Rightarrow> string" where
  "timeout_text spec = ''Disk conversion timed out after '' @ int_str (timeout_seconds (execution_policy spec)) @ ''s. '' @
     ''The disk image may be very large or the system is under heavy I/O load. '' @
     ''Increase the timeout in execution_policy or use a faster storage backend.''"

definition failed_text :: "string \<Rightarrow> string" where
  "failed_text err = ''Disk conversion failed. Check that qemu-img is installed and the source '' @ ''disk image is valid. Detail: '' @ err"

text \<open>The part that the two conversions share: from the announcement to the converted file and the seconds it took.\<close>

definition convert_image :: "'s world \<Rightarrow> job_spec \<Rightarrow> string \<Rightarrow> (string \<times> int, 's) ecall" where
  "convert_image w spec announcement =
     call_bind (emit_event w (job_id spec) ''conversion'' 10 announcement) (\<lambda>_.
     call_bind (call_lift (\<lambda>_. map_sum PyExc id (sum_bind (params_of spec) (\<lambda>ps. map_sum id (\<lambda>f. (f, compress_of ps)) (output_format_of ps))))) (\<lambda>(fmt, compress).
     (let out = output_file_of spec fmt; src = img_path (image spec)
      in call_bind (emit_event w (job_id spec) ''conversion'' 20 (''Converting to '' @ fmt)) (\<lambda>_.
         call_bind (tick w) (\<lambda>t0.
         call_bind (on_host (wo_convert w (convert_command fmt compress src out) out src)) (\<lambda>r. (case r of
             ConvTimeout \<Rightarrow> raise_py (RuntimeError (timeout_text spec))
           | ConvFailed err \<Rightarrow> raise_py (RuntimeError (failed_text err))
           | ConvRaised x \<Rightarrow> raise_py x
           | ConvDone \<Rightarrow> call_bind (tick w) (\<lambda>t1.
               call_bind (emit_event w (job_id spec) ''conversion'' 100 (''Conversion completed in '' @ int_str (seconds t0 t1) @ ''s'')) (\<lambda>_.
               call_ret (out, seconds t0 t1)))))))))) "

definition image_output :: "string \<Rightarrow> string option \<Rightarrow> job_output" where
  "image_output img report = \<lparr>fixed_image = Some img, out_logs = None, out_report = report, intermediates = None\<rparr>"

definition op_convert :: "'s world \<Rightarrow> job_spec \<Rightarrow> (op_result, 's) ecall" where
  "op_convert w spec = call_bind (move_to w (job_id spec) PROGRESSING ''Starting conversion'') (\<lambda>_.
     call_bind (convert_image w spec ''Preparing for conversion'') (\<lambda>(out, secs).
     call_ret (plain_result (image_output out None) [(''conversion_seconds'', JInt secs)])))"

definition op_inspect :: "'s world \<Rightarrow> job_spec \<Rightarrow> (op_result, 's) ecall" where
  "op_inspect w spec =
     call_bind (move_to w (job_id spec) PROGRESSING ''Starting inspection'') (\<lambda>_.
     call_bind (emit_event w (job_id spec) ''inspection'' 20 (''Inspecting '' @ img_path (image spec))) (\<lambda>_.
     call_bind (call_lift (\<lambda>_. map_sum PyExc id (import_runtime ''inspector''))) (\<lambda>_.
     call_bind (tick w) (\<lambda>t0.
     call_bind (call_lift (\<lambda>e. map_sum PyExc id (wo_inspector w (img_path (image spec)) (en_host e)))) (\<lambda>report.
     call_bind (tick w) (\<lambda>t1.
     (let report_file = path_join (output_path (artifacts spec)) (job_id spec @ ''_inspection.json'')
      in call_bind (on_host (wo_write w report_file report)) (\<lambda>r. (case r of
             Some x \<Rightarrow> raise_py x
           | None \<Rightarrow> call_bind (emit_event w (job_id spec) ''inspection'' 100 ''Inspection completed'') (\<lambda>_.
               call_ret (plain_result \<lparr>fixed_image = None, out_logs = None, out_report = Some report_file, intermediates = None\<rparr>
                 [(''inspection_seconds'', JInt (seconds t0 t1))]))))))))))) "

section \<open>Offline fixes by capability level\<close>

definition userspace_warnings :: "string list" where
  "userspace_warnings = [''Offline fixes skipped (NBD partition devices unavailable)'', ''Guest may require manual configuration before first boot'',
     ''Virtio drivers not injected - manual installation may be required'']"

definition execute_userspace_conversion :: "'s world \<Rightarrow> job_spec \<Rightarrow> (string, json) dict \<Rightarrow> (op_result, 's) ecall" where
  "execute_userspace_conversion w spec report =
     call_bind (convert_image w spec ''Preparing for conversion (userspace-only mode)'') (\<lambda>(out, secs).
     call_ret \<lparr>or_outputs = image_output out None,
       or_metrics = [(''conversion_seconds'', JInt secs), (''offline_fixes_applied'', JBool False),
          (''capability_level'', case dict_get report ''level_name'' of Some v \<Rightarrow> v | None \<Rightarrow> JNull)],
       or_warnings = userspace_warnings, or_fixes = [], or_inspection = None, or_capability = report, or_error = None\<rparr>)"

definition json_or_none :: "string option \<Rightarrow> json" where
  "json_or_none v = (case v of None \<Rightarrow> JNull | Some s \<Rightarrow> JStr s)"

text \<open>The volume lists are read in order and reading stops at the first that raises.\<close>

definition lvm_lists :: "guest_disk \<Rightarrow> string list \<times> string list \<times> string list" where
  "lvm_lists g = (if \<not> gd_vgscan g then ([], [], []) else (case gd_pvs g of
      None \<Rightarrow> ([], [], [])
    | Some pvs \<Rightarrow> (case gd_vgs g of
        None \<Rightarrow> (pvs, [], [])
      | Some vgs \<Rightarrow> (case gd_lvs g of None \<Rightarrow> (pvs, vgs, []) | Some lvs \<Rightarrow> (pvs, vgs, lvs)))))"

definition inspect_disk :: "'s world \<Rightarrow> string \<Rightarrow> 's \<Rightarrow> py_exc + (json \<times> nat \<times> nat)" where
  "inspect_disk w img s = sum_bind (wo_guestfs w img s) (\<lambda>g. (case lvm_lists g of (pvs, vgs, lvs) \<Rightarrow>
     Inr (JObj [(''partitions'', JList (map (\<lambda>p. JObj [(''device'', JStr p)]) (gd_partitions g))),
        (''filesystems'', JList (map (\<lambda>p. JObj [(''device'', JStr p), (''fstype'', json_or_none (gd_vfs_type g p)), (''uuid'', json_or_none (gd_vfs_uuid g p))]) (gd_partitions g))),
        (''lvm'', JObj [(''physical_volumes'', JList (map JStr pvs)), (''volume_groups'', JList (map JStr vgs)), (''logical_volumes'', JList (map JStr lvs))])],
      length (gd_partitions g), length lvs)))"

definition add_inspection :: "'s world \<Rightarrow> job_spec \<Rightarrow> op_result \<Rightarrow> py_exc + (json \<times> nat \<times> nat) \<Rightarrow> (op_result, 's) ecall" where
  "add_inspection w spec res r = (case r of
      Inl x \<Rightarrow> call_ret (res\<lparr>or_warnings := or_warnings res @ [''GuestFS inspection failed: '' @ exc_text x, ''Disk inspection unavailable'']\<rparr>)
    | Inr (insp, parts, lvs) \<Rightarrow>
        call_bind (emit_event w (job_id spec) ''inspection'' 100 (''Inspection complete: '' @ nat_str parts @ '' partitions found'')) (\<lambda>_.
        call_ret (res\<lparr>or_inspection := Some insp,
          or_metrics := or_metrics res @ [(''partitions_detected'', JInt (int parts)), (''lvm_volumes_detected'', JInt (int lvs))]\<rparr>)))"

definition execute_with_inspection :: "'s world \<Rightarrow> job_spec \<Rightarrow> (string, json) dict \<Rightarrow> (op_result, 's) ecall" where
  "execute_with_inspection w spec report =
     call_bind (execute_userspace_conversion w spec report) (\<lambda>res.
     call_bind (emit_event w (job_id spec) ''inspection'' 25 ''Attaching to NBD for inspection'') (\<lambda>_.
     call_bind (emit_event w (job_id spec) ''inspection'' 50 ''Analyzing disk structure...'') (\<lambda>_.
     call_bind (call_lift (\<lambda>e. Inr (inspect_disk w (case fixed_image (or_outputs res) of Some p \<Rightarrow> p | None \<Rightarrow> []) (en_host e))))
       (add_inspection w spec res))))"

text \<open>The fixes that the report of the offline fixer tells of.\<close>

definition fixes_of :: "json option \<Rightarrow> string list" where
  "fixes_of report = (case report of
      None \<Rightarrow> []
    | Some r \<Rightarrow> if \<not> truthy r then [] else (let changes = json_get r ''changes'' (JObj [])
        in map snd (filter (\<lambda>(k, _). truthy (json_get changes k JNull))
             [(''fstab'', ''fstab stabilized with UUID-based mounts''), (''grub'', ''GRUB configuration regenerated''),
              (''initramfs'', ''Initramfs rebuilt with virtio drivers''), (''network'', ''Network configuration updated''),
              (''vmware_tools'', ''VMware tools removed'')])))"

definition run_fixer :: "'s world \<Rightarrow> job_spec \<Rightarrow> string \<Rightarrow> (fixer_report, 's) ecall" where
  "run_fixer w spec img =
     call_bind (call_lift (\<lambda>_. map_sum PyExc id (import_runtime ''fixers''))) (\<lambda>_.
     call_bind (emit_event w (job_id spec) ''offline_fixes'' 40 ''Mounting guest filesystem'') (\<lambda>_.
     call_bind (emit_event w (job_id spec) ''offline_fixes'' 60 ''Running offline fixes'') (\<lambda>_.
     call_bind (on_host (wo_fixer w spec img)) (\<lambda>r. (case r of
         Inl x \<Rightarrow> raise_py x
       | Inr rep \<Rightarrow> call_bind (emit_event w (job_id spec) ''offline_fixes'' 100 ''Offline fixes completed'') (\<lambda>_. call_ret rep))))))"

definition skipped_fixes :: "op_result \<Rightarrow> string list \<Rightarrow> op_result" where
  "skipped_fixes conv warnings = conv\<lparr>or_warnings := warnings\<rparr>"

definition execute_full_migration :: "'s world \<Rightarrow> job_spec \<Rightarrow> (string, json) dict \<Rightarrow> (op_result, 's) ecall" where
  "execute_full_migration w spec report =
     call_bind (emit_event w (job_id spec) ''conversion'' 10 ''Converting to QCOW2'') (\<lambda>_.
     call_bind (execute_userspace_conversion w spec report) (\<lambda>conv.
     call_bind (emit_event w (job_id spec) ''offline_fixes'' 30 ''Preparing offline fixes'') (\<lambda>_ e.
     (let img = (case fixed_image (or_outputs conv) of Some p \<Rightarrow> p | None \<Rightarrow> [])
      in case run_fixer w spec img e of
           (Inr rep, e1) \<Rightarrow> (Inr \<lparr>or_outputs = image_output img (fx_report_path rep),
              or_metrics = dict_set ''offline_fixes_applied'' (JBool True) (or_metrics conv) @ [(''fixes_count'', JInt (int (length (fixes_of (fx_report rep)))))],
              or_warnings = [], or_fixes = (if fixes_of (fx_report rep) = [] then [''Offline fixes applied (see report for details)''] else fixes_of (fx_report rep)),
              or_inspection = None, or_capability = report, or_error = None\<rparr>, e1)
         | (Inl (PyExc (ImportError m)), e1) \<Rightarrow>
              call_bind (emit_event w (job_id spec) ''offline_fixes'' 100 ''Offline fixes skipped (OfflineFSFix not available)'') (\<lambda>_.
              call_ret (skipped_fixes conv [''OfflineFSFix not available - offline fixes skipped'', ''Image converted but may require manual configuration''])) e1
         | (Inl x, e1) \<Rightarrow>
              call_bind (emit_event w (job_id spec) ''offline_fixes'' 0 (''Offline fixes failed: '' @ engine_text x)) (\<lambda>_.
              call_ret ((skipped_fixes conv [''Offline fixes failed: '' @ engine_text x, ''Image was converted but may not boot without manual intervention''])
                 \<lparr>or_error := Some (engine_text x)\<rparr>)) e1))))"

definition op_offline_fix :: "'s world \<Rightarrow> job_spec \<Rightarrow> (op_result, 's) ecall" where
  "op_offline_fix w spec =
     call_bind (move_to w (job_id spec) PROGRESSING ''Starting offline fix operation'') (\<lambda>_.
     call_bind (on_host (detect_capability_level (wo_host w))) (\<lambda>level.
     (case level of
        USERSPACE_ONLY \<Rightarrow> execute_userspace_conversion w spec (capability_level_report level)
      | NBD_INSPECTION \<Rightarrow> execute_with_inspection w spec (capability_level_report level)
      | FULL_OFFLINE_FIXES \<Rightarrow> execute_full_migration w spec (capability_level_report level))))"

text \<open>The other operations are placeholders that return at once.\<close>

definition op_placeholder :: "(op_result, 's) ecall" where
  "op_placeholder = call_ret (plain_result empty_output [])"

definition execute_operation :: "'s world \<Rightarrow> job_spec \<Rightarrow> (op_result, 's) ecall" where
  "execute_operation w spec = (case operation spec of
      INSPECT \<Rightarrow> op_inspect w spec
    | CONVERT \<Rightarrow> op_convert w spec
    | OFFLINE_FIX \<Rightarrow> op_offline_fix w spec
    | _ \<Rightarrow> op_placeholder)"

section \<open>Execution of a job\<close>

definition record_metric :: "metric_call \<Rightarrow> 's engine \<Rightarrow> 's engine" where
  "record_metric m e = e\<lparr>en_metrics := map_option (\<lambda>ms. ms @ [m]) (en_metrics e)\<rparr>"

text \<open>The model of the metrics refuses a negative duration.\<close>

definition mk_metrics :: "int \<Rightarrow> sm_exc + job_metrics" where
  "mk_metrics n = (if n < 0 then Inl (PyExc (ValueError ''execution_seconds'')) else Inr (metrics_of n))"

definition create_error_result :: "'s world \<Rightarrow> job_spec \<Rightarrow> string \<Rightarrow> string \<Rightarrow> string \<Rightarrow> time \<Rightarrow> string option \<Rightarrow> (job_result, 's) ecall" where
  "create_error_result w spec phase code message t0 trace =
     call_bind (tick w) (\<lambda>t1.
     call_bind (emit_event w (job_id spec) ''failed'' 0 (''Job failed: '' @ message)) (\<lambda>_.
     call_bind (call_lift (\<lambda>_. mk_metrics (seconds t0 t1))) (\<lambda>m.
     call_bind (tick w) (\<lambda>t2 e.
       (Inr \<lparr>res_job_id = job_id spec, res_status = FAILED, res_completed_at = t2, res_outputs = None, res_metrics = Some m,
          res_error = Some \<lparr>err_phase = phase, err_code = code, err_message = message, err_details = None, err_stack_trace = trace\<rparr>,
          res_worker_id = Some (en_worker_id e), res_retry_attempt = 0\<rparr>, e)))))"

definition run_job :: "'s world \<Rightarrow> job_spec \<Rightarrow> time \<Rightarrow> (job_result, 's) ecall" where
  "run_job w spec t0 =
     call_bind (move_to w (job_id spec) VALIDATED ''Job validated'') (\<lambda>_.
     call_bind (move_to w (job_id spec) QUEUED ''Immediately queued for execution'') (\<lambda>_.
     call_bind (\<lambda>e. move_to w (job_id spec) ASSIGNED (''Assigned to worker '' @ en_worker_id e) e) (\<lambda>_.
     call_bind (move_to w (job_id spec) RUNNING ''Execution started'') (\<lambda>_.
     call_bind (execute_operation w spec) (\<lambda>res.
     call_bind (move_to w (job_id spec) COMPLETED ''Job completed successfully'') (\<lambda>_.
     call_bind (tick w) (\<lambda>t1.
     call_bind (\<lambda>e. (Inr (), record_metric (MigrationComplete (operation_value (operation spec)) (seconds t0 t1) True None) e)) (\<lambda>_.
     call_bind (emit_event w (job_id spec) ''completed'' 100 (''Job completed in '' @ int_str (seconds t0 t1) @ ''s'')) (\<lambda>_.
     call_bind (call_lift (\<lambda>_. mk_metrics (seconds t0 t1))) (\<lambda>m.
     call_bind (tick w) (\<lambda>t2 e.
       (Inr \<lparr>res_job_id = job_id spec, res_status = COMPLETED, res_completed_at = t2, res_outputs = Some (or_outputs res), res_metrics = Some m,
          res_error = None, res_worker_id = Some (en_worker_id e), res_retry_attempt = 0\<rparr>, e))))))))))))"

definition try_job :: "'s world \<Rightarrow> job_spec \<Rightarrow> time \<Rightarrow> (job_result, 's) ecall" where
  "try_job w spec t0 =
     call_bind (emit_event w (job_id spec) ''validation'' 0 ''Validating job specification'') (\<lambda>_.
     call_bind (validate_job w spec) (\<lambda>err. (case err of
         Some msg \<Rightarrow> call_bind (move_to w (job_id spec) FAILED msg) (\<lambda>_. create_error_result w spec ''validation'' ''VALIDATION_FAILED'' msg t0 None)
       | None \<Rightarrow> run_job w spec t0)))"

definition handle_failure :: "'s world \<Rightarrow> job_spec \<Rightarrow> time \<Rightarrow> sm_exc \<Rightarrow> (job_result, 's) ecall" where
  "handle_failure w spec t0 x =
     call_bind (tick w) (\<lambda>t1 e.
       (let e1 = record_metric (MigrationComplete (operation_value (operation spec)) (seconds t0 t1) False (Some (engine_class x))) e;
            e2 = snd (move_to w (job_id spec) FAILED (engine_text x) e1)
        in create_error_result w spec ''execution'' ''EXECUTION_FAILED'' (engine_text x) t0 (Some (wo_traceback w x)) e2))"

definition begin_job :: "'s world \<Rightarrow> job_spec \<Rightarrow> 's engine \<Rightarrow> time \<times> 's engine" where
  "begin_job w spec e =
     (let t0 = wo_clock w (en_ticks e);
          e1 = record_metric (MigrationStart (operation_value (operation spec)))
                 (e\<lparr>en_ticks := Suc (Suc (en_ticks e)), en_current := Some (job_id spec), en_health := map_option increment_active_jobs (en_health e)\<rparr>)
      in (t0, e1\<lparr>en_registry := registry_register (wo_clock w (Suc (en_ticks e))) spec (en_registry e)\<rparr>))"

definition end_job :: "'s engine \<Rightarrow> 's engine" where
  "end_job e = e\<lparr>en_current := None, en_health := map_option decrement_active_jobs (en_health e)\<rparr>"

definition execute_job :: "'s world \<Rightarrow> job_spec \<Rightarrow> (job_result, 's) ecall" where
  "execute_job w spec e =
     (case begin_job w spec e of (t0, e1) \<Rightarrow>
     (case (case try_job w spec t0 e1 of (Inr r, e2) \<Rightarrow> (Inr r, e2) | (Inl x, e2) \<Rightarrow> handle_failure w spec t0 x e2) of
        (r, e3) \<Rightarrow> (r, end_job e3)))"

section \<open>Frames and states\<close>

definition job_state_of :: "string \<Rightarrow> 's engine \<Rightarrow> job_state option" where
  "job_state_of jid e = map_option current_state (dict_get (jobs (en_registry e)) jid)"

text \<open>What no step of a job changes, and the clock only moves forward.\<close>

definition frame :: "'s engine \<Rightarrow> 's engine \<Rightarrow> bool" where
  "frame e e' \<longleftrightarrow> en_health e' = en_health e \<and> en_worker_id e' = en_worker_id e \<and> en_ticks e \<le> en_ticks e'"

lemma engine_frame_refl [simp]: "frame e e"
  by (simp add: frame_def)

lemma engine_frame_trans: "frame e e1 \<Longrightarrow> frame e1 e2 \<Longrightarrow> frame e e2"
  by (auto simp: frame_def)

text \<open>Calls that keep the frame and a set of states of the job.\<close>

definition keeps :: "string \<Rightarrow> job_state set \<Rightarrow> ('a, 's) ecall \<Rightarrow> bool" where
  "keeps jid S c \<longleftrightarrow> (\<forall>e r e'. c e = (r, e') \<longrightarrow> job_state_of jid e \<in> Some ` S \<longrightarrow> frame e e' \<and> job_state_of jid e' \<in> Some ` S)"

lemma keepsI: "(\<And>e r e'. c e = (r, e') \<Longrightarrow> job_state_of jid e \<in> Some ` S \<Longrightarrow> frame e e' \<and> job_state_of jid e' \<in> Some ` S) \<Longrightarrow> keeps jid S c"
  by (auto simp: keeps_def)

lemma keepsD: "keeps jid S c \<Longrightarrow> c e = (r, e') \<Longrightarrow> job_state_of jid e \<in> Some ` S \<Longrightarrow> frame e e' \<and> job_state_of jid e' \<in> Some ` S"
  by (auto simp: keeps_def)

lemma keeps_bind:
  assumes "keeps jid S f" and "\<And>x. keeps jid S (g x)"
  shows "keeps jid S (call_bind f g)"
proof (rule keepsI)
  fix e r e'
  assume b: "call_bind f g e = (r, e')" and s: "job_state_of jid e \<in> Some ` S"
  obtain x e1 where f: "f e = (x, e1)" by (cases "f e")
  from keepsD [OF assms(1) f s] have 1: "frame e e1" "job_state_of jid e1 \<in> Some ` S" by auto
  show "frame e e' \<and> job_state_of jid e' \<in> Some ` S"
  proof (cases x)
    case (Inl y)
    with b f 1 show ?thesis by (simp add: call_bind_def)
  next
    case (Inr y)
    with b f have "g y e1 = (r, e')" by (simp add: call_bind_def)
    from keepsD [OF assms(2) this 1(2)] 1(1) show ?thesis using engine_frame_trans by blast
  qed
qed

lemma keeps_basic [simp, intro]:
  "keeps jid S (call_ret x)" "keeps jid S (call_raise y)" "keeps jid S (call_lift f)" "keeps jid S (raise_py z)" "keeps jid S (on_host h)" "keeps jid S (tick w)"
  by (auto simp: keeps_def raise_py_def on_host_def tick_def frame_def job_state_of_def split: prod.splits)

lemma keeps_emit [simp, intro]: "keeps jid S (emit_event w j p n m)"
  unfolding emit_event_def by (intro keeps_bind keeps_basic) (auto simp: keeps_def frame_def job_state_of_def)

lemma move_to_ok:
  assumes "job_state_of jid e = Some a" and "b = a \<or> b \<in> TRANSITIONS a"
  shows "\<exists>e'. move_to w jid b reason e = (Inr (), e') \<and> job_state_of jid e' = Some b \<and> frame e e'"
  using assms
  by (auto simp: move_to_def call_bind_def tick_def registry_transition_def transition_def can_transition_def job_state_of_def frame_def update_conv')

lemma move_to_bad:
  assumes "job_state_of jid e = Some a" and "b \<noteq> a" and "b \<notin> TRANSITIONS a"
  shows "\<exists>e'. move_to w jid b reason e = (Inl (InvalidStateTransition a b (if reason = [] then ''Transition not allowed'' else reason)), e') \<and>
    job_state_of jid e' = Some a \<and> frame e e'"
  using assms
  by (auto simp: move_to_def call_bind_def tick_def registry_transition_def transition_def can_transition_def job_state_of_def frame_def)

lemma keeps_move: "b \<in> S \<Longrightarrow> keeps jid S (move_to w jid b reason)"
proof (rule keepsI)
  fix e r e'
  assume b: "b \<in> S" and m: "move_to w jid b reason e = (r, e')" and s: "job_state_of jid e \<in> Some ` S"
  from s obtain a where a: "job_state_of jid e = Some a" "a \<in> S" by auto
  show "frame e e' \<and> job_state_of jid e' \<in> Some ` S"
  proof (cases "b = a \<or> b \<in> TRANSITIONS a")
    case True
    from move_to_ok [OF a(1) True, of w reason] m b show ?thesis by auto
  next
    case False
    with move_to_bad [OF a(1), of b w reason] m a(2) show ?thesis by auto
  qed
qed

lemmas keeps_intros = keeps_bind keeps_basic keeps_emit

lemma keeps_state: "(\<And>e. keeps jid S (c e)) \<Longrightarrow> keeps jid S (\<lambda>e. c e e)"
  by (auto simp: keeps_def)

lemma keeps_conversion: "keeps jid S (convert_image w spec a)"
  unfolding convert_image_def Let_def by (intro keeps_intros) (auto split: conv_out.split prod.split intro!: keeps_intros)

lemma keeps_userspace: "keeps jid S (execute_userspace_conversion w spec report)"
  unfolding execute_userspace_conversion_def by (intro keeps_intros keeps_conversion) (auto split: prod.split)

lemma keeps_add_inspection: "keeps jid S (add_inspection w spec res r)"
  by (auto simp: add_inspection_def split: sum.split prod.split intro!: keeps_intros)

lemma keeps_inspection: "keeps jid S (execute_with_inspection w spec report)"
  unfolding execute_with_inspection_def by (intro keeps_intros keeps_userspace keeps_add_inspection)

lemma keeps_fixer: "keeps jid S (run_fixer w spec img)"
  unfolding run_fixer_def by (intro keeps_intros) (auto split: sum.split intro!: keeps_intros)

lemma run_fixer_import: "run_fixer w spec img e = (Inl (PyExc (ImportError (''No module named '' @ CHR 0x27 # ''h2kvm.runtime.fixers'' @ [CHR 0x27]))), e)"
  by (simp add: run_fixer_def import_runtime_def runtime_modules_def call_bind_def)

text \<open>The fixer is never reached, so a full migration is a conversion with other warnings.\<close>

lemma full_migration_skips:
  "execute_full_migration w spec report =
     call_bind (emit_event w (job_id spec) ''conversion'' 10 ''Converting to QCOW2'') (\<lambda>_.
     call_bind (execute_userspace_conversion w spec report) (\<lambda>conv.
     call_bind (emit_event w (job_id spec) ''offline_fixes'' 30 ''Preparing offline fixes'') (\<lambda>_.
     call_bind (emit_event w (job_id spec) ''offline_fixes'' 100 ''Offline fixes skipped (OfflineFSFix not available)'') (\<lambda>_.
       call_ret (skipped_fixes conv [''OfflineFSFix not available - offline fixes skipped'', ''Image converted but may require manual configuration''])))))"
  by (simp only: execute_full_migration_def run_fixer_import Let_def prod.case sum.case sm_exc.case py_exc.case)

lemma keeps_full: "keeps jid S (execute_full_migration w spec report)"
  unfolding full_migration_skips by (intro keeps_intros keeps_userspace)

lemma keeps_operation: "PROGRESSING \<in> S \<Longrightarrow> keeps (job_id spec) S (execute_operation w spec)"
proof -
  assume p: "PROGRESSING \<in> S"
  have i: "keeps (job_id spec) S (op_inspect w spec)"
    unfolding op_inspect_def Let_def using keeps_move [OF p] by (intro keeps_intros) (auto split: option.split intro!: keeps_intros)
  have c: "keeps (job_id spec) S (op_convert w spec)"
    unfolding op_convert_def using keeps_move [OF p] by (intro keeps_intros keeps_conversion) (auto split: prod.split)
  have o: "keeps (job_id spec) S (op_offline_fix w spec)"
    unfolding op_offline_fix_def using keeps_move [OF p]
    by (intro keeps_intros) (auto split: capability_level.split intro: keeps_userspace keeps_inspection keeps_full)
  show ?thesis
    using i c o by (auto simp: execute_operation_def op_placeholder_def split: operation_type.split)
qed

section \<open>The outcome of a job\<close>

definition clock_ok :: "'s world \<Rightarrow> time \<Rightarrow> 's engine \<Rightarrow> bool" where
  "clock_ok w t0 e \<longleftrightarrow> mono (wo_clock w) \<and> t0 \<le> wo_clock w (en_ticks e)"

lemma clock_frame: "clock_ok w t0 e \<Longrightarrow> frame e e' \<Longrightarrow> clock_ok w t0 e'"
  by (auto simp: clock_ok_def frame_def dest: monoD order_trans)

lemma clock_seconds: "clock_ok w t0 e \<Longrightarrow> 0 \<le> seconds t0 (wo_clock w (en_ticks e))"
  by (simp add: clock_ok_def seconds_def)

lemma tick_ok: "\<exists>e'. tick w e = (Inr (wo_clock w (en_ticks e)), e') \<and> frame e e' \<and> job_state_of jid e' = job_state_of jid e"
  by (auto simp: tick_def frame_def job_state_of_def)

lemma emit_ok: "\<exists>e'. emit_event w j p n m e = (Inr (), e') \<and> frame e e' \<and> job_state_of jid e' = job_state_of jid e"
  by (simp add: emit_event_def call_bind_def tick_def frame_def job_state_of_def)

lemma metric_frame: "frame e (record_metric m e)" "job_state_of jid (record_metric m e) = job_state_of jid e"
  by (simp_all add: record_metric_def frame_def job_state_of_def)

lemma error_result_ok:
  assumes "clock_ok w t0 e"
  shows "\<exists>res e'. create_error_result w spec phase code msg t0 trace e = (Inr res, e') \<and> frame e e' \<and> job_state_of jid e' = job_state_of jid e \<and>
    res_job_id res = job_id spec \<and> res_status res = FAILED \<and> res_worker_id res = Some (en_worker_id e) \<and>
    res_error res = Some \<lparr>err_phase = phase, err_code = code, err_message = msg, err_details = None, err_stack_trace = trace\<rparr>"
proof -
  obtain e1 where 1: "tick w e = (Inr (wo_clock w (en_ticks e)), e1)" "frame e e1" "job_state_of jid e1 = job_state_of jid e"
    using tick_ok by blast
  obtain e2 where 2: "emit_event w (job_id spec) ''failed'' 0 (''Job failed: '' @ msg) e1 = (Inr (), e2)" "frame e1 e2" "job_state_of jid e2 = job_state_of jid e1"
    using emit_ok by blast
  obtain e3 where 3: "tick w e2 = (Inr (wo_clock w (en_ticks e2)), e3)" "frame e2 e3" "job_state_of jid e3 = job_state_of jid e2"
    using tick_ok by blast
  have f: "frame e e3" using 1(2) 2(2) 3(2) engine_frame_trans by blast
  then show ?thesis
    using clock_seconds [OF assms] 1(3) 2(3) 3(3)
    unfolding create_error_result_def call_bind_def
    by (simp only: 1(1) 2(1) 3(1) prod.case sum.case call_simps mk_metrics_def) (simp add: frame_def)
qed

definition run_outcome_ok :: "job_spec \<Rightarrow> 's engine \<Rightarrow> (sm_exc + job_result) \<times> 's engine \<Rightarrow> bool" where
  "run_outcome_ok spec e out \<longleftrightarrow> (case out of (r, e') \<Rightarrow> frame e e' \<and> (case r of
      Inl x \<Rightarrow> job_state_of (job_id spec) e' \<in> Some ` {RUNNING, PROGRESSING}
    | Inr res \<Rightarrow> job_state_of (job_id spec) e' = Some COMPLETED \<and> res_job_id res = job_id spec \<and> res_status res = COMPLETED \<and> res_error res = None))"

lemma finish_ok:
  assumes "job_state_of (job_id spec) e \<in> Some ` {RUNNING, PROGRESSING}" and "clock_ok w t0 e"
  shows "run_outcome_ok spec e (call_bind (move_to w (job_id spec) COMPLETED ''Job completed successfully'') (\<lambda>_.
     call_bind (tick w) (\<lambda>t1.
     call_bind (\<lambda>e. (Inr (), record_metric (MigrationComplete (operation_value (operation spec)) (seconds t0 t1) True None) e)) (\<lambda>_.
     call_bind (emit_event w (job_id spec) ''completed'' 100 (''Job completed in '' @ int_str (seconds t0 t1) @ ''s'')) (\<lambda>_.
     call_bind (call_lift (\<lambda>_. mk_metrics (seconds t0 t1))) (\<lambda>m.
     call_bind (tick w) (\<lambda>t2 e.
       (Inr \<lparr>res_job_id = job_id spec, res_status = COMPLETED, res_completed_at = t2, res_outputs = Some (or_outputs res), res_metrics = Some m,
          res_error = None, res_worker_id = Some (en_worker_id e), res_retry_attempt = 0\<rparr>, e))))))) e)"
proof -
  from assms(1) obtain a where a: "job_state_of (job_id spec) e = Some a" "COMPLETED = a \<or> COMPLETED \<in> TRANSITIONS a" by auto
  from move_to_ok [OF a] obtain e1 where 1: "move_to w (job_id spec) COMPLETED ''Job completed successfully'' e = (Inr (), e1)"
    "job_state_of (job_id spec) e1 = Some COMPLETED" "frame e e1" by blast
  let ?t1 = "wo_clock w (en_ticks e1)" and ?c = "\<lambda>t1. MigrationComplete (operation_value (operation spec)) (seconds t0 t1) True None"
  obtain e2 where 2: "tick w e1 = (Inr ?t1, e2)" "frame e1 e2" "job_state_of (job_id spec) e2 = job_state_of (job_id spec) e1"
    using tick_ok by blast
  let ?e3 = "record_metric (?c ?t1) e2"
  obtain e4 where 4: "emit_event w (job_id spec) ''completed'' 100 (''Job completed in '' @ int_str (seconds t0 ?t1) @ ''s'') ?e3 = (Inr (), e4)"
    "frame ?e3 e4" "job_state_of (job_id spec) e4 = job_state_of (job_id spec) ?e3" using emit_ok by blast
  obtain e5 where 5: "tick w e4 = (Inr (wo_clock w (en_ticks e4)), e5)" "frame e4 e5" "job_state_of (job_id spec) e5 = job_state_of (job_id spec) e4"
    using tick_ok by blast
  have "0 \<le> seconds t0 ?t1" using clock_seconds [OF clock_frame [OF assms(2) 1(3)]] .
  moreover have "frame e e5" using 1(3) 2(2) metric_frame(1) 4(2) 5(2) engine_frame_trans by metis
  moreover have "job_state_of (job_id spec) e5 = Some COMPLETED" using 1(2) 2(3) 4(3) 5(3) metric_frame(2) by metis
  ultimately show ?thesis
    unfolding call_bind_def by (simp only: 1(1) 2(1) 4(1) 5(1) prod.case sum.case call_simps mk_metrics_def) (simp add: run_outcome_ok_def 5(1))
qed

lemma run_outcome_frame: "frame e e1 \<Longrightarrow> run_outcome_ok spec e1 out \<Longrightarrow> run_outcome_ok spec e out"
  by (auto simp: run_outcome_ok_def intro: engine_frame_trans split: prod.splits)

lemma run_job_ok:
  assumes "job_state_of (job_id spec) e = Some CREATED" and "clock_ok w t0 e"
  shows "run_outcome_ok spec e (run_job w spec t0 e)"
proof -
  let ?j = "job_id spec"
  obtain e1 where 1: "move_to w ?j VALIDATED ''Job validated'' e = (Inr (), e1)" "job_state_of ?j e1 = Some VALIDATED" "frame e e1"
    using move_to_ok [OF assms(1), of VALIDATED w "''Job validated''"] by auto
  obtain e2 where 2: "move_to w ?j QUEUED ''Immediately queued for execution'' e1 = (Inr (), e2)" "job_state_of ?j e2 = Some QUEUED" "frame e1 e2"
    using move_to_ok [OF 1(2), of QUEUED w "''Immediately queued for execution''"] by auto
  obtain e3 where 3: "move_to w ?j ASSIGNED (''Assigned to worker '' @ en_worker_id e2) e2 = (Inr (), e3)" "job_state_of ?j e3 = Some ASSIGNED" "frame e2 e3"
    using move_to_ok [OF 2(2), of ASSIGNED w "''Assigned to worker '' @ en_worker_id e2"] by auto
  obtain e4 where 4: "move_to w ?j RUNNING ''Execution started'' e3 = (Inr (), e4)" "job_state_of ?j e4 = Some RUNNING" "frame e3 e4"
    using move_to_ok [OF 3(2), of RUNNING w "''Execution started''"] by auto
  obtain r e5 where 5: "execute_operation w spec e4 = (r, e5)" by (cases "execute_operation w spec e4")
  have k: "frame e4 e5" "job_state_of ?j e5 \<in> Some ` {RUNNING, PROGRESSING}"
    using keepsD [OF keeps_operation [of "{RUNNING, PROGRESSING}" spec w] 5] 4(2) by auto
  have f: "frame e e5" using 1(3) 2(3) 3(3) 4(3) k(1) engine_frame_trans by metis
  show ?thesis
  proof (cases r)
    case (Inl x)
    then have "run_job w spec t0 e = (Inl x, e5)"
      unfolding run_job_def call_bind_def by (simp only: 1(1) 2(1) 3(1) 4(1) 5 prod.case sum.case)
    with f k(2) show ?thesis by (simp add: run_outcome_ok_def)
  next
    case (Inr res)
    have "run_outcome_ok spec e5 (run_job w spec t0 e)"
      using finish_ok [OF k(2) clock_frame [OF assms(2) f], of res]
      unfolding run_job_def by (subst call_bind_def) (simp only: 1(1) 2(1) 3(1) 4(1) 5 Inr prod.case sum.case call_bind_def)
    with f show ?thesis by (rule run_outcome_frame)
  qed
qed

lemma validate_ok: "\<exists>r e'. validate_job w spec e = (Inr r, e') \<and> frame e e' \<and> job_state_of jid e' = job_state_of jid e"
  by (auto simp: validate_job_def Let_def frame_def job_state_of_def split: prod.splits option.splits)

text \<open>The state a failed job is left in: a job that was not accepted stays as it was created.\<close>

lemma handle_failure_ok:
  assumes "job_state_of (job_id spec) e = Some a" and "a \<in> {CREATED, RUNNING, PROGRESSING}" and "clock_ok w t0 e"
  shows "\<exists>res e'. handle_failure w spec t0 x e = (Inr res, e') \<and> frame e e' \<and>
    job_state_of (job_id spec) e' = Some (if a = CREATED then CREATED else FAILED) \<and> res_job_id res = job_id spec \<and> res_status res = FAILED \<and>
    res_error res = Some \<lparr>err_phase = ''execution'', err_code = ''EXECUTION_FAILED'', err_message = engine_text x, err_details = None,
      err_stack_trace = Some (wo_traceback w x)\<rparr>"
proof -
  let ?j = "job_id spec" and ?t1 = "wo_clock w (en_ticks e)"
  obtain e1 where 1: "tick w e = (Inr ?t1, e1)" "frame e e1" "job_state_of ?j e1 = job_state_of ?j e" using tick_ok by blast
  let ?e2 = "record_metric (MigrationComplete (operation_value (operation spec)) (seconds t0 ?t1) False (Some (engine_class x))) e1"
  have s2: "job_state_of ?j ?e2 = Some a" using 1(3) assms(1) metric_frame(2) by metis
  obtain m e3 where 3: "move_to w ?j FAILED (engine_text x) ?e2 = (m, e3)" by (cases "move_to w ?j FAILED (engine_text x) ?e2")
  have 4: "frame ?e2 e3" "job_state_of ?j e3 = Some (if a = CREATED then CREATED else FAILED)"
    using move_to_ok [OF s2, of FAILED w "engine_text x"] move_to_bad [OF s2, of FAILED w "engine_text x"] assms(2) 3 by auto
  have f: "frame e e3" using 1(2) metric_frame(1) 4(1) engine_frame_trans by metis
  from error_result_ok [OF clock_frame [OF assms(3) f], of spec "''execution''" "''EXECUTION_FAILED''" "engine_text x" "Some (wo_traceback w x)" ?j]
  obtain res e5 where 5: "create_error_result w spec ''execution'' ''EXECUTION_FAILED'' (engine_text x) t0 (Some (wo_traceback w x)) e3 = (Inr res, e5)"
    "frame e3 e5" "job_state_of ?j e5 = job_state_of ?j e3" "res_job_id res = ?j" "res_status res = FAILED"
    "res_error res = Some \<lparr>err_phase = ''execution'', err_code = ''EXECUTION_FAILED'', err_message = engine_text x, err_details = None,
      err_stack_trace = Some (wo_traceback w x)\<rparr>" by blast
  have "handle_failure w spec t0 x e = (Inr res, e5)"
    unfolding handle_failure_def call_bind_def Let_def by (simp only: 1(1) 3 5(1) prod.case sum.case snd_conv)
  moreover have "frame e e5" using f 5(2) engine_frame_trans by blast
  ultimately show ?thesis using 4(2) 5(3-6) by simp
qed

lemma begin_ok:
  assumes "begin_job w spec e = (t0, e1)" and "mono (wo_clock w)"
  shows "job_state_of (job_id spec) e1 = Some CREATED" "en_health e1 = map_option increment_active_jobs (en_health e)"
    "en_worker_id e1 = en_worker_id e" "clock_ok w t0 e1"
  using assms
  by (auto simp: begin_job_def Let_def record_metric_def job_state_of_def registry_register_def JobStateMachine_def clock_ok_def update_conv' intro: monoD)

lemma execute_job_ok:
  assumes "begin_job w spec e = (t0, e1)" and "(case try_job w spec t0 e1 of (Inr r, e2) \<Rightarrow> (Inr r, e2) | (Inl x, e2) \<Rightarrow> handle_failure w spec t0 x e2) = (r, e3)"
    and "frame e1 e3" and "mono (wo_clock w)"
  shows "execute_job w spec e = (r, end_job e3)" "en_current (end_job e3) = None" "job_state_of jid (end_job e3) = job_state_of jid e3"
    "map_option hs_active (en_health (end_job e3)) = map_option (max 0 \<circ> hs_active) (en_health e)"
proof -
  show "execute_job w spec e = (r, end_job e3)"
    by (simp only: execute_job_def assms(1,2) prod.case)
  show "en_current (end_job e3) = None" "job_state_of jid (end_job e3) = job_state_of jid e3"
    by (simp_all add: end_job_def job_state_of_def)
  show "map_option hs_active (en_health (end_job e3)) = map_option (max 0 \<circ> hs_active) (en_health e)"
    using assms(3) begin_ok(2) [OF assms(1,4)]
    by (cases "en_health e") (simp_all add: end_job_def frame_def decrement_active_jobs_def increment_active_jobs_def)
qed

definition try_outcome_ok :: "job_spec \<Rightarrow> 's engine \<Rightarrow> (sm_exc + job_result) \<times> 's engine \<Rightarrow> bool" where
  "try_outcome_ok spec e out \<longleftrightarrow> (case out of (r, e') \<Rightarrow> frame e e' \<and> (case r of
      Inl x \<Rightarrow> job_state_of (job_id spec) e' \<in> Some ` {CREATED, RUNNING, PROGRESSING}
    | Inr res \<Rightarrow> job_state_of (job_id spec) e' = Some COMPLETED \<and> res_job_id res = job_id spec \<and> res_status res = COMPLETED \<and> res_error res = None))"

lemma try_outcome_frame: "frame e e1 \<Longrightarrow> try_outcome_ok spec e1 out \<Longrightarrow> try_outcome_ok spec e out"
  by (auto simp: try_outcome_ok_def intro: engine_frame_trans split: prod.splits)

lemma try_job_rejected:
  assumes "job_state_of (job_id spec) e = Some CREATED"
  shows "\<exists>e'. (call_bind (move_to w (job_id spec) FAILED msg) g) e =
    (Inl (InvalidStateTransition CREATED FAILED (if msg = [] then ''Transition not allowed'' else msg)), e') \<and> job_state_of (job_id spec) e' = Some CREATED \<and> frame e e'"
  using move_to_bad [OF assms, of FAILED w msg] by (auto simp: call_bind_def)

lemma try_job_steps:
  assumes "emit_event w (job_id spec) ''validation'' 0 ''Validating job specification'' e1 = (Inr (), e2)" and "validate_job w spec e2 = (Inr v, e3)"
  shows "try_job w spec t0 e1 = (case v of
         Some msg \<Rightarrow> call_bind (move_to w (job_id spec) FAILED msg) (\<lambda>_. create_error_result w spec ''validation'' ''VALIDATION_FAILED'' msg t0 None)
       | None \<Rightarrow> run_job w spec t0) e3"
  unfolding try_job_def by (subst call_bind_def) (simp only: assms prod.case sum.case call_bind_def)

lemma try_job_ok:
  assumes "job_state_of (job_id spec) e1 = Some CREATED" and "clock_ok w t0 e1"
  shows "try_outcome_ok spec e1 (try_job w spec t0 e1)"
proof -
  let ?j = "job_id spec"
  obtain e2 where 2: "emit_event w ?j ''validation'' 0 ''Validating job specification'' e1 = (Inr (), e2)" "frame e1 e2" "job_state_of ?j e2 = job_state_of ?j e1"
    using emit_ok by blast
  obtain v e3 where 3: "validate_job w spec e2 = (Inr v, e3)" "frame e2 e3" "job_state_of ?j e3 = job_state_of ?j e2"
    using validate_ok by blast
  have s3: "job_state_of ?j e3 = Some CREATED" using assms(1) 2(3) 3(3) by simp
  have f3: "frame e1 e3" using 2(2) 3(2) by (rule engine_frame_trans)
  note t = try_job_steps [OF 2(1) 3(1), of t0]
  have "try_outcome_ok spec e3 (try_job w spec t0 e1)"
  proof (cases v)
    case None
    with t run_job_ok [OF s3 clock_frame [OF assms(2) f3]] show ?thesis
      by (auto simp: run_outcome_ok_def try_outcome_ok_def split: sum.splits)
  next
    case (Some msg)
    with t try_job_rejected [OF s3, of w msg "\<lambda>_. create_error_result w spec ''validation'' ''VALIDATION_FAILED'' msg t0 None"] show ?thesis
      by (auto simp: try_outcome_ok_def)
  qed
  with f3 show ?thesis by (rule try_outcome_frame)
qed

text \<open>
  C28 (functional). Executing a job always returns a result while the clock does not run backwards, whatever the host,
  the converter, guestfs and the job do. The result names the job, the worker is idle again and the count of active
  jobs is what it was; the result says completed exactly when the job's machine is in that state, and says failed, with
  an error, when the job failed or was not accepted.
\<close>
theorem job_outcome_matches_state:
  assumes "mono (wo_clock w)"
  shows "\<exists>res e'. execute_job w spec e = (Inr res, e') \<and> res_job_id res = job_id spec \<and> en_current e' = None \<and>
    map_option hs_active (en_health e') = map_option (max 0 \<circ> hs_active) (en_health e) \<and>
    (res_status res = COMPLETED \<and> res_error res = None \<and> job_state_of (job_id spec) e' = Some COMPLETED \<or>
     res_status res = FAILED \<and> res_error res \<noteq> None \<and> job_state_of (job_id spec) e' \<in> {Some CREATED, Some FAILED})"
proof -
  let ?j = "job_id spec"
  obtain t0 e1 where b: "begin_job w spec e = (t0, e1)" by (cases "begin_job w spec e")
  note b1 = begin_ok [OF b assms]
  obtain r e4 where t: "try_job w spec t0 e1 = (r, e4)" by (cases "try_job w spec t0 e1")
  from try_job_ok [OF b1(1,4)] t have 4: "frame e1 e4" "case r of Inl x \<Rightarrow> job_state_of ?j e4 \<in> Some ` {CREATED, RUNNING, PROGRESSING}
     | Inr res \<Rightarrow> job_state_of ?j e4 = Some COMPLETED \<and> res_job_id res = ?j \<and> res_status res = COMPLETED \<and> res_error res = None"
    by (simp_all add: try_outcome_ok_def)
  show ?thesis
  proof (cases r)
    case (Inr res)
    with t have "(case try_job w spec t0 e1 of (Inr r, e2) \<Rightarrow> (Inr r, e2) | (Inl x, e2) \<Rightarrow> handle_failure w spec t0 x e2) = (Inr res, e4)" by simp
    note x = execute_job_ok [OF b this 4(1) assms]
    from 4(2) Inr x(3) [of ?j] show ?thesis by (intro exI [of _ res] exI [of _ "end_job e4"]) (simp add: x(1,2,4))
  next
    case (Inl y)
    with 4(2) obtain a where a: "job_state_of ?j e4 = Some a" "a \<in> {CREATED, RUNNING, PROGRESSING}" by auto
    from handle_failure_ok [OF a clock_frame [OF b1(4) 4(1)], of y] obtain res e5 where h: "handle_failure w spec t0 y e4 = (Inr res, e5)" "frame e4 e5"
      "job_state_of ?j e5 = Some (if a = CREATED then CREATED else FAILED)" "res_job_id res = ?j" "res_status res = FAILED" "res_error res \<noteq> None" by auto
    with t Inl have "(case try_job w spec t0 e1 of (Inr r, e2) \<Rightarrow> (Inr r, e2) | (Inl x, e2) \<Rightarrow> handle_failure w spec t0 x e2) = (Inr res, e5)" by simp
    note x = execute_job_ok [OF b this engine_frame_trans [OF 4(1) h(2)] assms]
    from h x(3) [of ?j] show ?thesis by (intro exI [of _ res] exI [of _ "end_job e5"]) (simp add: x(1,2,4))
  qed
qed

text \<open>
  A job that the worker does not accept is reported as a crash: the table of transitions does not let a
  created job fail, so the move to Failed raises inside the handler of the validation and the general handler answers.
  The result has the code for failed executions and a message about the transition, and the job stays Created.
\<close>
theorem rejected_job_reported_as_crash:
  assumes "mono (wo_clock w)" and "begin_job w spec e = (t0, e1)"
    and "emit_event w (job_id spec) ''validation'' 0 ''Validating job specification'' e1 = (Inr (), e2)" and "validate_job w spec e2 = (Inr (Some msg), e3)" and "msg \<noteq> []"
  shows "\<exists>res e'. execute_job w spec e = (Inr res, e') \<and> job_state_of (job_id spec) e' = Some CREATED \<and>
    map_option err_code (res_error res) = Some ''EXECUTION_FAILED'' \<and> map_option err_message (res_error res) = Some (''Invalid transition from Created to Failed: '' @ msg)"
proof -
  let ?j = "job_id spec" and ?x = "InvalidStateTransition CREATED FAILED msg"
  note b1 = begin_ok [OF assms(2,1)]
  have f: "frame e1 e3" "job_state_of ?j e3 = Some CREATED"
    using emit_ok [of w ?j "''validation''" 0 "''Validating job specification''" e1 ?j] validate_ok [of w spec e2 ?j] assms(3,4) b1(1) engine_frame_trans by auto
  from try_job_rejected [OF f(2), of w msg "\<lambda>_. create_error_result w spec ''validation'' ''VALIDATION_FAILED'' msg t0 None"] assms(5) try_job_steps [OF assms(3,4), of t0]
  obtain e4 where t: "try_job w spec t0 e1 = (Inl ?x, e4)" "job_state_of ?j e4 = Some CREATED" "frame e3 e4" by auto
  have f4: "frame e1 e4" using f(1) t(3) by (rule engine_frame_trans)
  from handle_failure_ok [OF t(2) _ clock_frame [OF b1(4) f4], of ?x] obtain res e5 where h: "handle_failure w spec t0 ?x e4 = (Inr res, e5)" "frame e4 e5"
    "job_state_of ?j e5 = Some CREATED" "res_error res = Some \<lparr>err_phase = ''execution'', err_code = ''EXECUTION_FAILED'', err_message = engine_text ?x,
      err_details = None, err_stack_trace = Some (wo_traceback w ?x)\<rparr>" by auto
  with t(1) have "(case try_job w spec t0 e1 of (Inr r, e2) \<Rightarrow> (Inr r, e2) | (Inl x, e2) \<Rightarrow> handle_failure w spec t0 x e2) = (Inr res, e5)" by simp
  note x = execute_job_ok [OF assms(2) this engine_frame_trans [OF f4 h(2)] assms(1)]
  from h x(3) [of ?j] assms(5) show ?thesis by (intro exI [of _ res] exI [of _ "end_job e5"]) (simp add: x(1))
qed

lemma userspace_result:
  assumes "execute_userspace_conversion w spec report e = (Inr res, e')"
  shows "dict_get (or_metrics res) ''offline_fixes_applied'' = Some (JBool False) \<and> or_fixes res = []"
  using assms by (auto simp: execute_userspace_conversion_def call_bind_Inr split: prod.splits)

lemma inspection_result:
  assumes "add_inspection w spec res0 r e = (Inr res, e')" and "dict_get (or_metrics res0) ''offline_fixes_applied'' = Some (JBool False) \<and> or_fixes res0 = []"
  shows "dict_get (or_metrics res) ''offline_fixes_applied'' = Some (JBool False) \<and> or_fixes res = []"
  using assms by (auto simp: add_inspection_def call_bind_Inr map_add_def split: prod.splits sum.splits)

lemma offline_fix_result:
  assumes "op_offline_fix w spec e1 = (Inr res, e2)"
  shows "dict_get (or_metrics res) ''offline_fixes_applied'' = Some (JBool False) \<and> or_fixes res = []"
proof -
  from assms obtain level e3 where run: "(case level of
        USERSPACE_ONLY \<Rightarrow> execute_userspace_conversion w spec (capability_level_report level)
      | NBD_INSPECTION \<Rightarrow> execute_with_inspection w spec (capability_level_report level)
      | FULL_OFFLINE_FIXES \<Rightarrow> execute_full_migration w spec (capability_level_report level)) e3 = (Inr res, e2)"
    by (auto simp: op_offline_fix_def call_bind_Inr)
  then show ?thesis
    by (cases level) (auto simp: execute_with_inspection_def full_migration_skips skipped_fixes_def call_bind_Inr dest!: userspace_result inspection_result)
qed

text \<open>
  C29 (error). The worker never applies an offline fix: the import of the fixer is relative to the wrong package, so even
  a host with every capability only converts the image. Whatever the fixer would do, executing the job gives the same
  result and the same state, and the metrics of an offline fix say that none was applied.
\<close>
theorem offline_fixes_never_applied:
  "execute_job (w\<lparr>wo_fixer := f\<rparr>) spec e = execute_job w spec e \<and>
   (op_offline_fix w spec e1 = (Inr res, e2) \<longrightarrow> dict_get (or_metrics res) ''offline_fixes_applied'' = Some (JBool False) \<and> or_fixes res = [])"
proof
  let ?w = "w\<lparr>wo_fixer := f\<rparr>"
  have sel: "wo_host ?w = wo_host w" "wo_clock ?w = wo_clock w" "wo_mkdir ?w = wo_mkdir w" "wo_convert ?w = wo_convert w" "wo_inspector ?w = wo_inspector w"
    "wo_write ?w = wo_write w" "wo_guestfs ?w = wo_guestfs w" "wo_traceback ?w = wo_traceback w"
    by simp_all
  have basic: "tick ?w = tick w" "validate_job ?w = validate_job w" "begin_job ?w = begin_job w"
    unfolding tick_def [abs_def] validate_job_def [abs_def] begin_job_def [abs_def] sel by (rule refl)+
  have steps: "emit_event ?w = emit_event w" "move_to ?w = move_to w"
    unfolding emit_event_def [abs_def] move_to_def [abs_def] basic by (rule refl)+
  have conv: "convert_image ?w = convert_image w"
    unfolding convert_image_def [abs_def] basic steps sel by (rule refl)
  have us: "execute_userspace_conversion ?w = execute_userspace_conversion w"
    unfolding execute_userspace_conversion_def [abs_def] conv by (rule refl)
  have insp: "execute_with_inspection ?w = execute_with_inspection w"
    unfolding execute_with_inspection_def [abs_def] add_inspection_def [abs_def] inspect_disk_def us steps sel by (rule refl)
  have full: "execute_full_migration ?w = execute_full_migration w"
    unfolding full_migration_skips [abs_def] us steps by (rule refl)
  have op: "execute_operation ?w = execute_operation w"
    unfolding execute_operation_def [abs_def] op_inspect_def op_convert_def op_offline_fix_def conv us insp full steps basic sel by (rule refl)
  have err: "create_error_result ?w = create_error_result w"
    unfolding create_error_result_def [abs_def] basic steps by (rule refl)
  have job: "try_job ?w = try_job w" "handle_failure ?w = handle_failure w"
    unfolding try_job_def [abs_def] run_job_def handle_failure_def [abs_def] basic steps op err sel by (rule refl)+
  show "execute_job ?w spec e = execute_job w spec e"
    unfolding execute_job_def basic job by (rule refl)
  show "op_offline_fix w spec e1 = (Inr res, e2) \<longrightarrow> dict_get (or_metrics res) ''offline_fixes_applied'' = Some (JBool False) \<and> or_fixes res = []"
    using offline_fix_result by blast
qed

section \<open>A worker without its server\<close>

text \<open>The engine cannot be made with a health port, which is the default: starting the server reads an attribute that only
  the end of a first job would set.\<close>

lemma engine_with_port_raises: "p \<noteq> 0 \<Longrightarrow> WorkerEngine bound wid det reg ms (Some p) s = Inl (no_attribute ''_thread'')"
  by (simp add: WorkerEngine_def Let_def health_start_def HealthServer_def)

text \<open>The end of a job forgets a running server.\<close>

lemma job_end_forgets_server: "hs_private (decrement_active_jobs hs) = Some (False, False)"
  by (simp add: decrement_active_jobs_def)

text \<open>Jobs of the placeholder kinds complete without any work.\<close>

lemma placeholder_completes: "operation spec \<in> {BOOT_REPAIR, SELINUX_PREP, LVM_REPAIR, FS_REPAIR, INITRAMFS_REGEN} \<Longrightarrow>
    execute_operation w spec e = (Inr (plain_result empty_output []), e)"
  by (auto simp: execute_operation_def op_placeholder_def)

lemma inspect_fails: "\<exists>x e'. op_inspect w spec e = (Inl x, e')"
proof -
  have i: "import_runtime ''inspector'' = Inl (ImportError (''No module named '' @ CHR 0x27 # ''h2kvm.runtime.inspector'' @ [CHR 0x27]))"
    by (simp add: import_runtime_def runtime_modules_def)
  show ?thesis
    unfolding op_inspect_def call_bind_def
    by (cases "move_to w (job_id spec) PROGRESSING ''Starting inspection'' e") (auto simp: i call_bind_def emit_event_def tick_def split: prod.splits sum.splits)
qed

section \<open>A worker that converts\<close>

definition example_world :: "unit world" where
  "example_world = \<lparr>wo_host = example_host, wo_clock = real, wo_mkdir = \<lambda>_ s. (None, s), wo_convert = \<lambda>_ _ _ s. (ConvDone, s), wo_inspector = \<lambda>_ _. Inr JNull,
     wo_write = \<lambda>_ _ s. (None, s), wo_guestfs = \<lambda>_ _. Inl (RuntimeError ''closed''), wo_fixer = \<lambda>_ _ s. (Inr \<lparr>fx_report = None, fx_report_path = None\<rparr>, s),
     wo_traceback = \<lambda>_. []\<rparr>"

definition example_engine :: "unit engine" where
  "example_engine = \<lparr>en_worker_id = ''w'', en_registry = JobRegistry [], en_detector = CapabilityDetector\<lparr>cd_capabilities := Some [(''nbd'', False)]\<rparr>, en_current = None,
     en_health = None, en_metrics = None, en_events = [], en_ticks = 0, en_host = ()\<rparr>"

lemma example_clock: "mono (wo_clock example_world)"
  by (simp add: example_world_def mono_def)

theorem job_outcome_matches_state_witness:
  "\<exists>res e'. execute_job example_world (create_sample_job_spec ''j'' 0 ''/i.raw'' ''/o'' CONVERT) example_engine = (Inr res, e') \<and> res_job_id res = ''j'' \<and> en_current e' = None"
  using job_outcome_matches_state [OF example_clock, of "create_sample_job_spec ''j'' 0 ''/i.raw'' ''/o'' CONVERT" example_engine]
  by (auto simp: create_sample_job_spec_def)

theorem rejected_job_reported_as_crash_witness:
  "\<exists>res e'. execute_job example_world (create_sample_job_spec ''j'' 0 ''/i'' ''/o'' CONVERT) example_engine = (Inr res, e') \<and> job_state_of ''j'' e' = Some CREATED"
proof -
  let ?spec = "create_sample_job_spec ''j'' 0 ''/i'' ''/o'' CONVERT"
  obtain t0 e1 where b: "begin_job example_world ?spec example_engine = (t0, e1)"
    by (cases "begin_job example_world ?spec example_engine")
  obtain e2 where m: "emit_event example_world (job_id ?spec) ''validation'' 0 ''Validating job specification'' e1 = (Inr (), e2)"
    using emit_ok by blast
  have "en_detector e2 = en_detector e1" "en_host e2 = en_host e1" "en_detector e1 = en_detector example_engine"
    using m b by (auto simp: emit_event_def call_bind_def tick_def begin_job_def record_metric_def Let_def)
  then have "\<exists>e3. validate_job example_world ?spec e2 = (Inr (Some (''Image not found: /i'')), e3)"
    by (simp add: validate_job_def example_engine_def can_execute_job_def detect_capabilities_def job_requirements_def create_sample_job_spec_def default_requirements_def
        example_world_def example_host_def Let_def)
  with rejected_job_reported_as_crash [OF example_clock b m] show ?thesis
    by (auto simp: create_sample_job_spec_def)
qed

text \<open>A sample job has no parameters and cannot be converted; with an empty dictionary it can.\<close>

definition example_fix :: job_spec where
  "example_fix = (create_sample_job_spec ''j'' 0 ''/i'' ''/o'' OFFLINE_FIX)\<lparr>parameters := Some []\<rparr>"

lemma example_conversion: "\<exists>x n e'. convert_image example_world example_fix msg e = (Inr (x, n), e')"
  by (simp add: convert_image_def call_bind_def call_lift_def call_ret_def emit_event_def tick_def on_host_def example_world_def params_of_def output_format_of_def
      example_fix_def create_sample_job_spec_def sum_bind_def Let_def)

lemma example_userspace: "\<exists>res e'. execute_userspace_conversion example_world example_fix report e = (Inr res, e')"
proof -
  obtain x n e' where "convert_image example_world example_fix ''Preparing for conversion (userspace-only mode)'' e = (Inr (x, n), e')"
    using example_conversion by blast
  then show ?thesis by (simp add: execute_userspace_conversion_def call_bind_def call_ret_def)
qed

lemma emit_event_returns: "\<exists>e'. emit_event w j p n m e = (Inr (), e')"
  by (simp add: emit_event_def call_bind_def tick_def)

lemma example_offline: "\<exists>res e'. op_offline_fix example_world example_fix example_engine = (Inr res, e')"
proof -
  let ?f = example_fix and ?w = example_world
  have mv: "\<exists>e1. move_to ?w (job_id ?f) PROGRESSING ''Starting offline fix operation'' example_engine = (Inr (), e1)"
    by (simp add: move_to_def call_bind_def tick_def registry_transition_def example_engine_def JobRegistry_def)
  have insp: "\<exists>res e'. execute_with_inspection ?w ?f rep e = (Inr res, e')" for rep e
  proof -
    obtain res e1 where u: "execute_userspace_conversion ?w ?f rep e = (Inr res, e1)" using example_userspace by blast
    obtain e2 where m2: "emit_event ?w (job_id ?f) ''inspection'' 25 ''Attaching to NBD for inspection'' e1 = (Inr (), e2)" using emit_event_returns by blast
    obtain e3 where m3: "emit_event ?w (job_id ?f) ''inspection'' 50 ''Analyzing disk structure...'' e2 = (Inr (), e3)" using emit_event_returns by blast
    have "inspect_disk ?w img s = Inl (RuntimeError ''closed'')" for img s by (simp add: inspect_disk_def example_world_def)
    with u m2 m3 show ?thesis
      by (simp add: execute_with_inspection_def call_bind_def call_lift_def add_inspection_def call_ret_def)
  qed
  have full: "\<exists>res e'. execute_full_migration ?w ?f rep e = (Inr res, e')" for rep e
  proof -
    obtain e1 where m1: "emit_event ?w (job_id ?f) ''conversion'' 10 ''Converting to QCOW2'' e = (Inr (), e1)" using emit_event_returns by blast
    obtain res e2 where u: "execute_userspace_conversion ?w ?f rep e1 = (Inr res, e2)" using example_userspace by blast
    obtain e3 where m2: "emit_event ?w (job_id ?f) ''offline_fixes'' 30 ''Preparing offline fixes'' e2 = (Inr (), e3)" using emit_event_returns by blast
    obtain e4 where m3: "emit_event ?w (job_id ?f) ''offline_fixes'' 100 ''Offline fixes skipped (OfflineFSFix not available)'' e3 = (Inr (), e4)" using emit_event_returns by blast
    have "run_fixer ?w ?f img e3 = (Inl (PyExc (ImportError (''No module named '' @ CHR 0x27 # ''h2kvm.runtime.fixers'' @ [CHR 0x27]))), e3)" for img
      by (simp add: run_fixer_def call_bind_def call_lift_def import_runtime_def runtime_modules_def)
    then show ?thesis by (simp add: execute_full_migration_def call_bind_def m1 u m2 m3 call_ret_def)
  qed
  from mv insp full example_userspace show ?thesis
    by (fastforce simp: op_offline_fix_def call_bind_def on_host_def split: capability_level.splits prod.splits)
qed

theorem offline_fixes_never_applied_witness:
  "execute_job (example_world\<lparr>wo_fixer := \<lambda>_ _ s. (Inl (RuntimeError ''broken''), s)\<rparr>) example_fix example_engine = execute_job example_world example_fix example_engine \<and>
   (\<exists>res e'. op_offline_fix example_world example_fix example_engine = (Inr res, e') \<and> dict_get (or_metrics res) ''offline_fixes_applied'' = Some (JBool False))"
  using offline_fixes_never_applied example_offline by blast

end
