(* ===== verification/Worker_Events.thy ===== *)
theory Worker_Events
  imports Job_Schemas Py_Text "HOL-Library.Log_Nat"
begin

text \<open>
  \<^verbatim>\<open>h2kvm/runtime/worker/events.py\<close>: the store of progress events with its files, the emitter with its listeners,
  the stream that follows a job, and the tracker that turns the progress of phases into one percentage. The JSON form
  of an event is a parameter (a printer and a parser of lines), and so is the outcome of appending to a file. A file of
  events is the list of its lines.
\<close>

section \<open>The store\<close>

record event_store =
  es_dir :: "(string, string list) dict"
  es_cache :: "(string, progress_event list) dict"

record event_codec =
  ec_dump :: "progress_event \<Rightarrow> string"
  ec_parse :: "string \<Rightarrow> progress_event option"

definition EventStore :: "(string, string list) dict \<Rightarrow> event_store" where
  "EventStore dir = \<lparr>es_dir = dir, es_cache = []\<rparr>"

definition event_file :: "string \<Rightarrow> string" where
  "event_file jid = jid @ ''.events.jsonl''"

definition or_none :: "'a list option \<Rightarrow> 'a list" where
  "or_none x = (case x of None \<Rightarrow> [] | Some xs \<Rightarrow> xs)"

definition store :: "event_codec \<Rightarrow> bool \<Rightarrow> progress_event \<Rightarrow> event_store \<Rightarrow> event_store" where
  "store ec written ev es =
     (let jid = ev_job_id ev; f = event_file jid;
          es1 = es\<lparr>es_cache := dict_set jid (or_none (dict_get (es_cache es) jid) @ [ev]) (es_cache es)\<rparr>
      in if written then es1\<lparr>es_dir := dict_set f (or_none (dict_get (es_dir es) f) @ [ec_dump ec ev]) (es_dir es)\<rparr> else es1)"

text \<open>Reading stops at the first line that does not parse and keeps what it has.\<close>

fun load_lines :: "event_codec \<Rightarrow> string list \<Rightarrow> progress_event list" where
  "load_lines ec [] = []"
| "load_lines ec (l # ls) = (if strip l = [] then load_lines ec ls else (case ec_parse ec l of None \<Rightarrow> [] | Some ev \<Rightarrow> ev # load_lines ec ls))"

definition load_event_log :: "event_codec \<Rightarrow> string \<Rightarrow> event_store \<Rightarrow> progress_event list" where
  "load_event_log ec jid es = (case dict_get (es_dir es) (event_file jid) of None \<Rightarrow> [] | Some ls \<Rightarrow> load_lines ec ls)"

definition cached_events :: "event_codec \<Rightarrow> string \<Rightarrow> event_store \<Rightarrow> progress_event list \<times> event_store" where
  "cached_events ec jid es = (case dict_get (es_cache es) jid of
      Some evs \<Rightarrow> (evs, es)
    | None \<Rightarrow> (let evs = load_event_log ec jid es in (evs, es\<lparr>es_cache := dict_set jid evs (es_cache es)\<rparr>)))"

definition get_events :: "event_codec \<Rightarrow> string \<Rightarrow> time option \<Rightarrow> string option \<Rightarrow> event_store \<Rightarrow> progress_event list \<times> event_store" where
  "get_events ec jid since phase_filter es = (case cached_events ec jid es of (evs, es1) \<Rightarrow>
     (let evs1 = (case since of None \<Rightarrow> evs | Some t \<Rightarrow> filter (\<lambda>ev. ev_timestamp ev > t) evs);
          evs2 = (case phase_filter of None \<Rightarrow> evs1 | Some p \<Rightarrow> if p = [] then evs1 else filter (\<lambda>ev. ev_phase ev = p) evs1)
      in (evs2, es1)))"

definition get_latest_event :: "event_codec \<Rightarrow> string \<Rightarrow> event_store \<Rightarrow> progress_event option \<times> event_store" where
  "get_latest_event ec jid es = (case get_events ec jid None None es of (evs, es1) \<Rightarrow> (if evs = [] then None else Some (last evs), es1))"

definition clear_job_events :: "string \<Rightarrow> event_store \<Rightarrow> event_store" where
  "clear_job_events jid es = es\<lparr>es_cache := dict_pop jid (es_cache es), es_dir := dict_pop (event_file jid) (es_dir es)\<rparr>"

definition event_job_id :: "string \<Rightarrow> string" where
  "event_job_id n = replace_all ''.events'' [] (take (length n - length ''.jsonl'') n)"

definition list_job_ids :: "event_store \<Rightarrow> string list" where
  "list_job_ids es = map event_job_id (filter (\<lambda>n. endswith n ''.events.jsonl'') (dict_keys (es_dir es)))"

section \<open>The emitter\<close>

text \<open>Listeners are named; a call of a listener is recorded, whether or not it raised. An event whose percentage is
  out of bounds is refused before it is stored.\<close>

record emitter =
  em_job_id :: string
  em_store :: event_store
  em_listeners :: "nat list"
  em_calls :: "(nat \<times> progress_event) list"

definition EventEmitter :: "string \<Rightarrow> event_store \<Rightarrow> emitter" where
  "EventEmitter jid es = \<lparr>em_job_id = jid, em_store = es, em_listeners = [], em_calls = []\<rparr>"

definition register_listener :: "nat \<Rightarrow> emitter \<Rightarrow> emitter" where
  "register_listener l em = em\<lparr>em_listeners := em_listeners em @ [l]\<rparr>"

definition unregister_listener :: "nat \<Rightarrow> emitter \<Rightarrow> emitter" where
  "unregister_listener l em = em\<lparr>em_listeners := remove1 l (em_listeners em)\<rparr>"

definition emit :: "event_codec \<Rightarrow> bool \<Rightarrow> time \<Rightarrow> string \<Rightarrow> int \<Rightarrow> string \<Rightarrow> json option \<Rightarrow> (py_exc, progress_event, emitter) call" where
  "emit ec written now phase percent message details em =
     (let ev = \<lparr>ev_job_id = em_job_id em, ev_timestamp = now, ev_phase = phase, ev_percent = percent, ev_message = message, ev_details = details\<rparr>
      in if \<not> progress_event_ok ev then (Inl (ValueError ''progress_percent''), em)
         else (Inr ev, em\<lparr>em_store := store ec written ev (em_store em), em_calls := em_calls em @ map (\<lambda>l. (l, ev)) (em_listeners em)\<rparr>))"

definition get_progress :: "event_codec \<Rightarrow> emitter \<Rightarrow> int option \<times> emitter" where
  "get_progress ec em = (case get_latest_event ec (em_job_id em) (em_store em) of (e, es) \<Rightarrow> (map_option ev_percent e, em\<lparr>em_store := es\<rparr>))"

section \<open>The stream\<close>

text \<open>First the events that are there, filtered by time; then, at every poll, what the whole list has beyond the position,
  which counts what was yielded. The polls are the lists they saw.\<close>

definition stream_start :: "time option \<Rightarrow> progress_event list \<Rightarrow> progress_event list" where
  "stream_start since evs = (case since of None \<Rightarrow> evs | Some t \<Rightarrow> filter (\<lambda>ev. ev_timestamp ev > t) evs)"

fun stream_follow :: "nat \<Rightarrow> progress_event list list \<Rightarrow> progress_event list" where
  "stream_follow pos [] = []"
| "stream_follow pos (evs # polls) = (if length evs > pos then drop pos evs @ stream_follow (length evs) polls else stream_follow pos polls)"

definition event_stream :: "time option \<Rightarrow> bool \<Rightarrow> progress_event list \<Rightarrow> progress_event list list \<Rightarrow> progress_event list" where
  "event_stream since follow evs polls = (let start = stream_start since evs in start @ (if follow then stream_follow (length start) polls else []))"

section \<open>The tracker\<close>

text \<open>Percentages are computed with floating-point numbers, so the rounding of a double matters: a positive number is
  rounded to 53 binary digits, halves to even.\<close>

definition exponent :: "rat \<Rightarrow> int" where
  "exponent x = (case quotient_of x of (a, b) \<Rightarrow> (let k = bitlen a - bitlen b in if 2 powi k \<le> x then k else k - 1))"

definition half_even :: "rat \<Rightarrow> int" where
  "half_even x = (let f = \<lfloor>x\<rfloor>; d = x - of_int f in if d < 1 / 2 then f else if d > 1 / 2 then f + 1 else if even f then f else f + 1)"

definition fl :: "rat \<Rightarrow> rat" where
  "fl x = (if x = 0 then 0 else (let u = 2 powi (exponent \<bar>x\<bar> - 52) in of_int (half_even (x / u)) * u))"

record tracker =
  tr_phases :: "string list"
  tr_current :: nat
  tr_progress :: "(string, int) dict"
  tr_emitter :: emitter

definition PhaseTracker :: "string list \<Rightarrow> emitter \<Rightarrow> tracker" where
  "PhaseTracker phases em = \<lparr>tr_phases = phases, tr_current = 0, tr_progress = fold (\<lambda>p d. dict_set p 0 d) phases [], tr_emitter = em\<rparr>"

fun add_phases :: "rat \<Rightarrow> (string, int) dict \<Rightarrow> string list \<Rightarrow> rat \<Rightarrow> rat" where
  "add_phases weight d [] total_progress = total_progress"
| "add_phases weight d (p # ps) total_progress =
     add_phases weight d ps (fl (total_progress + fl (fl (of_int (case dict_get d p of None \<Rightarrow> 0 | Some n \<Rightarrow> n) / 100) * weight)))"

definition overall_progress :: "tracker \<Rightarrow> int" where
  "overall_progress t = (if tr_phases t = [] then 0
     else (let x = add_phases (fl (100 / of_nat (length (tr_phases t)))) (tr_progress t) (tr_phases t) 0 in if x < 0 then \<lceil>x\<rceil> else \<lfloor>x\<rfloor>))"

definition unknown_phase :: "string \<Rightarrow> string list \<Rightarrow> py_exc" where
  "unknown_phase p ps = ValueError (''Unknown migration phase '' @ CHR 0x27 # p @ CHR 0x27 # ''. Valid phases: '' @ py_join '', '' ps @ ''.'')"

definition tracker_emit :: "event_codec \<Rightarrow> bool \<Rightarrow> time \<Rightarrow> string \<Rightarrow> string \<Rightarrow> json option \<Rightarrow> (py_exc, unit, tracker) call" where
  "tracker_emit ec written now phase message details t = (case emit ec written now phase (overall_progress t) message details (tr_emitter t) of
      (Inl x, em) \<Rightarrow> (Inl x, t\<lparr>tr_emitter := em\<rparr>)
    | (Inr _, em) \<Rightarrow> (Inr (), t\<lparr>tr_emitter := em\<rparr>))"

definition start_phase :: "event_codec \<Rightarrow> bool \<Rightarrow> time \<Rightarrow> string \<Rightarrow> string \<Rightarrow> (py_exc, unit, tracker) call" where
  "start_phase ec written now phase message t =
     (if phase \<notin> set (tr_phases t) then (Inl (unknown_phase phase (tr_phases t)), t)
      else tracker_emit ec written now phase (if message = [] then ''Starting '' @ phase else message) None
             (t\<lparr>tr_current := length (takeWhile (\<lambda>p. p \<noteq> phase) (tr_phases t))\<rparr>))"

definition update_phase :: "event_codec \<Rightarrow> bool \<Rightarrow> time \<Rightarrow> string \<Rightarrow> int \<Rightarrow> string \<Rightarrow> json option \<Rightarrow> (py_exc, unit, tracker) call" where
  "update_phase ec written now phase percent message details t =
     (if phase \<notin> set (tr_phases t) then (Inl (unknown_phase phase (tr_phases t)), t)
      else tracker_emit ec written now phase message details (t\<lparr>tr_progress := dict_set phase percent (tr_progress t)\<rparr>))"

definition complete_phase :: "event_codec \<Rightarrow> bool \<Rightarrow> time \<Rightarrow> string \<Rightarrow> string \<Rightarrow> (py_exc, unit, tracker) call" where
  "complete_phase ec written now phase message t =
     tracker_emit ec written now phase (if message = [] then ''Completed '' @ phase else message) None (t\<lparr>tr_progress := dict_set phase 100 (tr_progress t)\<rparr>)"

definition get_event_store :: "(string, string list) dict \<Rightarrow> event_store option \<Rightarrow> event_store \<times> event_store option" where
  "get_event_store dir global = (case global of Some es \<Rightarrow> (es, global) | None \<Rightarrow> (EventStore dir, Some (EventStore dir)))"

section \<open>Rounding\<close>

lemma exponent_bounds:
  assumes "0 < x"
  shows "2 powi exponent x \<le> x" "x < 2 powi (exponent x + 1)"
proof -
  obtain a b where q: "quotient_of x = (a, b)" by (cases "quotient_of x")
  have b: "0 < b" using quotient_of_denom_pos [OF q] .
  have x: "x = of_int a / of_int b" using quotient_of_div [OF q] .
  with assms b have a: "0 < a" by (simp add: zero_less_divide_iff)
  let ?k = "bitlen a - bitlen b"
  have l: "2 powi (bitlen c - 1) \<le> (of_int c :: rat)" "(of_int c :: rat) < 2 powi bitlen c" if "0 < c" for c
  proof -
    have n: "0 < bitlen c" using that bitlen_nonneg [of c] bitlen_eq_zero_iff [of c] by linarith
    have c: "2 ^ nat (bitlen c - 1) \<le> c" "c < 2 ^ nat (bitlen c)" using bitlen_bounds [OF that] by auto
    have "(of_int (2 ^ nat (bitlen c - 1)) :: rat) \<le> of_int c" "(of_int c :: rat) < of_int (2 ^ nat (bitlen c))"
      using c by (simp_all only: of_int_le_iff of_int_less_iff)
    then show "2 powi (bitlen c - 1) \<le> (of_int c :: rat)" "(of_int c :: rat) < 2 powi bitlen c"
      using n by (simp_all add: power_int_def)
  qed
  have "x < 2 powi bitlen a / 2 powi (bitlen b - 1)"
    unfolding x using l [OF a] l [OF b] a b by (intro frac_less) simp_all
  then have up: "x < 2 powi (?k + 1)" by (simp flip: power_int_diff add: algebra_simps)
  have "2 powi (bitlen a - 1) / 2 powi bitlen b \<le> x"
    unfolding x using l [OF a] l [OF b] a b by (intro frac_le) simp_all
  then have lo: "2 powi (?k - 1) \<le> x" by (simp flip: power_int_diff add: algebra_simps)
  show "2 powi exponent x \<le> x" "x < 2 powi (exponent x + 1)"
    using up lo by (auto simp: exponent_def q Let_def)
qed

lemma exponent_unique:
  assumes "2 powi k \<le> x" and "x < 2 powi (k + 1)"
  shows "exponent x = k"
proof -
  have pos: "0 < x" using assms(1) by (rule less_le_trans [rotated]) simp
  have *: "i < j + 1" if "(2 :: rat) powi i < 2 powi (j + 1)" for i j
    using that by (metis not_less power_int_increasing one_le_numeral)
  have "exponent x < k + 1"
    using exponent_bounds(1) [OF pos] assms(2) by (intro *) (rule le_less_trans)
  moreover have "k < exponent x + 1"
    using assms(1) exponent_bounds(2) [OF pos] by (intro *) (rule le_less_trans)
  ultimately show ?thesis by simp
qed

lemma fl_step:
  assumes "2 powi (k + 52) \<le> x" and "x < 2 powi (k + 53)" and "half_even (x / 2 powi k) = m"
  shows "fl x = of_int m * 2 powi k"
proof -
  have "0 < x" using assms(1) by (rule less_le_trans [rotated]) simp
  moreover have "exponent x = k + 52"
    by (rule exponent_unique) (use assms in \<open>simp_all add: add.assoc\<close>)
  ultimately show ?thesis
    using assms(3) by (simp add: fl_def Let_def)
qed

lemma half_even_near:
  assumes "\<bar>x - of_int m\<bar> < 1 / 2"
  shows "half_even x = m"
proof (cases "of_int m \<le> x")
  case True
  with assms have "\<lfloor>x\<rfloor> = m" by (intro floor_unique) auto
  with True assms show ?thesis by (simp add: half_even_def Let_def)
next
  case False
  with assms have "\<lfloor>x\<rfloor> = m - 1" by (intro floor_unique) auto
  with False assms show ?thesis by (simp add: half_even_def Let_def abs_less_iff)
qed

lemma half_even_tie:
  assumes "x = of_int m + 1 / 2 \<or> x = of_int m - 1 / 2" and "even m"
  shows "half_even x = m"
  using assms(1)
proof
  assume x: "x = of_int m + 1 / 2"
  then have "\<lfloor>x\<rfloor> = m" by (intro floor_unique) auto
  with x assms(2) show ?thesis by (simp add: half_even_def Let_def)
next
  assume x: "x = of_int m - 1 / 2"
  then have "\<lfloor>x\<rfloor> = m - 1" by (intro floor_unique) auto
  with x assms(2) show ?thesis by (simp add: half_even_def Let_def)
qed

lemma fl_scaled:
  assumes "2 ^ 52 \<le> x * 2 ^ k" and "x * 2 ^ k < 2 ^ 53" and "half_even (x * 2 ^ k) = m"
  shows "fl x = of_int m / 2 ^ k"
proof -
  have p: "(2 :: rat) powi (- int k) = 1 / 2 ^ k" "(2 :: rat) powi (- int k + 52) = 2 ^ 52 / 2 ^ k" "(2 :: rat) powi (- int k + 53) = 2 ^ 53 / 2 ^ k"
    using power_int_add [of "2 :: rat" "- int k" 52] power_int_add [of "2 :: rat" "- int k" 53] by (simp_all only: power_int_minus power_int_of_nat) (simp_all add: divide_simps)
  show ?thesis
    using fl_step [of "- int k" x m] assms unfolding p by (simp add: field_simps)
qed

text \<open>Adding up the weight of one of twelve phases.\<close>

lemma weight12: "fl (100 / 12) = 4691249611844267 / 562949953421312"
  by (rule fl_scaled [of _ 49 4691249611844267, THEN trans]) (simp_all add: half_even_near half_even_tie)

lemma fl_one: "fl 1 = 1"
  by (rule fl_scaled [of _ 52 4503599627370496, THEN trans]) (simp_all add: half_even_near half_even_tie)

lemma fl_weight12: "fl (4691249611844267 / 562949953421312) = 4691249611844267 / 562949953421312"
  by (rule fl_scaled [of _ 49 4691249611844267, THEN trans]) (simp_all add: half_even_near half_even_tie)

lemma sum12_2: "fl (4691249611844267 / 562949953421312 + 4691249611844267 / 562949953421312) = 4691249611844267 / 281474976710656"
  by (rule fl_scaled [of _ 48 4691249611844267, THEN trans]) (simp_all add: half_even_near half_even_tie)

lemma sum12_3: "fl (4691249611844267 / 281474976710656 + 4691249611844267 / 562949953421312) = 25"
  by (rule fl_scaled [of _ 48 7036874417766400, THEN trans]) (simp_all add: half_even_near half_even_tie)

lemma sum12_4: "fl (25 + 4691249611844267 / 562949953421312) = 4691249611844267 / 140737488355328"
  by (rule fl_scaled [of _ 47 4691249611844267, THEN trans]) (simp_all add: half_even_near half_even_tie)

lemma sum12_5: "fl (4691249611844267 / 140737488355328 + 4691249611844267 / 562949953421312) = 2932031007402667 / 70368744177664"
  by (rule fl_scaled [of _ 47 5864062014805334, THEN trans]) (simp_all add: half_even_near half_even_tie)

lemma sum12_6: "fl (2932031007402667 / 70368744177664 + 4691249611844267 / 562949953421312) = 7036874417766401 / 140737488355328"
  by (rule fl_scaled [of _ 47 7036874417766401, THEN trans]) (simp_all add: half_even_near half_even_tie)

lemma sum12_7: "fl (7036874417766401 / 140737488355328 + 4691249611844267 / 562949953421312) = 2052421705181867 / 35184372088832"
  by (rule fl_scaled [of _ 47 8209686820727468, THEN trans]) (simp_all add: half_even_near half_even_tie)

lemma sum12_8: "fl (2052421705181867 / 35184372088832 + 4691249611844267 / 562949953421312) = 4691249611844267 / 70368744177664"
  by (rule fl_scaled [of _ 46 4691249611844267, THEN trans]) (simp_all add: half_even_near half_even_tie)

lemma sum12_9: "fl (4691249611844267 / 70368744177664 + 4691249611844267 / 562949953421312) = 75"
  by (rule fl_scaled [of _ 46 5277655813324800, THEN trans]) (simp_all add: half_even_near half_even_tie)

lemma sum12_10: "fl (75 + 4691249611844267 / 562949953421312) = 5864062014805333 / 70368744177664"
  by (rule fl_scaled [of _ 46 5864062014805333, THEN trans]) (simp_all add: half_even_near half_even_tie)

lemma sum12_11: "fl (5864062014805333 / 70368744177664 + 4691249611844267 / 562949953421312) = 3225234108142933 / 35184372088832"
  by (rule fl_scaled [of _ 46 6450468216285866, THEN trans]) (simp_all add: half_even_near half_even_tie)

lemma sum12_12: "fl (3225234108142933 / 35184372088832 + 4691249611844267 / 562949953421312) = 7036874417766399 / 70368744177664"
  by (rule fl_scaled [of _ 46 7036874417766399, THEN trans]) (simp_all add: half_even_near half_even_tie)

lemmas sums12 = sum12_2 sum12_3 sum12_4 sum12_5 sum12_6 sum12_7 sum12_8 sum12_9 sum12_10 sum12_11 sum12_12

section \<open>What the tracker reports\<close>

definition phase_step :: "rat \<Rightarrow> rat \<Rightarrow> rat" where
  "phase_step w a = fl (a + fl (fl 1 * w))"

lemma add_complete_phases: "list_all (\<lambda>p. dict_get d p = Some 100) ps \<Longrightarrow> add_phases w d ps a = (phase_step w ^^ length ps) a"
  by (induction ps arbitrary: a) (simp_all add: funpow_swap1 phase_step_def)

text \<open>
  A migration of twelve phases never reports that it is done: with every phase complete, the weights of the
  phases, rounded as doubles, add up to less than a hundred and the percentage is cut to 99.
\<close>
theorem twelve_phases_end_at_99:
  assumes "length (tr_phases t) = 12" and "list_all (\<lambda>p. dict_get (tr_progress t) p = Some 100) (tr_phases t)"
  shows "overall_progress t = 99"
proof -
  let ?w = "fl (100 / 12)"
  have s: "phase_step ?w a = fl (a + 4691249611844267 / 562949953421312)" for a
    by (simp only: phase_step_def fl_one weight12 mult_1 fl_weight12)
  have n: "(12 :: nat) = Suc (Suc (Suc (Suc (Suc (Suc (Suc (Suc (Suc (Suc (Suc (Suc 0)))))))))))" by simp
  have "(phase_step ?w ^^ 12) 0 = 7036874417766399 / 70368744177664"
    unfolding n funpow.simps o_apply id_apply s by (simp only: add_0 fl_weight12 sums12)
  with add_complete_phases [OF assms(2), of ?w 0] assms(1)
  have v: "add_phases ?w (tr_progress t) (tr_phases t) 0 = 7036874417766399 / 70368744177664" by simp
  have "\<lfloor>7036874417766399 / 70368744177664 :: rat\<rfloor> = 99"
    by (rule floor_unique) simp_all
  moreover have "tr_phases t \<noteq> []" using assms(1) by auto
  ultimately show ?thesis
    unfolding overall_progress_def Let_def assms(1) of_nat_numeral v by auto
qed

theorem twelve_phases_end_at_99_witness:
  "overall_progress \<lparr>tr_phases = map (\<lambda>i. [char_of i]) [97..<109], tr_current = 0, tr_progress = map (\<lambda>i. ([char_of i], 100)) [97..<109], tr_emitter = EventEmitter [] (EventStore [])\<rparr> = 99"
  by (rule twelve_phases_end_at_99) (code_simp, code_simp)

section \<open>What the store keeps\<close>

text \<open>The parser inverts the printer on the events that are stored, and a printed event is not blank.\<close>

definition codec_ok :: "event_codec \<Rightarrow> progress_event list \<Rightarrow> bool" where
  "codec_ok ec evs \<longleftrightarrow> list_all (\<lambda>ev. ec_parse ec (ec_dump ec ev) = Some ev \<and> strip (ec_dump ec ev) \<noteq> []) evs"

definition events_of :: "string \<Rightarrow> progress_event list \<Rightarrow> progress_event list" where
  "events_of jid evs = filter (\<lambda>ev. ev_job_id ev = jid) evs"

definition holds :: "event_codec \<Rightarrow> progress_event list \<Rightarrow> event_store \<Rightarrow> bool" where
  "holds ec evs es \<longleftrightarrow> (\<forall>jid. or_none (dict_get (es_cache es) jid) = events_of jid evs \<and>
     or_none (dict_get (es_dir es) (event_file jid)) = map (ec_dump ec) (events_of jid evs))"

lemma holds_store: "holds ec evs es \<Longrightarrow> holds ec (evs @ [ev]) (store ec True ev es)"
  by (auto simp: holds_def store_def Let_def events_of_def update_conv' event_file_def or_none_def)

lemma holds_fold: "holds ec evs0 es \<Longrightarrow> holds ec (evs0 @ evs) (fold (store ec True) evs es)"
proof (induction evs arbitrary: evs0 es)
  case (Cons ev evs)
  from Cons.IH [OF holds_store [OF Cons.prems]] show ?case by simp
qed simp

lemma load_dumped: "codec_ok ec evs \<Longrightarrow> load_lines ec (map (ec_dump ec) evs) = evs"
  by (induction evs) (auto simp: codec_ok_def)

lemma fresh_events: "fst (get_events ec jid None None (EventStore dir)) = load_lines ec (or_none (dict_get dir (event_file jid)))"
  by (simp add: get_events_def cached_events_def EventStore_def load_event_log_def or_none_def Let_def split: option.splits)

text \<open>
  C31 (roundtrip). The events of a job survive a restart of the worker: after any events were stored and written, a new
  store over the same directory returns exactly the events of that job, in their order.
\<close>
theorem events_survive_restart:
  assumes "codec_ok ec evs"
  shows "fst (get_events ec jid None None (EventStore (es_dir (fold (store ec True) evs (EventStore []))))) = filter (\<lambda>ev. ev_job_id ev = jid) evs"
proof -
  have "holds ec [] (EventStore [])" by (simp add: holds_def EventStore_def events_of_def or_none_def)
  from holds_fold [OF this, of evs] have "or_none (dict_get (es_dir (fold (store ec True) evs (EventStore []))) (event_file jid)) = map (ec_dump ec) (events_of jid evs)"
    by (simp add: holds_def)
  moreover have "codec_ok ec (events_of jid evs)" using assms by (auto simp: codec_ok_def events_of_def list_all_iff)
  ultimately show ?thesis by (simp add: fresh_events load_dumped events_of_def)
qed

definition example_event :: progress_event where
  "example_event = \<lparr>ev_job_id = ''j'', ev_timestamp = 0, ev_phase = ''p'', ev_percent = 50, ev_message = [], ev_details = None\<rparr>"

definition example_codec :: event_codec where
  "example_codec = \<lparr>ec_dump = \<lambda>_. ''e'', ec_parse = \<lambda>_. Some example_event\<rparr>"

theorem events_survive_restart_witness:
  "fst (get_events example_codec ''j'' None None (EventStore (es_dir (fold (store example_codec True) [example_event, example_event] (EventStore []))))) = [example_event, example_event]"
proof -
  have "strip ''e'' \<noteq> []" by code_simp
  then have "codec_ok example_codec [example_event, example_event]" by (simp add: codec_ok_def example_codec_def)
  from events_survive_restart [OF this, of "''j''"] show ?thesis by (simp add: example_event_def)
qed

text \<open>
  An event that arrives before the events of its job were read hides them: the store starts an empty list for
  the job instead of reading its file, so after a restart only the new event is seen, although the others are on disk.
\<close>
theorem stored_event_hides_file:
  "fst (get_events ec (ev_job_id ev) None None (store ec written ev (EventStore dir))) = [ev]"
  by (simp add: get_events_def cached_events_def store_def EventStore_def or_none_def Let_def update_conv')

section \<open>What the stream yields\<close>

fun growing :: "progress_event list \<Rightarrow> progress_event list list \<Rightarrow> bool" where
  "growing evs [] \<longleftrightarrow> True"
| "growing evs (p # polls) \<longleftrightarrow> prefix evs p \<and> growing p polls"

lemma follow_growing: "growing evs polls \<Longrightarrow> evs @ stream_follow (length evs) polls = last (evs # polls)"
proof (induction polls arbitrary: evs)
  case (Cons p polls)
  then obtain new where p: "p = evs @ new" by (auto elim: prefixE)
  from Cons.IH [of p] Cons.prems show ?case by (cases new) (auto simp: p)
qed simp

text \<open>
  A stream without a start time delivers every event once and in order: however often the list was
  looked at while it grew, what was yielded is the list as last seen.
\<close>
theorem stream_delivers_once:
  assumes "growing evs polls"
  shows "event_stream None True evs polls = last (evs # polls)"
  using follow_growing [OF assms] by (simp add: event_stream_def stream_start_def Let_def)

theorem stream_delivers_once_witness:
  "event_stream None True [example_event] [[example_event], [example_event, example_event]] = [example_event, example_event]"
  using stream_delivers_once [of "[example_event]" "[[example_event], [example_event, example_event]]"] by simp

text \<open>With a start time the position counts the filtered events and is used as an index into all of them, so events that
  were yielded or that are older than the start time are yielded again.\<close>

lemma stream_since_repeats:
  assumes "list_all (\<lambda>ev. ev_timestamp ev \<le> t) old" and "list_all (\<lambda>ev. ev_timestamp ev > t) new" and "old \<noteq> []"
  shows "event_stream (Some t) True (old @ new) [old @ new] = new @ drop (length new) (old @ new) \<and> drop (length new) (old @ new) \<noteq> []"
proof -
  have "filter (\<lambda>ev. ev_timestamp ev > t) (old @ new) = new"
    using assms(1,2) by (simp add: list_all_iff filter_empty_conv not_less)
  with assms(3) show ?thesis by (cases old) (auto simp: event_stream_def stream_start_def Let_def)
qed

end
