(* ===== verification/Mapping_Config.thy ===== *)
theory Mapping_Config
  imports Py_Text
begin

text \<open>
  \<^verbatim>\<open>h2kvm/config/mapping_config.py\<close> and \<^verbatim>\<open>h2kvm/orchestration/manifest/mapping_applier.py\<close>: which bridge, MAC address,
  directory and format the networks and disks of a machine get. Documents are JSON values as the loaders of manifests
  give them; what the source does not check (the target of a network, the default bridge, the pool) stays such a value.
  The resolution of a path is a parameter and may raise.
\<close>

section \<open>Values of a document\<close>

fun type_name :: "json \<Rightarrow> string" where
  "type_name JNull = ''NoneType''"
| "type_name (JBool _) = ''bool''"
| "type_name (JInt _) = ''int''"
| "type_name (JNum _) = ''float''"
| "type_name (JStr _) = ''str''"
| "type_name (JTime _) = ''datetime.datetime''"
| "type_name (JList _) = ''list''"
| "type_name (JObj _) = ''dict''"

definition lacks :: "json \<Rightarrow> string \<Rightarrow> py_exc" where
  "lacks v a = AttributeError (CHR 0x27 # type_name v @ CHR 0x27 # '' object has no attribute '' @ CHR 0x27 # a @ [CHR 0x27])"

definition fields_of :: "json \<Rightarrow> py_exc + (string, json) dict" where
  "fields_of v = (case v of JObj fs \<Rightarrow> Inr fs | _ \<Rightarrow> Inl (lacks v ''get''))"

definition lower_of :: "json \<Rightarrow> py_exc + string" where
  "lower_of v = (case v of JStr s \<Rightarrow> Inr (py_lower s) | _ \<Rightarrow> Inl (lacks v ''lower''))"

definition dict_of :: "string \<Rightarrow> json \<Rightarrow> py_exc + (string, json) dict" where
  "dict_of msg v = (case v of JObj fs \<Rightarrow> Inr fs | _ \<Rightarrow> Inl (TypeError msg))"

definition get_or :: "(string, json) dict \<Rightarrow> string \<Rightarrow> json \<Rightarrow> json" where
  "get_or d k dflt = (case dict_get d k of None \<Rightarrow> dflt | Some v \<Rightarrow> v)"

text \<open>Looking up a value that may not be a string in a dictionary whose keys are strings.\<close>

definition lookup_value :: "(string, json) dict \<Rightarrow> json \<Rightarrow> json \<Rightarrow> py_exc + json" where
  "lookup_value d k dflt = (case k of
      JStr s \<Rightarrow> Inr (get_or d s dflt)
    | JList _ \<Rightarrow> Inl (TypeError (''unhashable type: '' @ CHR 0x27 # ''list'' @ [CHR 0x27]))
    | JObj _ \<Rightarrow> Inl (TypeError (''unhashable type: '' @ CHR 0x27 # ''dict'' @ [CHR 0x27]))
    | _ \<Rightarrow> Inr dflt)"

section \<open>Networks\<close>

datatype MACAddressPolicy = PRESERVE | REGENERATE | CUSTOM

fun policy_value :: "MACAddressPolicy \<Rightarrow> string" where
  "policy_value PRESERVE = ''preserve''"
| "policy_value REGENERATE = ''regenerate''"
| "policy_value CUSTOM = ''custom''"

definition policy_of :: "string \<Rightarrow> MACAddressPolicy option" where
  "policy_of s = find (\<lambda>p. policy_value p = s) [PRESERVE, REGENERATE, CUSTOM]"

record network_mapping =
  source_networks :: "(string, json) dict"
  mac_address_policy :: MACAddressPolicy
  mac_address_overrides :: "(string, json) dict"
  default_bridge :: json

definition NetworkMapping :: network_mapping where
  "NetworkMapping = \<lparr>source_networks = [], mac_address_policy = PRESERVE, mac_address_overrides = [], default_bridge = JNull\<rparr>"

definition hex_digit :: "char \<Rightarrow> bool" where
  "hex_digit c = (c \<in> set (''0123456789'' @ ''ABCDEF'' @ ''abcdef''))"

text \<open>The pattern ends with a dollar sign, which also matches before a final newline.\<close>

fun mac_groups :: "nat \<Rightarrow> string \<Rightarrow> bool" where
  "mac_groups 0 (a # b # r) = (hex_digit a \<and> hex_digit b \<and> (r = [] \<or> r = [CHR 0x0A]))"
| "mac_groups (Suc n) (a # b # c # r) = (hex_digit a \<and> hex_digit b \<and> c \<in> {CHR '':'', CHR ''-''} \<and> mac_groups n r)"
| "mac_groups _ _ = False"

definition is_valid_mac :: "string \<Rightarrow> bool" where
  "is_valid_mac s = mac_groups 5 s"

fun check_macs :: "json list \<Rightarrow> py_exc + unit" where
  "check_macs [] = Inr ()"
| "check_macs (JStr s # vs) = (if is_valid_mac s then check_macs vs
     else Inl (ValueError (''Invalid MAC address format '' @ CHR 0x27 # s @ CHR 0x27 # ''. Expected format: 00:11:22:33:44:55.'')))"
| "check_macs (v # vs) = Inl (TypeError (''expected string or bytes-like object, got '' @ CHR 0x27 # type_name v @ [CHR 0x27]))"

definition bad_policy :: "string \<Rightarrow> py_exc" where
  "bad_policy s = ValueError (''Invalid mac_address_policy: '' @ s @ ''. Must be one of: '' @ CHR 0x5B # CHR 0x27 #
     py_join (CHR 0x27 # '', '' @ [CHR 0x27]) (map policy_value [PRESERVE, REGENERATE, CUSTOM]) @ [CHR 0x27, CHR 0x5D])"

definition parse_policy :: "json \<Rightarrow> py_exc + MACAddressPolicy" where
  "parse_policy v = sum_bind (lower_of v) (\<lambda>s. (case policy_of s of
      Some p \<Rightarrow> Inr p
    | None \<Rightarrow> Inl (bad_policy (case v of JStr raw \<Rightarrow> raw | _ \<Rightarrow> []))))"

definition network_from_dict :: "json \<Rightarrow> py_exc + network_mapping" where
  "network_from_dict doc =
     sum_bind (fields_of doc) (\<lambda>d.
     sum_bind (dict_of (''source_networks must be a dictionary (e.g., {'' @ CHR 0x22 # ''VM Network'' @ CHR 0x22 # '': '' @ CHR 0x22 # ''br0'' @ CHR 0x22 # ''}).'')
        (get_or d ''source_networks'' (JObj []))) (\<lambda>nets.
     sum_bind (parse_policy (get_or d ''mac_address_policy'' (JStr ''preserve''))) (\<lambda>pol.
     sum_bind (dict_of (''mac_address_overrides must be a dictionary mapping source MACs to target MACs (e.g., {'' @ CHR 0x22 # ''00:11:22:33:44:55'' @ CHR 0x22 # '': '' @
         CHR 0x22 # ''aa:bb:cc:dd:ee:ff'' @ CHR 0x22 # ''}).'') (get_or d ''mac_address_overrides'' (JObj []))) (\<lambda>macs.
     sum_bind (check_macs (map JStr (dict_keys macs) @ dict_values macs)) (\<lambda>_.
     Inr \<lparr>source_networks = nets, mac_address_policy = pol, mac_address_overrides = macs, default_bridge = get_or d ''default_bridge'' JNull\<rparr>)))))"

definition get_target_bridge :: "network_mapping \<Rightarrow> json \<Rightarrow> py_exc + json" where
  "get_target_bridge n src = lookup_value (source_networks n) src (default_bridge n)"

definition get_target_mac :: "network_mapping \<Rightarrow> json \<Rightarrow> py_exc + json" where
  "get_target_mac n mac = (if mac_address_policy n = CUSTOM then lookup_value (mac_address_overrides n) mac JNull else Inr JNull)"

definition network_to_dict :: "network_mapping \<Rightarrow> json" where
  "network_to_dict n = JObj [(''source_networks'', JObj (source_networks n)), (''mac_address_policy'', JStr (policy_value (mac_address_policy n))),
     (''mac_address_overrides'', JObj (mac_address_overrides n)), (''default_bridge'', default_bridge n)]"

section \<open>Disks\<close>

datatype DiskFormat = QCOW2 | RAW | VDI

fun format_value :: "DiskFormat \<Rightarrow> string" where
  "format_value QCOW2 = ''qcow2''"
| "format_value RAW = ''raw''"
| "format_value VDI = ''vdi''"

definition format_of :: "string \<Rightarrow> DiskFormat option" where
  "format_of s = find (\<lambda>f. format_value f = s) [QCOW2, RAW, VDI]"

record storage_mapping =
  default_pool :: json
  disk_mappings :: "(string, json) dict"
  format_override :: "DiskFormat option"
  preallocate :: bool

definition StorageMapping :: storage_mapping where
  "StorageMapping = \<lparr>default_pool = JNull, disk_mappings = [], format_override = None, preallocate = False\<rparr>"

type_synonym resolver = "string \<Rightarrow> py_exc + string"

definition not_a_path :: "json \<Rightarrow> py_exc" where
  "not_a_path v = TypeError (''argument should be a str or an os.PathLike object where __fspath__ returns a str, not '' @ CHR 0x27 # type_name v @ [CHR 0x27])"

text \<open>A path that is not a string is refused by the construction of the path, before the test for strings.\<close>

fun check_paths :: "resolver \<Rightarrow> (string, json) dict \<Rightarrow> py_exc + unit" where
  "check_paths res [] = Inr ()"
| "check_paths res ((k, JStr p) # ds) = sum_bind (res p) (\<lambda>_. check_paths res ds)"
| "check_paths res ((k, v) # ds) = Inl (not_a_path v)"

definition bad_format :: "string \<Rightarrow> py_exc" where
  "bad_format s = ValueError (''Invalid format_override: '' @ s @ ''. Must be one of: '' @ CHR 0x5B # CHR 0x27 #
     py_join (CHR 0x27 # '', '' @ [CHR 0x27]) (map format_value [QCOW2, RAW, VDI]) @ [CHR 0x27, CHR 0x5D])"

definition parse_override :: "(string, json) dict \<Rightarrow> py_exc + DiskFormat option" where
  "parse_override d = (case dict_get d ''format_override'' of
      None \<Rightarrow> Inr None
    | Some v \<Rightarrow> sum_bind (lower_of v) (\<lambda>s. (case format_of s of
        Some f \<Rightarrow> Inr (Some f)
      | None \<Rightarrow> Inl (bad_format (case v of JStr raw \<Rightarrow> raw | _ \<Rightarrow> [])))))"

definition parse_preallocate :: "json \<Rightarrow> py_exc + bool" where
  "parse_preallocate v = (case v of JBool b \<Rightarrow> Inr b | _ \<Rightarrow> Inl (TypeError ''preallocate must be a boolean (true or false).''))"

definition storage_from_dict :: "resolver \<Rightarrow> json \<Rightarrow> py_exc + storage_mapping" where
  "storage_from_dict res doc =
     sum_bind (fields_of doc) (\<lambda>d.
     sum_bind (dict_of (''disk_mappings must be a dictionary (e.g., {'' @ CHR 0x22 # ''disk-0'' @ CHR 0x22 # '': '' @ CHR 0x22 # ''/path/to/disk.qcow2'' @ CHR 0x22 # ''}).'')
        (get_or d ''disk_mappings'' (JObj []))) (\<lambda>ds.
     sum_bind (check_paths res ds) (\<lambda>_.
     sum_bind (parse_override d) (\<lambda>fmt.
     sum_bind (parse_preallocate (get_or d ''preallocate'' (JBool False))) (\<lambda>b.
     Inr \<lparr>default_pool = get_or d ''default_pool'' JNull, disk_mappings = ds, format_override = fmt, preallocate = b\<rparr>)))))"

definition get_disk_output_path :: "resolver \<Rightarrow> storage_mapping \<Rightarrow> json \<Rightarrow> py_exc + string option" where
  "get_disk_output_path res s disk_id = sum_bind (lookup_value (disk_mappings s) disk_id JNull) (\<lambda>v. (case v of
      JStr p \<Rightarrow> if p = [] then Inr None else map_sum id Some (res p)
    | _ \<Rightarrow> if truthy v then Inl (not_a_path v) else Inr None))"

definition storage_get_output_format :: "storage_mapping \<Rightarrow> string \<Rightarrow> string" where
  "storage_get_output_format s dflt = (case format_override s of Some f \<Rightarrow> format_value f | None \<Rightarrow> dflt)"

definition storage_to_dict :: "storage_mapping \<Rightarrow> json" where
  "storage_to_dict s = JObj [(''default_pool'', default_pool s), (''disk_mappings'', JObj (disk_mappings s)),
     (''format_override'', case format_override s of Some f \<Rightarrow> JStr (format_value f) | None \<Rightarrow> JNull), (''preallocate'', JBool (preallocate s))]"

section \<open>Both\<close>

record mapping_config =
  network :: network_mapping
  storage :: storage_mapping

definition mapping_from_dict :: "resolver \<Rightarrow> json \<Rightarrow> py_exc + mapping_config" where
  "mapping_from_dict res doc =
     sum_bind (fields_of doc) (\<lambda>d. (let nd = get_or d ''network_mapping'' (JObj []); sd = get_or d ''storage_mapping'' (JObj [])
     in sum_bind (if truthy nd then network_from_dict nd else Inr NetworkMapping) (\<lambda>n.
        sum_bind (if truthy sd then storage_from_dict res sd else Inr StorageMapping) (\<lambda>s. Inr \<lparr>network = n, storage = s\<rparr>))))"

definition mapping_to_dict :: "mapping_config \<Rightarrow> json" where
  "mapping_to_dict c = JObj [(''network_mapping'', network_to_dict (network c)), (''storage_mapping'', storage_to_dict (storage c))]"

definition has_network_mapping :: "mapping_config \<Rightarrow> bool" where
  "has_network_mapping c = (source_networks (network c) \<noteq> [] \<or> truthy (default_bridge (network c)) \<or> mac_address_overrides (network c) \<noteq> [])"

definition has_storage_mapping :: "mapping_config \<Rightarrow> bool" where
  "has_storage_mapping c = (truthy (default_pool (storage c)) \<or> disk_mappings (storage c) \<noteq> [] \<or> format_override (storage c) \<noteq> None)"

section \<open>The applier\<close>

definition target_mac_of :: "network_mapping \<Rightarrow> json \<Rightarrow> py_exc + json" where
  "target_mac_of n mac = (if \<not> truthy mac then Inr JNull else (case mac_address_policy n of
      PRESERVE \<Rightarrow> Inr mac
    | CUSTOM \<Rightarrow> sum_bind (get_target_mac n mac) (\<lambda>t. Inr (if truthy t then t else mac))
    | REGENERATE \<Rightarrow> Inr JNull))"

definition apply_network_mapping :: "mapping_config \<Rightarrow> json \<Rightarrow> json \<Rightarrow> py_exc + (json \<times> json)" where
  "apply_network_mapping c src mac =
     sum_bind (get_target_bridge (network c) src) (\<lambda>b.
     sum_bind (target_mac_of (network c) mac) (\<lambda>m. Inr (if truthy b then b else src, m)))"

record disk_target =
  dt_output_path :: string
  dt_format :: string
  dt_pool :: json
  dt_preallocate :: bool

definition apply_storage_mapping :: "resolver \<Rightarrow> mapping_config \<Rightarrow> json \<Rightarrow> string \<Rightarrow> py_exc + disk_target" where
  "apply_storage_mapping res c disk_id default_output_dir =
     sum_bind (get_disk_output_path res (storage c) disk_id) (\<lambda>p.
     Inr \<lparr>dt_output_path = (case p of None \<Rightarrow> default_output_dir | Some out \<Rightarrow> out), dt_format = storage_get_output_format (storage c) ''qcow2'',
       dt_pool = default_pool (storage c), dt_preallocate = preallocate (storage c)\<rparr>)"

definition kept :: "string list \<Rightarrow> (string, json) dict \<Rightarrow> (string, json) dict" where
  "kept ks d = concat (map (\<lambda>k. case dict_get d k of None \<Rightarrow> [] | Some v \<Rightarrow> [(k, v)]) ks)"

definition transform_interface :: "mapping_config \<Rightarrow> json \<Rightarrow> py_exc + json" where
  "transform_interface c iface =
     sum_bind (fields_of iface) (\<lambda>d.
     sum_bind (apply_network_mapping c (get_or d ''network'' (JStr ''VM Network'')) (get_or d ''mac'' JNull)) (\<lambda>(b, m).
     Inr (JObj ([(''type'', JStr ''bridge''), (''source'', JObj [(''bridge'', b)]), (''model'', JObj [(''type'', JStr ''virtio'')])] @
       (if truthy m then [(''mac'', JObj [(''address'', m)])] else []) @ kept [''vlan'', ''portgroup'', ''trust_guest_rx_filters''] d))))"

definition apply_network_mappings_to_interfaces :: "mapping_config \<Rightarrow> json list \<Rightarrow> py_exc + json list" where
  "apply_network_mappings_to_interfaces c ifs = sum_map (transform_interface c) ifs"

definition transform_disk :: "resolver \<Rightarrow> mapping_config \<Rightarrow> string \<Rightarrow> json \<Rightarrow> py_exc + json" where
  "transform_disk res c default_output_dir disk =
     sum_bind (fields_of disk) (\<lambda>d. (let disk_id = get_or d ''id'' (get_or d ''label'' (JStr ''unknown''))
     in sum_bind (apply_storage_mapping res c disk_id default_output_dir) (\<lambda>t.
        Inr (JObj ([(''id'', disk_id), (''source_path'', get_or d ''source_path'' (get_or d ''local_path'' JNull)), (''output_path'', JStr (dt_output_path t)),
          (''format'', JStr (dt_format t)), (''pool'', dt_pool t), (''preallocate'', JBool (dt_preallocate t))] @ kept [''boot_order_hint'', ''disk_type'', ''label''] d)))))"

definition apply_storage_mappings_to_disks :: "resolver \<Rightarrow> mapping_config \<Rightarrow> json list \<Rightarrow> string \<Rightarrow> py_exc + json list" where
  "apply_storage_mappings_to_disks res c disks default_output_dir = sum_map (transform_disk res c default_output_dir) disks"

definition applier_from_manifest :: "resolver \<Rightarrow> json \<Rightarrow> py_exc + mapping_config option" where
  "applier_from_manifest res manifest = sum_bind (mapping_from_dict res manifest) (\<lambda>c.
     Inr (if has_network_mapping c \<or> has_storage_mapping c then Some c else None))"

section \<open>A document written and read again\<close>

lemma policy_roundtrip [simp]: "parse_policy (JStr (policy_value p)) = Inr p"
proof -
  have "py_lower (policy_value p) = policy_value p" by (cases p) (simp_all only: policy_value.simps, code_simp+)
  then show ?thesis by (cases p) (simp_all add: parse_policy_def lower_of_def policy_of_def)
qed

lemma format_lower [simp]: "py_lower (format_value f) = format_value f" "format_of (format_value f) = Some f"
  by (cases f; simp only: format_value.simps; code_simp)+

definition macs_ok :: "network_mapping \<Rightarrow> bool" where
  "macs_ok n = (check_macs (map JStr (dict_keys (mac_address_overrides n)) @ dict_values (mac_address_overrides n)) = Inr ())"

lemma loaded_macs: "network_from_dict doc = Inr n \<Longrightarrow> macs_ok n" "macs_ok NetworkMapping"
  by (auto simp: network_from_dict_def sum_bind_Inr_iff macs_ok_def NetworkMapping_def dict_keys_def dict_values_def)

lemma loaded_paths: "storage_from_dict res doc = Inr s \<Longrightarrow> check_paths res (disk_mappings s) = Inr ()" "check_paths res (disk_mappings StorageMapping) = Inr ()"
  by (auto simp: storage_from_dict_def sum_bind_Inr_iff StorageMapping_def)

lemma loaded_mapping:
  assumes "mapping_from_dict res doc = Inr c"
  shows "macs_ok (network c)" "check_paths res (disk_mappings (storage c)) = Inr ()"
  using assms by (auto simp: mapping_from_dict_def sum_bind_Inr_iff Let_def loaded_macs loaded_paths split: if_split_asm)

lemma network_reload:
  "macs_ok n \<Longrightarrow> network_from_dict (network_to_dict n) = Inr n"
  by (simp add: macs_ok_def network_from_dict_def network_to_dict_def fields_of_def get_or_def dict_of_def)

lemma storage_reload:
  "check_paths res (disk_mappings s) = Inr () \<Longrightarrow> storage_from_dict res (storage_to_dict s) =
     (if format_override s = None then Inl (lacks JNull ''lower'') else Inr s)"
  by (auto simp: storage_from_dict_def storage_to_dict_def fields_of_def get_or_def dict_of_def parse_override_def parse_preallocate_def lower_of_def split: option.splits)

text \<open>
  C38 (roundtrip). A mapping that was loaded from any document, written with \<^verbatim>\<open>to_dict\<close> and loaded again is the same mapping exactly
  when it overrides the format of disks. Without an override, which is the default, the second load raises AttributeError,
  because \<^verbatim>\<open>to_dict\<close> writes a null that \<^verbatim>\<open>from_dict\<close> takes for a string.
\<close>
theorem mapping_reload:
  assumes "mapping_from_dict res doc = Inr c"
  shows "mapping_from_dict res (mapping_to_dict c) = (if format_override (storage c) = None then Inl (lacks JNull ''lower'') else Inr c)"
proof -
  have "truthy (network_to_dict (network c))" "truthy (storage_to_dict (storage c))"
    by (simp_all add: network_to_dict_def storage_to_dict_def)
  then show ?thesis
    by (simp add: mapping_from_dict_def mapping_to_dict_def fields_of_def get_or_def network_reload [OF loaded_mapping(1) [OF assms]] storage_reload [OF loaded_mapping(2) [OF assms]])
qed

definition example_mapping :: json where
  "example_mapping = JObj [(''network_mapping'', JObj [(''mac_address_policy'', JStr ''custom''), (''mac_address_overrides'', JObj [(''00:11:22:33:44:55'', JStr ''aa:bb:cc:dd:ee:ff'')])])]"

text \<open>The example has no override of the format, and with one it is kept.\<close>

definition example_override :: json where
  "example_override = JObj [(''storage_mapping'', JObj [(''format_override'', JStr ''raw'')])]"

lemma example_loads:
  "mapping_from_dict Inr example_mapping = Inr \<lparr>network = NetworkMapping\<lparr>mac_address_policy := CUSTOM, mac_address_overrides := [(''00:11:22:33:44:55'', JStr ''aa:bb:cc:dd:ee:ff'')]\<rparr>,
     storage = StorageMapping\<rparr>"
  "mapping_from_dict Inr example_override = Inr \<lparr>network = NetworkMapping, storage = StorageMapping\<lparr>format_override := Some RAW\<rparr>\<rparr>"
  by code_simp+

theorem mapping_reload_witness:
  "mapping_from_dict Inr (mapping_to_dict \<lparr>network = NetworkMapping, storage = StorageMapping\<lparr>format_override := Some RAW\<rparr>\<rparr>) =
   Inr \<lparr>network = NetworkMapping, storage = StorageMapping\<lparr>format_override := Some RAW\<rparr>\<rparr>"
  using mapping_reload [OF example_loads(2)] by simp

section \<open>Addresses of interfaces\<close>

definition mac_field :: "json \<Rightarrow> json" where
  "mac_field out = json_get (json_get out ''mac'' (JObj [])) ''address'' JNull"

lemma check_macs_string: "check_macs vs = Inr () \<Longrightarrow> v \<in> set vs \<Longrightarrow> \<exists>s. v = JStr s \<and> is_valid_mac s"
proof (induction vs rule: check_macs.induct)
qed (auto split: if_split_asm)

lemma valid_mac_nonempty: "is_valid_mac s \<Longrightarrow> s \<noteq> []"
  by (auto simp: is_valid_mac_def numeral_eq_Suc)

lemma override_is_mac:
  assumes "macs_ok n" and "dict_get (mac_address_overrides n) k = Some v"
  shows "\<exists>s. v = JStr s \<and> is_valid_mac s"
  using check_macs_string [of _ v] assms map_of_SomeD [OF assms(2)] unfolding macs_ok_def dict_values_def by force

lemma target_mac_cases:
  assumes "macs_ok n" and "target_mac_of n src = Inr m"
  shows "\<not> truthy src \<and> m = JNull \<or> mac_address_policy n = REGENERATE \<and> m = JNull \<or> mac_address_policy n = PRESERVE \<and> m = src \<or>
    mac_address_policy n = CUSTOM \<and> (\<forall>s. src = JStr s \<longrightarrow> dict_get (mac_address_overrides n) s = None) \<and> m = src \<or>
    mac_address_policy n = CUSTOM \<and> (\<exists>s t. src = JStr s \<and> dict_get (mac_address_overrides n) s = Some (JStr t) \<and> is_valid_mac t \<and> m = JStr t)"
proof (cases "mac_address_policy n")
  case CUSTOM
  show ?thesis
  proof (cases src)
    case (JStr s)
    show ?thesis
    proof (cases "dict_get (mac_address_overrides n) s")
      case (Some v)
      from override_is_mac [OF assms(1) this] obtain t where "v = JStr t" "is_valid_mac t" by blast
      with assms(2) CUSTOM JStr Some valid_mac_nonempty [of t] show ?thesis
        by (auto simp: target_mac_of_def get_target_mac_def lookup_value_def get_or_def split: if_split_asm)
    qed (use assms(2) CUSTOM JStr in \<open>auto simp: target_mac_of_def get_target_mac_def lookup_value_def get_or_def split: if_split_asm\<close>)
  qed (use assms(2) CUSTOM in \<open>auto simp: target_mac_of_def get_target_mac_def lookup_value_def split: if_split_asm\<close>)
qed (use assms(2) in \<open>auto simp: target_mac_of_def split: if_split_asm\<close>)

lemma sum_map_nth: "sum_map f xs = Inr ys \<Longrightarrow> length ys = length xs \<and> (\<forall>i<length xs. f (xs ! i) = Inr (ys ! i))"
proof (induction xs arbitrary: ys)
  case (Cons x xs)
  then obtain z zs where z: "ys = z # zs" "f x = Inr z" "sum_map f xs = Inr zs" by (auto simp: sum_bind_Inr_iff)
  with Cons.IH [OF z(3)] show ?case by (auto simp: nth_Cons split: nat.split)
qed simp

lemma interface_mac:
  assumes "transform_interface c iface = Inr out"
  shows "\<exists>m. target_mac_of (network c) (json_get iface ''mac'' JNull) = Inr m \<and> mac_field out = (if truthy m then m else JNull)"
proof -
  from assms obtain d where d: "iface = JObj d" by (cases iface) (auto simp: transform_interface_def fields_of_def)
  from assms obtain b m where bm: "apply_network_mapping c (get_or d ''network'' (JStr ''VM Network'')) (get_or d ''mac'' JNull) = Inr (b, m)"
    and out: "out = JObj ([(''type'', JStr ''bridge''), (''source'', JObj [(''bridge'', b)]), (''model'', JObj [(''type'', JStr ''virtio'')])] @
       (if truthy m then [(''mac'', JObj [(''address'', m)])] else []) @ kept [''vlan'', ''portgroup'', ''trust_guest_rx_filters''] d)"
    by (auto simp: transform_interface_def fields_of_def d sum_bind_Inr_iff)
  have "dict_get (kept [''vlan'', ''portgroup'', ''trust_guest_rx_filters''] d) ''mac'' = None"
    by (auto simp: kept_def split: option.splits)
  then have "mac_field out = (if truthy m then m else JNull)" by (simp add: out mac_field_def)
  moreover have "get_or d ''mac'' JNull = json_get iface ''mac'' JNull" by (simp add: get_or_def d)
  moreover from bm have "target_mac_of (network c) (get_or d ''mac'' JNull) = Inr m" by (auto simp: apply_network_mapping_def sum_bind_Inr_iff)
  ultimately show ?thesis by simp
qed

text \<open>
  C39 (safety). Mapping the interfaces of a machine with a mapping that was loaded from a document keeps their number and order and
  invents no address: an interface has no address when it had none or addresses are to be regenerated; it keeps its own when
  they are preserved or when no override names it; otherwise it gets the override, which is a well-formed address.
\<close>
theorem interface_addresses:
  assumes "mapping_from_dict res doc = Inr c" and "apply_network_mappings_to_interfaces c ifs = Inr outs"
  shows "length outs = length ifs \<and> list_all2 (\<lambda>iface out.
    (let src = json_get iface ''mac'' JNull; m = mac_field out; n = network c
     in \<not> truthy src \<and> m = JNull \<or> mac_address_policy n = REGENERATE \<and> m = JNull \<or> truthy src \<and> m = src \<and> mac_address_policy n \<noteq> REGENERATE \<and>
         (mac_address_policy n = CUSTOM \<longrightarrow> (\<forall>s. src = JStr s \<longrightarrow> dict_get (mac_address_overrides n) s = None)) \<or>
        mac_address_policy n = CUSTOM \<and> (\<exists>s t. src = JStr s \<and> dict_get (mac_address_overrides n) s = Some (JStr t) \<and> is_valid_mac t \<and> m = JStr t))) ifs outs"
    (is "_ \<and> list_all2 ?P ifs outs")
proof -
  note ok = loaded_mapping(1) [OF assms(1)]
  from sum_map_nth [OF assms(2) [unfolded apply_network_mappings_to_interfaces_def]]
  have l: "length outs = length ifs" and t: "\<And>i. i < length ifs \<Longrightarrow> transform_interface c (ifs ! i) = Inr (outs ! i)" by auto
  have "?P (ifs ! i) (outs ! i)" if "i < length ifs" for i
  proof -
    from interface_mac [OF t [OF that]] obtain m where
      m: "target_mac_of (network c) (json_get (ifs ! i) ''mac'' JNull) = Inr m" "mac_field (outs ! i) = (if truthy m then m else JNull)" by blast
    from target_mac_cases [OF ok m(1)] m(2) valid_mac_nonempty show ?thesis by (auto simp: Let_def)
  qed
  with l show ?thesis by (simp add: list_all2_conv_all_nth)
qed

theorem interface_addresses_witness:
  "\<exists>c out. mapping_from_dict Inr example_mapping = Inr c \<and>
     apply_network_mappings_to_interfaces c [JObj [(''mac'', JStr ''00:11:22:33:44:55'')]] = Inr [out] \<and> mac_field out = JStr ''aa:bb:cc:dd:ee:ff''"
proof -
  let ?c = "\<lparr>network = NetworkMapping\<lparr>mac_address_policy := CUSTOM, mac_address_overrides := [(''00:11:22:33:44:55'', JStr ''aa:bb:cc:dd:ee:ff'')]\<rparr>, storage = StorageMapping\<rparr>"
  have "\<exists>out. apply_network_mappings_to_interfaces ?c [JObj [(''mac'', JStr ''00:11:22:33:44:55'')]] = Inr [out]"
    by (simp add: apply_network_mappings_to_interfaces_def transform_interface_def fields_of_def apply_network_mapping_def get_target_bridge_def lookup_value_def get_or_def
        target_mac_of_def get_target_mac_def NetworkMapping_def)
  then obtain out where "apply_network_mappings_to_interfaces ?c [JObj [(''mac'', JStr ''00:11:22:33:44:55'')]] = Inr [out]" ..
  with interface_addresses [OF example_loads(1) this] example_loads(1) show ?thesis
    by (auto simp: Let_def NetworkMapping_def)
qed

section \<open>What is ignored\<close>

text \<open>A manifest that only asks for new addresses gets no applier at all, so its addresses stay.\<close>

lemma policy_alone_is_ignored:
  "applier_from_manifest res (JObj [(''network_mapping'', JObj [(''mac_address_policy'', JStr ''regenerate'')])]) = Inr None"
proof -
  have p: "parse_policy (JStr ''regenerate'') = Inr REGENERATE" using policy_roundtrip [of REGENERATE] by simp
  show ?thesis
    by (simp add: applier_from_manifest_def mapping_from_dict_def fields_of_def get_or_def network_from_dict_def dict_of_def p has_network_mapping_def has_storage_mapping_def
        StorageMapping_def Let_def dict_keys_def dict_values_def)
qed

text \<open>Overrides are found by the text of the address: an address written with capitals or dashes is another key, although both
  forms are accepted.\<close>

lemma override_depends_on_case:
  "apply_network_mapping \<lparr>network = NetworkMapping\<lparr>mac_address_policy := CUSTOM, mac_address_overrides := [(''aa:11:22:33:44:55'', JStr ''00:11:22:33:44:66'')]\<rparr>, storage = StorageMapping\<rparr>
     (JStr ''n'') (JStr ''AA:11:22:33:44:55'') = Inr (JStr ''n'', JStr ''AA:11:22:33:44:55'') \<and> is_valid_mac ''AA:11:22:33:44:55''"
  by code_simp

end
