(* ===== verification/Config_Validation.thy ===== *)
theory Config_Validation
  imports Mapping_Config
begin

text \<open>
  \<^verbatim>\<open>h2kvm/config/validation.py\<close>: the configurations of networks, VMware sources and disks, each written twice, as a pydantic
  model and as a class that validates by hand where pydantic is missing. Keyword arguments are JSON values. Of pydantic the
  model uses what its documentation says: fields are validated in the order they are declared, a field that was not given takes
  its default without validation, a validator sees only the fields before its own, unknown fields are refused, and patterns
  match to the end of the text. How it converts other values to numbers and how it prints its errors are parameters.
\<close>

section \<open>Pydantic models\<close>

record pydantic =
  pd_int :: "json \<Rightarrow> int option"
  pd_bool :: "json \<Rightarrow> bool option"
  pd_text :: "string list \<Rightarrow> string"

type_synonym kwargs = "(string, json) dict"

record field_spec =
  fd_name :: string
  fd_default :: "json option"
  fd_check :: "kwargs \<Rightarrow> json \<Rightarrow> bool"

text \<open>The names of the fields that were refused.\<close>

fun validate_fields :: "field_spec list \<Rightarrow> kwargs \<Rightarrow> kwargs \<Rightarrow> string list" where
  "validate_fields [] kw seen = []"
| "validate_fields (f # fs) kw seen = (case dict_get kw (fd_name f) of
      None \<Rightarrow> (case fd_default f of
        None \<Rightarrow> fd_name f # validate_fields fs kw seen
      | Some v \<Rightarrow> validate_fields fs kw (dict_set (fd_name f) v seen))
    | Some v \<Rightarrow> if fd_check f seen v then validate_fields fs kw (dict_set (fd_name f) v seen) else fd_name f # validate_fields fs kw seen)"

definition extra_fields :: "string list \<Rightarrow> kwargs \<Rightarrow> string list" where
  "extra_fields names kw = filter (\<lambda>k. k \<notin> set names) (dict_keys kw)"

definition validate_model :: "field_spec list \<Rightarrow> kwargs \<Rightarrow> string list" where
  "validate_model fs kw = validate_fields fs kw [] @ extra_fields (map fd_name fs) kw"

definition opt_string :: "(string \<Rightarrow> bool) \<Rightarrow> json \<Rightarrow> bool" where
  "opt_string ok v = (case v of JNull \<Rightarrow> True | JStr s \<Rightarrow> ok s | _ \<Rightarrow> False)"

definition req_string :: "(string \<Rightarrow> bool) \<Rightarrow> json \<Rightarrow> bool" where
  "req_string ok v = (case v of JStr s \<Rightarrow> ok s | _ \<Rightarrow> False)"

section \<open>Classes that validate by hand\<close>

datatype validation_exc = ConfigValidationError "(string \<times> string) list" | CfgPy py_exc

definition quoted :: "string \<Rightarrow> string" where
  "quoted s = CHR 0x27 # s @ [CHR 0x27]"

fun named_list :: "string list \<Rightarrow> string" where
  "named_list [] = []"
| "named_list [a] = quoted a"
| "named_list [a, b] = quoted a @ '' and '' @ quoted b"
| "named_list (a # as) = quoted a @ '', '' @ (case as of [b, c] \<Rightarrow> quoted b @ '', and '' @ quoted c | _ \<Rightarrow> named_list as)"

definition bind_kwargs :: "string \<Rightarrow> string list \<Rightarrow> string list \<Rightarrow> kwargs \<Rightarrow> validation_exc + unit" where
  "bind_kwargs cls required names kw =
     (case find (\<lambda>k. k \<notin> set names) (dict_keys kw) of
        Some k \<Rightarrow> Inl (CfgPy (TypeError (cls @ ''.__init__() got an unexpected keyword argument '' @ quoted k)))
      | None \<Rightarrow> (let missing = filter (\<lambda>n. \<not> dict_has kw n) required
          in if missing = [] then Inr ()
             else Inl (CfgPy (TypeError (cls @ ''.__init__() missing '' @ nat_str (length missing) @ '' required positional argument'' @
                    (if length missing = 1 then [] else ''s'') @ '': '' @ named_list missing)))))"

definition finish :: "'a \<Rightarrow> (string \<times> string) list \<Rightarrow> validation_exc + 'a" where
  "finish x errs = (if errs = [] then Inr x else Inl (ConfigValidationError errs))"

section \<open>Networks\<close>

definition name_pattern :: "string \<Rightarrow> bool" where
  "name_pattern s = (case s of [] \<Rightarrow> False | c # cs \<Rightarrow> c \<in> set (lower_chars @ upper_chars) \<and>
     list_all (\<lambda>x. x \<in> set (lower_chars @ upper_chars @ digit_chars @ ''._-'')) cs)"

fun mac_pattern_from :: "nat \<Rightarrow> string \<Rightarrow> bool" where
  "mac_pattern_from 0 s = (case s of [a, b] \<Rightarrow> hex_digit a \<and> hex_digit b | _ \<Rightarrow> False)"
| "mac_pattern_from (Suc n) s = (case s of a # b # c # r \<Rightarrow> hex_digit a \<and> hex_digit b \<and> c = CHR '':'' \<and> mac_pattern_from n r | _ \<Rightarrow> False)"

definition mac_pattern :: "string \<Rightarrow> bool" where
  "mac_pattern = mac_pattern_from 5"

definition ip_pattern :: "string \<Rightarrow> bool" where
  "ip_pattern s = (let ps = split_on (CHR ''.'') s in length ps = 4 \<and> list_all (\<lambda>p. all_digits p \<and> length p \<le> 3) ps)"

definition is_valid_ip :: "string \<Rightarrow> bool" where
  "is_valid_ip s = (let ps = split_on (CHR ''.'') s
     in length ps = 4 \<and> list_all (\<lambda>p. case py_int p of None \<Rightarrow> False | Some n \<Rightarrow> 0 \<le> n \<and> n \<le> 255) ps)"

definition dns_check :: "json \<Rightarrow> bool" where
  "dns_check v = (case v of JList xs \<Rightarrow> list_all (\<lambda>x. case x of JStr _ \<Rightarrow> True | _ \<Rightarrow> False) xs \<and> length xs \<le> 3 | _ \<Rightarrow> False)"

definition network_fields :: "field_spec list" where
  "network_fields =
     [\<lparr>fd_name = ''interface_name'', fd_default = None, fd_check = \<lambda>_. req_string name_pattern\<rparr>,
      \<lparr>fd_name = ''mac_address'', fd_default = Some JNull, fd_check = \<lambda>_. opt_string mac_pattern\<rparr>,
      \<lparr>fd_name = ''ip_address'', fd_default = Some JNull, fd_check = \<lambda>_. opt_string (\<lambda>s. ip_pattern s \<and> is_valid_ip s)\<rparr>,
      \<lparr>fd_name = ''gateway'', fd_default = Some JNull, fd_check = \<lambda>_. opt_string is_valid_ip\<rparr>,
      \<lparr>fd_name = ''dns_servers'', fd_default = Some (JList []), fd_check = \<lambda>_. dns_check\<rparr>]"

definition not_text :: "json \<Rightarrow> validation_exc" where
  "not_text v = CfgPy (TypeError (''expected string or bytes-like object, got '' @ quoted (type_name v)))"

definition name_errors :: "json \<Rightarrow> validation_exc + (string \<times> string) list" where
  "name_errors v = (case v of
      JStr s \<Rightarrow> Inr (if py_dollar name_pattern s then []
        else [(''interface_name'', ''Interface name must start with a letter and contain only letters, numbers, dots, hyphens, and underscores'')])
    | _ \<Rightarrow> Inl (not_text v))"

definition mac_errors :: "json \<Rightarrow> validation_exc + (string \<times> string) list" where
  "mac_errors v = (if \<not> truthy v then Inr [] else (case v of
      JStr s \<Rightarrow> Inr (if py_dollar mac_pattern s then [] else [(''mac_address'', ''Invalid MAC address format '' @ quoted s @ ''. Expected format: 00:11:22:33:44:55'')])
    | _ \<Rightarrow> Inl (not_text v)))"

definition ip_errors :: "string \<Rightarrow> json \<Rightarrow> validation_exc + (string \<times> string) list" where
  "ip_errors name v = (if \<not> truthy v then Inr [] else (case v of
      JStr s \<Rightarrow> Inr (if is_valid_ip s then [] else [(name, ''Invalid IP address '' @ quoted s @ ''. Expected format: A.B.C.D (e.g., 192.168.1.1)'')])
    | _ \<Rightarrow> Inl (CfgPy (lacks v ''split''))))"

definition dns_errors :: "json \<Rightarrow> validation_exc + (string \<times> string) list" where
  "dns_errors v = (let err = (\<lambda>n. if n > (3 :: nat) then [(''dns_servers'', ''Maximum 3 DNS servers allowed. Remove extra entries from the dns_servers list.'')] else [])
     in if \<not> truthy v then Inr [] else (case v of
      JList xs \<Rightarrow> Inr (err (length xs)) | JStr s \<Rightarrow> Inr (err (length s)) | JObj fs \<Rightarrow> Inr (err (length fs))
    | _ \<Rightarrow> Inl (CfgPy (TypeError (''object of type '' @ quoted (type_name v) @ '' has no len()'')))))"

definition manual_network :: "kwargs \<Rightarrow> validation_exc + kwargs" where
  "manual_network kw =
     sum_bind (bind_kwargs ''NetworkConfigBase'' [''interface_name''] (map fd_name network_fields) kw) (\<lambda>_.
     sum_bind (name_errors (get_or kw ''interface_name'' JNull)) (\<lambda>e1.
     sum_bind (mac_errors (get_or kw ''mac_address'' JNull)) (\<lambda>e2.
     sum_bind (ip_errors ''ip_address'' (get_or kw ''ip_address'' JNull)) (\<lambda>e3.
     sum_bind (ip_errors ''gateway'' (get_or kw ''gateway'' JNull)) (\<lambda>e4.
     sum_bind (dns_errors (get_or kw ''dns_servers'' JNull)) (\<lambda>e5.
     finish [(''interface_name'', get_or kw ''interface_name'' JNull), (''mac_address'', get_or kw ''mac_address'' JNull), (''ip_address'', get_or kw ''ip_address'' JNull),
         (''gateway'', get_or kw ''gateway'' JNull), (''dns_servers'', let v = get_or kw ''dns_servers'' JNull in if truthy v then v else JList [])]
       (e1 @ e2 @ e3 @ e4 @ e5)))))))"

section \<open>VMware sources\<close>

text \<open>The validator of \<^verbatim>\<open>vm_name\<close> looks for \<^verbatim>\<open>vm_uuid\<close> among the fields validated so far.\<close>

definition require_identifier :: "kwargs \<Rightarrow> json \<Rightarrow> bool" where
  "require_identifier seen v = (v \<noteq> JNull \<or> get_or seen ''vm_uuid'' JNull \<noteq> JNull)"

definition vmware_fields :: "pydantic \<Rightarrow> field_spec list" where
  "vmware_fields pd =
     [\<lparr>fd_name = ''host'', fd_default = None, fd_check = \<lambda>_. req_string (\<lambda>_. True)\<rparr>,
      \<lparr>fd_name = ''username'', fd_default = None, fd_check = \<lambda>_. req_string (\<lambda>_. True)\<rparr>,
      \<lparr>fd_name = ''password'', fd_default = None, fd_check = \<lambda>_. req_string (\<lambda>_. True)\<rparr>,
      \<lparr>fd_name = ''vm_name'', fd_default = Some JNull, fd_check = \<lambda>seen v. opt_string (\<lambda>_. True) v \<and> require_identifier seen v\<rparr>,
      \<lparr>fd_name = ''vm_uuid'', fd_default = Some JNull, fd_check = \<lambda>_. opt_string (\<lambda>_. True)\<rparr>,
      \<lparr>fd_name = ''datacenter'', fd_default = Some JNull, fd_check = \<lambda>_. opt_string (\<lambda>_. True)\<rparr>,
      \<lparr>fd_name = ''datastore'', fd_default = Some JNull, fd_check = \<lambda>_. opt_string (\<lambda>_. True)\<rparr>,
      \<lparr>fd_name = ''port'', fd_default = Some (JInt 443), fd_check = \<lambda>_ v. case pd_int pd v of None \<Rightarrow> False | Some n \<Rightarrow> 1 \<le> n \<and> n \<le> 65535\<rparr>,
      \<lparr>fd_name = ''verify_ssl'', fd_default = Some (JBool True), fd_check = \<lambda>_ v. pd_bool pd v \<noteq> None\<rparr>]"

text \<open>Comparing with two integers; a number that is not an integer may be compared too.\<close>

definition between :: "int \<Rightarrow> int \<Rightarrow> json \<Rightarrow> validation_exc + bool" where
  "between a b v = (case v of
      JInt n \<Rightarrow> Inr (a \<le> n \<and> n \<le> b)
    | JBool t \<Rightarrow> Inr (a \<le> (if t then 1 else 0) \<and> (if t then 1 else 0) \<le> b)
    | JNum x \<Rightarrow> Inr (of_int a \<le> x \<and> x \<le> of_int b)
    | _ \<Rightarrow> Inl (CfgPy (TypeError (quoted ''<='' @ '' not supported between instances of '' @ quoted ''int'' @ '' and '' @ quoted (type_name v)))))"

definition identity_errors :: "json \<Rightarrow> json \<Rightarrow> (string \<times> string) list" where
  "identity_errors name uuid = (if truthy name \<or> truthy uuid then [] else [(''vm_name/vm_uuid'', ''Either vm_name or vm_uuid must be provided'')])"

definition vmware_names :: "string list" where
  "vmware_names = [''host'', ''username'', ''password'', ''vm_name'', ''vm_uuid'', ''datacenter'', ''datastore'', ''port'', ''verify_ssl'']"

definition manual_vmware :: "(json \<Rightarrow> string) \<Rightarrow> kwargs \<Rightarrow> validation_exc + kwargs" where
  "manual_vmware str kw =
     sum_bind (bind_kwargs ''VMwareSourceConfigBase'' [''host'', ''username'', ''password''] vmware_names kw) (\<lambda>_.
     (let port = get_or kw ''port'' (JInt 443)
      in sum_bind (between 1 65535 port) (\<lambda>ok.
         finish (map (\<lambda>n. (n, if n = ''port'' then port else if n = ''verify_ssl'' then get_or kw n (JBool True) else get_or kw n JNull)) vmware_names)
           (identity_errors (get_or kw ''vm_name'' JNull) (get_or kw ''vm_uuid'' JNull) @
            (if ok then [] else [(''port'', ''Port must be between 1 and 65535, got '' @ str port)])))))"

section \<open>Disks\<close>

record disk_view =
  fv_exists :: "string \<Rightarrow> bool"
  fv_is_file :: "string \<Rightarrow> bool"

definition output_formats :: "string list" where
  "output_formats = [''qcow2'', ''raw'', ''vmdk'', ''vhd'']"

definition disk_fields :: "pydantic \<Rightarrow> disk_view \<Rightarrow> field_spec list" where
  "disk_fields pd fv =
     [\<lparr>fd_name = ''source_path'', fd_default = None, fd_check = \<lambda>_. req_string (\<lambda>p. fv_exists fv p \<and> fv_is_file fv p)\<rparr>,
      \<lparr>fd_name = ''output_format'', fd_default = Some (JStr ''qcow2''), fd_check = \<lambda>_. req_string (\<lambda>s. s \<in> set output_formats)\<rparr>,
      \<lparr>fd_name = ''compression'', fd_default = Some (JBool True), fd_check = \<lambda>_ v. pd_bool pd v \<noteq> None\<rparr>,
      \<lparr>fd_name = ''size_gb'', fd_default = Some JNull, fd_check = \<lambda>_ v. v = JNull \<or> (case pd_int pd v of None \<Rightarrow> False | Some n \<Rightarrow> 1 \<le> n \<and> n \<le> 16384)\<rparr>]"

definition source_errors :: "disk_view \<Rightarrow> string \<Rightarrow> (string \<times> string) list" where
  "source_errors fv p = (if \<not> fv_exists fv p then [(''source_path'', ''Disk image not found at '' @ quoted p @ ''. Verify the path exists.'')]
     else if \<not> fv_is_file fv p then [(''source_path'', quoted p @ '' is not a regular file. Provide a path to a disk image file.'')] else [])"

definition format_errors :: "(json \<Rightarrow> string) \<Rightarrow> json \<Rightarrow> (string \<times> string) list" where
  "format_errors str v = (if v \<in> set (map JStr output_formats) then []
     else [(''output_format'', ''Unsupported output format '' @ quoted (str v) @ ''. Must be one of: qcow2, raw, vmdk, vhd'')])"

definition size_errors :: "(json \<Rightarrow> string) \<Rightarrow> json \<Rightarrow> validation_exc + (string \<times> string) list" where
  "size_errors str v = (if v = JNull then Inr [] else sum_bind (between 1 16384 v) (\<lambda>ok.
     Inr (if ok then [] else [(''size_gb'', ''Size must be between 1 and 16384 GB, got '' @ str v)])))"

definition disk_names :: "string list" where
  "disk_names = [''source_path'', ''output_format'', ''compression'', ''size_gb'']"

definition manual_disk :: "(json \<Rightarrow> string) \<Rightarrow> disk_view \<Rightarrow> kwargs \<Rightarrow> validation_exc + kwargs" where
  "manual_disk str fv kw =
     sum_bind (bind_kwargs ''DiskConfigBase'' [''source_path''] disk_names kw) (\<lambda>_.
     (case get_or kw ''source_path'' JNull of
        JStr p \<Rightarrow> sum_bind (size_errors str (get_or kw ''size_gb'' JNull)) (\<lambda>e3.
          finish [(''source_path'', JStr p), (''output_format'', get_or kw ''output_format'' (JStr ''qcow2'')), (''compression'', get_or kw ''compression'' (JBool True)),
              (''size_gb'', get_or kw ''size_gb'' JNull)]
            (source_errors fv p @ format_errors str (get_or kw ''output_format'' (JStr ''qcow2'')) @ e3))
      | v \<Rightarrow> Inl (CfgPy (lacks v ''exists''))))"

section \<open>Configuration files\<close>

datatype yaml_read = YamlDoc json | YamlError string | Denied string | Unreadable string

definition load_yaml_config :: "(string \<Rightarrow> yaml_read option) \<Rightarrow> string \<Rightarrow> py_exc + kwargs" where
  "load_yaml_config fs path = (case fs path of
      None \<Rightarrow> Inl (FileNotFoundError (''Configuration file not found: '' @ path @ [CHR 0x0A] @ ''Verify the path is correct. Example: --config /path/to/migration.yaml''))
    | Some (YamlError e) \<Rightarrow> Inl (OtherError (''Invalid YAML syntax in '' @ quoted path @ '': '' @ e @ [CHR 0x0A] @
        ''Check for indentation errors, missing colons, or unquoted special characters.''))
    | Some (Denied e) \<Rightarrow> Inl (OtherError (''Permission denied reading config file '' @ quoted path @ '': '' @ e))
    | Some (Unreadable e) \<Rightarrow> Inl (OtherError (''Cannot read config file '' @ quoted path @ '': '' @ e))
    | Some (YamlDoc JNull) \<Rightarrow> Inr []
    | Some (YamlDoc (JObj fs)) \<Rightarrow> Inr fs
    | Some (YamlDoc v) \<Rightarrow> Inl (OtherError (''Config file '' @ quoted path @ '' must contain a YAML mapping (key: value), not a '' @ type_name v @ ''.'')))"

text \<open>With pydantic (\<open>Some\<close>) or by hand.\<close>

definition vmware_config :: "pydantic option \<Rightarrow> (json \<Rightarrow> string) \<Rightarrow> json \<Rightarrow> (string \<times> string) list" where
  "vmware_config pd str section = (case section of
      JObj kw \<Rightarrow> (case pd of
        Some p \<Rightarrow> (let bad = validate_model (vmware_fields p) kw in if bad = [] then [] else [(''vmware'', pd_text p bad)])
      | None \<Rightarrow> (case manual_vmware str kw of
          Inr _ \<Rightarrow> []
        | Inl (ConfigValidationError errs) \<Rightarrow> errs
        | Inl (CfgPy x) \<Rightarrow> [(''vmware'', exc_text x)]))
    | _ \<Rightarrow> [(''vmware'', ''h2kvm.config.validation.VMwareSourceConfig() argument after ** must be a mapping, not '' @ type_name section)])"

definition validate_config :: "pydantic option \<Rightarrow> (json \<Rightarrow> string) \<Rightarrow> kwargs \<Rightarrow> (string \<times> string) list" where
  "validate_config pd str cfg =
     (if dict_has cfg ''hypervisor'' then []
      else [(''hypervisor'', ''The '' @ quoted ''hypervisor'' @ '' field is required. Set to '' @ quoted ''vmware'' @ '', '' @ quoted ''hyperv'' @ '', or '' @ quoted ''azure'' @ ''.'')]) @
     (if dict_get cfg ''hypervisor'' = Some (JStr ''vmware'')
      then (case dict_get cfg ''vmware'' of
          None \<Rightarrow> [(''vmware'', ''A '' @ quoted ''vmware'' @ '' configuration section is required when hypervisor=vmware. Include host, username, password, and vm_name or vm_uuid.'')]
        | Some section \<Rightarrow> vmware_config pd str section)
      else [])"

section \<open>The two validators of networks\<close>

lemma accepted_field:
  "validate_fields fs kw seen = [] \<Longrightarrow> f \<in> set fs \<Longrightarrow>
   (case dict_get kw (fd_name f) of None \<Rightarrow> fd_default f \<noteq> None | Some v \<Rightarrow> \<exists>seen'. fd_check f seen' v)"
  by (induction fs arbitrary: seen) (auto split: option.splits if_split_asm)

lemma accepted_model:
  assumes "validate_model fs kw = []" and "f \<in> set fs"
  shows "case dict_get kw (fd_name f) of None \<Rightarrow> fd_default f \<noteq> None | Some v \<Rightarrow> \<exists>seen. fd_check f seen v"
  using accepted_field [of fs kw "[]"] assms by (simp add: validate_model_def)

lemma accepted_binds:
  assumes "validate_model fs kw = []" and "map fd_name (filter (\<lambda>f. fd_default f = None) fs) = req" and "map fd_name fs = names"
  shows "bind_kwargs cls req names kw = Inr ()"
proof -
  have "find (\<lambda>k. k \<notin> set names) (dict_keys kw) = None"
    using assms(1) by (auto simp: validate_model_def extra_fields_def find_None_iff filter_empty_conv simp flip: assms(3))
  moreover have "dict_has kw n" if "n \<in> set req" for n
  proof -
    from that assms(2) obtain f where "f \<in> set fs" "fd_name f = n" "fd_default f = None" by auto
    with accepted_model [OF assms(1), of f] show ?thesis by (auto simp: dict_has_def split: option.splits)
  qed
  then have "filter (\<lambda>n. \<not> dict_has kw n) req = []" by (simp add: filter_empty_conv)
  ultimately show ?thesis by (simp add: bind_kwargs_def)
qed

lemma py_dollarI: "m s \<Longrightarrow> py_dollar m s"
  by (simp add: py_dollar_def)

lemma accepted_text:
  assumes "validate_model network_fields kw = []"
  shows "\<exists>s. get_or kw ''interface_name'' JNull = JStr s \<and> name_pattern s"
    and "opt_string mac_pattern (get_or kw ''mac_address'' JNull)"
    and "opt_string is_valid_ip (get_or kw ''ip_address'' JNull)"
    and "opt_string is_valid_ip (get_or kw ''gateway'' JNull)"
    and "get_or kw ''dns_servers'' JNull = JNull \<or> dns_check (get_or kw ''dns_servers'' JNull)"
proof -
  note acc = accepted_model [OF assms]
  show "\<exists>s. get_or kw ''interface_name'' JNull = JStr s \<and> name_pattern s"
    using acc [of "network_fields ! 0"] by (auto simp: network_fields_def get_or_def req_string_def split: option.splits json.splits)
  show "opt_string mac_pattern (get_or kw ''mac_address'' JNull)"
    using acc [of "network_fields ! 1"] by (auto simp: network_fields_def get_or_def opt_string_def split: option.splits)
  show "opt_string is_valid_ip (get_or kw ''ip_address'' JNull)"
    using acc [of "network_fields ! 2"] by (auto simp: network_fields_def get_or_def opt_string_def split: option.splits json.splits)
  show "opt_string is_valid_ip (get_or kw ''gateway'' JNull)"
    using acc [of "network_fields ! 3"] by (auto simp: network_fields_def get_or_def opt_string_def split: option.splits)
  show "get_or kw ''dns_servers'' JNull = JNull \<or> dns_check (get_or kw ''dns_servers'' JNull)"
    using acc [of "network_fields ! 4"] by (auto simp: network_fields_def get_or_def split: option.splits)
qed



text \<open>The fallback accepts more: an empty address, and a final newline.\<close>

lemma fallback_accepts_more:
  "manual_network [(''interface_name'', JStr (''eth0'' @ [CHR 0x0A])), (''mac_address'', JStr [])] \<noteq> Inl x \<and>
   validate_model network_fields [(''interface_name'', JStr (''eth0'' @ [CHR 0x0A])), (''mac_address'', JStr [])] = [''interface_name'', ''mac_address'']"
proof -
  have "is_ok (manual_network [(''interface_name'', JStr (''eth0'' @ [CHR 0x0A])), (''mac_address'', JStr [])])" by code_simp
  moreover have "validate_model network_fields [(''interface_name'', JStr (''eth0'' @ [CHR 0x0A])), (''mac_address'', JStr [])] = [''interface_name'', ''mac_address'']" by code_simp
  ultimately show ?thesis by (auto simp: is_ok_def)
qed

section \<open>The two validators of sources\<close>

text \<open>
  With pydantic nobody checks that a VMware source names a machine: the validator is that of \<^verbatim>\<open>vm_name\<close>, which
  does not run when the field is absent, so a source without name and UUID passes; and it runs before \<^verbatim>\<open>vm_uuid\<close> is known,
  so a source whose name is explicitly null is refused although it has a UUID. The fallback decides both cases the other way.
\<close>
theorem machine_identity_is_not_checked:
  "validate_config (Some pd) str [(''hypervisor'', JStr ''vmware''), (''vmware'', JObj [(''host'', JStr h), (''username'', JStr u), (''password'', JStr p)])] = [] \<and>
   validate_config None str [(''hypervisor'', JStr ''vmware''), (''vmware'', JObj [(''host'', JStr h), (''username'', JStr u), (''password'', JStr p)])] =
     [(''vm_name/vm_uuid'', ''Either vm_name or vm_uuid must be provided'')] \<and>
   validate_config (Some pd) str [(''hypervisor'', JStr ''vmware''), (''vmware'', JObj [(''host'', JStr h), (''username'', JStr u), (''password'', JStr p),
       (''vm_name'', JNull), (''vm_uuid'', JStr (c # cs))])] = [(''vmware'', pd_text pd [''vm_name''])] \<and>
   validate_config None str [(''hypervisor'', JStr ''vmware''), (''vmware'', JObj [(''host'', JStr h), (''username'', JStr u), (''password'', JStr p),
       (''vm_name'', JNull), (''vm_uuid'', JStr (c # cs))])] = []"
proof (intro conjI)
  show "validate_config (Some pd) str [(''hypervisor'', JStr ''vmware''), (''vmware'', JObj [(''host'', JStr h), (''username'', JStr u), (''password'', JStr p)])] = []"
    by (simp add: validate_config_def vmware_config_def dict_has_def validate_model_def vmware_fields_def req_string_def opt_string_def extra_fields_def dict_keys_def)
  show "validate_config (Some pd) str [(''hypervisor'', JStr ''vmware''), (''vmware'', JObj [(''host'', JStr h), (''username'', JStr u), (''password'', JStr p),
       (''vm_name'', JNull), (''vm_uuid'', JStr (c # cs))])] = [(''vmware'', pd_text pd [''vm_name''])]"
    by (simp add: validate_config_def vmware_config_def dict_has_def validate_model_def vmware_fields_def req_string_def opt_string_def require_identifier_def get_or_def
        extra_fields_def dict_keys_def)
  show "validate_config None str [(''hypervisor'', JStr ''vmware''), (''vmware'', JObj [(''host'', JStr h), (''username'', JStr u), (''password'', JStr p)])] =
     [(''vm_name/vm_uuid'', ''Either vm_name or vm_uuid must be provided'')]"
    by (simp add: validate_config_def vmware_config_def dict_has_def manual_vmware_def bind_kwargs_def vmware_names_def dict_keys_def get_or_def between_def identity_errors_def finish_def Let_def)
  show "validate_config None str [(''hypervisor'', JStr ''vmware''), (''vmware'', JObj [(''host'', JStr h), (''username'', JStr u), (''password'', JStr p),
       (''vm_name'', JNull), (''vm_uuid'', JStr (c # cs))])] = []"
    by (simp add: validate_config_def vmware_config_def dict_has_def manual_vmware_def bind_kwargs_def vmware_names_def dict_keys_def get_or_def between_def identity_errors_def finish_def Let_def)
qed

section \<open>The two validators of disks\<close>

text \<open>Disks agree while pydantic reads numbers as they are; it also reads numbers from texts, which the fallback cannot compare.\<close>

lemma disk_fallback_accepts:
  assumes "validate_model (disk_fields pd fv) kw = []" and "\<And>v n. pd_int pd v = Some n \<Longrightarrow> v = JInt n"
  shows "\<exists>cfg. manual_disk str fv kw = Inr cfg"
proof -
  note acc = accepted_model [OF assms(1)]
  have b: "bind_kwargs ''DiskConfigBase'' [''source_path''] disk_names kw = Inr ()"
    by (rule accepted_binds [OF assms(1)]) (simp_all add: disk_fields_def disk_names_def)
  obtain p where p: "get_or kw ''source_path'' JNull = JStr p" "source_errors fv p = []"
    using acc [of "disk_fields pd fv ! 0"] by (auto simp: disk_fields_def get_or_def req_string_def source_errors_def split: option.splits json.splits)
  have f: "format_errors str (get_or kw ''output_format'' (JStr ''qcow2'')) = []"
    using acc [of "disk_fields pd fv ! 1"] by (auto simp: disk_fields_def get_or_def req_string_def format_errors_def output_formats_def split: option.splits json.splits)
  have "size_errors str (get_or kw ''size_gb'' JNull) = Inr []"
    using acc [of "disk_fields pd fv ! 3"] assms(2) by (fastforce simp: disk_fields_def get_or_def size_errors_def between_def split: option.splits)
  with b p f show ?thesis by (simp add: manual_disk_def finish_def)
qed

end
