(* ===== verification/Net_Ifcfg.thy ===== *)
theory Net_Ifcfg
  imports Py_Text "HOL-Library.List_Lexorder" "HOL-Library.Char_ord"
begin

text \<open>
  \<^verbatim>\<open>h2kvm/fixers/network/model.py\<close>, the editor of ifcfg files: a file is its lines, and beside them the editor keeps what a
  reader of the file would see, a map from keys to values. A key is set by writing its line or adding one, and removed by
  commenting out its line.
\<close>

section \<open>One line\<close>

text \<open>\<^verbatim>\<open>^\s*([A-Za-z0-9_]+)\s*=\s*(.*)\s*$\<close>, then \<^verbatim>\<open>strip\<close> and \<^verbatim>\<open>upper\<close>.\<close>

definition is_comment :: "string \<Rightarrow> bool" where
  "is_comment l = startswith (lstrip l) ''#''"

definition match_assignment :: "string \<Rightarrow> (string \<times> string) option" where
  "match_assignment l =
     (let s = lstrip l; k = takeWhile py_isword s; r = lstrip (drop (length k) s)
      in case r of
           c # v \<Rightarrow> if k \<noteq> [] \<and> c = CHR ''='' then Some (py_upper k, strip v) else None
         | [] \<Rightarrow> None)"

text \<open>\<^verbatim>\<open>re.search(r"\s+#", val)\<close>\<close>

fun cut_comment :: "string \<Rightarrow> string option" where
  "cut_comment [] = None"
| "cut_comment (c # cs) = (if py_isspace c \<and> startswith (lstrip cs) ''#'' then Some [] else map_option (\<lambda>p. c # p) (cut_comment cs))"

definition strip_inline_comment_unquoted :: "string \<Rightarrow> string" where
  "strip_inline_comment_unquoted v = (case cut_comment v of None \<Rightarrow> v | Some p \<Rightarrow> rstrip p)"

definition unquote :: "string \<Rightarrow> string" where
  "unquote v = (if startswith v [CHR 0x22] \<and> endswith v [CHR 0x22] \<or> startswith v [CHR 0x27] \<and> endswith v [CHR 0x27] then butlast (tl v)
     else strip_inline_comment_unquoted v)"

definition active_line :: "string \<Rightarrow> (string \<times> string) option" where
  "active_line l = (if is_comment l then None else map_option (\<lambda>(k, v). (k, unquote v)) (match_assignment l))"

section \<open>The editor\<close>

record ifcfg =
  if_lines :: "string list"
  if_kv :: "(string, string) dict"
  if_idx :: "(string, nat) dict"
  if_duplicates :: "(string, nat list) dict"
  if_commented :: "string set"
  if_warnings :: "string list"

definition note_duplicate :: "string \<Rightarrow> nat \<Rightarrow> (string, nat) dict \<Rightarrow> (string, nat list) dict \<Rightarrow> (string, nat list) dict" where
  "note_duplicate k i idx dups = (case dict_get dups k of
      Some is \<Rightarrow> dict_set k (is @ [i]) dups
    | None \<Rightarrow> (case dict_get idx k of Some j \<Rightarrow> dict_set k [j, i] dups | None \<Rightarrow> dups))"

fun parse_lines :: "nat \<Rightarrow> string list \<Rightarrow> (string, string) dict \<times> (string, nat) dict \<times> (string, nat list) dict \<Rightarrow>
    (string, string) dict \<times> (string, nat) dict \<times> (string, nat list) dict" where
  "parse_lines i [] st = st"
| "parse_lines i (l # lns) (kv, idx, dups) = (case active_line l of
      None \<Rightarrow> parse_lines (Suc i) lns (kv, idx, dups)
    | Some (k, v) \<Rightarrow> parse_lines (Suc i) lns (dict_set k v kv, dict_set k i idx, note_duplicate k i idx dups))"

definition nat_list_str :: "nat list \<Rightarrow> string" where
  "nat_list_str is = CHR 0x5B # py_join '', '' (map nat_str is) @ [CHR 0x5D]"

definition duplicate_warning :: "string \<times> nat list \<Rightarrow> string" where
  "duplicate_warning d = ''ifcfg duplicate active key '' @ fst d @ '' on lines '' @ nat_list_str (snd d) @ '' (last one wins)''"

definition ifcfg_parse :: "string \<Rightarrow> ifcfg" where
  "ifcfg_parse text = (let lns = splitlines text in case parse_lines 0 lns ([], [], []) of (kv, idx, dups) \<Rightarrow>
     \<lparr>if_lines = lns, if_kv = kv, if_idx = idx, if_duplicates = dups, if_commented = {}, if_warnings = map duplicate_warning (sort_key fst dups)\<rparr>)"

definition ifcfg_get :: "ifcfg \<Rightarrow> string \<Rightarrow> string option" where
  "ifcfg_get f key = dict_get (if_kv f) (py_upper key)"

definition ifcfg_has :: "ifcfg \<Rightarrow> string \<Rightarrow> bool" where
  "ifcfg_has f key = dict_has (if_kv f) (py_upper key)"

definition ifcfg_is_commented :: "ifcfg \<Rightarrow> string \<Rightarrow> bool" where
  "ifcfg_is_commented f key = (py_upper key \<in> if_commented f)"

definition ifcfg_set :: "string \<Rightarrow> string \<Rightarrow> bool \<Rightarrow> ifcfg \<Rightarrow> ifcfg" where
  "ifcfg_set key v quote f =
     (let k = py_upper key; line = k @ ''='' @ (if quote then CHR 0x22 # v @ [CHR 0x22] else v); n = length (if_lines f);
          appended = f\<lparr>if_idx := dict_set k n (if_idx f), if_lines := if_lines f @ [line]\<rparr>;
          f1 = (case dict_get (if_idx f) k of
              None \<Rightarrow> appended
            | Some i \<Rightarrow> if is_comment (if i < n then if_lines f ! i else []) \<or> k \<in> if_commented f then appended
                else f\<lparr>if_lines := (if_lines f)[i := line]\<rparr>)
      in f1\<lparr>if_kv := dict_set k v (if_kv f1), if_commented := if_commented f1 - {k}\<rparr>)"

definition forget_key :: "string \<Rightarrow> ifcfg \<Rightarrow> ifcfg" where
  "forget_key k f = f\<lparr>if_kv := dict_pop k (if_kv f), if_commented := insert k (if_commented f), if_idx := dict_pop k (if_idx f)\<rparr>"

definition ifcfg_comment_out :: "string \<Rightarrow> string \<Rightarrow> ifcfg \<Rightarrow> bool \<times> ifcfg" where
  "ifcfg_comment_out key tag f =
     (let k = py_upper key
      in case dict_get (if_idx f) k of
           None \<Rightarrow> (False, f\<lparr>if_kv := dict_pop k (if_kv f), if_commented := insert k (if_commented f)\<rparr>)
         | Some i \<Rightarrow>
             if \<not> i < length (if_lines f) then (False, forget_key k f)
             else if is_comment (if_lines f ! i) then (False, forget_key k f)
             else (True, forget_key k (f\<lparr>if_lines := (if_lines f)[i := ''# '' @ if_lines f ! i @ ''  # '' @ tag]\<rparr>)))"

definition ifcfg_render :: "ifcfg \<Rightarrow> string" where
  "ifcfg_render f = (let out = py_join [CHR 0x0A] (if_lines f) in if endswith out [CHR 0x0A] then out else out @ [CHR 0x0A])"

section \<open>What a reader of the file sees\<close>

text \<open>The value of a key is that of its last active line.\<close>

definition file_view :: "string list \<Rightarrow> string \<Rightarrow> string option" where
  "file_view lns = map_of (rev (List.map_filter active_line lns))"

lemma parse_kv: "dict_get (fst (parse_lines i lns (kv, idx, dups))) k = (case file_view lns k of None \<Rightarrow> dict_get kv k | Some v \<Rightarrow> Some v)"
proof (induction lns arbitrary: i kv idx dups)
  case (Cons l lns)
  show ?case
  proof (cases "active_line l")
    case None
    with Cons.IH show ?thesis by (simp add: file_view_def List.map_filter_def)
  next
    case (Some kv')
    obtain k' v' where "kv' = (k', v')" by (cases kv')
    with Some Cons.IH show ?thesis by (auto simp: file_view_def List.map_filter_def map_add_def update_conv' split: option.splits)
  qed
qed (simp add: file_view_def List.map_filter_def)

lemma get_parse: "dict_get (if_kv (ifcfg_parse text)) k = file_view (splitlines text) k"
  using parse_kv [of 0 "splitlines text" "[]" "[]" "[]" k]
  by (cases "parse_lines 0 (splitlines text) ([], [], [])") (simp add: ifcfg_parse_def Let_def split: option.splits)

lemma file_view_Nil [simp]: "file_view [] k = None"
  by (simp add: file_view_def List.map_filter_def)

lemma file_view_Cons: "file_view (l # lns) k = (case file_view lns k of Some v \<Rightarrow> Some v | None \<Rightarrow> (case active_line l of Some (k', v) \<Rightarrow> if k' = k then Some v else None | None \<Rightarrow> None))"
  by (auto simp: file_view_def List.map_filter_def map_add_def split: option.splits)

lemma file_view_SomeD: "file_view lns k = Some v \<Longrightarrow> \<exists>i<length lns. active_line (lns ! i) = Some (k, v)"
proof (induction lns)
  case (Cons l lns)
  then show ?case by (fastforce simp: file_view_Cons split: option.splits if_splits)
qed simp

lemma file_view_NoneD: "file_view lns k = None \<Longrightarrow> i < length lns \<Longrightarrow> active_line (lns ! i) \<noteq> Some (k, v)"
proof (induction lns arbitrary: i)
  case (Cons l lns)
  then show ?case by (cases i) (auto simp: file_view_Cons split: option.splits if_splits)
qed simp

lemma active_empty [simp]: "active_line [] = None"
  by (simp add: active_line_def match_assignment_def lstrip_def Let_def)

lemma file_view_append_empty: "file_view (lns @ [[]]) = file_view lns"
  by (simp add: file_view_def List.map_filter_def)

section \<open>The editor tells what is in the file\<close>

abbreviation unbroken :: "string \<Rightarrow> bool" where
  "unbroken l \<equiv> list_all (\<lambda>c. \<not> line_break c) l"

text \<open>Every key has one active line and the editor knows it; what was commented out has none.\<close>

definition indexed :: "string list \<Rightarrow> (string, string) dict \<Rightarrow> (string, nat) dict \<Rightarrow> bool" where
  "indexed lns kv idx = ((\<forall>k i. dict_get idx k = Some i \<longleftrightarrow> i < length lns \<and> (\<exists>v. active_line (lns ! i) = Some (k, v))) \<and>
     (\<forall>k. dict_get kv k = (case dict_get idx k of None \<Rightarrow> None | Some i \<Rightarrow> map_option snd (active_line (lns ! i)))))"

definition honest :: "ifcfg \<Rightarrow> bool" where
  "honest f = (list_all unbroken (if_lines f) \<and> indexed (if_lines f) (if_kv f) (if_idx f) \<and> (\<forall>k\<in>if_commented f. dict_get (if_idx f) k = None))"

lemma indexedD:
  assumes "indexed lns kv idx"
  shows "dict_get idx k = Some i \<longleftrightarrow> i < length lns \<and> (\<exists>v. active_line (lns ! i) = Some (k, v))"
    and "dict_get kv k = (case dict_get idx k of None \<Rightarrow> None | Some i \<Rightarrow> map_option snd (active_line (lns ! i)))"
  using assms unfolding indexed_def by blast+

lemma indexed_view:
  assumes "indexed lns kv idx"
  shows "dict_get kv k = file_view lns k"
proof (cases "file_view lns k")
  case None
  with file_view_NoneD [OF None] have "dict_get idx k \<noteq> Some i" for i by (simp add: indexedD(1) [OF assms])
  then have "dict_get idx k = None" by (cases "dict_get idx k") auto
  with None show ?thesis by (simp add: indexedD(2) [OF assms])
next
  case (Some v)
  from file_view_SomeD [OF Some] obtain i where i: "i < length lns" "active_line (lns ! i) = Some (k, v)" by blast
  then have "dict_get idx k = Some i" by (simp add: indexedD(1) [OF assms])
  with i Some show ?thesis by (simp add: indexedD(2) [OF assms])
qed

lemma splitlines_unbroken: "unbroken l \<Longrightarrow> splitlines l = (if l = [] then [] else [l])"
proof -
  assume "unbroken l"
  then have "takeWhile (\<lambda>c. \<not> line_break c) l = l" "dropWhile (\<lambda>c. \<not> line_break c) l = []" by (simp_all add: list_all_iff)
  then have "splitlines l = (if l = [] then [] else l # splitlines (after_break []))" by (subst splitlines.simps) (simp only:)
  then show ?thesis by (simp add: after_break_def)
qed

lemma splitlines_py_join:
  "list_all unbroken ls \<Longrightarrow> ls \<noteq> [] \<Longrightarrow> splitlines (py_join [CHR 0x0A] ls) = (if last ls = [] then butlast ls else ls)"
proof (induction ls)
  case (Cons l ls)
  show ?case
  proof (cases ls)
    case Nil
    with splitlines_unbroken [of l] Cons.prems show ?thesis by simp
  next
    case ls: (Cons m ms)
    with Cons splitlines_line [of l "py_join [CHR 0x0A] ls"] show ?thesis by simp
  qed
qed simp

lemma view_of_rendered:
  assumes "list_all unbroken (if_lines f)"
  shows "file_view (splitlines (ifcfg_render f)) = file_view (if_lines f)"
proof (cases "if_lines f = []")
  case True
  have "splitlines [CHR 0x0A] = [[]]" using splitlines_line [of "[]" "[]"] by simp
  with True file_view_append_empty [of "[]"] show ?thesis by (simp add: ifcfg_render_def endswith_def)
next
  case False
  have "file_view (if last (if_lines f) = [] then butlast (if_lines f) else if_lines f) = file_view (if_lines f)"
    using False file_view_append_empty [of "butlast (if_lines f)"] by (cases "if_lines f" rule: rev_cases) simp_all
  with False assms show ?thesis by (simp add: ifcfg_render_def Let_def splitlines_py_join splitlines_join)
qed

subsection \<open>Reading a file without duplicate keys\<close>

lemma note_duplicate_Nil: "note_duplicate k i idx dups = [] \<longleftrightarrow> dups = [] \<and> dict_get idx k = None"
  by (auto simp: note_duplicate_def split: option.splits)

lemma indexed_inactive: "indexed lns kv idx \<Longrightarrow> active_line l = None \<Longrightarrow> indexed (lns @ [l]) kv idx"
  by (simp add: indexed_def nth_append split: option.splits) (metis less_Suc_eq less_irrefl option.distinct(1))

lemma indexed_snoc:
  assumes x: "indexed lns kv idx" and l: "active_line l = Some (k, v)" and n: "dict_get idx k = None"
  shows "indexed (lns @ [l]) (dict_set k v kv) (dict_set k (length lns) idx)"
  unfolding indexed_def
proof (intro conjI allI)
  fix k' i
  show "dict_get (dict_set k (length lns) idx) k' = Some i \<longleftrightarrow> i < length (lns @ [l]) \<and> (\<exists>v'. active_line ((lns @ [l]) ! i) = Some (k', v'))"
    using indexedD(1) [OF x, of k' i] n l by (cases "i < length lns") (auto simp: nth_append less_Suc_eq)
next
  fix k'
  show "dict_get (dict_set k v kv) k' = (case dict_get (dict_set k (length lns) idx) k' of None \<Rightarrow> None | Some i \<Rightarrow> map_option snd (active_line ((lns @ [l]) ! i)))"
  proof (cases "k' = k")
    case False
    show ?thesis
    proof (cases "dict_get idx k'")
      case (Some i)
      then have "i < length lns" using indexedD(1) [OF x, of k' i] by simp
      with Some False indexedD(2) [OF x, of k'] show ?thesis by (simp add: nth_append)
    qed (use False indexedD(2) [OF x, of k'] in simp)
  qed (simp add: l)
qed

lemma parse_indexed:
  "parse_lines (length pre) lns (kv, idx, dups) = (kv', idx', []) \<Longrightarrow> indexed pre kv idx \<Longrightarrow> indexed (pre @ lns) kv' idx' \<and> dups = []"
proof (induction lns arbitrary: pre kv idx dups)
  case (Cons l lns)
  show ?case
  proof (cases "active_line l")
    case None
    with Cons.IH [of "pre @ [l]"] Cons.prems indexed_inactive show ?thesis by simp
  next
    case (Some a)
    obtain k v where a: "a = (k, v)" by (cases a)
    from Some a Cons.prems(1) have p: "parse_lines (length (pre @ [l])) lns (dict_set k v kv, dict_set k (length pre) idx, note_duplicate k (length pre) idx dups) = (kv', idx', [])" by simp
    show ?thesis
    proof (cases "note_duplicate k (length pre) idx dups = []")
      case True
      then have "dict_get idx k = None" "dups = []" by (simp_all add: note_duplicate_Nil)
      with Cons.IH [OF p] indexed_snoc [OF Cons.prems(2)] Some a show ?thesis by simp
    next
      case False
      have "snd (snd (parse_lines i ls (kv1, idx1, ds))) \<noteq> []" if "ds \<noteq> []" for i ls kv1 idx1 ds
        using that by (induction ls arbitrary: i kv1 idx1 ds) (auto simp: note_duplicate_Nil split: option.splits)
      from this [OF False] p show ?thesis by (metis snd_conv)
    qed
  qed
qed simp

lemma parse_honest: "if_duplicates (ifcfg_parse text) = [] \<Longrightarrow> honest (ifcfg_parse text)"
proof -
  assume d: "if_duplicates (ifcfg_parse text) = []"
  obtain kv idx dups where p: "parse_lines 0 (splitlines text) ([], [], []) = (kv, idx, dups)" by (cases "parse_lines 0 (splitlines text) ([], [], [])")
  with d have "dups = []" by (simp add: ifcfg_parse_def Let_def)
  moreover have "indexed [] [] []" by (simp add: indexed_def)
  ultimately have "indexed (splitlines text) kv idx" using parse_indexed [of "[]" "splitlines text" "[]" "[]" "[]" kv idx] p by simp
  moreover have "list_all unbroken (splitlines text)" using splitlines_no_break by (simp add: list_all_iff [of unbroken])
  ultimately show ?thesis by (simp add: honest_def ifcfg_parse_def p Let_def)
qed

subsection \<open>Edits\<close>

lemma upper_char_idem [simp]: "upper_char (upper_char c) = upper_char c"
proof (cases "map_of (zip lower_chars upper_chars) c")
  case (Some l)
  then have "l \<in> set upper_chars" by (auto dest!: map_of_SomeD in_set_zipE)
  moreover have "\<forall>x\<in>set upper_chars. upper_char x = x" by code_simp
  ultimately show ?thesis using Some by (simp add: upper_char_def)
qed (simp add: upper_char_def)

lemma upper_idem [simp]: "py_upper (py_upper s) = py_upper s"
  by (simp add: py_upper_def)

lemma word_not_space: "py_isword c \<Longrightarrow> \<not> py_isspace c \<and> c \<noteq> CHR ''#'' \<and> c \<noteq> CHR ''=''"
proof -
  have "list_all (\<lambda>c. \<not> py_isspace c \<and> c \<noteq> CHR ''#'' \<and> c \<noteq> CHR ''='') (digit_chars @ lower_chars @ upper_chars @ ''_'')" by code_simp
  then show "py_isword c \<Longrightarrow> ?thesis" by (auto simp: py_isword_def list_all_iff)
qed

lemma upper_word: "py_isword c \<Longrightarrow> py_isword (upper_char c)"
proof -
  have "list_all (\<lambda>c. py_isword (upper_char c)) (digit_chars @ lower_chars @ upper_chars @ ''_'')" by code_simp
  then show "py_isword c \<Longrightarrow> ?thesis" by (auto simp: py_isword_def list_all_iff)
qed

lemma word_unbroken: "py_isword c \<Longrightarrow> \<not> line_break c"
  using word_not_space break_is_space by blast

definition key_ok :: "string \<Rightarrow> bool" where
  "key_ok k = (k \<noteq> [] \<and> list_all py_isword k)"

text \<open>Values that can be written as they are: no line break, no blanks at the ends, no quotes around them and no comment in them.\<close>

definition plain_value :: "string \<Rightarrow> bool" where
  "plain_value v = (unbroken v \<and> strip v = v \<and> unquote v = v)"

lemma match_key_value:
  assumes "key_ok k"
  shows "active_line (py_upper k @ CHR ''='' # v) = Some (py_upper k, unquote (strip v))"
proof -
  have w: "list_all py_isword (py_upper k)" "py_upper k \<noteq> []"
    using assms upper_word by (auto simp: key_ok_def py_upper_def list_all_iff)
  then have l: "lstrip (py_upper k @ s) = py_upper k @ s" for s
    using word_not_space by (cases "py_upper k") (auto simp: lstrip_Cons)
  have "\<not> is_comment (py_upper k @ CHR ''='' # v)"
    using w word_not_space by (cases "py_upper k") (auto simp: is_comment_def l [simplified] startswith_def lstrip_Cons)
  moreover have "takeWhile py_isword (py_upper k @ CHR ''='' # v) = py_upper k"
    using w word_not_space by (auto simp: list_all_iff takeWhile_append2 takeWhile.simps)
  moreover have "lstrip (CHR ''='' # v) = CHR ''='' # v" by (simp add: lstrip_Cons py_isspace_def ws_chars_def)
  ultimately show ?thesis using w(2) by (simp add: active_line_def match_assignment_def l Let_def)
qed

lemma indexed_update:
  assumes x: "indexed lns kv idx" and i: "dict_get idx k = Some i" and l: "active_line l = Some (k, v)"
  shows "indexed (lns[i := l]) (dict_set k v kv) idx"
  unfolding indexed_def
proof (intro conjI allI)
  fix k' j
  from i obtain v0 where il: "i < length lns" "active_line (lns ! i) = Some (k, v0)" using indexedD(1) [OF x, of k i] by auto
  show "dict_get idx k' = Some j \<longleftrightarrow> j < length (lns[i := l]) \<and> (\<exists>v'. active_line (lns[i := l] ! j) = Some (k', v'))"
    using indexedD(1) [OF x, of k' j] il l by (cases "j = i") auto
next
  fix k'
  from i obtain v0 where il: "i < length lns" "active_line (lns ! i) = Some (k, v0)" using indexedD(1) [OF x, of k i] by auto
  show "dict_get (dict_set k v kv) k' = (case dict_get idx k' of None \<Rightarrow> None | Some j \<Rightarrow> map_option snd (active_line (lns[i := l] ! j)))"
  proof (cases "dict_get idx k'")
    case (Some j)
    then obtain v1 where j: "active_line (lns ! j) = Some (k', v1)" using indexedD(1) [OF x, of k' j] by auto
    show ?thesis
    proof (cases "j = i")
      case True
      with j il have "k' = k" by simp
      with True Some il l show ?thesis by simp
    next
      case False
      then have "k' \<noteq> k" using Some i by auto
      with False Some indexedD(2) [OF x, of k'] show ?thesis by simp
    qed
  next
    case None
    then have "k' \<noteq> k" using i by auto
    with None indexedD(2) [OF x, of k'] show ?thesis by simp
  qed
qed

lemma indexed_remove:
  assumes x: "indexed lns kv idx" and i: "dict_get idx k = Some i" and l: "active_line l = None"
  shows "indexed (lns[i := l]) (dict_pop k kv) (dict_pop k idx)"
  unfolding indexed_def
proof (intro conjI allI)
  fix k' j
  from i obtain v0 where il: "i < length lns" "active_line (lns ! i) = Some (k, v0)" using indexedD(1) [OF x, of k i] by auto
  show "dict_get (dict_pop k idx) k' = Some j \<longleftrightarrow> j < length (lns[i := l]) \<and> (\<exists>v'. active_line (lns[i := l] ! j) = Some (k', v'))"
    using indexedD(1) [OF x, of k' j] il l i by (cases "j = i"; cases "k' = k") auto
next
  fix k'
  show "dict_get (dict_pop k kv) k' = (case dict_get (dict_pop k idx) k' of None \<Rightarrow> None | Some j \<Rightarrow> map_option snd (active_line (lns[i := l] ! j)))"
  proof (cases "k' = k")
    case False
    show ?thesis
    proof (cases "dict_get idx k'")
      case (Some j)
      have "j \<noteq> i" using Some False indexedD(1) [OF x, of k' j] indexedD(1) [OF x, of k i] i by auto
      with False Some indexedD(2) [OF x, of k'] show ?thesis by simp
    qed (use False indexedD(2) [OF x, of k'] in simp)
  qed simp
qed

lemma indexed_cong: "indexed lns kv idx \<Longrightarrow> (\<And>k. dict_get kv' k = dict_get kv k) \<Longrightarrow> indexed lns kv' idx"
  by (simp add: indexed_def)

lemma set_line_active:
  assumes "key_ok key" and "if quote then unbroken v else plain_value v"
  shows "active_line (py_upper key @ ''='' @ (if quote then CHR 0x22 # v @ [CHR 0x22] else v)) = Some (py_upper key, v)"
    and "unbroken (py_upper key @ ''='' @ (if quote then CHR 0x22 # v @ [CHR 0x22] else v))"
proof -
  have q: "strip (CHR 0x22 # v @ [CHR 0x22]) = CHR 0x22 # v @ [CHR 0x22]" by (rule strip_id) (simp_all add: py_isspace_def ws_chars_def)
  have "suffix [CHR 0x22] (CHR 0x22 # v @ [CHR 0x22])" by (rule suffixI [of _ "CHR 0x22 # v"]) simp
  then have u: "unquote (CHR 0x22 # v @ [CHR 0x22]) = v" by (simp add: unquote_def startswith_def endswith_def)
  show "active_line (py_upper key @ ''='' @ (if quote then CHR 0x22 # v @ [CHR 0x22] else v)) = Some (py_upper key, v)"
    using assms(2) match_key_value [OF assms(1), of "CHR 0x22 # v @ [CHR 0x22]"] match_key_value [OF assms(1), of v] q u by (simp add: plain_value_def split: if_splits)
  have "unbroken (py_upper key)" using assms(1) upper_word word_unbroken by (auto simp: key_ok_def py_upper_def list_all_iff)
  moreover have "\<not> line_break CHR 0x22" "\<not> line_break CHR ''=''" by (simp_all add: line_break_def)
  ultimately show "unbroken (py_upper key @ ''='' @ (if quote then CHR 0x22 # v @ [CHR 0x22] else v))"
    using assms(2) by (simp add: plain_value_def split: if_splits)
qed

lemma list_all_update: "list_all P xs \<Longrightarrow> P y \<Longrightarrow> list_all P (xs[i := y])"
  by (auto simp: list_all_iff dest: set_update_subset_insert [THEN subsetD])

lemma active_not_comment: "active_line l = Some kv \<Longrightarrow> \<not> is_comment l"
  by (auto simp: active_line_def split: if_splits)

lemma set_honest:
  assumes f: "honest f" and ok: "key_ok key" "if quote then unbroken v else plain_value v"
  shows "honest (ifcfg_set key v quote f)"
proof (cases "dict_get (if_idx f) (py_upper key)")
  case None
  with f indexed_snoc [OF _ set_line_active(1) [OF ok] None] set_line_active(2) [OF ok] show ?thesis
    by (auto simp: honest_def ifcfg_set_def Let_def)
next
  case (Some i)
  from f have x: "indexed (if_lines f) (if_kv f) (if_idx f)" by (simp add: honest_def)
  from Some obtain v0 where i: "i < length (if_lines f)" "active_line (if_lines f ! i) = Some (py_upper key, v0)" using indexedD(1) [OF x] by auto
  have "py_upper key \<notin> if_commented f" using f Some by (auto simp: honest_def)
  with i Some active_not_comment [OF i(2)] indexed_update [OF x Some set_line_active(1) [OF ok]] f set_line_active(2) [OF ok] show ?thesis
    by (auto simp: honest_def ifcfg_set_def Let_def intro: list_all_update)
qed

lemma set_kv: "dict_get (if_kv (ifcfg_set key v quote f)) = (dict_get (if_kv f))(py_upper key \<mapsto> v)"
  by (auto simp: ifcfg_set_def Let_def update_conv' split: option.splits)

lemma comment_honest:
  assumes f: "honest f" and t: "unbroken tag"
  shows "honest (snd (ifcfg_comment_out key tag f))"
proof (cases "dict_get (if_idx f) (py_upper key)")
  case None
  from f have x: "indexed (if_lines f) (if_kv f) (if_idx f)" by (simp add: honest_def)
  then have "dict_get (if_kv f) (py_upper key) = None" using None indexedD(2) [OF x] by simp
  then have "indexed (if_lines f) (dict_pop (py_upper key) (if_kv f)) (if_idx f)" by (intro indexed_cong [OF x]) (metis dict_get_pop)
  with f None show ?thesis by (auto simp: honest_def ifcfg_comment_out_def Let_def)
next
  case (Some i)
  from f have x: "indexed (if_lines f) (if_kv f) (if_idx f)" by (simp add: honest_def)
  from Some obtain v0 where i: "i < length (if_lines f)" "active_line (if_lines f ! i) = Some (py_upper key, v0)" using indexedD(1) [OF x] by auto
  have c: "active_line (''# '' @ s) = None" for s by (simp add: active_line_def is_comment_def startswith_def lstrip_Cons py_isspace_def ws_chars_def)
  have "unbroken (if_lines f ! i)" using f i(1) by (simp add: honest_def list_all_iff [of unbroken])
  then have "unbroken (''# '' @ if_lines f ! i @ ''  # '' @ tag)" using t by (simp add: line_break_def)
  with f i Some active_not_comment [OF i(2)] indexed_remove [OF x Some c] show ?thesis
    by (auto simp: honest_def ifcfg_comment_out_def forget_key_def Let_def intro: list_all_update)
qed

lemma comment_kv: "dict_get (if_kv (snd (ifcfg_comment_out key tag f))) = (dict_get (if_kv f))(py_upper key := None)"
  by (auto simp: ifcfg_comment_out_def forget_key_def Let_def dict_get_pop split: option.splits)

subsection \<open>Any sequence of edits\<close>

datatype edit = SetKey string string bool | RemoveKey string string

fun apply_edit :: "edit \<Rightarrow> ifcfg \<Rightarrow> ifcfg" where
  "apply_edit (SetKey k v quote) f = ifcfg_set k v quote f"
| "apply_edit (RemoveKey k tag) f = snd (ifcfg_comment_out k tag f)"

fun edit_ok :: "edit \<Rightarrow> bool" where
  "edit_ok (SetKey k v quote) = (key_ok k \<and> (if quote then unbroken v else plain_value v))"
| "edit_ok (RemoveKey k tag) = unbroken tag"

text \<open>The same edits of a map from keys to values.\<close>

fun abs_edit :: "edit \<Rightarrow> (string \<rightharpoonup> string) \<Rightarrow> (string \<rightharpoonup> string)" where
  "abs_edit (SetKey k v _) m = m(py_upper k \<mapsto> v)"
| "abs_edit (RemoveKey k _) m = m(py_upper k := None)"

lemma edit_kv: "dict_get (if_kv (apply_edit e f)) = abs_edit e (dict_get (if_kv f))"
  by (cases e) (simp_all only: apply_edit.simps abs_edit.simps set_kv comment_kv)

lemma edits_kv: "dict_get (if_kv (fold apply_edit es f)) = fold abs_edit es (dict_get (if_kv f))"
  by (induction es arbitrary: f) (simp_all add: edit_kv)

lemma edits_honest: "honest f \<Longrightarrow> list_all edit_ok es \<Longrightarrow> honest (fold apply_edit es f)"
proof (induction es arbitrary: f)
  case (Cons e es)
  then have "honest (apply_edit e f)" by (cases e) (auto intro: set_honest comment_honest)
  with Cons show ?case by simp
qed simp

text \<open>
  C32 (refinement). Editing an ifcfg file is editing a map: after any sequence of settings and removals of keys, what a reader of the
  written file sees is the map that was read, changed by the same settings and removals. This holds for every file in which no key is
  assigned twice, and for values that can be written as they are or that are quoted.
\<close>
theorem ifcfg_edits_refine_map:
  assumes "if_duplicates (ifcfg_parse text) = []" and "list_all edit_ok es"
  shows "dict_get (if_kv (ifcfg_parse (ifcfg_render (fold apply_edit es (ifcfg_parse text))))) = fold abs_edit es (dict_get (if_kv (ifcfg_parse text)))"
proof -
  let ?f = "fold apply_edit es (ifcfg_parse text)"
  from edits_honest [OF parse_honest [OF assms(1)] assms(2)] have h: "list_all unbroken (if_lines ?f)" "indexed (if_lines ?f) (if_kv ?f) (if_idx ?f)"
    by (simp_all add: honest_def)
  have "dict_get (if_kv (ifcfg_parse (ifcfg_render ?f))) = file_view (if_lines ?f)"
    unfolding get_parse view_of_rendered [OF h(1)] ..
  also have "\<dots> = dict_get (if_kv ?f)" using indexed_view [OF h(2)] by auto
  finally show ?thesis by (simp add: edits_kv)
qed


definition example_ifcfg :: string where
  "example_ifcfg = ''DEVICE=ens192'' @ CHR 0x0A # ''HWADDR=aa'' @ [CHR 0x0A]"

theorem ifcfg_edits_refine_map_witness:
  "dict_get (if_kv (ifcfg_parse (ifcfg_render (fold apply_edit [RemoveKey ''hwaddr'' ''t'', SetKey ''ONBOOT'' ''yes'' False] (ifcfg_parse example_ifcfg))))) ''ONBOOT'' = Some ''yes'' \<and>
   dict_get (if_kv (ifcfg_parse (ifcfg_render (fold apply_edit [RemoveKey ''hwaddr'' ''t'', SetKey ''ONBOOT'' ''yes'' False] (ifcfg_parse example_ifcfg))))) ''HWADDR'' = None"
proof -
  have d: "if_duplicates (ifcfg_parse example_ifcfg) = []" by code_simp
  have e: "list_all edit_ok [RemoveKey ''hwaddr'' ''t'', SetKey ''ONBOOT'' ''yes'' False]" by code_simp
  have u: "py_upper ''hwaddr'' = ''HWADDR''" "py_upper ''ONBOOT'' = ''ONBOOT''" by code_simp+
  show ?thesis unfolding ifcfg_edits_refine_map [OF d e] by (simp add: u)
qed


end
