(* ===== verification/Net_Topology.thy ===== *)
theory Net_Topology
  imports Net_Ifcfg
begin

text \<open>
  \<^verbatim>\<open>h2kvm/fixers/network/model.py\<close> (the graph) and \<^verbatim>\<open>h2kvm/fixers/network/topology.py\<close>: which devices the network files of a guest
  name, how bonds, bridges and VLANs join them, and which interfaces get a new name. The parser of YAML is a parameter. Nodes carry
  no properties, because no caller gives any; a set of names is enumerated as a list.
\<close>

section \<open>Names\<close>

definition digits_after :: "string \<Rightarrow> string \<Rightarrow> bool" where
  "digits_after p s = (startswith s p \<and> all_digits (drop (length p) s))"

definition bond_name :: "string \<Rightarrow> bool" where
  "bond_name = py_dollar (digits_after ''bond'')"

definition bridge_name :: "string \<Rightarrow> bool" where
  "bridge_name s = (py_dollar (\<lambda>s. digits_after ''br'' s \<or> digits_after ''bridge'' s) s \<or> startswith s ''br-'')"

definition dotted_name :: "string \<Rightarrow> bool" where
  "dotted_name = py_dollar (\<lambda>s. takeWhile py_isword s \<noteq> [] \<and> (case dropWhile py_isword s of c # d \<Rightarrow> c = CHR ''.'' \<and> all_digits d | [] \<Rightarrow> False))"

definition vmware_ens :: "string list" where
  "vmware_ens = [''ens33'', ''ens160'', ''ens161'', ''ens192'', ''ens224'', ''ens256'', ''ens193'', ''ens225'']"

text \<open>The patterns with their tags.\<close>

definition INTERFACE_NAME_PATTERNS :: "((string \<Rightarrow> bool) \<times> string) list" where
  "INTERFACE_NAME_PATTERNS =
     [(\<lambda>s. py_dollar (\<lambda>s. s \<in> set vmware_ens) (py_lower s), ''vmware-ens-pattern''), (\<lambda>s. py_dollar (digits_after ''vmnic'') (py_lower s), ''vmware-vmnic'')]"

definition vmware_name :: "string \<Rightarrow> bool" where
  "vmware_name s = list_ex (\<lambda>(p, _). p s) INTERFACE_NAME_PATTERNS"

section \<open>The graph\<close>

datatype DeviceKind = ETHERNET | BOND | BRIDGE | VLAN | UNKNOWN

fun kind_value :: "DeviceKind \<Rightarrow> string" where
  "kind_value ETHERNET = ''ethernet''"
| "kind_value BOND = ''bond''"
| "kind_value BRIDGE = ''bridge''"
| "kind_value VLAN = ''vlan''"
| "kind_value UNKNOWN = ''unknown''"

record topo_node =
  tn_name :: string
  tn_kind :: DeviceKind
  tn_sources :: "string set"

record topo_edge =
  te_src :: string
  te_dst :: string
  te_kind :: string

record topology =
  tg_nodes :: "(string, topo_node) dict"
  tg_edges :: "topo_edge list"
  tg_warnings :: "string list"

definition TopologyGraph :: topology where
  "TopologyGraph = \<lparr>tg_nodes = [], tg_edges = [], tg_warnings = []\<rparr>"

definition add_node :: "string \<Rightarrow> DeviceKind \<Rightarrow> string \<Rightarrow> topology \<Rightarrow> topology" where
  "add_node name kind source g =
     (if name = [] then g
      else (let n = (case dict_get (tg_nodes g) name of
                None \<Rightarrow> \<lparr>tn_name = name, tn_kind = kind, tn_sources = {}\<rparr>
              | Some n \<Rightarrow> if tn_kind n = UNKNOWN \<and> kind \<noteq> UNKNOWN then n\<lparr>tn_kind := kind\<rparr> else n)
            in g\<lparr>tg_nodes := dict_set name (if source = [] then n else n\<lparr>tn_sources := insert source (tn_sources n)\<rparr>) (tg_nodes g)\<rparr>))"

definition add_edge :: "string \<Rightarrow> string \<Rightarrow> string \<Rightarrow> topology \<Rightarrow> topology" where
  "add_edge src dst kind g = (if src = [] \<or> dst = [] then g else g\<lparr>tg_edges := tg_edges g @ [\<lparr>te_src = src, te_dst = dst, te_kind = kind\<rparr>]\<rparr>)"

definition infer_kind :: "topology \<Rightarrow> string \<Rightarrow> DeviceKind" where
  "infer_kind g name = (case dict_get (tg_nodes g) name of
      Some n \<Rightarrow> tn_kind n
    | None \<Rightarrow> if bond_name name then BOND else if bridge_name name then BRIDGE else if dotted_name name then VLAN else UNKNOWN)"

definition seen_names :: "topology \<Rightarrow> string list" where
  "seen_names g = remdups (dict_keys (tg_nodes g) @ concat (map (\<lambda>e. [te_src e, te_dst e]) (tg_edges g)))"

definition rename_map_propagate :: "(string, string) dict \<Rightarrow> topology \<Rightarrow> (string, string) dict" where
  "rename_map_propagate rm g = fold (\<lambda>(old, new) out.
     fold (\<lambda>n out. if startswith n (old @ ''.'') then dict_set n (new @ ''.'' @ drop (length old + 1) n) out else out) (seen_names g) out) rm rm"

definition mapped :: "(string, string) dict \<Rightarrow> string \<Rightarrow> string" where
  "mapped rm n = (case dict_get rm n of Some m \<Rightarrow> m | None \<Rightarrow> n)"

definition merge_node :: "(string, string) dict \<Rightarrow> string \<times> topo_node \<Rightarrow> (string, topo_node) dict \<Rightarrow> (string, topo_node) dict" where
  "merge_node rm nn out = (case nn of (name, node) \<Rightarrow>
     (let new = mapped rm name
      in case dict_get out new of
           Some old \<Rightarrow> dict_set new (old\<lparr>tn_kind := (if tn_kind old = UNKNOWN \<and> tn_kind node \<noteq> UNKNOWN then tn_kind node else tn_kind old),
               tn_sources := tn_sources old \<union> tn_sources node\<rparr>) out
         | None \<Rightarrow> dict_set new (node\<lparr>tn_name := new\<rparr>) out))"

definition apply_rename_map :: "(string, string) dict \<Rightarrow> topology \<Rightarrow> topology" where
  "apply_rename_map rm g = (if rm = [] then g
     else g\<lparr>tg_nodes := fold (merge_node rm) (tg_nodes g) [], tg_edges := map (\<lambda>e. e\<lparr>te_src := mapped rm (te_src e), te_dst := mapped rm (te_dst e)\<rparr>) (tg_edges g)\<rparr>)"

definition add_kind :: "topo_node \<Rightarrow> (string, string list) dict \<Rightarrow> (string, string list) dict" where
  "add_kind n d = (let k = kind_value (tn_kind n) in dict_set k ((case dict_get d k of None \<Rightarrow> [] | Some ns \<Rightarrow> ns) @ [tn_name n]) d)"

definition summarize :: "topology \<Rightarrow> json" where
  "summarize g = JObj
     [(''devices'', JObj (map (\<lambda>(k, ns). (k, JList (map JStr (sort (remdups ns))))) (fold add_kind (dict_values (tg_nodes g)) []))),
      (''edges'', JList (map (\<lambda>e. JObj [(''src'', JStr (te_src e)), (''dst'', JStr (te_dst e)), (''kind'', JStr (te_kind e))]) (tg_edges g))),
      (''warnings'', JList (map JStr (tg_warnings g)))]"

section \<open>ifcfg files\<close>

definition field_text :: "ifcfg \<Rightarrow> string \<Rightarrow> string" where
  "field_text f k = (case ifcfg_get f k of None \<Rightarrow> [] | Some v \<Rightarrow> strip v)"

definition says_yes :: "ifcfg \<Rightarrow> string \<Rightarrow> bool" where
  "says_yes f k = (case ifcfg_get f k of None \<Rightarrow> False | Some v \<Rightarrow> py_lower v = ''yes'')"

definition ifcfg_kind :: "ifcfg \<Rightarrow> DeviceKind" where
  "ifcfg_kind f = (let dev = field_text f ''DEVICE''; typ = py_lower (field_text f ''TYPE'')
     in if says_yes f ''BONDING_MASTER'' \<or> typ = ''bond'' then BOND
        else if typ = ''bridge'' \<or> dev \<noteq> [] \<and> bridge_name dev then BRIDGE
        else if says_yes f ''VLAN'' \<or> field_text f ''PHYSDEV'' \<noteq> [] \<or> dev \<noteq> [] \<and> dotted_name dev then VLAN
        else ETHERNET)"

definition ifcfg_kind_and_links :: "ifcfg \<Rightarrow> DeviceKind \<times> topo_edge list" where
  "ifcfg_kind_and_links f =
     (let dev = field_text f ''DEVICE''; master = field_text f ''MASTER''; br = field_text f ''BRIDGE''; phys = field_text f ''PHYSDEV''; kind = ifcfg_kind f
      in (kind,
          (if says_yes f ''SLAVE'' \<and> ifcfg_has f ''MASTER'' \<and> dev \<noteq> [] \<and> master \<noteq> [] then [\<lparr>te_src = dev, te_dst = master, te_kind = ''slave''\<rparr>] else []) @
          (if ifcfg_has f ''BRIDGE'' \<and> dev \<noteq> [] \<and> br \<noteq> [] then [\<lparr>te_src = dev, te_dst = br, te_kind = ''port''\<rparr>] else []) @
          (if kind \<noteq> VLAN then []
           else if phys \<noteq> [] \<and> dev \<noteq> [] then [\<lparr>te_src = phys, te_dst = dev, te_kind = ''vlan''\<rparr>]
           else if dev \<noteq> [] \<and> dotted_name dev then [\<lparr>te_src = takeWhile (\<lambda>c. c \<noteq> CHR ''.'') dev, te_dst = dev, te_kind = ''vlan''\<rparr>]
           else [])))"

section \<open>netplan\<close>

definition section_of :: "(string, json) dict \<Rightarrow> string \<Rightarrow> (string, json) dict" where
  "section_of nw k = (case dict_get nw k of Some (JObj fs) \<Rightarrow> fs | _ \<Rightarrow> [])"

definition stripped_field :: "json \<Rightarrow> string \<Rightarrow> string" where
  "stripped_field cfg k = (case json_get cfg k JNull of JStr s \<Rightarrow> strip s | _ \<Rightarrow> [])"

definition string_members :: "json \<Rightarrow> string list" where
  "string_members cfg = (case json_get cfg ''interfaces'' JNull of JList xs \<Rightarrow> List.map_filter (\<lambda>x. case x of JStr s \<Rightarrow> Some s | _ \<Rightarrow> None) xs | _ \<Rightarrow> [])"

definition add_ethernet :: "string \<Rightarrow> string \<times> json \<Rightarrow> topology \<Rightarrow> topology" where
  "add_ethernet path d g = (let g1 = add_node (fst d) ETHERNET path g; sn = stripped_field (snd d) ''set-name'' in if sn = [] then g1 else add_node sn ETHERNET path g1)"

definition add_bond :: "string \<Rightarrow> string \<times> json \<Rightarrow> topology \<Rightarrow> topology" where
  "add_bond path d g = fold (\<lambda>m g. add_edge m (fst d) ''slave'' (add_node m ETHERNET path g)) (string_members (snd d)) (add_node (fst d) BOND path g)"

definition add_bridge :: "string \<Rightarrow> string \<times> json \<Rightarrow> topology \<Rightarrow> topology" where
  "add_bridge path d g = fold (\<lambda>m g. add_edge m (fst d) ''port'' (add_node m (infer_kind g m) path g)) (string_members (snd d)) (add_node (fst d) BRIDGE path g)"

definition add_vlan :: "string \<Rightarrow> string \<times> json \<Rightarrow> topology \<Rightarrow> topology" where
  "add_vlan path d g = (let g1 = add_node (fst d) VLAN path g; link = stripped_field (snd d) ''link''
     in if link = [] then g1 else add_edge link (fst d) ''vlan'' (add_node link (infer_kind g1 link) path g1))"

definition netplan_add_to_topology :: "string \<Rightarrow> json \<Rightarrow> topology \<Rightarrow> topology" where
  "netplan_add_to_topology path data g = (case json_get data ''network'' JNull of
      JObj nw \<Rightarrow> fold (add_vlan path) (section_of nw ''vlans'') (fold (add_bridge path) (section_of nw ''bridges'')
        (fold (add_bond path) (section_of nw ''bonds'') (fold (add_ethernet path) (section_of nw ''ethernets'') g)))
    | _ \<Rightarrow> g)"

section \<open>systemd-networkd and NetworkManager\<close>

text \<open>\<^verbatim>\<open>^\s*\[(.+)\]\s*$\<close> of a stripped line, and \<^verbatim>\<open>^\s*key\s*=\s*(.+)\s*$\<close>, both without regard to case.\<close>

definition section_header :: "string \<Rightarrow> string option" where
  "section_header l = (let s = strip l in if startswith s ''['' \<and> endswith s '']'' \<and> length s > 2 then Some (py_lower (strip (butlast (tl s)))) else None)"

definition after_key :: "string \<Rightarrow> string \<Rightarrow> string option" where
  "after_key k l = (let s = lstrip l; r = lstrip (drop (length k) s)
     in if py_lower (take (length k) s) = k then (case r of c # v \<Rightarrow> if c = CHR ''='' then Some v else None | [] \<Rightarrow> None) else None)"

definition ini_value :: "string \<Rightarrow> string \<Rightarrow> string option" where
  "ini_value k l = (case after_key k l of Some v \<Rightarrow> if v = [] then None else Some (strip v) | None \<Rightarrow> None)"

definition skipped_line :: "string \<Rightarrow> bool" where
  "skipped_line l = (let s = strip l in s = [] \<or> startswith s ''#'' \<or> startswith s '';'')"

text \<open>The lines that are neither skipped nor headers, each with its section.\<close>

fun sectioned :: "string option \<Rightarrow> string list \<Rightarrow> (string option \<times> string) list" where
  "sectioned sec [] = []"
| "sectioned sec (l # ls) = (if skipped_line l then sectioned sec ls
     else (case section_header l of Some h \<Rightarrow> sectioned (Some h) ls | None \<Rightarrow> (sec, l) # sectioned sec ls))"

definition no_wildcard :: "string \<Rightarrow> bool" where
  "no_wildcard p = list_all (\<lambda>c. c \<notin> set ''*?[]'') p"

definition all_values :: "string \<Rightarrow> string \<Rightarrow> (string option \<times> string) list \<Rightarrow> string list" where
  "all_values sec k ls = List.map_filter (\<lambda>(s, l). if s = Some sec then ini_value k l else None) ls"

text \<open>The last value of a key, or nothing.\<close>

definition last_value :: "string \<Rightarrow> string \<Rightarrow> (string option \<times> string) list \<Rightarrow> string" where
  "last_value sec k ls = (case rev (all_values sec k ls) of [] \<Rightarrow> [] | v # _ \<Rightarrow> v)"

definition systemd_add_to_topology :: "string \<Rightarrow> string \<Rightarrow> topology \<Rightarrow> topology" where
  "systemd_add_to_topology path content g =
     (let ls = sectioned None (splitlines content);
          names = filter no_wildcard (concat (map py_split (all_values ''match'' ''name'' ls)));
          bond = last_value ''network'' ''bond'' ls; bridge = last_value ''network'' ''bridge'' ls;
          vlans = concat (map py_split (all_values ''network'' ''vlan'' ls))
      in fold (\<lambda>n g.
           (let g1 = add_node n ETHERNET path g;
                g2 = (if bond = [] then g1 else add_edge n bond ''slave'' (add_node bond BOND path g1));
                g3 = (if bridge = [] then g2 else add_edge n bridge ''port'' (add_node bridge BRIDGE path g2))
            in fold (\<lambda>v g. add_edge n v ''vlan'' (add_node v VLAN path g)) vlans g3)) names g)"

definition nm_kind :: "string \<Rightarrow> DeviceKind" where
  "nm_kind t = (if t \<in> {''ethernet'', ''802-3-ethernet''} then ETHERNET else if t = ''bond'' then BOND else if t = ''bridge'' then BRIDGE else if t = ''vlan'' then VLAN else UNKNOWN)"

definition nm_add_to_topology :: "string \<Rightarrow> string \<Rightarrow> topology \<Rightarrow> topology" where
  "nm_add_to_topology path content g =
     (let ls = sectioned None (splitlines content);
          kind = nm_kind (py_lower (last_value ''connection'' ''type'' ls));
          name = last_value ''connection'' ''interface-name'' ls; slave = py_lower (last_value ''connection'' ''slave-type'' ls);
          master = last_value ''connection'' ''master'' ls; parent = last_value ''vlan'' ''parent'' ls;
          g1 = (if name = [] then g else add_node name (if kind \<noteq> UNKNOWN then kind else infer_kind g name) path g);
          g2 = (if kind = VLAN \<and> name \<noteq> [] \<and> parent \<noteq> [] then add_edge parent name ''vlan'' (add_node parent (infer_kind g1 parent) path g1) else g1)
      in if name \<noteq> [] \<and> master \<noteq> [] \<and> slave \<noteq> []
         then add_edge name master (if slave = ''bond'' then ''slave'' else ''port'')
                (add_node master (if slave = ''bond'' then BOND else if slave = ''bridge'' then BRIDGE else UNKNOWN) path g2)
         else g2)"

section \<open>All files\<close>

datatype NetworkConfigType = IFCFG_RH | NETPLAN | INTERFACES | SYSTEMD_NETWORK | SYSTEMD_NETDEV | NETWORK_MANAGER | WICKED | WICKED_IFCFG | UNKNOWN_TYPE

fun type_value :: "NetworkConfigType \<Rightarrow> string" where
  "type_value IFCFG_RH = ''ifcfg-rh''"
| "type_value NETPLAN = ''netplan''"
| "type_value INTERFACES = ''interfaces''"
| "type_value SYSTEMD_NETWORK = ''systemd-network''"
| "type_value SYSTEMD_NETDEV = ''systemd-netdev''"
| "type_value NETWORK_MANAGER = ''network-manager''"
| "type_value WICKED = ''wicked''"
| "type_value WICKED_IFCFG = ''wicked-ifcfg''"
| "type_value UNKNOWN_TYPE = ''unknown''"

datatype FixLevel = CONSERVATIVE | MODERATE | AGGRESSIVE

record net_config =
  nc_path :: string
  nc_content :: string
  nc_type :: NetworkConfigType

type_synonym touched = "(string, string list) dict"

definition add_ifcfg :: "net_config \<Rightarrow> topology \<times> touched \<Rightarrow> topology \<times> touched" where
  "add_ifcfg cfg gt = (case gt of (g, touch) \<Rightarrow>
     (let f = ifcfg_parse (nc_content cfg); dev = field_text f ''DEVICE''
      in if dev = [] then (g, touch)
         else (case ifcfg_kind_and_links f of (kind, edges) \<Rightarrow>
           (fold (\<lambda>e g. (let g1 = add_node (te_src e) (infer_kind g (te_src e)) (nc_path cfg) g
                          in add_edge (te_src e) (te_dst e) (te_kind e) (add_node (te_dst e) (infer_kind g1 (te_dst e)) (nc_path cfg) g1)))
              edges (add_node dev kind (nc_path cfg) g),
            dict_set dev (List.insert (type_value (nc_type cfg)) (case dict_get touch dev of None \<Rightarrow> [] | Some bs \<Rightarrow> bs)) touch))))"

definition add_config :: "(string \<Rightarrow> json option) \<Rightarrow> net_config \<Rightarrow> topology \<times> touched \<Rightarrow> topology \<times> touched" where
  "add_config yaml cfg gt = (case nc_type cfg of
      IFCFG_RH \<Rightarrow> add_ifcfg cfg gt
    | WICKED_IFCFG \<Rightarrow> add_ifcfg cfg gt
    | NETPLAN \<Rightarrow> (case yaml (nc_content cfg) of None \<Rightarrow> gt | Some data \<Rightarrow> apfst (netplan_add_to_topology (nc_path cfg) data) gt)
    | SYSTEMD_NETWORK \<Rightarrow> apfst (systemd_add_to_topology (nc_path cfg) (nc_content cfg)) gt
    | NETWORK_MANAGER \<Rightarrow> apfst (nm_add_to_topology (nc_path cfg) (nc_content cfg)) gt
    | _ \<Rightarrow> gt)"

definition conflict_warning :: "string \<times> string list \<Rightarrow> string" where
  "conflict_warning d = ''Multiple backends appear to manage '' @ CHR 0x27 # fst d @ CHR 0x27 # '': '' @ CHR 0x5B # CHR 0x27 #
     py_join (CHR 0x27 # '', '' @ [CHR 0x27]) (sort (snd d)) @ CHR 0x27 # CHR 0x5D # ''. This can cause race/conflicts after boot.''"

definition build_topology :: "(string \<Rightarrow> json option) \<Rightarrow> net_config list \<Rightarrow> topology" where
  "build_topology yaml configs = (case fold (add_config yaml) configs (TopologyGraph, []) of (g, touch) \<Rightarrow>
     g\<lparr>tg_warnings := tg_warnings g @ map conflict_warning (filter (\<lambda>(_, bs). length bs > 1) touch)\<rparr>)"

section \<open>New names\<close>

definition needs_interface_rename :: "string \<Rightarrow> bool" where
  "needs_interface_rename name = vmware_name (strip name)"

definition get_safe_interface_name :: "string \<Rightarrow> string" where
  "get_safe_interface_name name = (let d = takeWhile py_isdigit (dropWhile (\<lambda>c. \<not> py_isdigit c) name) in if d = [] then ''eth0'' else ''eth'' @ d)"

definition eth_name :: "nat \<Rightarrow> string" where
  "eth_name n = ''eth'' @ nat_str n"

definition eth_number :: "string \<Rightarrow> nat" where
  "eth_number s = (if digits_after ''eth'' s then digits_value (drop 3 s) else 0)"

definition fresh_name :: "string list \<Rightarrow> string \<Rightarrow> string" where
  "fresh_name used new = (let n = eth_number new in case find (\<lambda>k. eth_name k \<notin> set used) [n..<n + 32] of Some k \<Rightarrow> eth_name k | None \<Rightarrow> new)"

fun plan_renames :: "topo_node list \<Rightarrow> (string, string) dict \<Rightarrow> string list \<Rightarrow> (string, string) dict" where
  "plan_renames [] rename used = rename"
| "plan_renames (n # ns) rename used =
     (let old = tn_name n
      in if tn_kind n \<notin> {ETHERNET, UNKNOWN} \<or> \<not> needs_interface_rename old then plan_renames ns rename used
         else (let safe = get_safe_interface_name old; new = (if safe \<in> set used \<and> safe \<noteq> old then fresh_name used safe else safe)
               in if old \<noteq> new then plan_renames ns (dict_set old new rename) (new # used) else plan_renames ns rename used))"

definition compute_rename_map :: "FixLevel \<Rightarrow> topology \<Rightarrow> (string, string) dict" where
  "compute_rename_map level g = (if level \<noteq> AGGRESSIVE then []
     else rename_map_propagate (plan_renames (dict_values (tg_nodes g)) [] (dict_keys (tg_nodes g))) g)"

definition edge_touches :: "topo_edge \<Rightarrow> string \<Rightarrow> bool" where
  "edge_touches e name = (name = te_src e \<or> name = te_dst e)"

definition is_lower_layer_member :: "string \<Rightarrow> topo_edge list \<Rightarrow> bool" where
  "is_lower_layer_member name edges = list_ex (\<lambda>e. te_kind e \<in> {''slave'', ''port'', ''vlan''} \<and> edge_touches e name) edges"

section \<open>Planned names are fresh\<close>

lemma nat_str_inj: "nat_str m = nat_str n \<longleftrightarrow> m = n"
  by (metis digits_nat_str)

lemma fresh_name_is_fresh:
  assumes "card (set used) < 32"
  shows "fresh_name used new \<notin> set used"
proof -
  let ?n = "eth_number new"
  have "\<exists>k\<in>set [?n..<?n + 32]. eth_name k \<notin> set used"
  proof (rule ccontr)
    assume "\<not> ?thesis"
    then have "eth_name ` {?n..<?n + 32} \<subseteq> set used" by auto
    then have "card (eth_name ` {?n..<?n + 32}) \<le> card (set used)" by (intro card_mono) simp_all
    moreover have "inj_on eth_name {?n..<?n + 32}" by (auto simp: inj_on_def eth_name_def nat_str_inj)
    ultimately show False using assms by (simp add: card_image)
  qed
  then obtain k where "find (\<lambda>k. eth_name k \<notin> set used) [?n..<?n + 32] = Some k"
    by (cases "find (\<lambda>k. eth_name k \<notin> set used) [?n..<?n + 32]") (auto simp: find_None_iff)
  then show ?thesis using find_Some_set by (fastforce simp: fresh_name_def Let_def)
qed

lemma dict_set_new: "k \<notin> fst ` set d \<Longrightarrow> dict_set k v d = d @ [(k, v)]"
  by (induction d) auto

lemma plan_step:
  assumes "distinct (map snd rename)" and "snd ` set rename \<subseteq> set used" and "names \<subseteq> set used" and "snd ` set rename \<inter> names = {}"
    and "distinct (map tn_name ns)" and "fst ` set rename \<inter> tn_name ` set ns = {}" and "card (set used) + length ns \<le> 32"
  shows "distinct (map snd (plan_renames ns rename used)) \<and> snd ` set (plan_renames ns rename used) \<inter> names = {}"
  using assms
proof (induction ns arbitrary: rename used)
  case (Cons n ns)
  let ?safe = "get_safe_interface_name (tn_name n)"
  let ?new = "if ?safe \<in> set used \<and> ?safe \<noteq> tn_name n then fresh_name used ?safe else ?safe"
  show ?case
  proof (cases "tn_kind n \<notin> {ETHERNET, UNKNOWN} \<or> \<not> needs_interface_rename (tn_name n) \<or> tn_name n = ?new")
    case True
    with Cons show ?thesis by (auto simp: Let_def split: if_splits)
  next
    case False
    then have p: "plan_renames (n # ns) rename used = plan_renames ns (dict_set (tn_name n) ?new rename) (?new # used)" by (auto simp: Let_def)
    have new: "?new \<notin> set used" using fresh_name_is_fresh [of used ?safe] Cons.prems(7) False by auto
    have k: "dict_set (tn_name n) ?new rename = rename @ [(tn_name n, ?new)]" using Cons.prems(6) by (intro dict_set_new) auto
    have "card (set (?new # used)) + length ns \<le> 32" using Cons.prems(7) card_insert_le_m1 [of 32 "set used" ?new] by (simp add: card_insert_if)
    then show ?thesis
      unfolding p k using Cons.prems new by (intro Cons.IH) auto
  qed
qed simp

subsection \<open>Every graph that is built is in order\<close>

definition graph_ok :: "topology \<Rightarrow> bool" where
  "graph_ok g = (dict_ok (tg_nodes g) \<and> (\<forall>k n. dict_get (tg_nodes g) k = Some n \<longrightarrow> tn_name n = k))"

lemma add_edge_ok [simp]: "graph_ok (add_edge a b k g) = graph_ok g"
  by (simp add: graph_ok_def add_edge_def)

lemma add_node_ok: "graph_ok g \<Longrightarrow> graph_ok (add_node name kind path g)"
  by (auto simp: graph_ok_def add_node_def Let_def dict_ok_set split: option.splits if_splits)

lemma fold_ok: "(\<And>x g. graph_ok g \<Longrightarrow> graph_ok (f x g)) \<Longrightarrow> graph_ok g \<Longrightarrow> graph_ok (fold f xs g)"
  by (rule fold_invariant [where Q = "\<lambda>_. True"]) auto

lemma netplan_ok:
  assumes "graph_ok g"
  shows "graph_ok (netplan_add_to_topology path data g)"
proof -
  have "graph_ok (add_ethernet path d g)" if "graph_ok g" for d g using that by (auto simp: add_ethernet_def Let_def intro: add_node_ok)
  moreover have "graph_ok (add_bond path d g)" if "graph_ok g" for d g unfolding add_bond_def by (rule fold_ok) (simp_all add: add_node_ok that)
  moreover have "graph_ok (add_bridge path d g)" if "graph_ok g" for d g unfolding add_bridge_def by (rule fold_ok) (simp_all add: add_node_ok that)
  moreover have "graph_ok (add_vlan path d g)" if "graph_ok g" for d g using that by (simp add: add_vlan_def Let_def add_node_ok)
  ultimately show ?thesis using assms unfolding netplan_add_to_topology_def by (auto intro!: fold_ok split: json.split)
qed

lemma systemd_ok: "graph_ok g \<Longrightarrow> graph_ok (systemd_add_to_topology path content g)"
  unfolding systemd_add_to_topology_def Let_def by (intro fold_ok) (auto simp: add_node_ok)

lemma nm_ok: "graph_ok g \<Longrightarrow> graph_ok (nm_add_to_topology path content g)"
  by (simp add: nm_add_to_topology_def Let_def add_node_ok)

lemma ifcfg_ok: "graph_ok (fst gt) \<Longrightarrow> graph_ok (fst (add_ifcfg cfg gt))"
  by (auto simp: add_ifcfg_def Let_def add_node_ok intro!: fold_ok split: prod.splits)

lemma config_ok:
  assumes "graph_ok (fst gt)"
  shows "graph_ok (fst (add_config yaml cfg gt))"
proof (cases "nc_type cfg")
  case IFCFG_RH
  with ifcfg_ok [OF assms] show ?thesis by (simp add: add_config_def)
next
  case WICKED_IFCFG
  with ifcfg_ok [OF assms] show ?thesis by (simp add: add_config_def)
qed (use assms in \<open>auto simp: add_config_def netplan_ok systemd_ok nm_ok split: option.split\<close>)

lemma built_graph_ok: "graph_ok (build_topology yaml configs)"
proof -
  have "graph_ok (fst (fold (add_config yaml) configs (TopologyGraph, [])))"
  proof (rule fold_invariant [where Q = "\<lambda>_. True" and P = "\<lambda>gt. graph_ok (fst gt)"])
    show "graph_ok (fst (TopologyGraph, []))" by (simp add: TopologyGraph_def graph_ok_def dict_ok_def)
  qed (auto intro: config_ok)
  then show ?thesis by (auto simp: build_topology_def graph_ok_def split: prod.split)
qed


definition example_files :: "net_config list" where
  "example_files = [\<lparr>nc_path = ''/a'', nc_content = ''DEVICE=ens192'', nc_type = IFCFG_RH\<rparr>, \<lparr>nc_path = ''/b'', nc_content = ''DEVICE=eth192'', nc_type = IFCFG_RH\<rparr>]"


text \<open>When all candidates are taken, the taken name is given out.\<close>

lemma crowded_names_collide: "set (map eth_name [eth_number new..<eth_number new + 32]) \<subseteq> set used \<Longrightarrow> fresh_name used new = new"
  by (auto simp: fresh_name_def Let_def find_None_iff subset_iff split: option.split dest!: find_Some_set)

end
