(* ===== verification/Net_Fix_Ifcfg.thy ===== *)
theory Net_Fix_Ifcfg
  imports Net_Topology
begin

text \<open>
  \<^verbatim>\<open>h2kvm/fixers/network/backend.py\<close>, the fixer of ifcfg files: what bound a file to VMware (device names, hardware addresses, UUIDs,
  driver tokens) is commented out, interfaces are renamed, and an interface without an address asks for one by DHCP unless it
  belongs to a bond, bridge or VLAN. The names of drivers come with the patterns that find them, as the fixer is given them.
\<close>

section \<open>Results\<close>

record fix_result =
  fr_content :: string
  fr_fixes :: "string list"
  fr_errors :: "string list"
  fr_warnings :: "string list"

definition moderate :: "FixLevel \<Rightarrow> bool" where
  "moderate level = (level \<in> {MODERATE, AGGRESSIVE})"

text \<open>\<^verbatim>\<open>\bword\b\<close> anywhere in a text, without regard to case.\<close>

fun search_word :: "string \<Rightarrow> bool \<Rightarrow> string \<Rightarrow> bool" where
  "search_word w inside [] = False"
| "search_word w inside (c # cs) =
     (\<not> inside \<and> startswith (c # cs) w \<and> (case drop (length w) (c # cs) of [] \<Rightarrow> True | d # _ \<Rightarrow> \<not> py_isword d) \<or> search_word w (py_isword c) cs)"

type_synonym drivers = "(string \<times> (string \<Rightarrow> bool)) list"

definition VMWARE_DRIVERS :: drivers where
  "VMWARE_DRIVERS = map (\<lambda>w. (w, \<lambda>s. search_word w False (py_lower s))) [''vmxnet3'', ''e1000'', ''e1000e'', ''vmxnet'', ''vlance'', ''pvscsi'', ''vmw_pvscsi'']"

definition find_driver :: "drivers \<Rightarrow> string \<Rightarrow> string option" where
  "find_driver ds l = map_option fst (find (\<lambda>d. snd d l) ds)"

definition commented :: "string \<Rightarrow> string \<Rightarrow> string" where
  "commented l tag = ''# '' @ l @ ''  # '' @ tag"

section \<open>Steps\<close>

type_synonym editing = "ifcfg \<times> string list"

definition strip_quotes :: "string \<Rightarrow> string" where
  "strip_quotes s = rev (dropWhile (\<lambda>c. c = CHR 0x22 \<or> c = CHR 0x27) (rev (dropWhile (\<lambda>c. c = CHR 0x22 \<or> c = CHR 0x27) s)))"

definition nic_tag :: "FixLevel \<Rightarrow> string \<Rightarrow> string option" where
  "nic_tag level dev = (if moderate level then map_option snd (find (\<lambda>p. fst p dev) INTERFACE_NAME_PATTERNS) else None)"

definition remove_nic_name :: "string \<Rightarrow> string \<Rightarrow> editing \<Rightarrow> editing" where
  "remove_nic_name dev tag ed = (case ed of (f, fx) \<Rightarrow>
     (let f1 = snd (ifcfg_comment_out ''DEVICE'' (''VMware NIC name ('' @ tag @ '') removed by h2kvm'') f);
          ed2 = (if ifcfg_has f1 ''TYPE'' then (f1, fx) else (ifcfg_set ''TYPE'' ''Ethernet'' False f1, fx @ [''added-type-ethernet'']));
          old = field_text (fst ed2) ''NAME'';
          f3 = (if old = [] \<or> strip_quotes old = dev then ifcfg_set ''NAME'' (''Migrated ('' @ dev @ '')'') False (fst ed2) else fst ed2)
      in (f3, snd ed2 @ [''removed-vmware-nic-device-'' @ dev])))"

definition mac_keys :: "string list" where
  "mac_keys = [''HWADDR'', ''MACADDR'', ''MACADDRESS'', ''CLONED_MAC'']"

definition delete_key :: "string \<Rightarrow> string \<Rightarrow> string \<Rightarrow> editing \<Rightarrow> editing" where
  "delete_key k tag fix_name ed = (case ed of (f, fx) \<Rightarrow> if ifcfg_has f k then (snd (ifcfg_comment_out k tag f), fx @ [fix_name]) else (f, fx))"

definition remove_macs :: "editing \<Rightarrow> editing" where
  "remove_macs ed = fold (\<lambda>k. delete_key k ''MAC pinning removed by h2kvm'' (''removed-mac-pinning-'' @ py_lower k)) mac_keys ed"

definition set_when :: "bool \<Rightarrow> string \<Rightarrow> string \<Rightarrow> string \<Rightarrow> editing \<Rightarrow> editing" where
  "set_when b k v fix_name ed = (if b then (ifcfg_set k v False (fst ed), snd ed @ [fix_name]) else ed)"

definition activate :: "bool \<Rightarrow> editing \<Rightarrow> editing" where
  "activate is_nic ed =
     (let onboot = py_lower (field_text (fst ed) ''ONBOOT'');
          ed1 = set_when (onboot = ''no'' \<or> onboot = [] \<and> is_nic) ''ONBOOT'' ''yes'' ''enabled-onboot'' ed;
          ed2 = set_when (py_lower (field_text (fst ed1) ''NM_CONTROLLED'') = ''no'') ''NM_CONTROLLED'' ''yes'' ''enabled-nm-controlled'' ed1
      in delete_key ''UUID'' ''stale UUID removed by h2kvm'' ''removed-uuid'' ed2)"

definition driver_line :: "string \<Rightarrow> bool" where
  "driver_line l = list_ex (\<lambda>k. after_key k l \<noteq> None) [''device'', ''type'', ''ethtool_opts'', ''options'', ''driver'']"

definition clean_driver :: "drivers \<Rightarrow> string \<Rightarrow> string \<times> string list" where
  "clean_driver ds l = (case find_driver ds l of
      Some d \<Rightarrow> if driver_line l \<and> \<not> is_comment l then (commented l ''VMware token removed by h2kvm'', [''removed-vmware-driver-token-'' @ d]) else (l, [])
    | None \<Rightarrow> (l, []))"

definition vmware_params :: "string list" where
  "vmware_params = [''VMWARE_'', ''VMXNET_'', ''SCSIDEVICE'', ''SUBCHANNELS'']"

definition clean_param :: "string \<Rightarrow> string \<times> string list" where
  "clean_param l = (let ps = filter (\<lambda>p. contains p (py_upper l)) vmware_params
     in if ps \<noteq> [] \<and> \<not> is_comment l then (commented l ''VMware-specific parameter removed by h2kvm'', map (\<lambda>p. ''removed-vmware-param-'' @ py_lower p) ps) else (l, []))"

definition clean_lines :: "(string \<Rightarrow> string \<times> string list) \<Rightarrow> editing \<Rightarrow> editing" where
  "clean_lines clean ed = (case ed of (f, fx) \<Rightarrow> (f\<lparr>if_lines := map (\<lambda>l. fst (clean l)) (if_lines f)\<rparr>, fx @ concat (map (\<lambda>l. snd (clean l)) (if_lines f))))"

text \<open>Renaming a reference: the new state, and whether it was renamed.\<close>

definition rename_field :: "(string, string) dict \<Rightarrow> string \<Rightarrow> string \<Rightarrow> string \<Rightarrow> editing \<times> bool \<Rightarrow> editing \<times> bool" where
  "rename_field rm k cur fix_name eb = (case eb of (ed, renamed) \<Rightarrow> (case dict_get rm cur of
      Some new \<Rightarrow> if cur = [] then (ed, renamed) else (set_when True k new fix_name ed, True)
    | None \<Rightarrow> (ed, renamed)))"

definition rename_all :: "(string, string) dict \<Rightarrow> bool \<Rightarrow> string \<Rightarrow> editing \<Rightarrow> (editing \<times> bool) \<times> string" where
  "rename_all rm is_nic dev ed =
     (let a = (if is_nic then (ed, False) else rename_field rm ''DEVICE'' dev ''renamed-device'' (ed, False));
          dev1 = (if is_nic then dev else mapped rm dev);
          b = rename_field rm ''NAME'' (strip_quotes (field_text (fst (fst a)) ''NAME'')) ''renamed-name'' a;
          c = rename_field rm ''PHYSDEV'' (field_text (fst (fst b)) ''PHYSDEV'') ''renamed-physdev'' b;
          d = rename_field rm ''MASTER'' (field_text (fst (fst c)) ''MASTER'') ''renamed-master-ref'' c;
          e = rename_field rm ''BRIDGE'' (field_text (fst (fst d)) ''BRIDGE'') ''renamed-bridge-ref'' d
      in (e, dev1))"

definition static_keys :: "string list" where
  "static_keys = [''IPADDR'', ''IPADDR0'', ''PREFIX'', ''NETMASK'', ''GATEWAY'', ''DNS1'', ''DNS2'', ''IPV6ADDR'', ''IPV6_DEFAULTGW'']"

definition ifcfg_has_static_intent :: "ifcfg \<Rightarrow> bool" where
  "ifcfg_has_static_intent f = (list_ex (ifcfg_has f) static_keys \<or> py_lower (field_text f ''BOOTPROTO'') = ''static'' \<or> py_lower (field_text f ''IPV6INIT'') = ''yes'')"

definition normalize_bootproto :: "FixLevel \<Rightarrow> bool \<Rightarrow> DeviceKind \<Rightarrow> editing \<Rightarrow> editing" where
  "normalize_bootproto level member kind ed =
     (let free = (\<not> ifcfg_has_static_intent (fst ed) \<and> \<not> member); bp = py_lower (strip_quotes (field_text (fst ed) ''BOOTPROTO''))
      in if bp \<noteq> [] \<and> bp \<notin> {''dhcp'', ''static'', ''none'', ''bootp''} then set_when free ''BOOTPROTO'' ''dhcp'' ''normalized-bootproto->dhcp'' ed
         else if bp = [] \<and> free then set_when (moderate level) ''BOOTPROTO'' ''dhcp'' ''added-bootproto-dhcp'' ed
         else if bp = ''none'' \<and> free \<and> kind = ETHERNET then set_when (moderate level) ''BOOTPROTO'' ''dhcp'' ''normalized-bootproto-none->dhcp'' ed
         else ed)"

section \<open>The fixer\<close>

definition ifcfg_cleanup :: "FixLevel \<Rightarrow> drivers \<Rightarrow> string \<Rightarrow> string option \<Rightarrow> ifcfg \<Rightarrow> editing" where
  "ifcfg_cleanup level ds dev tag f =
     (let e1 = (case tag of Some t \<Rightarrow> remove_nic_name dev t (f, []) | None \<Rightarrow> (f, []));
          e2 = (if moderate level then activate (tag \<noteq> None) (remove_macs e1) else e1)
      in clean_lines clean_param (clean_lines (clean_driver ds) e2))"

definition bridge_port_warning :: "string \<Rightarrow> string \<Rightarrow> string" where
  "bridge_port_warning path dev = path @ '': IP/static config appears on a bridge port ('' @ dev @ ''). Often the IP should live on the bridge device, not the port. Not auto-moving.''"

definition fix_ifcfg_rh :: "FixLevel \<Rightarrow> drivers \<Rightarrow> net_config \<Rightarrow> topology option \<Rightarrow> (string, string) dict \<Rightarrow> fix_result" where
  "fix_ifcfg_rh level ds cfg topo rm =
     (let f = ifcfg_parse (nc_content cfg); dev = field_text f ''DEVICE''
      in if dev = [] then \<lparr>fr_content = nc_content cfg, fr_fixes = [], fr_errors = [''Missing DEVICE=''], fr_warnings = []\<rparr>
         else (let tag = nic_tag level dev; e1 = ifcfg_cleanup level ds dev tag f
         in case (if level = AGGRESSIVE \<and> rm \<noteq> [] then rename_all rm (tag \<noteq> None) dev e1 else ((e1, False), dev)) of ((e2, renamed), dev2) \<Rightarrow>
           (case ifcfg_kind_and_links (if renamed then fst e2 else f) of (kind, local_edges) \<Rightarrow>
             (let topo_kind = (case topo of Some g \<Rightarrow> infer_kind g dev2 | None \<Rightarrow> kind);
                  edges = (case topo of Some g \<Rightarrow> tg_edges g | None \<Rightarrow> []) @ local_edges;
                  e3 = normalize_bootproto level (is_lower_layer_member dev2 edges) topo_kind e2
              in \<lparr>fr_content = ifcfg_render (fst e3), fr_fixes = snd e3, fr_errors = [],
                   fr_warnings = (if kind = ETHERNET \<and> (ifcfg_has (fst e3) ''BRIDGE'' \<or> list_ex (\<lambda>e. te_kind e = ''port'') local_edges) \<and> ifcfg_has_static_intent (fst e3)
                     then [bridge_port_warning (nc_path cfg) dev2] else [])\<rparr>))))"

section \<open>No pinned address remains\<close>

text \<open>A key is unassigned when no active line assigns it, and known when its only active line is the one the editor remembers.\<close>

definition unassigned :: "string \<Rightarrow> ifcfg \<Rightarrow> bool" where
  "unassigned k f = (\<forall>l\<in>set (if_lines f). \<forall>v. active_line l \<noteq> Some (k, v))"

definition known :: "string \<Rightarrow> ifcfg \<Rightarrow> bool" where
  "known k f = ((\<forall>i<length (if_lines f). \<forall>v. active_line (if_lines f ! i) = Some (k, v) \<longrightarrow> dict_get (if_idx f) k = Some i) \<and> (dict_get (if_kv f) k = None \<longrightarrow> unassigned k f))"

lemma commented_inactive [simp]: "active_line (commented l tag) = None"
  by (simp add: commented_def active_line_def is_comment_def startswith_def lstrip_Cons py_isspace_def ws_chars_def)

lemma comment_out_lines:
  "if_lines (snd (ifcfg_comment_out key tag f)) = if_lines f \<or>
   (\<exists>i. dict_get (if_idx f) (py_upper key) = Some i \<and> i < length (if_lines f) \<and> if_lines (snd (ifcfg_comment_out key tag f)) = (if_lines f)[i := commented (if_lines f ! i) tag])"
  by (auto simp: ifcfg_comment_out_def forget_key_def commented_def Let_def split: option.splits)

lemma quiet_update: "unassigned k f \<Longrightarrow> (\<And>v. active_line l \<noteq> Some (k, v)) \<Longrightarrow> if_lines g = (if_lines f)[i := l] \<Longrightarrow> unassigned k g"
  by (auto simp: unassigned_def dest!: set_update_subset_insert [THEN subsetD])

lemma nth_updated: "j < length xs \<Longrightarrow> xs[i := l] ! j = (if i = j then l else xs ! j)"
  by (cases "i < length xs") auto

lemma quiet_comment_out:
  assumes "unassigned k f"
  shows "unassigned k (snd (ifcfg_comment_out key tag f))"
  using comment_out_lines [of key tag f]
proof
  assume "if_lines (snd (ifcfg_comment_out key tag f)) = if_lines f"
  with assms show ?thesis by (simp add: unassigned_def)
next
  assume "\<exists>i. dict_get (if_idx f) (py_upper key) = Some i \<and> i < length (if_lines f) \<and> if_lines (snd (ifcfg_comment_out key tag f)) = (if_lines f)[i := commented (if_lines f ! i) tag]"
  then obtain i where "if_lines (snd (ifcfg_comment_out key tag f)) = (if_lines f)[i := commented (if_lines f ! i) tag]" by blast
  from quiet_update [OF assms _ this] show ?thesis by simp
qed

lemma set_lines:
  "let l = py_upper key @ ''='' @ v; f' = ifcfg_set key v False f
   in if_lines f' = if_lines f @ [l] \<and> dict_get (if_idx f') (py_upper key) = Some (length (if_lines f)) \<or> (\<exists>i. if_lines f' = (if_lines f)[i := l])"
  by (auto simp: ifcfg_set_def Let_def split: option.splits)

lemma set_other:
  "k \<noteq> py_upper key \<Longrightarrow> dict_get (if_idx (ifcfg_set key v q f)) k = dict_get (if_idx f) k \<and> dict_get (if_kv (ifcfg_set key v q f)) k = dict_get (if_kv f) k"
  by (auto simp: ifcfg_set_def Let_def split: option.splits)

lemma comment_out_other:
  "k \<noteq> py_upper key \<Longrightarrow> dict_get (if_idx (snd (ifcfg_comment_out key tag f))) k = dict_get (if_idx f) k \<and> dict_get (if_kv (snd (ifcfg_comment_out key tag f))) k = dict_get (if_kv f) k"
  by (auto simp: ifcfg_comment_out_def forget_key_def Let_def dict_get_pop split: option.splits)

lemma set_line_key: "key_ok key \<Longrightarrow> k \<noteq> py_upper key \<Longrightarrow> active_line (py_upper key @ ''='' @ v) \<noteq> Some (k, w)"
  using match_key_value [of key v] by simp

lemma quiet_set: "unassigned k f \<Longrightarrow> key_ok key \<Longrightarrow> k \<noteq> py_upper key \<Longrightarrow> unassigned k (ifcfg_set key v False f)"
  using set_lines [of key v f] set_line_key [of key k v] quiet_update [of k f]
  by (auto simp: Let_def) (auto simp: unassigned_def)

lemma known_comment_out:
  assumes "known k f" and "k \<noteq> py_upper key"
  shows "known k (snd (ifcfg_comment_out key tag f))"
proof -
  have a: "dict_get (if_idx f) k = Some j" if "j < length (if_lines f)" "active_line (if_lines (snd (ifcfg_comment_out key tag f)) ! j) = Some (k, v)" for j v
    using comment_out_lines [of key tag f] that assms(1) by (auto simp: known_def nth_list_update split: if_splits)
  have "length (if_lines (snd (ifcfg_comment_out key tag f))) = length (if_lines f)"
    using comment_out_lines [of key tag f] by auto
  with a assms quiet_comment_out [of k f key tag] comment_out_other [OF assms(2), of tag f] show ?thesis by (auto simp: known_def)
qed

lemma known_set:
  assumes "known k f" and "key_ok key" and "k \<noteq> py_upper key"
  shows "known k (ifcfg_set key v False f)"
proof -
  let ?f = "ifcfg_set key v False f"
  have a: "dict_get (if_idx f) k = Some j" if "j < length (if_lines ?f)" "active_line (if_lines ?f ! j) = Some (k, w)" for j w
    using set_lines [of key v f] that assms(1) set_line_key [OF assms(2,3), of v w] by (auto simp: known_def Let_def nth_updated nth_append less_Suc_eq split: if_splits)
  with assms quiet_set [OF _ assms(2,3), of f v] set_other [OF assms(3), of v False f] show ?thesis by (auto simp: known_def)
qed

lemma comment_out_quiet:
  assumes "known (py_upper key) f"
  shows "unassigned (py_upper key) (snd (ifcfg_comment_out key tag f))"
proof -
  let ?k = "py_upper key"
  have only: "dict_get (if_idx f) ?k = Some j" if "j < length (if_lines f)" "active_line (if_lines f ! j) = Some (?k, w)" for j w
    using that assms by (simp add: known_def)
  show ?thesis
  proof (cases "\<exists>i. dict_get (if_idx f) ?k = Some i \<and> i < length (if_lines f) \<and> \<not> is_comment (if_lines f ! i)")
    case True
    then obtain i where i: "dict_get (if_idx f) ?k = Some i" "i < length (if_lines f)" "\<not> is_comment (if_lines f ! i)" by blast
    then have "if_lines (snd (ifcfg_comment_out key tag f)) = (if_lines f)[i := commented (if_lines f ! i) tag]"
      by (simp add: ifcfg_comment_out_def forget_key_def commented_def Let_def)
    note lines = this
    have "active_line (if_lines (snd (ifcfg_comment_out key tag f)) ! j) \<noteq> Some (?k, w)" if "j < length (if_lines f)" for j w
      using only [OF that, of w] i(1) that unfolding lines by (cases "i = j") auto
    moreover have "length (if_lines (snd (ifcfg_comment_out key tag f))) = length (if_lines f)" unfolding lines by simp
    ultimately show ?thesis unfolding unassigned_def by (metis in_set_conv_nth)
  next
    case False
    then have same: "if_lines (snd (ifcfg_comment_out key tag f)) = if_lines f"
      by (auto simp: ifcfg_comment_out_def forget_key_def Let_def split: option.splits)
    have "active_line (if_lines f ! j) \<noteq> Some (?k, w)" if "j < length (if_lines f)" for j w
      using only [OF that, of w] that False active_not_comment [of "if_lines f ! j"] by auto
    then show ?thesis unfolding unassigned_def same by (metis in_set_conv_nth)
  qed
qed

lemma honest_known: "honest f \<Longrightarrow> known k f"
proof -
  assume h: "honest f"
  then have x: "indexed (if_lines f) (if_kv f) (if_idx f)" by (simp add: honest_def)
  have "unassigned k f" if "dict_get (if_kv f) k = None"
    using that indexed_view [OF x, of k] file_view_NoneD [of "if_lines f" k] by (auto simp: unassigned_def in_set_conv_nth)
  then show ?thesis using indexedD(1) [OF x] by (auto simp: known_def)
qed

lemma mac_keys_facts: "list_all (\<lambda>k. py_upper k = k) mac_keys" "distinct mac_keys"
  by code_simp+

lemma delete_key_known: "known k (fst ed) \<Longrightarrow> k \<noteq> py_upper key \<Longrightarrow> known k (fst (delete_key key tag n ed))"
  by (cases ed) (simp add: delete_key_def known_comment_out)

lemma delete_key_quiet: "unassigned k (fst ed) \<Longrightarrow> unassigned k (fst (delete_key key tag n ed))"
  by (cases ed) (simp add: delete_key_def quiet_comment_out)

lemma delete_key_quiets: "known (py_upper key) (fst ed) \<Longrightarrow> unassigned (py_upper key) (fst (delete_key key tag n ed))"
  by (cases ed) (auto simp: delete_key_def comment_out_quiet ifcfg_has_def dict_has_def known_def)

lemma remove_macs_quiet:
  assumes "\<And>k. k \<in> set mac_keys \<Longrightarrow> known k (fst ed)" and "k \<in> set mac_keys"
  shows "unassigned k (fst (remove_macs ed))"
proof -
  have fold_quiet: "unassigned k (fst (fold (\<lambda>k. delete_key k t (g k)) ks ed))" if "unassigned k (fst ed)" for ks ed and t :: string and g :: "string \<Rightarrow> string"
    using that
  proof (induction ks arbitrary: ed)
    case (Cons a ks)
    from Cons.IH [OF delete_key_quiet [OF Cons.prems]] show ?case by simp
  qed simp
  have "unassigned k (fst (fold (\<lambda>k. delete_key k t (g k)) ks ed))"
    if "k \<in> set ks" "list_all (\<lambda>k. py_upper k = k) ks" "distinct ks" "\<And>k. k \<in> set ks \<Longrightarrow> known k (fst ed)" for ks ed and t :: string and g :: "string \<Rightarrow> string"
    using that
  proof (induction ks arbitrary: ed)
    case (Cons a ks)
    show ?case
    proof (cases "k = a")
      case True
      with Cons.prems delete_key_quiets [of a ed t "g a"] have "unassigned k (fst (delete_key a t (g a) ed))" by simp
      from fold_quiet [OF this] show ?thesis by simp
    next
      case False
      with Cons.prems have "unassigned k (fst (fold (\<lambda>k. delete_key k t (g k)) ks (delete_key a t (g a) ed)))"
        by (intro Cons.IH) (auto intro!: delete_key_known)
      then show ?thesis by simp
    qed
  qed simp
  from this [OF assms(2) mac_keys_facts assms(1)] show ?thesis by (simp add: remove_macs_def)
qed

definition edit_keys :: "string list" where
  "edit_keys = [''TYPE'', ''NAME'', ''ONBOOT'', ''NM_CONTROLLED'', ''DEVICE'', ''PHYSDEV'', ''MASTER'', ''BRIDGE'', ''BOOTPROTO'']"

lemma edit_keys_facts: "list_all (\<lambda>k. key_ok k \<and> py_upper k = k \<and> k \<notin> set mac_keys) (''UUID'' # edit_keys)"
  by code_simp

lemma edit_key: "key \<in> set edit_keys \<Longrightarrow> k \<in> set mac_keys \<Longrightarrow> key_ok key \<and> k \<noteq> py_upper key"
  using edit_keys_facts by (auto simp: list_all_iff)

lemma quiet_edit: "unassigned k f \<Longrightarrow> key \<in> set edit_keys \<Longrightarrow> k \<in> set mac_keys \<Longrightarrow> unassigned k (ifcfg_set key v False f)"
  using edit_key quiet_set by blast

lemma set_when_quiet: "unassigned k (fst ed) \<Longrightarrow> key \<in> set edit_keys \<Longrightarrow> k \<in> set mac_keys \<Longrightarrow> unassigned k (fst (set_when b key v n ed))"
  by (simp add: set_when_def quiet_edit)

lemma clean_driver_cases: "fst (clean_driver ds l) = l \<or> (\<exists>tag. fst (clean_driver ds l) = commented l tag \<and> unbroken tag)"
  by (auto simp: clean_driver_def line_break_def split: option.splits)

lemma clean_param_cases: "fst (clean_param l) = l \<or> (\<exists>tag. fst (clean_param l) = commented l tag \<and> unbroken tag)"
  by (auto simp: clean_param_def line_break_def Let_def)

lemma clean_lines_quiet:
  assumes "unassigned k (fst ed)" and "\<And>l. fst (clean l) = l \<or> (\<exists>tag. fst (clean l) = commented l tag \<and> unbroken tag)"
  shows "unassigned k (fst (clean_lines clean ed))"
proof -
  have "active_line (fst (clean l)) \<noteq> Some (k, v)" if "l \<in> set (if_lines (fst ed))" for l v
    using assms that commented_inactive unfolding unassigned_def by (metis option.distinct(1))
  then show ?thesis by (auto simp: clean_lines_def unassigned_def split: prod.splits)
qed

lemma rename_field_quiet: "unassigned k (fst (fst eb)) \<Longrightarrow> key \<in> set edit_keys \<Longrightarrow> k \<in> set mac_keys \<Longrightarrow> unassigned k (fst (fst (rename_field rm key cur n eb)))"
  by (auto simp: rename_field_def intro: set_when_quiet split: prod.splits option.splits)

lemma in_edit_keys: "''TYPE'' \<in> set edit_keys" "''NAME'' \<in> set edit_keys" "''ONBOOT'' \<in> set edit_keys" "''NM_CONTROLLED'' \<in> set edit_keys" "''DEVICE'' \<in> set edit_keys"
  "''PHYSDEV'' \<in> set edit_keys" "''MASTER'' \<in> set edit_keys" "''BRIDGE'' \<in> set edit_keys" "''BOOTPROTO'' \<in> set edit_keys"
  by (simp_all add: edit_keys_def)

lemma rename_all_quiet:
  assumes "unassigned k (fst ed)" and "k \<in> set mac_keys"
  shows "unassigned k (fst (fst (fst (rename_all rm nic dev ed))))"
  unfolding rename_all_def Let_def using assms by (simp add: rename_field_quiet in_edit_keys)

lemma normalize_quiet: "unassigned k (fst ed) \<Longrightarrow> k \<in> set mac_keys \<Longrightarrow> unassigned k (fst (normalize_bootproto level m kind ed))"
  by (auto simp: normalize_bootproto_def Let_def intro: set_when_quiet in_edit_keys)

lemma activate_quiet: "unassigned k (fst ed) \<Longrightarrow> k \<in> set mac_keys \<Longrightarrow> unassigned k (fst (activate nic ed))"
  by (auto simp: activate_def Let_def intro!: set_when_quiet delete_key_quiet in_edit_keys)

lemma remove_nic_known:
  assumes "known k (fst ed)" and "k \<in> set mac_keys"
  shows "known k (fst (remove_nic_name dev tag ed))"
proof -
  have k: "key_ok key \<and> k \<noteq> py_upper key" if "key \<in> set edit_keys" for key using edit_key [OF that assms(2)] .
  show ?thesis
    using assms(1) known_comment_out [of k _ "''DEVICE''"] known_set [of k _ "''TYPE''"] known_set [of k _ "''NAME''"] k [OF in_edit_keys(5)] k [OF in_edit_keys(1)] k [OF in_edit_keys(2)]
    by (cases ed) (simp add: remove_nic_name_def Let_def)
qed

subsection \<open>Lines stay lines\<close>

definition whole :: "editing \<Rightarrow> bool" where
  "whole ed = list_all unbroken (if_lines (fst ed))"

lemma unbroken_commented: "unbroken l \<Longrightarrow> unbroken tag \<Longrightarrow> unbroken (commented l tag)"
  by (simp add: commented_def line_break_def)

lemma unbroken_update: "list_all unbroken ls \<Longrightarrow> unbroken l \<Longrightarrow> list_all unbroken (ls[i := l])"
  by (rule list_all_update)

lemma whole_set: "whole (f, fx) \<Longrightarrow> key \<in> set edit_keys \<Longrightarrow> unbroken v \<Longrightarrow> whole (ifcfg_set key v False f, fx')"
proof -
  assume f: "whole (f, fx)" and k: "key \<in> set edit_keys" and v: "unbroken v"
  have "key_ok key" using k edit_keys_facts by (auto simp: list_all_iff)
  then have "unbroken (py_upper key)" using upper_word word_unbroken by (auto simp: key_ok_def py_upper_def list_all_iff)
  moreover have "\<not> line_break CHR ''=''" by (simp add: line_break_def)
  ultimately have "unbroken (py_upper key @ ''='' @ v)" using v by simp
  with f set_lines [of key v f] unbroken_update [of "if_lines f" "py_upper key @ ''='' @ v"] show ?thesis
    unfolding whole_def Let_def fst_conv by (elim disjE exE) simp_all
qed

lemma whole_comment_out: "whole (f, fx) \<Longrightarrow> unbroken tag \<Longrightarrow> whole (snd (ifcfg_comment_out key tag f), fx')"
proof -
  assume f: "whole (f, fx)" and t: "unbroken tag"
  have "unbroken (commented (if_lines f ! i) tag)" if "i < length (if_lines f)" for i
    using f t that by (intro unbroken_commented) (simp_all add: whole_def list_all_length [of unbroken])
  with f comment_out_lines [of key tag f] unbroken_update [of "if_lines f"] show ?thesis
    unfolding whole_def fst_conv by (elim disjE exE conjE) simp_all
qed

lemma whole_delete: "whole ed \<Longrightarrow> unbroken tag \<Longrightarrow> whole (delete_key key tag n ed)"
  by (cases ed) (auto simp: delete_key_def intro: whole_comment_out)

lemma whole_set_when: "whole ed \<Longrightarrow> key \<in> set edit_keys \<Longrightarrow> unbroken v \<Longrightarrow> whole (set_when b key v n ed)"
  by (cases ed) (auto simp: set_when_def intro: whole_set)

lemma whole_clean:
  assumes "whole ed" and "\<And>l. fst (clean l) = l \<or> (\<exists>tag. fst (clean l) = commented l tag \<and> unbroken tag)"
  shows "whole (clean_lines clean ed)"
proof -
  have "unbroken (fst (clean l))" if "l \<in> set (if_lines (fst ed))" for l
    using assms(1) assms(2) [of l] that unbroken_commented [of l] by (auto simp: whole_def list_all_iff [of unbroken])
  then show ?thesis by (auto simp: whole_def clean_lines_def list_all_iff [of unbroken] split: prod.splits)
qed

lemma whole_rename: "whole (fst eb) \<Longrightarrow> key \<in> set edit_keys \<Longrightarrow> list_all unbroken (dict_values rm) \<Longrightarrow> whole (fst (rename_field rm key cur n eb))"
proof -
  assume a: "whole (fst eb)" "key \<in> set edit_keys" "list_all unbroken (dict_values rm)"
  have "unbroken v" if "dict_get rm cur = Some v" for v
    using a(3) map_of_SomeD [OF that] by (force simp: list_all_iff [of unbroken] dict_values_def)
  with a show ?thesis by (cases eb) (auto simp: rename_field_def intro: whole_set_when split: option.split)
qed

lemma set_strip: "set (strip s) \<subseteq> set s"
  by (auto simp: strip_def lstrip_def rstrip_def dest!: set_dropWhileD)

lemma set_unquote: "set (unquote v) \<subseteq> set v"
proof -
  have c: "set p \<subseteq> set v" if "cut_comment v = Some p" for p v
    using that by (induction v arbitrary: p) (auto split: if_splits)
  then show ?thesis
    by (cases v) (auto simp: unquote_def strip_inline_comment_unquoted_def rstrip_def split: option.splits dest!: in_set_butlastD set_dropWhileD dest: c [THEN subsetD])
qed

lemma set_active: "active_line l = Some (k, v) \<Longrightarrow> set v \<subseteq> set l"
proof -
  assume a: "active_line l = Some (k, v)"
  then obtain w where w: "match_assignment l = Some (k, w)" "v = unquote w" by (auto simp: active_line_def split: if_splits)
  then obtain c r where r: "lstrip (drop (length (takeWhile py_isword (lstrip l))) (lstrip l)) = c # r" "w = strip r"
    by (auto simp: match_assignment_def Let_def split: list.splits if_splits)
  have sub: "set (lstrip s) \<subseteq> set s" for s by (auto simp: lstrip_def dest: set_dropWhileD)
  have "set r \<subseteq> set (c # r)" by auto
  also have "\<dots> \<subseteq> set (drop (length (takeWhile py_isword (lstrip l))) (lstrip l))" using sub by (simp flip: r(1))
  also have "\<dots> \<subseteq> set (lstrip l)" by (rule set_drop_subset)
  also have "\<dots> \<subseteq> set l" by (rule sub)
  finally have "set w \<subseteq> set l" using set_strip r(2) by blast
  with w(2) set_unquote show ?thesis by blast
qed

lemma unbroken_subset: "unbroken l \<Longrightarrow> set s \<subseteq> set l \<Longrightarrow> unbroken s"
  by (auto simp: list_all_iff)

lemma parsed_whole: "whole (ifcfg_parse text, fx)"
  using splitlines_no_break [of _ "text"] by (simp add: whole_def ifcfg_parse_def Let_def list_all_iff [of unbroken] split: prod.split)

lemma parsed_value_unbroken: "unbroken (field_text (ifcfg_parse text) k)"
proof (cases "ifcfg_get (ifcfg_parse text) k")
  case (Some v)
  then have "file_view (splitlines text) (py_upper k) = Some v" by (simp add: ifcfg_get_def get_parse)
  from file_view_SomeD [OF this] obtain i where i: "i < length (splitlines text)" "active_line (splitlines text ! i) = Some (py_upper k, v)" by blast
  have "unbroken (splitlines text ! i)" by (rule splitlines_no_break [OF nth_mem [OF i(1)]])
  from unbroken_subset [OF this, of "strip v"] set_active [OF i(2)] set_strip [of v] Some show ?thesis by (auto simp: field_text_def)
qed (simp add: field_text_def)

lemma nic_tag_unbroken: "nic_tag level dev = Some t \<Longrightarrow> unbroken t"
proof -
  assume "nic_tag level dev = Some t"
  then have "t = ''vmware-ens-pattern'' \<or> t = ''vmware-vmnic''" by (auto simp: nic_tag_def INTERFACE_NAME_PATTERNS_def split: if_splits)
  then show ?thesis by (auto simp: line_break_def)
qed

lemma fixed_texts: "unbroken ''Ethernet''" "unbroken ''yes''" "unbroken ''dhcp''" "unbroken ''MAC pinning removed by h2kvm''" "unbroken ''stale UUID removed by h2kvm''"
  "unbroken ''Migrated (''" "unbroken '')''" "unbroken ''VMware NIC name (''" "unbroken '') removed by h2kvm''"
  by code_simp+

lemma whole_nic: "whole ed \<Longrightarrow> unbroken dev \<Longrightarrow> unbroken t \<Longrightarrow> whole (remove_nic_name dev t ed)"
proof -
  assume a: "whole ed" "unbroken dev" "unbroken t"
  obtain f fx where ed: "ed = (f, fx)" by (cases ed)
  let ?tag = "''VMware NIC name ('' @ t @ '') removed by h2kvm''"
  have t: "unbroken ?tag" using a(3) fixed_texts(8,9) by (simp only: list_all_append)
  have m: "unbroken (''Migrated ('' @ dev @ '')'')" using a(2) fixed_texts(6,7) by (simp only: list_all_append)
  define f1 where "f1 = snd (ifcfg_comment_out ''DEVICE'' ?tag f)"
  define f2 where "f2 = (if ifcfg_has f1 ''TYPE'' then f1 else ifcfg_set ''TYPE'' ''Ethernet'' False f1)"
  have 1: "whole (f1, [])" unfolding f1_def using a(1) t unfolding ed by (rule whole_comment_out)
  then have 2: "whole (f2, [])" using whole_set [OF 1 in_edit_keys(1) fixed_texts(1)] by (simp add: f2_def)
  have "fst (remove_nic_name dev t ed) = (let old = field_text f2 ''NAME'' in if old = [] \<or> strip_quotes old = dev then ifcfg_set ''NAME'' (''Migrated ('' @ dev @ '')'') False f2 else f2)"
    by (simp add: remove_nic_name_def ed f2_def f1_def Let_def)
  with 2 whole_set [OF 2 in_edit_keys(2) m] show ?thesis by (simp add: whole_def Let_def)
qed

lemma whole_macs: "whole ed \<Longrightarrow> whole (remove_macs ed)"
  unfolding remove_macs_def by (rule fold_invariant [where Q = "\<lambda>_. True"]) (auto intro: whole_delete fixed_texts)

lemma whole_activate: "whole ed \<Longrightarrow> whole (activate nic ed)"
  unfolding activate_def Let_def by (intro whole_delete whole_set_when in_edit_keys fixed_texts)

lemma whole_renames: "whole ed \<Longrightarrow> list_all unbroken (dict_values rm) \<Longrightarrow> whole (fst (fst (rename_all rm nic dev ed)))"
  unfolding rename_all_def Let_def by (simp add: whole_rename in_edit_keys)

lemma whole_normalize: "whole ed \<Longrightarrow> whole (normalize_bootproto level m kind ed)"
  by (auto simp: normalize_bootproto_def Let_def intro: whole_set_when in_edit_keys fixed_texts)

lemma cleanup_facts:
  assumes "if_duplicates f = []" and "f = ifcfg_parse text" and "moderate level" and "dev = field_text f ''DEVICE''" and "k \<in> set mac_keys"
  shows "unassigned k (fst (ifcfg_cleanup level ds dev (nic_tag level dev) f))" "whole (ifcfg_cleanup level ds dev (nic_tag level dev) f)"
proof -
  let ?e1 = "case nic_tag level dev of Some t \<Rightarrow> remove_nic_name dev t (f, []) | None \<Rightarrow> (f, [])"
  have w0: "whole (f, [])" unfolding assms(2) by (rule parsed_whole)
  have u: "unbroken dev" unfolding assms(4,2) by (rule parsed_value_unbroken)
  have h: "known k' (fst (f, []))" for k' using parse_honest assms(1,2) honest_known by simp
  have 1: "known k' (fst ?e1)" if "k' \<in> set mac_keys" for k' using remove_nic_known [OF h that] h by (auto split: option.split)
  have w1: "whole ?e1" using whole_nic [OF w0 u] nic_tag_unbroken w0 by (auto split: option.split)
  have q: "unassigned k (fst (activate (nic_tag level dev \<noteq> None) (remove_macs ?e1)))" by (rule activate_quiet [OF remove_macs_quiet [OF 1 assms(5)] assms(5)])
  have w2: "whole (activate (nic_tag level dev \<noteq> None) (remove_macs ?e1))" by (rule whole_activate [OF whole_macs [OF w1]])
  show "unassigned k (fst (ifcfg_cleanup level ds dev (nic_tag level dev) f))"
    unfolding ifcfg_cleanup_def Let_def using assms(3) clean_lines_quiet [OF clean_lines_quiet [OF q clean_driver_cases] clean_param_cases] by simp
  show "whole (ifcfg_cleanup level ds dev (nic_tag level dev) f)"
    unfolding ifcfg_cleanup_def Let_def using assms(3) whole_clean [OF whole_clean [OF w2 clean_driver_cases] clean_param_cases] by simp
qed

text \<open>
  C35 (safety). After fixing an ifcfg file at the moderate or aggressive level no hardware address is pinned: whatever the file, the
  drivers, the topology and the renaming are, a reader of the fixed file finds none of the four keys, provided that the file named a device and
  assigned no key twice.
\<close>
theorem fixed_ifcfg_pins_no_address:
  assumes "if_duplicates (ifcfg_parse (nc_content cfg)) = []" and "field_text (ifcfg_parse (nc_content cfg)) ''DEVICE'' \<noteq> []"
    and "moderate level" and "list_all unbroken (dict_values rm)" and "k \<in> set mac_keys"
  shows "dict_get (if_kv (ifcfg_parse (fr_content (fix_ifcfg_rh level ds cfg topo rm)))) k = None"
proof -
  let ?f = "ifcfg_parse (nc_content cfg)" let ?dev = "field_text ?f ''DEVICE''" let ?tag = "nic_tag level ?dev"
  let ?e1 = "ifcfg_cleanup level ds ?dev ?tag ?f"
  let ?r = "if level = AGGRESSIVE \<and> rm \<noteq> [] then rename_all rm (?tag \<noteq> None) ?dev ?e1 else ((?e1, False), ?dev)"
  note c = cleanup_facts [OF assms(1) refl assms(3) refl assms(5), of ds]
  have q2: "unassigned k (fst (fst (fst ?r)))" and w2: "whole (fst (fst ?r))"
    using rename_all_quiet [OF c(1) assms(5)] whole_renames [OF c(2) assms(4)] c by auto
  obtain e2 renamed dev2 where r: "?r = ((e2, renamed), dev2)" by (metis prod.collapse)
  obtain m kind where "fr_content (fix_ifcfg_rh level ds cfg topo rm) = ifcfg_render (fst (normalize_bootproto level m kind e2))"
    using assms(2) by (cases "ifcfg_kind_and_links (if renamed then fst e2 else ?f)") (simp add: fix_ifcfg_rh_def Let_def r)
  moreover have "unassigned k (fst (normalize_bootproto level m kind e2))" using normalize_quiet [OF _ assms(5)] q2 r by simp
  moreover have "list_all unbroken (if_lines (fst (normalize_bootproto level m kind e2)))" using whole_normalize [of e2 level m kind] w2 r by (simp add: whole_def)
  moreover have "file_view ls k = None" if "\<forall>l\<in>set ls. \<forall>v. active_line l \<noteq> Some (k, v)" for ls
    using that file_view_SomeD [of ls k] by (cases "file_view ls k") (auto dest!: nth_mem)
  ultimately show ?thesis by (simp add: get_parse view_of_rendered unassigned_def)
qed

theorem fixed_ifcfg_pins_no_address_witness:
  "dict_get (if_kv (ifcfg_parse (fr_content (fix_ifcfg_rh MODERATE VMWARE_DRIVERS \<lparr>nc_path = ''/a'', nc_content = example_ifcfg, nc_type = IFCFG_RH\<rparr> None [])))) ''HWADDR'' = None \<and>
   dict_get (if_kv (ifcfg_parse example_ifcfg)) ''HWADDR'' = Some ''aa''"
proof -
  have "dict_get (if_kv (ifcfg_parse (fr_content (fix_ifcfg_rh MODERATE VMWARE_DRIVERS \<lparr>nc_path = ''/a'', nc_content = example_ifcfg, nc_type = IFCFG_RH\<rparr> None [])))) ''HWADDR'' = None"
  proof (rule fixed_ifcfg_pins_no_address)
    show "if_duplicates (ifcfg_parse (nc_content \<lparr>nc_path = ''/a'', nc_content = example_ifcfg, nc_type = IFCFG_RH\<rparr>)) = []" by code_simp
    show "field_text (ifcfg_parse (nc_content \<lparr>nc_path = ''/a'', nc_content = example_ifcfg, nc_type = IFCFG_RH\<rparr>)) ''DEVICE'' \<noteq> []" by code_simp
  qed (simp_all add: moderate_def mac_keys_def dict_values_def)
  moreover have "dict_get (if_kv (ifcfg_parse example_ifcfg)) ''HWADDR'' = Some ''aa''" by code_simp
  ultimately show ?thesis by blast
qed

text \<open>A member of a bond, bridge or VLAN keeps its BOOTPROTO, and so does an interface with a static address.\<close>

lemma members_get_no_dhcp: "member \<or> ifcfg_has_static_intent (fst ed) \<Longrightarrow> normalize_bootproto level member kind ed = ed"
  by (auto simp: normalize_bootproto_def set_when_def Let_def)

end
