(* ===== verification/Net_Fix_Files.thy ===== *)
theory Net_Fix_Files
  imports Net_Fix_Ifcfg
begin

text \<open>
  \<^verbatim>\<open>h2kvm/fixers/network/backend.py\<close>, the fixer of \<^verbatim>\<open>/etc/network/interfaces\<close>. It reads the file line by line and collects the lines of a
  stanza until the next one begins, comments out what bound the interface to VMware and turns a static stanza without an address into DHCP.
\<close>

section \<open>/etc/network/interfaces\<close>

definition iface_line :: "string \<Rightarrow> bool" where
  "iface_line l = startswith (strip l) ''iface ''"

text \<open>\<^verbatim>\<open>^\s*iface\s+\S+\s+inet\s+static\b\<close>\<close>

definition static_line :: "string \<Rightarrow> bool" where
  "static_line l = (case py_split l of
      a # b # c # d # _ \<Rightarrow> a = ''iface'' \<and> c = ''inet'' \<and> startswith d ''static'' \<and> (case drop 6 d of [] \<Rightarrow> True | x # _ \<Rightarrow> \<not> py_isword x)
    | _ \<Rightarrow> False)"

definition address_line :: "string \<Rightarrow> bool" where
  "address_line l = (case py_split l of a # b # _ \<Rightarrow> a = ''address'' | _ \<Rightarrow> False)"

text \<open>\<^verbatim>\<open>re.sub(r"\bword\b", r, s)\<close>; the number counts the characters of a match that are still to be skipped.\<close>

fun sub_word :: "string \<Rightarrow> string \<Rightarrow> nat \<Rightarrow> bool \<Rightarrow> string \<Rightarrow> string" where
  "sub_word w r n inside [] = []"
| "sub_word w r n inside (c # cs) =
     (if n > 0 then sub_word w r (n - 1) (py_isword c) cs
      else if \<not> inside \<and> startswith (c # cs) w \<and> (case drop (length w) (c # cs) of [] \<Rightarrow> True | d # _ \<Rightarrow> \<not> py_isword d)
      then r @ sub_word w r (length w - 1) (py_isword c) cs
      else c # sub_word w r 0 (py_isword c) cs)"

definition static_to_dhcp :: "string \<Rightarrow> string" where
  "static_to_dhcp l = sub_word ''static'' ''dhcp'' 0 False l"

text \<open>\<^verbatim>\<open>^\s*hwaddress\s+ether\s+.*$\<close> without regard to case.\<close>

definition hwaddress_line :: "string \<Rightarrow> bool" where
  "hwaddress_line l = (let s = py_lower (lstrip l)
     in startswith s ''hwaddress'' \<and> (let r = drop 9 s in r \<noteq> [] \<and> py_isspace (hd r) \<and> startswith (lstrip r) ''ether'' \<and>
          (let q = drop 5 (lstrip r) in q \<noteq> [] \<and> py_isspace (hd q))))"

record iface_state =
  is_new :: "string list"
  is_block :: "string list"
  is_current :: "string option"
  is_fixes :: "string list"

fun first_static :: "string list \<Rightarrow> string list option" where
  "first_static [] = None"
| "first_static (l # ls) = (if static_line l then Some (static_to_dhcp l # ls) else map_option (\<lambda>ls'. l # ls') (first_static ls))"

definition flush_block :: "FixLevel \<Rightarrow> iface_state \<Rightarrow> iface_state" where
  "flush_block level st = (case is_current st of
      None \<Rightarrow> st\<lparr>is_block := []\<rparr>
    | Some name \<Rightarrow>
        (let changed = (if moderate level \<and> \<not> list_ex address_line (is_block st) then first_static (is_block st) else None)
         in \<lparr>is_new = is_new st @ (case changed of Some b \<Rightarrow> b | None \<Rightarrow> is_block st), is_block = [], is_current = None,
             is_fixes = is_fixes st @ (case changed of Some _ \<Rightarrow> [''iface-'' @ name @ ''-static-without-address->dhcp''] | None \<Rightarrow> [])\<rparr>))"

definition comment_token :: "drivers \<Rightarrow> string \<Rightarrow> string \<times> string list" where
  "comment_token ds l = (case find_driver ds l of Some d \<Rightarrow> (commented l ''VMware token removed by h2kvm'', [''removed-vmware-token-'' @ d]) | None \<Rightarrow> (l, []))"

definition comment_hwaddress :: "FixLevel \<Rightarrow> string \<Rightarrow> string \<times> string list" where
  "comment_hwaddress level l = (if moderate level \<and> hwaddress_line l then (commented l ''MAC pinning removed by h2kvm'', [''removed-hwaddress'']) else (l, []))"

definition iface_step :: "FixLevel \<Rightarrow> drivers \<Rightarrow> string \<Rightarrow> iface_state \<Rightarrow> iface_state" where
  "iface_step level ds l st =
     (if iface_line l then (flush_block level st)\<lparr>is_block := [l], is_current := (if length (py_split l) \<ge> 4 then Some (py_split l ! 1) else None)\<rparr>
      else (let st1 = (if strip l \<noteq> [] \<and> \<not> startswith l '' '' \<and> \<not> startswith l [CHR 0x09] \<and> is_current st \<noteq> None then flush_block level st else st)
            in case comment_token ds l of (l1, fx1) \<Rightarrow>
              if is_current st1 = None then st1\<lparr>is_new := is_new st1 @ [l1], is_fixes := is_fixes st1 @ fx1\<rparr>
              else (case comment_hwaddress level l1 of (l2, fx2) \<Rightarrow> st1\<lparr>is_block := is_block st1 @ [l2], is_fixes := is_fixes st1 @ fx1 @ fx2\<rparr>)))"

definition fix_interfaces_lines :: "FixLevel \<Rightarrow> drivers \<Rightarrow> string list \<Rightarrow> iface_state" where
  "fix_interfaces_lines level ds ls = flush_block level (fold (iface_step level ds) ls \<lparr>is_new = [], is_block = [], is_current = None, is_fixes = []\<rparr>)"

definition fix_interfaces :: "FixLevel \<Rightarrow> drivers \<Rightarrow> net_config \<Rightarrow> fix_result" where
  "fix_interfaces level ds cfg = (let st = fix_interfaces_lines level ds (split_on (CHR 0x0A) (nc_content cfg))
     in \<lparr>fr_content = py_join [CHR 0x0A] (is_new st), fr_fixes = is_fixes st, fr_errors = [], fr_warnings = []\<rparr>)"

section \<open>What becomes of a line\<close>

text \<open>Kept, commented out, or a static interface without address turned to DHCP.\<close>

definition line_fate :: "string \<Rightarrow> string \<Rightarrow> bool" where
  "line_fate l l' = (l' = l \<or> (\<exists>tag. l' = commented l tag) \<or> (\<exists>t1 t2. l' = commented (commented l t1) t2) \<or> static_line l \<and> l' = static_to_dhcp l)"

definition noted :: "string \<Rightarrow> string \<Rightarrow> bool" where
  "noted l l' = (l' = l \<or> (\<exists>tag. l' = commented l tag) \<or> (\<exists>t1 t2. l' = commented (commented l t1) t2))"

lemma commented_split: "py_split (commented l tag) = ''#'' # py_split (CHR '' '' # l @ ''  # '' @ tag)"
proof -
  have "word ''#''" by code_simp
  from split_word_append [OF this, of "CHR '' '' # l @ ''  # '' @ tag"] show ?thesis by (simp add: commented_def py_isspace_def ws_chars_def)
qed

lemma static_commented: "\<not> static_line (commented l tag)"
  by (auto simp: static_line_def commented_split split: list.splits)

lemma noted_fate: "noted l l' \<Longrightarrow> line_fate l l'"
  by (auto simp: noted_def line_fate_def)

lemma noted_static: "noted l l' \<Longrightarrow> static_line l' \<Longrightarrow> l' = l"
  using static_commented by (auto simp: noted_def)

lemma first_static_fate: "list_all2 noted cs bs \<Longrightarrow> first_static bs = Some bs' \<Longrightarrow> list_all2 line_fate cs bs'"
proof (induction arbitrary: bs' rule: list_all2_induct)
  case (Cons c cs b bs)
  have n: "list_all2 line_fate cs bs" using Cons.hyps(2) by (rule list_all2_mono) (rule noted_fate)
  show ?case
  proof (cases "static_line b")
    case True
    then have "bs' = static_to_dhcp b # bs" using Cons.prems by simp
    moreover have "line_fate c (static_to_dhcp b)" using noted_static [OF Cons.hyps(1) True] True by (simp add: line_fate_def)
    ultimately show ?thesis using n by simp
  next
    case False
    then obtain bs2 where "first_static bs = Some bs2" "bs' = b # bs2" using Cons.prems by auto
    with Cons noted_fate show ?thesis by simp
  qed
qed simp

text \<open>The lines read so far are those written and those of the open block.\<close>

definition accounts_for :: "string list \<Rightarrow> iface_state \<Rightarrow> bool" where
  "accounts_for ls st = (\<exists>done_ls block_ls. ls = done_ls @ block_ls \<and> list_all2 line_fate done_ls (is_new st) \<and> list_all2 noted block_ls (is_block st) \<and>
     (is_current st = None \<longrightarrow> block_ls = []))"

lemma coversE:
  assumes "accounts_for ls st"
  obtains done_ls block_ls where "ls = done_ls @ block_ls" "list_all2 line_fate done_ls (is_new st)" "list_all2 noted block_ls (is_block st)"
    "is_current st = None \<longrightarrow> block_ls = []"
  using assms unfolding accounts_for_def by (elim exE conjE) (rule that)

lemma flush_covers: "accounts_for ls st \<Longrightarrow> accounts_for ls (flush_block level st) \<and> is_block (flush_block level st) = [] \<and> is_current (flush_block level st) = None"
proof -
  assume "accounts_for ls st"
  then obtain ds bs where c: "ls = ds @ bs" "list_all2 line_fate ds (is_new st)" "list_all2 noted bs (is_block st)" "is_current st = None \<longrightarrow> bs = []"
    by (rule coversE)
  show ?thesis
  proof (cases "is_current st")
    case None
    with c show ?thesis by (auto simp: accounts_for_def flush_block_def)
  next
    case (Some name)
    have "list_all2 line_fate bs (is_block st)" using c(3) by (rule list_all2_mono) (rule noted_fate)
    with c first_static_fate [OF c(3)] have
      "list_all2 line_fate (ds @ bs) (is_new (flush_block level st))"
      by (auto simp: flush_block_def Some Let_def intro!: list_all2_appendI split: option.split if_splits)
    with Some show ?thesis by (auto simp: accounts_for_def flush_block_def c(1) Let_def)
  qed
qed

lemma token_noted: "comment_token ds l = (l1, fx) \<Longrightarrow> l1 = l \<or> (\<exists>t. l1 = commented l t)"
  by (auto simp: comment_token_def split: option.splits)

lemma hwaddress_noted: "comment_hwaddress level l = (l1, fx) \<Longrightarrow> l1 = l \<or> (\<exists>t. l1 = commented l t)"
  by (auto simp: comment_hwaddress_def split: if_splits)

lemma step_covers:
  assumes "accounts_for ls st" and "iface_line l \<longrightarrow> length (py_split l) \<ge> 4"
  shows "accounts_for (ls @ [l]) (iface_step level ds l st)"
proof (cases "iface_line l")
  case True
  from flush_covers [OF assms(1), of level] have "list_all2 line_fate ls (is_new (flush_block level st))" by (auto simp: accounts_for_def)
  with True assms(2) show ?thesis unfolding accounts_for_def by (intro exI [of _ ls] exI [of _ "[l]"]) (simp add: iface_step_def noted_def)
next
  case False
  define st1 where "st1 = (if strip l \<noteq> [] \<and> \<not> startswith l '' '' \<and> \<not> startswith l [CHR 0x09] \<and> is_current st \<noteq> None then flush_block level st else st)"
  have "accounts_for ls st1" using assms(1) flush_covers [OF assms(1)] by (simp add: st1_def)
  then obtain done_ls bs where c: "ls = done_ls @ bs" "list_all2 line_fate done_ls (is_new st1)" "list_all2 noted bs (is_block st1)" "is_current st1 = None \<longrightarrow> bs = []"
    by (rule coversE)
  obtain l1 fx1 where t: "comment_token ds l = (l1, fx1)" by (cases "comment_token ds l")
  obtain l2 fx2 where h: "comment_hwaddress level l1 = (l2, fx2)" by (cases "comment_hwaddress level l1")
  have n: "noted l l1" "noted l l2" using token_noted [OF t] hwaddress_noted [OF h] by (auto simp: noted_def)
  show ?thesis
  proof (cases "is_current st1")
    case None
    then have "iface_step level ds l st = st1\<lparr>is_new := is_new st1 @ [l1], is_fixes := is_fixes st1 @ fx1\<rparr>" using False t by (simp add: iface_step_def st1_def Let_def)
    with c None n(1) show ?thesis unfolding accounts_for_def by (intro exI [of _ "ls @ [l]"] exI [of _ "[]"]) (auto intro!: list_all2_appendI noted_fate)
  next
    case (Some name)
    then have "iface_step level ds l st = st1\<lparr>is_block := is_block st1 @ [l2], is_fixes := is_fixes st1 @ fx1 @ fx2\<rparr>" using False t h by (simp add: iface_step_def st1_def Let_def)
    with c Some n(2) show ?thesis unfolding accounts_for_def by (intro exI [of _ done_ls] exI [of _ "bs @ [l]"]) (auto intro!: list_all2_appendI)
  qed
qed



section \<open>A stanza without method\<close>

definition same_but_block :: "iface_state \<Rightarrow> iface_state \<Rightarrow> bool" where
  "same_but_block a b = (a = b \<or> is_current a = None \<and> is_current b = None \<and> is_new a = is_new b \<and> is_fixes a = is_fixes b)"

lemma flush_same: "same_but_block a b \<Longrightarrow> flush_block level a = flush_block level b"
  by (cases a; cases b) (auto simp: same_but_block_def flush_block_def)

lemma step_same: "same_but_block a b \<Longrightarrow> same_but_block (iface_step level ds l a) (iface_step level ds l b)"
  using flush_same [of a b level] by (auto simp: same_but_block_def iface_step_def Let_def split: prod.splits)

text \<open>
  A stanza that only names its interface, \<^verbatim>\<open>iface eth0\<close> as ifupdown2 writes it, disappears: the fixed file is that of the
  rest of the lines, as if the stanza's first line had not been there.
\<close>
theorem short_stanza_is_lost:
  assumes "iface_line l" and "length (py_split l) < 4"
  shows "fix_interfaces_lines level ds (l # ls) = fix_interfaces_lines level ds ls"
proof -
  let ?s = "\<lparr>is_new = [], is_block = [], is_current = None, is_fixes = []\<rparr> :: iface_state"
  have "same_but_block (fold (iface_step level ds) ls a) (fold (iface_step level ds) ls b)" if "same_but_block a b" for a b
    using that by (induction ls arbitrary: a b) (simp_all add: step_same)
  moreover have "same_but_block (iface_step level ds l ?s) ?s" using assms by (simp add: same_but_block_def iface_step_def flush_block_def)
  ultimately show ?thesis using flush_same by (simp add: fix_interfaces_lines_def)
qed

theorem short_stanza_is_lost_witness:
  "fix_interfaces_lines MODERATE VMWARE_DRIVERS [''iface eth0'', '' address 10.0.0.1''] = fix_interfaces_lines MODERATE VMWARE_DRIVERS ['' address 10.0.0.1'']"
proof -
  have "iface_line ''iface eth0''" "length (py_split ''iface eth0'') < 4" by code_simp+
  then show ?thesis by (rule short_stanza_is_lost)
qed

end
