(* ===== verification/Net_Fix_Ini.thy ===== *)
theory Net_Fix_Ini
  imports Net_Fix_Ifcfg
begin

text \<open>
  \<^verbatim>\<open>h2kvm/fixers/network/backend.py\<close>, the fixers of systemd-networkd files and NetworkManager profiles, which read their file line by
  line and keep the section they are in.
\<close>

section \<open>Replacement templates\<close>

text \<open>
  \<^verbatim>\<open>re.sub\<close> reads the replacement as a template: a backslash begins a group reference, an octal code or an escape. The pattern here has
  one group; \<open>g0\<close> is the whole match and \<open>g1\<close> the group.
\<close>

datatype re_error = PatternError | UnknownGroup

definition octal :: "char \<Rightarrow> bool" where
  "octal c = (c \<in> set ''01234567'')"

definition octal_value :: "string \<Rightarrow> nat" where
  "octal_value s = foldl (\<lambda>n c. 8 * n + digit_value c) 0 s"

definition group_text :: "string \<Rightarrow> string \<Rightarrow> nat \<Rightarrow> re_error + string" where
  "group_text g0 g1 n = (if n = 0 then Inr g0 else if n = 1 then Inr g1 else Inl PatternError)"

definition named_group :: "string \<Rightarrow> string \<Rightarrow> string \<Rightarrow> re_error + string" where
  "named_group g0 g1 n = (if all_digits n then group_text g0 g1 (digits_value n)
     else if n \<noteq> [] \<and> list_all py_isword n \<and> \<not> py_isdigit (hd n) then Inl UnknownGroup else Inl PatternError)"

definition plain_escape :: "char \<Rightarrow> re_error + string" where
  "plain_escape c = (case map_of [(CHR ''a'', 7), (CHR ''b'', 8), (CHR ''f'', 12), (CHR ''n'', 10), (CHR ''r'', 13), (CHR ''t'', 9), (CHR ''v'', 11), (CHR 0x5C, 92)] c of
      Some n \<Rightarrow> Inr [char_of (n :: nat)]
    | None \<Rightarrow> if py_isword c \<and> \<not> py_isdigit c \<and> c \<noteq> CHR ''_'' then Inl PatternError else Inr [CHR 0x5C, c])"

text \<open>The digits of a reference or code that begins with a digit.\<close>

definition code_digits :: "string \<Rightarrow> nat" where
  "code_digits s = (case s of
      CHR ''0'' # d # e # _ \<Rightarrow> if octal d then if octal e then 3 else 2 else 1
    | CHR ''0'' # [d] \<Rightarrow> if octal d then 2 else 1
    | c # d # e # _ \<Rightarrow> if py_isdigit d then if octal c \<and> octal d \<and> octal e then 3 else 2 else 1
    | _ # [d] \<Rightarrow> if py_isdigit d then 2 else 1
    | _ \<Rightarrow> 1)"

definition digit_escape :: "string \<Rightarrow> string \<Rightarrow> string \<Rightarrow> re_error + string" where
  "digit_escape g0 g1 code = (if hd code = CHR ''0'' then Inr [char_of (octal_value code)]
     else if length code = 3 then if octal_value code > 255 then Inl PatternError else Inr [char_of (octal_value code)]
     else group_text g0 g1 (digits_value code))"

definition glue :: "re_error + string \<Rightarrow> re_error + string \<Rightarrow> re_error + string" where
  "glue a b = (case a of Inl e \<Rightarrow> Inl e | Inr x \<Rightarrow> (case b of Inl e \<Rightarrow> Inl e | Inr y \<Rightarrow> Inr (x @ y)))"

function expand_template :: "string \<Rightarrow> string \<Rightarrow> string \<Rightarrow> re_error + string" where
  "expand_template g0 g1 [] = Inr []"
| "expand_template g0 g1 (c # cs) =
     (if c \<noteq> CHR 0x5C then glue (Inr [c]) (expand_template g0 g1 cs)
      else (case cs of
          [] \<Rightarrow> Inl PatternError
        | d # ds \<Rightarrow>
            if d = CHR ''g'' then
              (case ds of
                 CHR ''<'' # es \<Rightarrow> (case split_once ''>'' es of
                     Some (n, r) \<Rightarrow> glue (named_group g0 g1 n) (expand_template g0 g1 r)
                   | None \<Rightarrow> Inl PatternError)
               | _ \<Rightarrow> Inl PatternError)
            else if py_isdigit d then glue (digit_escape g0 g1 (take (code_digits cs) cs)) (expand_template g0 g1 (drop (code_digits cs) cs))
            else glue (plain_escape d) (expand_template g0 g1 ds)))"
  by pat_completeness auto
termination
  by (relation "measure (\<lambda>(_, _, t). length t)") (auto dest!: split_once_Some)

section \<open>systemd-networkd\<close>

record networkd_state =
  nd_section :: "string option"
  nd_lines :: "string list"
  nd_fixes :: "string list"
  nd_network :: bool
  nd_dhcp :: bool
  nd_static :: bool

text \<open>\<^verbatim>\<open>=\s*(yes|true|ipv4|ipv6|both)\b\<close> anywhere, without regard to case.\<close>

definition dhcp_word :: "string \<Rightarrow> bool" where
  "dhcp_word s = list_ex (\<lambda>w. startswith s w \<and> (case drop (length w) s of [] \<Rightarrow> True | c # _ \<Rightarrow> \<not> py_isword c)) [''yes'', ''true'', ''ipv4'', ''ipv6'', ''both'']"

fun dhcp_value :: "string \<Rightarrow> bool" where
  "dhcp_value [] = False"
| "dhcp_value (c # cs) = (c = CHR ''='' \<and> dhcp_word (py_lower (lstrip cs)) \<or> dhcp_value cs)"

definition is_static_key :: "string \<Rightarrow> bool" where
  "is_static_key l = list_ex (\<lambda>k. after_key k l \<noteq> None) [''address'', ''gateway'', ''dns'', ''domains'', ''route'', ''routes'', ''routingpolicyrule'']"

definition match_part :: "FixLevel \<Rightarrow> (string, string) dict \<Rightarrow> string \<Rightarrow> string" where
  "match_part level rm p = (if \<not> no_wildcard p then p
     else if level = AGGRESSIVE \<and> dict_has rm p then mapped rm p
     else if vmware_name p then ''en*'' else p)"

definition part_changes :: "FixLevel \<Rightarrow> (string, string) dict \<Rightarrow> string \<Rightarrow> bool" where
  "part_changes level rm p = (no_wildcard p \<and> (level = AGGRESSIVE \<and> dict_has rm p \<or> vmware_name p))"

text \<open>\<^verbatim>\<open>re.split\<close> of an empty text gives one empty part.\<close>

definition name_parts :: "string \<Rightarrow> string list" where
  "name_parts v = (if strip v = [] then [[]] else py_split v)"

definition match_name_line :: "FixLevel \<Rightarrow> (string, string) dict \<Rightarrow> string \<Rightarrow> re_error + (string \<times> string list)" where
  "match_name_line level rm l = (case after_key ''name'' l of
      Some v \<Rightarrow> if v \<noteq> [] \<and> list_ex (part_changes level rm) (name_parts v)
        then (case expand_template l (take (length l - length (lstrip v)) l) (CHR 0x5C # ''1'' @ py_join '' '' (map (match_part level rm) (name_parts v))) of
            Inl e \<Rightarrow> Inl e | Inr l1 \<Rightarrow> Inr (l1, [''replaced-networkd-vmware-match-name'']))
        else Inr (l, [])
    | None \<Rightarrow> Inr (l, []))"

definition network_line :: "string \<Rightarrow> networkd_state \<Rightarrow> networkd_state" where
  "network_line l st = (let dhcp = (nd_section st = Some ''network'' \<and> after_key ''dhcp'' l \<noteq> None); l1 = (if dhcp \<and> \<not> dhcp_value l then ''DHCP=yes'' else l)
     in st\<lparr>nd_lines := nd_lines st @ [l1], nd_fixes := nd_fixes st @ (if dhcp \<and> \<not> dhcp_value l then [''normalized-dhcp''] else []),
        nd_dhcp := nd_dhcp st \<or> dhcp, nd_static := nd_static st \<or> nd_section st = Some ''network'' \<and> is_static_key l1\<rparr>)"

definition networkd_step :: "FixLevel \<Rightarrow> drivers \<Rightarrow> (string, string) dict \<Rightarrow> string \<Rightarrow> networkd_state \<Rightarrow> re_error + networkd_state" where
  "networkd_step level ds rm l st = (case section_header l of
      Some h \<Rightarrow> Inr (st\<lparr>nd_section := Some h, nd_lines := nd_lines st @ [l], nd_network := nd_network st \<or> h = ''network''\<rparr>)
    | None \<Rightarrow>
        if nd_section st = Some ''match'' \<and> moderate level \<and> after_key ''macaddress'' l \<noteq> None
        then Inr (st\<lparr>nd_lines := nd_lines st @ [commented l ''MAC pinning removed by h2kvm''], nd_fixes := nd_fixes st @ [''removed-mac-match'']\<rparr>)
        else (case (if nd_section st = Some ''match'' \<and> moderate level then match_name_line level rm l else Inr (l, [])) of
            Inl e \<Rightarrow> Inl e
          | Inr (l1, fx) \<Rightarrow>
              (case (if is_comment l1 then None else find_driver ds l1) of
                 Some d \<Rightarrow> Inr (st\<lparr>nd_lines := nd_lines st @ [commented l1 ''VMware token removed by h2kvm''], nd_fixes := nd_fixes st @ fx @ [''removed-vmware-token-'' @ d]\<rparr>)
               | None \<Rightarrow> Inr (network_line l1 (st\<lparr>nd_fixes := nd_fixes st @ fx\<rparr>)))))"

fun networkd_lines :: "FixLevel \<Rightarrow> drivers \<Rightarrow> (string, string) dict \<Rightarrow> string list \<Rightarrow> networkd_state \<Rightarrow> re_error + networkd_state" where
  "networkd_lines level ds rm [] st = Inr st"
| "networkd_lines level ds rm (l # ls) st = (case networkd_step level ds rm l st of Inl e \<Rightarrow> Inl e | Inr st1 \<Rightarrow> networkd_lines level ds rm ls st1)"

fun insert_dhcp :: "string list \<Rightarrow> string list" where
  "insert_dhcp [] = []"
| "insert_dhcp (l # ls) = (if py_lower (strip l) = ''[network]'' then l # ''DHCP=yes'' # ls else l # insert_dhcp ls)"

definition has_network_header :: "string list \<Rightarrow> bool" where
  "has_network_header ls = list_ex (\<lambda>l. py_lower (strip l) = ''[network]'') ls"

definition networkd_result :: "FixLevel \<Rightarrow> networkd_state \<Rightarrow> fix_result" where
  "networkd_result level st =
     (let needs = (nd_network st \<and> \<not> nd_dhcp st \<and> \<not> nd_static st \<and> (level = AGGRESSIVE \<or> list_ex (contains ''removed-mac-match'') (nd_fixes st)))
      in \<lparr>fr_content = py_join [CHR 0x0A] (if needs then insert_dhcp (nd_lines st) else nd_lines st),
          fr_fixes = nd_fixes st @ (if needs \<and> has_network_header (nd_lines st) then [''added-dhcp''] else []), fr_errors = [], fr_warnings = []\<rparr>)"

definition fix_systemd_network :: "FixLevel \<Rightarrow> drivers \<Rightarrow> net_config \<Rightarrow> (string, string) dict \<Rightarrow> re_error + fix_result" where
  "fix_systemd_network level ds cfg rm =
     (case networkd_lines level ds rm (split_on (CHR 0x0A) (nc_content cfg))
             \<lparr>nd_section = None, nd_lines = [], nd_fixes = [], nd_network = False, nd_dhcp = False, nd_static = False\<rparr> of
        Inl e \<Rightarrow> Inl e
      | Inr st \<Rightarrow> Inr (networkd_result level st))"

section \<open>NetworkManager\<close>

definition mac_line :: "string \<Rightarrow> bool" where
  "mac_line l = list_ex (\<lambda>k. after_key k l \<noteq> None) [''mac-address'', ''cloned-mac-address'', ''mac-address-blacklist'']"

definition type_line :: "string \<Rightarrow> string option" where
  "type_line l = (case after_key ''type'' l of Some v \<Rightarrow> (case py_split v of w # _ \<Rightarrow> Some (py_lower w) | [] \<Rightarrow> None) | None \<Rightarrow> None)"

definition connection_type :: "string list \<Rightarrow> string" where
  "connection_type ls = (case List.map_filter type_line ls of t # _ \<Rightarrow> t | [] \<Rightarrow> [])"

definition has_vmware_token :: "drivers \<Rightarrow> string \<Rightarrow> bool" where
  "has_vmware_token ds v = (find_driver ds v \<noteq> None \<or> search_word ''vmware'' False (py_lower v))"

definition rename_line :: "FixLevel \<Rightarrow> (string, string) dict \<Rightarrow> string \<Rightarrow> string \<Rightarrow> string \<Rightarrow> string \<times> string list" where
  "rename_line level rm key fix_name l = (case ini_value key l of
      Some cur \<Rightarrow> if level = AGGRESSIVE \<and> dict_has rm cur then (key @ ''='' @ mapped rm cur, [fix_name]) else (l, [])
    | None \<Rightarrow> (l, []))"

text \<open>What becomes of one line that is not a header.\<close>

definition nm_line :: "FixLevel \<Rightarrow> drivers \<Rightarrow> (string, string) dict \<Rightarrow> bool \<Rightarrow> string option \<Rightarrow> string \<Rightarrow> string \<times> string list" where
  "nm_line level ds rm ethernet sec l =
     (if moderate level \<and> mac_line l then (commented l ''MAC pinning removed by h2kvm'', [''removed-nm-mac''])
      else if moderate level \<and> sec = Some ''connection'' \<and> ethernet \<and> after_key ''uuid'' l \<noteq> None then (commented l ''stale UUID removed by h2kvm'', [''removed-nm-uuid''])
      else if moderate level \<and> map_option (\<lambda>v. py_lower (strip v)) (after_key ''autoconnect'' l) = Some ''false'' then (''autoconnect=true'', [''enabled-nm-autoconnect''])
      else (case rename_line level rm ''interface-name'' ''renamed-nm-interface-name'' l of (l1, fx1) \<Rightarrow>
        if moderate level \<and> fx1 = [] \<and> (case ini_value ''interface-name'' l of Some cur \<Rightarrow> vmware_name cur | None \<Rightarrow> False)
        then (commented l ''VMware interface-name removed by h2kvm'', [''removed-nm-vmware-interface-name''])
        else (case (if sec = Some ''vlan'' then rename_line level rm ''parent'' ''renamed-nm-vlan-parent'' l1 else (l1, [])) of (l2, fx2) \<Rightarrow>
          if \<not> is_comment l2 \<and> (case ini_value ''driver'' l2 of Some v \<Rightarrow> has_vmware_token ds v | None \<Rightarrow> False)
          then (commented l2 ''VMware driver hint removed by h2kvm'', fx1 @ fx2 @ [''removed-nm-driver-hint'']) else (l2, fx1 @ fx2))))"

fun nm_lines :: "FixLevel \<Rightarrow> drivers \<Rightarrow> (string, string) dict \<Rightarrow> bool \<Rightarrow> string option \<Rightarrow> string list \<Rightarrow> (string \<times> string list) list" where
  "nm_lines level ds rm ethernet sec [] = []"
| "nm_lines level ds rm ethernet sec (l # ls) = (case section_header l of
      Some h \<Rightarrow> (l, []) # nm_lines level ds rm ethernet (Some h) ls
    | None \<Rightarrow> nm_line level ds rm ethernet sec l # nm_lines level ds rm ethernet sec ls)"

definition fix_network_manager :: "FixLevel \<Rightarrow> drivers \<Rightarrow> net_config \<Rightarrow> (string, string) dict \<Rightarrow> fix_result" where
  "fix_network_manager level ds cfg rm =
     (let ls = split_on (CHR 0x0A) (nc_content cfg);
          out = nm_lines level ds rm (connection_type ls \<in> {''ethernet'', ''802-3-ethernet'', []}) None ls
      in \<lparr>fr_content = py_join [CHR 0x0A] (map fst out), fr_fixes = concat (map snd out), fr_errors = [], fr_warnings = []\<rparr>)"

section \<open>What the fixers leave\<close>

lemma split_on_append: "sep \<notin> set w \<Longrightarrow> split_on sep (w @ sep # r) = w # split_on sep r"
  by (induction w) auto

lemma split_on_single: "sep \<notin> set w \<Longrightarrow> split_on sep w = [w]"
  by (induction w) auto

lemma split_on_join: "list_all (\<lambda>w. sep \<notin> set w) ws \<Longrightarrow> ws \<noteq> [] \<Longrightarrow> split_on sep (py_join [sep] ws) = ws"
proof (induction ws)
  case (Cons w ws)
  then show ?case by (cases ws) (simp_all add: split_on_single split_on_append)
qed simp

definition one_line :: "string \<Rightarrow> bool" where
  "one_line s = (CHR 0x0A \<notin> set s)"

lemma other_first_char:
  assumes "lstrip l = c # cs" and "py_lower [c] \<noteq> [hd k]" and "k \<noteq> []"
  shows "after_key k l = None"
  using assms by (cases k) (auto simp: after_key_def Let_def py_lower_def)

lemma commented_lstrip: "lstrip (commented l tag) = commented l tag"
  by (simp add: commented_def lstrip_def py_isspace_def ws_chars_def)

lemma first_char_no_mac:
  assumes "lstrip l = c # cs" and "c \<in> {CHR ''#'', CHR ''['', CHR ''i'', CHR ''p'', CHR ''a''}"
  shows "\<not> mac_line l"
proof -
  have "lower_char CHR ''#'' = CHR ''#''" "lower_char CHR ''['' = CHR ''[''" "lower_char CHR ''i'' = CHR ''i''" "lower_char CHR ''p'' = CHR ''p''"
    "lower_char CHR ''a'' = CHR ''a''" by code_simp+
  then have "py_lower [c] \<noteq> ''m''" "py_lower [c] \<noteq> ''c''" using assms(2) by (auto simp: py_lower_def)
  then show ?thesis by (simp add: mac_line_def other_first_char [OF assms(1)])
qed

lemma commented_no_mac: "\<not> mac_line (commented l tag)"
proof (rule first_char_no_mac)
  show "lstrip (commented l tag) = CHR ''#'' # tl (commented l tag)" by (simp add: commented_lstrip) (simp add: commented_def)
qed simp

lemma rstrip_prefix: "prefix (rstrip s) s"
  using suffix_dropWhile [of py_isspace "rev s"] by (simp add: rstrip_def suffix_to_prefix)

lemma header_no_mac: "section_header l \<noteq> None \<Longrightarrow> \<not> mac_line l"
proof -
  assume "section_header l \<noteq> None"
  then have "startswith (strip l) ''[''" by (auto simp: section_header_def Let_def split: if_splits)
  then have "prefix ''['' (lstrip l)" using prefix_order.trans [OF _ rstrip_prefix] by (auto simp: startswith_def strip_def)
  then obtain cs where "lstrip l = CHR ''['' # cs" by (auto simp: prefix_def)
  then show ?thesis by (rule first_char_no_mac) simp
qed

definition renamed_line :: "(string, string) dict \<Rightarrow> string \<Rightarrow> bool" where
  "renamed_line rm l = (\<exists>key cur. key \<in> {''interface-name'', ''parent''} \<and> dict_has rm cur \<and> l = key @ ''='' @ mapped rm cur)"

lemma renamed_no_mac: "renamed_line rm l \<Longrightarrow> \<not> mac_line l"
proof -
  assume "renamed_line rm l"
  then obtain key cur where l: "key \<in> {''interface-name'', ''parent''}" "l = key @ ''='' @ mapped rm cur" unfolding renamed_line_def by blast
  then obtain c cs where "l = c # cs" "c \<in> {CHR ''i'', CHR ''p''}" by auto
  then show ?thesis using first_char_no_mac [of l c cs] by (auto simp: lstrip_def py_isspace_def ws_chars_def)
qed

lemma autoconnect_no_mac: "\<not> mac_line ''autoconnect=true''"
  by (rule first_char_no_mac [of _ "CHR ''a''" "''utoconnect=true''"]) (simp_all add: lstrip_def py_isspace_def ws_chars_def)

lemma rename_line_cases: "key \<in> {''interface-name'', ''parent''} \<Longrightarrow> rename_line level rm key n l = (l', fx) \<Longrightarrow> l' = l \<or> renamed_line rm l'"
  unfolding rename_line_def renamed_line_def by (auto split: option.splits if_splits)

text \<open>A line other than a header stays, is commented out or is written anew; with MAC pinning it is commented out.\<close>

definition line_becomes :: "(string, string) dict \<Rightarrow> string \<Rightarrow> string \<Rightarrow> bool" where
  "line_becomes rm l x = (x = l \<or> x = ''autoconnect=true'' \<or> renamed_line rm x
     \<or> (\<exists>l' tag. x = commented l' tag \<and> one_line tag \<and> (l' = l \<or> renamed_line rm l')))"

lemma line_becomesI: "l' = l \<or> renamed_line rm l' \<Longrightarrow> line_becomes rm l l'"
  "l' = l \<or> renamed_line rm l' \<Longrightarrow> one_line tag \<Longrightarrow> line_becomes rm l (commented l' tag)"
  by (auto simp: line_becomes_def)

lemma either: "P a \<Longrightarrow> P b \<Longrightarrow> P (if c then a else b)"
  by simp

lemma nm_line_becomes: "line_becomes rm l (fst (nm_line level ds rm e sec l))"
proof -
  obtain l1 fx1 where 1: "rename_line level rm ''interface-name'' ''renamed-nm-interface-name'' l = (l1, fx1)" by (cases "rename_line level rm ''interface-name'' ''renamed-nm-interface-name'' l")
  obtain l2 fx2 where 2: "(if sec = Some ''vlan'' then rename_line level rm ''parent'' ''renamed-nm-vlan-parent'' l1 else (l1, [])) = (l2, fx2)"
    by (cases "if sec = Some ''vlan'' then rename_line level rm ''parent'' ''renamed-nm-vlan-parent'' l1 else (l1, [])")
  have "l1 = l \<or> renamed_line rm l1" using rename_line_cases [OF _ 1] by simp
  moreover have "l2 = l1 \<or> renamed_line rm l2" using rename_line_cases [of "''parent''" level rm "''renamed-nm-vlan-parent''" l1 l2 fx2] 2 by (simp split: if_splits)
  ultimately have l2: "l2 = l \<or> renamed_line rm l2" by blast
  have auto_on: "line_becomes rm l ''autoconnect=true''" by (simp only: line_becomes_def simp_thms)
  have out: "line_becomes rm l (fst (l', fx))" if "line_becomes rm l l'" for l' fx using that by simp
  have tag: "one_line ''MAC pinning removed by h2kvm''" "one_line ''stale UUID removed by h2kvm''" "one_line ''VMware interface-name removed by h2kvm''"
    "one_line ''VMware driver hint removed by h2kvm''" by (simp_all add: one_line_def)
  have here: "l = l \<or> renamed_line rm l" by simp
  show ?thesis
    unfolding nm_line_def 1 prod.case 2
    by (intro either [of "\<lambda>x. line_becomes rm l (fst x)"] out auto_on line_becomesI(1) [OF l2] line_becomesI(2) [OF l2] line_becomesI(2) [OF here] tag)
qed

lemma nm_line_no_mac: "moderate level \<Longrightarrow> \<not> mac_line (fst (nm_line level ds rm e sec l))"
proof (cases "mac_line l")
  case True
  assume "moderate level"
  with True have "fst (nm_line level ds rm e sec l) = commented l ''MAC pinning removed by h2kvm''" by (simp add: nm_line_def)
  then show ?thesis by (simp add: commented_no_mac)
next
  case False
  then show ?thesis using nm_line_becomes [of rm l level ds e sec] commented_no_mac renamed_no_mac autoconnect_no_mac unfolding line_becomes_def by metis
qed

lemma nm_lines_no_mac: "moderate level \<Longrightarrow> x \<in> set (nm_lines level ds rm e sec ls) \<Longrightarrow> \<not> mac_line (fst x)"
  by (induction ls arbitrary: sec) (auto simp: header_no_mac split: option.splits dest: nm_line_no_mac)

lemma nm_lines_length: "length (nm_lines level ds rm e sec ls) = length ls"
  by (induction ls arbitrary: sec) (auto split: option.splits)

lemma becomes_one_line: "line_becomes rm l x \<Longrightarrow> one_line l \<Longrightarrow> list_all one_line (dict_values rm) \<Longrightarrow> one_line x"
proof -
  assume a: "line_becomes rm l x" "one_line l" "list_all one_line (dict_values rm)"
  have v: "one_line (mapped rm cur)" if "dict_has rm cur" for cur
    using a(3) that by (auto simp: mapped_def dict_has_def dict_values_def list_all_iff [of one_line] map_of_eq_None_iff split: option.splits dest!: map_of_SomeD)
  have r: "one_line y" if "renamed_line rm y" for y
    using that v unfolding renamed_line_def by (auto simp: one_line_def)
  have "one_line (commented y tag)" if "one_line y" "one_line tag" for y tag using that by (simp add: one_line_def commented_def)
  then show ?thesis using a(1,2) r unfolding line_becomes_def by (auto simp: one_line_def)
qed

lemma nm_lines_one_line: "list_all one_line (dict_values rm) \<Longrightarrow> list_all one_line ls \<Longrightarrow> list_all one_line (map fst (nm_lines level ds rm e sec ls))"
  by (induction ls arbitrary: sec) (auto split: option.splits intro: becomes_one_line [OF nm_line_becomes])

text \<open>
  C37 (safety). At the moderate and the aggressive level the profile that NetworkManager gets has as many lines as it had, and none of them
  pins a hardware address.
\<close>
theorem nm_profile_pins_no_address:
  assumes "moderate level" and "list_all one_line (dict_values rm)"
  shows "list_all (\<lambda>l. \<not> mac_line l) (split_on (CHR 0x0A) (fr_content (fix_network_manager level ds cfg rm))) \<and>
    length (split_on (CHR 0x0A) (fr_content (fix_network_manager level ds cfg rm))) = length (split_on (CHR 0x0A) (nc_content cfg))"
proof -
  let ?ls = "split_on (CHR 0x0A) (nc_content cfg)"
  let ?out = "nm_lines level ds rm (connection_type ?ls \<in> {''ethernet'', ''802-3-ethernet'', []}) None ?ls"
  have "list_all one_line ?ls" by (auto simp: list_all_iff one_line_def dest: split_on_no_sep)
  from nm_lines_one_line [OF assms(2) this] have "list_all (\<lambda>w. CHR 0x0A \<notin> set w) (map fst ?out)" by (simp add: one_line_def [abs_def])
  moreover have "map fst ?out \<noteq> []" using nm_lines_length [of level ds rm _ None ?ls] split_on_nonempty [of "CHR 0x0A" "nc_content cfg"] by (metis length_map length_0_conv)
  ultimately have "split_on (CHR 0x0A) (fr_content (fix_network_manager level ds cfg rm)) = map fst ?out"
    by (simp add: fix_network_manager_def Let_def split_on_join)
  then show ?thesis using nm_lines_no_mac [OF assms(1)] by (auto simp: list_all_iff nm_lines_length)
qed

definition example_profile :: string where
  "example_profile = py_join [CHR 0x0A] [''[connection]'', ''uuid=1'', ''[ethernet]'', ''mac-address=aa'']"

theorem nm_profile_pins_no_address_witness:
  "list_all (\<lambda>l. \<not> mac_line l) (split_on (CHR 0x0A) (fr_content (fix_network_manager MODERATE VMWARE_DRIVERS \<lparr>nc_path = ''/a'', nc_content = example_profile, nc_type = NETWORK_MANAGER\<rparr> []))) \<and>
   list_ex mac_line (split_on (CHR 0x0A) example_profile)"
proof
  show "list_ex mac_line (split_on (CHR 0x0A) example_profile)" by code_simp
qed (use nm_profile_pins_no_address [of MODERATE "[]" VMWARE_DRIVERS "\<lparr>nc_path = ''/a'', nc_content = example_profile, nc_type = NETWORK_MANAGER\<rparr>"] in \<open>simp add: moderate_def dict_values_def\<close>)

text \<open>
  Only the section of the network is searched for a static address: a file whose address stands in a section of its own gets DHCP once
  its match on a hardware address is gone.
\<close>

lemma address_section_gets_dhcp:
  "map_sum id fr_fixes (fix_systemd_network MODERATE [] \<lparr>nc_path = ''/a'', nc_content = py_join [CHR 0x0A] [''[Match]'', ''MACAddress=aa'', ''[Network]'', ''[Address]'', ''Address=10.0.0.2/8''],
     nc_type = SYSTEMD_NETWORK\<rparr> []) = Inr [''removed-mac-match'', ''added-dhcp'']"
  by code_simp

text \<open>
  The names are put behind a group reference: a first name that begins with a digit changes the reference, and the fixer raises or replaces the key.
\<close>

lemma digit_extends_reference:
  "fix_systemd_network MODERATE [] \<lparr>nc_path = ''/a'', nc_content = py_join [CHR 0x0A] [''[Match]'', ''Name=3com0 ens192''], nc_type = SYSTEMD_NETWORK\<rparr> [] = Inl PatternError"
  "map_sum id fr_content (fix_systemd_network MODERATE [] \<lparr>nc_path = ''/a'', nc_content = py_join [CHR 0x0A] [''[Match]'', ''Name=00lan ens192''], nc_type = SYSTEMD_NETWORK\<rparr> [])
     = Inr (py_join [CHR 0x0A] [''[Match]'', ''@lan en*''])"
  by code_simp+

end
