(* ===== verification/Spec2Isabelle.thy ===== *)
theory Spec2Isabelle
  imports Hive_Services Job_Scheduler Circuit_Breaker Retry Rollback_Orchestrator Batch_Pool
    Daemon_Dedup Hook_Runner Disk_Recovery Manifest_Pipeline Fstab_Stabilizer Guest_Settings Worker_Engine Worker_Events Config_Validation Net_Fix_Files Net_Fix_Ini
begin

text \<open>
  A verification library for h2kvm, a Python program that migrates virtual machines to KVM
  (\<^verbatim>\<open>src/h2kvm\<close>).

  \<^bold>\<open>The parts and how they interact.\<close> A migration is a job. The worker runtime
  (\<^verbatim>\<open>runtime/worker\<close>) queues jobs by priority, matches them with workers by capability and
  follows each job through a state machine whose states survive a restart in files. A batch
  (\<^verbatim>\<open>orchestration/manifest\<close>) converts many machines, in sequence or in a pool of threads; a
  checkpoint file lets an interrupted batch resume and a progress file shows it to monitors. Before it
  changes an image, a migration takes snapshots and records its steps
  (\<^verbatim>\<open>infrastructure/rollback\<close>), so that it can be rolled back. Calls to remote services go
  through retries and circuit breakers (\<^verbatim>\<open>core\<close>). The daemon (\<^verbatim>\<open>runtime/daemon\<close>) keeps
  a table of the files it processed, and hooks (\<^verbatim>\<open>infrastructure/hooks\<close>) are texts in which
  variables are substituted.

  \<^bold>\<open>Which theory models what.\<close>
  \<^item> \<^verbatim>\<open>H2K_Prelude\<close>: Python values (ordered dictionaries, JSON documents, strings, paths) and
    the shape of calls: \<open>error + value\<close>, paired with the new state when the call changes state.
  \<^item> \<^verbatim>\<open>Job_Schemas\<close> (\<^verbatim>\<open>runtime/worker/schemas.py\<close>): the data of the worker protocol
    and its declared bounds.
  \<^item> \<^verbatim>\<open>Job_State_Machine\<close> (\<^verbatim>\<open>runtime/worker/state_machine.py\<close>): JobStateMachine is the
    record \<open>job_sm\<close>, JobRegistry the record \<open>job_registry\<close> with its directory. Histories are valid
    paths, finished jobs passed every stage, terminal states absorb, documents round-trip, updates are
    durable, the clean-up removes exactly old terminal jobs.
  \<^item> \<^verbatim>\<open>Job_Scheduler\<close> (\<^verbatim>\<open>runtime/worker/scheduler.py\<close>): the queues by priority with
    their files, the registry of workers and the scheduler. Order of service, best match for a worker,
    equality of memory and disk after a restart, safety of assignments.
  \<^item> \<^verbatim>\<open>Circuit_Breaker\<close>, \<^verbatim>\<open>Retry\<close> (\<^verbatim>\<open>core/circuit_breaker.py\<close>,
    \<^verbatim>\<open>core/retry.py\<close>, \<^verbatim>\<open>core/retry_decorator.py\<close>, \<^verbatim>\<open>core/retry_enhanced.py\<close>):
    the breaker's state machine with its front ends; the retry loops, which stop at the first final
    outcome and agree with each other.
  \<^item> \<^verbatim>\<open>Rollback_State\<close>, \<^verbatim>\<open>Rollback_Snapshots\<close>, \<^verbatim>\<open>Rollback_Executor\<close>,
    \<^verbatim>\<open>Rollback_Orchestrator\<close> (\<^verbatim>\<open>infrastructure/rollback\<close>): the tracker of
    checkpoints, snapshots of images over a store of files, the log of actions and validations, and the
    two rollback strategies.
  \<^item> \<^verbatim>\<open>Atomic_File\<close>, \<^verbatim>\<open>Batch_Checkpoint\<close>, \<^verbatim>\<open>Batch_Progress\<close>
    (\<^verbatim>\<open>checkpoint_manager.py\<close>, \<^verbatim>\<open>batch_progress.py\<close>): replacement of a file by way of a
    temporary one as a trace of directory states, and the two files written that way.
  \<^item> \<^verbatim>\<open>Batch_Loader\<close>, \<^verbatim>\<open>Batch_Reporter\<close>, \<^verbatim>\<open>Batch_Orchestrator\<close>,
    \<^verbatim>\<open>Batch_Resume\<close>, \<^verbatim>\<open>Batch_Pool\<close> (\<^verbatim>\<open>batch_loader.py\<close>,
    \<^verbatim>\<open>batch_reporter.py\<close>, \<^verbatim>\<open>batch_orchestrator.py\<close>): validation and order of a batch, its
    report, the merging of configurations, the processing in sequence under interruptions, and the pool
    as interleavings of events.
  \<^item> \<^verbatim>\<open>Daemon_Dedup\<close> (\<^verbatim>\<open>runtime/daemon/deduplicator.py\<close>): the table of processed
    files refines a map.
  \<^item> \<^verbatim>\<open>Hook_Template\<close> (\<^verbatim>\<open>infrastructure/hooks/template_engine.py\<close>,
    \<^verbatim>\<open>core/list_utils.py\<close>): substitution and removal of duplicates.
  \<^item> \<^verbatim>\<open>Recovery_Manager\<close>, \<^verbatim>\<open>Disk_Recovery\<close> (\<^verbatim>\<open>core/recovery_manager.py\<close>,
    \<^verbatim>\<open>orchestration/orchestrator.py\<close>): the checkpoints of a run with their digests, the pointer to the
    latest completed one, the policy of recovery and of retention, and the orchestrator's use of them.
  \<^item> \<^verbatim>\<open>Config_Merge\<close>, \<^verbatim>\<open>Config_Loader\<close> (\<^verbatim>\<open>config/config_loader.py\<close>): the contract
    of a deep merge as a locale, met by the merge of configurations and by that of batch overrides; the
    loading, normalisation and fan-out of configurations and their use as defaults.
  \<^item> \<^verbatim>\<open>Profile_Loader\<close> (\<^verbatim>\<open>orchestration/profiles\<close>): inheritance between profiles, which always
    ends, and the cache of resolved profiles, which cannot be seen while files do not change.
  \<^item> \<^verbatim>\<open>Py_Text\<close>, \<^verbatim>\<open>Fstab_Spec\<close>, \<^verbatim>\<open>Fstab_Rewriter\<close>, \<^verbatim>\<open>Fstab_Stabilizer\<close>
    (\<^verbatim>\<open>fixers/filesystem\<close>, \<^verbatim>\<open>fixers/offline\<close>): stable device identifiers and the two rewriters of
    fstab and crypttab. Mounts are kept, rewriting twice is rewriting once, the counters add up.
  \<^item> \<^verbatim>\<open>Firmware_Resolver\<close>, \<^verbatim>\<open>Guest_Profile\<close>, \<^verbatim>\<open>Guest_Settings\<close>
    (\<^verbatim>\<open>core/firmware_resolver.py\<close>, \<^verbatim>\<open>deployers/kubevirt_guest_profile.py\<close>,
    \<^verbatim>\<open>orchestration/orchestrator.py\<close>): the choice of firmware, the identity of the guest and the document
    of the deployed machine, and the detections that settle firmware, secure boot, memory and devices
    in a fixed order. Secure boot only with UEFI, the precedence of the sources of memory, and where the
    check of the first boot goes wrong.
  \<^item> \<^verbatim>\<open>Hook_Runner\<close>, \<^verbatim>\<open>Manifest_Loader\<close>, \<^verbatim>\<open>Manifest_Pipeline\<close>
    (\<^verbatim>\<open>infrastructure/hooks\<close>, \<^verbatim>\<open>orchestration/manifest\<close>): the hooks with their retries, the loading
    and validation of a manifest with its profile, and the eight stages of its conversion. Every hook of
    a stage leaves a result and retries are bounded; loaded disks are valid and the manifest wins over its
    profile; stages are recorded in order, only the last may have failed, the report claims success
    exactly when it lists no error, and validation sees what conversion made. The processes, managers and clusters
    the pipeline drives are parameters.
  \<^item> \<^verbatim>\<open>Reg_Encoding\<close>, \<^verbatim>\<open>Reg_Hive\<close>, \<^verbatim>\<open>Hive_Transfer\<close>, \<^verbatim>\<open>System_Hive\<close>, \<^verbatim>\<open>Hive_Services\<close>
    (\<^verbatim>\<open>fixers/windows/registry\<close>): the encodings of registry values down to UTF-16 units and bytes, reading and
    writing a hive through hivex, moving hives between guest and host, and the edit that prepares the SYSTEM hive
    of a Windows guest for its new drivers. Values round-trip; after an edit that reports no error every
    driver has a service that Windows will start; what goes wrong with the documented forms of hivex and guestfs
    is shown too. The laws of hivex are hypotheses, met by a hive in memory.
  \<^item> \<^verbatim>\<open>Worker_Capabilities\<close>, \<^verbatim>\<open>Worker_Engine\<close>, \<^verbatim>\<open>Worker_Events\<close> (\<^verbatim>\<open>runtime/worker\<close>): what a
    worker detects of its host, the execution of a job through its states, and the events it reports. A test for
    partition devices always detaches the device it attached; a job always ends with a result that agrees
    with its state; events survive a restart. Where the engine misreports a rejected job, skips every offline fix or stops at 99
    percent is shown too.
  \<^item> \<^verbatim>\<open>Mapping_Config\<close>, \<^verbatim>\<open>Config_Validation\<close> (\<^verbatim>\<open>config/mapping_config.py\<close>, \<^verbatim>\<open>config/validation.py\<close>,
    \<^verbatim>\<open>orchestration/manifest/mapping_applier.py\<close>): the mappings of networks and disks, their application to the interfaces and disks of a
    machine, and the two validators of configurations, with pydantic and without. When a saved mapping loads again, which address an
    interface gets, and that the validator without pydantic accepts what the other accepts.
  \<^item> \<^verbatim>\<open>Net_Ifcfg\<close>, \<^verbatim>\<open>Net_Topology\<close>, \<^verbatim>\<open>Net_Fix_Ifcfg\<close>, \<^verbatim>\<open>Net_Fix_Files\<close>, \<^verbatim>\<open>Net_Fix_Ini\<close>
    (\<^verbatim>\<open>fixers/network\<close>): the editor of ifcfg files, which refines a map when no key is assigned twice; the graph of the network devices
    and the planned renames, which are fresh; and the fixers of ifcfg files, of \<^verbatim>\<open>/etc/network/interfaces\<close>, of
    systemd-networkd and of NetworkManager. Fixed ifcfg files and profiles pin no hardware address, and the lines of an interfaces file are kept.
    The regular expressions are written out as functions on texts.
  \<^bold>\<open>Bounds, fuel, parameters.\<close> All functions are total. Recursion that is not structural carries
  its measure; the only loops with a bound are those whose bound is in the source (the attempts of a
  retry). The following are arguments of the definitions that use them, because they are not code of
  the program: parsers and printers of JSON, YAML and XML, digests, clocks, generators of identifiers,
  qemu-img, the conversion of one machine, the resolution of paths, and the outcome of a write. What a
  theorem needs of them is a hypothesis of the theorem, and its witness instantiates it.

  \<^bold>\<open>Conventions.\<close> A call that may raise returns \<open>error + value\<close>; one that changes state returns the new
  state too, also when it raises, because Python keeps the effects that preceded the exception. Python
  integers are \<open>int\<close>, floating-point times and ratios are \<open>rat\<close> where the code compares or scales them,
  dictionaries are association lists in insertion order, directories are dictionaries from names to
  contents. Threads are sequences of events, quantified over in the theorems. Messages written to a log
  are not modelled.

  \<^bold>\<open>Not modelled.\<close> Adapters (the HTTP service, the command line, metrics, notifications), the clients of
  vSphere, AWS, Azure, Kubernetes, libvirt, ssh and systemd, and the fixers that inject drivers and scripts
  into a guest: their behaviour is that of the service they call. Of the network fixer, netplan and wicked files and the access to the
  guest are left out. Presentation (Markdown reports,
  progress bars) is left out too. The components of the manifest list every file.
\<close>

end
